(* ===== verification/Prelude.thy ===== *)
theory Prelude
  imports Main "HOL-Library.Word"
begin

text \<open>
  The vocabulary the component theories share: the values that the TypeScript code throws,
  a result type for code that can throw (\<open>js_error + 'a\<close>) with its sequencing
  operations, byte strings, and the theorem collections of the development.

  An \<open>async\<close> function of the source is modelled as the result its promise settles with:
  \<open>Inr\<close> for a fulfilled and \<open>Inl\<close> for a rejected promise.  \<open>Promise.all\<close> over
  a list of such results is \<open>seqR\<close>: it fulfils with all results in order, and rejects
  when one of them rejects (with the first one in list order, which is the one that settles
  first when none of them waits longer than another).

  Strings are lists of 8-bit characters read as Windows-1252, in which every character that
  the source's literals use has a code: the ellipsis is 0x85, the em dash 0x97 and the
  middle dot 0xB7.
\<close>

named_theorems codec_simps \<open>lengths and inverses of the byte encoders\<close>
named_theorems builder_defs \<open>definitions of the instruction builders\<close>

type_synonym bytes = "8 word list"

subsection \<open>Thrown values\<close>

text \<open>
  \<open>Error\<close> is a plain \<open>new Error(message)\<close>; the others are the error classes of the
  source and of the platform.  \<open>WalletError\<close> is an error object of a wallet: its name,
  message, \<open>code\<close> and \<open>logs\<close> properties.
\<close>

datatype js_error =
    Error string
  | RangeError string
  | ValidationError string
  | MarketNotFoundError string
  | IndexerTxError string "string list option"
  | WalletError string string "int option" "string list option"
  | SendError string "string option" "string list option" js_error

type_synonym 'a res = "js_error + 'a"

subsection \<open>Sequencing\<close>

fun bindR :: "'a res \<Rightarrow> ('a \<Rightarrow> 'b res) \<Rightarrow> 'b res" where
  "bindR (Inl e) f = Inl e"
| "bindR (Inr a) f = f a"

fun mapR :: "('a \<Rightarrow> 'b) \<Rightarrow> 'a res \<Rightarrow> 'b res" where
  "mapR f (Inl e) = Inl e"
| "mapR f (Inr a) = Inr (f a)"

fun seqR :: "'a res list \<Rightarrow> 'a list res" where
  "seqR [] = Inr []"
| "seqR (x # xs) = bindR x (\<lambda>a. mapR (Cons a) (seqR xs))"

definition okR :: "'a res \<Rightarrow> bool" where
  "okR r = (case r of Inl _ \<Rightarrow> False | Inr _ \<Rightarrow> True)"

lemma bindR_Inr_iff: "bindR x f = Inr b \<longleftrightarrow> (\<exists>a. x = Inr a \<and> f a = Inr b)"
  by (cases x) auto

lemma bindR_Inl_iff: "bindR x f = Inl e \<longleftrightarrow> x = Inl e \<or> (\<exists>a. x = Inr a \<and> f a = Inl e)"
  by (cases x) auto

lemma bindR_InrE [elim!]:
  assumes "bindR x f = Inr b"
  obtains a where "x = Inr a" "f a = Inr b"
  using assms by (auto simp: bindR_Inr_iff)

lemma mapR_Inr_iff: "mapR f x = Inr b \<longleftrightarrow> (\<exists>a. x = Inr a \<and> b = f a)"
  by (cases x) auto

lemma mapR_InrE [elim!]:
  assumes "mapR f x = Inr b"
  obtains a where "x = Inr a" "b = f a"
  using assms by (auto simp: mapR_Inr_iff)

lemma bindR_assoc: "bindR (bindR x f) g = bindR x (\<lambda>a. bindR (f a) g)"
  by (cases x) auto

lemma seqR_map_Inr [simp]: "seqR (map Inr xs) = Inr xs"
  by (induction xs) auto

lemma seqR_map_comp_Inr [simp]: "seqR (map (\<lambda>x. Inr (f x)) xs) = Inr (map f xs)"
  by (induction xs) auto

lemma seqR_Inr_iff: "seqR xs = Inr ys \<longleftrightarrow> xs = map Inr ys"
proof (induction xs arbitrary: ys)
  case Nil
  then show ?case by auto
next
  case (Cons x xs)
  then show ?case
    by (cases x; cases ys) (auto simp: mapR_Inr_iff)
qed

lemma seqR_length: "seqR xs = Inr ys \<Longrightarrow> length ys = length xs"
  by (auto simp: seqR_Inr_iff)

lemma seqR_nth: "seqR xs = Inr ys \<Longrightarrow> i < length xs \<Longrightarrow> xs ! i = Inr (ys ! i)"
  by (auto simp: seqR_Inr_iff)

lemma seqR_nth_map:
  assumes "seqR (map f xs) = Inr ys" and "i < length xs"
  shows "f (xs ! i) = Inr (ys ! i)"
  using seqR_nth [OF assms(1), of i] assms(2) by simp

lemma seqR_fails: "Inl e \<in> set xs \<Longrightarrow> \<exists>e'. seqR xs = Inl e'"
  by (cases "seqR xs") (auto simp: seqR_Inr_iff)

lemma okR_simps [simp]: "okR (Inr a)" "\<not> okR (Inl e)"
  by (simp_all add: okR_def)

lemma okR_iff: "okR r \<longleftrightarrow> (\<exists>a. r = Inr a)"
  by (cases r) simp_all

subsection \<open>Options and lists\<close>

text \<open>The operator \<open>a ?? b\<close>.\<close>

fun orElse :: "'a option \<Rightarrow> 'a \<Rightarrow> 'a" where
  "orElse None b = b"
| "orElse (Some a) b = a"

text \<open>JavaScript's \<open>Array.prototype.find\<close>: the first element that satisfies the test.\<close>

fun find_first :: "('a \<Rightarrow> bool) \<Rightarrow> 'a list \<Rightarrow> 'a option" where
  "find_first p [] = None"
| "find_first p (x # xs) = (if p x then Some x else find_first p xs)"

text \<open>\<open>Array.prototype.findIndex\<close>: the index of that element, or \<open>None\<close> for -1.\<close>

fun find_index :: "('a \<Rightarrow> bool) \<Rightarrow> 'a list \<Rightarrow> nat option" where
  "find_index p [] = None"
| "find_index p (x # xs) = (if p x then Some 0 else map_option Suc (find_index p xs))"

lemma find_first_Some: "find_first p xs = Some x \<Longrightarrow> x \<in> set xs \<and> p x"
  by (induction xs) (auto split: if_splits)

lemma find_first_None: "find_first p xs = None \<longleftrightarrow> (\<forall>x\<in>set xs. \<not> p x)"
  by (induction xs) auto

lemma find_index_Some:
  "find_index p xs = Some i \<Longrightarrow> i < length xs \<and> p (xs ! i) \<and> (\<forall>j<i. \<not> p (xs ! j))"
proof (induction xs arbitrary: i)
  case Nil
  then show ?case by simp
next
  case (Cons x xs)
  then show ?case
    by (cases i) (auto simp: less_Suc_eq_0_disj split: if_splits)
qed

lemma find_index_None: "find_index p xs = None \<longleftrightarrow> (\<forall>x\<in>set xs. \<not> p x)"
  by (induction xs) auto

lemma take_drop_append_left: "n + m \<le> length xs \<Longrightarrow> take m (drop n (xs @ ys)) = take m (drop n xs)"
  by simp

subsection \<open>Integer division\<close>

lemma zdiv_lessI:
  fixes x a c :: int
  assumes "0 < c" and "x < a * c"
  shows "x div c < a"
proof (rule ccontr)
  assume "\<not> x div c < a"
  then have "a * c \<le> x div c * c" using assms(1) by (simp add: mult_right_mono)
  also have "\<dots> \<le> x" using div_mult_mod_eq [of x c] pos_mod_sign [OF assms(1), of x] by linarith
  finally show False using assms(2) by simp
qed

lemma zdiv_mult_le:
  fixes x c :: int
  assumes "0 < c"
  shows "x div c * c \<le> x"
  using div_mult_mod_eq [of x c] pos_mod_sign [OF assms, of x] by linarith

lemma zdiv_geI:
  fixes x a c :: int
  assumes "0 < c" and "a * c \<le> x"
  shows "a \<le> x div c"
proof -
  have "a * c div c \<le> x div c" using assms by (intro zdiv_mono1)
  then show ?thesis using assms(1) by simp
qed

end
