(* ===== verification/Bytes.thy ===== *)
theory Bytes
  imports Prelude
begin

text \<open>
  The little-endian byte helpers of \<open>sdks/markets/ts/src/bytes.ts\<close> and the \<open>DataView\<close>
  readers of \<open>sdks/markets/ts/src/accounts/common.ts\<close>.  The writers store their argument
  modulo the field's width, as \<open>DataView.setUint16\<close> and its siblings do, and never throw;
  the readers throw a \<open>RangeError\<close> when the field is not inside the buffer.  The locale
  \<open>le_codec\<close> states what an encoder and a reader of one width promise each other; every
  pair of the source is an interpretation of it.
\<close>

subsection \<open>Little-endian byte strings\<close>

fun le_bytes :: "nat \<Rightarrow> int \<Rightarrow> bytes" where
  "le_bytes 0 v = []"
| "le_bytes (Suc n) v = word_of_int v # le_bytes n (v div 256)"

fun le_uint :: "bytes \<Rightarrow> int" where
  "le_uint [] = 0"
| "le_uint (b # bs) = uint b + 256 * le_uint bs"

text \<open>Two's complement reading of an \<open>n\<close>-byte field.\<close>

definition le_sint :: "bytes \<Rightarrow> int" where
  "le_sint bs = (let u = le_uint bs; m = 256 ^ length bs in if 2 * u < m then u else u - m)"

lemma length_le_bytes [simp, codec_simps]: "length (le_bytes n v) = n"
  by (induction n arbitrary: v) auto

lemma uint_word_of_int_8: "uint (word_of_int v :: 8 word) = v mod 256"
  by (simp add: uint_word_of_int)

lemma le_uint_le_bytes [codec_simps]: "le_uint (le_bytes n v) = v mod 256 ^ n"
proof (induction n arbitrary: v)
  case 0
  then show ?case by simp
next
  case (Suc n)
  have "v mod 256 + 256 * (v div 256 mod 256 ^ n) = v mod (256 * 256 ^ n)"
    by (simp add: zmod_zmult2_eq)
  then show ?case by (simp add: Suc uint_word_of_int_8)
qed

lemma le_uint_nonneg: "0 \<le> le_uint bs"
  by (induction bs) auto

lemma le_uint_bound: "le_uint bs < 256 ^ length bs"
proof (induction bs)
  case Nil
  then show ?case by simp
next
  case (Cons b bs)
  have "uint b < 256" using uint_lt2p [of b] by simp
  moreover have "le_uint bs + 1 \<le> 256 ^ length bs" using Cons.IH by simp
  ultimately show ?case by simp
qed

lemma le_bytes_le_uint: "le_bytes (length bs) (le_uint bs) = bs"
proof (induction bs)
  case Nil
  then show ?case by simp
next
  case (Cons b bs)
  have b: "0 \<le> uint b" "uint b < 256" using uint_lt2p [of b] by simp_all
  then have "(uint b + 256 * le_uint bs) div 256 = le_uint bs" by simp
  moreover have "(word_of_int (uint b + 256 * le_uint bs) :: 8 word) = b"
    using b by (intro word_uint_eqI) (simp add: uint_word_of_int_8 del: of_int_add of_int_mult)
  ultimately show ?case using Cons.IH by simp
qed

lemma le_bytes_mod: "le_bytes n (v mod 256 ^ n) = le_bytes n v"
  using le_bytes_le_uint [of "le_bytes n v"] by (simp add: le_uint_le_bytes)

lemma le_bytes_append: "le_bytes (n + k) v = le_bytes n v @ le_bytes k (v div 256 ^ n)"
  by (induction n arbitrary: v) (simp_all add: zdiv_zmult2_eq)

lemma le_sint_le_bytes:
  assumes "- (256 ^ n) \<le> 2 * v" and "2 * v < 256 ^ n"
  shows "le_sint (le_bytes n v) = v"
proof (cases "0 \<le> v")
  case True
  with assms(2) have "v mod 256 ^ n = v" by simp
  with assms(2) show ?thesis by (simp add: le_sint_def le_uint_le_bytes)
next
  case False
  with assms(1) have "(v + 256 ^ n) mod 256 ^ n = v + 256 ^ n" by (intro mod_pos_pos_trivial) auto
  then have "v mod 256 ^ n = v + 256 ^ n" by simp
  with False assms(1) show ?thesis by (simp add: le_sint_def le_uint_le_bytes Let_def)
qed

subsection \<open>The writers of bytes.ts\<close>

definition u8 :: "int \<Rightarrow> bytes" where
  "u8 v = [word_of_int v]"

definition u16LE :: "int \<Rightarrow> bytes" where
  "u16LE v = le_bytes 2 v"

definition i16LE :: "int \<Rightarrow> bytes" where
  "i16LE v = le_bytes 2 v"

definition u32LE :: "int \<Rightarrow> bytes" where
  "u32LE v = le_bytes 4 v"

definition u64LE :: "int \<Rightarrow> bytes" where
  "u64LE v = le_bytes 8 v"

definition i64LE :: "int \<Rightarrow> bytes" where
  "i64LE v = le_bytes 8 v"

text \<open>The two halves are written by two \<open>setBigUint64\<close> calls.\<close>

definition u128LE :: "int \<Rightarrow> bytes" where
  "u128LE v = le_bytes 8 (take_bit 64 v) @ le_bytes 8 (drop_bit 64 v)"

text \<open>
  \<open>concatBytes\<close> allocates the total length and copies each part to its offset; the loop
  state is the buffer and the running offset.
\<close>

fun copyParts :: "bytes \<Rightarrow> nat \<Rightarrow> bytes list \<Rightarrow> bytes" where
  "copyParts out off [] = out"
| "copyParts out off (p # ps) =
     copyParts (take off out @ p @ drop (off + length p) out) (off + length p) ps"

definition concatBytes :: "bytes list \<Rightarrow> bytes" where
  "concatBytes parts =
     copyParts (replicate (foldl (\<lambda>n p. n + length p) 0 parts) 0) 0 parts"

subsection \<open>The readers of accounts/common.ts\<close>

definition getUint :: "nat \<Rightarrow> bytes \<Rightarrow> nat \<Rightarrow> int res" where
  "getUint n dv off =
     (if off + n \<le> length dv then Inr (le_uint (take n (drop off dv)))
      else Inl (RangeError ''Offset is outside the bounds of the DataView''))"

definition getInt :: "nat \<Rightarrow> bytes \<Rightarrow> nat \<Rightarrow> int res" where
  "getInt n dv off =
     (if off + n \<le> length dv then Inr (le_sint (take n (drop off dv)))
      else Inl (RangeError ''Offset is outside the bounds of the DataView''))"

definition readU8 :: "bytes \<Rightarrow> nat \<Rightarrow> int res" where
  "readU8 = getUint 1"

definition readU16LE :: "bytes \<Rightarrow> nat \<Rightarrow> int res" where
  "readU16LE = getUint 2"

definition readU32LE :: "bytes \<Rightarrow> nat \<Rightarrow> int res" where
  "readU32LE = getUint 4"

definition readU64LE :: "bytes \<Rightarrow> nat \<Rightarrow> int res" where
  "readU64LE = getUint 8"

definition readI64LE :: "bytes \<Rightarrow> nat \<Rightarrow> int res" where
  "readI64LE = getInt 8"

definition readBool :: "bytes \<Rightarrow> nat \<Rightarrow> bool res" where
  "readBool dv off = mapR (\<lambda>v. v \<noteq> 0) (getUint 1 dv off)"

subsection \<open>Lemmas on the writers\<close>

lemma length_u8 [simp, codec_simps]: "length (u8 v) = 1"
  by (simp add: u8_def)

lemma length_u16LE [simp, codec_simps]: "length (u16LE v) = 2"
  by (simp add: u16LE_def)

lemma length_u32LE [simp, codec_simps]: "length (u32LE v) = 4"
  by (simp add: u32LE_def)

lemma length_u64LE [simp, codec_simps]: "length (u64LE v) = 8"
  by (simp add: u64LE_def)

lemma length_i64LE [simp, codec_simps]: "length (i64LE v) = 8"
  by (simp add: i64LE_def)

lemma length_u128LE [simp, codec_simps]: "length (u128LE v) = 16"
  by (simp add: u128LE_def)

lemma u8_le_bytes: "u8 v = le_bytes 1 v"
  by (simp add: u8_def)

lemma u128LE_le_bytes: "u128LE v = le_bytes 16 v"
proof -
  have "le_bytes 8 (take_bit 64 v) = le_bytes 8 v"
    using le_bytes_mod [of 8 v] by (simp add: take_bit_eq_mod)
  then show ?thesis
    using le_bytes_append [of 8 8 v] by (simp add: u128LE_def drop_bit_eq_div)
qed

lemma copyParts_concat:
  assumes "off + length (concat parts) \<le> length out"
  shows "copyParts out off parts =
    take off out @ concat parts @ drop (off + length (concat parts)) out"
  using assms
proof (induction parts arbitrary: out off)
  case Nil
  then show ?case by simp
next
  case (Cons p ps)
  let ?out = "take off out @ p @ drop (off + length p) out"
  have "off + length p + length (concat ps) \<le> length ?out" using Cons.prems by simp
  then show ?case using Cons.IH [of "off + length p" ?out] Cons.prems
    by (simp add: ac_simps)
qed

lemma concatBytes_concat [simp]: "concatBytes parts = concat parts"
proof -
  have len: "foldl (\<lambda>n p. n + length p) k parts = k + length (concat parts)" for k
    by (induction parts arbitrary: k) auto
  then show ?thesis
    using copyParts_concat [of 0 parts "replicate (length (concat parts)) 0"]
    by (simp add: concatBytes_def)
qed

subsection \<open>Reading what was written\<close>

lemma getUint_ok: "off + n \<le> length dv \<Longrightarrow> getUint n dv off = Inr (le_uint (take n (drop off dv)))"
  by (simp add: getUint_def)

lemma getUint_at:
  assumes "length xs = n"
  shows "getUint n (pre @ xs @ post) (length pre) = Inr (le_uint xs)"
  using assms by (simp add: getUint_def)

lemma getInt_at:
  assumes "length xs = n"
  shows "getInt n (pre @ xs @ post) (length pre) = Inr (le_sint xs)"
  using assms by (simp add: getInt_def)

text \<open>
  The contract between an encoder and a reader of one width: the encoder writes exactly
  \<open>width\<close> bytes, a reader that finds them anywhere in a buffer returns the value if it is in
  the representable range, and it throws when the field leaves the buffer.
\<close>

locale le_codec =
  fixes enc :: "int \<Rightarrow> bytes"
    and dec :: "bytes \<Rightarrow> nat \<Rightarrow> int res"
    and width :: nat
    and lo hi :: int
  assumes enc_length: "length (enc v) = width"
    and dec_enc: "lo \<le> v \<Longrightarrow> v < hi \<Longrightarrow> dec (pre @ enc v @ post) (length pre) = Inr v"
    and dec_range: "dec dv off = Inr v \<Longrightarrow> lo \<le> v \<and> v < hi \<and> off + width \<le> length dv"
    and dec_ok: "off + width \<le> length dv \<Longrightarrow> \<exists>v. dec dv off = Inr v"
    and enc_periodic: "enc (v + (hi - lo)) = enc v"
begin

lemma roundtrip: "lo \<le> v \<Longrightarrow> v < hi \<Longrightarrow> dec (enc v) 0 = Inr v"
  using dec_enc [of v "[]" "[]"] by simp

lemma roundtrip_iff: "dec (enc v) 0 = Inr v \<longleftrightarrow> lo \<le> v \<and> v < hi"
  using roundtrip dec_range by blast

lemma enc_inject:
  assumes "enc v = enc w" and "lo \<le> v" "v < hi" "lo \<le> w" "w < hi"
  shows "v = w"
proof -
  have "Inr v = (Inr w :: int res)"
    by (metis assms(1) roundtrip [OF assms(2,3)] roundtrip [OF assms(4,5)])
  then show ?thesis by (rule sum.inject(2) [THEN iffD1])
qed

lemma dec_in_context:
  assumes "off = length pre" and "lo \<le> v" and "v < hi"
  shows "dec (pre @ enc v @ post) off = Inr v"
  using assms dec_enc by simp

lemma dec_fails: "length dv < off + width \<Longrightarrow> \<not> okR (dec dv off)"
  using dec_range [of dv off] by (auto simp: okR_iff)

end

lemma getUint_codec:
  assumes "\<And>v. enc v = le_bytes n v" and "hi = 256 ^ n"
  shows "le_codec enc (getUint n) n 0 hi"
proof unfold_locales
  fix v :: int and pre post dv :: bytes and off :: nat
  show "length (enc v) = n" by (simp add: assms)
  show "getUint n (pre @ enc v @ post) (length pre) = Inr v" if "0 \<le> v" "v < hi"
    using that getUint_at [of "enc v" n pre post] by (simp add: assms le_uint_le_bytes)
  show "0 \<le> v \<and> v < hi \<and> off + n \<le> length dv" if d: "getUint n dv off = Inr v"
  proof -
    from d have l: "off + n \<le> length dv" and v: "v = le_uint (take n (drop off dv))"
      by (simp_all add: getUint_def split: if_splits)
    from l have "length (take n (drop off dv)) = n" by simp
    with l v show ?thesis
      using le_uint_nonneg [of "take n (drop off dv)"] le_uint_bound [of "take n (drop off dv)"]
      by (simp add: assms)
  qed
  show "\<exists>v. getUint n dv off = Inr v" if "off + n \<le> length dv"
    using that by (simp add: getUint_def)
  show "enc (v + (hi - 0)) = enc v"
    using le_bytes_mod [of n "v + 256 ^ n"] le_bytes_mod [of n v] by (simp add: assms)
qed

lemma le_sint_range:
  assumes "length bs = n" and "0 < n"
  shows "- (256 ^ n) \<le> 2 * le_sint bs \<and> 2 * le_sint bs < 256 ^ n"
  using assms le_uint_nonneg [of bs] le_uint_bound [of bs]
  by (auto simp: le_sint_def Let_def)

lemma getInt_codec:
  assumes enc: "\<And>v. enc v = le_bytes (Suc n) v" and hi: "hi = 128 * 256 ^ n" and lo: "lo = - hi"
  shows "le_codec enc (getInt (Suc n)) (Suc n) lo hi"
proof unfold_locales
  fix v :: int and pre post dv :: bytes and off :: nat
  show "length (enc v) = Suc n" by (simp add: enc)
  show "getInt (Suc n) (pre @ enc v @ post) (length pre) = Inr v" if "lo \<le> v" "v < hi"
    using that getInt_at [of "enc v" "Suc n" pre post] le_sint_le_bytes [of "Suc n" v]
    by (simp add: enc hi lo del: le_bytes.simps)
  show "lo \<le> v \<and> v < hi \<and> off + Suc n \<le> length dv" if d: "getInt (Suc n) dv off = Inr v"
  proof -
    from d have l: "off + Suc n \<le> length dv" and v: "v = le_sint (take (Suc n) (drop off dv))"
      by (simp_all add: getInt_def split: if_splits)
    from l have "length (take (Suc n) (drop off dv)) = Suc n" by simp
    from le_sint_range [OF this] l v show ?thesis by (simp add: hi lo)
  qed
  show "\<exists>v. getInt (Suc n) dv off = Inr v" if "off + Suc n \<le> length dv"
    using that by (simp add: getInt_def)
  show "enc (v + (hi - lo)) = enc v"
    using le_bytes_mod [of "Suc n" "v + 256 ^ Suc n"] le_bytes_mod [of "Suc n" v]
    by (simp add: enc hi lo del: le_bytes.simps)
qed

interpretation c8: le_codec u8 readU8 1 0 256
  unfolding readU8_def by (rule getUint_codec) (simp_all add: u8_le_bytes)

interpretation c16: le_codec u16LE readU16LE 2 0 65536
  unfolding readU16LE_def by (rule getUint_codec) (simp_all add: u16LE_def)

interpretation c32: le_codec u32LE readU32LE 4 0 4294967296
  unfolding readU32LE_def by (rule getUint_codec) (simp_all add: u32LE_def)

interpretation c64: le_codec u64LE readU64LE 8 0 18446744073709551616
  unfolding readU64LE_def by (rule getUint_codec) (simp_all add: u64LE_def)

interpretation ci64: le_codec i64LE readI64LE 8 "-9223372036854775808" 9223372036854775808
  using getInt_codec [of i64LE 7 9223372036854775808 "-9223372036854775808"]
  by (simp add: readI64LE_def i64LE_def numeral_eq_Suc)

interpretation c128: le_codec u128LE "getUint 16" 16 0 "340282366920938463463374607431768211456"
  by (rule getUint_codec) (simp_all add: u128LE_le_bytes)

end
