(* ===== verification/JsString.thy ===== *)
theory JsString
  imports Prelude
begin

text \<open>
  The string operations of JavaScript that the source uses, on Windows-1252 characters:
  trimming, case folding, searching, decimal and hexadecimal numerals, and \<open>BigInt\<close> of a
  string.
\<close>

definition code_of :: "char \<Rightarrow> int" where
  "code_of c = of_char c"

definition chr :: "int \<Rightarrow> char" where
  "chr n = char_of n"

lemma code_of_chr: "0 \<le> n \<Longrightarrow> n < 256 \<Longrightarrow> code_of (chr n) = n"
  by (simp add: code_of_def chr_def)

subsection \<open>White space and case\<close>

text \<open>The white space and line terminators that \<open>trim\<close> removes.\<close>

definition is_space :: "char \<Rightarrow> bool" where
  "is_space c = (let n = code_of c in 9 \<le> n \<and> n \<le> 13 \<or> n = 32 \<or> n = 160)"

definition trim :: "string \<Rightarrow> string" where
  "trim s = rev (dropWhile is_space (rev (dropWhile is_space s)))"

definition lower_char :: "char \<Rightarrow> char" where
  "lower_char c =
     (let n = code_of c in
      if 65 \<le> n \<and> n \<le> 90 \<or> 192 \<le> n \<and> n \<le> 222 \<and> n \<noteq> 215 then chr (n + 32)
      else if n = 138 \<or> n = 140 \<or> n = 142 then chr (n + 16)
      else if n = 159 then chr 255
      else c)"

definition toLowerCase :: "string \<Rightarrow> string" where
  "toLowerCase s = map lower_char s"

lemma trim_no_space_ends:
  "trim s \<noteq> [] \<Longrightarrow> \<not> is_space (hd (trim s)) \<and> \<not> is_space (last (trim s))"
proof -
  assume ne: "trim s \<noteq> []"
  define u where "u = dropWhile is_space s"
  define v where "v = dropWhile is_space (rev u)"
  have t: "trim s = rev v" by (simp add: trim_def u_def v_def)
  with ne have v: "v \<noteq> []" by simp
  then have "\<not> is_space (hd v)" unfolding v_def by (rule hd_dropWhile)
  then have l: "\<not> is_space (last (trim s))" using v by (simp add: t last_rev)
  obtain w where w: "rev u = w @ v"
    unfolding v_def using takeWhile_dropWhile_id [of is_space "rev u"] by metis
  have uu: "u = rev v @ rev w" using arg_cong [OF w, of rev] by simp
  then have "u \<noteq> []" using v by simp
  then have "\<not> is_space (hd u)" unfolding u_def by (rule hd_dropWhile)
  then show ?thesis using l v by (simp add: t uu)
qed

lemma trim_id:
  assumes "s \<noteq> []" and "\<not> is_space (hd s)" and "\<not> is_space (last s)"
  shows "trim s = s"
proof -
  have "dropWhile is_space s = s" using assms by (cases s) auto
  moreover have "dropWhile is_space (rev s) = rev s"
    using assms by (cases "rev s") (auto simp: hd_rev [symmetric])
  ultimately show ?thesis by (simp add: trim_def)
qed

lemma trim_plain: "\<forall>c\<in>set s. \<not> is_space c \<Longrightarrow> trim s = s"
  by (cases "s = []") (simp add: trim_def, rule trim_id, simp_all)

subsection \<open>Searching\<close>

fun starts_with :: "'a list \<Rightarrow> 'a list \<Rightarrow> bool" where
  "starts_with [] ys = True"
| "starts_with (x # xs) [] = False"
| "starts_with (x # xs) (y # ys) = (x = y \<and> starts_with xs ys)"

text \<open>\<open>hay.includes(needle)\<close>.\<close>

fun str_includes :: "'a list \<Rightarrow> 'a list \<Rightarrow> bool" where
  "str_includes [] needle = (needle = [])"
| "str_includes (h # hs) needle = (starts_with needle (h # hs) \<or> str_includes hs needle)"

lemma starts_with_iff: "starts_with xs ys \<longleftrightarrow> (\<exists>zs. ys = xs @ zs)"
  by (induction xs ys rule: starts_with.induct) auto

lemma includes_iff: "str_includes hay needle \<longleftrightarrow> (\<exists>us vs. hay = us @ needle @ vs)"
proof (induction hay)
  case Nil
  then show ?case by simp
next
  case (Cons h hs)
  show ?case
  proof
    assume "str_includes (h # hs) needle"
    then consider "starts_with needle (h # hs)" | "str_includes hs needle" by auto
    then show "\<exists>us vs. h # hs = us @ needle @ vs"
    proof cases
      case 1
      then obtain vs where "h # hs = needle @ vs" by (auto simp: starts_with_iff)
      then have "h # hs = [] @ needle @ vs" by simp
      then show ?thesis by blast
    next
      case 2
      then obtain us vs where "hs = us @ needle @ vs" using Cons.IH by blast
      then have "h # hs = (h # us) @ needle @ vs" by simp
      then show ?thesis by blast
    qed
  next
    assume "\<exists>us vs. h # hs = us @ needle @ vs"
    then obtain us vs where e: "h # hs = us @ needle @ vs" by blast
    show "str_includes (h # hs) needle"
    proof (cases us)
      case Nil
      with e have "starts_with needle (h # hs)" by (auto simp: starts_with_iff)
      then show ?thesis by simp
    next
      case (Cons u us')
      with e have "hs = us' @ needle @ vs" by simp
      then show ?thesis using Cons.IH by auto
    qed
  qed
qed

subsection \<open>Numerals\<close>

definition is_digit :: "char \<Rightarrow> bool" where
  "is_digit c = (let n = code_of c in 48 \<le> n \<and> n \<le> 57)"

text \<open>The value of a digit in bases up to 16, or -1.\<close>

definition digit_val :: "char \<Rightarrow> int" where
  "digit_val c =
     (let n = code_of c in
      if 48 \<le> n \<and> n \<le> 57 then n - 48
      else if 97 \<le> n \<and> n \<le> 102 then n - 87
      else if 65 \<le> n \<and> n \<le> 70 then n - 55
      else - 1)"

definition is_base_digit :: "int \<Rightarrow> char \<Rightarrow> bool" where
  "is_base_digit b c \<longleftrightarrow> 0 \<le> digit_val c \<and> digit_val c < b"

definition num_val :: "int \<Rightarrow> string \<Rightarrow> int" where
  "num_val b s = foldl (\<lambda>n c. n * b + digit_val c) 0 s"

definition dec_val :: "string \<Rightarrow> int" where
  "dec_val s = num_val 10 s"

text \<open>The decimal numeral of a non-negative integer.\<close>

function dec_str :: "int \<Rightarrow> string" where
  "dec_str n = (if n < 10 then [chr (48 + n)] else dec_str (n div 10) @ [chr (48 + n mod 10)])"
  by auto
termination
  by (relation "measure nat") auto

declare dec_str.simps [simp del]

definition show_int :: "int \<Rightarrow> string" where
  "show_int n = (if n < 0 then CHR ''-'' # dec_str (- n) else dec_str n)"

lemma digit_val_chr: "0 \<le> d \<Longrightarrow> d < 10 \<Longrightarrow> digit_val (chr (48 + d)) = d"
  by (simp add: digit_val_def code_of_chr)

lemma is_digit_chr: "0 \<le> d \<Longrightarrow> d < 10 \<Longrightarrow> is_digit (chr (48 + d))"
  by (simp add: is_digit_def code_of_chr)

lemma is_base_digit_10: "is_base_digit 10 c \<longleftrightarrow> is_digit c"
  by (auto simp: is_base_digit_def digit_val_def is_digit_def Let_def)

lemma is_digit_not_space: "is_digit c \<Longrightarrow> \<not> is_space c"
  by (auto simp: is_digit_def is_space_def Let_def)

lemma foldl_num_val: "foldl (\<lambda>n c. n * b + digit_val c) a s = a * b ^ length s + num_val b s"
proof (induction s arbitrary: a)
  case Nil
  then show ?case by (simp add: num_val_def)
next
  case (Cons c s)
  show ?case
    using Cons [of "a * b + digit_val c"] Cons [of "digit_val c"]
    by (simp add: num_val_def algebra_simps)
qed

lemma num_val_append: "num_val b (s @ t) = num_val b s * b ^ length t + num_val b t"
  using foldl_num_val [of b "num_val b s" t] by (simp add: num_val_def)

lemma num_val_simps [simp]: "num_val b [] = 0" "num_val b [c] = digit_val c"
  by (simp_all add: num_val_def)

lemma num_val_bounds:
  assumes "\<forall>c\<in>set s. is_base_digit b c" and "0 < b"
  shows "0 \<le> num_val b s \<and> num_val b s < b ^ length s"
  using assms
proof (induction s rule: rev_induct)
  case Nil
  then show ?case by simp
next
  case (snoc c s)
  then have i: "0 \<le> num_val b s" "num_val b s + 1 \<le> b ^ length s"
    and d: "0 \<le> digit_val c" "digit_val c < b" by (auto simp: is_base_digit_def)
  have "num_val b s * b + digit_val c < (num_val b s + 1) * b" using d by (simp add: algebra_simps)
  also have "\<dots> \<le> b ^ length s * b" using i snoc.prems(2) by (intro mult_right_mono) simp_all
  finally show ?case using i d snoc.prems(2) by (simp add: num_val_append mult.commute)
qed

lemma dec_str_digits: "0 \<le> n \<Longrightarrow> dec_str n \<noteq> [] \<and> (\<forall>c\<in>set (dec_str n). is_digit c)"
proof (induction n rule: dec_str.induct)
  case (1 n)
  show ?case
  proof (cases "n < 10")
    case True
    with 1 show ?thesis by (simp add: dec_str.simps [of n] is_digit_chr)
  next
    case False
    with 1 show ?thesis by (simp add: dec_str.simps [of n] is_digit_chr)
  qed
qed

lemma dec_val_dec_str [simp]: "0 \<le> n \<Longrightarrow> dec_val (dec_str n) = n"
proof (induction n rule: dec_str.induct)
  case (1 n)
  show ?case
  proof (cases "n < 10")
    case True
    with 1 show ?thesis by (simp add: dec_str.simps [of n] dec_val_def digit_val_chr)
  next
    case False
    with 1 show ?thesis
      by (simp add: dec_str.simps [of n] dec_val_def digit_val_chr num_val_append)
  qed
qed

lemma dec_str_inject: "0 \<le> m \<Longrightarrow> 0 \<le> n \<Longrightarrow> dec_str m = dec_str n \<longleftrightarrow> m = n"
  by (metis dec_val_dec_str)

lemma not_minus_digit: "\<not> is_digit CHR ''-''"
  by (simp add: is_digit_def code_of_def)

lemma dec_str_not_minus: "0 \<le> n \<Longrightarrow> dec_str n \<noteq> CHR ''-'' # t"
  using dec_str_digits [of n] not_minus_digit by auto

lemma show_int_inject: "show_int m = show_int n \<longleftrightarrow> m = n"
proof (cases "m < 0"; cases "n < 0")
  assume "m < 0" "n < 0"
  then show ?thesis using dec_str_inject [of "- m" "- n"] by (simp add: show_int_def)
next
  assume "m < 0" "\<not> n < 0"
  then show ?thesis using dec_str_not_minus [of n "dec_str (- m)"] by (auto simp: show_int_def)
next
  assume "\<not> m < 0" "n < 0"
  then show ?thesis using dec_str_not_minus [of m "dec_str (- n)"] by (auto simp: show_int_def)
next
  assume "\<not> m < 0" "\<not> n < 0"
  then show ?thesis using dec_str_inject [of m n] by (simp add: show_int_def)
qed

text \<open>
  \<open>JSON.stringify\<close> of a string: quoted, with the quote, the backslash and the control characters
  escaped.
\<close>

definition hex_char :: "int \<Rightarrow> char" where
  "hex_char d = ''0123456789abcdef'' ! nat d"

definition json_char :: "char \<Rightarrow> string" where
  "json_char c =
     (let k = code_of c; esc = (\<lambda>d. [CHR 0x5C, d]) in
      if k = 34 \<or> k = 92 then esc c
      else if k = 8 then esc CHR ''b'' else if k = 9 then esc CHR ''t''
      else if k = 10 then esc CHR ''n'' else if k = 12 then esc CHR ''f''
      else if k = 13 then esc CHR ''r''
      else if k < 32 then esc CHR ''u'' @ ''00'' @ [hex_char (k div 16), hex_char (k mod 16)]
      else [c])"

definition json_string :: "string \<Rightarrow> string" where
  "json_string s = CHR 0x22 # concat (map json_char s) @ [CHR 0x22]"

text \<open>A numeral of exactly \<open>n\<close> digits and the reading of zeros.\<close>

lemma num_val_zeros: "num_val b (replicate n CHR ''0'') = 0"
  by (induction n) (simp_all add: num_val_def digit_val_def code_of_def)

subsection \<open>BigInt of a string\<close>

text \<open>
  \<open>BigInt(s)\<close>: white space around the numeral is ignored, the empty string is zero; a decimal
  numeral may have a sign, a numeral with a radix prefix may not.
\<close>

definition numeral_of :: "string \<Rightarrow> int \<Rightarrow> string \<Rightarrow> int \<Rightarrow> int res" where
  "numeral_of s b ds sg =
     (if ds \<noteq> [] \<and> (\<forall>c\<in>set ds. is_base_digit b c) then Inr (sg * num_val b ds)
      else Inl (Error (''Cannot convert '' @ s @ '' to a BigInt'')))"

definition has_prefix :: "string \<Rightarrow> char \<Rightarrow> char \<Rightarrow> bool" where
  "has_prefix t x y \<longleftrightarrow>
     (case t of c # d # ds \<Rightarrow> c = CHR ''0'' \<and> (d = x \<or> d = y) | _ \<Rightarrow> False)"

definition BigIntStr :: "string \<Rightarrow> int res" where
  "BigIntStr s =
     (let t = trim s in
      if t = [] then Inr 0
      else if hd t = CHR ''-'' then numeral_of s 10 (tl t) (- 1)
      else if hd t = CHR ''+'' then numeral_of s 10 (tl t) 1
      else if has_prefix t CHR ''x'' CHR ''X'' then numeral_of s 16 (drop 2 t) 1
      else if has_prefix t CHR ''o'' CHR ''O'' then numeral_of s 8 (drop 2 t) 1
      else if has_prefix t CHR ''b'' CHR ''B'' then numeral_of s 2 (drop 2 t) 1
      else numeral_of s 10 t 1)"

lemma BigIntStr_digits:
  assumes "s \<noteq> []" and "\<forall>c\<in>set s. is_digit c"
  shows "BigIntStr s = Inr (dec_val s)"
proof -
  have t: "trim s = s" using assms by (intro trim_plain) (auto simp: is_digit_not_space)
  have np: "\<not> has_prefix s x y" if "\<not> is_digit x" "\<not> is_digit y" for x y
    using assms that by (auto simp: has_prefix_def split: list.splits)
  have h: "hd s \<noteq> CHR ''-''" "hd s \<noteq> CHR ''+''"
    using assms by (cases s; auto simp: is_digit_def code_of_def)+
  have nd: "\<not> is_digit CHR ''x''" "\<not> is_digit CHR ''X''" "\<not> is_digit CHR ''o''"
    "\<not> is_digit CHR ''O''" "\<not> is_digit CHR ''b''" "\<not> is_digit CHR ''B''"
    by (simp_all add: is_digit_def code_of_def)
  show ?thesis
    using assms h nd by (simp add: BigIntStr_def t np numeral_of_def dec_val_def is_base_digit_10)
qed

lemma BigIntStr_dec_str: "0 \<le> n \<Longrightarrow> BigIntStr (dec_str n) = Inr n"
  using BigIntStr_digits [of "dec_str n"] dec_str_digits [of n] by simp

end
