(* ===== verification/Web3.thy ===== *)
theory Web3
  imports Bytes JsString
begin

text \<open>
  The parts of \<open>@solana/web3.js\<close> that the source handles as data, and the ones it calls.

  An \<open>Address\<close> is its raw bytes; an \<open>AccountMeta\<close> and a \<open>TransactionInstruction\<close> are
  records.  What the library computes is not under \<open>src/\<close> and is a parameter of the model, the
  record \<open>web3\<close>: \<open>parseAddress\<close> is \<open>new Address(s)\<close> on a base58 string (\<open>None\<close>: it
  throws), \<open>toBase58\<close> is \<open>Address.toString\<close>, and \<open>findProgramAddress\<close> is the derivation of
  a program address from its seeds (\<open>None\<close>: it rejects).  The helpers below them are those of
  \<open>sdks/markets/ts/src/instructions/payload.ts\<close>.
\<close>

datatype address = Address (address_bytes: bytes)

text \<open>\<open>AddressInput\<close> is an address object or a base58 string.\<close>

datatype address_input = AddrObj address | AddrStr string

record account_meta =
  pubkey :: address
  isSigner :: bool
  isWritable :: bool

record instruction =
  ixProgramId :: address
  ixKeys :: "account_meta list"
  ixData :: bytes

record web3 =
  parseAddress :: "string \<Rightarrow> address option"
  toBase58 :: "address \<Rightarrow> string"
  findProgramAddress :: "bytes list \<Rightarrow> address \<Rightarrow> (address \<times> int) option"

text \<open>
  Documented behaviour of the library that some properties rely on, as named predicates:
  an address is 32 bytes, its string form parses back to it.
\<close>

definition wf_address :: "address \<Rightarrow> bool" where
  "wf_address a \<longleftrightarrow> length (address_bytes a) = 32"

definition base58_ok :: "web3 \<Rightarrow> bool" where
  "base58_ok W \<longleftrightarrow> (\<forall>a. wf_address a \<longrightarrow> parseAddress W (toBase58 W a) = Some a)"

lemma base58_ok_inj:
  "base58_ok W \<Longrightarrow> wf_address a \<Longrightarrow> wf_address b \<Longrightarrow> toBase58 W a = toBase58 W b \<longleftrightarrow> a = b"
  unfolding base58_ok_def by (metis option.inject)

lemma Address_eq_iff: "a = b \<longleftrightarrow> address_bytes a = address_bytes b"
  by (cases a; cases b) simp

subsection \<open>payload.ts\<close>

definition addr :: "web3 \<Rightarrow> address_input \<Rightarrow> address res" where
  "addr W a =
     (case a of
        AddrObj x \<Rightarrow> Inr x
      | AddrStr s \<Rightarrow> (case parseAddress W s of
            Some x \<Rightarrow> Inr x
          | None \<Rightarrow> Inl (Error ''invalid address'')))"

definition meta_w :: "address \<Rightarrow> bool \<Rightarrow> account_meta" where
  "meta_w a s = \<lparr>pubkey = a, isSigner = s, isWritable = True\<rparr>"

definition meta_ro :: "address \<Rightarrow> bool \<Rightarrow> account_meta" where
  "meta_ro a s = \<lparr>pubkey = a, isSigner = s, isWritable = False\<rparr>"

definition pubkeyBytes :: "web3 \<Rightarrow> address_input \<Rightarrow> bytes res" where
  "pubkeyBytes W a = mapR address_bytes (addr W a)"

definition fixedBytes :: "bytes \<Rightarrow> nat \<Rightarrow> bytes res" where
  "fixedBytes bs len =
     (if length bs \<noteq> len then Inl (Error (''expected exactly '' @ show_int (int len) @ '' bytes, got '' @
       show_int (int (length bs)))) else Inr bs)"

text \<open>The account metas of an address input: coerced first, as in \<open>w(addr(a), signer)\<close>.\<close>

definition wA :: "web3 \<Rightarrow> address_input \<Rightarrow> bool \<Rightarrow> account_meta res" where
  "wA W a s = mapR (\<lambda>x. meta_w x s) (addr W a)"

definition roA :: "web3 \<Rightarrow> address_input \<Rightarrow> bool \<Rightarrow> account_meta res" where
  "roA W a s = mapR (\<lambda>x. meta_ro x s) (addr W a)"

text \<open>
  \<open>new TransactionInstruction({programId, keys, data})\<close>: the keys are evaluated in order,
  then the data.
\<close>

definition mkIx :: "address \<Rightarrow> account_meta res list \<Rightarrow> bytes res \<Rightarrow> instruction res" where
  "mkIx pid keys data =
     bindR (seqR keys) (\<lambda>ks. mapR (\<lambda>d. \<lparr>ixProgramId = pid, ixKeys = ks, ixData = d\<rparr>) data)"

text \<open>A string literal as ASCII bytes (\<open>TextEncoder.encode\<close> on the seeds' ASCII literals).\<close>

definition ascii :: "string \<Rightarrow> bytes" where
  "ascii s = map (\<lambda>c. word_of_nat (of_char c)) s"

text \<open>
  A module constant \<open>new Address("...")\<close>: the source fails at load time when the literal does
  not parse, so that every constant of a running program is the parsed address.
\<close>

definition constAddress :: "web3 \<Rightarrow> string \<Rightarrow> address" where
  "constAddress W s = (case parseAddress W s of Some a \<Rightarrow> a | None \<Rightarrow> Address [])"

subsection \<open>Lemmas\<close>

lemma addr_AddrObj [simp]: "addr W (AddrObj a) = Inr a"
  by (simp add: addr_def)

lemma wA_AddrObj [simp]: "wA W (AddrObj a) s = Inr (meta_w a s)"
  by (simp add: wA_def)

lemma roA_AddrObj [simp]: "roA W (AddrObj a) s = Inr (meta_ro a s)"
  by (simp add: roA_def)

lemma pubkeyBytes_AddrObj [simp]: "pubkeyBytes W (AddrObj a) = Inr (address_bytes a)"
  by (simp add: pubkeyBytes_def)

lemma meta_w_sel [simp]:
  "pubkey (meta_w a s) = a" "isSigner (meta_w a s) = s" "isWritable (meta_w a s)"
  by (simp_all add: meta_w_def)

lemma meta_ro_sel [simp]:
  "pubkey (meta_ro a s) = a" "isSigner (meta_ro a s) = s" "\<not> isWritable (meta_ro a s)"
  by (simp_all add: meta_ro_def)

lemma mkIx_Inr_iff:
  "mkIx pid keys data = Inr ix \<longleftrightarrow>
     keys = map Inr (ixKeys ix) \<and> data = Inr (ixData ix) \<and> ixProgramId ix = pid"
  by (cases ix) (auto simp: mkIx_def bindR_Inr_iff mapR_Inr_iff seqR_Inr_iff)

lemma mkIx_map_Inr [simp]:
  "mkIx pid (map Inr ks) (Inr d) = Inr \<lparr>ixProgramId = pid, ixKeys = ks, ixData = d\<rparr>"
  by (simp add: mkIx_def)

lemma wA_Inr_iff: "wA W a s = Inr m \<longleftrightarrow> (\<exists>x. addr W a = Inr x \<and> m = meta_w x s)"
  by (auto simp: wA_def mapR_Inr_iff)

lemma roA_Inr_iff: "roA W a s = Inr m \<longleftrightarrow> (\<exists>x. addr W a = Inr x \<and> m = meta_ro x s)"
  by (auto simp: roA_def mapR_Inr_iff)

lemma length_ascii [simp]: "length (ascii s) = length s"
  by (simp add: ascii_def)

subsection \<open>A concrete library for the witnesses\<close>

text \<open>
  A small instance of the parameter: an address's string is its bytes as characters, and a
  program address is the seeds' bytes followed by the owner's.
\<close>

definition demo_web3 :: web3 where
  "demo_web3 = \<lparr>
     parseAddress = (\<lambda>s. Some (Address (ascii s))),
     toBase58 = (\<lambda>a. map (\<lambda>b. char_of (unat b)) (address_bytes a)),
     findProgramAddress = (\<lambda>seeds pid. Some (Address (concat seeds @ address_bytes pid), 255))\<rparr>"

lemma base58_ok_demo: "base58_ok demo_web3"
proof -
  have "(word_of_nat (unat x mod 256) :: 8 word) = x" for x :: "8 word"
    using unsigned_less [of x, where ?'a = nat] by simp
  then show ?thesis
    by (simp add: base58_ok_def demo_web3_def ascii_def Address_eq_iff o_def)
qed

end
