(* ===== verification/Constants.thy ===== *)
theory Constants
  imports Web3
begin

text \<open>
  The constants of \<open>sdks/markets/ts/src/constants.ts\<close>: program ids, the instruction
  discriminants, the account tags, the market statuses and the program's error codes.  A
  TypeScript enum is a number at run time, so each one is a datatype with its code; decoded
  accounts keep the raw number.
\<close>

definition MARKET_PROGRAM_ID :: "web3 \<Rightarrow> address" where
  "MARKET_PROGRAM_ID W = constAddress W ''FEGNHWAB7kc7VC9CCwbvVPsv4Jykz2r2WQ758V4xCT9S''"

definition GPT_ORACLE_PROGRAM_ID :: "web3 \<Rightarrow> address" where
  "GPT_ORACLE_PROGRAM_ID W = constAddress W ''LLMrieZMpbJFwN52WgmBNMxYojrpRVYXdC1RCweEbab''"

definition SYSTEM_PROGRAM_ID :: "web3 \<Rightarrow> address" where
  "SYSTEM_PROGRAM_ID W = constAddress W ''11111111111111111111111111111111''"

definition TOKEN_PROGRAM_ID :: "web3 \<Rightarrow> address" where
  "TOKEN_PROGRAM_ID W = constAddress W ''TokenkegQfeZyiNwAJbNbGKPFXCWuBvf9Ss623VQ5DA''"

definition ATA_PROGRAM_ID :: "web3 \<Rightarrow> address" where
  "ATA_PROGRAM_ID W = constAddress W ''ATokenGPvbdGVxr1b2hvZbsiqW5xWH25efTNsLJA8knL''"

definition BPF_UPGRADEABLE_LOADER_ID :: "web3 \<Rightarrow> address" where
  "BPF_UPGRADEABLE_LOADER_ID W = constAddress W ''BPFLoaderUpgradeab1e11111111111111111111111''"

text \<open>\<open>EXTERNAL_PROGRAM_IDS\<close>.\<close>

definition CONDITIONAL_VAULT_ID :: "web3 \<Rightarrow> address" where
  "CONDITIONAL_VAULT_ID W = constAddress W ''VLTX1ishMBbcX3rdBWGssxawAo1Q2X2qxYFYqiGodVg''"

definition AMM_V04_ID :: "web3 \<Rightarrow> address" where
  "AMM_V04_ID W = constAddress W ''AMMyu265tkBpRW21iGQxKGLaves3gKm2JcMUqfXNSpqD''"

subsection \<open>Instruction discriminants\<close>

datatype Ix =
    InitConfig | UpdateConfig | CreateMarket | Contribute | Cancel | Refund | Activate | ClaimLp
  | ResolveMarket | CollectFee | CloseMarket | AddLiquidity | DelegateMarket | CommitMarket
  | UndelegateMarket | CreateSubject | RequestAi

fun ix_code :: "Ix \<Rightarrow> int" where
  "ix_code InitConfig = 0"
| "ix_code UpdateConfig = 1"
| "ix_code CreateMarket = 2"
| "ix_code Contribute = 3"
| "ix_code Cancel = 4"
| "ix_code Refund = 5"
| "ix_code Activate = 6"
| "ix_code ClaimLp = 7"
| "ix_code ResolveMarket = 8"
| "ix_code CollectFee = 9"
| "ix_code CloseMarket = 10"
| "ix_code AddLiquidity = 11"
| "ix_code DelegateMarket = 12"
| "ix_code CommitMarket = 13"
| "ix_code UndelegateMarket = 14"
| "ix_code CreateSubject = 15"
| "ix_code RequestAi = 16"

text \<open>The program's dispatch on the first byte (\<open>Ix::from_u8\<close> in \<open>instruction.rs\<close>).\<close>

definition from_u8 :: "int \<Rightarrow> Ix option" where
  "from_u8 x = find_first (\<lambda>i. ix_code i = x)
     [InitConfig, UpdateConfig, CreateMarket, Contribute, Cancel, Refund, Activate, ClaimLp,
      ResolveMarket, CollectFee, CloseMarket, AddLiquidity, DelegateMarket, CommitMarket,
      UndelegateMarket, CreateSubject, RequestAi]"

lemma from_u8_ix_code [simp]: "from_u8 (ix_code i) = Some i"
  by (cases i) (simp_all add: from_u8_def)

lemma from_u8_Some: "from_u8 x = Some i \<Longrightarrow> ix_code i = x"
  unfolding from_u8_def by (drule find_first_Some) simp

lemma ix_code_range: "0 \<le> ix_code i \<and> ix_code i < 256"
  by (cases i) simp_all

lemma ix_code_inject [simp]: "ix_code i = ix_code j \<longleftrightarrow> i = j"
  using from_u8_ix_code by (metis option.inject)

subsection \<open>Account tags and market statuses\<close>

datatype AccountType =
  TUninitialized | TConfig | TMarket | TContribution | TErSession | TSubject

fun account_type_code :: "AccountType \<Rightarrow> int" where
  "account_type_code TUninitialized = 0"
| "account_type_code TConfig = 1"
| "account_type_code TMarket = 2"
| "account_type_code TContribution = 3"
| "account_type_code TErSession = 4"
| "account_type_code TSubject = 5"

lemma account_type_code_inject [simp]: "account_type_code s = account_type_code t \<longleftrightarrow> s = t"
  by (cases s; cases t) simp_all

lemma account_type_code_range: "0 \<le> account_type_code t \<and> account_type_code t < 256"
  by (cases t) simp_all

datatype MarketStatus = Funding | Active | Resolved | Void | Cancelled

fun status_code :: "MarketStatus \<Rightarrow> int" where
  "status_code Funding = 0"
| "status_code Active = 1"
| "status_code Resolved = 2"
| "status_code Void = 3"
| "status_code Cancelled = 4"

lemma status_code_inject [simp]: "status_code s = status_code t \<longleftrightarrow> s = t"
  by (cases s; cases t) simp_all

text \<open>The statuses are ordered as the life cycle numbers them.\<close>

instantiation MarketStatus :: linorder
begin

definition less_eq_MarketStatus :: "MarketStatus \<Rightarrow> MarketStatus \<Rightarrow> bool" where
  "less_eq_MarketStatus s t \<longleftrightarrow> status_code s \<le> status_code t"

definition less_MarketStatus :: "MarketStatus \<Rightarrow> MarketStatus \<Rightarrow> bool" where
  "less_MarketStatus s t \<longleftrightarrow> status_code s < status_code t"

instance
proof
  fix s t u :: MarketStatus
  show "s < t \<longleftrightarrow> s \<le> t \<and> \<not> t \<le> s"
    by (auto simp: less_eq_MarketStatus_def less_MarketStatus_def)
  show "s \<le> s" by (simp add: less_eq_MarketStatus_def)
  show "s \<le> u" if "s \<le> t" "t \<le> u" using that by (simp add: less_eq_MarketStatus_def)
  show "s = t" if "s \<le> t" "t \<le> s" using that by (simp add: less_eq_MarketStatus_def flip: status_code_inject)
  show "s \<le> t \<or> t \<le> s" by (auto simp: less_eq_MarketStatus_def)
qed

end

subsection \<open>Program errors\<close>

datatype MarketError =
    InvalidAccount | Unauthorized | AlreadyInitialized | InvalidSplit | ZeroAmount | NotFunding
  | OracleNotTerminal | AlreadyFunded | AlreadyClaimed | NotCancelled | OracleResolved | NotBinary
  | WrongMint | NotFunded | PoolNotEmpty | NotActive | AlreadySettled | InvalidFee
  | FeeNotCollected | InvalidOutcome | ContributionsOpen | NotSettled | NotUpgradeAuthority
  | AlreadyDelegated | NotDelegated | InvalidAiResponse

definition market_errors :: "MarketError list" where
  "market_errors =
     [InvalidAccount, Unauthorized, AlreadyInitialized, InvalidSplit, ZeroAmount, NotFunding,
      OracleNotTerminal, AlreadyFunded, AlreadyClaimed, NotCancelled, OracleResolved, NotBinary,
      WrongMint, NotFunded, PoolNotEmpty, NotActive, AlreadySettled, InvalidFee,
      FeeNotCollected, InvalidOutcome, ContributionsOpen, NotSettled, NotUpgradeAuthority,
      AlreadyDelegated, NotDelegated, InvalidAiResponse]"

text \<open>
  The reverse mapping of the enum: a numeric key is a member's code exactly when it indexes
  the list of members.
\<close>

definition decodeError :: "int \<Rightarrow> MarketError option" where
  "decodeError code =
     (if 0 \<le> code \<and> code < int (length market_errors) then Some (market_errors ! nat code)
      else None)"

fun MARKET_ERROR_MESSAGES :: "MarketError \<Rightarrow> string" where
  "MARKET_ERROR_MESSAGES InvalidAccount = ''An account passed to the instruction is invalid (wrong owner, address, or contents).''"
| "MARKET_ERROR_MESSAGES Unauthorized = ''The signer is not authorized to perform this action.''"
| "MARKET_ERROR_MESSAGES AlreadyInitialized = ''The target account is already initialized.''"
| "MARKET_ERROR_MESSAGES InvalidSplit = ''Unused (formerly the open_yes_bps range check; the uneven opening prior was abandoned).''"
| "MARKET_ERROR_MESSAGES ZeroAmount = ''A zero amount was supplied where a positive amount is required.''"
| "MARKET_ERROR_MESSAGES NotFunding = ''The market is not in the Funding status this instruction requires.''"
| "MARKET_ERROR_MESSAGES OracleNotTerminal = ''The oracle has not reached a terminal (resolved/void) phase.''"
| "MARKET_ERROR_MESSAGES AlreadyFunded = ''The market has already reached its funding target / been funded.''"
| "MARKET_ERROR_MESSAGES AlreadyClaimed = ''Unused (the Contribution is now closed at claim/refund, so its absence '' @ [CHR 0x97] @ '' not this flag '' @ [CHR 0x97] @ '' is the idempotency guard).''"
| "MARKET_ERROR_MESSAGES NotCancelled = ''The market is not in the Cancelled status this instruction requires.''"
| "MARKET_ERROR_MESSAGES OracleResolved = ''The oracle has already resolved; this action is no longer permitted.''"
| "MARKET_ERROR_MESSAGES NotBinary = ''The oracle is not a binary (two-option) market.''"
| "MARKET_ERROR_MESSAGES WrongMint = ''A supplied mint does not match the expected mint.''"
| "MARKET_ERROR_MESSAGES NotFunded = ''The market has not been funded yet.''"
| "MARKET_ERROR_MESSAGES PoolNotEmpty = ''The AMM pool / vault is not empty.''"
| "MARKET_ERROR_MESSAGES NotActive = ''The market is not in the Active status this instruction requires.''"
| "MARKET_ERROR_MESSAGES AlreadySettled = ''The market has already been settled.''"
| "MARKET_ERROR_MESSAGES InvalidFee = ''The protocol fee (fee_bps) exceeds the governance maximum.''"
| "MARKET_ERROR_MESSAGES FeeNotCollected = ''The protocol fee has not been collected yet; run collect_fee before claiming LP.''"
| "MARKET_ERROR_MESSAGES InvalidOutcome = ''The requested outcome_index is out of range for the oracle (>= options_count).''"
| "MARKET_ERROR_MESSAGES ContributionsOpen = ''The market still has open contributions (some contributor has not yet claimed/refunded); it cannot be closed until every contribution is exited.''"
| "MARKET_ERROR_MESSAGES NotSettled = ''The market is not in a terminal (Resolved/Void/Cancelled) status, so it cannot be closed.''"
| "MARKET_ERROR_MESSAGES NotUpgradeAuthority = ''The signer is not the program''@[CHR 0x27]@''s on-chain upgrade authority.''"
| "MARKET_ERROR_MESSAGES AlreadyDelegated = ''delegate_market was called on a market whose ErSession is already delegated.''"
| "MARKET_ERROR_MESSAGES NotDelegated = ''commit_market / undelegate_market ran against an ErSession that is not currently delegated.''"
| "MARKET_ERROR_MESSAGES InvalidAiResponse = ''The GPT callback payload was not a parseable option_index in range.''"

lemma decodeError_Some_iff:
  "decodeError c = Some e \<longleftrightarrow> 0 \<le> c \<and> c < 26 \<and> e = market_errors ! nat c"
  by (auto simp: decodeError_def market_errors_def)

subsection \<open>Sizes and limits\<close>

definition MAX_FEE_BPS :: int where
  "MAX_FEE_BPS = 1000"

definition MIN_LIQUIDITY_EMA_THRESHOLD :: int where
  "MIN_LIQUIDITY_EMA_THRESHOLD = 15000000000"

definition MIN_LIQUIDITY_EMA_CAP :: int where
  "MIN_LIQUIDITY_EMA_CAP = 1443000000000"

fun ACCOUNT_SIZES :: "AccountType \<Rightarrow> nat" where
  "ACCOUNT_SIZES TConfig = 160"
| "ACCOUNT_SIZES TMarket = 424"
| "ACCOUNT_SIZES TContribution = 96"
| "ACCOUNT_SIZES TErSession = 96"
| "ACCOUNT_SIZES TSubject = 88"
| "ACCOUNT_SIZES TUninitialized = 0"

definition ER_STATUS_UNDELEGATED :: int where
  "ER_STATUS_UNDELEGATED = 0"

definition ER_STATUS_DELEGATED :: int where
  "ER_STATUS_DELEGATED = 1"

end
