(* ===== verification/Pda.thy ===== *)
theory Pda
  imports Constants
begin

text \<open>
  Program-derived addresses: \<open>sdks/markets/ts/src/pda.ts\<close> (the market program and the GPT
  oracle), \<open>metadao/pda.ts\<close> and the constants of \<open>metadao/constants.ts\<close>.  Every derivation
  is the library's \<open>findProgramAddress\<close> on a list of seeds; the seed lists are the program's
  public contract.  A derived \<open>Pda\<close> is a pair of its address and bump.
\<close>

type_synonym pda = "address \<times> int"

definition derive :: "web3 \<Rightarrow> bytes res list \<Rightarrow> address \<Rightarrow> pda res" where
  "derive W seeds programId =
     bindR (seqR seeds) (\<lambda>ss.
       case findProgramAddress W ss programId of
         Some p \<Rightarrow> Inr p
       | None \<Rightarrow> Inl (Error ''Unable to find a viable program address bump seed''))"

definition deriveMarket :: "web3 \<Rightarrow> bytes res list \<Rightarrow> address option \<Rightarrow> pda res" where
  "deriveMarket W seeds programId = derive W seeds (orElse programId (MARKET_PROGRAM_ID W))"

subsection \<open>pda.ts\<close>

definition pda_config :: "web3 \<Rightarrow> address option \<Rightarrow> pda res" where
  "pda_config W programId = deriveMarket W [Inr (ascii ''config'')] programId"

definition pda_programData :: "web3 \<Rightarrow> address option \<Rightarrow> pda res" where
  "pda_programData W programId =
     derive W [pubkeyBytes W (AddrObj (orElse programId (MARKET_PROGRAM_ID W)))]
       (BPF_UPGRADEABLE_LOADER_ID W)"

definition pda_subject :: "web3 \<Rightarrow> int \<Rightarrow> address option \<Rightarrow> pda res" where
  "pda_subject W nonce programId =
     deriveMarket W [Inr (ascii ''subject''), Inr (u64LE nonce)] programId"

definition pda_market :: "web3 \<Rightarrow> address_input \<Rightarrow> int \<Rightarrow> address option \<Rightarrow> pda res" where
  "pda_market W oracle outcomeIndex programId =
     deriveMarket W
       [Inr (ascii ''market''), pubkeyBytes W oracle, Inr [word_of_int outcomeIndex]] programId"

definition pda_escrow :: "web3 \<Rightarrow> address_input \<Rightarrow> address option \<Rightarrow> pda res" where
  "pda_escrow W marketAddr programId =
     deriveMarket W [Inr (ascii ''escrow''), pubkeyBytes W marketAddr] programId"

definition pda_contribution ::
  "web3 \<Rightarrow> address_input \<Rightarrow> address_input \<Rightarrow> address option \<Rightarrow> pda res" where
  "pda_contribution W marketAddr contributor programId =
     deriveMarket W
       [Inr (ascii ''contribution''), pubkeyBytes W marketAddr, pubkeyBytes W contributor] programId"

definition pda_cyes :: "web3 \<Rightarrow> address_input \<Rightarrow> address option \<Rightarrow> pda res" where
  "pda_cyes W marketAddr programId =
     deriveMarket W [Inr (ascii ''cyes''), pubkeyBytes W marketAddr] programId"

definition pda_cno :: "web3 \<Rightarrow> address_input \<Rightarrow> address option \<Rightarrow> pda res" where
  "pda_cno W marketAddr programId =
     deriveMarket W [Inr (ascii ''cno''), pubkeyBytes W marketAddr] programId"

definition pda_lpVault :: "web3 \<Rightarrow> address_input \<Rightarrow> address option \<Rightarrow> pda res" where
  "pda_lpVault W marketAddr programId =
     deriveMarket W [Inr (ascii ''lp_vault''), pubkeyBytes W marketAddr] programId"

definition pda_erSession :: "web3 \<Rightarrow> address_input \<Rightarrow> address option \<Rightarrow> pda res" where
  "pda_erSession W marketAddr programId =
     deriveMarket W [Inr (ascii ''er_session''), pubkeyBytes W marketAddr] programId"

definition pda_associatedTokenAccount :: "web3 \<Rightarrow> address_input \<Rightarrow> address_input \<Rightarrow> pda res" where
  "pda_associatedTokenAccount W owner mint =
     derive W
       [pubkeyBytes W owner, Inr (address_bytes (TOKEN_PROGRAM_ID W)), pubkeyBytes W mint]
       (ATA_PROGRAM_ID W)"

definition pda_gptOracleIdentity :: "web3 \<Rightarrow> pda res" where
  "pda_gptOracleIdentity W = derive W [Inr (ascii ''identity'')] (GPT_ORACLE_PROGRAM_ID W)"

definition pda_gptOracleInteraction :: "web3 \<Rightarrow> address_input \<Rightarrow> address_input \<Rightarrow> pda res" where
  "pda_gptOracleInteraction W payer context =
     derive W [Inr (ascii ''interaction''), pubkeyBytes W payer, pubkeyBytes W context]
       (GPT_ORACLE_PROGRAM_ID W)"

definition pda_gptOracleCounter :: "web3 \<Rightarrow> pda res" where
  "pda_gptOracleCounter W = derive W [Inr (ascii ''counter'')] (GPT_ORACLE_PROGRAM_ID W)"

definition pda_gptOracleContext :: "web3 \<Rightarrow> int \<Rightarrow> pda res" where
  "pda_gptOracleContext W count =
     derive W [Inr (ascii ''test-context''), Inr (u32LE count)] (GPT_ORACLE_PROGRAM_ID W)"

subsection \<open>metadao/constants.ts and metadao/pda.ts\<close>

text \<open>The Anchor discriminators (\<open>DISC\<close>).\<close>

definition DISC_initializeQuestion :: bytes where
  "DISC_initializeQuestion = [0xf5, 0x97, 0x6a, 0xbc, 0x58, 0x2c, 0x41, 0xd4]"
definition DISC_initializeConditionalVault :: bytes where
  "DISC_initializeConditionalVault = [0x25, 0x58, 0xfa, 0xd4, 0x36, 0xda, 0xe3, 0xaf]"
definition DISC_splitTokens :: bytes where
  "DISC_splitTokens = [0x4f, 0xc3, 0x74, 0x00, 0x8c, 0xb0, 0x49, 0xb3]"
definition DISC_mergeTokens :: bytes where
  "DISC_mergeTokens = [0xe2, 0x59, 0xfb, 0x79, 0xe1, 0x82, 0xb4, 0x0e]"
definition DISC_redeemTokens :: bytes where
  "DISC_redeemTokens = [0xf6, 0x62, 0x86, 0x29, 0x98, 0x21, 0x78, 0x45]"
definition DISC_resolveQuestion :: bytes where
  "DISC_resolveQuestion = [0x34, 0x20, 0xe0, 0xb3, 0xb4, 0x08, 0x00, 0xf6]"
definition DISC_createAmm :: bytes where
  "DISC_createAmm = [0xf2, 0x5b, 0x15, 0xaa, 0x05, 0x44, 0x7d, 0x40]"
definition DISC_addLiquidity :: bytes where
  "DISC_addLiquidity = [0xb5, 0x9d, 0x59, 0x43, 0x8f, 0xb6, 0x34, 0x48]"
definition DISC_swap :: bytes where
  "DISC_swap = [0xf8, 0xc6, 0x9e, 0x91, 0xe1, 0x75, 0x87, 0xc8]"
definition DISC_crankThatTwap :: bytes where
  "DISC_crankThatTwap = [0xdc, 0x64, 0x19, 0xf9, 0x00, 0x5c, 0xc3, 0xc1]"

definition AMM_ACCOUNT_DISCRIMINATOR :: bytes where
  "AMM_ACCOUNT_DISCRIMINATOR = [0x8f, 0xf5, 0xc8, 0x11, 0x4a, 0xd6, 0xc4, 0x87]"
definition AMM_BASE_AMOUNT_OFFSET :: nat where
  "AMM_BASE_AMOUNT_OFFSET = 115"
definition AMM_QUOTE_AMOUNT_OFFSET :: nat where
  "AMM_QUOTE_AMOUNT_OFFSET = 123"

datatype SwapType = Buy | Sell

fun swap_code :: "SwapType \<Rightarrow> int" where
  "swap_code Buy = 0"
| "swap_code Sell = 1"

definition md_question :: "web3 \<Rightarrow> bytes \<Rightarrow> address_input \<Rightarrow> int \<Rightarrow> pda res" where
  "md_question W questionId oracle numOutcomes =
     derive W [Inr (ascii ''question''), Inr questionId, pubkeyBytes W oracle, Inr (u8 numOutcomes)]
       (CONDITIONAL_VAULT_ID W)"

definition md_conditionalVault :: "web3 \<Rightarrow> address_input \<Rightarrow> address_input \<Rightarrow> pda res" where
  "md_conditionalVault W question underlyingMint =
     derive W
       [Inr (ascii ''conditional_vault''), pubkeyBytes W question, pubkeyBytes W underlyingMint]
       (CONDITIONAL_VAULT_ID W)"

definition md_conditionalTokenMint :: "web3 \<Rightarrow> address_input \<Rightarrow> int \<Rightarrow> pda res" where
  "md_conditionalTokenMint W vault index =
     derive W [Inr (ascii ''conditional_token''), pubkeyBytes W vault, Inr (u8 index)]
       (CONDITIONAL_VAULT_ID W)"

definition md_vaultEventAuthority :: "web3 \<Rightarrow> pda res" where
  "md_vaultEventAuthority W = derive W [Inr (ascii ''__event_authority'')] (CONDITIONAL_VAULT_ID W)"

definition md_amm :: "web3 \<Rightarrow> address_input \<Rightarrow> address_input \<Rightarrow> pda res" where
  "md_amm W baseMint quoteMint =
     derive W [Inr (ascii ''amm__''), pubkeyBytes W baseMint, pubkeyBytes W quoteMint] (AMM_V04_ID W)"

definition md_ammLpMint :: "web3 \<Rightarrow> address_input \<Rightarrow> pda res" where
  "md_ammLpMint W ammAddr =
     derive W [Inr (ascii ''amm_lp_mint''), pubkeyBytes W ammAddr] (AMM_V04_ID W)"

definition md_ammEventAuthority :: "web3 \<Rightarrow> pda res" where
  "md_ammEventAuthority W = derive W [Inr (ascii ''__event_authority'')] (AMM_V04_ID W)"

definition md_eventAuthority :: "web3 \<Rightarrow> address \<Rightarrow> pda res" where
  "md_eventAuthority W programId = derive W [Inr (ascii ''__event_authority'')] programId"

definition md_ata :: "web3 \<Rightarrow> address_input \<Rightarrow> address_input \<Rightarrow> address res" where
  "md_ata W owner mint =
     mapR fst (derive W
       [pubkeyBytes W owner, Inr (address_bytes (TOKEN_PROGRAM_ID W)), pubkeyBytes W mint]
       (ATA_PROGRAM_ID W))"

subsection \<open>The two derivations of a token account agree\<close>

lemma md_ata_associatedTokenAccount:
  "md_ata W owner mint = mapR fst (pda_associatedTokenAccount W owner mint)"
  by (simp add: md_ata_def pda_associatedTokenAccount_def)

subsection \<open>The seeds separate the accounts\<close>

text \<open>
  The kinds of accounts the market program owns, with what selects one; \<open>seeds_of\<close> collects
  the seed lists the derivations above pass.  The chain hashes the concatenation of the seeds,
  so that separation has to hold for the concatenation.
\<close>

datatype pda_kind =
    KConfig | KSubject int | KMarket address int | KEscrow address | KContribution address address
  | KCyes address | KCno address | KLpVault address | KErSession address

fun seeds_of :: "pda_kind \<Rightarrow> bytes list" where
  "seeds_of KConfig = [ascii ''config'']"
| "seeds_of (KSubject nonce) = [ascii ''subject'', u64LE nonce]"
| "seeds_of (KMarket oracle i) = [ascii ''market'', address_bytes oracle, [word_of_int i]]"
| "seeds_of (KEscrow m) = [ascii ''escrow'', address_bytes m]"
| "seeds_of (KContribution m c) = [ascii ''contribution'', address_bytes m, address_bytes c]"
| "seeds_of (KCyes m) = [ascii ''cyes'', address_bytes m]"
| "seeds_of (KCno m) = [ascii ''cno'', address_bytes m]"
| "seeds_of (KLpVault m) = [ascii ''lp_vault'', address_bytes m]"
| "seeds_of (KErSession m) = [ascii ''er_session'', address_bytes m]"

fun derive_kind :: "web3 \<Rightarrow> pda_kind \<Rightarrow> address option \<Rightarrow> pda res" where
  "derive_kind W KConfig p = pda_config W p"
| "derive_kind W (KSubject nonce) p = pda_subject W nonce p"
| "derive_kind W (KMarket oracle i) p = pda_market W (AddrObj oracle) i p"
| "derive_kind W (KEscrow m) p = pda_escrow W (AddrObj m) p"
| "derive_kind W (KContribution m c) p = pda_contribution W (AddrObj m) (AddrObj c) p"
| "derive_kind W (KCyes m) p = pda_cyes W (AddrObj m) p"
| "derive_kind W (KCno m) p = pda_cno W (AddrObj m) p"
| "derive_kind W (KLpVault m) p = pda_lpVault W (AddrObj m) p"
| "derive_kind W (KErSession m) p = pda_erSession W (AddrObj m) p"

fun wf_kind :: "pda_kind \<Rightarrow> bool" where
  "wf_kind KConfig = True"
| "wf_kind (KSubject nonce) = (0 \<le> nonce \<and> nonce < 18446744073709551616)"
| "wf_kind (KMarket oracle i) = (wf_address oracle \<and> 0 \<le> i \<and> i < 256)"
| "wf_kind (KContribution m c) = (wf_address m \<and> wf_address c)"
| "wf_kind (KEscrow m) = wf_address m"
| "wf_kind (KCyes m) = wf_address m"
| "wf_kind (KCno m) = wf_address m"
| "wf_kind (KLpVault m) = wf_address m"
| "wf_kind (KErSession m) = wf_address m"

lemmas market_pda_defs =
  pda_config_def pda_subject_def pda_market_def pda_escrow_def pda_contribution_def pda_cyes_def
  pda_cno_def pda_lpVault_def pda_erSession_def deriveMarket_def

lemma derive_kind_seeds:
  "derive_kind W k p = derive W (map Inr (seeds_of k)) (orElse p (MARKET_PROGRAM_ID W))"
  by (cases k) (simp_all add: market_pda_defs)

fun seeds_length :: "pda_kind \<Rightarrow> nat" where
  "seeds_length KConfig = 6"
| "seeds_length (KSubject nonce) = 15"
| "seeds_length (KMarket oracle i) = 39"
| "seeds_length (KContribution m c) = 76"
| "seeds_length (KEscrow m) = 38"
| "seeds_length (KCyes m) = 36"
| "seeds_length (KCno m) = 35"
| "seeds_length (KLpVault m) = 40"
| "seeds_length (KErSession m) = 42"

lemma length_seeds: "wf_kind k \<Longrightarrow> length (concat (seeds_of k)) = seeds_length k"
  by (cases k) (simp_all add: wf_address_def)

lemma seeds_of_inject:
  assumes "wf_kind k" and "wf_kind k'" and eq: "concat (seeds_of k) = concat (seeds_of k')"
  shows "k = k'"
proof -
  have "seeds_length k = seeds_length k'"
    using length_seeds [OF assms(1)] length_seeds [OF assms(2)] eq by simp
  then show ?thesis
    using assms by (cases k; cases k')
      (auto simp: wf_address_def Address_eq_iff append_eq_append_conv
        word_of_int_eq_iff take_bit_int_eq_self dest: c64.enc_inject)
qed

end
