(* ===== verification/Accounts.thy ===== *)
theory Accounts
  imports Constants
begin

text \<open>
  The account decoders of \<open>sdks/markets/ts/src/accounts/\<close>: one record per decoded account, the
  size and tag check, and the decoders with the source's byte offsets.  The program writes the
  accounts from the \<open>repr(C)\<close> structs of \<open>programs/markets/src/state.rs\<close>; their layout is
  modelled as an encoder, field by field in declaration order with the explicit padding, and the
  contract between the two is the locale \<open>account_codec\<close>.
  Enum-typed fields stay the raw byte, as the source's casts leave them.
\<close>

subsection \<open>common.ts\<close>

definition readPubkey :: "bytes \<Rightarrow> nat \<Rightarrow> address" where
  "readPubkey data off = Address (take 32 (drop off data))"

text \<open>The reverse lookup of the enumeration, \<open>AccountType[tag]\<close>.\<close>

definition accountTypeName :: "int \<Rightarrow> string option" where
  "accountTypeName tag =
     (if tag = 0 then Some ''Uninitialized'' else if tag = 1 then Some ''Config''
      else if tag = 2 then Some ''Market'' else if tag = 3 then Some ''Contribution''
      else if tag = 4 then Some ''ErSession'' else if tag = 5 then Some ''Subject'' else None)"

definition assertAccount :: "bytes \<Rightarrow> AccountType \<Rightarrow> nat \<Rightarrow> string \<Rightarrow> unit res" where
  "assertAccount data expectedType sz name =
     (if length data \<noteq> sz then Inl (Error (name @ '': wrong account size '' @ [CHR 0x97] @
       '' expected '' @ show_int (int sz) @ '' bytes, got '' @ show_int (int (length data)) @ ''.''))
      else if uint (data ! 0) \<noteq> account_type_code expectedType
        then Inl (Error (name @ '': wrong account_type tag '' @ [CHR 0x97] @ '' expected '' @
          show_int (account_type_code expectedType) @ '' ('' @
          orElse (accountTypeName (account_type_code expectedType)) ''undefined'' @ ''), got '' @
          show_int (uint (data ! 0)) @ '' ('' @ orElse (accountTypeName (uint (data ! 0))) ''unknown'' @ '').''))
      else Inr ())"

subsection \<open>config.ts\<close>

record Config =
  cf_authority :: address
  cf_baseMint :: address
  cf_minLiquidity :: int
  cf_bump :: int
  cf_feeBps :: int
  cf_feeDestination :: address
  cf_marketCreationEma :: int
  cf_lastMarketCreationUnix :: int
  cf_minLiquidityEmaThreshold :: int
  cf_minLiquidityEmaCap :: int
  cf_minLiquidityMax :: int

definition decodeConfig :: "bytes \<Rightarrow> Config res" where
  "decodeConfig data =
     bindR (assertAccount data TConfig (ACCOUNT_SIZES TConfig) ''Config'') (\<lambda>_.
     bindR (readU64LE data 72) (\<lambda>minLiquidity.
     bindR (readU8 data 80) (\<lambda>bump.
     bindR (readU16LE data 82) (\<lambda>feeBps.
     bindR (readU64LE data 120) (\<lambda>marketCreationEma.
     bindR (readI64LE data 128) (\<lambda>lastMarketCreationUnix.
     bindR (readU64LE data 136) (\<lambda>minLiquidityEmaThreshold.
     bindR (readU64LE data 144) (\<lambda>minLiquidityEmaCap.
     bindR (readU64LE data 152) (\<lambda>minLiquidityMax.
     Inr \<lparr>
       cf_authority = readPubkey data 8,
       cf_baseMint = readPubkey data 40,
       cf_minLiquidity = minLiquidity,
       cf_bump = bump,
       cf_feeBps = feeBps,
       cf_feeDestination = readPubkey data 84,
       cf_marketCreationEma = marketCreationEma,
       cf_lastMarketCreationUnix = lastMarketCreationUnix,
       cf_minLiquidityEmaThreshold = minLiquidityEmaThreshold,
       cf_minLiquidityEmaCap = minLiquidityEmaCap,
       cf_minLiquidityMax = minLiquidityMax\<rparr>)))))))))"

subsection \<open>market.ts\<close>

record Market =
  mk_oracle :: address
  mk_creator :: address
  mk_baseMint :: address
  mk_escrowVault :: address
  mk_minLiquidity :: int
  mk_totalContributed :: int
  mk_openContributions :: int
  mk_status :: int
  mk_bump :: int
  mk_escrowBump :: int
  mk_question :: address
  mk_vault :: address
  mk_yesMint :: address
  mk_noMint :: address
  mk_amm :: address
  mk_lpMint :: address
  mk_lpVault :: address
  mk_lpTotal :: int
  mk_settled :: bool
  mk_feeBps :: int
  mk_feeCollected :: bool
  mk_outcomeIndex :: int
  mk_activationLp :: int
  mk_activationContributed :: int
  mk_grossLpTotal :: int

definition decodeMarket :: "bytes \<Rightarrow> Market res" where
  "decodeMarket data =
     bindR (assertAccount data TMarket (ACCOUNT_SIZES TMarket) ''Market'') (\<lambda>_.
     bindR (readU64LE data 136) (\<lambda>minLiquidity.
     bindR (readU64LE data 144) (\<lambda>totalContributed.
     bindR (readU16LE data 152) (\<lambda>openContributions.
     bindR (readU8 data 154) (\<lambda>status.
     bindR (readU8 data 155) (\<lambda>bump.
     bindR (readU8 data 156) (\<lambda>escrowBump.
     bindR (readU64LE data 384) (\<lambda>lpTotal.
     bindR (readBool data 392) (\<lambda>settled.
     bindR (readU16LE data 394) (\<lambda>feeBps.
     bindR (readBool data 396) (\<lambda>feeCollected.
     bindR (readU8 data 397) (\<lambda>outcomeIndex.
     bindR (readU64LE data 400) (\<lambda>activationLp.
     bindR (readU64LE data 408) (\<lambda>activationContributed.
     bindR (readU64LE data 416) (\<lambda>grossLpTotal.
     Inr \<lparr>
       mk_oracle = readPubkey data 8,
       mk_creator = readPubkey data 40,
       mk_baseMint = readPubkey data 72,
       mk_escrowVault = readPubkey data 104,
       mk_minLiquidity = minLiquidity,
       mk_totalContributed = totalContributed,
       mk_openContributions = openContributions,
       mk_status = status,
       mk_bump = bump,
       mk_escrowBump = escrowBump,
       mk_question = readPubkey data 160,
       mk_vault = readPubkey data 192,
       mk_yesMint = readPubkey data 224,
       mk_noMint = readPubkey data 256,
       mk_amm = readPubkey data 288,
       mk_lpMint = readPubkey data 320,
       mk_lpVault = readPubkey data 352,
       mk_lpTotal = lpTotal,
       mk_settled = settled,
       mk_feeBps = feeBps,
       mk_feeCollected = feeCollected,
       mk_outcomeIndex = outcomeIndex,
       mk_activationLp = activationLp,
       mk_activationContributed = activationContributed,
       mk_grossLpTotal = grossLpTotal\<rparr>)))))))))))))))"

subsection \<open>contribution.ts and erSession.ts\<close>

record Contribution =
  cn_market :: address
  cn_contributor :: address
  cn_amount :: int
  cn_claimed :: bool
  cn_bump :: int
  cn_lateLp :: int

definition decodeContribution :: "bytes \<Rightarrow> Contribution res" where
  "decodeContribution data =
     bindR (assertAccount data TContribution (ACCOUNT_SIZES TContribution) ''Contribution'') (\<lambda>_.
     bindR (readU64LE data 72) (\<lambda>amount.
     bindR (readBool data 80) (\<lambda>claimed.
     bindR (readU8 data 81) (\<lambda>bump.
     bindR (readU64LE data 88) (\<lambda>lateLp.
     Inr \<lparr>
       cn_market = readPubkey data 8,
       cn_contributor = readPubkey data 40,
       cn_amount = amount,
       cn_claimed = claimed,
       cn_bump = bump,
       cn_lateLp = lateLp\<rparr>)))))"

record ErSession =
  es_bump :: int
  es_status :: int
  es_market :: address
  es_validator :: address
  es_commitFrequencyMs :: int
  es_delegatedAt :: int
  es_lastCommitSlot :: int

definition decodeErSession :: "bytes \<Rightarrow> ErSession res" where
  "decodeErSession data =
     bindR (assertAccount data TErSession (ACCOUNT_SIZES TErSession) ''ErSession'') (\<lambda>_.
     bindR (readU8 data 1) (\<lambda>bump.
     bindR (readU8 data 2) (\<lambda>status.
     bindR (readU32LE data 72) (\<lambda>commitFrequencyMs.
     bindR (readI64LE data 80) (\<lambda>delegatedAt.
     bindR (readU64LE data 88) (\<lambda>lastCommitSlot.
     Inr \<lparr>
       es_bump = bump,
       es_status = status,
       es_market = readPubkey data 8,
       es_validator = readPubkey data 40,
       es_commitFrequencyMs = commitFrequencyMs,
       es_delegatedAt = delegatedAt,
       es_lastCommitSlot = lastCommitSlot\<rparr>))))))"

subsection \<open>oracle.ts\<close>

text \<open>\<open>Proposal\<close> and \<open>InvalidDeadend\<close> are aliases of \<open>Open\<close> and \<open>Void\<close>.\<close>

datatype Phase = PhaseOpen | PhaseResolved | PhaseVoid

fun phase_code :: "Phase \<Rightarrow> int" where
  "phase_code PhaseOpen = 0"
| "phase_code PhaseResolved = 1"
| "phase_code PhaseVoid = 2"

text \<open>\<open>SUBJECT_LEN\<close>.\<close>

definition SUBJECT_LEN :: nat where
  "SUBJECT_LEN = 88"

text \<open>The optional fields are set by the decoder and may be absent from other constructors.\<close>

record MarketOracle =
  or_optionsCount :: int
  or_phase :: int
  or_resolvedOption :: int
  or_creator :: "address option"
  or_llmContext :: "address option"
  or_nonce :: "int option"
  or_resolvedSlot :: "int option"

definition decodeMarketOracle :: "bytes \<Rightarrow> MarketOracle res" where
  "decodeMarketOracle data =
     (if length data < SUBJECT_LEN then Inl (Error (''Subject: too short '' @ [CHR 0x97] @ '' need '' @ show_int (int SUBJECT_LEN) @
       '' bytes, got '' @ show_int (int (length data)) @ ''.''))
      else
        bindR (readU8 data 2) (\<lambda>optionsCount.
        bindR (readU8 data 3) (\<lambda>phase.
        bindR (readU8 data 4) (\<lambda>resolvedOption.
        bindR (readU64LE data 72) (\<lambda>nonce.
        bindR (readU64LE data 80) (\<lambda>resolvedSlot.
        Inr \<lparr>
          or_optionsCount = optionsCount,
          or_phase = phase,
          or_resolvedOption = resolvedOption,
          or_creator = Some (readPubkey data 8),
          or_llmContext = Some (readPubkey data 40),
          or_nonce = Some nonce,
          or_resolvedSlot = Some resolvedSlot\<rparr>))))))"

definition isTerminal :: "int \<Rightarrow> bool" where
  "isTerminal phase \<longleftrightarrow> phase = phase_code PhaseResolved \<or> phase = phase_code PhaseVoid"

definition resolvedOptionOrNull :: "MarketOracle \<Rightarrow> int option" where
  "resolvedOptionOrNull oracle =
     (if or_phase oracle = phase_code PhaseResolved then Some (or_resolvedOption oracle) else None)"

subsection \<open>The program's layout of the accounts (state.rs)\<close>

definition boolByte :: "bool \<Rightarrow> bytes" where
  "boolByte b = u8 (if b then 1 else 0)"

definition pad :: "nat \<Rightarrow> bytes" where
  "pad n = replicate n 0"

definition layoutConfig :: "Config \<Rightarrow> bytes" where
  "layoutConfig c =
     u8 (account_type_code TConfig) @ pad 7 @ address_bytes (cf_authority c) @
     address_bytes (cf_baseMint c) @ u64LE (cf_minLiquidity c) @ u8 (cf_bump c) @ pad 1 @
     u16LE (cf_feeBps c) @ address_bytes (cf_feeDestination c) @ pad 4 @
     u64LE (cf_marketCreationEma c) @ i64LE (cf_lastMarketCreationUnix c) @
     u64LE (cf_minLiquidityEmaThreshold c) @ u64LE (cf_minLiquidityEmaCap c) @
     u64LE (cf_minLiquidityMax c)"

definition layoutMarket :: "Market \<Rightarrow> bytes" where
  "layoutMarket m =
     u8 (account_type_code TMarket) @ pad 7 @ address_bytes (mk_oracle m) @
     address_bytes (mk_creator m) @ address_bytes (mk_baseMint m) @
     address_bytes (mk_escrowVault m) @ u64LE (mk_minLiquidity m) @
     u64LE (mk_totalContributed m) @ u16LE (mk_openContributions m) @ u8 (mk_status m) @
     u8 (mk_bump m) @ u8 (mk_escrowBump m) @ pad 3 @ address_bytes (mk_question m) @
     address_bytes (mk_vault m) @ address_bytes (mk_yesMint m) @ address_bytes (mk_noMint m) @
     address_bytes (mk_amm m) @ address_bytes (mk_lpMint m) @ address_bytes (mk_lpVault m) @
     u64LE (mk_lpTotal m) @ boolByte (mk_settled m) @ pad 1 @ u16LE (mk_feeBps m) @
     boolByte (mk_feeCollected m) @ u8 (mk_outcomeIndex m) @ pad 2 @ u64LE (mk_activationLp m) @
     u64LE (mk_activationContributed m) @ u64LE (mk_grossLpTotal m)"

definition layoutContribution :: "Contribution \<Rightarrow> bytes" where
  "layoutContribution c =
     u8 (account_type_code TContribution) @ pad 7 @ address_bytes (cn_market c) @
     address_bytes (cn_contributor c) @ u64LE (cn_amount c) @ boolByte (cn_claimed c) @
     u8 (cn_bump c) @ pad 6 @ u64LE (cn_lateLp c)"

definition layoutErSession :: "ErSession \<Rightarrow> bytes" where
  "layoutErSession s =
     u8 (account_type_code TErSession) @ u8 (es_bump s) @ u8 (es_status s) @ pad 5 @
     address_bytes (es_market s) @ address_bytes (es_validator s) @
     u32LE (es_commitFrequencyMs s) @ pad 4 @ i64LE (es_delegatedAt s) @
     u64LE (es_lastCommitSlot s)"

text \<open>The values a struct's fields can hold.\<close>

definition is_u8 :: "int \<Rightarrow> bool" where
  "is_u8 v \<longleftrightarrow> 0 \<le> v \<and> v < 256"

definition is_u16 :: "int \<Rightarrow> bool" where
  "is_u16 v \<longleftrightarrow> 0 \<le> v \<and> v < 65536"

definition is_u32 :: "int \<Rightarrow> bool" where
  "is_u32 v \<longleftrightarrow> 0 \<le> v \<and> v < 4294967296"

definition is_u64 :: "int \<Rightarrow> bool" where
  "is_u64 v \<longleftrightarrow> 0 \<le> v \<and> v < 18446744073709551616"

definition is_i64 :: "int \<Rightarrow> bool" where
  "is_i64 v \<longleftrightarrow> -9223372036854775808 \<le> v \<and> v < 9223372036854775808"

definition wf_Config :: "Config \<Rightarrow> bool" where
  "wf_Config c \<longleftrightarrow>
     wf_address (cf_authority c) \<and> wf_address (cf_baseMint c) \<and> is_u64 (cf_minLiquidity c) \<and>
     is_u8 (cf_bump c) \<and> is_u16 (cf_feeBps c) \<and> wf_address (cf_feeDestination c) \<and>
     is_u64 (cf_marketCreationEma c) \<and> is_i64 (cf_lastMarketCreationUnix c) \<and>
     is_u64 (cf_minLiquidityEmaThreshold c) \<and> is_u64 (cf_minLiquidityEmaCap c) \<and>
     is_u64 (cf_minLiquidityMax c)"

definition wf_Market :: "Market \<Rightarrow> bool" where
  "wf_Market m \<longleftrightarrow>
     wf_address (mk_oracle m) \<and> wf_address (mk_creator m) \<and> wf_address (mk_baseMint m) \<and>
     wf_address (mk_escrowVault m) \<and> is_u64 (mk_minLiquidity m) \<and>
     is_u64 (mk_totalContributed m) \<and> is_u16 (mk_openContributions m) \<and> is_u8 (mk_status m) \<and>
     is_u8 (mk_bump m) \<and> is_u8 (mk_escrowBump m) \<and> wf_address (mk_question m) \<and>
     wf_address (mk_vault m) \<and> wf_address (mk_yesMint m) \<and> wf_address (mk_noMint m) \<and>
     wf_address (mk_amm m) \<and> wf_address (mk_lpMint m) \<and> wf_address (mk_lpVault m) \<and>
     is_u64 (mk_lpTotal m) \<and> is_u16 (mk_feeBps m) \<and> is_u8 (mk_outcomeIndex m) \<and>
     is_u64 (mk_activationLp m) \<and> is_u64 (mk_activationContributed m) \<and>
     is_u64 (mk_grossLpTotal m)"

definition wf_Contribution :: "Contribution \<Rightarrow> bool" where
  "wf_Contribution c \<longleftrightarrow>
     wf_address (cn_market c) \<and> wf_address (cn_contributor c) \<and> is_u64 (cn_amount c) \<and>
     is_u8 (cn_bump c) \<and> is_u64 (cn_lateLp c)"

definition wf_ErSession :: "ErSession \<Rightarrow> bool" where
  "wf_ErSession s \<longleftrightarrow>
     is_u8 (es_bump s) \<and> is_u8 (es_status s) \<and> wf_address (es_market s) \<and>
     wf_address (es_validator s) \<and> is_u32 (es_commitFrequencyMs s) \<and>
     is_i64 (es_delegatedAt s) \<and> is_u64 (es_lastCommitSlot s)"

subsection \<open>Reading a field of a concatenation\<close>

definition fld :: "nat \<Rightarrow> nat \<Rightarrow> bytes \<Rightarrow> bytes" where
  "fld off n bs = take n (drop off bs)"

lemma fld_skip: "length p \<le> off \<Longrightarrow> fld off n (p @ bs) = fld (off - length p) n bs"
  by (simp add: fld_def)

lemma fld_here: "length p = n \<Longrightarrow> fld 0 n (p @ bs) = p"
  by (simp add: fld_def)

lemma fld_last: "length p = n \<Longrightarrow> fld 0 n p = p"
  by (simp add: fld_def)

lemma length_pad [simp]: "length (pad n) = n"
  by (simp add: pad_def)

lemma length_boolByte [simp]: "length (boolByte b) = 1"
  by (simp add: boolByte_def)

lemma length_address_bytes [simp]: "wf_address a \<Longrightarrow> length (address_bytes a) = 32"
  by (simp add: wf_address_def)

lemma read_fld:
  "off + 1 \<le> length dv \<Longrightarrow> readU8 dv off = Inr (le_uint (fld off 1 dv))"
  "off + 2 \<le> length dv \<Longrightarrow> readU16LE dv off = Inr (le_uint (fld off 2 dv))"
  "off + 4 \<le> length dv \<Longrightarrow> readU32LE dv off = Inr (le_uint (fld off 4 dv))"
  "off + 8 \<le> length dv \<Longrightarrow> readU64LE dv off = Inr (le_uint (fld off 8 dv))"
  "off + 8 \<le> length dv \<Longrightarrow> readI64LE dv off = Inr (le_sint (fld off 8 dv))"
  "off + 1 \<le> length dv \<Longrightarrow> readBool dv off = Inr (le_uint (fld off 1 dv) \<noteq> 0)"
  by (simp_all add: fld_def readU8_def readU16LE_def readU32LE_def readU64LE_def readI64LE_def
      readBool_def getUint_def getInt_def)

lemma readPubkey_fld: "readPubkey dv off = Address (fld off 32 dv)"
  by (simp add: readPubkey_def fld_def)

lemma le_field:
  "is_u8 v \<Longrightarrow> le_uint (u8 v) = v"
  "is_u16 v \<Longrightarrow> le_uint (u16LE v) = v"
  "is_u32 v \<Longrightarrow> le_uint (u32LE v) = v"
  "is_u64 v \<Longrightarrow> le_uint (u64LE v) = v"
  "is_i64 v \<Longrightarrow> le_sint (i64LE v) = v"
  "le_uint (boolByte b) = (if b then 1 else 0)"
  by (simp_all add: is_u8_def is_u16_def is_u32_def is_u64_def is_i64_def u8_le_bytes u16LE_def
      u32LE_def u64LE_def i64LE_def boolByte_def le_uint_le_bytes le_sint_le_bytes del: le_bytes.simps)

lemma u8_nth_0: "(u8 v @ bs) ! 0 = word_of_int v"
  by (simp add: u8_def)

lemma uint_account_type_code [simp]:
  "uint (word_of_int (account_type_code t) :: 8 word) = account_type_code t"
  by (cases t) simp_all

lemma assertAccount_Inr_iff:
  "assertAccount data t n name = Inr u \<longleftrightarrow>
     length data = n \<and> uint (data ! 0) = account_type_code t"
  by (simp add: assertAccount_def)

subsection \<open>The contract between the layout and the decoder\<close>

text \<open>
  A layout and a decoder of one account type: decoding a laid out account returns it, and a
  buffer decodes exactly when it has the type's size and tag.
\<close>

locale account_codec =
  fixes layout :: "'a \<Rightarrow> bytes"
    and decode :: "bytes \<Rightarrow> 'a res"
    and wf :: "'a \<Rightarrow> bool"
    and t :: AccountType
  assumes decode_layout: "wf a \<Longrightarrow> decode (layout a) = Inr a"
    and decode_ok: "okR (decode d) \<longleftrightarrow>
      length d = ACCOUNT_SIZES t \<and> uint (d ! 0) = account_type_code t"
begin

lemma layout_inject: "wf a \<Longrightarrow> wf b \<Longrightarrow> layout a = layout b \<Longrightarrow> a = b"
  by (metis decode_layout sum.inject(2))

lemma length_layout: "wf a \<Longrightarrow> length (layout a) = ACCOUNT_SIZES t"
  using decode_ok [of "layout a"] by (simp add: decode_layout)

lemma layout_tag: "wf a \<Longrightarrow> uint (layout a ! 0) = account_type_code t"
  using decode_ok [of "layout a"] by (simp add: decode_layout)

lemma decode_total: "length d = ACCOUNT_SIZES t \<Longrightarrow> uint (d ! 0) = account_type_code t \<Longrightarrow> \<exists>a. decode d = Inr a"
  using decode_ok [of d] by (simp add: okR_iff)

lemma decode_rejects: "length d \<noteq> ACCOUNT_SIZES t \<or> uint (d ! 0) \<noteq> account_type_code t \<Longrightarrow> \<exists>e. decode d = Inl e"
  using decode_ok [of d] by (cases "decode d") auto

end

lemmas layout_simps =
  assertAccount_def read_fld readPubkey_fld fld_skip fld_here fld_last le_field u8_nth_0

lemma okR_bindR: "okR (bindR x f) \<longleftrightarrow> (\<exists>a. x = Inr a \<and> okR (f a))"
  by (cases x) auto

interpretation acc_config: account_codec layoutConfig decodeConfig wf_Config TConfig
proof unfold_locales
  fix c :: Config and d :: bytes
  show "decodeConfig (layoutConfig c) = Inr c" if "wf_Config c"
    using that by (simp add: wf_Config_def decodeConfig_def layoutConfig_def layout_simps)
  show "okR (decodeConfig d) \<longleftrightarrow> length d = ACCOUNT_SIZES TConfig \<and> uint (d ! 0) = account_type_code TConfig"
    by (auto simp: decodeConfig_def okR_bindR assertAccount_Inr_iff read_fld)
qed

interpretation acc_market: account_codec layoutMarket decodeMarket wf_Market TMarket
proof unfold_locales
  fix m :: Market and d :: bytes
  show "decodeMarket (layoutMarket m) = Inr m" if "wf_Market m"
    using that by (simp add: wf_Market_def decodeMarket_def layoutMarket_def layout_simps)
  show "okR (decodeMarket d) \<longleftrightarrow> length d = ACCOUNT_SIZES TMarket \<and> uint (d ! 0) = account_type_code TMarket"
    by (auto simp: decodeMarket_def okR_bindR assertAccount_Inr_iff read_fld)
qed

interpretation acc_contribution:
  account_codec layoutContribution decodeContribution wf_Contribution TContribution
proof unfold_locales
  fix c :: Contribution and d :: bytes
  show "decodeContribution (layoutContribution c) = Inr c" if "wf_Contribution c"
    using that
    by (simp add: wf_Contribution_def decodeContribution_def layoutContribution_def layout_simps)
  show "okR (decodeContribution d) \<longleftrightarrow>
      length d = ACCOUNT_SIZES TContribution \<and> uint (d ! 0) = account_type_code TContribution"
    by (auto simp: decodeContribution_def okR_bindR assertAccount_Inr_iff read_fld)
qed

interpretation acc_er: account_codec layoutErSession decodeErSession wf_ErSession TErSession
proof unfold_locales
  fix s :: ErSession and d :: bytes
  show "decodeErSession (layoutErSession s) = Inr s" if "wf_ErSession s"
    using that
    by (simp add: wf_ErSession_def decodeErSession_def layoutErSession_def layout_simps)
  show "okR (decodeErSession d) \<longleftrightarrow>
      length d = ACCOUNT_SIZES TErSession \<and> uint (d ! 0) = account_type_code TErSession"
    by (auto simp: decodeErSession_def okR_bindR assertAccount_Inr_iff read_fld)
qed

end
