(* ===== verification/MarketIx.thy ===== *)
theory MarketIx
  imports Pda Accounts
begin

text \<open>
  The instruction builders of \<open>sdks/markets/ts/src/instructions/\<close>: an argument record per
  interface (its fields in the source's order, an optional field as an option) and one
  definition per builder.  A builder derives its program addresses first, in the order of its
  \<open>await\<close>s, and rejects when a derivation does; then it lists the account metas and encodes
  the data, whose first byte is the discriminant.  Arguments of type \<open>bigint | number\<close> are
  integers.
\<close>

definition withDisc :: "Ix \<Rightarrow> bytes list \<Rightarrow> bytes" where
  "withDisc disc payload = concatBytes (u8 (ix_code disc) # payload)"

definition PID :: "web3 \<Rightarrow> address option \<Rightarrow> address" where
  "PID W programId = orElse programId (MARKET_PROGRAM_ID W)"

text \<open>An optional address argument with a constant default, \<open>args.cvProgram ?? CONST\<close>.\<close>

definition orAddr :: "address_input option \<Rightarrow> address \<Rightarrow> address_input" where
  "orAddr a d = orElse a (AddrObj d)"

subsection \<open>config.ts\<close>

text \<open>The optional arguments \<open>MinLiquidityCurveArgs\<close>, shared by the two builders.\<close>

record curve_args =
  cu_minLiquidityEmaThreshold :: "int option"
  cu_minLiquidityEmaCap :: "int option"
  cu_minLiquidityMax :: "int option"

record init_config_args = curve_args +
  ic_payer :: address_input
  ic_baseMint :: address_input
  ic_authority :: address_input
  ic_minLiquidity :: int
  ic_feeBps :: int
  ic_feeDestination :: address_input
  ic_programId :: "address option"

definition ix_initConfig :: "web3 \<Rightarrow> init_config_args \<Rightarrow> instruction res" where
  "ix_initConfig W a =
     (let programId = PID W (ic_programId a) in
     bindR (pda_config W (Some programId)) (\<lambda>config.
     bindR (pda_programData W (Some programId)) (\<lambda>programData.
     mkIx programId
       [Inr (meta_w (fst config) False),
        wA W (ic_payer a) True,
        roA W (ic_baseMint a) False,
        roA W (ic_feeDestination a) False,
        Inr (meta_ro (SYSTEM_PROGRAM_ID W) False),
        Inr (meta_ro (fst programData) False)]
       (bindR (pubkeyBytes W (ic_authority a)) (\<lambda>authority.
        bindR (pubkeyBytes W (ic_feeDestination a)) (\<lambda>feeDestination.
        Inr (withDisc InitConfig
          [authority,
           u64LE (ic_minLiquidity a),
           u16LE (ic_feeBps a),
           feeDestination,
           u64LE (orElse (cu_minLiquidityEmaThreshold a) MIN_LIQUIDITY_EMA_THRESHOLD),
           u64LE (orElse (cu_minLiquidityEmaCap a) MIN_LIQUIDITY_EMA_CAP),
           u64LE (orElse (cu_minLiquidityMax a) (ic_minLiquidity a))])))))))"

record update_config_args = curve_args +
  uc_authority :: address_input
  uc_minLiquidity :: int
  uc_feeBps :: int
  uc_feeDestination :: address_input
  uc_programId :: "address option"

definition ix_updateConfig :: "web3 \<Rightarrow> update_config_args \<Rightarrow> instruction res" where
  "ix_updateConfig W a =
     (let programId = PID W (uc_programId a) in
     bindR (pda_config W (Some programId)) (\<lambda>config.
     mkIx programId
       [Inr (meta_w (fst config) False),
        roA W (uc_authority a) True,
        roA W (uc_feeDestination a) False]
       (bindR (pubkeyBytes W (uc_feeDestination a)) (\<lambda>feeDestination.
        Inr (withDisc UpdateConfig
          [u64LE (uc_minLiquidity a),
           u16LE (uc_feeBps a),
           feeDestination,
           u64LE (orElse (cu_minLiquidityEmaThreshold a) MIN_LIQUIDITY_EMA_THRESHOLD),
           u64LE (orElse (cu_minLiquidityEmaCap a) MIN_LIQUIDITY_EMA_CAP),
           u64LE (orElse (cu_minLiquidityMax a) (uc_minLiquidity a))])))))"

subsection \<open>funding.ts\<close>

record create_market_args =
  cm_creator :: address_input
  cm_oracle :: address_input
  cm_baseMint :: address_input
  cm_creatorBaseAta :: address_input
  cm_seedAmount :: int
  cm_outcomeIndex :: int
  cm_programId :: "address option"

definition ix_createMarket :: "web3 \<Rightarrow> create_market_args \<Rightarrow> instruction res" where
  "ix_createMarket W a =
     (let programId = PID W (cm_programId a) in
     bindR (pda_config W (Some programId)) (\<lambda>config.
     bindR (pda_market W (cm_oracle a) (cm_outcomeIndex a) (Some programId)) (\<lambda>market.
     bindR (pda_escrow W (AddrObj (fst market)) (Some programId)) (\<lambda>escrow.
     bindR (pda_contribution W (AddrObj (fst market)) (cm_creator a) (Some programId)) (\<lambda>contribution.
     mkIx programId
       [Inr (meta_w (fst config) False),
        roA W (cm_oracle a) False,
        Inr (meta_w (fst market) False),
        Inr (meta_w (fst escrow) False),
        roA W (cm_baseMint a) False,
        wA W (cm_creator a) True,
        wA W (cm_creatorBaseAta a) False,
        Inr (meta_w (fst contribution) False),
        Inr (meta_ro (TOKEN_PROGRAM_ID W) False),
        Inr (meta_ro (SYSTEM_PROGRAM_ID W) False)]
       (Inr (withDisc CreateMarket [u64LE (cm_seedAmount a), u8 (cm_outcomeIndex a)])))))))"

record contribute_args =
  ct_contributor :: address_input
  ct_market :: address_input
  ct_contributorBaseAta :: address_input
  ct_amount :: int
  ct_programId :: "address option"

definition ix_contribute :: "web3 \<Rightarrow> contribute_args \<Rightarrow> instruction res" where
  "ix_contribute W a =
     (let programId = PID W (ct_programId a) in
     bindR (pda_escrow W (ct_market a) (Some programId)) (\<lambda>escrow.
     bindR (pda_contribution W (ct_market a) (ct_contributor a) (Some programId)) (\<lambda>contribution.
     mkIx programId
       [wA W (ct_market a) False,
        Inr (meta_w (fst escrow) False),
        wA W (ct_contributor a) True,
        wA W (ct_contributorBaseAta a) False,
        Inr (meta_w (fst contribution) False),
        Inr (meta_ro (TOKEN_PROGRAM_ID W) False),
        Inr (meta_ro (SYSTEM_PROGRAM_ID W) False)]
       (Inr (withDisc Contribute [u64LE (ct_amount a)])))))"

record cancel_args =
  ca_market :: address_input
  ca_oracle :: address_input
  ca_programId :: "address option"

definition ix_cancel :: "web3 \<Rightarrow> cancel_args \<Rightarrow> instruction res" where
  "ix_cancel W a =
     mkIx (PID W (ca_programId a))
       [wA W (ca_market a) False, roA W (ca_oracle a) False]
       (Inr (withDisc Cancel []))"

record refund_args =
  rf_market :: address_input
  rf_contributor :: address_input
  rf_contributorBaseAta :: address_input
  rf_programId :: "address option"

definition ix_refund :: "web3 \<Rightarrow> refund_args \<Rightarrow> instruction res" where
  "ix_refund W a =
     (let programId = PID W (rf_programId a) in
     bindR (pda_escrow W (rf_market a) (Some programId)) (\<lambda>escrow.
     bindR (pda_contribution W (rf_market a) (rf_contributor a) (Some programId)) (\<lambda>contribution.
     mkIx programId
       [wA W (rf_market a) False,
        Inr (meta_w (fst escrow) False),
        Inr (meta_w (fst contribution) False),
        wA W (rf_contributorBaseAta a) False,
        wA W (rf_contributor a) False,
        Inr (meta_ro (TOKEN_PROGRAM_ID W) False)]
       (Inr (withDisc Refund [])))))"

subsection \<open>lifecycle.ts\<close>

record activate_args =
  av_market :: address_input
  av_oracle :: address_input
  av_payer :: address_input
  av_question :: address_input
  av_vault :: address_input
  av_vaultUnderlyingAta :: address_input
  av_yesMint :: address_input
  av_noMint :: address_input
  av_marketCyes :: address_input
  av_marketCno :: address_input
  av_amm :: address_input
  av_lpMint :: address_input
  av_lpVault :: address_input
  av_ammVaultBase :: address_input
  av_ammVaultQuote :: address_input
  av_cvEventAuthority :: address_input
  av_ammEventAuthority :: address_input
  av_cvProgram :: "address_input option"
  av_ammProgram :: "address_input option"
  av_tokenProgram :: "address_input option"
  av_systemProgram :: "address_input option"
  av_programId :: "address option"

definition ix_activate :: "web3 \<Rightarrow> activate_args \<Rightarrow> instruction res" where
  "ix_activate W a =
     (let programId = PID W (av_programId a) in
     bindR (pda_escrow W (av_market a) (Some programId)) (\<lambda>escrow.
     mkIx programId
       [wA W (av_market a) False,
        roA W (av_oracle a) False,
        wA W (av_payer a) True,
        roA W (av_question a) False,
        wA W (av_vault a) False,
        wA W (av_vaultUnderlyingAta a) False,
        Inr (meta_w (fst escrow) False),
        wA W (av_yesMint a) False,
        wA W (av_noMint a) False,
        wA W (av_marketCyes a) False,
        wA W (av_marketCno a) False,
        wA W (av_amm a) False,
        wA W (av_lpMint a) False,
        wA W (av_lpVault a) False,
        wA W (av_ammVaultBase a) False,
        wA W (av_ammVaultQuote a) False,
        roA W (av_cvEventAuthority a) False,
        roA W (orAddr (av_cvProgram a) (CONDITIONAL_VAULT_ID W)) False,
        roA W (av_ammEventAuthority a) False,
        roA W (orAddr (av_ammProgram a) (AMM_V04_ID W)) False,
        roA W (orAddr (av_tokenProgram a) (TOKEN_PROGRAM_ID W)) False,
        roA W (orAddr (av_systemProgram a) (SYSTEM_PROGRAM_ID W)) False]
       (Inr (withDisc Activate []))))"

record claim_lp_args =
  cl_market :: address_input
  cl_contributor :: address_input
  cl_contributorLpAta :: address_input
  cl_programId :: "address option"

definition ix_claimLp :: "web3 \<Rightarrow> claim_lp_args \<Rightarrow> instruction res" where
  "ix_claimLp W a =
     (let programId = PID W (cl_programId a) in
     bindR (pda_lpVault W (cl_market a) (Some programId)) (\<lambda>lpVault.
     bindR (pda_contribution W (cl_market a) (cl_contributor a) (Some programId)) (\<lambda>contribution.
     mkIx programId
       [wA W (cl_market a) False,
        Inr (meta_w (fst lpVault) False),
        Inr (meta_w (fst contribution) False),
        wA W (cl_contributorLpAta a) False,
        wA W (cl_contributor a) False,
        Inr (meta_ro (TOKEN_PROGRAM_ID W) False)]
       (Inr (withDisc ClaimLp [])))))"

record resolve_market_args =
  rm_market :: address_input
  rm_oracle :: address_input
  rm_question :: address_input
  rm_cvEventAuthority :: address_input
  rm_cvProgram :: "address_input option"
  rm_programId :: "address option"

definition ix_resolveMarket :: "web3 \<Rightarrow> resolve_market_args \<Rightarrow> instruction res" where
  "ix_resolveMarket W a =
     mkIx (PID W (rm_programId a))
       [wA W (rm_market a) False,
        roA W (rm_oracle a) False,
        wA W (rm_question a) False,
        roA W (rm_cvEventAuthority a) False,
        roA W (orAddr (rm_cvProgram a) (CONDITIONAL_VAULT_ID W)) False]
       (Inr (withDisc ResolveMarket []))"

record collect_fee_args =
  cq_market :: address_input
  cq_feeDestination :: address_input
  cq_question :: address_input
  cq_vault :: address_input
  cq_vaultUnderlyingAta :: address_input
  cq_yesMint :: address_input
  cq_noMint :: address_input
  cq_marketCyes :: address_input
  cq_marketCno :: address_input
  cq_amm :: address_input
  cq_lpMint :: address_input
  cq_lpVault :: address_input
  cq_ammVaultBase :: address_input
  cq_ammVaultQuote :: address_input
  cq_cvEventAuthority :: address_input
  cq_ammEventAuthority :: address_input
  cq_cvProgram :: "address_input option"
  cq_ammProgram :: "address_input option"
  cq_tokenProgram :: "address_input option"
  cq_programId :: "address option"

definition ix_collectFee :: "web3 \<Rightarrow> collect_fee_args \<Rightarrow> instruction res" where
  "ix_collectFee W a =
     (let programId = PID W (cq_programId a) in
     bindR (pda_config W (Some programId)) (\<lambda>config.
     bindR (pda_escrow W (cq_market a) (Some programId)) (\<lambda>escrow.
     mkIx programId
       [wA W (cq_market a) False,
        Inr (meta_ro (fst config) False),
        wA W (cq_feeDestination a) False,
        roA W (cq_question a) False,
        wA W (cq_vault a) False,
        wA W (cq_vaultUnderlyingAta a) False,
        Inr (meta_w (fst escrow) False),
        wA W (cq_yesMint a) False,
        wA W (cq_noMint a) False,
        wA W (cq_marketCyes a) False,
        wA W (cq_marketCno a) False,
        wA W (cq_amm a) False,
        wA W (cq_lpMint a) False,
        wA W (cq_lpVault a) False,
        wA W (cq_ammVaultBase a) False,
        wA W (cq_ammVaultQuote a) False,
        roA W (cq_cvEventAuthority a) False,
        roA W (orAddr (cq_cvProgram a) (CONDITIONAL_VAULT_ID W)) False,
        roA W (cq_ammEventAuthority a) False,
        roA W (orAddr (cq_ammProgram a) (AMM_V04_ID W)) False,
        roA W (orAddr (cq_tokenProgram a) (TOKEN_PROGRAM_ID W)) False]
       (Inr (withDisc CollectFee [])))))"

record close_market_args =
  cz_market :: address_input
  cz_creator :: address_input
  cz_programId :: "address option"

definition ix_closeMarket :: "web3 \<Rightarrow> close_market_args \<Rightarrow> instruction res" where
  "ix_closeMarket W a =
     (let programId = PID W (cz_programId a) in
     bindR (pda_escrow W (cz_market a) (Some programId)) (\<lambda>escrow.
     bindR (pda_cyes W (cz_market a) (Some programId)) (\<lambda>cyes.
     bindR (pda_cno W (cz_market a) (Some programId)) (\<lambda>cno.
     bindR (pda_lpVault W (cz_market a) (Some programId)) (\<lambda>lpVault.
     mkIx programId
       [wA W (cz_market a) False,
        wA W (cz_creator a) False,
        Inr (meta_w (fst escrow) False),
        Inr (meta_w (fst cyes) False),
        Inr (meta_w (fst cno) False),
        Inr (meta_w (fst lpVault) False),
        Inr (meta_ro (TOKEN_PROGRAM_ID W) False)]
       (Inr (withDisc CloseMarket [])))))))"

record add_liquidity_args =
  al_market :: address_input
  al_oracle :: address_input
  al_depositor :: address_input
  al_baseMint :: address_input
  al_question :: address_input
  al_vault :: address_input
  al_vaultUnderlyingAta :: address_input
  al_yesMint :: address_input
  al_noMint :: address_input
  al_amm :: address_input
  al_lpMint :: address_input
  al_ammVaultBase :: address_input
  al_ammVaultQuote :: address_input
  al_cvEventAuthority :: address_input
  al_ammEventAuthority :: address_input
  al_amount :: int
  al_quoteAmount :: int
  al_maxBaseAmount :: int
  al_minLpTokens :: int
  al_cvProgram :: "address_input option"
  al_ammProgram :: "address_input option"
  al_tokenProgram :: "address_input option"
  al_systemProgram :: "address_input option"
  al_programId :: "address option"

definition ix_addLiquidity :: "web3 \<Rightarrow> add_liquidity_args \<Rightarrow> instruction res" where
  "ix_addLiquidity W a =
     (let programId = PID W (al_programId a) in
     bindR (pda_escrow W (al_market a) (Some programId)) (\<lambda>escrow.
     bindR (pda_cyes W (al_market a) (Some programId)) (\<lambda>cyes.
     bindR (pda_cno W (al_market a) (Some programId)) (\<lambda>cno.
     bindR (pda_lpVault W (al_market a) (Some programId)) (\<lambda>lpVault.
     bindR (pda_contribution W (al_market a) (al_depositor a) (Some programId)) (\<lambda>contribution.
     bindR (md_ata W (al_depositor a) (al_baseMint a)) (\<lambda>depositorBaseAta.
     bindR (md_ata W (al_depositor a) (al_yesMint a)) (\<lambda>depositorCyesAta.
     bindR (md_ata W (al_depositor a) (al_noMint a)) (\<lambda>depositorCnoAta.
     mkIx programId
       [wA W (al_market a) False,
        roA W (al_oracle a) False,
        wA W (al_depositor a) True,
        Inr (meta_w depositorBaseAta False),
        Inr (meta_w (fst escrow) False),
        roA W (al_question a) False,
        wA W (al_vault a) False,
        wA W (al_vaultUnderlyingAta a) False,
        wA W (al_yesMint a) False,
        wA W (al_noMint a) False,
        Inr (meta_w (fst cyes) False),
        Inr (meta_w (fst cno) False),
        Inr (meta_w depositorCyesAta False),
        Inr (meta_w depositorCnoAta False),
        wA W (al_amm a) False,
        wA W (al_lpMint a) False,
        Inr (meta_w (fst lpVault) False),
        wA W (al_ammVaultBase a) False,
        wA W (al_ammVaultQuote a) False,
        Inr (meta_w (fst contribution) False),
        roA W (al_cvEventAuthority a) False,
        roA W (orAddr (al_cvProgram a) (CONDITIONAL_VAULT_ID W)) False,
        roA W (al_ammEventAuthority a) False,
        roA W (orAddr (al_ammProgram a) (AMM_V04_ID W)) False,
        roA W (orAddr (al_tokenProgram a) (TOKEN_PROGRAM_ID W)) False,
        roA W (orAddr (al_systemProgram a) (SYSTEM_PROGRAM_ID W)) False]
       (Inr (withDisc AddLiquidity
         [u64LE (al_amount a), u64LE (al_quoteAmount a), u64LE (al_maxBaseAmount a),
          u64LE (al_minLpTokens a)])))))))))))"

subsection \<open>er.ts\<close>

record delegate_market_args =
  dg_market :: address_input
  dg_payer :: address_input
  dg_commitFrequencyMs :: "int option"
  dg_validator :: "address_input option"
  dg_programId :: "address option"

definition ZERO32 :: bytes where
  "ZERO32 = replicate 32 0"

text \<open>The test \<open>args.validator ? ... : ZERO32\<close> also takes the empty string for absent.\<close>

definition validatorBytes :: "web3 \<Rightarrow> address_input option \<Rightarrow> bytes res" where
  "validatorBytes W v =
     (case v of
        None \<Rightarrow> Inr ZERO32
      | Some x \<Rightarrow> if x = AddrStr '''' then Inr ZERO32 else pubkeyBytes W x)"

definition ix_delegateMarket :: "web3 \<Rightarrow> delegate_market_args \<Rightarrow> instruction res" where
  "ix_delegateMarket W a =
     (let programId = PID W (dg_programId a) in
     bindR (addr W (dg_market a)) (\<lambda>market.
     bindR (pda_erSession W (AddrObj market) (Some programId)) (\<lambda>session.
     bindR (validatorBytes W (dg_validator a)) (\<lambda>validator.
     mkIx programId
       [Inr (meta_w market False),
        Inr (meta_w (fst session) False),
        wA W (dg_payer a) True,
        Inr (meta_ro (SYSTEM_PROGRAM_ID W) False)]
       (Inr (withDisc DelegateMarket
         [u32LE (orElse (dg_commitFrequencyMs a) 0), validator]))))))"

record er_market_args =
  er_market :: address_input
  er_programId :: "address option"

definition ix_commitMarket :: "web3 \<Rightarrow> er_market_args \<Rightarrow> instruction res" where
  "ix_commitMarket W a =
     (let programId = PID W (er_programId a) in
     bindR (addr W (er_market a)) (\<lambda>market.
     bindR (pda_erSession W (AddrObj market) (Some programId)) (\<lambda>session.
     mkIx programId
       [Inr (meta_w market False), Inr (meta_w (fst session) False)]
       (Inr (withDisc CommitMarket [])))))"

definition ix_undelegateMarket :: "web3 \<Rightarrow> er_market_args \<Rightarrow> instruction res" where
  "ix_undelegateMarket W a =
     (let programId = PID W (er_programId a) in
     bindR (addr W (er_market a)) (\<lambda>market.
     bindR (pda_erSession W (AddrObj market) (Some programId)) (\<lambda>session.
     mkIx programId
       [Inr (meta_w market False), Inr (meta_w (fst session) False)]
       (Inr (withDisc UndelegateMarket [])))))"

subsection \<open>gpt.ts\<close>

record create_subject_args =
  cs_payer :: address_input
  cs_nonce :: int
  cs_optionsCount :: int
  cs_llmContext :: address_input
  cs_programId :: "address option"

definition ix_createSubject :: "web3 \<Rightarrow> create_subject_args \<Rightarrow> instruction res" where
  "ix_createSubject W a =
     (let programId = PID W (cs_programId a) in
     bindR (pda_subject W (cs_nonce a) (Some programId)) (\<lambda>subject.
     mkIx programId
       [wA W (cs_payer a) True,
        Inr (meta_w (fst subject) False),
        Inr (meta_ro (SYSTEM_PROGRAM_ID W) False)]
       (bindR (pubkeyBytes W (cs_llmContext a)) (\<lambda>llm.
        Inr (withDisc CreateSubject [u64LE (cs_nonce a), u8 (cs_optionsCount a), llm])))))"

text \<open>\<open>text\<close> is the UTF-8 bytes of a string argument, or the bytes passed.\<close>

record request_ai_args =
  ra_subject :: address_input
  ra_payer :: address_input
  ra_text :: bytes
  ra_llmContext :: "address_input option"
  ra_programId :: "address option"

definition ix_requestAi :: "web3 \<Rightarrow> request_ai_args \<Rightarrow> instruction res" where
  "ix_requestAi W a =
     (let programId = PID W (ra_programId a) in
     bindR (addr W (ra_payer a)) (\<lambda>payer.
     bindR (addr W (ra_subject a)) (\<lambda>subject.
     let keys = [meta_ro subject False, meta_w payer True, meta_ro (SYSTEM_PROGRAM_ID W) False];
         finish = (\<lambda>ks. mkIx programId (map Inr ks)
           (Inr (withDisc RequestAi [u32LE (int (length (ra_text a))), ra_text a])))
     in case ra_llmContext a of
          None \<Rightarrow> finish keys
        | Some c \<Rightarrow>
            bindR (addr W c) (\<lambda>llmContext.
            bindR (pda_gptOracleInteraction W (AddrObj payer) (AddrObj llmContext)) (\<lambda>interaction.
            finish (keys @ [meta_ro (GPT_ORACLE_PROGRAM_ID W) False,
                          meta_w (fst interaction) False,
                          meta_ro llmContext False]))))))"

lemmas [builder_defs] =
  ix_initConfig_def ix_updateConfig_def ix_createMarket_def ix_contribute_def ix_cancel_def
  ix_refund_def ix_activate_def ix_claimLp_def ix_resolveMarket_def ix_collectFee_def
  ix_closeMarket_def ix_addLiquidity_def ix_delegateMarket_def ix_commitMarket_def
  ix_undelegateMarket_def ix_createSubject_def ix_requestAi_def

end
