(* ===== verification/Dispatch.thy ===== *)
theory Dispatch
  imports MarketIx
begin

text \<open>
  The program's side of the wire: how \<open>programs/markets/src/processor/\<close> splits the instruction
  data into a discriminant and a payload and reads the payload's fields (\<open>parse_call\<close>), and
  which accounts it requires to sign or writes (\<open>account_roles\<close>).  The contract of a builder,
  the locale \<open>ix_contract\<close>, says that the program reads back exactly the arguments the
  builder was given and finds its accounts with the roles it needs; all 17 builders meet it.
\<close>

subsection \<open>What the program parses\<close>

datatype market_call =
    CInitConfig address int int address int int int
  | CUpdateConfig int int address int int int
  | CCreateMarket int int
  | CContribute int
  | CEmpty Ix
  | CAddLiquidity int int int int
  | CDelegateMarket int address
  | CCreateSubject int int address
  | CRequestAi bytes

fun call_ix :: "market_call \<Rightarrow> Ix" where
  "call_ix (CInitConfig _ _ _ _ _ _ _) = InitConfig"
| "call_ix (CUpdateConfig _ _ _ _ _ _) = UpdateConfig"
| "call_ix (CCreateMarket _ _) = CreateMarket"
| "call_ix (CContribute _) = Contribute"
| "call_ix (CEmpty i) = i"
| "call_ix (CAddLiquidity _ _ _ _) = AddLiquidity"
| "call_ix (CDelegateMarket _ _) = DelegateMarket"
| "call_ix (CCreateSubject _ _ _) = CreateSubject"
| "call_ix (CRequestAi _) = RequestAi"

definition uintAt :: "bytes \<Rightarrow> nat \<Rightarrow> nat \<Rightarrow> int" where
  "uintAt p off n = le_uint (fld off n p)"

definition keyAt :: "bytes \<Rightarrow> nat \<Rightarrow> address" where
  "keyAt p off = Address (fld off 32 p)"

text \<open>The payload reads of the processors, with their exact lengths.\<close>

definition parse_payload :: "Ix \<Rightarrow> bytes \<Rightarrow> market_call option" where
  "parse_payload i p =
     (case i of
        InitConfig \<Rightarrow>
          if length p \<noteq> 98 then None
          else Some (CInitConfig (keyAt p 0) (uintAt p 32 8) (uintAt p 40 2) (keyAt p 42)
            (uintAt p 74 8) (uintAt p 82 8) (uintAt p 90 8))
      | UpdateConfig \<Rightarrow>
          if length p \<noteq> 66 then None
          else Some (CUpdateConfig (uintAt p 0 8) (uintAt p 8 2) (keyAt p 10)
            (uintAt p 42 8) (uintAt p 50 8) (uintAt p 58 8))
      | CreateMarket \<Rightarrow>
          if length p \<noteq> 9 then None else Some (CCreateMarket (uintAt p 0 8) (uintAt p 8 1))
      | Contribute \<Rightarrow>
          if length p \<noteq> 8 then None else Some (CContribute (uintAt p 0 8))
      | AddLiquidity \<Rightarrow>
          if length p \<noteq> 32 then None
          else Some (CAddLiquidity (uintAt p 0 8) (uintAt p 8 8) (uintAt p 16 8) (uintAt p 24 8))
      | DelegateMarket \<Rightarrow>
          if length p \<noteq> 36 then None else Some (CDelegateMarket (uintAt p 0 4) (keyAt p 4))
      | CreateSubject \<Rightarrow>
          if length p \<noteq> 41 then None
          else Some (CCreateSubject (uintAt p 0 8) (uintAt p 8 1) (keyAt p 9))
      | RequestAi \<Rightarrow>
          if length p < 4 then None
          else if int (length p) \<noteq> 4 + uintAt p 0 4 \<or> 700 < uintAt p 0 4 then None
          else Some (CRequestAi (drop 4 p))
      | _ \<Rightarrow> if p \<noteq> [] then None else Some (CEmpty i))"

text \<open>\<open>processor::process\<close>: the first byte selects the processor, the rest is its payload.\<close>

definition parse_call :: "bytes \<Rightarrow> market_call option" where
  "parse_call data =
     (case data of
        [] \<Rightarrow> None
      | disc # payload \<Rightarrow>
          (case from_u8 (uint disc) of None \<Rightarrow> None | Some i \<Rightarrow> parse_payload i payload))"

text \<open>The accounts a processor takes, as pairs (must sign, is written).\<close>

fun account_roles :: "Ix \<Rightarrow> (bool \<times> bool) list" where
  "account_roles InitConfig =
     [(False, True), (True, True), (False, False), (False, False), (False, False), (False, False)]"
| "account_roles UpdateConfig = [(False, True), (True, False), (False, False)]"
| "account_roles CreateMarket =
     [(False, True), (False, False), (False, True), (False, True), (False, False), (True, True),
      (False, True), (False, True), (False, False), (False, False)]"
| "account_roles Contribute =
     [(False, True), (False, True), (True, True), (False, True), (False, True), (False, False),
      (False, False)]"
| "account_roles Cancel = [(False, True), (False, False)]"
| "account_roles Refund =
     [(False, True), (False, True), (False, True), (False, True), (False, True), (False, False)]"
| "account_roles Activate =
     [(False, True), (False, False), (True, True), (False, False)] @
     replicate 12 (False, True) @ replicate 6 (False, False)"
| "account_roles ClaimLp =
     [(False, True), (False, True), (False, True), (False, True), (False, True), (False, False)]"
| "account_roles ResolveMarket =
     [(False, True), (False, False), (False, True), (False, False), (False, False)]"
| "account_roles CollectFee =
     [(False, True), (False, False), (False, True), (False, False)] @
     replicate 12 (False, True) @ replicate 5 (False, False)"
| "account_roles CloseMarket = replicate 6 (False, True) @ [(False, False)]"
| "account_roles AddLiquidity =
     [(False, True), (False, False), (True, True), (False, True), (False, True), (False, False)] @
     replicate 14 (False, True) @ replicate 6 (False, False)"
| "account_roles DelegateMarket = [(False, True), (False, True), (True, True), (False, False)]"
| "account_roles CommitMarket = [(False, True), (False, True)]"
| "account_roles UndelegateMarket = [(False, True), (False, True)]"
| "account_roles CreateSubject = [(True, True), (False, True), (False, False)]"
| "account_roles RequestAi = [(False, False), (True, True), (False, False)]"

definition role_of :: "account_meta \<Rightarrow> bool \<times> bool" where
  "role_of m = (isSigner m, isWritable m)"

lemma role_of_meta [simp]:
  "role_of (meta_w a s) = (s, True)" "role_of (meta_ro a s) = (s, False)"
  by (simp_all add: role_of_def)

subsection \<open>Reading the builders' payloads\<close>

lemma parse_call_withDisc:
  "parse_call (withDisc i ps) = parse_payload i (concat ps)"
  using ix_code_range [of i]
  by (simp add: parse_call_def withDisc_def u8_def uint_word_of_int_8)

lemma uintAt_simps:
  "length q \<le> off \<Longrightarrow> uintAt (q @ bs) off n = uintAt bs (off - length q) n"
  "length q = n \<Longrightarrow> uintAt (q @ bs) 0 n = le_uint q"
  "length q = n \<Longrightarrow> uintAt q 0 n = le_uint q"
  by (simp_all add: uintAt_def fld_skip fld_here fld_last)

lemma keyAt_simps:
  "length q \<le> off \<Longrightarrow> keyAt (q @ bs) off = keyAt bs (off - length q)"
  "length q = 32 \<Longrightarrow> keyAt (q @ bs) 0 = Address q"
  "length q = 32 \<Longrightarrow> keyAt q 0 = Address q"
  by (simp_all add: keyAt_def fld_skip fld_here fld_last)

lemmas payload_simps = parse_payload_def uintAt_simps keyAt_simps le_field

lemma wf_AddressI: "length bs = 32 \<Longrightarrow> wf_address (Address bs)"
  by (simp add: wf_address_def)

text \<open>The address an input stands for is a 32-byte key.\<close>

definition wf_input :: "web3 \<Rightarrow> address_input \<Rightarrow> bool" where
  "wf_input W x \<longleftrightarrow> (case addr W x of Inr a \<Rightarrow> wf_address a | Inl e \<Rightarrow> False)"

lemma wf_input_AddrObj [simp]: "wf_input W (AddrObj a) \<longleftrightarrow> wf_address a"
  by (simp add: wf_input_def)

definition the_addr :: "web3 \<Rightarrow> address_input \<Rightarrow> address" where
  "the_addr W x = (case addr W x of Inr a \<Rightarrow> a | Inl e \<Rightarrow> Address [])"

lemma the_addr_AddrObj [simp]: "the_addr W (AddrObj a) = a"
  by (simp add: the_addr_def)

lemma wf_inputE:
  assumes "wf_input W x"
  obtains a where "addr W x = Inr a" "the_addr W x = a" "wf_address a"
    "pubkeyBytes W x = Inr (address_bytes a)"
  using assms by (auto simp: wf_input_def the_addr_def pubkeyBytes_def split: sum.splits)

lemma parse_payload_ix: "parse_payload i p = Some c \<Longrightarrow> call_ix c = i"
  by (cases i) (auto simp: parse_payload_def split: if_splits)

subsection \<open>The contract\<close>

locale ix_contract =
  fixes build :: "'a \<Rightarrow> instruction res"
    and call :: "'a \<Rightarrow> market_call"
    and tag :: Ix
    and wf :: "'a \<Rightarrow> bool"
  assumes parsed: "build a = Inr ix \<Longrightarrow> wf a \<Longrightarrow> parse_call (ixData ix) = Some (call a)"
    and tagged: "call_ix (call a) = tag"
    and roles: "build a = Inr ix \<Longrightarrow>
      map role_of (take (length (account_roles tag)) (ixKeys ix)) = account_roles tag"
begin

lemma same_data_same_call:
  "build a = Inr ix \<Longrightarrow> build b = Inr iy \<Longrightarrow> wf a \<Longrightarrow> wf b \<Longrightarrow> ixData ix = ixData iy \<Longrightarrow> call a = call b"
  using parsed [of a ix] parsed [of b iy] by simp

lemma enough_accounts: "build a = Inr ix \<Longrightarrow> length (account_roles tag) \<le> length (ixKeys ix)"
  using arg_cong [OF roles [of a ix], of length] by simp

lemma dispatched:
  assumes "build a = Inr ix" and "wf a"
  shows "\<exists>disc payload. ixData ix = disc # payload \<and> from_u8 (uint disc) = Some tag"
proof -
  have p: "parse_call (ixData ix) = Some (call a)" using assms by (rule parsed)
  then obtain disc payload i where d: "ixData ix = disc # payload"
    and i: "from_u8 (uint disc) = Some i" and q: "parse_payload i payload = Some (call a)"
    by (auto simp: parse_call_def split: list.splits option.splits)
  from q have "call_ix (call a) = i" by (rule parse_payload_ix)
  with d i show ?thesis by (simp add: tagged)
qed

end

text \<open>The steps the contract proofs share: a builder's data, and the roles of its metas.\<close>

lemma mkIx_data: "mkIx pid keys (Inr d) = Inr ix \<Longrightarrow> ixData ix = d"
  by (auto simp: mkIx_Inr_iff)

fun key_roles :: "account_meta res list \<Rightarrow> (bool \<times> bool) list \<Rightarrow> bool" where
  "key_roles ks [] = True"
| "key_roles (k # ks) (r # rs) = ((\<forall>m. k = Inr m \<longrightarrow> role_of m = r) \<and> key_roles ks rs)"
| "key_roles [] (r # rs) = False"

lemma mkIx_roles:
  assumes "mkIx pid keys d = Inr ix"
  shows "key_roles keys rs \<longrightarrow> map role_of (take (length rs) (ixKeys ix)) = rs"
proof -
  have "keys = map Inr ms \<Longrightarrow> key_roles keys rs \<Longrightarrow> map role_of (take (length rs) ms) = rs"
    for ms keys
    by (induction keys rs arbitrary: ms rule: key_roles.induct) auto
  with assms show ?thesis by (auto simp: mkIx_Inr_iff)
qed

lemma role_wA: "wA W a s = Inr m \<Longrightarrow> role_of m = (s, True)"
  by (auto simp: wA_Inr_iff)

lemma role_roA: "roA W a s = Inr m \<Longrightarrow> role_of m = (s, False)"
  by (auto simp: roA_Inr_iff)

subsection \<open>The builders meet it\<close>

fun call_initConfig :: "web3 \<Rightarrow> init_config_args \<Rightarrow> market_call" where
  "call_initConfig W a =
     CInitConfig (the_addr W (ic_authority a)) (ic_minLiquidity a) (ic_feeBps a)
       (the_addr W (ic_feeDestination a))
       (orElse (cu_minLiquidityEmaThreshold a) MIN_LIQUIDITY_EMA_THRESHOLD)
       (orElse (cu_minLiquidityEmaCap a) MIN_LIQUIDITY_EMA_CAP)
       (orElse (cu_minLiquidityMax a) (ic_minLiquidity a))"

definition wf_curve :: "'r curve_args_scheme \<Rightarrow> bool" where
  "wf_curve a \<longleftrightarrow>
     (\<forall>v. cu_minLiquidityEmaThreshold a = Some v \<longrightarrow> is_u64 v) \<and>
     (\<forall>v. cu_minLiquidityEmaCap a = Some v \<longrightarrow> is_u64 v) \<and>
     (\<forall>v. cu_minLiquidityMax a = Some v \<longrightarrow> is_u64 v)"

definition wf_initConfig :: "web3 \<Rightarrow> init_config_args \<Rightarrow> bool" where
  "wf_initConfig W a \<longleftrightarrow>
     wf_input W (ic_authority a) \<and> wf_input W (ic_feeDestination a) \<and>
     is_u64 (ic_minLiquidity a) \<and> is_u16 (ic_feeBps a) \<and> wf_curve a"

fun call_updateConfig :: "web3 \<Rightarrow> update_config_args \<Rightarrow> market_call" where
  "call_updateConfig W a =
     CUpdateConfig (uc_minLiquidity a) (uc_feeBps a) (the_addr W (uc_feeDestination a))
       (orElse (cu_minLiquidityEmaThreshold a) MIN_LIQUIDITY_EMA_THRESHOLD)
       (orElse (cu_minLiquidityEmaCap a) MIN_LIQUIDITY_EMA_CAP)
       (orElse (cu_minLiquidityMax a) (uc_minLiquidity a))"

definition wf_updateConfig :: "web3 \<Rightarrow> update_config_args \<Rightarrow> bool" where
  "wf_updateConfig W a \<longleftrightarrow>
     wf_input W (uc_feeDestination a) \<and> is_u64 (uc_minLiquidity a) \<and> is_u16 (uc_feeBps a) \<and>
     wf_curve a"

fun call_addLiquidity :: "add_liquidity_args \<Rightarrow> market_call" where
  "call_addLiquidity a =
     CAddLiquidity (al_amount a) (al_quoteAmount a) (al_maxBaseAmount a) (al_minLpTokens a)"

definition wf_addLiquidity :: "add_liquidity_args \<Rightarrow> bool" where
  "wf_addLiquidity a \<longleftrightarrow>
     is_u64 (al_amount a) \<and> is_u64 (al_quoteAmount a) \<and> is_u64 (al_maxBaseAmount a) \<and>
     is_u64 (al_minLpTokens a)"

fun call_delegateMarket :: "web3 \<Rightarrow> delegate_market_args \<Rightarrow> market_call" where
  "call_delegateMarket W a =
     CDelegateMarket (orElse (dg_commitFrequencyMs a) 0)
       (Address (case validatorBytes W (dg_validator a) of Inr v \<Rightarrow> v | Inl e \<Rightarrow> []))"

definition wf_delegateMarket :: "web3 \<Rightarrow> delegate_market_args \<Rightarrow> bool" where
  "wf_delegateMarket W a \<longleftrightarrow>
     is_u32 (orElse (dg_commitFrequencyMs a) 0) \<and>
     (\<forall>v. dg_validator a = Some v \<longrightarrow> v = AddrStr '''' \<or> wf_input W v)"

fun call_createSubject :: "web3 \<Rightarrow> create_subject_args \<Rightarrow> market_call" where
  "call_createSubject W a =
     CCreateSubject (cs_nonce a) (cs_optionsCount a) (the_addr W (cs_llmContext a))"

definition wf_createSubject :: "web3 \<Rightarrow> create_subject_args \<Rightarrow> bool" where
  "wf_createSubject W a \<longleftrightarrow>
     is_u64 (cs_nonce a) \<and> is_u8 (cs_optionsCount a) \<and> wf_input W (cs_llmContext a)"

lemma wf_curve_u64:
  assumes "wf_curve a"
  shows "is_u64 (orElse (cu_minLiquidityEmaThreshold a) MIN_LIQUIDITY_EMA_THRESHOLD)"
    and "is_u64 (orElse (cu_minLiquidityEmaCap a) MIN_LIQUIDITY_EMA_CAP)"
    and "is_u64 d \<Longrightarrow> is_u64 (orElse (cu_minLiquidityMax a) d)"
  using assms unfolding wf_curve_def
  by (cases "cu_minLiquidityEmaThreshold a"; cases "cu_minLiquidityEmaCap a";
      cases "cu_minLiquidityMax a";
      simp add: is_u64_def MIN_LIQUIDITY_EMA_THRESHOLD_def MIN_LIQUIDITY_EMA_CAP_def)+

lemma validatorBytes_length:
  assumes "\<forall>v. x = Some v \<longrightarrow> v = AddrStr '''' \<or> wf_input W v" and "validatorBytes W x = Inr bs"
  shows "length bs = 32"
  using assms by (auto simp: validatorBytes_def ZERO32_def split: option.splits if_splits elim!: wf_inputE)

lemmas contract_simps =
  builder_defs Let_def parse_call_withDisc payload_simps wf_curve_u64

interpretation k_init:
  ix_contract "ix_initConfig W" "call_initConfig W" InitConfig "wf_initConfig W" for W
proof unfold_locales
  fix a ix
  assume b: "ix_initConfig W a = Inr ix"
  show "parse_call (ixData ix) = Some (call_initConfig W a)" if "wf_initConfig W a"
    using that b unfolding wf_initConfig_def
    by (auto simp: contract_simps dest!: mkIx_data elim!: wf_inputE)
  show "map role_of (take (length (account_roles InitConfig)) (ixKeys ix)) = account_roles InitConfig"
    using b by (auto simp: builder_defs Let_def numeral_eq_Suc
        split: option.splits dest: role_wA role_roA dest!: mkIx_roles [where rs = "account_roles InitConfig"])
qed simp

interpretation k_update:
  ix_contract "ix_updateConfig W" "call_updateConfig W" UpdateConfig "wf_updateConfig W" for W
proof unfold_locales
  fix a ix
  assume b: "ix_updateConfig W a = Inr ix"
  show "parse_call (ixData ix) = Some (call_updateConfig W a)" if "wf_updateConfig W a"
    using that b unfolding wf_updateConfig_def
    by (auto simp: contract_simps dest!: mkIx_data elim!: wf_inputE)
  show "map role_of (take (length (account_roles UpdateConfig)) (ixKeys ix)) = account_roles UpdateConfig"
    using b by (auto simp: builder_defs Let_def numeral_eq_Suc
        split: option.splits dest: role_wA role_roA dest!: mkIx_roles [where rs = "account_roles UpdateConfig"])
qed simp

interpretation k_create:
  ix_contract "ix_createMarket W" "\<lambda>a. CCreateMarket (cm_seedAmount a) (cm_outcomeIndex a)" CreateMarket
    "\<lambda>a. is_u64 (cm_seedAmount a) \<and> is_u8 (cm_outcomeIndex a)" for W
proof unfold_locales
  fix a ix
  assume b: "ix_createMarket W a = Inr ix"
  show "parse_call (ixData ix) = Some ((\<lambda>a. CCreateMarket (cm_seedAmount a) (cm_outcomeIndex a)) a)" if "(\<lambda>a. is_u64 (cm_seedAmount a) \<and> is_u8 (cm_outcomeIndex a)) a"
    using that b
    by (auto simp: contract_simps wf_addLiquidity_def wf_delegateMarket_def wf_createSubject_def
        split: option.splits dest!: mkIx_data elim!: wf_inputE)
  show "map role_of (take (length (account_roles CreateMarket)) (ixKeys ix)) = account_roles CreateMarket"
    using b by (auto simp: builder_defs Let_def numeral_eq_Suc
        split: option.splits dest: role_wA role_roA dest!: mkIx_roles [where rs = "account_roles CreateMarket"])
qed simp

interpretation k_contribute:
  ix_contract "ix_contribute W" "\<lambda>a. CContribute (ct_amount a)" Contribute
    "\<lambda>a. is_u64 (ct_amount a)" for W
proof unfold_locales
  fix a ix
  assume b: "ix_contribute W a = Inr ix"
  show "parse_call (ixData ix) = Some ((\<lambda>a. CContribute (ct_amount a)) a)" if "(\<lambda>a. is_u64 (ct_amount a)) a"
    using that b
    by (auto simp: contract_simps wf_addLiquidity_def wf_delegateMarket_def wf_createSubject_def
        split: option.splits dest!: mkIx_data elim!: wf_inputE)
  show "map role_of (take (length (account_roles Contribute)) (ixKeys ix)) = account_roles Contribute"
    using b by (auto simp: builder_defs Let_def numeral_eq_Suc
        split: option.splits dest: role_wA role_roA dest!: mkIx_roles [where rs = "account_roles Contribute"])
qed simp

interpretation k_addliq:
  ix_contract "ix_addLiquidity W" "call_addLiquidity" AddLiquidity
    "wf_addLiquidity" for W
proof unfold_locales
  fix a ix
  assume b: "ix_addLiquidity W a = Inr ix"
  show "parse_call (ixData ix) = Some ((call_addLiquidity) a)" if "(wf_addLiquidity) a"
    using that b
    by (auto simp: contract_simps wf_addLiquidity_def wf_delegateMarket_def wf_createSubject_def
        split: option.splits dest!: mkIx_data elim!: wf_inputE)
  show "map role_of (take (length (account_roles AddLiquidity)) (ixKeys ix)) = account_roles AddLiquidity"
    using b by (auto simp: builder_defs Let_def numeral_eq_Suc
        split: option.splits dest: role_wA role_roA dest!: mkIx_roles [where rs = "account_roles AddLiquidity"])
qed simp

interpretation k_delegate:
  ix_contract "ix_delegateMarket W" "call_delegateMarket W" DelegateMarket
    "wf_delegateMarket W" for W
proof unfold_locales
  fix a ix
  assume b: "ix_delegateMarket W a = Inr ix"
  show "parse_call (ixData ix) = Some ((call_delegateMarket W) a)" if "(wf_delegateMarket W) a"
    using that b
    by (auto simp: contract_simps wf_addLiquidity_def wf_delegateMarket_def wf_createSubject_def
        split: option.splits dest!: mkIx_data elim!: wf_inputE)
      (rule validatorBytes_length; assumption)
  show "map role_of (take (length (account_roles DelegateMarket)) (ixKeys ix)) = account_roles DelegateMarket"
    using b by (auto simp: builder_defs Let_def numeral_eq_Suc
        split: option.splits dest: role_wA role_roA dest!: mkIx_roles [where rs = "account_roles DelegateMarket"])
qed simp

interpretation k_subject:
  ix_contract "ix_createSubject W" "call_createSubject W" CreateSubject
    "wf_createSubject W" for W
proof unfold_locales
  fix a ix
  assume b: "ix_createSubject W a = Inr ix"
  show "parse_call (ixData ix) = Some ((call_createSubject W) a)" if "(wf_createSubject W) a"
    using that b
    by (auto simp: contract_simps wf_addLiquidity_def wf_delegateMarket_def wf_createSubject_def
        split: option.splits dest!: mkIx_data elim!: wf_inputE)
  show "map role_of (take (length (account_roles CreateSubject)) (ixKeys ix)) = account_roles CreateSubject"
    using b by (auto simp: builder_defs Let_def numeral_eq_Suc
        split: option.splits dest: role_wA role_roA dest!: mkIx_roles [where rs = "account_roles CreateSubject"])
qed simp

interpretation k_request:
  ix_contract "ix_requestAi W" "\<lambda>a. CRequestAi (ra_text a)" RequestAi
    "\<lambda>a. length (ra_text a) \<le> 700" for W
proof unfold_locales
  fix a ix
  assume b: "ix_requestAi W a = Inr ix"
  show "parse_call (ixData ix) = Some ((\<lambda>a. CRequestAi (ra_text a)) a)" if "(\<lambda>a. length (ra_text a) \<le> 700) a"
    using that b
    by (auto simp: contract_simps is_u32_def wf_addLiquidity_def wf_delegateMarket_def wf_createSubject_def
        split: option.splits dest!: mkIx_data elim!: wf_inputE)
  show "map role_of (take (length (account_roles RequestAi)) (ixKeys ix)) = account_roles RequestAi"
    using b by (auto simp: builder_defs Let_def numeral_eq_Suc
        split: option.splits dest: role_wA role_roA dest!: mkIx_roles [where rs = "account_roles RequestAi"])
qed simp

interpretation k_cancel:
  ix_contract "ix_cancel W" "\<lambda>a. CEmpty Cancel" Cancel
    "\<lambda>a. True" for W
proof unfold_locales
  fix a ix
  assume b: "ix_cancel W a = Inr ix"
  show "parse_call (ixData ix) = Some ((\<lambda>a. CEmpty Cancel) a)" if "(\<lambda>a. True) a"
    using that b
    by (auto simp: contract_simps wf_addLiquidity_def wf_delegateMarket_def wf_createSubject_def
        split: option.splits dest!: mkIx_data elim!: wf_inputE)
  show "map role_of (take (length (account_roles Cancel)) (ixKeys ix)) = account_roles Cancel"
    using b by (auto simp: builder_defs Let_def numeral_eq_Suc
        split: option.splits dest: role_wA role_roA dest!: mkIx_roles [where rs = "account_roles Cancel"])
qed simp

interpretation k_refund:
  ix_contract "ix_refund W" "\<lambda>a. CEmpty Refund" Refund
    "\<lambda>a. True" for W
proof unfold_locales
  fix a ix
  assume b: "ix_refund W a = Inr ix"
  show "parse_call (ixData ix) = Some ((\<lambda>a. CEmpty Refund) a)" if "(\<lambda>a. True) a"
    using that b
    by (auto simp: contract_simps wf_addLiquidity_def wf_delegateMarket_def wf_createSubject_def
        split: option.splits dest!: mkIx_data elim!: wf_inputE)
  show "map role_of (take (length (account_roles Refund)) (ixKeys ix)) = account_roles Refund"
    using b by (auto simp: builder_defs Let_def numeral_eq_Suc
        split: option.splits dest: role_wA role_roA dest!: mkIx_roles [where rs = "account_roles Refund"])
qed simp

interpretation k_activate:
  ix_contract "ix_activate W" "\<lambda>a. CEmpty Activate" Activate
    "\<lambda>a. True" for W
proof unfold_locales
  fix a ix
  assume b: "ix_activate W a = Inr ix"
  show "parse_call (ixData ix) = Some ((\<lambda>a. CEmpty Activate) a)" if "(\<lambda>a. True) a"
    using that b
    by (auto simp: contract_simps wf_addLiquidity_def wf_delegateMarket_def wf_createSubject_def
        split: option.splits dest!: mkIx_data elim!: wf_inputE)
  show "map role_of (take (length (account_roles Activate)) (ixKeys ix)) = account_roles Activate"
    using b by (auto simp: builder_defs Let_def numeral_eq_Suc
        split: option.splits dest: role_wA role_roA dest!: mkIx_roles [where rs = "account_roles Activate"])
qed simp

interpretation k_claim:
  ix_contract "ix_claimLp W" "\<lambda>a. CEmpty ClaimLp" ClaimLp
    "\<lambda>a. True" for W
proof unfold_locales
  fix a ix
  assume b: "ix_claimLp W a = Inr ix"
  show "parse_call (ixData ix) = Some ((\<lambda>a. CEmpty ClaimLp) a)" if "(\<lambda>a. True) a"
    using that b
    by (auto simp: contract_simps wf_addLiquidity_def wf_delegateMarket_def wf_createSubject_def
        split: option.splits dest!: mkIx_data elim!: wf_inputE)
  show "map role_of (take (length (account_roles ClaimLp)) (ixKeys ix)) = account_roles ClaimLp"
    using b by (auto simp: builder_defs Let_def numeral_eq_Suc
        split: option.splits dest: role_wA role_roA dest!: mkIx_roles [where rs = "account_roles ClaimLp"])
qed simp

interpretation k_resolve:
  ix_contract "ix_resolveMarket W" "\<lambda>a. CEmpty ResolveMarket" ResolveMarket
    "\<lambda>a. True" for W
proof unfold_locales
  fix a ix
  assume b: "ix_resolveMarket W a = Inr ix"
  show "parse_call (ixData ix) = Some ((\<lambda>a. CEmpty ResolveMarket) a)" if "(\<lambda>a. True) a"
    using that b
    by (auto simp: contract_simps wf_addLiquidity_def wf_delegateMarket_def wf_createSubject_def
        split: option.splits dest!: mkIx_data elim!: wf_inputE)
  show "map role_of (take (length (account_roles ResolveMarket)) (ixKeys ix)) = account_roles ResolveMarket"
    using b by (auto simp: builder_defs Let_def numeral_eq_Suc
        split: option.splits dest: role_wA role_roA dest!: mkIx_roles [where rs = "account_roles ResolveMarket"])
qed simp

interpretation k_collect:
  ix_contract "ix_collectFee W" "\<lambda>a. CEmpty CollectFee" CollectFee
    "\<lambda>a. True" for W
proof unfold_locales
  fix a ix
  assume b: "ix_collectFee W a = Inr ix"
  show "parse_call (ixData ix) = Some ((\<lambda>a. CEmpty CollectFee) a)" if "(\<lambda>a. True) a"
    using that b
    by (auto simp: contract_simps wf_addLiquidity_def wf_delegateMarket_def wf_createSubject_def
        split: option.splits dest!: mkIx_data elim!: wf_inputE)
  show "map role_of (take (length (account_roles CollectFee)) (ixKeys ix)) = account_roles CollectFee"
    using b by (auto simp: builder_defs Let_def numeral_eq_Suc
        split: option.splits dest: role_wA role_roA dest!: mkIx_roles [where rs = "account_roles CollectFee"])
qed simp

interpretation k_close:
  ix_contract "ix_closeMarket W" "\<lambda>a. CEmpty CloseMarket" CloseMarket
    "\<lambda>a. True" for W
proof unfold_locales
  fix a ix
  assume b: "ix_closeMarket W a = Inr ix"
  show "parse_call (ixData ix) = Some ((\<lambda>a. CEmpty CloseMarket) a)" if "(\<lambda>a. True) a"
    using that b
    by (auto simp: contract_simps wf_addLiquidity_def wf_delegateMarket_def wf_createSubject_def
        split: option.splits dest!: mkIx_data elim!: wf_inputE)
  show "map role_of (take (length (account_roles CloseMarket)) (ixKeys ix)) = account_roles CloseMarket"
    using b by (auto simp: builder_defs Let_def numeral_eq_Suc
        split: option.splits dest: role_wA role_roA dest!: mkIx_roles [where rs = "account_roles CloseMarket"])
qed simp

interpretation k_commit:
  ix_contract "ix_commitMarket W" "\<lambda>a. CEmpty CommitMarket" CommitMarket
    "\<lambda>a. True" for W
proof unfold_locales
  fix a ix
  assume b: "ix_commitMarket W a = Inr ix"
  show "parse_call (ixData ix) = Some ((\<lambda>a. CEmpty CommitMarket) a)" if "(\<lambda>a. True) a"
    using that b
    by (auto simp: contract_simps wf_addLiquidity_def wf_delegateMarket_def wf_createSubject_def
        split: option.splits dest!: mkIx_data elim!: wf_inputE)
  show "map role_of (take (length (account_roles CommitMarket)) (ixKeys ix)) = account_roles CommitMarket"
    using b by (auto simp: builder_defs Let_def numeral_eq_Suc
        split: option.splits dest: role_wA role_roA dest!: mkIx_roles [where rs = "account_roles CommitMarket"])
qed simp

interpretation k_undelegate:
  ix_contract "ix_undelegateMarket W" "\<lambda>a. CEmpty UndelegateMarket" UndelegateMarket
    "\<lambda>a. True" for W
proof unfold_locales
  fix a ix
  assume b: "ix_undelegateMarket W a = Inr ix"
  show "parse_call (ixData ix) = Some ((\<lambda>a. CEmpty UndelegateMarket) a)" if "(\<lambda>a. True) a"
    using that b
    by (auto simp: contract_simps wf_addLiquidity_def wf_delegateMarket_def wf_createSubject_def
        split: option.splits dest!: mkIx_data elim!: wf_inputE)
  show "map role_of (take (length (account_roles UndelegateMarket)) (ixKeys ix)) = account_roles UndelegateMarket"
    using b by (auto simp: builder_defs Let_def numeral_eq_Suc
        split: option.splits dest: role_wA role_roA dest!: mkIx_roles [where rs = "account_roles UndelegateMarket"])
qed simp

end
