(* ===== verification/Wire.thy ===== *)
theory Wire
  imports Dispatch
begin

text \<open>
  The market program's client as one interface: every instruction builder of
  \<open>sdks/markets/ts/src/instructions/\<close> with its arguments (\<open>build_ix\<close>), the call that the
  program reads from what it built (\<open>call_of\<close>) and the arguments' ranges (\<open>wf_build\<close>).  The
  17 contracts of \<open>Dispatch\<close> become one statement.
\<close>

datatype builder_call =
    BInitConfig init_config_args
  | BUpdateConfig update_config_args
  | BCreateMarket create_market_args
  | BContribute contribute_args
  | BCancel cancel_args
  | BRefund refund_args
  | BActivate activate_args
  | BClaimLp claim_lp_args
  | BResolveMarket resolve_market_args
  | BCollectFee collect_fee_args
  | BCloseMarket close_market_args
  | BAddLiquidity add_liquidity_args
  | BDelegateMarket delegate_market_args
  | BCommitMarket er_market_args
  | BUndelegateMarket er_market_args
  | BCreateSubject create_subject_args
  | BRequestAi request_ai_args

fun build_ix :: "web3 \<Rightarrow> builder_call \<Rightarrow> instruction res" where
  "build_ix W (BInitConfig a) = ix_initConfig W a"
| "build_ix W (BUpdateConfig a) = ix_updateConfig W a"
| "build_ix W (BCreateMarket a) = ix_createMarket W a"
| "build_ix W (BContribute a) = ix_contribute W a"
| "build_ix W (BCancel a) = ix_cancel W a"
| "build_ix W (BRefund a) = ix_refund W a"
| "build_ix W (BActivate a) = ix_activate W a"
| "build_ix W (BClaimLp a) = ix_claimLp W a"
| "build_ix W (BResolveMarket a) = ix_resolveMarket W a"
| "build_ix W (BCollectFee a) = ix_collectFee W a"
| "build_ix W (BCloseMarket a) = ix_closeMarket W a"
| "build_ix W (BAddLiquidity a) = ix_addLiquidity W a"
| "build_ix W (BDelegateMarket a) = ix_delegateMarket W a"
| "build_ix W (BCommitMarket a) = ix_commitMarket W a"
| "build_ix W (BUndelegateMarket a) = ix_undelegateMarket W a"
| "build_ix W (BCreateSubject a) = ix_createSubject W a"
| "build_ix W (BRequestAi a) = ix_requestAi W a"

fun call_of :: "web3 \<Rightarrow> builder_call \<Rightarrow> market_call" where
  "call_of W (BInitConfig a) = call_initConfig W a"
| "call_of W (BUpdateConfig a) = call_updateConfig W a"
| "call_of W (BCreateMarket a) = CCreateMarket (cm_seedAmount a) (cm_outcomeIndex a)"
| "call_of W (BContribute a) = CContribute (ct_amount a)"
| "call_of W (BCancel a) = CEmpty Cancel"
| "call_of W (BRefund a) = CEmpty Refund"
| "call_of W (BActivate a) = CEmpty Activate"
| "call_of W (BClaimLp a) = CEmpty ClaimLp"
| "call_of W (BResolveMarket a) = CEmpty ResolveMarket"
| "call_of W (BCollectFee a) = CEmpty CollectFee"
| "call_of W (BCloseMarket a) = CEmpty CloseMarket"
| "call_of W (BAddLiquidity a) = call_addLiquidity a"
| "call_of W (BDelegateMarket a) = call_delegateMarket W a"
| "call_of W (BCommitMarket a) = CEmpty CommitMarket"
| "call_of W (BUndelegateMarket a) = CEmpty UndelegateMarket"
| "call_of W (BCreateSubject a) = call_createSubject W a"
| "call_of W (BRequestAi a) = CRequestAi (ra_text a)"

fun wf_build :: "web3 \<Rightarrow> builder_call \<Rightarrow> bool" where
  "wf_build W (BInitConfig a) = wf_initConfig W a"
| "wf_build W (BUpdateConfig a) = wf_updateConfig W a"
| "wf_build W (BCreateMarket a) = (is_u64 (cm_seedAmount a) \<and> is_u8 (cm_outcomeIndex a))"
| "wf_build W (BContribute a) = is_u64 (ct_amount a)"
| "wf_build W (BAddLiquidity a) = wf_addLiquidity a"
| "wf_build W (BDelegateMarket a) = wf_delegateMarket W a"
| "wf_build W (BCreateSubject a) = wf_createSubject W a"
| "wf_build W (BRequestAi a) = (length (ra_text a) \<le> 700)"
| "wf_build W b = True"

text \<open>Whatever the SDK can build, as the same contract.\<close>

lemmas parsed_rules =
  k_init.parsed k_update.parsed k_create.parsed k_contribute.parsed k_addliq.parsed
  k_delegate.parsed k_subject.parsed k_request.parsed k_cancel.parsed k_refund.parsed
  k_activate.parsed k_claim.parsed k_resolve.parsed k_collect.parsed k_close.parsed
  k_commit.parsed k_undelegate.parsed

lemmas roles_rules =
  k_init.roles k_update.roles k_create.roles k_contribute.roles k_addliq.roles
  k_delegate.roles k_subject.roles k_request.roles k_cancel.roles k_refund.roles
  k_activate.roles k_claim.roles k_resolve.roles k_collect.roles k_close.roles
  k_commit.roles k_undelegate.roles

lemma build_ix_parsed:
  "build_ix W b = Inr ix \<Longrightarrow> wf_build W b \<Longrightarrow> parse_call (ixData ix) = Some (call_of W b)"
  by (cases b) (auto dest: parsed_rules)

lemma build_ix_roles:
  "build_ix W b = Inr ix \<Longrightarrow>
     map role_of (take (length (account_roles (call_ix (call_of W b)))) (ixKeys ix)) =
     account_roles (call_ix (call_of W b))"
  by (cases b) (auto dest: roles_rules)

end
