(* ===== verification/MetaDao.thy ===== *)
theory MetaDao
  imports Dispatch
begin

text \<open>
  The MetaDAO wire builders of \<open>sdks/markets/ts/src/metadao/\<close>: the conditional vault
  (\<open>vault.ts\<close>), the AMM (\<open>amm.ts\<close>) and the reader of its reserves (\<open>accounts.ts\<close>).  The
  account metas of these modules coerce their address argument, as \<open>wA\<close> and \<open>roA\<close> do.
\<close>

text \<open>The test \<open>x ? toAddr(x) : ...\<close> on an optional address: the empty string counts as absent.\<close>

fun given :: "address_input option \<Rightarrow> address_input option" where
  "given (Some (AddrStr s)) = (if s = '''' then None else Some (AddrStr s))"
| "given x = x"

subsection \<open>vault.ts\<close>

record init_question_args =
  iq_payer :: address_input
  iq_questionId :: bytes
  iq_oracle :: address_input
  iq_numOutcomes :: int

definition initializeQuestion :: "web3 \<Rightarrow> init_question_args \<Rightarrow> instruction res" where
  "initializeQuestion W a =
     bindR (md_question W (iq_questionId a) (iq_oracle a) (iq_numOutcomes a)) (\<lambda>question.
     bindR (md_vaultEventAuthority W) (\<lambda>eventAuthority.
     mkIx (CONDITIONAL_VAULT_ID W)
       [Inr (meta_w (fst question) False),
        wA W (iq_payer a) True,
        Inr (meta_ro (SYSTEM_PROGRAM_ID W) False),
        Inr (meta_ro (fst eventAuthority) False),
        Inr (meta_ro (CONDITIONAL_VAULT_ID W) False)]
       (bindR (addr W (iq_oracle a)) (\<lambda>oracle.
        Inr (concatBytes [DISC_initializeQuestion, iq_questionId a, address_bytes oracle,
          u8 (iq_numOutcomes a)])))))"

record init_vault_args =
  iv_payer :: address_input
  iv_question :: address_input
  iv_underlyingMint :: address_input
  iv_numOutcomes :: "int option"

definition initializeConditionalVault :: "web3 \<Rightarrow> init_vault_args \<Rightarrow> instruction res" where
  "initializeConditionalVault W a =
     (let n = orElse (iv_numOutcomes a) 2 in
     bindR (md_conditionalVault W (iv_question a) (iv_underlyingMint a)) (\<lambda>vault.
     bindR (md_ata W (AddrObj (fst vault)) (iv_underlyingMint a)) (\<lambda>vaultUnderlying.
     bindR (md_vaultEventAuthority W) (\<lambda>eventAuthority.
     bindR (seqR (map (\<lambda>i. mapR (\<lambda>m. meta_w (fst m) False)
         (md_conditionalTokenMint W (AddrObj (fst vault)) i)) [0..n - 1])) (\<lambda>condMints.
     mkIx (CONDITIONAL_VAULT_ID W)
       ([Inr (meta_w (fst vault) False),
         roA W (iv_question a) False,
         roA W (iv_underlyingMint a) False,
         Inr (meta_w vaultUnderlying False),
         wA W (iv_payer a) True,
         Inr (meta_ro (TOKEN_PROGRAM_ID W) False),
         Inr (meta_ro (ATA_PROGRAM_ID W) False),
         Inr (meta_ro (SYSTEM_PROGRAM_ID W) False),
         Inr (meta_ro (fst eventAuthority) False),
         Inr (meta_ro (CONDITIONAL_VAULT_ID W) False)] @ map Inr condMints)
       (Inr DISC_initializeConditionalVault))))))"

record interact_args =
  vi_question :: address_input
  vi_vault :: address_input
  vi_vaultUnderlyingAta :: address_input
  vi_authority :: address_input
  vi_userUnderlyingAta :: address_input
  vi_conditionalMints :: "address_input list"
  vi_userConditionalAtas :: "address_input list"

definition interactWithVault :: "web3 \<Rightarrow> bytes \<Rightarrow> interact_args \<Rightarrow> instruction res" where
  "interactWithVault W disc a =
     bindR (md_vaultEventAuthority W) (\<lambda>eventAuthority.
     mkIx (CONDITIONAL_VAULT_ID W)
       ([roA W (vi_question a) False,
         wA W (vi_vault a) False,
         wA W (vi_vaultUnderlyingAta a) False,
         roA W (vi_authority a) True,
         wA W (vi_userUnderlyingAta a) False,
         Inr (meta_ro (TOKEN_PROGRAM_ID W) False),
         Inr (meta_ro (fst eventAuthority) False),
         Inr (meta_ro (CONDITIONAL_VAULT_ID W) False)] @
        map (\<lambda>m. wA W m False) (vi_conditionalMints a) @
        map (\<lambda>u. wA W u False) (vi_userConditionalAtas a))
       (Inr disc))"

definition splitTokens :: "web3 \<Rightarrow> interact_args \<Rightarrow> int \<Rightarrow> instruction res" where
  "splitTokens W a amount = interactWithVault W (concatBytes [DISC_splitTokens, u64LE amount]) a"

definition mergeTokens :: "web3 \<Rightarrow> interact_args \<Rightarrow> int \<Rightarrow> instruction res" where
  "mergeTokens W a amount = interactWithVault W (concatBytes [DISC_mergeTokens, u64LE amount]) a"

definition redeemTokens :: "web3 \<Rightarrow> interact_args \<Rightarrow> instruction res" where
  "redeemTokens W a = interactWithVault W DISC_redeemTokens a"

record resolve_question_args =
  rq_question :: address_input
  rq_oracle :: address_input
  rq_payoutNumerators :: "int \<times> int"

definition resolveQuestion :: "web3 \<Rightarrow> resolve_question_args \<Rightarrow> instruction res" where
  "resolveQuestion W a =
     bindR (md_vaultEventAuthority W) (\<lambda>eventAuthority.
     mkIx (CONDITIONAL_VAULT_ID W)
       [wA W (rq_question a) False,
        roA W (rq_oracle a) True,
        Inr (meta_ro (fst eventAuthority) False),
        Inr (meta_ro (CONDITIONAL_VAULT_ID W) False)]
       (Inr (concatBytes
         [DISC_resolveQuestion, u32LE 2, u32LE (fst (rq_payoutNumerators a)),
          u32LE (snd (rq_payoutNumerators a))])))"

subsection \<open>amm.ts\<close>

record create_amm_args =
  ma_payer :: address_input
  ma_baseMint :: address_input
  ma_quoteMint :: address_input
  ma_twapInitialObservation :: int
  ma_twapMaxObservationChangePerUpdate :: int
  ma_twapStartDelaySlots :: "int option"

definition createAmm :: "web3 \<Rightarrow> create_amm_args \<Rightarrow> instruction res" where
  "createAmm W a =
     bindR (md_amm W (ma_baseMint a) (ma_quoteMint a)) (\<lambda>amm.
     bindR (md_ammLpMint W (AddrObj (fst amm))) (\<lambda>lpMint.
     bindR (md_ata W (AddrObj (fst amm)) (ma_baseMint a)) (\<lambda>vaultBase.
     bindR (md_ata W (AddrObj (fst amm)) (ma_quoteMint a)) (\<lambda>vaultQuote.
     bindR (md_ammEventAuthority W) (\<lambda>eventAuthority.
     mkIx (AMM_V04_ID W)
       [wA W (ma_payer a) True,
        Inr (meta_w (fst amm) False),
        Inr (meta_w (fst lpMint) False),
        roA W (ma_baseMint a) False,
        roA W (ma_quoteMint a) False,
        Inr (meta_w vaultBase False),
        Inr (meta_w vaultQuote False),
        Inr (meta_ro (ATA_PROGRAM_ID W) False),
        Inr (meta_ro (TOKEN_PROGRAM_ID W) False),
        Inr (meta_ro (SYSTEM_PROGRAM_ID W) False),
        Inr (meta_ro (fst eventAuthority) False),
        Inr (meta_ro (AMM_V04_ID W) False)]
       (Inr (concatBytes
         [DISC_createAmm, u128LE (ma_twapInitialObservation a),
          u128LE (ma_twapMaxObservationChangePerUpdate a),
          u64LE (orElse (ma_twapStartDelaySlots a) 0)])))))))"

record amm_add_args =
  mq_payer :: address_input
  mq_baseMint :: address_input
  mq_quoteMint :: address_input
  mq_quoteAmount :: int
  mq_maxBaseAmount :: int
  mq_minLpTokens :: "int option"

definition ammAddLiquidity :: "web3 \<Rightarrow> amm_add_args \<Rightarrow> instruction res" where
  "ammAddLiquidity W a =
     bindR (md_amm W (mq_baseMint a) (mq_quoteMint a)) (\<lambda>amm.
     bindR (md_ammLpMint W (AddrObj (fst amm))) (\<lambda>lpMint.
     bindR (md_ata W (mq_payer a) (AddrObj (fst lpMint))) (\<lambda>userLp.
     bindR (md_ata W (mq_payer a) (mq_baseMint a)) (\<lambda>userBase.
     bindR (md_ata W (mq_payer a) (mq_quoteMint a)) (\<lambda>userQuote.
     bindR (md_ata W (AddrObj (fst amm)) (mq_baseMint a)) (\<lambda>vaultBase.
     bindR (md_ata W (AddrObj (fst amm)) (mq_quoteMint a)) (\<lambda>vaultQuote.
     bindR (md_ammEventAuthority W) (\<lambda>eventAuthority.
     mkIx (AMM_V04_ID W)
       [wA W (mq_payer a) True,
        Inr (meta_w (fst amm) False),
        Inr (meta_w (fst lpMint) False),
        Inr (meta_w userLp False),
        Inr (meta_w userBase False),
        Inr (meta_w userQuote False),
        Inr (meta_w vaultBase False),
        Inr (meta_w vaultQuote False),
        Inr (meta_ro (TOKEN_PROGRAM_ID W) False),
        Inr (meta_ro (fst eventAuthority) False),
        Inr (meta_ro (AMM_V04_ID W) False)]
       (Inr (concatBytes
         [DISC_addLiquidity, u64LE (mq_quoteAmount a), u64LE (mq_maxBaseAmount a),
          u64LE (orElse (mq_minLpTokens a) 0)]))))))))))"

record swap_args =
  sw_payer :: address_input
  sw_baseMint :: address_input
  sw_quoteMint :: address_input
  sw_swapType :: SwapType
  sw_inputAmount :: int
  sw_outputAmountMin :: "int option"
  sw_userBase :: "address_input option"
  sw_userQuote :: "address_input option"

definition orAta :: "web3 \<Rightarrow> address_input option \<Rightarrow> address_input \<Rightarrow> address_input \<Rightarrow> address res" where
  "orAta W a owner mint =
     (case given a of Some x \<Rightarrow> addr W x | None \<Rightarrow> md_ata W owner mint)"

definition swap :: "web3 \<Rightarrow> swap_args \<Rightarrow> instruction res" where
  "swap W a =
     bindR (md_amm W (sw_baseMint a) (sw_quoteMint a)) (\<lambda>amm.
     bindR (orAta W (sw_userBase a) (sw_payer a) (sw_baseMint a)) (\<lambda>userBase.
     bindR (orAta W (sw_userQuote a) (sw_payer a) (sw_quoteMint a)) (\<lambda>userQuote.
     bindR (md_ata W (AddrObj (fst amm)) (sw_baseMint a)) (\<lambda>vaultBase.
     bindR (md_ata W (AddrObj (fst amm)) (sw_quoteMint a)) (\<lambda>vaultQuote.
     bindR (md_ammEventAuthority W) (\<lambda>eventAuthority.
     mkIx (AMM_V04_ID W)
       [wA W (sw_payer a) True,
        Inr (meta_w (fst amm) False),
        Inr (meta_w userBase False),
        Inr (meta_w userQuote False),
        Inr (meta_w vaultBase False),
        Inr (meta_w vaultQuote False),
        Inr (meta_ro (TOKEN_PROGRAM_ID W) False),
        Inr (meta_ro (fst eventAuthority) False),
        Inr (meta_ro (AMM_V04_ID W) False)]
       (Inr (concatBytes
         [DISC_swap, u8 (swap_code (sw_swapType a)), u64LE (sw_inputAmount a),
          u64LE (orElse (sw_outputAmountMin a) 0)]))))))))"

definition crankThatTwap :: "web3 \<Rightarrow> address_input \<Rightarrow> instruction res" where
  "crankThatTwap W amm =
     bindR (md_ammEventAuthority W) (\<lambda>eventAuthority.
     mkIx (AMM_V04_ID W)
       [wA W amm False,
        Inr (meta_ro (fst eventAuthority) False),
        Inr (meta_ro (AMM_V04_ID W) False)]
       (Inr DISC_crankThatTwap))"

subsection \<open>accounts.ts\<close>

record AmmReserves =
  ar_base :: int
  ar_quote :: int

definition AMM_MIN_LEN :: nat where
  "AMM_MIN_LEN = AMM_QUOTE_AMOUNT_OFFSET + 8"

definition decodeAmmReserves :: "bytes \<Rightarrow> AmmReserves option" where
  "decodeAmmReserves data =
     (if length data < AMM_MIN_LEN then None
      else if \<exists>i\<in>set [0..<length AMM_ACCOUNT_DISCRIMINATOR]. data ! i \<noteq> AMM_ACCOUNT_DISCRIMINATOR ! i
        then None
      else (case (getUint 8 data AMM_BASE_AMOUNT_OFFSET, getUint 8 data AMM_QUOTE_AMOUNT_OFFSET) of
          (Inr base, Inr quote) \<Rightarrow> Some \<lparr>ar_base = base, ar_quote = quote\<rparr>
        | _ \<Rightarrow> None))"

subsection \<open>Lemmas\<close>

lemma prefix_by_index:
  assumes "length ds \<le> length data"
  shows "(\<exists>i\<in>set [0..<length ds]. data ! i \<noteq> ds ! i) \<longleftrightarrow> take (length ds) data \<noteq> ds"
proof -
  have "take (length ds) data = ds \<longleftrightarrow> (\<forall>i<length ds. data ! i = ds ! i)"
    using assms by (auto simp: list_eq_iff_nth_eq)
  then show ?thesis by auto
qed

text \<open>
  The reader accepts exactly the buffers that are long enough and start with the account
  discriminator, and what it returns are the little-endian values at the two offsets, which fit
  64 bits.
\<close>

lemma decodeAmmReserves_iff:
  "decodeAmmReserves data = Some r \<longleftrightarrow>
     131 \<le> length data \<and> take 8 data = AMM_ACCOUNT_DISCRIMINATOR \<and>
     r = \<lparr>ar_base = le_uint (fld 115 8 data), ar_quote = le_uint (fld 123 8 data)\<rparr>"
proof (cases "131 \<le> length data")
  case True
  have "length AMM_ACCOUNT_DISCRIMINATOR = 8" by (simp add: AMM_ACCOUNT_DISCRIMINATOR_def)
  with True prefix_by_index [of AMM_ACCOUNT_DISCRIMINATOR data] show ?thesis
    by (auto simp: decodeAmmReserves_def AMM_MIN_LEN_def AMM_QUOTE_AMOUNT_OFFSET_def
        AMM_BASE_AMOUNT_OFFSET_def getUint_def fld_def simp del: set_upt)
next
  case False
  then show ?thesis
    by (simp add: decodeAmmReserves_def AMM_MIN_LEN_def AMM_QUOTE_AMOUNT_OFFSET_def)
qed

lemma is_u64_fld: "is_u64 (le_uint (fld off 8 data))"
proof -
  have "le_uint (fld off 8 data) < 256 ^ length (fld off 8 data)" by (rule le_uint_bound)
  also have "\<dots> \<le> 256 ^ 8" by (rule power_increasing) (simp_all add: fld_def)
  finally show ?thesis using le_uint_nonneg [of "fld off 8 data"] by (simp add: is_u64_def)
qed

end
