(* ===== verification/Flows.thy ===== *)
theory Flows
  imports MetaDao
begin

text \<open>
  The client flows of \<open>sdks/markets/ts/src/flows/\<close>: composing a market's MetaDAO scaffolding and
  rebuilding its addresses from the account (\<open>compose.ts\<close>), token-account creation
  (\<open>atas.ts\<close>), adding liquidity, buying and selling, redeeming, the fee and close cranks,
  and creating all outcomes of an oracle.  A flow returns the ordered instruction list it would
  send.
\<close>

subsection \<open>compose.ts\<close>

definition TWAP_INITIAL_OBSERVATION :: int where
  "TWAP_INITIAL_OBSERVATION = 1000000000000"

definition TWAP_MAX_OBSERVATION_CHANGE_PER_UPDATE :: int where
  "TWAP_MAX_OBSERVATION_CHANGE_PER_UPDATE = (2 ^ 64 - 1) * 1000000000000"

definition TWAP_START_DELAY_SLOTS :: int where
  "TWAP_START_DELAY_SLOTS = 0"

record MarketRefs =
  mr_market :: address
  mr_oracle :: address
  mr_baseMint :: address
  mr_question :: address
  mr_vault :: address
  mr_vaultUnderlyingAta :: address
  mr_yesMint :: address
  mr_noMint :: address
  mr_amm :: address
  mr_lpMint :: address
  mr_ammVaultBase :: address
  mr_ammVaultQuote :: address
  mr_cvEventAuthority :: address
  mr_ammEventAuthority :: address
  mr_marketCyes :: address
  mr_marketCno :: address
  mr_lpVault :: address
  mr_escrow :: address

text \<open>The derivations run under one \<open>Promise.all\<close>; all of them have to succeed.\<close>

definition marketRefsFromAccount :: "web3 \<Rightarrow> address_input \<Rightarrow> Market \<Rightarrow> MarketRefs res" where
  "marketRefsFromAccount W marketIn m =
     bindR (addr W marketIn) (\<lambda>market.
     bindR (md_ata W (AddrObj (mk_vault m)) (AddrObj (mk_baseMint m))) (\<lambda>vaultUnderlyingAta.
     bindR (md_ata W (AddrObj (mk_amm m)) (AddrObj (mk_yesMint m))) (\<lambda>ammVaultBase.
     bindR (md_ata W (AddrObj (mk_amm m)) (AddrObj (mk_noMint m))) (\<lambda>ammVaultQuote.
     bindR (md_vaultEventAuthority W) (\<lambda>cvEventAuthority.
     bindR (md_ammEventAuthority W) (\<lambda>ammEventAuthority.
     bindR (pda_cyes W (AddrObj market) None) (\<lambda>marketCyes.
     bindR (pda_cno W (AddrObj market) None) (\<lambda>marketCno.
     Inr \<lparr>
       mr_market = market,
       mr_oracle = mk_oracle m,
       mr_baseMint = mk_baseMint m,
       mr_question = mk_question m,
       mr_vault = mk_vault m,
       mr_vaultUnderlyingAta = vaultUnderlyingAta,
       mr_yesMint = mk_yesMint m,
       mr_noMint = mk_noMint m,
       mr_amm = mk_amm m,
       mr_lpMint = mk_lpMint m,
       mr_ammVaultBase = ammVaultBase,
       mr_ammVaultQuote = ammVaultQuote,
       mr_cvEventAuthority = fst cvEventAuthority,
       mr_ammEventAuthority = fst ammEventAuthority,
       mr_marketCyes = fst marketCyes,
       mr_marketCno = fst marketCno,
       mr_lpVault = mk_lpVault m,
       mr_escrow = mk_escrowVault m\<rparr>))))))))"

record ComposeParams =
  cp_market :: address_input
  cp_oracle :: address_input
  cp_baseMint :: address_input
  cp_payer :: address_input

definition composeMarketInstructions ::
  "web3 \<Rightarrow> ComposeParams \<Rightarrow> (instruction list \<times> MarketRefs) res" where
  "composeMarketInstructions W p =
     bindR (addr W (cp_market p)) (\<lambda>market.
     bindR (addr W (cp_oracle p)) (\<lambda>oracle.
     bindR (addr W (cp_baseMint p)) (\<lambda>baseMint.
     bindR (addr W (cp_payer p)) (\<lambda>payer.
     let questionId = address_bytes oracle in
     bindR (md_question W questionId (AddrObj market) 2) (\<lambda>question.
     bindR (md_conditionalVault W (AddrObj (fst question)) (AddrObj baseMint)) (\<lambda>vault.
     bindR (md_ata W (AddrObj (fst vault)) (AddrObj baseMint)) (\<lambda>vaultUnderlyingAta.
     bindR (md_conditionalTokenMint W (AddrObj (fst vault)) 0) (\<lambda>yesMint.
     bindR (md_conditionalTokenMint W (AddrObj (fst vault)) 1) (\<lambda>noMint.
     bindR (md_amm W (AddrObj (fst yesMint)) (AddrObj (fst noMint))) (\<lambda>amm.
     bindR (md_ammLpMint W (AddrObj (fst amm))) (\<lambda>lpMint.
     bindR (md_ata W (AddrObj (fst amm)) (AddrObj (fst yesMint))) (\<lambda>ammVaultBase.
     bindR (md_ata W (AddrObj (fst amm)) (AddrObj (fst noMint))) (\<lambda>ammVaultQuote.
     bindR (md_vaultEventAuthority W) (\<lambda>cvEventAuthority.
     bindR (md_ammEventAuthority W) (\<lambda>ammEventAuthority.
     bindR (pda_cyes W (AddrObj market) None) (\<lambda>marketCyes.
     bindR (pda_cno W (AddrObj market) None) (\<lambda>marketCno.
     bindR (pda_lpVault W (AddrObj market) None) (\<lambda>lpVault.
     bindR (pda_escrow W (AddrObj market) None) (\<lambda>escrow.
     bindR (initializeQuestion W
       \<lparr>iq_payer = AddrObj payer, iq_questionId = questionId, iq_oracle = AddrObj market,
        iq_numOutcomes = 2\<rparr>) (\<lambda>ixQuestion.
     bindR (initializeConditionalVault W
       \<lparr>iv_payer = AddrObj payer, iv_question = AddrObj (fst question),
        iv_underlyingMint = AddrObj baseMint, iv_numOutcomes = Some 2\<rparr>) (\<lambda>ixVault.
     bindR (createAmm W
       \<lparr>ma_payer = AddrObj payer, ma_baseMint = AddrObj (fst yesMint),
        ma_quoteMint = AddrObj (fst noMint),
        ma_twapInitialObservation = TWAP_INITIAL_OBSERVATION,
        ma_twapMaxObservationChangePerUpdate = TWAP_MAX_OBSERVATION_CHANGE_PER_UPDATE,
        ma_twapStartDelaySlots = Some TWAP_START_DELAY_SLOTS\<rparr>) (\<lambda>ixAmm.
     Inr ([ixQuestion, ixVault, ixAmm],
       \<lparr>mr_market = market,
        mr_oracle = oracle,
        mr_baseMint = baseMint,
        mr_question = fst question,
        mr_vault = fst vault,
        mr_vaultUnderlyingAta = vaultUnderlyingAta,
        mr_yesMint = fst yesMint,
        mr_noMint = fst noMint,
        mr_amm = fst amm,
        mr_lpMint = fst lpMint,
        mr_ammVaultBase = ammVaultBase,
        mr_ammVaultQuote = ammVaultQuote,
        mr_cvEventAuthority = fst cvEventAuthority,
        mr_ammEventAuthority = fst ammEventAuthority,
        mr_marketCyes = fst marketCyes,
        mr_marketCno = fst marketCno,
        mr_lpVault = fst lpVault,
        mr_escrow = fst escrow\<rparr>)))))))))))))))))))))))"

definition activateInstruction :: "web3 \<Rightarrow> MarketRefs \<Rightarrow> address_input \<Rightarrow> instruction res" where
  "activateInstruction W refs payer =
     ix_activate W
       \<lparr>av_market = AddrObj (mr_market refs),
        av_oracle = AddrObj (mr_oracle refs),
        av_payer = payer,
        av_question = AddrObj (mr_question refs),
        av_vault = AddrObj (mr_vault refs),
        av_vaultUnderlyingAta = AddrObj (mr_vaultUnderlyingAta refs),
        av_yesMint = AddrObj (mr_yesMint refs),
        av_noMint = AddrObj (mr_noMint refs),
        av_marketCyes = AddrObj (mr_marketCyes refs),
        av_marketCno = AddrObj (mr_marketCno refs),
        av_amm = AddrObj (mr_amm refs),
        av_lpMint = AddrObj (mr_lpMint refs),
        av_lpVault = AddrObj (mr_lpVault refs),
        av_ammVaultBase = AddrObj (mr_ammVaultBase refs),
        av_ammVaultQuote = AddrObj (mr_ammVaultQuote refs),
        av_cvEventAuthority = AddrObj (mr_cvEventAuthority refs),
        av_ammEventAuthority = AddrObj (mr_ammEventAuthority refs),
        av_cvProgram = Some (AddrObj (CONDITIONAL_VAULT_ID W)),
        av_ammProgram = Some (AddrObj (AMM_V04_ID W)),
        av_tokenProgram = None,
        av_systemProgram = None,
        av_programId = None\<rparr>"

subsection \<open>atas.ts\<close>

definition createAtaIdempotentInstruction ::
  "web3 \<Rightarrow> address \<Rightarrow> address \<Rightarrow> address \<Rightarrow> address \<Rightarrow> instruction" where
  "createAtaIdempotentInstruction W payer ata owner mint =
     \<lparr>ixProgramId = ATA_PROGRAM_ID W,
      ixKeys = [meta_w payer True, meta_w ata False, meta_ro owner False, meta_ro mint False,
        meta_ro (SYSTEM_PROGRAM_ID W) False, meta_ro (TOKEN_PROGRAM_ID W) False],
      ixData = [1]\<rparr>"

definition createIdempotentAta ::
  "web3 \<Rightarrow> address \<Rightarrow> address \<Rightarrow> address \<Rightarrow> (instruction \<times> address) res" where
  "createIdempotentAta W payer owner mint =
     mapR (\<lambda>ata. (createAtaIdempotentInstruction W payer (fst ata) owner mint, fst ata))
       (pda_associatedTokenAccount W (AddrObj owner) (AddrObj mint))"

record EnsureAtas =
  ea_instructions :: "instruction list"
  ea_userYesAta :: address
  ea_userNoAta :: address
  ea_userBaseAta :: "address option"

definition ensureConditionalAtasInstructions ::
  "web3 \<Rightarrow> MarketRefs \<Rightarrow> address_input \<Rightarrow> address_input option \<Rightarrow> bool option \<Rightarrow> EnsureAtas res" where
  "ensureConditionalAtasInstructions W refs user payerIn includeKass =
     bindR (addr W user) (\<lambda>owner.
     bindR (case given payerIn of Some x \<Rightarrow> addr W x | None \<Rightarrow> Inr owner) (\<lambda>payer.
     bindR (createIdempotentAta W payer owner (mr_yesMint refs)) (\<lambda>yes.
     bindR (createIdempotentAta W payer owner (mr_noMint refs)) (\<lambda>no.
     let instructions = [fst yes, fst no] in
     if orElse includeKass False then
       bindR (createIdempotentAta W payer owner (mr_baseMint refs)) (\<lambda>base.
       Inr \<lparr>ea_instructions = instructions @ [fst base], ea_userYesAta = snd yes,
            ea_userNoAta = snd no, ea_userBaseAta = Some (snd base)\<rparr>)
     else
       Inr \<lparr>ea_instructions = instructions, ea_userYesAta = snd yes,
            ea_userNoAta = snd no, ea_userBaseAta = None\<rparr>))))"

subsection \<open>addLiquidity.ts\<close>

text \<open>\<open>bigint\<close> division truncates toward zero; \<open>/ 0n\<close> throws, but both divisors are guarded.\<close>

definition bdiv :: "int \<Rightarrow> int \<Rightarrow> int" where
  "bdiv a b = sgn a * sgn b * (\<bar>a\<bar> div \<bar>b\<bar>)"

definition minB :: "int \<Rightarrow> int \<Rightarrow> int" where
  "minB a b = (if a < b then a else b)"

record AddLiquidityFlowParams =
  fl_refs :: MarketRefs
  fl_depositor :: address_input
  fl_amount :: int
  fl_baseReserve :: int
  fl_quoteReserve :: int
  fl_lpSupply :: int
  fl_slippageBps :: "int option"

definition al_quote :: "int \<Rightarrow> int \<Rightarrow> int \<Rightarrow> int" where
  "al_quote amount baseReserve quoteReserve =
     (let q = (if baseReserve = 0 then amount
               else minB amount (bdiv (amount * quoteReserve) baseReserve) - 2)
      in if q < 0 then 0 else q)"

definition al_expectedLp :: "int \<Rightarrow> int \<Rightarrow> int \<Rightarrow> int" where
  "al_expectedLp quoteAmount quoteReserve lpSupply =
     (if quoteReserve > 0 then bdiv (quoteAmount * lpSupply) quoteReserve else 0)"

definition al_minLp :: "int \<Rightarrow> int \<Rightarrow> int" where
  "al_minLp expectedLp slippageBps =
     (let fl = bdiv (expectedLp * (10000 - slippageBps)) 10000 in if fl > 0 then fl else 1)"

record AddLiquidityFlowResult =
  fr_instructions :: "instruction list"
  fr_quoteAmount :: int
  fr_maxBaseAmount :: int
  fr_minLpTokens :: int
  fr_expectedLp :: int

definition addLiquidityInstructions ::
  "web3 \<Rightarrow> AddLiquidityFlowParams \<Rightarrow> AddLiquidityFlowResult res" where
  "addLiquidityInstructions W p =
     (let refs = fl_refs p;
          amount = fl_amount p;
          slippageBps = orElse (fl_slippageBps p) 100;
          quoteAmount = al_quote amount (fl_baseReserve p) (fl_quoteReserve p);
          maxBaseAmount = amount;
          expectedLp = al_expectedLp quoteAmount (fl_quoteReserve p) (fl_lpSupply p);
          minLpTokens = al_minLp expectedLp slippageBps
      in
      bindR (ensureConditionalAtasInstructions W refs (fl_depositor p) None (Some True)) (\<lambda>atas.
      bindR (ix_addLiquidity W
        \<lparr>al_market = AddrObj (mr_market refs),
         al_oracle = AddrObj (mr_oracle refs),
         al_depositor = fl_depositor p,
         al_baseMint = AddrObj (mr_baseMint refs),
         al_question = AddrObj (mr_question refs),
         al_vault = AddrObj (mr_vault refs),
         al_vaultUnderlyingAta = AddrObj (mr_vaultUnderlyingAta refs),
         al_yesMint = AddrObj (mr_yesMint refs),
         al_noMint = AddrObj (mr_noMint refs),
         al_amm = AddrObj (mr_amm refs),
         al_lpMint = AddrObj (mr_lpMint refs),
         al_ammVaultBase = AddrObj (mr_ammVaultBase refs),
         al_ammVaultQuote = AddrObj (mr_ammVaultQuote refs),
         al_cvEventAuthority = AddrObj (mr_cvEventAuthority refs),
         al_ammEventAuthority = AddrObj (mr_ammEventAuthority refs),
         al_amount = amount,
         al_quoteAmount = quoteAmount,
         al_maxBaseAmount = maxBaseAmount,
         al_minLpTokens = minLpTokens,
         al_cvProgram = Some (AddrObj (CONDITIONAL_VAULT_ID W)),
         al_ammProgram = Some (AddrObj (AMM_V04_ID W)),
         al_tokenProgram = None,
         al_systemProgram = None,
         al_programId = None\<rparr>) (\<lambda>ix.
      Inr \<lparr>fr_instructions = ea_instructions atas @ [ix],
           fr_quoteAmount = quoteAmount,
           fr_maxBaseAmount = maxBaseAmount,
           fr_minLpTokens = minLpTokens,
           fr_expectedLp = expectedLp\<rparr>)))"

subsection \<open>trade.ts\<close>

definition userConditionalAtas ::
  "web3 \<Rightarrow> MarketRefs \<Rightarrow> address_input \<Rightarrow> address_input option \<Rightarrow> address_input option \<Rightarrow>
   (address \<times> address) res" where
  "userConditionalAtas W refs user userYesAta userNoAta =
     bindR (orAta W userYesAta user (AddrObj (mr_yesMint refs))) (\<lambda>yes.
     bindR (orAta W userNoAta user (AddrObj (mr_noMint refs))) (\<lambda>no. Inr (yes, no)))"

text \<open>An \<open>Outcome\<close> is a string at run time, and only two strings are one.\<close>

definition isYes :: "string \<Rightarrow> bool res" where
  "isYes outcome =
     (if outcome \<noteq> ''yes'' \<and> outcome \<noteq> ''no''
      then Inl (Error (''outcome must be '' @ json_string ''yes'' @ '' or '' @ json_string ''no'' @ '', got '' @
        json_string outcome))
      else Inr (outcome = ''yes''))"

record BuyParams =
  bp_refs :: MarketRefs
  bp_user :: address_input
  bp_outcome :: string
  bp_kassAmount :: int
  bp_userBaseAta :: address_input
  bp_userYesAta :: "address_input option"
  bp_userNoAta :: "address_input option"
  bp_outputAmountMin :: "int option"

definition vaultArgs ::
  "MarketRefs \<Rightarrow> address_input \<Rightarrow> address_input \<Rightarrow> address \<Rightarrow> address \<Rightarrow> interact_args" where
  "vaultArgs refs user userBaseAta yes no =
     \<lparr>vi_question = AddrObj (mr_question refs),
      vi_vault = AddrObj (mr_vault refs),
      vi_vaultUnderlyingAta = AddrObj (mr_vaultUnderlyingAta refs),
      vi_authority = user,
      vi_userUnderlyingAta = userBaseAta,
      vi_conditionalMints = [AddrObj (mr_yesMint refs), AddrObj (mr_noMint refs)],
      vi_userConditionalAtas = [AddrObj yes, AddrObj no]\<rparr>"

definition swapArgs ::
  "MarketRefs \<Rightarrow> address_input \<Rightarrow> address \<Rightarrow> address \<Rightarrow> SwapType \<Rightarrow> int \<Rightarrow> int option \<Rightarrow> swap_args" where
  "swapArgs refs user yes no ty amount outMin =
     \<lparr>sw_payer = user,
      sw_baseMint = AddrObj (mr_yesMint refs),
      sw_quoteMint = AddrObj (mr_noMint refs),
      sw_swapType = ty,
      sw_inputAmount = amount,
      sw_outputAmountMin = Some (orElse outMin 0),
      sw_userBase = Some (AddrObj yes),
      sw_userQuote = Some (AddrObj no)\<rparr>"

definition buyInstructions ::
  "web3 \<Rightarrow> BuyParams \<Rightarrow> (instruction list \<times> address \<times> address) res" where
  "buyInstructions W p =
     bindR (isYes (bp_outcome p)) (\<lambda>yesOutcome.
     bindR (userConditionalAtas W (bp_refs p) (bp_user p) (bp_userYesAta p) (bp_userNoAta p)) (\<lambda>(yes, no).
     bindR (splitTokens W (vaultArgs (bp_refs p) (bp_user p) (bp_userBaseAta p) yes no)
       (bp_kassAmount p)) (\<lambda>split.
     bindR (swap W (swapArgs (bp_refs p) (bp_user p) yes no (if yesOutcome then Buy else Sell)
       (bp_kassAmount p) (bp_outputAmountMin p))) (\<lambda>sw.
     Inr ([split, sw], yes, no)))))"

record SellParams =
  sp_refs :: MarketRefs
  sp_user :: address_input
  sp_outcome :: string
  sp_swapAmount :: int
  sp_mergeAmount :: int
  sp_userBaseAta :: address_input
  sp_userYesAta :: "address_input option"
  sp_userNoAta :: "address_input option"
  sp_outputAmountMin :: "int option"

definition sellInstructions ::
  "web3 \<Rightarrow> SellParams \<Rightarrow> (instruction list \<times> address \<times> address) res" where
  "sellInstructions W p =
     bindR (isYes (sp_outcome p)) (\<lambda>yesOutcome.
     bindR (userConditionalAtas W (sp_refs p) (sp_user p) (sp_userYesAta p) (sp_userNoAta p)) (\<lambda>(yes, no).
     bindR (swap W (swapArgs (sp_refs p) (sp_user p) yes no (if yesOutcome then Sell else Buy)
       (sp_swapAmount p) (sp_outputAmountMin p))) (\<lambda>sw.
     bindR (mergeTokens W (vaultArgs (sp_refs p) (sp_user p) (sp_userBaseAta p) yes no)
       (sp_mergeAmount p)) (\<lambda>merge.
     Inr ([sw, merge], yes, no)))))"

subsection \<open>redeem.ts, collectFee.ts, closeMarket.ts\<close>

record RedeemParams =
  rd_refs :: MarketRefs
  rd_user :: address_input
  rd_userBaseAta :: address_input
  rd_userYesAta :: "address_input option"
  rd_userNoAta :: "address_input option"

definition redeemInstructions ::
  "web3 \<Rightarrow> RedeemParams \<Rightarrow> (instruction list \<times> address \<times> address) res" where
  "redeemInstructions W p =
     bindR (orAta W (rd_userYesAta p) (rd_user p) (AddrObj (mr_yesMint (rd_refs p)))) (\<lambda>yes.
     bindR (orAta W (rd_userNoAta p) (rd_user p) (AddrObj (mr_noMint (rd_refs p)))) (\<lambda>no.
     bindR (redeemTokens W (vaultArgs (rd_refs p) (rd_user p) (rd_userBaseAta p) yes no)) (\<lambda>redeem.
     Inr ([redeem], yes, no))))"

definition collectFeeInstruction :: "web3 \<Rightarrow> MarketRefs \<Rightarrow> address_input \<Rightarrow> instruction res" where
  "collectFeeInstruction W refs feeDestination =
     ix_collectFee W
       \<lparr>cq_market = AddrObj (mr_market refs),
        cq_feeDestination = feeDestination,
        cq_question = AddrObj (mr_question refs),
        cq_vault = AddrObj (mr_vault refs),
        cq_vaultUnderlyingAta = AddrObj (mr_vaultUnderlyingAta refs),
        cq_yesMint = AddrObj (mr_yesMint refs),
        cq_noMint = AddrObj (mr_noMint refs),
        cq_marketCyes = AddrObj (mr_marketCyes refs),
        cq_marketCno = AddrObj (mr_marketCno refs),
        cq_amm = AddrObj (mr_amm refs),
        cq_lpMint = AddrObj (mr_lpMint refs),
        cq_lpVault = AddrObj (mr_lpVault refs),
        cq_ammVaultBase = AddrObj (mr_ammVaultBase refs),
        cq_ammVaultQuote = AddrObj (mr_ammVaultQuote refs),
        cq_cvEventAuthority = AddrObj (mr_cvEventAuthority refs),
        cq_ammEventAuthority = AddrObj (mr_ammEventAuthority refs),
        cq_cvProgram = Some (AddrObj (CONDITIONAL_VAULT_ID W)),
        cq_ammProgram = Some (AddrObj (AMM_V04_ID W)),
        cq_tokenProgram = None,
        cq_programId = None\<rparr>"

definition closeMarketInstruction :: "web3 \<Rightarrow> address_input \<Rightarrow> address_input \<Rightarrow> instruction res" where
  "closeMarketInstruction W market creator =
     ix_closeMarket W \<lparr>cz_market = market, cz_creator = creator, cz_programId = None\<rparr>"

subsection \<open>createAll.ts\<close>

record CreateAllParams =
  ap_oracle :: address_input
  ap_optionsCount :: int
  ap_creator :: address_input
  ap_baseMint :: address_input
  ap_creatorBaseAta :: address_input
  ap_seedAmount :: int
  ap_programId :: "address option"

record CreateAllStep =
  st_outcomeIndex :: int
  st_market :: address
  st_instruction :: instruction

definition createAllStep :: "web3 \<Rightarrow> CreateAllParams \<Rightarrow> int \<Rightarrow> CreateAllStep res" where
  "createAllStep W p outcomeIndex =
     bindR (pda_market W (ap_oracle p) outcomeIndex (ap_programId p)) (\<lambda>market.
     bindR (ix_createMarket W
       \<lparr>cm_creator = ap_creator p, cm_oracle = ap_oracle p, cm_baseMint = ap_baseMint p,
        cm_creatorBaseAta = ap_creatorBaseAta p, cm_seedAmount = ap_seedAmount p,
        cm_outcomeIndex = outcomeIndex, cm_programId = ap_programId p\<rparr>) (\<lambda>instruction.
     Inr \<lparr>st_outcomeIndex = outcomeIndex, st_market = fst market, st_instruction = instruction\<rparr>))"

definition createAllOutcomeMarkets :: "web3 \<Rightarrow> CreateAllParams \<Rightarrow> CreateAllStep list res" where
  "createAllOutcomeMarkets W p =
     (if ap_optionsCount p < 1 then Inl (Error (''optionsCount must be a positive integer, got '' @
       show_int (ap_optionsCount p)))
      else seqR (map (createAllStep W p) [0..ap_optionsCount p - 1]))"

subsection \<open>Amounts\<close>

lemma bdiv_nonneg: "0 \<le> a \<Longrightarrow> 0 \<le> b \<Longrightarrow> bdiv a b = a div b"
  by (cases "a = 0"; cases "b = 0") (simp_all add: bdiv_def sgn_if)

lemma minB_min: "minB a b = min a b"
  by (simp add: minB_def min_def)

lemma al_quote_range:
  assumes "0 \<le> amount" and "0 \<le> baseReserve" and "0 \<le> quoteReserve"
  shows "0 \<le> al_quote amount baseReserve quoteReserve \<and> al_quote amount baseReserve quoteReserve \<le> amount"
  using assms by (auto simp: al_quote_def Let_def minB_min)

text \<open>
  The headroom: the AMM pulls \<open>quote * base div quote_reserve + 1\<close> cYES for a quote deposit,
  and that stays within the deposit.
\<close>

lemma al_quote_headroom:
  assumes "0 < amount" and "0 < baseReserve" and "0 < quoteReserve"
  shows "al_quote amount baseReserve quoteReserve * baseReserve div quoteReserve + 1 \<le> amount"
proof (cases "al_quote amount baseReserve quoteReserve = 0")
  case True
  with assms show ?thesis by simp
next
  case False
  let ?q = "al_quote amount baseReserve quoteReserve"
  have "?q \<le> amount * quoteReserve div baseReserve - 2"
    using False assms by (auto simp: al_quote_def Let_def minB_min bdiv_nonneg split: if_splits)
  then have "?q * baseReserve \<le> (amount * quoteReserve div baseReserve - 2) * baseReserve"
    using assms(2) by (simp add: mult_right_mono)
  also have "\<dots> = amount * quoteReserve div baseReserve * baseReserve - 2 * baseReserve"
    by (simp add: algebra_simps)
  also have "\<dots> < amount * quoteReserve"
    using assms(2) div_mult_mod_eq [of "amount * quoteReserve" baseReserve]
      pos_mod_sign [of baseReserve "amount * quoteReserve"] by linarith
  finally have "?q * baseReserve < amount * quoteReserve" .
  then have "?q * baseReserve div quoteReserve < amount" by (rule zdiv_lessI [OF assms(3)])
  then show ?thesis by simp
qed

lemma al_minLp_pos: "1 \<le> al_minLp expectedLp slippageBps"
  by (simp add: al_minLp_def Let_def)

lemma al_minLp_le:
  assumes "0 < expectedLp" and "0 \<le> slippageBps" and "slippageBps \<le> 10000"
  shows "al_minLp expectedLp slippageBps \<le> expectedLp"
proof -
  have "expectedLp * (10000 - slippageBps) div 10000 \<le> expectedLp * 10000 div 10000"
    using assms by (intro zdiv_mono1 mult_left_mono) auto
  then show ?thesis using assms by (simp add: al_minLp_def Let_def bdiv_nonneg)
qed

subsection \<open>Addresses\<close>

text \<open>An account that records a composition rebuilds exactly its addresses.\<close>

definition records_refs :: "Market \<Rightarrow> MarketRefs \<Rightarrow> bool" where
  "records_refs m refs \<longleftrightarrow>
     mk_oracle m = mr_oracle refs \<and> mk_baseMint m = mr_baseMint refs \<and>
     mk_question m = mr_question refs \<and> mk_vault m = mr_vault refs \<and>
     mk_yesMint m = mr_yesMint refs \<and> mk_noMint m = mr_noMint refs \<and>
     mk_amm m = mr_amm refs \<and> mk_lpMint m = mr_lpMint refs \<and>
     mk_lpVault m = mr_lpVault refs \<and> mk_escrowVault m = mr_escrow refs"

lemma compose_refs:
  assumes "composeMarketInstructions W p = Inr (ixs, refs)" and "records_refs m refs"
  shows "marketRefsFromAccount W (AddrObj (mr_market refs)) m = Inr refs"
  using assms
  by (auto simp: composeMarketInstructions_def marketRefsFromAccount_def records_refs_def Let_def)

lemma orAta_given [simp]: "orAta W (Some (AddrObj a)) owner mint = Inr a"
  by (simp add: orAta_def)

lemma orAta_None [simp]: "orAta W None owner mint = md_ata W owner mint"
  by (simp add: orAta_def)

text \<open>The accounts at the positions of an instruction's account list.\<close>

definition key_at :: "instruction \<Rightarrow> nat \<Rightarrow> address" where
  "key_at ix i = pubkey (ixKeys ix ! i)"

lemma interact_keys:
  assumes "interactWithVault W disc (vaultArgs refs user userBaseAta yes no) = Inr ix"
  shows "length (ixKeys ix) = 12" and "key_at ix 8 = mr_yesMint refs" and "key_at ix 9 = mr_noMint refs"
    and "key_at ix 10 = yes" and "key_at ix 11 = no" and "ixData ix = disc"
    and "key_at ix 1 = mr_vault refs" and "ixProgramId ix = CONDITIONAL_VAULT_ID W"
  using assms
  by (auto simp: interactWithVault_def vaultArgs_def mkIx_def bindR_Inr_iff mapR_Inr_iff key_at_def
      wA_Inr_iff roA_Inr_iff)

lemma swap_keys:
  assumes "swap W (swapArgs refs user yes no ty amount outMin) = Inr ix"
  shows "length (ixKeys ix) = 9" and "key_at ix 2 = yes" and "key_at ix 3 = no"
    and "ixData ix = DISC_swap @ u8 (swap_code ty) @ u64LE amount @ u64LE (orElse outMin 0)"
    and "ixProgramId ix = AMM_V04_ID W"
  using assms
  by (auto simp: swap_def swapArgs_def mkIx_def bindR_Inr_iff mapR_Inr_iff key_at_def
      wA_Inr_iff roA_Inr_iff)

end
