(* ===== verification/Jupiter.thy ===== *)
theory Jupiter
  imports Flows JsString
begin

text \<open>
  The any-token entry of \<open>sdks/markets/ts/src/flows/jupiter.ts\<close>: the quote and swap requests the
  app will send to Jupiter, and the combination of the fetched swap instruction with a market
  flow.  Nothing is sent here.  The amount is a \<open>bigint\<close> (\<open>BigInt(amount)\<close> of one is itself).
  The \<open>quoteResponse\<close> of the swap body is left unset by the code, so the record has no field
  for it.
\<close>

fun addrString :: "web3 \<Rightarrow> address_input \<Rightarrow> string" where
  "addrString W (AddrStr s) = s"
| "addrString W (AddrObj a) = toBase58 W a"

record JupiterEntryParams =
  jp_inputMint :: address_input
  jp_outputMint :: address_input
  jp_amount :: int
  jp_slippageBps :: int
  jp_userPublicKey :: address_input
  jp_onlyDirectRoutes :: "bool option"
  jp_wrapAndUnwrapSol :: "bool option"

record JupiterQuoteRequest =
  jq_inputMint :: string
  jq_outputMint :: string
  jq_amount :: string
  jq_slippageBps :: int
  jq_onlyDirectRoutes :: bool
  jq_swapMode :: string

record JupiterSwapRequest =
  js_userPublicKey :: string
  js_wrapAndUnwrapSol :: bool

record JupiterEntryRequest =
  jr_baseUrl :: string
  jr_quote :: JupiterQuoteRequest
  jr_swap :: JupiterSwapRequest

definition JUPITER_V6_BASE_URL :: string where
  "JUPITER_V6_BASE_URL = ''https://quote-api.jup.ag/v6''"

definition buildJupiterEntryRequest ::
  "web3 \<Rightarrow> JupiterEntryParams \<Rightarrow> string option \<Rightarrow> JupiterEntryRequest" where
  "buildJupiterEntryRequest W p baseUrl =
     \<lparr>jr_baseUrl = orElse baseUrl JUPITER_V6_BASE_URL,
      jr_quote =
        \<lparr>jq_inputMint = addrString W (jp_inputMint p),
         jq_outputMint = addrString W (jp_outputMint p),
         jq_amount = show_int (jp_amount p),
         jq_slippageBps = jp_slippageBps p,
         jq_onlyDirectRoutes = orElse (jp_onlyDirectRoutes p) False,
         jq_swapMode = ''ExactIn''\<rparr>,
      jr_swap =
        \<lparr>js_userPublicKey = addrString W (jp_userPublicKey p),
         js_wrapAndUnwrapSol = orElse (jp_wrapAndUnwrapSol p) True\<rparr>\<rparr>"

definition composeWithEntry :: "instruction \<Rightarrow> instruction list \<Rightarrow> instruction list" where
  "composeWithEntry jupiterSwapIx marketInstructions = jupiterSwapIx # marketInstructions"

text \<open>Requests for different amounts or, through base58, for different mints differ.\<close>

lemma addrString_inject:
  "base58_ok W \<Longrightarrow> wf_address a \<Longrightarrow> wf_address b \<Longrightarrow>
     addrString W (AddrObj a) = addrString W (AddrObj b) \<longleftrightarrow> a = b"
  by (simp add: base58_ok_inj)

lemma request_quote:
  assumes "buildJupiterEntryRequest W p u = buildJupiterEntryRequest W q u"
  shows "jp_amount p = jp_amount q" "jp_slippageBps p = jp_slippageBps q"
    "addrString W (jp_inputMint p) = addrString W (jp_inputMint q)"
    "addrString W (jp_userPublicKey p) = addrString W (jp_userPublicKey q)"
  using assms by (auto simp: buildJupiterEntryRequest_def show_int_inject)

end
