(* ===== verification/JsNumber.thy ===== *)
theory JsNumber
  imports Complex_Main Prelude
begin

text \<open>
  JavaScript's \<open>Number\<close>: IEEE 754 binary64 arithmetic with round-to-nearest, ties to even,
  as an executable model over the rationals.  A finite number is the rational it denotes, every
  operation computes exactly and rounds once (\<open>rnd\<close>), and a result whose rounding reaches
  \<open>2^1024\<close> is an infinity.  The two zeros are one value here: the source only tells them
  apart where it divides by zero, and its guards keep every divisor away from zero.

  The locale \<open>rounding\<close> holds the three facts about rounding that the client code's
  guarantees rest on (it is monotone, exact on representable numbers, and yields representable
  numbers) with their consequences; \<open>dbl\<close> is its interpretation on \<open>rnd\<close>.
\<close>

subsection \<open>Binary logarithm and integer square root\<close>

function ilog2 :: "int \<Rightarrow> nat" where
  "ilog2 n = (if n < 2 then 0 else Suc (ilog2 (n div 2)))"
  by pat_completeness auto
termination
  by (relation "measure nat") auto

function isqrt :: "int \<Rightarrow> int" where
  "isqrt n =
     (if n \<le> 0 then 0
      else let r = 2 * isqrt (n div 4) in if (r + 1) * (r + 1) \<le> n then r + 1 else r)"
  by pat_completeness auto
termination
  by (relation "measure nat") auto

declare ilog2.simps [simp del] isqrt.simps [simp del]

lemma ilog2_bounds: "0 < n \<Longrightarrow> 2 ^ ilog2 n \<le> n \<and> n < 2 ^ Suc (ilog2 n)"
proof (induction n rule: ilog2.induct)
  case (1 n)
  show ?case
  proof (cases "n < 2")
    case True
    with 1 show ?thesis by (simp add: ilog2.simps [of n])
  next
    case False
    then have "2 ^ ilog2 (n div 2) \<le> n div 2" "n div 2 < 2 ^ Suc (ilog2 (n div 2))"
      using 1 by auto
    then have "2 * 2 ^ ilog2 (n div 2) \<le> n" and "n < 4 * 2 ^ ilog2 (n div 2)"
      unfolding power_Suc by linarith+
    with False show ?thesis by (simp add: ilog2.simps [of n])
  qed
qed

lemma isqrt_bounds:
  "0 \<le> n \<Longrightarrow> 0 \<le> isqrt n \<and> isqrt n * isqrt n \<le> n \<and> n < (isqrt n + 1) * (isqrt n + 1)"
proof (induction n rule: isqrt.induct)
  case (1 n)
  show ?case
  proof (cases "n = 0")
    case True
    then show ?thesis by (simp add: isqrt.simps)
  next
    case False
    with 1 have pos: "\<not> n \<le> 0" by simp
    define q where "q = isqrt (n div 4)"
    have ih: "0 \<le> q" "q * q \<le> n div 4" "n div 4 < (q + 1) * (q + 1)"
      using "1.IH" [OF pos] pos by (simp_all add: q_def)
    have "4 * (q * q) \<le> n" "n < 4 * ((q + 1) * (q + 1))"
      using ih by linarith+
    then show ?thesis
      using pos ih by (simp add: isqrt.simps [of n] Let_def q_def [symmetric] algebra_simps)
  qed
qed

subsection \<open>Rounding a rational to an integer, ties to even\<close>

definition rne :: "rat \<Rightarrow> int" where
  "rne x =
     (let f = \<lfloor>x\<rfloor>; d = x - of_int f
      in if d < 1/2 then f else if 1/2 < d then f + 1 else if even f then f else f + 1)"

lemma rne_of_int [simp]: "rne (of_int n) = n"
  by (simp add: rne_def)

lemma rne_floor: "\<lfloor>x\<rfloor> \<le> rne x \<and> rne x \<le> \<lfloor>x\<rfloor> + 1"
  by (simp add: rne_def Let_def)

lemma rne_le_of_int: "x \<le> of_int n \<Longrightarrow> rne x \<le> n"
proof -
  assume x: "x \<le> of_int n"
  show "rne x \<le> n"
  proof (cases "x = of_int n")
    case True
    then show ?thesis by simp
  next
    case False
    with x have "\<lfloor>x\<rfloor> < n" by (simp add: floor_less_iff)
    then show ?thesis using rne_floor [of x] by linarith
  qed
qed

lemma rne_ge_of_int: "of_int n \<le> x \<Longrightarrow> n \<le> rne x"
  using rne_floor [of x] by (simp add: le_floor_iff [symmetric])

lemma rne_mono: "x \<le> y \<Longrightarrow> rne x \<le> rne y"
proof (cases "\<lfloor>x\<rfloor> = \<lfloor>y\<rfloor>")
  case True
  assume "x \<le> y"
  with True show ?thesis by (auto simp: rne_def Let_def)
next
  case False
  assume "x \<le> y"
  with False have "\<lfloor>x\<rfloor> < \<lfloor>y\<rfloor>" using floor_mono [of x y] by linarith
  then show ?thesis using rne_floor [of x] rne_floor [of y] by linarith
qed

lemma rne_minus: "rne (- x) = - rne x"
proof (cases "x = of_int \<lfloor>x\<rfloor>")
  case True
  then show ?thesis by (metis of_int_minus rne_of_int)
next
  case False
  define f where "f = \<lfloor>x\<rfloor>"
  from False have "of_int f < x" "x < of_int f + 1"
    unfolding f_def using of_int_floor_le [of x] by linarith+
  then have m: "\<lfloor>- x\<rfloor> = - f - 1" by (intro floor_unique) simp_all
  show ?thesis unfolding rne_def m f_def [symmetric] Let_def by auto
qed

lemma rne_error: "\<bar>of_int (rne x) - x\<bar> \<le> 1/2"
proof -
  define f where "f = \<lfloor>x\<rfloor>"
  have "of_int f \<le> x" "x < of_int f + 1" unfolding f_def by linarith+
  then show ?thesis unfolding rne_def f_def [symmetric] Let_def by (auto simp: abs_if)
qed

subsection \<open>Powers of two and the binade of a number\<close>

abbreviation pow2 :: "int \<Rightarrow> rat" where
  "pow2 k \<equiv> 2 powi k"

lemma pow2_pos [simp]: "0 < pow2 k"
  by simp

lemma pow2_mono: "a \<le> b \<Longrightarrow> pow2 a \<le> pow2 b"
  by (simp add: power_int_increasing)

lemma pow2_add: "pow2 (a + b) = pow2 a * pow2 b"
  by (simp add: power_int_add)

lemma pow2_diff_mult: "pow2 (a - b) * pow2 b = pow2 a"
  by (metis diff_add_cancel pow2_add)

text \<open>\<open>ex2 x\<close> is the \<open>e\<close> with \<open>2^e \<le> x < 2^(e+1)\<close>, for a positive \<open>x\<close>.\<close>

definition ex2 :: "rat \<Rightarrow> int" where
  "ex2 x =
     (let (p, q) = quotient_of x; e = int (ilog2 p) - int (ilog2 q)
      in if x < pow2 e then e - 1 else e)"

lemma ex2_bounds:
  assumes "0 < x"
  shows "pow2 (ex2 x) \<le> x \<and> x < pow2 (ex2 x + 1)"
proof -
  obtain p q where pq: "quotient_of x = (p, q)" by fastforce
  then have q: "0 < q" by (rule quotient_of_denom_pos)
  have x: "x = of_int p / of_int q" using quotient_of_div [OF pq] .
  with assms q have p: "0 < p" by (simp add: zero_less_divide_iff)
  define a b where "a = ilog2 p" and "b = ilog2 q"
  have A: "2 ^ a \<le> p" "p < 2 ^ Suc a"
    using ilog2_bounds [OF p] by (simp_all add: a_def)
  have B: "2 ^ b \<le> q" "q < 2 ^ Suc b"
    using ilog2_bounds [OF q] by (simp_all add: b_def)
  let ?p = "of_int p :: rat" and ?q = "of_int q :: rat"
  have A': "2 ^ a \<le> ?p" "?p < 2 * 2 ^ a" and B': "2 ^ b \<le> ?q" "?q < 2 * 2 ^ b"
    using A B by (simp_all add: numeral_power_le_of_int_cancel_iff of_int_less_numeral_power_cancel_iff
        flip: power_Suc)
  have pe: "pow2 (int a - int b) = 2 ^ a / 2 ^ b" by (simp add: power_int_diff)
  have qpos: "0 < ?q" using q by simp
  have lo: "2 ^ a * ?q < 2 * ?p * 2 ^ b"
  proof -
    have "2 ^ a * ?q < 2 ^ a * (2 * 2 ^ b)" using B' by simp
    also have "\<dots> \<le> ?p * (2 * 2 ^ b)" using A' by (intro mult_right_mono) simp_all
    finally show ?thesis by (simp add: ac_simps)
  qed
  have hi: "?p * 2 ^ b < 2 * 2 ^ a * ?q"
  proof -
    have "?p * 2 ^ b < 2 * 2 ^ a * 2 ^ b" using A' by (intro mult_strict_right_mono) simp_all
    also have "\<dots> \<le> 2 * 2 ^ a * ?q" using B' by (intro mult_left_mono) simp_all
    finally show ?thesis .
  qed
  have "pow2 (int a - int b - 1) = 2 ^ a / 2 ^ b / 2" by (simp add: power_int_diff)
  then have lo': "pow2 (int a - int b - 1) < x"
    using lo qpos unfolding x by (simp only:) (simp add: field_simps)
  have hi': "x < pow2 (int a - int b + 1)"
    using hi qpos unfolding pow2_add pe by (simp add: x field_simps)
  have "ex2 x = (if x < pow2 (int a - int b) then int a - int b - 1 else int a - int b)"
    by (simp add: ex2_def pq a_def b_def Let_def)
  with lo' hi' show ?thesis by auto
qed

lemma ex2_unique:
  assumes "pow2 e \<le> x" and "x < pow2 (e + 1)"
  shows "ex2 x = e"
proof -
  have x: "0 < x" using assms(1) pow2_pos [of e] by linarith
  note b = ex2_bounds [OF x]
  have "pow2 (ex2 x) < pow2 (e + 1)" "pow2 e < pow2 (ex2 x + 1)" using b assms by linarith+
  then have "ex2 x < e + 1" "e < ex2 x + 1"
    by (meson not_le pow2_mono)+
  then show ?thesis by simp
qed

lemma ex2_mono:
  assumes "0 < x" and "x \<le> y"
  shows "ex2 x \<le> ex2 y"
proof (rule ccontr)
  assume "\<not> ?thesis"
  then have "pow2 (ex2 y + 1) \<le> pow2 (ex2 x)" by (intro pow2_mono) simp
  then show False using ex2_bounds [of x] ex2_bounds [of y] assms by linarith
qed

subsection \<open>Rounding to binary64, without the overflow\<close>

text \<open>
  The unit in the last place of \<open>x\<close> is \<open>2^(e-52)\<close> for the binade \<open>e\<close> of \<open>x\<close>, and never
  below \<open>2^-1074\<close> (subnormal numbers).
\<close>

definition ulp_ex :: "rat \<Rightarrow> int" where
  "ulp_ex x = max (ex2 \<bar>x\<bar>) (- 1022) - 52"

definition rnd :: "rat \<Rightarrow> rat" where
  "rnd x = (if x = 0 then 0 else let q = pow2 (ulp_ex x) in of_int (rne (x / q)) * q)"

text \<open>The rationals that are finite numbers when the exponent has no upper bound.\<close>

definition repr :: "rat \<Rightarrow> bool" where
  "repr x \<longleftrightarrow> (\<exists>m e. x = of_int m * pow2 e \<and> \<bar>m\<bar> \<le> 2 ^ 53 \<and> - 1074 \<le> e)"

lemma rnd_0 [simp]: "rnd 0 = 0"
  by (simp add: rnd_def)

lemma rnd_minus: "rnd (- x) = - rnd x"
  by (simp add: rnd_def ulp_ex_def Let_def rne_minus)

lemma pow2_int [simp]: "pow2 (int n) = 2 ^ n"
  by simp

lemma ulp_ex_ge: "- 1074 \<le> ulp_ex x"
  by (simp add: ulp_ex_def)

lemma scaled_bound:
  assumes "x \<noteq> 0"
  shows "\<bar>x\<bar> / pow2 (ulp_ex x) < 2 ^ 53"
proof -
  have "\<bar>x\<bar> < pow2 (ex2 \<bar>x\<bar> + 1)" using ex2_bounds [of "\<bar>x\<bar>"] assms by simp
  also have "\<dots> \<le> pow2 (ulp_ex x + 53)" by (rule pow2_mono) (simp add: ulp_ex_def)
  also have "\<dots> = 2 ^ 53 * pow2 (ulp_ex x)" by (simp add: power_int_add)
  finally show ?thesis by (simp add: pos_divide_less_eq)
qed

lemma repr_rnd [simp]: "repr (rnd x)"
proof (cases "x = 0")
  case True
  then show ?thesis unfolding repr_def by (intro exI [of _ 0]) simp
next
  case False
  let ?q = "pow2 (ulp_ex x)"
  have "\<bar>x / ?q\<bar> < 2 ^ 53" using scaled_bound [OF False] by (simp only: abs_divide) simp
  then have "x / ?q \<le> of_int (2 ^ 53)" and "of_int (- (2 ^ 53)) \<le> x / ?q"
    by (simp_all only: abs_less_iff of_int_power of_int_minus of_int_numeral) linarith+
  then have "rne (x / ?q) \<le> 2 ^ 53" and "- (2 ^ 53) \<le> rne (x / ?q)"
    by (blast intro: rne_le_of_int rne_ge_of_int)+
  then have "\<bar>rne (x / ?q)\<bar> \<le> 2 ^ 53" by linarith
  with False show ?thesis
    unfolding repr_def rnd_def Let_def using ulp_ex_ge [of x] by auto
qed

lemma ulp_ex_le:
  assumes "x = of_int m * pow2 e" and "\<bar>m\<bar> < 2 ^ 53" and "- 1074 \<le> e" and "x \<noteq> 0"
  shows "ulp_ex x \<le> e"
proof -
  have "\<bar>x\<bar> < pow2 (e + 53)"
  proof -
    have "\<bar>x\<bar> = of_int \<bar>m\<bar> * pow2 e" using assms(1) by (simp add: abs_mult)
    also have "\<dots> < 2 ^ 53 * pow2 e" using assms(2)
      by (intro mult_strict_right_mono) (simp_all add: of_int_less_numeral_power_cancel_iff flip: of_int_abs)
    finally show ?thesis by (simp add: power_int_add ac_simps)
  qed
  moreover have "pow2 (ex2 \<bar>x\<bar>) \<le> \<bar>x\<bar>" using ex2_bounds [of "\<bar>x\<bar>"] assms(4) by simp
  ultimately have "pow2 (ex2 \<bar>x\<bar>) < pow2 (e + 53)" by linarith
  then have "ex2 \<bar>x\<bar> < e + 53" by (meson not_le pow2_mono)
  with assms(3) show ?thesis by (simp add: ulp_ex_def)
qed

lemma rnd_multiple:
  assumes "x = of_int m * pow2 e" and "ulp_ex x \<le> e"
  shows "rnd x = x"
proof (cases "x = 0")
  case False
  let ?q = "pow2 (ulp_ex x)"
  have "pow2 e / ?q = pow2 (e - ulp_ex x)" by (simp add: power_int_diff)
  also have "\<dots> = 2 ^ nat (e - ulp_ex x)" using assms(2) by (simp add: power_int_def)
  finally have pq: "pow2 e / ?q = 2 ^ nat (e - ulp_ex x)" .
  have "x / ?q = of_int m * (pow2 e / ?q)" using assms(1) by (simp only: times_divide_eq_right)
  also have "\<dots> = of_int (m * 2 ^ nat (e - ulp_ex x))" unfolding pq by simp
  finally have xq: "x / ?q = of_int (m * 2 ^ nat (e - ulp_ex x))" .
  then have "rne (x / ?q) = m * 2 ^ nat (e - ulp_ex x)" by (metis rne_of_int)
  then have "of_int (rne (x / ?q)) * ?q = x"
    using xq by (metis nonzero_eq_divide_eq pow2_pos less_irrefl)
  with False show ?thesis by (simp add: rnd_def Let_def)
qed simp

lemma rnd_repr: "repr x \<Longrightarrow> rnd x = x"
proof -
  assume "repr x"
  then obtain m e where x: "x = of_int m * pow2 e" and m: "\<bar>m\<bar> \<le> 2 ^ 53" and e: "- 1074 \<le> e"
    unfolding repr_def by blast
  show ?thesis
  proof (cases "\<bar>m\<bar> = 2 ^ 53 \<or> x = 0")
    case False
    then show ?thesis using rnd_multiple [OF x] ulp_ex_le [OF x] m e by simp
  next
    case True
    show ?thesis
    proof (cases "x = 0")
      case False
      with True have "m = 2 ^ 53 \<or> m = - (2 ^ 53)" by auto
      then have x': "x = of_int (m div 2) * pow2 (e + 1)" "\<bar>m div 2\<bar> < 2 ^ 53"
        using x by (auto simp: power_int_add)
      show ?thesis using rnd_multiple [OF x'(1)] ulp_ex_le [OF x'] e False by simp
    qed simp
  qed
qed

lemma rnd_mono_pos:
  assumes "0 < x" and "x \<le> y"
  shows "rnd x \<le> rnd y"
proof -
  have y: "0 < y" using assms by simp
  have le: "ulp_ex x \<le> ulp_ex y" using ex2_mono [OF assms] assms y by (simp add: ulp_ex_def)
  show ?thesis
  proof (cases "ulp_ex x = ulp_ex y")
    case True
    have "rne (x / pow2 (ulp_ex x)) \<le> rne (y / pow2 (ulp_ex x))"
      using assms by (intro rne_mono divide_right_mono) simp_all
    then show ?thesis using assms y True by (simp add: rnd_def Let_def)
  next
    case False
    with le have lt: "ulp_ex x < ulp_ex y" by simp
    let ?qx = "pow2 (ulp_ex x)" and ?qy = "pow2 (ulp_ex y)"
    have ey: "ulp_ex y = ex2 y - 52" using lt y ulp_ex_ge [of x] by (auto simp: ulp_ex_def)
    have "x / ?qx \<le> of_int (2 ^ 53)" using scaled_bound [of x] assms by simp
    then have "rne (x / ?qx) \<le> 2 ^ 53" by (rule rne_le_of_int)
    then have "(of_int (rne (x / ?qx)) :: rat) \<le> of_int (2 ^ 53)" by (simp only: of_int_le_iff)
    then have "rnd x \<le> 2 ^ 53 * ?qx"
      using assms by (simp add: rnd_def Let_def)
    also have "2 ^ 53 * ?qx = pow2 (ulp_ex x + 53)" by (simp add: power_int_add)
    also have "\<dots> \<le> pow2 (ulp_ex y + 52)" using lt by (intro pow2_mono) simp
    also have "\<dots> = of_int (2 ^ 52) * ?qy" by (simp add: power_int_add)
    also have "\<dots> \<le> of_int (rne (y / ?qy)) * ?qy"
    proof -
      have "2 ^ 52 * ?qy = pow2 (ex2 y)" using ey by (simp add: power_int_diff)
      then have "of_int (2 ^ 52) \<le> y / ?qy"
        using ex2_bounds [OF y] by (simp add: pos_le_divide_eq)
      then have "2 ^ 52 \<le> rne (y / ?qy)" by (rule rne_ge_of_int)
      then show ?thesis by (intro mult_right_mono) (simp_all only: of_int_le_iff less_imp_le pow2_pos)
    qed
    also have "\<dots> = rnd y" using y by (simp add: rnd_def Let_def)
    finally show ?thesis .
  qed
qed

lemma rnd_nonneg: "0 \<le> x \<Longrightarrow> 0 \<le> rnd x"
  using rne_ge_of_int [of 0 "x / pow2 (ulp_ex x)"] by (simp add: rnd_def Let_def)

lemma rnd_mono: "x \<le> y \<Longrightarrow> rnd x \<le> rnd y"
proof -
  assume le: "x \<le> y"
  consider "0 < x" | "x \<le> 0" "0 \<le> y" | "y < 0" by linarith
  then show ?thesis
  proof cases
    case 1
    with le show ?thesis by (intro rnd_mono_pos)
  next
    case 2
    then show ?thesis using rnd_nonneg [of y] rnd_nonneg [of "- x"] by (simp add: rnd_minus)
  next
    case 3
    with le show ?thesis using rnd_mono_pos [of "- y" "- x"] by (simp add: rnd_minus)
  qed
qed

lemma repr_of_int: "\<bar>n\<bar> \<le> 2 ^ 53 \<Longrightarrow> repr (of_int n)"
  unfolding repr_def by (intro exI [of _ n] exI [of _ 0]) simp

lemma repr_pow2: "- 1074 \<le> k \<Longrightarrow> repr (pow2 k)"
  unfolding repr_def by (intro exI [of _ 1] exI [of _ k]) simp

lemma repr_minus: "repr x \<Longrightarrow> repr (- x)"
proof -
  assume "repr x"
  then obtain m e where "x = of_int m * pow2 e" "\<bar>m\<bar> \<le> 2 ^ 53" "- 1074 \<le> e"
    unfolding repr_def by blast
  then show ?thesis unfolding repr_def by (intro exI [of _ "- m"] exI [of _ e]) simp
qed

subsection \<open>The interface of rounding\<close>

locale rounding =
  fixes r :: "rat \<Rightarrow> rat" and rep :: "rat \<Rightarrow> bool"
  assumes r_mono: "x \<le> y \<Longrightarrow> r x \<le> r y"
    and r_exact: "rep x \<Longrightarrow> r x = x"
    and r_rep: "rep (r x)"
begin

lemma r_idem: "r (r x) = r x"
  by (simp add: r_exact r_rep)

lemma r_le: "x \<le> c \<Longrightarrow> rep c \<Longrightarrow> r x \<le> c"
  using r_mono [of x c] r_exact [of c] by simp

lemma r_ge: "c \<le> x \<Longrightarrow> rep c \<Longrightarrow> c \<le> r x"
  using r_mono [of c x] r_exact [of c] by simp

lemma r_unit: "rep 0 \<Longrightarrow> rep 1 \<Longrightarrow> 0 \<le> x \<Longrightarrow> x \<le> 1 \<Longrightarrow> 0 \<le> r x \<and> r x \<le> 1"
  by (simp add: r_le r_ge)

lemma r_add_ge: "rep a \<Longrightarrow> 0 \<le> b \<Longrightarrow> a \<le> r (a + b)"
  by (rule r_ge) simp_all

lemma r_abs_le:
  assumes "\<bar>x\<bar> \<le> c" and "rep c" and "rep (- c)"
  shows "\<bar>r x\<bar> \<le> c"
  using assms r_le [of x c] r_ge [of "- c" x] by (simp add: abs_le_iff)

end

interpretation dbl: rounding rnd repr
  by unfold_locales (simp_all add: rnd_mono rnd_repr)

lemma rnd_of_int: "\<bar>n\<bar> \<le> 2 ^ 53 \<Longrightarrow> rnd (of_int n) = of_int n"
  by (rule rnd_repr) (rule repr_of_int)

lemma repr_0 [simp]: "repr 0" and repr_1 [simp]: "repr 1"
  using repr_of_int [of 0] repr_of_int [of 1] by simp_all

lemma rnd_1 [simp]: "rnd 1 = 1"
  by (simp add: rnd_repr)

subsection \<open>Numbers and their operations\<close>

datatype jsnum = NaN | PInf | NInf | Fin rat

definition num :: "rat \<Rightarrow> jsnum" where
  "num x =
     (let y = rnd x in if 2 ^ 1024 \<le> y then PInf else if y \<le> - (2 ^ 1024) then NInf else Fin y)"

text \<open>\<open>Number(n)\<close> of a \<open>bigint\<close>.\<close>

definition Number :: "int \<Rightarrow> jsnum" where
  "Number n = num (of_int n)"

fun nneg :: "jsnum \<Rightarrow> jsnum" where
  "nneg NaN = NaN"
| "nneg PInf = NInf"
| "nneg NInf = PInf"
| "nneg (Fin a) = Fin (- a)"

fun nadd :: "jsnum \<Rightarrow> jsnum \<Rightarrow> jsnum" where
  "nadd (Fin a) (Fin b) = num (a + b)"
| "nadd NaN y = NaN"
| "nadd x NaN = NaN"
| "nadd PInf NInf = NaN"
| "nadd NInf PInf = NaN"
| "nadd PInf y = PInf"
| "nadd NInf y = NInf"
| "nadd (Fin a) y = y"

definition nsub :: "jsnum \<Rightarrow> jsnum \<Rightarrow> jsnum" where
  "nsub x y = nadd x (nneg y)"

text \<open>The sign of a number: 1, 0 or -1 (and 0 for \<open>NaN\<close>, which the callers exclude).\<close>

fun nsgn :: "jsnum \<Rightarrow> int" where
  "nsgn NaN = 0"
| "nsgn PInf = 1"
| "nsgn NInf = - 1"
| "nsgn (Fin a) = (if 0 < a then 1 else if a < 0 then - 1 else 0)"

definition inf_of :: "int \<Rightarrow> jsnum" where
  "inf_of s = (if s = 0 then NaN else if 0 < s then PInf else NInf)"

fun nmul :: "jsnum \<Rightarrow> jsnum \<Rightarrow> jsnum" where
  "nmul (Fin a) (Fin b) = num (a * b)"
| "nmul NaN y = NaN"
| "nmul x NaN = NaN"
| "nmul x y = inf_of (nsgn x * nsgn y)"

fun ndiv :: "jsnum \<Rightarrow> jsnum \<Rightarrow> jsnum" where
  "ndiv (Fin a) (Fin b) = (if b = 0 then inf_of (nsgn (Fin a)) else num (a / b))"
| "ndiv NaN y = NaN"
| "ndiv x NaN = NaN"
| "ndiv (Fin a) y = Fin 0"
| "ndiv x (Fin b) = inf_of (nsgn x * (if b < 0 then - 1 else 1))"
| "ndiv x y = NaN"

fun nle :: "jsnum \<Rightarrow> jsnum \<Rightarrow> bool" where
  "nle (Fin a) (Fin b) = (a \<le> b)"
| "nle NaN y = False"
| "nle x NaN = False"
| "nle NInf y = True"
| "nle x PInf = True"
| "nle x y = False"

definition nlt :: "jsnum \<Rightarrow> jsnum \<Rightarrow> bool" where
  "nlt x y = (nle x y \<and> \<not> nle y x)"

definition neqn :: "jsnum \<Rightarrow> jsnum \<Rightarrow> bool" where
  "neqn x y = (nle x y \<and> nle y x)"

definition nmin :: "jsnum \<Rightarrow> jsnum \<Rightarrow> jsnum" where
  "nmin x y = (if x = NaN \<or> y = NaN then NaN else if nle x y then x else y)"

definition nmax :: "jsnum \<Rightarrow> jsnum \<Rightarrow> jsnum" where
  "nmax x y = (if x = NaN \<or> y = NaN then NaN else if nle x y then y else x)"

fun nfloor :: "jsnum \<Rightarrow> jsnum" where
  "nfloor (Fin a) = Fin (of_int \<lfloor>a\<rfloor>)"
| "nfloor x = x"

fun nceil :: "jsnum \<Rightarrow> jsnum" where
  "nceil (Fin a) = Fin (of_int \<lceil>a\<rceil>)"
| "nceil x = x"

text \<open>\<open>Math.round\<close> rounds halves up.\<close>

fun nround :: "jsnum \<Rightarrow> jsnum" where
  "nround (Fin a) = Fin (of_int \<lfloor>a + 1/2\<rfloor>)"
| "nround x = x"

text \<open>
  The correctly rounded square root of a positive number: the result lies in the binade
  \<open>e\<close>, and the quotient by its unit is compared with the half-way point by squaring.
\<close>

definition sqrt_rnd :: "rat \<Rightarrow> rat" where
  "sqrt_rnd x =
     (let q = pow2 (ex2 x div 2 - 52); v = x / (q * q); s = isqrt \<lfloor>v\<rfloor>;
          h = of_int ((2 * s + 1) * (2 * s + 1)); w = 4 * v
      in of_int (if w < h then s else if h < w then s + 1 else if even s then s else s + 1) * q)"

fun nsqrt :: "jsnum \<Rightarrow> jsnum" where
  "nsqrt (Fin a) = (if a < 0 then NaN else if a = 0 then Fin 0 else Fin (sqrt_rnd a))"
| "nsqrt PInf = PInf"
| "nsqrt x = NaN"

text \<open>\<open>BigInt(x)\<close> of a number throws unless it is an integer.\<close>

definition BigIntOf :: "jsnum \<Rightarrow> int res" where
  "BigIntOf x =
     (case x of
        Fin a \<Rightarrow> if of_int \<lfloor>a\<rfloor> = a then Inr \<lfloor>a\<rfloor>
          else Inl (RangeError ''The number cannot be converted to a BigInt because it is not an integer'')
      | _ \<Rightarrow> Inl (RangeError ''The number cannot be converted to a BigInt because it is not an integer''))"

text \<open>What a \<open>Number\<close> can be: a representable rational below the overflow threshold.\<close>

fun wf_num :: "jsnum \<Rightarrow> bool" where
  "wf_num (Fin a) = (repr a \<and> \<bar>a\<bar> < 2 ^ 1024)"
| "wf_num x = True"

subsection \<open>Facts about the operations\<close>

lemma wf_num_num [simp]: "wf_num (num x)"
  by (simp add: num_def Let_def abs_less_iff)

lemma num_cases: "num x = PInf \<or> num x = NInf \<or> num x = Fin (rnd x)"
  by (simp add: num_def Let_def)

lemma repr_big: "n \<le> 2000 \<Longrightarrow> repr (2 ^ n)"
  using repr_pow2 [of "int n"] by simp

lemma num_finite:
  assumes "\<bar>x\<bar> \<le> 2 ^ 1023"
  shows "num x = Fin (rnd x)"
proof -
  have r: "repr (2 ^ 1023)" by (rule repr_big) simp
  have "\<bar>rnd x\<bar> \<le> 2 ^ 1023" using assms r repr_minus [OF r] by (rule dbl.r_abs_le)
  also have "(2 :: rat) ^ 1023 < 2 ^ 1024" by (rule power_strict_increasing) simp_all
  finally have "\<bar>rnd x\<bar> < 2 ^ 1024" .
  then show ?thesis unfolding num_def Let_def by (simp only: abs_less_iff not_le [symmetric]) (auto)
qed

lemma num_unit: "0 \<le> x \<Longrightarrow> x \<le> 1 \<Longrightarrow> num x = Fin (rnd x)"
  by (rule num_finite) (simp add: order_trans [OF _ one_le_power])

lemma Number_exact: "\<bar>n\<bar> \<le> 2 ^ 53 \<Longrightarrow> Number n = Fin (of_int n)"
proof -
  assume n: "\<bar>n\<bar> \<le> 2 ^ 53"
  then have "\<bar>of_int n :: rat\<bar> \<le> of_int (2 ^ 53)" by (simp only: of_int_abs [symmetric] of_int_le_iff)
  also have "\<dots> \<le> 2 ^ 1023" by (simp only: of_int_power of_int_numeral) (rule power_increasing, simp_all)
  finally show ?thesis using n by (simp add: Number_def num_finite rnd_of_int)
qed

lemma Number_nonneg:
  assumes "0 \<le> n"
  shows "Number n = PInf \<or> (\<exists>a. Number n = Fin a \<and> 0 \<le> a)"
proof -
  have "0 \<le> rnd (of_int n)" using assms by (intro rnd_nonneg) simp
  moreover have "- (2 ^ 1024) < (0 :: rat)"
    by (simp only: neg_less_0_iff_less) (rule zero_less_power, simp)
  then have "\<not> rnd (of_int n) \<le> - (2 ^ 1024)"
    using calculation by (meson less_le_trans not_le)
  ultimately show ?thesis unfolding Number_def num_def Let_def by simp
qed

lemma nle_refl: "x \<noteq> NaN \<Longrightarrow> nle x x"
  by (cases x) simp_all

lemma nle_total: "x \<noteq> NaN \<Longrightarrow> y \<noteq> NaN \<Longrightarrow> nle x y \<or> nle y x"
  by (cases x; cases y) auto

lemma nle_trans: "nle x y \<Longrightarrow> nle y z \<Longrightarrow> nle x z"
  by (cases x; cases y; cases z) auto

lemma nle_antisym: "nle x y \<Longrightarrow> nle y x \<Longrightarrow> x = y"
  by (cases x; cases y) auto

lemma nle_not_NaN: "nle x y \<Longrightarrow> x \<noteq> NaN \<and> y \<noteq> NaN"
  by (cases x; cases y) auto

lemma nmin_Fin [simp]: "nmin (Fin a) (Fin b) = Fin (min a b)"
  by (simp add: nmin_def min_def)

lemma nmax_Fin [simp]: "nmax (Fin a) (Fin b) = Fin (max a b)"
  by (simp add: nmax_def max_def)

lemma nlt_Fin [simp]: "nlt (Fin a) (Fin b) \<longleftrightarrow> a < b"
  by (auto simp: nlt_def)

text \<open>\<open>Math.min(Math.max(x, lo), hi)\<close> stays between its bounds for every \<open>x\<close> but \<open>NaN\<close>.\<close>

lemma clamp_Fin:
  assumes "x \<noteq> NaN" and "lo \<le> hi"
  shows "\<exists>c. nmin (nmax x (Fin lo)) (Fin hi) = Fin c \<and> lo \<le> c \<and> c \<le> hi"
  using assms by (cases x) (auto simp: nmin_def nmax_def)

lemma clamp_NaN [simp]: "nmin (nmax NaN lo) hi = NaN"
  by (simp add: nmin_def nmax_def)

lemma BigIntOf_of_int [simp]: "BigIntOf (Fin (of_int n)) = Inr n"
  by (simp add: BigIntOf_def)

lemma BigIntOf_Fin_Inr: "BigIntOf (Fin a) = Inr n \<longleftrightarrow> a = of_int n"
  by (auto simp: BigIntOf_def)

lemma nadd_not_NaN: "nadd (Fin a) (Fin b) \<noteq> NaN"
  by (simp add: num_def Let_def)

lemma num_mono: "x \<le> y \<Longrightarrow> nle (num x) (num y)"
proof -
  define B :: rat where "B = 2 ^ 1024"
  assume "x \<le> y"
  then have "rnd x \<le> rnd y" by (rule rnd_mono)
  then show ?thesis unfolding num_def Let_def B_def [symmetric] by auto
qed

text \<open>The error of one rounding is half a unit in the last place.\<close>

lemma rnd_error: "\<bar>rnd x - x\<bar> \<le> pow2 (ulp_ex x) / 2"
proof (cases "x = 0")
  case False
  let ?q = "pow2 (ulp_ex x)"
  have "rnd x - x = (of_int (rne (x / ?q)) - x / ?q) * ?q" using False by (simp add: rnd_def Let_def algebra_simps)
  then have "\<bar>rnd x - x\<bar> = \<bar>of_int (rne (x / ?q)) - x / ?q\<bar> * ?q" by (simp add: abs_mult)
  also have "\<dots> \<le> 1/2 * ?q" by (intro mult_right_mono rne_error) simp
  finally show ?thesis by simp
qed simp

end
