(* ===== verification/Sorting.thy ===== *)
theory Sorting
  imports Prelude "HOL-Library.Multiset"
begin

text \<open>
  \<open>Array.prototype.sort\<close> with a comparator.  The language requires the sort to be stable, so
  that for a consistent comparator (total and transitive, the locale \<open>comparator\<close>) its result
  is determined: the sorted list in which equivalent elements keep their order.  It is modelled
  by insertion.
\<close>

fun insert_by :: "('a \<Rightarrow> 'a \<Rightarrow> int) \<Rightarrow> 'a \<Rightarrow> 'a list \<Rightarrow> 'a list" where
  "insert_by cmp x [] = [x]"
| "insert_by cmp x (y # ys) = (if cmp x y \<le> 0 then x # y # ys else y # insert_by cmp x ys)"

fun js_sort :: "('a \<Rightarrow> 'a \<Rightarrow> int) \<Rightarrow> 'a list \<Rightarrow> 'a list" where
  "js_sort cmp [] = []"
| "js_sort cmp (x # xs) = insert_by cmp x (js_sort cmp xs)"

lemma mset_insert_by [simp]: "mset (insert_by cmp x ys) = add_mset x (mset ys)"
  by (induction ys) auto

lemma mset_js_sort [simp]: "mset (js_sort cmp xs) = mset xs"
  by (induction xs) auto

lemma set_js_sort [simp]: "set (js_sort cmp xs) = set xs"
  using mset_js_sort [of cmp xs] by (metis set_mset_mset)

lemma length_js_sort [simp]: "length (js_sort cmp xs) = length xs"
  using mset_js_sort [of cmp xs] by (metis size_mset)

lemma distinct_js_sort [simp]: "distinct (js_sort cmp xs) = distinct xs"
  using mset_js_sort [of cmp xs] by (metis mset_eq_imp_distinct_iff)

subsection \<open>Consistent comparators\<close>

locale comparator =
  fixes cmp :: "'a \<Rightarrow> 'a \<Rightarrow> int"
  assumes cmp_total: "cmp x y \<le> 0 \<or> cmp y x \<le> 0"
    and cmp_trans: "cmp x y \<le> 0 \<Longrightarrow> cmp y z \<le> 0 \<Longrightarrow> cmp x z \<le> 0"
begin

definition leq :: "'a \<Rightarrow> 'a \<Rightarrow> bool" where
  "leq x y \<longleftrightarrow> cmp x y \<le> 0"

definition eqv :: "'a \<Rightarrow> 'a \<Rightarrow> bool" where
  "eqv x y \<longleftrightarrow> cmp x y \<le> 0 \<and> cmp y x \<le> 0"

lemma insert_by_sorted: "sorted_wrt leq ys \<Longrightarrow> sorted_wrt leq (insert_by cmp x ys)"
proof (induction ys)
  case Nil
  then show ?case by simp
next
  case (Cons y ys)
  show ?case
  proof (cases "cmp x y \<le> 0")
    case True
    then show ?thesis using Cons.prems cmp_trans by (auto simp: leq_def)
  next
    case False
    then have "leq y x" using cmp_total [of x y] by (auto simp: leq_def)
    moreover have "set (insert_by cmp x ys) = insert x (set ys)"
      using mset_insert_by [of cmp x ys] by (metis set_mset_add_mset_insert set_mset_mset)
    ultimately show ?thesis using False Cons by simp
  qed
qed

lemma js_sort_sorted: "sorted_wrt leq (js_sort cmp xs)"
  by (induction xs) (simp_all add: insert_by_sorted)

text \<open>Equivalent elements keep their order.\<close>

lemma filter_insert_by:
  "sorted_wrt leq ys \<Longrightarrow> filter (eqv z) (insert_by cmp x ys) = filter (eqv z) (x # ys)"
proof (induction ys)
  case Nil
  then show ?case by simp
next
  case (Cons y ys)
  show ?case
  proof (cases "cmp x y \<le> 0")
    case True
    then show ?thesis by simp
  next
    case False
    then have "\<not> (eqv z x \<and> eqv z y)" using cmp_trans unfolding eqv_def by blast
    then show ?thesis using False Cons by auto
  qed
qed

lemma js_sort_stable: "filter (eqv z) (js_sort cmp xs) = filter (eqv z) xs"
  by (induction xs) (simp_all add: filter_insert_by js_sort_sorted)

lemma js_sort_nth:
  "i < j \<Longrightarrow> j < length xs \<Longrightarrow> cmp (js_sort cmp xs ! i) (js_sort cmp xs ! j) \<le> 0"
  using js_sort_sorted [of xs] by (simp add: sorted_wrt_iff_nth_less leq_def)

lemma js_sort_hd_least: "y \<in> set xs \<Longrightarrow> cmp (hd (js_sort cmp xs)) y \<le> 0"
proof -
  assume y: "y \<in> set xs"
  then obtain z zs where s: "js_sort cmp xs = z # zs"
    using set_js_sort [of cmp xs] by (cases "js_sort cmp xs") auto
  have "cmp z z \<le> 0" using cmp_total by blast
  moreover have "y \<in> set (z # zs)" using y s set_js_sort [of cmp xs] by auto
  ultimately show ?thesis using js_sort_sorted [of xs] s by (auto simp: leq_def)
qed

end

text \<open>Comparators by an integer key, ascending.\<close>

locale key_comparator =
  fixes key :: "'a \<Rightarrow> int" and kcmp :: "'a \<Rightarrow> 'a \<Rightarrow> int"
  assumes kcmp_le: "kcmp x y \<le> 0 \<longleftrightarrow> key x \<le> key y"

sublocale key_comparator \<subseteq> comparator kcmp
  by unfold_locales (auto simp: kcmp_le)

context key_comparator
begin

lemma key_sorted: "sorted (map key (js_sort kcmp xs))"
proof -
  have "leq = (\<lambda>x y. key x \<le> key y)" by (intro ext) (simp add: leq_def kcmp_le)
  then show ?thesis using js_sort_sorted [of xs] by (simp add: sorted_map)
qed

lemma key_stable: "filter (\<lambda>x. key x = k) (js_sort kcmp xs) = filter (\<lambda>x. key x = k) xs"
proof (cases "\<exists>z\<in>set xs. key z = k")
  case True
  then obtain z where z: "key z = k" by blast
  have "eqv z = (\<lambda>x. key x = k)" by (rule ext) (auto simp: eqv_def kcmp_le z)
  then show ?thesis using js_sort_stable [of z xs] by simp
next
  case False
  then have "filter (\<lambda>x. key x = k) xs = []" "filter (\<lambda>x. key x = k) (js_sort kcmp xs) = []"
    by (auto simp: filter_empty_conv)
  then show ?thesis by simp
qed

end

end
