(* ===== verification/Markets.thy ===== *)
theory Markets
  imports MetaDao JsNumber JsString Sorting
begin

text \<open>
  The app's data layer: the indexer's DTOs and read surface (\<open>app/src/market/lib/indexer.ts\<close>)
  and their mapping into the app's types, enrichment and grouping
  (\<open>app/src/market/data/markets.ts\<close>).  The indexer is a service: its eight operations are the
  record \<open>IndexerReads\<close>, a parameter of the definitions that call it.
\<close>

subsection \<open>indexer.ts\<close>

record ConfigDto =
  fg_address :: string
  fg_authority :: string
  fg_baseMint :: string
  fg_minLiquidity :: string
  fg_bump :: int
  fg_feeBps :: int
  fg_feeDestination :: string
  fg_marketCreationEma :: string
  fg_lastMarketCreationUnix :: string
  fg_minLiquidityEmaThreshold :: string
  fg_minLiquidityEmaCap :: string
  fg_minLiquidityMax :: string
  fg_slot :: string

record MarketDto =
  dm_address :: string
  dm_status :: int
  dm_statusLabel :: string
  dm_oracle :: string
  dm_creator :: string
  dm_baseMint :: string
  dm_escrowVault :: string
  dm_minLiquidity :: string
  dm_totalContributed :: string
  dm_openContributions :: int
  dm_bump :: int
  dm_escrowBump :: int
  dm_outcomeIndex :: int
  dm_feeBps :: int
  dm_feeCollected :: int
  dm_settled :: int
  dm_question :: string
  dm_vault :: string
  dm_yesMint :: string
  dm_noMint :: string
  dm_amm :: string
  dm_lpMint :: string
  dm_lpVault :: string
  dm_lpTotal :: string
  dm_activationLp :: string
  dm_activationContributed :: string
  dm_grossLpTotal :: string
  dm_slot :: string

text \<open>An older indexer may omit \<open>slot\<close>.\<close>

record ContributionDto =
  dc_market :: string
  dc_contributor :: string
  dc_amount :: string
  dc_claimed :: bool
  dc_bump :: int
  dc_lateLp :: string
  dc_slot :: "string option"

record OracleDto =
  dx_optionsCount :: int
  dx_phase :: int
  dx_resolvedOption :: int

record ReservesDto =
  dr_base :: string
  dr_quote :: string

record CandleDto =
  cd_time :: int
  cd_open :: jsnum
  cd_high :: jsnum
  cd_low :: jsnum
  cd_close :: jsnum

record MarketDetailDto =
  dd_market :: MarketDto
  dd_contributions :: "ContributionDto list"
  dd_oracle :: "OracleDto option"
  dd_reserves :: "ReservesDto option"

record AccountRead =
  ac_data :: bytes
  ac_owner :: address
  ac_lamports :: int

datatype tx_status = Processed | Confirmed | Finalized | Failed | Pending

record SignatureStatus =
  ss_status :: tx_status
  ss_err :: "string option"

text \<open>
  The eight operations.  A status poll is repeated, so its result depends on how many polls
  came before it.
\<close>

record IndexerReads =
  api_getConfig :: "ConfigDto option res"
  api_getMarkets :: "MarketDto list res"
  api_getMarket :: "string \<Rightarrow> MarketDetailDto option res"
  api_getCandles :: "string \<Rightarrow> int \<Rightarrow> int \<Rightarrow> CandleDto list res"
  api_getAccount :: "string \<Rightarrow> AccountRead option res"
  api_getBlockhash :: "string res"
  api_sendTransaction :: "string \<Rightarrow> string res"
  api_getSignatureStatus :: "string \<Rightarrow> nat \<Rightarrow> SignatureStatus res"

subsection \<open>markets.ts: the app's types\<close>

record MarketSummary =
  ms_pubkey :: string
  ms_market :: Market
  ms_reserves :: "AmmReserves option"
  ms_oracleOptionsCount :: "int option"

record OracleGroup =
  gr_oracle :: string
  gr_optionsCount :: "int option"
  gr_markets :: "MarketSummary list"

record ContributionRow =
  cr_pubkey :: string
  cr_slot :: int
  cr_contribution :: Contribution

record MarketDetail =
  mt_pubkey :: string
  mt_market :: Market
  mt_contributions :: "ContributionRow list"
  mt_oracle :: "MarketOracle option"
  mt_reserves :: "AmmReserves option"

subsection \<open>markets.ts: mapping\<close>

text \<open>\<open>new Address(s)\<close>.\<close>

definition newAddress :: "web3 \<Rightarrow> string \<Rightarrow> address res" where
  "newAddress W s = addr W (AddrStr s)"

definition mapMarketDto :: "web3 \<Rightarrow> MarketDto \<Rightarrow> Market res" where
  "mapMarketDto W dto =
     bindR (newAddress W (dm_oracle dto)) (\<lambda>oracle.
     bindR (newAddress W (dm_creator dto)) (\<lambda>creator.
     bindR (newAddress W (dm_baseMint dto)) (\<lambda>baseMint.
     bindR (newAddress W (dm_escrowVault dto)) (\<lambda>escrowVault.
     bindR (BigIntStr (dm_minLiquidity dto)) (\<lambda>minLiquidity.
     bindR (BigIntStr (dm_totalContributed dto)) (\<lambda>totalContributed.
     bindR (newAddress W (dm_question dto)) (\<lambda>question.
     bindR (newAddress W (dm_vault dto)) (\<lambda>vault.
     bindR (newAddress W (dm_yesMint dto)) (\<lambda>yesMint.
     bindR (newAddress W (dm_noMint dto)) (\<lambda>noMint.
     bindR (newAddress W (dm_amm dto)) (\<lambda>amm.
     bindR (newAddress W (dm_lpMint dto)) (\<lambda>lpMint.
     bindR (newAddress W (dm_lpVault dto)) (\<lambda>lpVault.
     bindR (BigIntStr (dm_lpTotal dto)) (\<lambda>lpTotal.
     bindR (BigIntStr (dm_activationLp dto)) (\<lambda>activationLp.
     bindR (BigIntStr (dm_activationContributed dto)) (\<lambda>activationContributed.
     bindR (BigIntStr (dm_grossLpTotal dto)) (\<lambda>grossLpTotal.
     Inr \<lparr>
       mk_oracle = oracle,
       mk_creator = creator,
       mk_baseMint = baseMint,
       mk_escrowVault = escrowVault,
       mk_minLiquidity = minLiquidity,
       mk_totalContributed = totalContributed,
       mk_openContributions = dm_openContributions dto,
       mk_status = dm_status dto,
       mk_bump = dm_bump dto,
       mk_escrowBump = dm_escrowBump dto,
       mk_question = question,
       mk_vault = vault,
       mk_yesMint = yesMint,
       mk_noMint = noMint,
       mk_amm = amm,
       mk_lpMint = lpMint,
       mk_lpVault = lpVault,
       mk_lpTotal = lpTotal,
       mk_settled = (dm_settled dto \<noteq> 0),
       mk_feeBps = dm_feeBps dto,
       mk_feeCollected = (dm_feeCollected dto \<noteq> 0),
       mk_outcomeIndex = dm_outcomeIndex dto,
       mk_activationLp = activationLp,
       mk_activationContributed = activationContributed,
       mk_grossLpTotal = grossLpTotal\<rparr>)))))))))))))))))"

definition mapConfigDto :: "web3 \<Rightarrow> ConfigDto \<Rightarrow> Config res" where
  "mapConfigDto W dto =
     bindR (newAddress W (fg_authority dto)) (\<lambda>authority.
     bindR (newAddress W (fg_baseMint dto)) (\<lambda>baseMint.
     bindR (BigIntStr (fg_minLiquidity dto)) (\<lambda>minLiquidity.
     bindR (newAddress W (fg_feeDestination dto)) (\<lambda>feeDestination.
     bindR (BigIntStr (fg_marketCreationEma dto)) (\<lambda>marketCreationEma.
     bindR (BigIntStr (fg_lastMarketCreationUnix dto)) (\<lambda>lastMarketCreationUnix.
     bindR (BigIntStr (fg_minLiquidityEmaThreshold dto)) (\<lambda>minLiquidityEmaThreshold.
     bindR (BigIntStr (fg_minLiquidityEmaCap dto)) (\<lambda>minLiquidityEmaCap.
     bindR (BigIntStr (fg_minLiquidityMax dto)) (\<lambda>minLiquidityMax.
     Inr \<lparr>
       cf_authority = authority,
       cf_baseMint = baseMint,
       cf_minLiquidity = minLiquidity,
       cf_bump = fg_bump dto,
       cf_feeBps = fg_feeBps dto,
       cf_feeDestination = feeDestination,
       cf_marketCreationEma = marketCreationEma,
       cf_lastMarketCreationUnix = lastMarketCreationUnix,
       cf_minLiquidityEmaThreshold = minLiquidityEmaThreshold,
       cf_minLiquidityEmaCap = minLiquidityEmaCap,
       cf_minLiquidityMax = minLiquidityMax\<rparr>)))))))))"

definition mapContributionDto :: "web3 \<Rightarrow> ContributionDto \<Rightarrow> Contribution res" where
  "mapContributionDto W dto =
     bindR (newAddress W (dc_market dto)) (\<lambda>market.
     bindR (newAddress W (dc_contributor dto)) (\<lambda>contributor.
     bindR (BigIntStr (dc_amount dto)) (\<lambda>amount.
     bindR (BigIntStr (dc_lateLp dto)) (\<lambda>lateLp.
     Inr \<lparr>
       cn_market = market,
       cn_contributor = contributor,
       cn_amount = amount,
       cn_claimed = dc_claimed dto,
       cn_bump = dc_bump dto,
       cn_lateLp = lateLp\<rparr>))))"

definition mapOracleDto :: "OracleDto \<Rightarrow> MarketOracle" where
  "mapOracleDto dto =
     \<lparr>or_optionsCount = dx_optionsCount dto, or_phase = dx_phase dto,
      or_resolvedOption = dx_resolvedOption dto, or_creator = None, or_llmContext = None,
      or_nonce = None, or_resolvedSlot = None\<rparr>"

definition mapReservesDto :: "ReservesDto \<Rightarrow> AmmReserves res" where
  "mapReservesDto dto =
     bindR (BigIntStr (dr_base dto)) (\<lambda>base.
     bindR (BigIntStr (dr_quote dto)) (\<lambda>quote. Inr \<lparr>ar_base = base, ar_quote = quote\<rparr>))"

text \<open>An optional value through a mapping that can throw.\<close>

fun mapOpt :: "('a \<Rightarrow> 'b res) \<Rightarrow> 'a option \<Rightarrow> 'b option res" where
  "mapOpt f None = Inr None"
| "mapOpt f (Some a) = mapR Some (f a)"

subsection \<open>markets.ts: fetching\<close>

text \<open>Comparison of two numbers, larger first: the comparator of the list views.\<close>

definition cmp_desc :: "int \<Rightarrow> int \<Rightarrow> int" where
  "cmp_desc a b = (if b > a then 1 else if b < a then - 1 else 0)"

definition cmpContributedDesc :: "MarketSummary \<Rightarrow> MarketSummary \<Rightarrow> int" where
  "cmpContributedDesc a b =
     cmp_desc (mk_totalContributed (ms_market a)) (mk_totalContributed (ms_market b))"

definition summaryOf :: "web3 \<Rightarrow> IndexerReads \<Rightarrow> MarketDto \<Rightarrow> MarketSummary res" where
  "summaryOf W indexer dto =
     (let detail = (case api_getMarket indexer (dm_address dto) of Inr d \<Rightarrow> d | Inl e \<Rightarrow> None) in
      bindR (mapMarketDto W dto) (\<lambda>market.
      bindR (mapOpt mapReservesDto (case detail of Some d \<Rightarrow> dd_reserves d | None \<Rightarrow> None)) (\<lambda>reserves.
      Inr \<lparr>ms_pubkey = dm_address dto, ms_market = market, ms_reserves = reserves,
           ms_oracleOptionsCount =
             (case detail of Some d \<Rightarrow> map_option dx_optionsCount (dd_oracle d) | None \<Rightarrow> None)\<rparr>)))"

definition fetchMarkets :: "web3 \<Rightarrow> IndexerReads \<Rightarrow> MarketSummary list res" where
  "fetchMarkets W indexer =
     bindR (api_getMarkets indexer) (\<lambda>markets.
     mapR (js_sort cmpContributedDesc) (seqR (map (summaryOf W indexer) markets)))"

definition cmpSlotDesc :: "ContributionRow \<Rightarrow> ContributionRow \<Rightarrow> int" where
  "cmpSlotDesc a b = (if cr_slot a > cr_slot b then - 1 else if cr_slot a < cr_slot b then 1 else 0)"

definition contributionRow :: "web3 \<Rightarrow> string \<Rightarrow> ContributionDto \<Rightarrow> ContributionRow res" where
  "contributionRow W marketPubkey c =
     bindR (pda_contribution W (AddrStr marketPubkey) (AddrStr (dc_contributor c)) None) (\<lambda>p.
     bindR (case dc_slot c of Some s \<Rightarrow> BigIntStr s | None \<Rightarrow> Inr 0) (\<lambda>slot.
     bindR (mapContributionDto W c) (\<lambda>contribution.
     Inr \<lparr>cr_pubkey = toBase58 W (fst p), cr_slot = slot, cr_contribution = contribution\<rparr>)))"

definition fetchMarketDetail :: "web3 \<Rightarrow> IndexerReads \<Rightarrow> string \<Rightarrow> MarketDetail res" where
  "fetchMarketDetail W indexer marketPubkey =
     bindR (api_getMarket indexer marketPubkey) (\<lambda>found.
     case found of
       None \<Rightarrow> Inl (MarketNotFoundError marketPubkey)
     | Some detail \<Rightarrow>
         bindR (mapR (js_sort cmpSlotDesc)
           (seqR (map (contributionRow W marketPubkey) (dd_contributions detail)))) (\<lambda>contributions.
         bindR (mapMarketDto W (dd_market detail)) (\<lambda>market.
         bindR (mapOpt mapReservesDto (dd_reserves detail)) (\<lambda>reserves.
         Inr \<lparr>mt_pubkey = marketPubkey, mt_market = market, mt_contributions = contributions,
              mt_oracle = map_option mapOracleDto (dd_oracle detail), mt_reserves = reserves\<rparr>))))"

definition fetchConfig :: "web3 \<Rightarrow> IndexerReads \<Rightarrow> Config option res" where
  "fetchConfig W indexer = bindR (api_getConfig indexer) (mapOpt (mapConfigDto W))"

subsection \<open>markets.ts: grouping\<close>

text \<open>The insertion-ordered \<open>Map\<close> of lists, as an association list.\<close>

fun push_group :: "'k \<Rightarrow> 'a \<Rightarrow> ('k \<times> 'a list) list \<Rightarrow> ('k \<times> 'a list) list" where
  "push_group k x [] = [(k, [x])]"
| "push_group k x ((k', l) # r) = (if k = k' then (k', l @ [x]) # r else (k', l) # push_group k x r)"

definition oracleKey :: "web3 \<Rightarrow> MarketSummary \<Rightarrow> string" where
  "oracleKey W s = toBase58 W (mk_oracle (ms_market s))"

definition cmpOutcome :: "MarketSummary \<Rightarrow> MarketSummary \<Rightarrow> int" where
  "cmpOutcome a b = mk_outcomeIndex (ms_market a) - mk_outcomeIndex (ms_market b)"

definition mkGroup :: "string \<times> MarketSummary list \<Rightarrow> OracleGroup" where
  "mkGroup g =
     (let markets = js_sort cmpOutcome (snd g) in
      \<lparr>gr_oracle = fst g,
       gr_optionsCount =
         (case find_first (\<lambda>m. ms_oracleOptionsCount m \<noteq> None) markets of
            Some m \<Rightarrow> ms_oracleOptionsCount m | None \<Rightarrow> None),
       gr_markets = markets\<rparr>)"

definition groupByOracle :: "web3 \<Rightarrow> MarketSummary list \<Rightarrow> OracleGroup list" where
  "groupByOracle W summaries =
     map mkGroup (foldl (\<lambda>m s. push_group (oracleKey W s) s m) [] summaries)"

definition isCategorical :: "OracleGroup \<Rightarrow> bool" where
  "isCategorical g =
     (case gr_optionsCount g of
        Some n \<Rightarrow> n > 2
      | None \<Rightarrow> length (gr_markets g) > 1)"

subsection \<open>The comparators are consistent\<close>

lemma cmp_desc_le: "cmp_desc a b \<le> 0 \<longleftrightarrow> - a \<le> - b"
  by (simp add: cmp_desc_def)

interpretation by_contributed:
  key_comparator "\<lambda>s. - mk_totalContributed (ms_market s)" cmpContributedDesc
  by unfold_locales (simp add: cmpContributedDesc_def cmp_desc_le)

interpretation by_slot: key_comparator "\<lambda>r. - cr_slot r" cmpSlotDesc
  by unfold_locales (simp add: cmpSlotDesc_def)

interpretation by_outcome: key_comparator "\<lambda>s. mk_outcomeIndex (ms_market s)" cmpOutcome
  by unfold_locales (simp add: cmpOutcome_def)

subsection \<open>What grouping computes\<close>

text \<open>The distinct elements of a list in order of first appearance.\<close>

fun firsts :: "'a list \<Rightarrow> 'a list" where
  "firsts [] = []"
| "firsts (x # xs) = x # filter (\<lambda>y. y \<noteq> x) (firsts xs)"

lemma set_firsts [simp]: "set (firsts xs) = set xs"
  by (induction xs) auto

lemma distinct_firsts [simp]: "distinct (firsts xs)"
  by (induction xs) auto

lemma firsts_snoc: "firsts (xs @ [x]) = (if x \<in> set xs then firsts xs else firsts xs @ [x])"
  by (induction xs) auto

lemma push_group_known:
  assumes "distinct ks" and "k \<in> set ks"
  shows "push_group k x (map (\<lambda>k. (k, f k)) ks) = map (\<lambda>j. (j, if j = k then f j @ [x] else f j)) ks"
  using assms
proof (induction ks)
  case Nil
  then show ?case by simp
next
  case (Cons j ks)
  show ?case
  proof (cases "j = k")
    case True
    with Cons.prems show ?thesis by (auto cong: map_cong)
  next
    case False
    with Cons show ?thesis by simp
  qed
qed

lemma push_group_new:
  "k \<notin> set ks \<Longrightarrow> push_group k x (map (\<lambda>k. (k, f k)) ks) = map (\<lambda>k. (k, f k)) ks @ [(k, [x])]"
  by (induction ks) auto

text \<open>One entry per key, in order of first appearance, with that key's elements in input order.\<close>

lemma foldl_push_group:
  "foldl (\<lambda>m s. push_group (key s) s m) [] xs =
     map (\<lambda>k. (k, filter (\<lambda>s. key s = k) xs)) (firsts (map key xs))"
proof (induction xs rule: rev_induct)
  case Nil
  then show ?case by simp
next
  case (snoc x xs)
  have none: "filter (\<lambda>s. key s = key x) xs = []" if "key x \<notin> key ` set xs"
    using that unfolding filter_empty_conv by (metis image_eqI)
  have known: "push_group (key x) x (map (\<lambda>k. (k, filter (\<lambda>s. key s = k) xs)) (firsts (map key xs))) =
      map (\<lambda>k. (k, filter (\<lambda>s. key s = k) (xs @ [x]))) (firsts (map key xs))" if "key x \<in> key ` set xs"
    using that by (subst push_group_known) (auto intro!: map_cong)
  have new: "push_group (key x) x (map (\<lambda>k. (k, filter (\<lambda>s. key s = k) xs)) (firsts (map key xs))) =
      map (\<lambda>k. (k, filter (\<lambda>s. key s = k) (xs @ [x]))) (firsts (map key xs) @ [key x])"
    if "key x \<notin> key ` set xs"
    using that none by (subst push_group_new) (auto intro!: map_cong)
  show ?case
    using snoc known new by (cases "key x \<in> key ` set xs") (simp_all add: firsts_snoc)
qed

lemma groupByOracle_eq:
  "groupByOracle W xs =
     map (\<lambda>k. mkGroup (k, filter (\<lambda>s. oracleKey W s = k) xs)) (firsts (map (oracleKey W) xs))"
  by (simp add: groupByOracle_def foldl_push_group)

lemma gr_mkGroup [simp]:
  "gr_oracle (mkGroup g) = fst g" "gr_markets (mkGroup g) = js_sort cmpOutcome (snd g)"
  by (simp_all add: mkGroup_def Let_def)

lemma mset_concat_filter:
  "distinct ks \<Longrightarrow> key ` set xs \<subseteq> set ks \<Longrightarrow>
     mset (concat (map (\<lambda>k. filter (\<lambda>s. key s = k) xs) ks)) = mset xs"
proof (induction xs)
  case Nil
  then show ?case by (induction ks) auto
next
  case (Cons x xs)
  have add: "k \<in> set js \<Longrightarrow> distinct js \<Longrightarrow> key x = k \<Longrightarrow>
    mset (concat (map (\<lambda>k. filter (\<lambda>s. key s = k) (x # xs)) js)) =
    add_mset x (mset (concat (map (\<lambda>k. filter (\<lambda>s. key s = k) xs) js)))" for k js
  proof (induction js)
    case Nil
    then show ?case by simp
  next
    case (Cons j js)
    show ?case
    proof (cases "j = k")
      case True
      with Cons.prems have "concat (map (\<lambda>k. filter (\<lambda>s. key s = k) (x # xs)) js) =
        concat (map (\<lambda>k. filter (\<lambda>s. key s = k) xs) js)"
        by (intro arg_cong [of _ _ concat] map_cong) auto
      with True Cons.prems show ?thesis by simp
    next
      case False
      with Cons show ?thesis by auto
    qed
  qed
  from Cons show ?case by (subst add [of "key x" ks]) auto
qed

lemma groupByOracle_mset:
  "mset (concat (map gr_markets (groupByOracle W xs))) = mset xs"
proof -
  have "mset (concat (map (\<lambda>k. js_sort cmpOutcome (f k)) ks)) = mset (concat (map f ks))" for f ks
    by (induction ks) simp_all
  then have "mset (concat (map gr_markets (groupByOracle W xs))) =
    mset (concat (map (\<lambda>k. filter (\<lambda>s. oracleKey W s = k) xs) (firsts (map (oracleKey W) xs))))"
    by (simp add: groupByOracle_eq o_def)
  also have "\<dots> = mset xs" by (rule mset_concat_filter) auto
  finally show ?thesis .
qed

end
