(* ===== verification/ActionBase.thy ===== *)
theory ActionBase
  imports Flows Markets
begin

text \<open>
  What the write actions of \<open>app/src/market/data/actions/\<close> share: address coercion with a form
  message and token-account creation (\<open>ata.ts\<close>), the compute-budget instruction
  (\<open>compute.ts\<close>) and the rebuilt market addresses (\<open>marketRefs.ts\<close>).  The transaction
  operations of web3.js are the parameter \<open>txlib\<close>: \<open>ComputeBudgetProgram.setComputeUnitLimit\<close>,
  its decoding (\<open>None\<close>: not such an instruction), and the compiled message of a fee payer and
  an instruction list, as its required signatures and serialized length.
\<close>

record txlib =
  tx_setComputeUnitLimit :: "int \<Rightarrow> instruction"
  tx_decodeUnitLimit :: "instruction \<Rightarrow> int option"
  tx_message :: "address \<Rightarrow> instruction list \<Rightarrow> int \<times> int"

subsection \<open>compute.ts\<close>

definition COMPUTE_BUDGET_PROGRAM_ID :: "web3 \<Rightarrow> address" where
  "COMPUTE_BUDGET_PROGRAM_ID W = constAddress W ''ComputeBudget111111111111111111111111111111''"

definition setComputeUnitLimitIx :: "txlib \<Rightarrow> int \<Rightarrow> instruction" where
  "setComputeUnitLimitIx T units = tx_setComputeUnitLimit T units"

text \<open>
  Documented behaviour: the instruction belongs to the compute-budget program and decodes to its
  units (an unsigned 32-bit number), and only that program's instructions decode.
\<close>

definition compute_ok :: "web3 \<Rightarrow> txlib \<Rightarrow> bool" where
  "compute_ok W T \<longleftrightarrow>
     (\<forall>u. 0 \<le> u \<longrightarrow> u < 4294967296 \<longrightarrow>
        ixProgramId (tx_setComputeUnitLimit T u) = COMPUTE_BUDGET_PROGRAM_ID W \<and>
        tx_decodeUnitLimit T (tx_setComputeUnitLimit T u) = Some u) \<and>
     (\<forall>ix u. tx_decodeUnitLimit T ix = Some u \<longrightarrow> 0 \<le> u \<and> u < 4294967296)"

subsection \<open>ata.ts\<close>

definition toAddress :: "web3 \<Rightarrow> string \<Rightarrow> address_input \<Rightarrow> address res" where
  "toAddress W field a =
     (case a of
        AddrObj x \<Rightarrow> Inr x
      | AddrStr s \<Rightarrow> (case addr W (AddrStr s) of
            Inr x \<Rightarrow> Inr x
          | Inl e \<Rightarrow> Inl (ValidationError (field @ '' is not a valid base58 address.''))))"

text \<open>The create instruction is absent when the account exists.\<close>

definition ensureAta ::
  "web3 \<Rightarrow> IndexerReads \<Rightarrow> address \<Rightarrow> address \<Rightarrow> (address \<times> instruction option) res" where
  "ensureAta W indexer owner mint =
     bindR (pda_associatedTokenAccount W (AddrObj owner) (AddrObj mint)) (\<lambda>p.
     let ata = fst p in
     bindR (api_getAccount indexer (toBase58 W ata)) (\<lambda>info.
     Inr (ata, (case info of
        Some _ \<Rightarrow> None
      | None \<Rightarrow> Some (createAtaIdempotentInstruction W owner ata owner mint)))))"

definition ensureBaseAta ::
  "web3 \<Rightarrow> IndexerReads \<Rightarrow> address \<Rightarrow> address \<Rightarrow> (address \<times> instruction option) res" where
  "ensureBaseAta W indexer owner baseMint = ensureAta W indexer owner baseMint"

text \<open>\<open>createIx ? [createIx, ...ixs] : ixs\<close>.\<close>

definition withCreate :: "instruction option \<Rightarrow> instruction list \<Rightarrow> instruction list" where
  "withCreate createIx ixs = (case createIx of Some c \<Rightarrow> c # ixs | None \<Rightarrow> ixs)"

subsection \<open>marketRefs.ts\<close>

definition marketRefs :: "web3 \<Rightarrow> address_input \<Rightarrow> Market \<Rightarrow> MarketRefs res" where
  "marketRefs W marketPubkey m =
     bindR (toAddress W ''Market'' marketPubkey) (\<lambda>market.
     marketRefsFromAccount W (AddrObj market) m)"

lemma toAddress_AddrObj [simp]: "toAddress W field (AddrObj a) = Inr a"
  by (simp add: toAddress_def)

lemma toAddress_Inr_iff: "toAddress W field a = Inr x \<longleftrightarrow> addr W a = Inr x"
  by (cases a) (auto simp: toAddress_def addr_def split: option.splits sum.splits)

lemma toAddress_error: "toAddress W field a = Inl e \<Longrightarrow> e = ValidationError (field @ '' is not a valid base58 address.'')"
  by (cases a) (auto simp: toAddress_def split: sum.splits)

end
