(* ===== verification/Actions.thy ===== *)
theory Actions
  imports ActionBase
begin

text \<open>
  The write actions of \<open>app/src/market/data/actions/\<close> other than trading: creating, funding,
  activating, claiming, refunding, resolving and closing a market, and the bulk actions over the
  outcomes of one oracle.  Each validates its form input, derives the token accounts and returns
  the instruction list, or an ordered list of steps.  What the source draws at random (a subject
  nonce, a fresh key) is an argument.
\<close>

subsection \<open>contribute.ts, cancel.ts, refund.ts, claimLp.ts, resolve.ts\<close>

record BuildContributeArgs =
  wc_market :: address_input
  wc_baseMint :: address_input
  wc_contributor :: address_input
  wc_amount :: int

definition buildContributeIxs ::
  "web3 \<Rightarrow> IndexerReads \<Rightarrow> BuildContributeArgs \<Rightarrow> instruction list res" where
  "buildContributeIxs W indexer a =
     bindR (toAddress W ''Market'' (wc_market a)) (\<lambda>market.
     bindR (toAddress W ''SOL mint'' (wc_baseMint a)) (\<lambda>baseMint.
     bindR (toAddress W ''Contributor'' (wc_contributor a)) (\<lambda>contributor.
     if wc_amount a \<le> 0 then Inl (ValidationError ''Amount must be greater than zero.'')
     else
     bindR (ensureBaseAta W indexer contributor baseMint) (\<lambda>(ata, createIx).
     bindR (ix_contribute W
       \<lparr>ct_contributor = AddrObj contributor, ct_market = AddrObj market,
        ct_contributorBaseAta = AddrObj ata, ct_amount = wc_amount a, ct_programId = None\<rparr>) (\<lambda>ix.
     Inr (withCreate createIx [ix]))))))"

definition buildCancelIxs :: "web3 \<Rightarrow> address_input \<Rightarrow> address_input \<Rightarrow> instruction list res" where
  "buildCancelIxs W marketIn oracleIn =
     bindR (toAddress W ''Market'' marketIn) (\<lambda>market.
     bindR (toAddress W ''Oracle'' oracleIn) (\<lambda>oracle.
     bindR (ix_cancel W \<lparr>ca_market = AddrObj market, ca_oracle = AddrObj oracle, ca_programId = None\<rparr>) (\<lambda>ix.
     Inr [ix])))"

definition buildRefundIxs ::
  "web3 \<Rightarrow> IndexerReads \<Rightarrow> address_input \<Rightarrow> address_input \<Rightarrow> address_input \<Rightarrow> instruction list res" where
  "buildRefundIxs W indexer marketIn baseMintIn contributorIn =
     bindR (toAddress W ''Market'' marketIn) (\<lambda>market.
     bindR (toAddress W ''SOL mint'' baseMintIn) (\<lambda>baseMint.
     bindR (toAddress W ''Contributor'' contributorIn) (\<lambda>contributor.
     bindR (ensureBaseAta W indexer contributor baseMint) (\<lambda>(ata, createIx).
     bindR (ix_refund W
       \<lparr>rf_market = AddrObj market, rf_contributor = AddrObj contributor,
        rf_contributorBaseAta = AddrObj ata, rf_programId = None\<rparr>) (\<lambda>ix.
     Inr (withCreate createIx [ix]))))))"

definition buildClaimLpIxs ::
  "web3 \<Rightarrow> IndexerReads \<Rightarrow> address_input \<Rightarrow> address_input \<Rightarrow> address_input \<Rightarrow> instruction list res" where
  "buildClaimLpIxs W indexer marketIn contributorIn lpMintIn =
     bindR (toAddress W ''Market'' marketIn) (\<lambda>market.
     bindR (toAddress W ''Contributor'' contributorIn) (\<lambda>contributor.
     bindR (toAddress W ''LP mint'' lpMintIn) (\<lambda>lpMint.
     bindR (ensureAta W indexer contributor lpMint) (\<lambda>(ata, createIx).
     bindR (ix_claimLp W
       \<lparr>cl_market = AddrObj market, cl_contributor = AddrObj contributor,
        cl_contributorLpAta = AddrObj ata, cl_programId = None\<rparr>) (\<lambda>ix.
     Inr (withCreate createIx [ix]))))))"

definition buildResolveIxs ::
  "web3 \<Rightarrow> address_input \<Rightarrow> address_input \<Rightarrow> address_input \<Rightarrow> instruction list res" where
  "buildResolveIxs W marketIn oracleIn questionIn =
     bindR (toAddress W ''Market'' marketIn) (\<lambda>market.
     bindR (toAddress W ''Oracle'' oracleIn) (\<lambda>oracle.
     bindR (toAddress W ''Question'' questionIn) (\<lambda>question.
     bindR (md_vaultEventAuthority W) (\<lambda>cvEventAuthority.
     bindR (ix_resolveMarket W
       \<lparr>rm_market = AddrObj market, rm_oracle = AddrObj oracle, rm_question = AddrObj question,
        rm_cvEventAuthority = AddrObj (fst cvEventAuthority), rm_cvProgram = None,
        rm_programId = None\<rparr>) (\<lambda>ix.
     Inr [ix])))))"

subsection \<open>closeMarket.ts, collectFee.ts, redeem.ts, addLiquidity.ts\<close>

definition CLOSE_MARKET_COMPUTE_UNITS :: int where
  "CLOSE_MARKET_COMPUTE_UNITS = 400000"

definition buildCloseMarketIxs ::
  "web3 \<Rightarrow> txlib \<Rightarrow> address_input \<Rightarrow> address_input \<Rightarrow> instruction list res" where
  "buildCloseMarketIxs W T marketIn creatorIn =
     bindR (toAddress W ''Market'' marketIn) (\<lambda>market.
     bindR (toAddress W ''Creator'' creatorIn) (\<lambda>creator.
     bindR (closeMarketInstruction W (AddrObj market) (AddrObj creator)) (\<lambda>ix.
     Inr [setComputeUnitLimitIx T CLOSE_MARKET_COMPUTE_UNITS, ix])))"

definition COLLECT_FEE_COMPUTE_UNITS :: int where
  "COLLECT_FEE_COMPUTE_UNITS = 800000"

definition buildCollectFeeIxs ::
  "web3 \<Rightarrow> txlib \<Rightarrow> address_input \<Rightarrow> Market \<Rightarrow> Config \<Rightarrow> instruction list res" where
  "buildCollectFeeIxs W T market marketAccount config =
     bindR (marketRefs W market marketAccount) (\<lambda>refs.
     bindR (collectFeeInstruction W refs (AddrObj (cf_feeDestination config))) (\<lambda>ix.
     Inr [setComputeUnitLimitIx T COLLECT_FEE_COMPUTE_UNITS, ix]))"

definition REDEEM_COMPUTE_UNITS :: int where
  "REDEEM_COMPUTE_UNITS = 300000"

text \<open>With \<open>includeKass\<close> the SOL account is always derived; the assertion \<open>userBaseAta!\<close> holds.\<close>

definition buildRedeemIxs ::
  "web3 \<Rightarrow> txlib \<Rightarrow> MarketRefs \<Rightarrow> address_input \<Rightarrow> instruction list res" where
  "buildRedeemIxs W T refs userIn =
     bindR (toAddress W ''Holder'' userIn) (\<lambda>user.
     bindR (ensureConditionalAtasInstructions W refs (AddrObj user) None (Some True)) (\<lambda>ensure.
     case ea_userBaseAta ensure of
       None \<Rightarrow> Inl (Error ''undefined userBaseAta'')
     | Some userBaseAta \<Rightarrow>
     bindR (redeemInstructions W
       \<lparr>rd_refs = refs, rd_user = AddrObj user, rd_userBaseAta = AddrObj userBaseAta,
        rd_userYesAta = Some (AddrObj (ea_userYesAta ensure)),
        rd_userNoAta = Some (AddrObj (ea_userNoAta ensure))\<rparr>) (\<lambda>redeem.
     Inr (setComputeUnitLimitIx T REDEEM_COMPUTE_UNITS # ea_instructions ensure @ fst redeem))))"

definition ADD_LIQUIDITY_COMPUTE_UNITS :: int where
  "ADD_LIQUIDITY_COMPUTE_UNITS = 600000"

record BuildAddLiquidityArgs =
  wl_market :: address_input
  wl_marketAccount :: Market
  wl_reserves :: AmmReserves
  wl_contributor :: address_input
  wl_amount :: int
  wl_slippageBps :: "int option"

record AddLiquidityEstimate =
  we_quoteAmount :: int
  we_maxBaseAmount :: int
  we_minLpTokens :: int
  we_expectedLp :: int

definition buildAddLiquidityIxs ::
  "web3 \<Rightarrow> txlib \<Rightarrow> BuildAddLiquidityArgs \<Rightarrow> (instruction list \<times> AddLiquidityEstimate) res" where
  "buildAddLiquidityIxs W T a =
     (if wl_amount a \<le> 0 then Inl (ValidationError ''Amount must be greater than zero.'')
      else
      bindR (marketRefs W (wl_market a) (wl_marketAccount a)) (\<lambda>refs.
      bindR (toAddress W ''Depositor'' (wl_contributor a)) (\<lambda>depositor.
      bindR (addLiquidityInstructions W
        \<lparr>fl_refs = refs, fl_depositor = AddrObj depositor, fl_amount = wl_amount a,
         fl_baseReserve = ar_base (wl_reserves a), fl_quoteReserve = ar_quote (wl_reserves a),
         fl_lpSupply = mk_lpTotal (wl_marketAccount a), fl_slippageBps = wl_slippageBps a\<rparr>) (\<lambda>r.
      Inr (setComputeUnitLimitIx T ADD_LIQUIDITY_COMPUTE_UNITS # fr_instructions r,
           \<lparr>we_quoteAmount = fr_quoteAmount r, we_maxBaseAmount = fr_maxBaseAmount r,
            we_minLpTokens = fr_minLpTokens r, we_expectedLp = fr_expectedLp r\<rparr>)))))"

subsection \<open>create.ts\<close>

record BuildCreateMarketArgs =
  wm_baseMint :: address_input
  wm_creator :: address_input
  wm_seedAmount :: int
  wm_optionsCount :: "int option"
  wm_outcomeIndex :: "int option"
  wm_nonce :: "int option"
  wm_llmContext :: "address_input option"

record CreateMarketBuild =
  wb_ixs :: "instruction list"
  wb_nonce :: int
  wb_subject :: address
  wb_market :: address

definition buildCreateMarketIxs ::
  "web3 \<Rightarrow> IndexerReads \<Rightarrow> int \<Rightarrow> address \<Rightarrow> BuildCreateMarketArgs \<Rightarrow> CreateMarketBuild res" where
  "buildCreateMarketIxs W indexer randomNonce dummyLlmContext a =
     bindR (toAddress W ''SOL mint'' (wm_baseMint a)) (\<lambda>baseMint.
     bindR (toAddress W ''Creator'' (wm_creator a)) (\<lambda>creator.
     if wm_seedAmount a \<le> 0 then Inl (ValidationError ''Seed amount must be greater than zero.'')
     else
     let optionsCount = orElse (wm_optionsCount a) 2 in
     if optionsCount < 2 then Inl (ValidationError ''There must be at least 2 options.'')
     else
     let outcomeIndex = orElse (wm_outcomeIndex a) 0 in
     if outcomeIndex < 0
       then Inl (ValidationError ''Outcome index must be a non-negative whole number.'')
     else if optionsCount \<le> outcomeIndex
       then Inl (ValidationError (''Outcome must be between 0 and '' @ show_int (optionsCount - 1) @ ''.''))
     else
     let nonce = orElse (wm_nonce a) randomNonce in
     bindR (case wm_llmContext a of
         Some c \<Rightarrow> toAddress W ''llmContext'' c | None \<Rightarrow> Inr dummyLlmContext) (\<lambda>llmContext.
     bindR (pda_subject W nonce None) (\<lambda>subject.
     bindR (pda_market W (AddrObj (fst subject)) outcomeIndex None) (\<lambda>market.
     bindR (ensureBaseAta W indexer creator baseMint) (\<lambda>(ata, createIx).
     bindR (ix_createSubject W
       \<lparr>cs_payer = AddrObj creator, cs_nonce = nonce, cs_optionsCount = optionsCount,
        cs_llmContext = AddrObj llmContext, cs_programId = None\<rparr>) (\<lambda>subjectIx.
     bindR (ix_createMarket W
       \<lparr>cm_creator = AddrObj creator, cm_oracle = AddrObj (fst subject), cm_baseMint = AddrObj baseMint,
        cm_creatorBaseAta = AddrObj ata, cm_seedAmount = wm_seedAmount a,
        cm_outcomeIndex = outcomeIndex, cm_programId = None\<rparr>) (\<lambda>marketIx.
     Inr \<lparr>wb_ixs = withCreate createIx [subjectIx, marketIx], wb_nonce = nonce,
          wb_subject = fst subject, wb_market = fst market\<rparr>))))))))"

subsection \<open>activate.ts\<close>

record ActivateStep =
  as_label :: string
  as_computeUnits :: "int option"
  as_ixs :: "instruction list"
  as_checkAccount :: address
  as_skipIfLanded :: "bool option"

definition COMPOSE_COMPUTE_UNITS :: int where
  "COMPOSE_COMPUTE_UNITS = 400000"

definition ACTIVATE_COMPUTE_UNITS :: int where
  "ACTIVATE_COMPUTE_UNITS = 1400000"

record BuildActivateArgs =
  wa_market :: address_input
  wa_oracle :: address_input
  wa_baseMint :: address_input
  wa_payer :: address_input

definition activateStep :: "string \<Rightarrow> int \<Rightarrow> instruction \<Rightarrow> address \<Rightarrow> ActivateStep" where
  "activateStep label units ix acct =
     \<lparr>as_label = label, as_computeUnits = Some units, as_ixs = [ix], as_checkAccount = acct,
      as_skipIfLanded = None\<rparr>"

definition buildActivateSequence :: "web3 \<Rightarrow> BuildActivateArgs \<Rightarrow> ActivateStep list res" where
  "buildActivateSequence W a =
     bindR (toAddress W ''Market'' (wa_market a)) (\<lambda>market.
     bindR (toAddress W ''Oracle'' (wa_oracle a)) (\<lambda>oracle.
     bindR (toAddress W ''SOL mint'' (wa_baseMint a)) (\<lambda>baseMint.
     bindR (toAddress W ''Payer'' (wa_payer a)) (\<lambda>payer.
     bindR (composeMarketInstructions W
       \<lparr>cp_market = AddrObj market, cp_oracle = AddrObj oracle, cp_baseMint = AddrObj baseMint,
        cp_payer = AddrObj payer\<rparr>) (\<lambda>(instructions, refs).
     bindR (activateInstruction W refs (AddrObj payer)) (\<lambda>activateIx.
     Inr
       [activateStep ''Initialize question'' COMPOSE_COMPUTE_UNITS (instructions ! 0) (mr_question refs),
        activateStep ''Initialize conditional vault'' COMPOSE_COMPUTE_UNITS (instructions ! 1) (mr_vault refs),
        activateStep ''Create AMM pool'' COMPOSE_COMPUTE_UNITS (instructions ! 2) (mr_amm refs),
        activateStep ''Activate market'' ACTIVATE_COMPUTE_UNITS activateIx (mr_marketCyes refs)]))))))"

text \<open>A failed probe does not skip the step.\<close>

definition stepAlreadyLanded :: "web3 \<Rightarrow> IndexerReads \<Rightarrow> ActivateStep \<Rightarrow> bool" where
  "stepAlreadyLanded W indexer step =
     (case api_getAccount indexer (toBase58 W (as_checkAccount step)) of
        Inr info \<Rightarrow> info \<noteq> None
      | Inl e \<Rightarrow> False)"

subsection \<open>createAll.ts\<close>

record BuildCreateAllArgs =
  wq_optionsCount :: int
  wq_creator :: address_input
  wq_baseMint :: address_input
  wq_seedAmount :: int
  wq_nonce :: "int option"
  wq_llmContext :: "address_input option"

record CreateAllBuild =
  qb_steps :: "ActivateStep list"
  qb_nonce :: int
  qb_subject :: address

definition buildCreateAllSteps ::
  "web3 \<Rightarrow> IndexerReads \<Rightarrow> int \<Rightarrow> address \<Rightarrow> BuildCreateAllArgs \<Rightarrow> CreateAllBuild res" where
  "buildCreateAllSteps W indexer randomNonce dummyLlmContext a =
     bindR (toAddress W ''SOL mint'' (wq_baseMint a)) (\<lambda>baseMint.
     bindR (toAddress W ''Creator'' (wq_creator a)) (\<lambda>creator.
     if wq_optionsCount a < 2 then Inl (ValidationError ''There must be at least 2 options.'')
     else if wq_seedAmount a \<le> 0
       then Inl (ValidationError ''Seed amount must be greater than zero.'')
     else
     let nonce = orElse (wq_nonce a) randomNonce in
     bindR (case wq_llmContext a of
         Some c \<Rightarrow> toAddress W ''llmContext'' c | None \<Rightarrow> Inr dummyLlmContext) (\<lambda>llmContext.
     bindR (pda_subject W nonce None) (\<lambda>subject.
     bindR (ensureBaseAta W indexer creator baseMint) (\<lambda>(ata, createIx).
     bindR (ix_createSubject W
       \<lparr>cs_payer = AddrObj creator, cs_nonce = nonce, cs_optionsCount = wq_optionsCount a,
        cs_llmContext = AddrObj llmContext, cs_programId = None\<rparr>) (\<lambda>subjectIx.
     bindR (createAllOutcomeMarkets W
       \<lparr>ap_oracle = AddrObj (fst subject), ap_optionsCount = wq_optionsCount a,
        ap_creator = AddrObj creator, ap_baseMint = AddrObj baseMint, ap_creatorBaseAta = AddrObj ata,
        ap_seedAmount = wq_seedAmount a, ap_programId = None\<rparr>) (\<lambda>marketSteps.
     let subjectStep =
       \<lparr>as_label = ''Create subject'', as_computeUnits = None,
        as_ixs = withCreate createIx [subjectIx], as_checkAccount = fst subject,
        as_skipIfLanded = None\<rparr>;
         steps = subjectStep # map (\<lambda>step.
       \<lparr>as_label = ''Outcome '' @ show_int (st_outcomeIndex step), as_computeUnits = None,
        as_ixs = [st_instruction step], as_checkAccount = st_market step,
        as_skipIfLanded = None\<rparr>) marketSteps
     in Inr \<lparr>qb_steps = steps, qb_nonce = nonce, qb_subject = fst subject\<rparr>)))))))"

subsection \<open>bulkLiquidity.ts\<close>

text \<open>The loop of \<open>uniformSplit\<close>: \<open>n\<close> shares, one extra unit each while the remainder lasts.\<close>

fun splitLoop :: "nat \<Rightarrow> int \<Rightarrow> int \<Rightarrow> int list" where
  "splitLoop 0 base remainder = []"
| "splitLoop (Suc n) base remainder =
     (let extra = (if remainder > 0 then 1 else 0)
      in (base + extra) # splitLoop n base (remainder - extra))"

definition uniformSplit :: "int \<Rightarrow> int \<Rightarrow> int list res" where
  "uniformSplit tot n =
     (if n \<le> 0 then Inr []
      else if tot < 0 then Inl (ValidationError ''Amount must be zero or greater.'')
      else let base = bdiv tot n in Inr (splitLoop (nat n) base (tot - base * n)))"

record BulkContributeEntry =
  be_market :: address_input
  be_label :: string
  be_amount :: int

definition bulkStep :: "web3 \<Rightarrow> string \<Rightarrow> address_input \<Rightarrow> instruction list \<Rightarrow> ActivateStep res" where
  "bulkStep W label market ixs =
     mapR (\<lambda>m. \<lparr>as_label = label, as_computeUnits = None, as_ixs = ixs, as_checkAccount = m,
        as_skipIfLanded = Some False\<rparr>) (toAddress W ''Market'' market)"

definition buildBulkContributeSteps ::
  "web3 \<Rightarrow> IndexerReads \<Rightarrow> address_input \<Rightarrow> address_input \<Rightarrow> BulkContributeEntry list \<Rightarrow>
   ActivateStep list res" where
  "buildBulkContributeSteps W indexer baseMint contributor entries =
     (let funded = filter (\<lambda>e. be_amount e > 0) entries in
      if funded = [] then Inl (ValidationError ''Enter an amount to deposit.'')
      else seqR (map (\<lambda>e.
        bindR (buildContributeIxs W indexer
          \<lparr>wc_market = be_market e, wc_baseMint = baseMint, wc_contributor = contributor,
           wc_amount = be_amount e\<rparr>) (bulkStep W (be_label e) (be_market e))) funded))"

record BulkFundingEntry =
  bf_market :: address_input
  bf_oracle :: address_input
  bf_label :: string
  bf_totalContributed :: int
  bf_minLiquidity :: int
  bf_amount :: int

text \<open>The \<open>funded\<close> flag of \<open>fundingProgress\<close> in \<open>lib/marketView.ts\<close>.\<close>

definition isFunded :: "int \<Rightarrow> int \<Rightarrow> bool" where
  "isFunded totalContributed minLiquidity \<longleftrightarrow>
     minLiquidity \<le> 0 \<or> minLiquidity \<le> totalContributed"

definition outcomesReadyToActivate :: "BulkFundingEntry list \<Rightarrow> bool \<Rightarrow> BulkFundingEntry list" where
  "outcomesReadyToActivate entries oracleTerminal =
     (if oracleTerminal then []
      else filter (\<lambda>e. isFunded (bf_totalContributed e + bf_amount e) (bf_minLiquidity e)) entries)"

definition buildBulkActivateSteps ::
  "web3 \<Rightarrow> address_input \<Rightarrow> address_input \<Rightarrow> BulkFundingEntry list \<Rightarrow> ActivateStep list res" where
  "buildBulkActivateSteps W baseMint payer entries =
     mapR concat (seqR (map (\<lambda>e.
       mapR (map (\<lambda>s. s\<lparr>as_label := bf_label e @ '' '' @ [CHR 0xB7] @ '' '' @ as_label s\<rparr>))
         (buildActivateSequence W
           \<lparr>wa_market = bf_market e, wa_oracle = bf_oracle e, wa_baseMint = baseMint,
            wa_payer = payer\<rparr>)) entries))"

record BulkAddLiquidityEntry =
  bl_market :: address_input
  bl_label :: string
  bl_amount :: int
  bl_marketAccount :: Market
  bl_reserves :: AmmReserves

definition buildBulkAddLiquiditySteps ::
  "web3 \<Rightarrow> txlib \<Rightarrow> address_input \<Rightarrow> BulkAddLiquidityEntry list \<Rightarrow> int option \<Rightarrow>
   ActivateStep list res" where
  "buildBulkAddLiquiditySteps W T contributor entries slippageBps =
     (let funded = filter (\<lambda>e. bl_amount e > 0) entries in
      if funded = [] then Inl (ValidationError ''Enter an amount to deposit.'')
      else seqR (map (\<lambda>e.
        bindR (buildAddLiquidityIxs W T
          \<lparr>wl_market = bl_market e, wl_marketAccount = bl_marketAccount e,
           wl_reserves = bl_reserves e, wl_contributor = contributor, wl_amount = bl_amount e,
           wl_slippageBps = slippageBps\<rparr>) (\<lambda>r. bulkStep W (bl_label e) (bl_market e) (fst r))) funded))"

record BulkClaimLpEntry =
  bc_market :: address_input
  bc_label :: string
  bc_lpMint :: address_input

definition buildBulkClaimLpSteps ::
  "web3 \<Rightarrow> IndexerReads \<Rightarrow> address_input \<Rightarrow> BulkClaimLpEntry list \<Rightarrow> ActivateStep list res" where
  "buildBulkClaimLpSteps W indexer contributor entries =
     (if entries = [] then Inl (ValidationError ''Nothing to withdraw.'')
      else seqR (map (\<lambda>e.
        bindR (buildClaimLpIxs W indexer (bc_market e) contributor (bc_lpMint e))
          (bulkStep W (bc_label e) (bc_market e))) entries))"

subsection \<open>Splitting a deposit\<close>

lemma splitLoop_eq:
  "0 \<le> r \<Longrightarrow> splitLoop n b r = map (\<lambda>i. if int i < r then b + 1 else b) [0..<n]"
proof (induction n arbitrary: r)
  case 0
  then show ?case by simp
next
  case (Suc n)
  define f where "f i = (if int i < r then b + 1 else b)" for i :: nat
  have "splitLoop n b (r - (if r > 0 then 1 else 0)) = map (\<lambda>i. f (Suc i)) [0..<n]"
    using Suc by (auto simp: f_def)
  moreover have "map f [0..<Suc n] = f 0 # map (\<lambda>i. f (Suc i)) [0..<n]"
    by (rule map_upt_Suc)
  ultimately show ?case using Suc.prems by (simp add: f_def [abs_def] Let_def)
qed

lemma splitLoop_sum:
  "0 \<le> r \<Longrightarrow> r \<le> int n \<Longrightarrow> sum_list (splitLoop n b r) = int n * b + r"
proof (induction n arbitrary: r)
  case 0
  then show ?case by simp
next
  case (Suc n)
  then show ?case by (cases "r = 0") (simp_all add: Let_def algebra_simps)
qed

lemma uniformSplit_Inr:
  assumes "0 < n" and "0 \<le> tot"
  shows "\<exists>shares. uniformSplit tot n = Inr shares \<and> length shares = nat n \<and>
    sum_list shares = tot \<and>
    (\<forall>i < nat n. shares ! i = (if int i < tot mod n then tot div n + 1 else tot div n))"
proof -
  have b: "bdiv tot n = tot div n" using assms by (simp add: bdiv_nonneg)
  have r: "tot - tot div n * n = tot mod n" by (simp add: minus_div_mult_eq_mod)
  have m: "0 \<le> tot mod n" "tot mod n < n" using assms by simp_all
  have "uniformSplit tot n = Inr (splitLoop (nat n) (tot div n) (tot mod n))"
    using assms by (simp add: uniformSplit_def b r Let_def)
  moreover have "sum_list (splitLoop (nat n) (tot div n) (tot mod n)) = tot"
    using splitLoop_sum [of "tot mod n" "nat n" "tot div n"] m assms by simp
  ultimately show ?thesis using m by (auto simp: splitLoop_eq)
qed

subsection \<open>Steps and instructions\<close>

text \<open>A contribution: the program receives the amount, and the account is created when absent.\<close>

lemma buildContributeIxs_Inr:
  assumes "buildContributeIxs W indexer a = Inr ixs"
  shows "\<exists>owner mint ata bump create ix. ixs = withCreate create [ix] \<and>
    addr W (wc_contributor a) = Inr owner \<and> addr W (wc_baseMint a) = Inr mint \<and>
    pda_associatedTokenAccount W (AddrObj owner) (AddrObj mint) = Inr (ata, bump) \<and>
    0 < wc_amount a \<and> ixData ix = withDisc Contribute [u64LE (wc_amount a)] \<and>
    (create = None \<longleftrightarrow> (\<exists>acct. api_getAccount indexer (toBase58 W ata) = Inr (Some acct))) \<and>
    (\<forall>c. create = Some c \<longrightarrow> c = createAtaIdempotentInstruction W owner ata owner mint)"
proof -
  from assms obtain market mint owner ata create ix where
    ad: "addr W (wc_contributor a) = Inr owner" "addr W (wc_baseMint a) = Inr mint"
    and amt: "0 < wc_amount a"
    and en: "ensureBaseAta W indexer owner mint = Inr (ata, create)"
    and ix: "ix_contribute W
       \<lparr>ct_contributor = AddrObj owner, ct_market = AddrObj market,
        ct_contributorBaseAta = AddrObj ata, ct_amount = wc_amount a, ct_programId = None\<rparr> = Inr ix"
    and ixs: "ixs = withCreate create [ix]"
    by (auto simp: buildContributeIxs_def toAddress_Inr_iff split: if_splits)
  have d: "ixData ix = withDisc Contribute [u64LE (wc_amount a)]"
    using ix by (auto simp: ix_contribute_def Let_def dest!: mkIx_data)
  from en obtain bump where p: "pda_associatedTokenAccount W (AddrObj owner) (AddrObj mint) = Inr (ata, bump)"
    and cr: "(create = None \<longleftrightarrow> (\<exists>acct. api_getAccount indexer (toBase58 W ata) = Inr (Some acct))) \<and>
      (\<forall>c. create = Some c \<longrightarrow> c = createAtaIdempotentInstruction W owner ata owner mint)"
    by (auto simp: ensureBaseAta_def ensureAta_def Let_def split: option.splits)
  show ?thesis using ixs ad amt d p cr by blast
qed

lemma createAllOutcomeMarkets_Inr:
  assumes "createAllOutcomeMarkets W p = Inr steps"
  shows "length steps = nat (ap_optionsCount p)" and "0 < ap_optionsCount p"
    and "i < length steps \<Longrightarrow> createAllStep W p (int i) = Inr (steps ! i)"
proof -
  from assms have n: "0 < ap_optionsCount p"
    and s: "seqR (map (createAllStep W p) [0..ap_optionsCount p - 1]) = Inr steps"
    by (auto simp: createAllOutcomeMarkets_def split: if_splits)
  show "0 < ap_optionsCount p" by (rule n)
  show l: "length steps = nat (ap_optionsCount p)" using seqR_length [OF s] by simp
  show "createAllStep W p (int i) = Inr (steps ! i)" if "i < length steps"
    using seqR_nth_map [OF s, of i] that l by simp
qed

lemma createAllStep_Inr:
  assumes "createAllStep W p i = Inr st"
  shows "st_outcomeIndex st = i"
    and "\<exists>bump. pda_market W (ap_oracle p) i (ap_programId p) = Inr (st_market st, bump)"
    and "ixData (st_instruction st) = withDisc CreateMarket [u64LE (ap_seedAmount p), u8 i]"
  using assms by (auto simp: createAllStep_def ix_createMarket_def Let_def dest!: mkIx_data)

lemma buildActivateSequence_Inr:
  assumes "buildActivateSequence W a = Inr steps"
  shows "\<exists>market oracle baseMint payer ixq ixv ixa refs ixact.
    addr W (wa_market a) = Inr market \<and> addr W (wa_oracle a) = Inr oracle \<and>
    addr W (wa_baseMint a) = Inr baseMint \<and> addr W (wa_payer a) = Inr payer \<and>
    composeMarketInstructions W
      \<lparr>cp_market = AddrObj market, cp_oracle = AddrObj oracle, cp_baseMint = AddrObj baseMint,
       cp_payer = AddrObj payer\<rparr> = Inr ([ixq, ixv, ixa], refs) \<and>
    activateInstruction W refs (AddrObj payer) = Inr ixact \<and>
    map as_ixs steps = [[ixq], [ixv], [ixa], [ixact]] \<and>
    map as_checkAccount steps = [mr_question refs, mr_vault refs, mr_amm refs, mr_marketCyes refs]"
proof -
  have three: "length (fst r) = 3" if "composeMarketInstructions W p = Inr r" for p r
    using that by (auto simp: composeMarketInstructions_def Let_def)
  from assms obtain market orcl baseMint payer r ixact where
    ad: "addr W (wa_market a) = Inr market" "addr W (wa_oracle a) = Inr orcl"
      "addr W (wa_baseMint a) = Inr baseMint" "addr W (wa_payer a) = Inr payer"
    and c: "composeMarketInstructions W
      \<lparr>cp_market = AddrObj market, cp_oracle = AddrObj orcl, cp_baseMint = AddrObj baseMint,
       cp_payer = AddrObj payer\<rparr> = Inr r"
    and act: "activateInstruction W (snd r) (AddrObj payer) = Inr ixact"
    and st: "steps =
       [activateStep ''Initialize question'' COMPOSE_COMPUTE_UNITS (fst r ! 0) (mr_question (snd r)),
        activateStep ''Initialize conditional vault'' COMPOSE_COMPUTE_UNITS (fst r ! 1) (mr_vault (snd r)),
        activateStep ''Create AMM pool'' COMPOSE_COMPUTE_UNITS (fst r ! 2) (mr_amm (snd r)),
        activateStep ''Activate market'' ACTIVATE_COMPUTE_UNITS ixact (mr_marketCyes (snd r))]"
    by (fastforce simp: buildActivateSequence_def toAddress_Inr_iff split_beta)
  obtain ixs refs where r: "r = (ixs, refs)" by (cases r)
  obtain ixq ixv ixa where x: "ixs = [ixq, ixv, ixa]"
    using three [OF c] by (auto simp: r numeral_3_eq_3 length_Suc_conv)
  have c': "composeMarketInstructions W
      \<lparr>cp_market = AddrObj market, cp_oracle = AddrObj orcl, cp_baseMint = AddrObj baseMint,
       cp_payer = AddrObj payer\<rparr> = Inr ([ixq, ixv, ixa], refs)"
    using c unfolding r x .
  have act': "activateInstruction W refs (AddrObj payer) = Inr ixact"
    using act unfolding r by (simp only: snd_conv)
  have ixs': "map as_ixs steps = [[ixq], [ixv], [ixa], [ixact]]"
    and acc': "map as_checkAccount steps = [mr_question refs, mr_vault refs, mr_amm refs, mr_marketCyes refs]"
    by (simp_all add: st r x activateStep_def)
  show ?thesis
    by (intro exI [of _ market] exI [of _ orcl] exI [of _ baseMint] exI [of _ payer] exI [of _ ixq]
          exI [of _ ixv] exI [of _ ixa] exI [of _ refs] exI [of _ ixact] conjI)
       (fact ad c' act' ixs' acc')+
qed

end
