(* ===== verification/PackTx.thy ===== *)
theory PackTx
  imports Actions "HOL-Library.Sublist"
begin

text \<open>
  \<open>app/src/market/data/actions/packTx.ts\<close>: greedy packing of an ordered step list into
  transactions.  A step's own compute-budget instructions are taken out of its body and summed;
  a batch carries one merged instruction when it needs more than the default.
\<close>

definition MAX_TX_COMPUTE_UNITS :: int where
  "MAX_TX_COMPUTE_UNITS = 1400000"

definition DEFAULT_TX_COMPUTE_UNITS :: int where
  "DEFAULT_TX_COMPUTE_UNITS = 200000"

text \<open>web3.js: \<open>1280 - 40 - 8\<close>.\<close>

definition PACKET_DATA_SIZE :: int where
  "PACKET_DATA_SIZE = 1232"

record PackedTx =
  pk_steps :: "ActivateStep list"
  pk_ixs :: "instruction list"

definition isComputeUnitLimitIx :: "web3 \<Rightarrow> txlib \<Rightarrow> instruction \<Rightarrow> bool" where
  "isComputeUnitLimitIx W T ix \<longleftrightarrow>
     (if toBase58 W (ixProgramId ix) \<noteq> toBase58 W (COMPUTE_BUDGET_PROGRAM_ID W) then False
      else tx_decodeUnitLimit T ix \<noteq> None)"

text \<open>The loop over \<open>step.ixs\<close>, with \<open>declared\<close> and \<open>body\<close> as its state.\<close>

fun normalizeIxs ::
  "web3 \<Rightarrow> txlib \<Rightarrow> int option \<Rightarrow> instruction list \<Rightarrow> instruction list \<Rightarrow>
   int option \<times> instruction list" where
  "normalizeIxs W T declared body [] = (declared, body)"
| "normalizeIxs W T declared body (ix # ixs) =
     (if isComputeUnitLimitIx W T ix
      then normalizeIxs W T (Some (orElse declared 0 + orElse (tx_decodeUnitLimit T ix) 0)) body ixs
      else normalizeIxs W T declared (body @ [ix]) ixs)"

definition normalizeStep :: "web3 \<Rightarrow> txlib \<Rightarrow> ActivateStep \<Rightarrow> int \<times> instruction list" where
  "normalizeStep W T step =
     (let (declared, body) = normalizeIxs W T (as_computeUnits step) [] (as_ixs step)
      in (orElse declared DEFAULT_TX_COMPUTE_UNITS, body))"

definition totalComputeUnits :: "web3 \<Rightarrow> txlib \<Rightarrow> ActivateStep list \<Rightarrow> int" where
  "totalComputeUnits W T steps = foldl (\<lambda>sum s. sum + fst (normalizeStep W T s)) 0 steps"

definition combinedIxs :: "web3 \<Rightarrow> txlib \<Rightarrow> ActivateStep list \<Rightarrow> instruction list" where
  "combinedIxs W T steps =
     (let normalized = map (normalizeStep W T) steps;
          units = foldl (\<lambda>sum n. sum + fst n) 0 normalized;
          body = concat (map snd normalized)
      in if units > DEFAULT_TX_COMPUTE_UNITS then setComputeUnitLimitIx T units # body else body)"

definition wireSize :: "txlib \<Rightarrow> address \<Rightarrow> instruction list \<Rightarrow> int" where
  "wireSize T feePayer ixs =
     (let (signatures, len) = tx_message T feePayer ixs in 1 + signatures * 64 + len)"

text \<open>The loop of \<open>packSteps\<close>; \<open>current\<close> is the open batch.\<close>

fun packLoop ::
  "web3 \<Rightarrow> txlib \<Rightarrow> address \<Rightarrow> ActivateStep list \<Rightarrow> ActivateStep list \<Rightarrow> PackedTx list" where
  "packLoop W T feePayer current [] =
     (if length current > 0
      then [\<lparr>pk_steps = current, pk_ixs = combinedIxs W T current\<rparr>] else [])"
| "packLoop W T feePayer current (step # steps) =
     (let attempt = current @ [step] in
      if length current > 0 \<and>
         (totalComputeUnits W T attempt > MAX_TX_COMPUTE_UNITS \<or>
          wireSize T feePayer (combinedIxs W T attempt) > PACKET_DATA_SIZE)
      then \<lparr>pk_steps = current, pk_ixs = combinedIxs W T current\<rparr>
             # packLoop W T feePayer [step] steps
      else packLoop W T feePayer attempt steps)"

definition packSteps :: "web3 \<Rightarrow> txlib \<Rightarrow> address \<Rightarrow> ActivateStep list \<Rightarrow> PackedTx list" where
  "packSteps W T feePayer steps = packLoop W T feePayer [] steps"

subsection \<open>Normalised steps\<close>

definition unitIxs :: "web3 \<Rightarrow> txlib \<Rightarrow> instruction list \<Rightarrow> instruction list" where
  "unitIxs W T ixs = filter (isComputeUnitLimitIx W T) ixs"

definition bodyIxs :: "web3 \<Rightarrow> txlib \<Rightarrow> instruction list \<Rightarrow> instruction list" where
  "bodyIxs W T ixs = filter (\<lambda>ix. \<not> isComputeUnitLimitIx W T ix) ixs"

definition unitsOf :: "txlib \<Rightarrow> instruction \<Rightarrow> int" where
  "unitsOf T ix = orElse (tx_decodeUnitLimit T ix) 0"

lemma normalizeIxs_eq:
  "normalizeIxs W T declared body ixs =
     (if unitIxs W T ixs = [] then declared
      else Some (orElse declared 0 + sum_list (map (unitsOf T) (unitIxs W T ixs))),
      body @ bodyIxs W T ixs)"
  by (induction ixs arbitrary: declared body)
     (auto simp: unitIxs_def bodyIxs_def unitsOf_def split: option.splits)

lemma normalizeStep_eq:
  "normalizeStep W T step =
     (if as_computeUnits step = None \<and> unitIxs W T (as_ixs step) = [] then DEFAULT_TX_COMPUTE_UNITS
      else orElse (as_computeUnits step) 0 + sum_list (map (unitsOf T) (unitIxs W T (as_ixs step))),
      bodyIxs W T (as_ixs step))"
  by (cases "as_computeUnits step") (auto simp: normalizeStep_def normalizeIxs_eq)

lemma foldl_sum: "foldl (\<lambda>acc x. acc + f x) (a :: int) xs = a + sum_list (map f xs)"
  by (induction xs arbitrary: a) simp_all

lemma totalComputeUnits_eq:
  "totalComputeUnits W T steps = sum_list (map (fst \<circ> normalizeStep W T) steps)"
  by (simp add: totalComputeUnits_def foldl_sum o_def)

definition stepBodies :: "web3 \<Rightarrow> txlib \<Rightarrow> ActivateStep list \<Rightarrow> instruction list" where
  "stepBodies W T steps = concat (map (\<lambda>s. bodyIxs W T (as_ixs s)) steps)"

lemma combinedIxs_eq:
  "combinedIxs W T steps =
     (if totalComputeUnits W T steps > DEFAULT_TX_COMPUTE_UNITS
      then setComputeUnitLimitIx T (totalComputeUnits W T steps) # stepBodies W T steps
      else stepBodies W T steps)"
  by (simp add: combinedIxs_def totalComputeUnits_eq foldl_sum stepBodies_def normalizeStep_eq
        o_def Let_def)

lemma stepBodies_append: "stepBodies W T (xs @ ys) = stepBodies W T xs @ stepBodies W T ys"
  by (simp add: stepBodies_def)

lemma stepBodies_no_units: "ix \<in> set (stepBodies W T steps) \<Longrightarrow> \<not> isComputeUnitLimitIx W T ix"
  by (auto simp: stepBodies_def bodyIxs_def)

subsection \<open>The batches\<close>

text \<open>What a transaction may hold.\<close>

definition fits :: "web3 \<Rightarrow> txlib \<Rightarrow> address \<Rightarrow> ActivateStep list \<Rightarrow> bool" where
  "fits W T feePayer steps \<longleftrightarrow>
     totalComputeUnits W T steps \<le> MAX_TX_COMPUTE_UNITS \<and>
     wireSize T feePayer (combinedIxs W T steps) \<le> PACKET_DATA_SIZE"

lemma packLoop_concat:
  "concat (map pk_steps (packLoop W T p current steps)) = current @ steps"
  by (induction steps arbitrary: current) (auto simp: Let_def)

lemma packLoop_ixs:
  "b \<in> set (packLoop W T p current steps) \<Longrightarrow>
     pk_steps b \<noteq> [] \<and> pk_ixs b = combinedIxs W T (pk_steps b)"
  by (induction steps arbitrary: current) (auto simp: Let_def split: if_splits)

lemma packLoop_fits:
  assumes "length current \<le> 1 \<or> fits W T p current" "b \<in> set (packLoop W T p current steps)"
  shows "length (pk_steps b) = 1 \<or> fits W T p (pk_steps b)"
  using assms
proof (induction steps arbitrary: current)
  case Nil
  then show ?case by (auto split: if_splits simp: Suc_le_eq le_Suc_eq)
next
  case (Cons step steps)
  show ?case
  proof (cases "current = []")
    case True
    then show ?thesis using Cons.IH [of "[step]"] Cons.prems by simp
  next
    case nonempty: False
    show ?thesis
    proof (cases "fits W T p (current @ [step])")
      case True
      then show ?thesis using Cons.IH [of "current @ [step]"] Cons.prems
        by (simp add: fits_def Let_def not_less [symmetric])
    next
      case False
      have l: "length current = 1 \<or> fits W T p current"
        using Cons.prems(1) nonempty by (cases current) auto
      show ?thesis using Cons.prems(2) Cons.IH [of "[step]"] nonempty False l
        by (auto simp: fits_def Let_def not_less [symmetric] split: if_splits)
    qed
  qed
qed

text \<open>Greedy: no batch could have taken the first step of the next one.\<close>

lemma packLoop_hd:
  "current \<noteq> [] \<or> steps \<noteq> [] \<Longrightarrow>
   \<exists>rear bs. packLoop W T p current steps =
     \<lparr>pk_steps = current @ rear, pk_ixs = combinedIxs W T (current @ rear)\<rparr> # bs"
proof (induction steps arbitrary: current)
  case Nil
  then show ?case by simp
next
  case (Cons step steps)
  show ?case
  proof (cases "length current > 0 \<and> \<not> fits W T p (current @ [step])")
    case True
    then have "packLoop W T p current (step # steps) =
      \<lparr>pk_steps = current @ [], pk_ixs = combinedIxs W T (current @ [])\<rparr> # packLoop W T p [step] steps"
      by (auto simp: Let_def fits_def not_less [symmetric])
    then show ?thesis by blast
  next
    case False
    then have e: "packLoop W T p current (step # steps) = packLoop W T p (current @ [step]) steps"
      by (auto simp: Let_def fits_def not_less [symmetric])
    obtain rear bs where "packLoop W T p (current @ [step]) steps =
      \<lparr>pk_steps = (current @ [step]) @ rear, pk_ixs = combinedIxs W T ((current @ [step]) @ rear)\<rparr> # bs"
      using Cons.IH [of "current @ [step]"] by auto
    then have "packLoop W T p current (step # steps) =
      \<lparr>pk_steps = current @ (step # rear), pk_ixs = combinedIxs W T (current @ (step # rear))\<rparr> # bs"
      using e by simp
    then show ?thesis by blast
  qed
qed

lemma packLoop_greedy:
  assumes "Suc i < length (packLoop W T p current steps)"
  shows "\<not> fits W T p (pk_steps (packLoop W T p current steps ! i) @
           [hd (pk_steps (packLoop W T p current steps ! Suc i))])"
  using assms
proof (induction steps arbitrary: current i)
  case Nil
  then show ?case by (simp split: if_splits)
next
  case (Cons step steps)
  show ?case
  proof (cases "length current > 0 \<and> \<not> fits W T p (current @ [step])")
    case True
    then have e: "packLoop W T p current (step # steps) =
      \<lparr>pk_steps = current, pk_ixs = combinedIxs W T current\<rparr> # packLoop W T p [step] steps"
      by (auto simp: Let_def fits_def not_less [symmetric])
    show ?thesis
    proof (cases i)
      case 0
      obtain rear bs where "packLoop W T p [step] steps =
        \<lparr>pk_steps = [step] @ rear, pk_ixs = combinedIxs W T ([step] @ rear)\<rparr> # bs"
        using packLoop_hd [of "[step]" steps W T p] by blast
      then show ?thesis using True 0 e by simp
    next
      case (Suc j)
      then show ?thesis using Cons.IH [of j "[step]"] Cons.prems e by simp
    qed
  next
    case False
    then have "packLoop W T p current (step # steps) = packLoop W T p (current @ [step]) steps"
      by (auto simp: Let_def fits_def not_less [symmetric])
    then show ?thesis using Cons by metis
  qed
qed

lemma packSteps_concat: "concat (map pk_steps (packSteps W T p steps)) = steps"
  by (simp add: packSteps_def packLoop_concat)

lemma packSteps_ixs:
  "b \<in> set (packSteps W T p steps) \<Longrightarrow>
     pk_steps b \<noteq> [] \<and> pk_ixs b = combinedIxs W T (pk_steps b)"
  by (simp add: packSteps_def packLoop_ixs)

lemma packSteps_fits:
  "b \<in> set (packSteps W T p steps) \<Longrightarrow> length (pk_steps b) = 1 \<or> fits W T p (pk_steps b)"
  using packLoop_fits [of "[]"] by (simp add: packSteps_def)

lemma packSteps_greedy:
  "Suc i < length (packSteps W T p steps) \<Longrightarrow>
     \<not> fits W T p (pk_steps (packSteps W T p steps ! i) @ [hd (pk_steps (packSteps W T p steps ! Suc i))])"
  using packLoop_greedy by (simp add: packSteps_def)

lemma stepBodies_concat: "stepBodies W T (concat xss) = concat (map (stepBodies W T) xss)"
  by (induction xss) (simp_all add: stepBodies_append, simp add: stepBodies_def)

text \<open>Packing only removes the compute-budget instructions: the rest keep their order.\<close>

lemma combined_body: "compute_ok W T \<Longrightarrow> totalComputeUnits W T ss < 4294967296 \<Longrightarrow>
  bodyIxs W T (combinedIxs W T ss) = stepBodies W T ss"
  by (auto simp: combinedIxs_eq compute_ok_def setComputeUnitLimitIx_def bodyIxs_def
        isComputeUnitLimitIx_def DEFAULT_TX_COMPUTE_UNITS_def stepBodies_def filter_concat comp_def
        filter_filter)

lemma combined_units: "compute_ok W T \<Longrightarrow> totalComputeUnits W T ss < 4294967296 \<Longrightarrow>
  unitIxs W T (combinedIxs W T ss) =
    (if totalComputeUnits W T ss > DEFAULT_TX_COMPUTE_UNITS
     then [setComputeUnitLimitIx T (totalComputeUnits W T ss)] else [])"
  using stepBodies_no_units [of _ W T ss]
  by (auto simp: combinedIxs_eq compute_ok_def setComputeUnitLimitIx_def unitIxs_def
        isComputeUnitLimitIx_def DEFAULT_TX_COMPUTE_UNITS_def filter_empty_conv)

subsection \<open>As few transactions as possible\<close>

text \<open>
  Documented behaviour of the compiled message: it depends on the instructions' programs, accounts
  and data lengths, and a message for fewer of them needs no more signatures and no more bytes.
\<close>

definition ix_shape :: "instruction \<Rightarrow> address \<times> account_meta list \<times> nat" where
  "ix_shape ix = (ixProgramId ix, ixKeys ix, length (ixData ix))"

definition message_ok :: "txlib \<Rightarrow> bool" where
  "message_ok T \<longleftrightarrow>
     (\<forall>p xs ys. subseq (map ix_shape xs) (map ix_shape ys) \<longrightarrow>
        fst (tx_message T p xs) \<le> fst (tx_message T p ys) \<and>
        snd (tx_message T p xs) \<le> snd (tx_message T p ys)) \<and>
     (\<forall>u v. ix_shape (tx_setComputeUnitLimit T u) = ix_shape (tx_setComputeUnitLimit T v))"

text \<open>A step that declares its units declares none below zero.\<close>

definition units_ok :: "ActivateStep list \<Rightarrow> bool" where
  "units_ok steps \<longleftrightarrow> (\<forall>s\<in>set steps. 0 \<le> orElse (as_computeUnits s) 0)"

text \<open>A batch that \<open>packSteps\<close> may emit: it fits, or is a single step.\<close>

definition batch_ok :: "web3 \<Rightarrow> txlib \<Rightarrow> address \<Rightarrow> ActivateStep list \<Rightarrow> bool" where
  "batch_ok W T p seg \<longleftrightarrow> length seg \<le> 1 \<or> fits W T p seg"

lemma normalizeStep_units_nonneg:
  assumes "compute_ok W T" "0 \<le> orElse (as_computeUnits s) 0"
  shows "0 \<le> fst (normalizeStep W T s)"
proof -
  have "0 \<le> sum_list (map (unitsOf T) ixs)" for ixs
  proof (intro sum_list_nonneg, clarsimp)
    fix ix
    show "0 \<le> unitsOf T ix"
      using assms(1) by (cases "tx_decodeUnitLimit T ix") (auto simp: unitsOf_def compute_ok_def)
  qed
  then show ?thesis using assms(2) by (simp add: normalizeStep_eq DEFAULT_TX_COMPUTE_UNITS_def)
qed

lemma totalComputeUnits_nonneg:
  "compute_ok W T \<Longrightarrow> units_ok ss \<Longrightarrow> 0 \<le> totalComputeUnits W T ss"
  unfolding totalComputeUnits_eq units_ok_def
  by (intro sum_list_nonneg) (auto intro: normalizeStep_units_nonneg)

lemma wireSize_mono:
  assumes "message_ok T" "subseq (map ix_shape xs) (map ix_shape ys)"
  shows "wireSize T p xs \<le> wireSize T p ys"
proof -
  have "fst (tx_message T p xs) \<le> fst (tx_message T p ys)" "snd (tx_message T p xs) \<le> snd (tx_message T p ys)"
    using assms by (auto simp: message_ok_def)
  then show ?thesis by (simp add: wireSize_def split_beta)
qed

lemma combinedIxs_shape:
  assumes "compute_ok W T" "message_ok T" "units_ok (xs @ ys @ zs)"
  shows "totalComputeUnits W T ys \<le> totalComputeUnits W T (xs @ ys @ zs)"
    and "subseq (map ix_shape (combinedIxs W T ys)) (map ix_shape (combinedIxs W T (xs @ ys @ zs)))"
proof -
  have u: "units_ok xs" "units_ok zs" using assms(3) by (auto simp: units_ok_def)
  show t: "totalComputeUnits W T ys \<le> totalComputeUnits W T (xs @ ys @ zs)"
    using totalComputeUnits_nonneg [OF assms(1)] u by (simp add: totalComputeUnits_eq)
  have b: "subseq (map ix_shape (stepBodies W T ys)) (map ix_shape (stepBodies W T (xs @ ys @ zs)))"
    by (simp add: stepBodies_append list_emb_append2 list_emb_prefix)
  have c: "ix_shape (setComputeUnitLimitIx T u) = ix_shape (setComputeUnitLimitIx T v)" for u v
    using assms(2) unfolding message_ok_def setComputeUnitLimitIx_def by blast
  show "subseq (map ix_shape (combinedIxs W T ys)) (map ix_shape (combinedIxs W T (xs @ ys @ zs)))"
    using t b c by (auto simp: combinedIxs_eq)
qed

lemma fits_segment:
  assumes "compute_ok W T" "message_ok T" "units_ok (xs @ ys @ zs)" "fits W T p (xs @ ys @ zs)"
  shows "fits W T p ys"
  using combinedIxs_shape [OF assms(1-3)] wireSize_mono [OF assms(2), of "combinedIxs W T ys" "combinedIxs W T (xs @ ys @ zs)" p] assms(4)
  unfolding fits_def by linarith

lemma batch_ok_segment:
  assumes "compute_ok W T" "message_ok T" "units_ok (xs @ ys @ zs)" "batch_ok W T p (xs @ ys @ zs)"
  shows "batch_ok W T p ys"
  using fits_segment [OF assms(1-3)] assms(4) by (auto simp: batch_ok_def)

lemma packLoop_absorb:
  assumes "compute_ok W T" "message_ok T"
    and "units_ok (current @ rear)" "batch_ok W T p (current @ rear)"
  shows "packLoop W T p current (rear @ rest) = packLoop W T p (current @ rear) rest"
  using assms(3,4)
proof (induction rear arbitrary: current)
  case Nil
  then show ?case by simp
next
  case (Cons step rear)
  have "batch_ok W T p (current @ [step])"
    using batch_ok_segment [OF assms(1,2), of "[]" "current @ [step]" rear] Cons.prems by simp
  then have "packLoop W T p current (step # rear @ rest) = packLoop W T p (current @ [step]) (rear @ rest)"
    by (auto simp: batch_ok_def fits_def Let_def not_less [symmetric])
  then show ?case using Cons.IH [of "current @ [step]"] Cons.prems by simp
qed

lemma packLoop_cut:
  "current \<noteq> [] \<Longrightarrow> \<exists>n. length (packLoop W T p current steps) = Suc (length (packLoop W T p [] (drop n steps)))"
proof (induction steps arbitrary: current)
  case Nil
  then show ?case by simp
next
  case (Cons step steps)
  show ?case
  proof (cases "fits W T p (current @ [step])")
    case True
    then have "packLoop W T p current (step # steps) = packLoop W T p (current @ [step]) steps"
      by (auto simp: fits_def Let_def not_less [symmetric])
    moreover obtain n where "length (packLoop W T p (current @ [step]) steps) =
        Suc (length (packLoop W T p [] (drop n steps)))"
      using Cons.IH [of "current @ [step]"] by auto
    ultimately show ?thesis by (intro exI [of _ "Suc n"]) simp
  next
    case False
    then have "length (packLoop W T p current (step # steps)) = Suc (length (packLoop W T p [] (step # steps)))"
      using Cons.prems by (auto simp: fits_def Let_def not_less [symmetric])
    then show ?thesis by (intro exI [of _ 0]) simp
  qed
qed

lemma packLoop_optimal:
  assumes "compute_ok W T" "message_ok T"
  shows "units_ok (concat segs) \<Longrightarrow> (\<forall>seg\<in>set segs. batch_ok W T p seg) \<Longrightarrow>
    length (packLoop W T p [] (drop k (concat segs))) \<le> length segs"
proof (induction segs arbitrary: k)
  case Nil
  then show ?case by simp
next
  case (Cons seg segs)
  have IH: "length (packLoop W T p [] (drop j (concat segs))) \<le> length segs" for j
    using Cons by (auto simp: units_ok_def)
  show ?case
  proof (cases "k < length seg")
    case False
    then show ?thesis using IH [of "k - length seg"] by simp
  next
    case True
    define s where "s = drop k seg"
    have s: "s \<noteq> []" "seg = take k seg @ s @ []" using True by (auto simp: s_def)
    have u: "units_ok s" "units_ok (take k seg @ s @ [])"
      using Cons.prems(1) s(2) by (auto simp: units_ok_def s_def dest: in_set_dropD)
    have "batch_ok W T p s"
      using batch_ok_segment [OF assms u(2)] Cons.prems(2) s(2) by simp
    then have "packLoop W T p [] (s @ concat segs) = packLoop W T p s (concat segs)"
      using packLoop_absorb [OF assms, of "[]" s p "concat segs"] u(1) by simp
    moreover obtain n where "length (packLoop W T p s (concat segs)) =
        Suc (length (packLoop W T p [] (drop n (concat segs))))"
      using packLoop_cut [OF s(1)] by blast
    ultimately show ?thesis using IH [of n] True by (simp add: s_def)
  qed
qed

lemma packSteps_optimal:
  assumes "compute_ok W T" "message_ok T" "units_ok (concat segs)"
    and "\<forall>seg\<in>set segs. length seg \<le> 1 \<or> fits W T p seg"
  shows "length (packSteps W T p (concat segs)) \<le> length segs"
  using packLoop_optimal [OF assms(1-3), of p 0] assms(4) by (simp add: packSteps_def batch_ok_def)

end
