(* ===== verification/Base64.thy ===== *)
theory Base64
  imports Markets
begin

text \<open>
  Base64 as the app uses it: \<open>bytesToBase64\<close> of \<open>app/src/market/data/send.ts\<close> and
  \<open>base64ToBytes\<close> of \<open>app/src/lib/base64.ts\<close>, over the platform's \<open>btoa\<close> and
  \<open>atob\<close> (the forgiving decoder of the HTML standard).  A binary string is the list of its
  code units.
\<close>

definition B64 :: string where
  "B64 = ''ABCDEFGHIJKLMNOPQRSTUVWXYZabcdefghijklmnopqrstuvwxyz0123456789+/''"

definition b64_char :: "int \<Rightarrow> char" where
  "b64_char k = B64 ! nat k"

definition b64_val :: "char \<Rightarrow> int option" where
  "b64_val c = map_option int (find_index (\<lambda>d. d = c) B64)"

subsection \<open>btoa\<close>

fun b64_encode :: "int list \<Rightarrow> string" where
  "b64_encode [] = []"
| "b64_encode [a] = [b64_char (a div 4), b64_char (a mod 4 * 16), CHR ''='', CHR ''='']"
| "b64_encode [a, b] =
     [b64_char (a div 4), b64_char (a mod 4 * 16 + b div 16), b64_char (b mod 16 * 4), CHR ''='']"
| "b64_encode (a # b # c # rest) =
     b64_char (a div 4) # b64_char (a mod 4 * 16 + b div 16) # b64_char (b mod 16 * 4 + c div 64)
       # b64_char (c mod 64) # b64_encode rest"

definition btoa :: "int list \<Rightarrow> string res" where
  "btoa units =
     (if \<exists>u\<in>set units. u > 255 then Inl (Error ''InvalidCharacterError'') else Inr (b64_encode units))"

subsection \<open>atob\<close>

fun b64_decode :: "int list \<Rightarrow> int list" where
  "b64_decode (p # q # r # s # rest) =
     (p * 4 + q div 16) # (q mod 16 * 16 + r div 4) # (r mod 4 * 64 + s) # b64_decode rest"
| "b64_decode [p, q, r] = [p * 4 + q div 16, q mod 16 * 16 + r div 4]"
| "b64_decode [p, q] = [p * 4 + q div 16]"
| "b64_decode [p] = []"
| "b64_decode [] = []"

definition is_b64_space :: "char \<Rightarrow> bool" where
  "is_b64_space c \<longleftrightarrow> code_of c \<in> {9, 10, 12, 13, 32}"

text \<open>At most two padding characters are dropped, when the length is a multiple of four.\<close>

definition drop_pad :: "string \<Rightarrow> string" where
  "drop_pad s =
     (if length s mod 4 = 0 then
        (if s \<noteq> [] \<and> last s = CHR ''='' then
           (let t = butlast s in if t \<noteq> [] \<and> last t = CHR ''='' then butlast t else t)
         else s)
      else s)"

definition atob :: "string \<Rightarrow> int list res" where
  "atob s =
     (let t = drop_pad (filter (\<lambda>c. \<not> is_b64_space c) s) in
      if length t mod 4 = 1 \<or> (\<exists>c\<in>set t. b64_val c = None)
      then Inl (Error ''InvalidCharacterError'')
      else Inr (b64_decode (map (\<lambda>c. orElse (b64_val c) 0) t)))"

subsection \<open>The app's two functions\<close>

definition bytesToBase64 :: "bytes \<Rightarrow> string res" where
  "bytesToBase64 bs = btoa (map uint bs)"

definition base64ToBytes :: "string \<Rightarrow> bytes res" where
  "base64ToBytes b64 = mapR (map (\<lambda>u. word_of_int u)) (atob b64)"

subsection \<open>Round trip\<close>

lemma find_index_nth:
  "distinct xs \<Longrightarrow> i < length xs \<Longrightarrow> find_index (\<lambda>d. d = xs ! i) xs = Some i"
proof (induction xs arbitrary: i)
  case Nil
  then show ?case by simp
next
  case (Cons x xs)
  then show ?case by (cases i) auto
qed

lemma B64_distinct: "distinct B64" and length_B64: "length B64 = 64"
  by (simp_all add: B64_def)

lemma b64_val_char [simp]: "0 \<le> k \<Longrightarrow> k < 64 \<Longrightarrow> b64_val (b64_char k) = Some k"
  by (simp add: b64_val_def b64_char_def find_index_nth B64_distinct length_B64)

lemma B64_plain: "\<forall>c\<in>set B64. c \<noteq> CHR ''='' \<and> \<not> is_b64_space c"
  by (simp add: B64_def is_b64_space_def code_of_def)

lemma b64_char_plain: "0 \<le> k \<Longrightarrow> k < 64 \<Longrightarrow> b64_char k \<noteq> CHR ''='' \<and> \<not> is_b64_space (b64_char k)"
  using B64_plain nth_mem [of "nat k" B64] unfolding b64_char_def length_B64 by simp

definition is_octets :: "int list \<Rightarrow> bool" where
  "is_octets us \<longleftrightarrow> (\<forall>u\<in>set us. 0 \<le> u \<and> u < 256)"

lemma is_octets_simps [simp]:
  "is_octets []" "is_octets (u # us) \<longleftrightarrow> 0 \<le> u \<and> u < 256 \<and> is_octets us"
  by (auto simp: is_octets_def)

text \<open>The sextets that the encoder writes, and their number of padding characters.\<close>

fun sextets :: "int list \<Rightarrow> int list" where
  "sextets [] = []"
| "sextets [a] = [a div 4, a mod 4 * 16]"
| "sextets [a, b] = [a div 4, a mod 4 * 16 + b div 16, b mod 16 * 4]"
| "sextets (a # b # c # rest) =
     (a div 4) # (a mod 4 * 16 + b div 16) # (b mod 16 * 4 + c div 64) # (c mod 64) # sextets rest"

fun pads :: "int list \<Rightarrow> nat" where
  "pads [] = 0"
| "pads [a] = 2"
| "pads [a, b] = 1"
| "pads (a # b # c # rest) = pads rest"

lemma encode_sextets: "b64_encode us = map b64_char (sextets us) @ replicate (pads us) CHR ''=''"
  by (induction us rule: b64_encode.induct) (simp_all add: numeral_2_eq_2)

lemma join6:
  fixes a b :: int
  assumes "0 \<le> a" "a < k" "0 \<le> b" "b < m"
  shows "0 \<le> a * m + b" "a * m + b < k * m"
proof -
  have "(a + 1) * m \<le> k * m" using assms by (intro mult_right_mono) auto
  then show "a * m + b < k * m" using assms by (simp add: algebra_simps)
  show "0 \<le> a * m + b" using assms by simp
qed

lemma split6:
  fixes x y m :: int
  assumes "0 \<le> y" "y < m"
  shows "(x * m + y) div m = x" "(x * m + y) mod m = y"
  using assms by (simp_all add: div_pos_pos_trivial mod_pos_pos_trivial)

lemma octet_div:
  assumes "0 \<le> (b :: int)" "b < 256"
  shows "0 \<le> b div 16" "b div 16 < 16" "0 \<le> b div 64" "b div 64 < 4" "0 \<le> b div 4" "b div 4 < 64"
  using assms by auto

lemma sextets_range:
  assumes "is_octets us" shows "\<forall>k\<in>set (sextets us). 0 \<le> k \<and> k < 64"
  using assms
proof (induction us rule: sextets.induct)
  case (4 a b c rest)
  have "0 \<le> a mod 4 * 16 + b div 16" "a mod 4 * 16 + b div 16 < 4 * 16"
    by (rule join6 [of "a mod 4" 4]; use 4(2) octet_div [of b] in simp)+
  moreover have "0 \<le> b mod 16 * 4 + c div 64" "b mod 16 * 4 + c div 64 < 16 * 4"
    by (rule join6 [of "b mod 16" 16]; use 4(2) octet_div [of c] in simp)+
  ultimately show ?case using 4 by auto
next
  case (3 a b)
  have "0 \<le> a mod 4 * 16 + b div 16" "a mod 4 * 16 + b div 16 < 4 * 16"
    by (rule join6 [of "a mod 4" 4]; use 3 octet_div [of b] in simp)+
  moreover have "0 \<le> b mod 16 * 4" "b mod 16 * 4 < 64"
    using pos_mod_bound [of 16 b] pos_mod_sign [of 16 b] by auto
  ultimately show ?case using 3 by auto
qed auto

lemma octet_joins:
  assumes "0 \<le> (a :: int)" "a < 256" "0 \<le> b" "b < 256"
  shows "a div 4 * 4 + (a mod 4 * 16 + b div 16) div 16 = a"
    and "(a mod 4 * 16 + b div 16) mod 16 = b div 16"
    and "(a mod 16 * 4 + b div 64) div 4 = a mod 16"
    and "(a mod 16 * 4 + b div 64) mod 4 = b div 64"
  using octet_div [OF assms(3,4)] by (simp_all only: split6 div_mult_mod_eq)

lemma decode_sextets: "is_octets us \<Longrightarrow> b64_decode (sextets us) = us"
proof (induction us rule: sextets.induct)
  case (4 a b c rest)
  then show ?case
    using octet_joins [of a b] octet_joins [of b c]
    by (simp only: sextets.simps b64_decode.simps is_octets_simps div_mult_mod_eq)
next
  case (3 a b)
  have "b mod 16 * 4 div 4 = b mod 16" by simp
  with 3 show ?case
    using octet_joins [of a b]
    by (simp only: sextets.simps b64_decode.simps is_octets_simps div_mult_mod_eq)
next
  case (2 a)
  have "a mod 4 * 16 div 16 = a mod 4" by simp
  then show ?case by (simp only: sextets.simps b64_decode.simps div_mult_mod_eq)
qed simp

lemma pads_length: "(length (sextets us) + pads us) mod 4 = 0"
proof (induction us rule: pads.induct)
  case (4 a b c rest)
  then show ?case unfolding sextets.simps pads.simps list.size by presburger
qed simp_all

lemma pads_le: "pads us \<le> 2"
  by (induction us rule: pads.induct) simp_all

lemma length_sextets_mod: "length (sextets us) mod 4 \<noteq> 1"
proof (induction us rule: pads.induct)
  case (4 a b c rest)
  then show ?case unfolding sextets.simps list.size by presburger
qed simp_all

lemma drop_pad_encode:
  assumes "is_octets us"
  shows "drop_pad (b64_encode us) = map b64_char (sextets us)"
proof -
  have ne: "\<not> (sextets us \<noteq> [] \<and> last (map b64_char (sextets us)) = CHR ''='')"
    using sextets_range [OF assms] b64_char_plain last_in_set [of "sextets us"]
    by (cases "sextets us = []") (auto simp: last_map)
  have "pads us = 0 \<or> pads us = 1 \<or> pads us = 2" using pads_le [of us] by auto
  then show ?thesis using ne pads_length [of us]
    by (auto simp: encode_sextets drop_pad_def butlast_append numeral_2_eq_2 Let_def)
qed

lemma atob_encode:
  assumes "is_octets us"
  shows "atob (b64_encode us) = Inr us"
proof -
  have r: "\<forall>k\<in>set (sextets us). 0 \<le> k \<and> k < 64" by (rule sextets_range [OF assms])
  have "\<forall>c\<in>set (b64_encode us). \<not> is_b64_space c"
    using r b64_char_plain by (auto simp: encode_sextets) (auto simp: is_b64_space_def code_of_def)
  then have f: "filter (\<lambda>c. \<not> is_b64_space c) (b64_encode us) = b64_encode us"
    by (simp add: filter_id_conv)
  have "map (\<lambda>c. orElse (b64_val c) 0) (map b64_char (sextets us)) = sextets us"
    using r by (intro nth_equalityI) auto
  moreover have "\<forall>c\<in>set (map b64_char (sextets us)). b64_val c \<noteq> None" using r by auto
  ultimately show ?thesis
    using length_sextets_mod [of us]
    by (auto simp: atob_def f drop_pad_encode [OF assms] decode_sextets [OF assms] Let_def)
qed

lemma uint8_octets: "is_octets (map uint (bs :: bytes))"
  using uint_range_size [of "_ :: 8 word"] by (auto simp: is_octets_def word_size)

lemma bytesToBase64_Inr: "bytesToBase64 bs = Inr (b64_encode (map uint bs))"
  using uint8_octets [of bs] by (auto simp: bytesToBase64_def btoa_def is_octets_def)

lemma base64_roundtrip: "bindR (bytesToBase64 bs) base64ToBytes = Inr bs"
  by (simp add: bytesToBase64_Inr base64ToBytes_def atob_encode uint8_octets o_def)

end
