(* ===== verification/Send.thy ===== *)
theory Send
  imports PackTx Base64
begin

text \<open>
  \<open>app/src/market/data/send.ts\<close>: decoding a program error for the user, signing and relaying
  a transaction through the indexer, and the confirmation poll.  The wallet is the parameter
  \<open>signTransaction\<close>, from the unsigned transaction to the serialized signed one.
\<close>

subsection \<open>Errors\<close>

text \<open>\<open>errMsg\<close>: the message of a thrown error object.\<close>

fun errMsg :: "js_error \<Rightarrow> string" where
  "errMsg (Error m) = m"
| "errMsg (RangeError m) = m"
| "errMsg (ValidationError m) = m"
| "errMsg (MarketNotFoundError m) = m"
| "errMsg (IndexerTxError m logs) = m"
| "errMsg (WalletError n m code logs) = m"
| "errMsg (SendError m sig logs c) = m"

text \<open>\<open>extractLogs\<close>: the \<open>logs\<close> property, when it is an array.\<close>

fun extractLogs :: "js_error \<Rightarrow> string list option" where
  "extractLogs (IndexerTxError m logs) = logs"
| "extractLogs (WalletError n m code logs) = logs"
| "extractLogs (SendError m sig logs c) = logs"
| "extractLogs e = None"

subsection \<open>humanizeProgramError\<close>

text \<open>The first match of a matcher that looks at a suffix: \<open>RegExp.exec\<close> without anchors.\<close>

fun exec_first :: "(string \<Rightarrow> 'a option) \<Rightarrow> string \<Rightarrow> 'a option" where
  "exec_first m [] = m []"
| "exec_first m (c # s) = (case m (c # s) of Some r \<Rightarrow> Some r | None \<Rightarrow> exec_first m s)"

text \<open>\<open>/custom program error:\s*0x([0-9a-fA-F]+)/i\<close> at the start of a string.\<close>

definition customHexAt :: "string \<Rightarrow> string option" where
  "customHexAt s =
     (let k = ''custom program error:'' in
      if starts_with k (toLowerCase s) then
        (let t = dropWhile is_space (drop (length k) s) in
         if starts_with ''0x'' (toLowerCase t) then
           (let h = takeWhile (is_base_digit 16) (drop 2 t) in if h = [] then None else Some h)
         else None)
      else None)"

text \<open>\<open>/"Custom"\s*:\s*(\d+)/\<close> at the start of a string.\<close>

definition customJsonAt :: "string \<Rightarrow> string option" where
  "customJsonAt s =
     (let k = CHR 0x22 # ''Custom'' @ [CHR 0x22] in
      if starts_with k s then
        (let t = dropWhile is_space (drop (length k) s) in
         if t \<noteq> [] \<and> hd t = CHR '':'' then
           (let d = takeWhile is_digit (dropWhile is_space (tl t)) in if d = [] then None else Some d)
         else None)
      else None)"

definition isScopedLog :: "web3 \<Rightarrow> string \<Rightarrow> bool" where
  "isScopedLog W l \<longleftrightarrow>
     str_includes l (toBase58 W (MARKET_PROGRAM_ID W)) \<and> exec_first customHexAt l \<noteq> None"

definition errorCode :: "web3 \<Rightarrow> string \<Rightarrow> string list option \<Rightarrow> int option" where
  "errorCode W msg logs =
     (let scoped = find_first (isScopedLog W) (orElse logs []);
          code = (case scoped of
                    Some l \<Rightarrow> map_option (num_val 16) (exec_first customHexAt l)
                  | None \<Rightarrow> None)
      in case code of
           Some c \<Rightarrow> Some c
         | None \<Rightarrow> map_option dec_val (exec_first customJsonAt msg))"

definition humanizeProgramError :: "web3 \<Rightarrow> string \<Rightarrow> string list option \<Rightarrow> string option" where
  "humanizeProgramError W msg logs =
     (case errorCode W msg logs of
        None \<Rightarrow> None
      | Some code \<Rightarrow> map_option MARKET_ERROR_MESSAGES (decodeError code))"

subsection \<open>Signing and relaying\<close>

record Transaction =
  tr_feePayer :: address
  tr_recentBlockhash :: string
  tr_instructions :: "instruction list"

type_synonym SignTransaction = "Transaction \<Rightarrow> bytes res"
type_synonym TxSender = "instruction list \<Rightarrow> string res"

definition buildUnsignedTx :: "address \<Rightarrow> string \<Rightarrow> instruction list \<Rightarrow> Transaction" where
  "buildUnsignedTx feePayer blockhash ixs =
     \<lparr>tr_feePayer = feePayer, tr_recentBlockhash = blockhash, tr_instructions = ixs\<rparr>"

definition signAndRelay :: "IndexerReads \<Rightarrow> address \<Rightarrow> SignTransaction \<Rightarrow> TxSender" where
  "signAndRelay indexer feePayer signTransaction ixs =
     bindR (api_getBlockhash indexer) (\<lambda>blockhash.
     bindR (signTransaction (buildUnsignedTx feePayer blockhash ixs)) (\<lambda>signed.
     bindR (bytesToBase64 signed) (api_sendTransaction indexer)))"

definition keypairSender :: "IndexerReads \<Rightarrow> address \<Rightarrow> SignTransaction \<Rightarrow> TxSender" where
  "keypairSender indexer publicKey sign ixs = signAndRelay indexer publicKey sign ixs"

subsection \<open>Confirmation\<close>

text \<open>
  The poll loop.  \<open>lag k\<close> is the time in ms that round \<open>k\<close> takes beyond its \<open>sleep(150)\<close>
  (the request itself, and scheduling), and \<open>elapsed\<close> is \<open>Date.now()\<close> less the start.
  The indexer's answer may change from one poll to the next.
\<close>

definition POLL_MS :: int where
  "POLL_MS = 150"

definition truthy :: "string option \<Rightarrow> bool" where
  "truthy s \<longleftrightarrow> s \<noteq> None \<and> s \<noteq> Some []"

definition txFailure :: "web3 \<Rightarrow> string \<Rightarrow> string option \<Rightarrow> js_error" where
  "txFailure W signature err =
     (let raw = orElse err ''unknown error'';
          human = humanizeProgramError W raw None
      in Error (''tx '' @ signature @ '' failed: '' @ orElse human raw))"

definition txTimeout :: "string \<Rightarrow> int \<Rightarrow> js_error" where
  "txTimeout signature timeoutMs =
     Error (''tx '' @ signature @ '' not confirmed within '' @ show_int timeoutMs @ ''ms'')"

function confirmLoop ::
  "web3 \<Rightarrow> IndexerReads \<Rightarrow> string \<Rightarrow> int \<Rightarrow> (nat \<Rightarrow> nat) \<Rightarrow> nat \<Rightarrow> int \<Rightarrow> unit res" where
  "confirmLoop W indexer signature timeoutMs lag k elapsed =
     (if elapsed < timeoutMs then
        bindR (api_getSignatureStatus indexer signature k) (\<lambda>st.
          if ss_status st = Failed \<or> truthy (ss_err st)
          then Inl (txFailure W signature (ss_err st))
          else if ss_status st = Confirmed \<or> ss_status st = Finalized then Inr ()
          else confirmLoop W indexer signature timeoutMs lag (Suc k) (elapsed + POLL_MS + int (lag k)))
      else Inl (txTimeout signature timeoutMs))"
  by auto
termination
  by (relation "measure (\<lambda>(_, _, _, timeoutMs, _, _, elapsed). nat (timeoutMs - elapsed))")
     (auto simp: POLL_MS_def)

declare confirmLoop.simps [simp del]

definition confirmSignature ::
  "web3 \<Rightarrow> IndexerReads \<Rightarrow> (nat \<Rightarrow> nat) \<Rightarrow> string \<Rightarrow> int option \<Rightarrow> unit res" where
  "confirmSignature W indexer lag signature timeoutMs =
     confirmLoop W indexer signature (orElse timeoutMs 30000) lag 0 0"

definition relayAndConfirm ::
  "web3 \<Rightarrow> IndexerReads \<Rightarrow> (nat \<Rightarrow> nat) \<Rightarrow> string res \<Rightarrow> string res" where
  "relayAndConfirm W indexer lag relay =
     (case relay of
        Inl e \<Rightarrow>
          (let logs = extractLogs e;
               human = humanizeProgramError W (errMsg e) logs
           in Inl (SendError
                (case human of
                   Some h \<Rightarrow> ''Transaction failed: '' @ h
                 | None \<Rightarrow> ''Transaction send failed: '' @ errMsg e) None logs e))
      | Inr signature \<Rightarrow>
          (case confirmSignature W indexer lag signature None of
             Inl e \<Rightarrow> Inl (SendError
               (''Transaction '' @ signature @ '' failed to confirm: '' @ errMsg e)
               (Some signature) (extractLogs e) e)
           | Inr _ \<Rightarrow> Inr signature))"

definition sendAndConfirm ::
  "web3 \<Rightarrow> IndexerReads \<Rightarrow> (nat \<Rightarrow> nat) \<Rightarrow> TxSender \<Rightarrow> instruction list \<Rightarrow> string res" where
  "sendAndConfirm W indexer lag sender ixs = relayAndConfirm W indexer lag (sender ixs)"

definition sendSignedAndConfirm ::
  "web3 \<Rightarrow> IndexerReads \<Rightarrow> (nat \<Rightarrow> nat) \<Rightarrow> bytes \<Rightarrow> string res" where
  "sendSignedAndConfirm W indexer lag serialized =
     relayAndConfirm W indexer lag (bindR (bytesToBase64 serialized) (api_sendTransaction indexer))"

subsection \<open>The poll\<close>

text \<open>The start of round \<open>k\<close>, in ms after the first reading of the clock.\<close>

fun pollTime :: "(nat \<Rightarrow> nat) \<Rightarrow> nat \<Rightarrow> int" where
  "pollTime lag 0 = 0"
| "pollTime lag (Suc k) = pollTime lag k + POLL_MS + int (lag k)"

definition undecided :: "SignatureStatus \<Rightarrow> bool" where
  "undecided st \<longleftrightarrow> \<not> truthy (ss_err st) \<and> (ss_status st = Processed \<or> ss_status st = Pending)"

definition landed :: "SignatureStatus \<Rightarrow> bool" where
  "landed st \<longleftrightarrow> \<not> truthy (ss_err st) \<and> (ss_status st = Confirmed \<or> ss_status st = Finalized)"

definition rejected :: "SignatureStatus \<Rightarrow> bool" where
  "rejected st \<longleftrightarrow> ss_status st = Failed \<or> truthy (ss_err st)"

text \<open>The rounds before \<open>k\<close> all started in time and decided nothing.\<close>

definition waited ::
  "IndexerReads \<Rightarrow> string \<Rightarrow> int \<Rightarrow> (nat \<Rightarrow> nat) \<Rightarrow> nat \<Rightarrow> bool" where
  "waited indexer signature timeoutMs lag k \<longleftrightarrow>
     (\<forall>j<k. pollTime lag j < timeoutMs \<and>
        (\<exists>st. api_getSignatureStatus indexer signature j = Inr st \<and> undecided st))"

lemma pollTime_ge: "150 * int k \<le> pollTime lag k"
  by (induction k) (simp_all add: POLL_MS_def)

lemma status_cases: "undecided st \<or> landed st \<or> rejected st"
  by (cases "ss_status st") (auto simp: undecided_def landed_def rejected_def)

lemma confirmLoop_cases:
  "\<not> pollTime lag k < timeoutMs \<Longrightarrow>
     confirmLoop W indexer s timeoutMs lag k (pollTime lag k) = Inl (txTimeout s timeoutMs)"
  "pollTime lag k < timeoutMs \<Longrightarrow> api_getSignatureStatus indexer s k = Inl e \<Longrightarrow>
     confirmLoop W indexer s timeoutMs lag k (pollTime lag k) = Inl e"
  "pollTime lag k < timeoutMs \<Longrightarrow> api_getSignatureStatus indexer s k = Inr st \<Longrightarrow> rejected st \<Longrightarrow>
     confirmLoop W indexer s timeoutMs lag k (pollTime lag k) = Inl (txFailure W s (ss_err st))"
  "pollTime lag k < timeoutMs \<Longrightarrow> api_getSignatureStatus indexer s k = Inr st \<Longrightarrow> landed st \<Longrightarrow>
     confirmLoop W indexer s timeoutMs lag k (pollTime lag k) = Inr ()"
  "pollTime lag k < timeoutMs \<Longrightarrow> api_getSignatureStatus indexer s k = Inr st \<Longrightarrow> undecided st \<Longrightarrow>
     confirmLoop W indexer s timeoutMs lag k (pollTime lag k) =
     confirmLoop W indexer s timeoutMs lag (Suc k) (pollTime lag (Suc k))"
  by (subst confirmLoop.simps; auto simp: rejected_def landed_def undecided_def)+

lemma confirmLoop_waited:
  "waited indexer s timeoutMs lag k \<Longrightarrow>
     confirmLoop W indexer s timeoutMs lag 0 0 = confirmLoop W indexer s timeoutMs lag k (pollTime lag k)"
proof (induction k)
  case 0
  then show ?case by simp
next
  case (Suc k)
  have w: "waited indexer s timeoutMs lag k" using Suc.prems by (auto simp: waited_def)
  obtain st where "pollTime lag k < timeoutMs" "api_getSignatureStatus indexer s k = Inr st" "undecided st"
    using Suc.prems by (auto simp: waited_def)
  then show ?case using Suc.IH [OF w] confirmLoop_cases(5) by simp
qed

text \<open>Some round is the last one.\<close>

lemma waited_stops:
  "\<exists>k. waited indexer s timeoutMs lag k \<and> \<not> waited indexer s timeoutMs lag (Suc k)"
proof -
  have "\<not> waited indexer s timeoutMs lag (Suc (nat timeoutMs))"
    using pollTime_ge [of "nat timeoutMs" lag] by (cases "0 \<le> timeoutMs") (auto simp: waited_def intro!: exI [of _ "nat timeoutMs"])
  moreover have "waited indexer s timeoutMs lag n"
    if "\<forall>k. waited indexer s timeoutMs lag k \<longrightarrow> waited indexer s timeoutMs lag (Suc k)" for n
  proof (induction n)
    case 0
    show ?case by (simp add: waited_def)
  next
    case (Suc n)
    then show ?case using that by blast
  qed
  ultimately show ?thesis by blast
qed

lemma confirmLoop_result:
  obtains k where "waited indexer s timeoutMs lag k"
    and "pollTime lag k \<ge> timeoutMs \<and> confirmLoop W indexer s timeoutMs lag 0 0 = Inl (txTimeout s timeoutMs)
     \<or> pollTime lag k < timeoutMs \<and>
        ((\<exists>e. api_getSignatureStatus indexer s k = Inl e \<and> confirmLoop W indexer s timeoutMs lag 0 0 = Inl e) \<or>
         (\<exists>st. api_getSignatureStatus indexer s k = Inr st \<and> rejected st \<and>
            confirmLoop W indexer s timeoutMs lag 0 0 = Inl (txFailure W s (ss_err st))) \<or>
         (\<exists>st. api_getSignatureStatus indexer s k = Inr st \<and> landed st \<and>
            confirmLoop W indexer s timeoutMs lag 0 0 = Inr ()))"
proof -
  obtain k where w: "waited indexer s timeoutMs lag k" and n: "\<not> waited indexer s timeoutMs lag (Suc k)"
    using waited_stops by blast
  note l = confirmLoop_waited [OF w, of W]
  show ?thesis
  proof (cases "pollTime lag k < timeoutMs")
    case False
    then show ?thesis using that [OF w] confirmLoop_cases(1) [OF False] l by simp
  next
    case True
    show ?thesis
    proof (cases "api_getSignatureStatus indexer s k")
      case (Inl e)
      then show ?thesis using that [OF w] confirmLoop_cases(2) [OF True Inl] l True by simp
    next
      case (Inr st)
      have "\<not> undecided st" using n w True Inr by (auto simp: waited_def less_Suc_eq)
      then have "rejected st \<or> landed st" using status_cases by blast
      then show ?thesis
        using that [OF w] confirmLoop_cases(3,4) [OF True Inr] l True Inr by auto
    qed
  qed
qed

lemma confirm_Inr_iff:
  "confirmSignature W indexer lag s t = Inr () \<longleftrightarrow>
     (\<exists>k st. waited indexer s (orElse t 30000) lag k \<and> pollTime lag k < orElse t 30000 \<and>
        api_getSignatureStatus indexer s k = Inr st \<and> landed st)"
proof
  assume "confirmSignature W indexer lag s t = Inr ()"
  then show "\<exists>k st. waited indexer s (orElse t 30000) lag k \<and> pollTime lag k < orElse t 30000 \<and>
        api_getSignatureStatus indexer s k = Inr st \<and> landed st"
    by (rule_tac confirmLoop_result [of indexer s "orElse t 30000" lag W])
       (auto simp: confirmSignature_def)
next
  assume "\<exists>k st. waited indexer s (orElse t 30000) lag k \<and> pollTime lag k < orElse t 30000 \<and>
        api_getSignatureStatus indexer s k = Inr st \<and> landed st"
  then show "confirmSignature W indexer lag s t = Inr ()"
    using confirmLoop_waited confirmLoop_cases(4) by (fastforce simp: confirmSignature_def)
qed

text \<open>A signature whose every poll is undecided times out, and within 200 rounds.\<close>

lemma confirm_timeout:
  assumes "\<forall>k. \<exists>st. api_getSignatureStatus indexer s k = Inr st \<and> undecided st"
  shows "confirmSignature W indexer lag s t = Inl (txTimeout s (orElse t 30000))"
proof (rule confirmLoop_result [of indexer s "orElse t 30000" lag W])
  fix k
  obtain st where "api_getSignatureStatus indexer s k = Inr st" "undecided st" using assms by blast
  moreover have "\<not> (undecided st \<and> rejected st)" "\<not> (undecided st \<and> landed st)"
    by (auto simp: undecided_def rejected_def landed_def)
  moreover assume "pollTime lag k \<ge> orElse t 30000 \<and>
       confirmLoop W indexer s (orElse t 30000) lag 0 0 = Inl (txTimeout s (orElse t 30000))
     \<or> pollTime lag k < orElse t 30000 \<and>
        ((\<exists>e. api_getSignatureStatus indexer s k = Inl e \<and> confirmLoop W indexer s (orElse t 30000) lag 0 0 = Inl e) \<or>
         (\<exists>st. api_getSignatureStatus indexer s k = Inr st \<and> rejected st \<and>
            confirmLoop W indexer s (orElse t 30000) lag 0 0 = Inl (txFailure W s (ss_err st))) \<or>
         (\<exists>st. api_getSignatureStatus indexer s k = Inr st \<and> landed st \<and>
            confirmLoop W indexer s (orElse t 30000) lag 0 0 = Inr ()))"
  ultimately show ?thesis by (auto simp: confirmSignature_def)
qed

lemma waited_rounds: "waited indexer s 30000 lag k \<Longrightarrow> k \<le> 200"
  using pollTime_ge [of "k - 1" lag] by (cases k) (auto simp: waited_def)

subsection \<open>Errors of the send path\<close>

lemma relayAndConfirm_Inr_iff:
  "relayAndConfirm W indexer lag relay = Inr s \<longleftrightarrow>
     relay = Inr s \<and> confirmSignature W indexer lag s None = Inr ()"
  by (auto simp: relayAndConfirm_def Let_def split: sum.splits)

text \<open>Every failure is a \<open>SendError\<close>; it carries the signature exactly when the relay succeeded.\<close>

lemma relayAndConfirm_Inl:
  assumes "relayAndConfirm W indexer lag relay = Inl e"
  shows "\<exists>m sig logs c. e = SendError m sig logs c \<and> logs = extractLogs c \<and>
     (sig = None \<longleftrightarrow> relay = Inl c) \<and>
     (\<forall>s. sig = Some s \<longrightarrow> relay = Inr s \<and> confirmSignature W indexer lag s None = Inl c)"
  using assms by (auto simp: relayAndConfirm_def Let_def split: sum.splits)

lemma humanize_Some:
  assumes "humanizeProgramError W msg logs = Some m"
  shows "\<exists>code err. errorCode W msg logs = Some code \<and> decodeError code = Some err \<and>
    m = MARKET_ERROR_MESSAGES err"
  using assms by (auto simp: humanizeProgramError_def split: option.splits)

text \<open>A log line of another program never decides the code.\<close>

lemma errorCode_unscoped:
  "\<forall>l\<in>set (orElse logs []). \<not> str_includes l (toBase58 W (MARKET_PROGRAM_ID W)) \<Longrightarrow>
     errorCode W msg logs = map_option dec_val (exec_first customJsonAt msg)"
  using find_first_None [of "isScopedLog W" "orElse logs []"]
  by (simp add: errorCode_def isScopedLog_def)

lemma errorCode_scoped:
  assumes "find_first (isScopedLog W) (orElse logs []) = Some l"
  shows "\<exists>h. exec_first customHexAt l = Some h \<and> errorCode W msg logs = Some (num_val 16 h)"
proof -
  have "isScopedLog W l" using find_first_Some [OF assms] by blast
  then show ?thesis using assms by (auto simp: errorCode_def isScopedLog_def)
qed

end
