(* ===== verification/WriteAction.thy ===== *)
theory WriteAction
  imports Send
begin

text \<open>
  \<open>app/src/market/data/writeAction.ts\<close>: the write-action state machine.  \<open>setStatus\<close> is
  observed as the trace of statuses that it is called with.
\<close>

datatype WriteStatus =
    WIdle
  | WBuilding
  | WSigning
  | WConfirming
  | WSuccess string
  | WError string "string list option"

definition isBusy :: "WriteStatus \<Rightarrow> bool" where
  "isBusy s \<longleftrightarrow> s = WBuilding \<or> s = WSigning \<or> s = WConfirming"

subsection \<open>User rejection\<close>

text \<open>The \<open>name\<close> and \<open>code\<close> properties of a thrown error object.\<close>

fun errName :: "js_error \<Rightarrow> string" where
  "errName (Error m) = ''Error''"
| "errName (RangeError m) = ''RangeError''"
| "errName (ValidationError m) = ''ValidationError''"
| "errName (MarketNotFoundError m) = ''MarketNotFoundError''"
| "errName (IndexerTxError m logs) = ''IndexerTxError''"
| "errName (WalletError n m code logs) = n"
| "errName (SendError m sig logs c) = ''SendError''"

fun errCode :: "js_error \<Rightarrow> int option" where
  "errCode (WalletError n m code logs) = code"
| "errCode e = None"

text \<open>\<open>\b\<close>: a word character on exactly one side.\<close>

definition is_word_char :: "char \<Rightarrow> bool" where
  "is_word_char c =
     (let n = code_of c in 48 \<le> n \<and> n \<le> 57 \<or> 65 \<le> n \<and> n \<le> 90 \<or> 97 \<le> n \<and> n \<le> 122 \<or> n = 95)"

text \<open>
  \<open>/\bphrase\b/.test\<close> for a phrase that starts and ends with a word character; \<open>prev\<close> tells
  whether the character before the string is a word character.
\<close>

fun has_phrase_from :: "string \<Rightarrow> bool \<Rightarrow> string \<Rightarrow> bool" where
  "has_phrase_from phrase prev [] \<longleftrightarrow> False"
| "has_phrase_from phrase prev (c # s) \<longleftrightarrow>
     \<not> prev \<and> starts_with phrase (c # s) \<and>
       (let r = drop (length phrase) (c # s) in r = [] \<or> \<not> is_word_char (hd r))
     \<or> has_phrase_from phrase (is_word_char c) s"

definition has_phrase :: "string \<Rightarrow> string \<Rightarrow> bool" where
  "has_phrase s phrase \<longleftrightarrow> has_phrase_from phrase False s"

definition rejection_phrases :: "string list" where
  "rejection_phrases =
     [''user rejected'', ''user declined'', ''user denied'', ''user cancelled'', ''user canceled'',
      ''rejected the request'', ''declined the request'',
      ''request rejected'', ''request declined'', ''request denied'',
      ''request was rejected'', ''request was declined'', ''request was denied'']"

definition isUserRejection :: "js_error \<Rightarrow> bool" where
  "isUserRejection err =
     (let e = (case err of SendError m sig logs c \<Rightarrow> c | _ \<Rightarrow> err) in
      if errCode e = Some 4001 then True
      else if errName e = ''WalletSignTransactionError'' \<or> errName e = ''WalletSendTransactionError''
      then True
      else (let msg = toLowerCase (errMsg e) in \<exists>p\<in>set rejection_phrases. has_phrase msg p))"

definition mapWriteError :: "js_error \<Rightarrow> string \<times> string list option" where
  "mapWriteError err =
     (case err of
        ValidationError m \<Rightarrow> (m, None)
      | _ \<Rightarrow>
          if isUserRejection err then (''Transaction rejected in wallet.'', None)
          else (case err of
                  SendError m sig logs c \<Rightarrow> (m, logs)
                | _ \<Rightarrow> (errMsg err, None)))"

subsection \<open>runWriteAction\<close>

text \<open>
  \<open>onSuccess\<close> is absent or a callback that may throw.  The result is the trace of
  \<open>setStatus\<close> and the returned status.
\<close>

definition failed_with :: "js_error \<Rightarrow> WriteStatus" where
  "failed_with e = (let (m, logs) = mapWriteError e in WError m logs)"

definition runWriteAction ::
  "web3 \<Rightarrow> IndexerReads \<Rightarrow> (nat \<Rightarrow> nat) \<Rightarrow> instruction list res \<Rightarrow> TxSender \<Rightarrow>
   (string \<Rightarrow> unit res) option \<Rightarrow> WriteStatus list \<times> WriteStatus" where
  "runWriteAction W indexer lag build walletSender onSuccess =
     (case build of
        Inl e \<Rightarrow> ([WBuilding, failed_with e], failed_with e)
      | Inr ixs \<Rightarrow>
          (let sent = walletSender ixs;
               pre = [WBuilding, WSigning] @ (if okR sent then [WConfirming] else [])
           in case sendAndConfirm W indexer lag walletSender ixs of
                Inl e \<Rightarrow> (pre @ [failed_with e], failed_with e)
              | Inr signature \<Rightarrow>
                  (case orElse onSuccess (\<lambda>_. Inr ()) signature of
                     Inl e \<Rightarrow> (pre @ [WSuccess signature, failed_with e], failed_with e)
                   | Inr _ \<Rightarrow> (pre @ [WSuccess signature], WSuccess signature))))"

subsection \<open>Properties\<close>

text \<open>The phrase search is the existence of an occurrence between word boundaries.\<close>

definition word_before :: "bool \<Rightarrow> string \<Rightarrow> bool" where
  "word_before prev us \<longleftrightarrow> (if us = [] then prev else is_word_char (last us))"

definition word_after :: "string \<Rightarrow> bool" where
  "word_after vs \<longleftrightarrow> vs \<noteq> [] \<and> is_word_char (hd vs)"

lemma has_phrase_from_iff:
  "phrase \<noteq> [] \<Longrightarrow> has_phrase_from phrase prev s \<longleftrightarrow>
     (\<exists>us vs. s = us @ phrase @ vs \<and> \<not> word_before prev us \<and> \<not> word_after vs)"
proof (induction s arbitrary: prev)
  case Nil
  then show ?case by simp
next
  case (Cons c s)
  let ?R = "\<lambda>prev s. \<exists>us vs. s = us @ phrase @ vs \<and> \<not> word_before prev us \<and> \<not> word_after vs"
  have here: "(\<exists>vs. c # s = phrase @ vs \<and> \<not> prev \<and> \<not> word_after vs) \<longleftrightarrow>
      \<not> prev \<and> starts_with phrase (c # s) \<and>
       (let r = drop (length phrase) (c # s) in r = [] \<or> \<not> is_word_char (hd r))"
    by (auto simp: starts_with_iff word_after_def Let_def simp del: drop_Cons' drop_eq_Nil)
  have "?R prev (c # s) \<longleftrightarrow> (\<exists>vs. c # s = phrase @ vs \<and> \<not> prev \<and> \<not> word_after vs) \<or>
      ?R (is_word_char c) s"
  proof
    assume "?R prev (c # s)"
    then obtain us vs where u: "c # s = us @ phrase @ vs" "\<not> word_before prev us" "\<not> word_after vs"
      by blast
    show "(\<exists>vs. c # s = phrase @ vs \<and> \<not> prev \<and> \<not> word_after vs) \<or> ?R (is_word_char c) s"
    proof (cases us)
      case Nil
      then show ?thesis using u by (auto simp: word_before_def)
    next
      case (Cons d us')
      then have "s = us' @ phrase @ vs \<and> \<not> word_before (is_word_char c) us'"
        using u by (cases us') (auto simp: word_before_def)
      then show ?thesis using u(3) by blast
    qed
  next
    assume "(\<exists>vs. c # s = phrase @ vs \<and> \<not> prev \<and> \<not> word_after vs) \<or> ?R (is_word_char c) s"
    then show "?R prev (c # s)"
    proof
      assume "\<exists>vs. c # s = phrase @ vs \<and> \<not> prev \<and> \<not> word_after vs"
      then obtain vs where "c # s = [] @ phrase @ vs" "\<not> word_before prev []" "\<not> word_after vs"
        by (auto simp: word_before_def)
      then show ?thesis by blast
    next
      assume "?R (is_word_char c) s"
      then obtain us vs where u: "s = us @ phrase @ vs" "\<not> word_before (is_word_char c) us" "\<not> word_after vs"
        by blast
      then have "c # s = (c # us) @ phrase @ vs \<and> \<not> word_before prev (c # us)"
        by (cases us) (auto simp: word_before_def)
      then show ?thesis using u(3) by blast
    qed
  qed
  then show ?case using here Cons by (simp only: has_phrase_from.simps) blast
qed

lemma mapWriteError_cases:
  "mapWriteError (ValidationError m) = (m, None)"
  "isUserRejection (SendError m sig logs c) \<Longrightarrow>
     mapWriteError (SendError m sig logs c) = (''Transaction rejected in wallet.'', None)"
  "\<not> isUserRejection (SendError m sig logs c) \<Longrightarrow> mapWriteError (SendError m sig logs c) = (m, logs)"
  by (simp_all add: mapWriteError_def)

text \<open>The trace is one of the paths of the state machine, and ends in the returned status.\<close>

definition write_path :: "WriteStatus list \<Rightarrow> bool" where
  "write_path t \<longleftrightarrow>
     (\<exists>m logs. t = [WBuilding, WError m logs] \<or> t = [WBuilding, WSigning, WError m logs] \<or>
        t = [WBuilding, WSigning, WConfirming, WError m logs]) \<or>
     (\<exists>sig. t = [WBuilding, WSigning, WConfirming, WSuccess sig]) \<or>
     (\<exists>sig m logs. t = [WBuilding, WSigning, WConfirming, WSuccess sig, WError m logs])"

lemma sendAndConfirm_sent: "sendAndConfirm W indexer lag sender ixs = Inr s \<Longrightarrow> sender ixs = Inr s"
  by (simp add: sendAndConfirm_def relayAndConfirm_Inr_iff)

lemma runWriteAction_path:
  "write_path (fst (runWriteAction W indexer lag build walletSender onSuccess)) \<and>
   last (fst (runWriteAction W indexer lag build walletSender onSuccess)) =
     snd (runWriteAction W indexer lag build walletSender onSuccess)"
  using sendAndConfirm_sent [of W indexer lag walletSender]
  by (fastforce simp: runWriteAction_def write_path_def failed_with_def Let_def okR_def
        split: sum.splits prod.splits)

lemma runWriteAction_success:
  "WSuccess s \<in> set (fst (runWriteAction W indexer lag build walletSender onSuccess)) \<longleftrightarrow>
     (\<exists>ixs. build = Inr ixs \<and> walletSender ixs = Inr s \<and>
        confirmSignature W indexer lag s None = Inr ())"
proof (cases build)
  case (Inl e)
  then show ?thesis by (auto simp: runWriteAction_def failed_with_def Let_def split: prod.splits)
next
  case (Inr ixs)
  show ?thesis
  proof (cases "sendAndConfirm W indexer lag walletSender ixs")
    case (Inl e)
    then have "\<not> (walletSender ixs = Inr s \<and> confirmSignature W indexer lag s None = Inr ())"
      using relayAndConfirm_Inr_iff [of W indexer lag "walletSender ixs" s] by (simp add: sendAndConfirm_def)
    with Inl Inr show ?thesis
      by (auto simp: runWriteAction_def failed_with_def Let_def split: prod.splits)
  next
    case sent: (Inr t)
    then have "walletSender ixs = Inr t \<and> confirmSignature W indexer lag t None = Inr ()"
      by (simp add: sendAndConfirm_def relayAndConfirm_Inr_iff)
    with sent Inr show ?thesis
      by (auto simp: runWriteAction_def failed_with_def Let_def split: prod.splits sum.splits)
  qed
qed

end
