(* ===== verification/Sequence.thy ===== *)
theory Sequence
  imports WriteAction
begin

text \<open>
  \<open>app/src/market/hooks/useActionSequence.ts\<close>: the driver of a staged sequence of
  transactions.  The React state \<open>statuses\<close> is passed explicitly; the wallet is a record of
  what wallet-adapter exposes.  \<open>idx b\<close> is the indexer as it answers while batch \<open>b\<close> is
  sent (\<open>idx 0\<close>: before any), and \<open>lag b\<close> the delays of that batch's confirmation.
\<close>

definition MAX_BATCH_SIGN_TXS :: nat where
  "MAX_BATCH_SIGN_TXS = 3"

datatype StepStatus =
    SPending
  | SRunning
  | SDone string
  | SError string "string list option"

definition is_done :: "StepStatus \<Rightarrow> bool" where
  "is_done s = (case s of SDone _ \<Rightarrow> True | _ \<Rightarrow> False)"

definition is_error :: "StepStatus \<Rightarrow> bool" where
  "is_error s = (case s of SError _ _ \<Rightarrow> True | _ \<Rightarrow> False)"

definition isRunning :: "StepStatus list \<Rightarrow> bool" where
  "isRunning statuses \<longleftrightarrow> (\<exists>s\<in>set statuses. s = SRunning)"

definition allDone :: "StepStatus list \<Rightarrow> bool" where
  "allDone statuses \<longleftrightarrow> length statuses > 0 \<and> (\<forall>s\<in>set statuses. is_done s)"

definition initialRunState ::
  "nat \<Rightarrow> StepStatus list \<Rightarrow> nat option \<Rightarrow> StepStatus list \<times> nat" where
  "initialRunState stepsLength prevStatuses startIndex =
     (let statusArr =
            (if startIndex = None \<and> length prevStatuses = stepsLength then prevStatuses
             else replicate stepsLength SPending);
          found = (case startIndex of
                     Some i \<Rightarrow> Some i
                   | None \<Rightarrow> find_index (\<lambda>s. \<not> is_done s) statusArr);
          from0 = orElse found stepsLength;
          cleared = map (\<lambda>(i, s). if i \<ge> from0 \<and> is_error s then SPending else s)
                      (zip [0..<length statusArr] statusArr)
      in (cleared, from0))"

record Wallet =
  w_connected :: bool
  w_publicKey :: "address option"
  w_signTransaction :: "SignTransaction option"
  w_signAllTransactions :: "(Transaction list \<Rightarrow> bytes list res) option"

text \<open>The functional updates \<open>setRunning\<close>, \<open>setDone\<close> and \<open>setError\<close>.\<close>

definition setAll :: "StepStatus \<Rightarrow> nat list \<Rightarrow> StepStatus list \<Rightarrow> StepStatus list" where
  "setAll v idxs st = foldl (\<lambda>nxt i. nxt[i := v]) st idxs"

definition errorStatus :: "js_error \<Rightarrow> StepStatus" where
  "errorStatus e = (let (m, logs) = mapWriteError e in SError m logs)"

text \<open>The probe of the steps that are not done yet: the new statuses and what is left to send.\<close>

fun probeSteps ::
  "web3 \<Rightarrow> IndexerReads \<Rightarrow> (nat \<times> ActivateStep) list \<Rightarrow> StepStatus list \<Rightarrow>
   StepStatus list \<times> (nat \<times> ActivateStep) list" where
  "probeSteps W indexer [] st = (st, [])"
| "probeSteps W indexer ((i, step) # todo) st =
     (if as_skipIfLanded step \<noteq> Some False \<and> stepAlreadyLanded W indexer step
      then probeSteps W indexer todo (st[i := SDone ''already-landed''])
      else (let (st', pending) = probeSteps W indexer todo st in (st', (i, step) # pending)))"

text \<open>
  The send loop, the same on both paths: \<open>cursor\<close> is the position in the pending steps, and the
  first failure stops it.
\<close>

fun sendBatches ::
  "(nat \<Rightarrow> PackedTx \<Rightarrow> string res) \<Rightarrow> nat list \<Rightarrow> nat \<Rightarrow> nat \<Rightarrow> PackedTx list \<Rightarrow>
   StepStatus list \<Rightarrow> StepStatus list \<times> bool" where
  "sendBatches send pending cursor b [] st = (st, True)"
| "sendBatches send pending cursor b (batch # batches) st =
     (let idxs = take (length (pk_steps batch)) (drop cursor pending);
          cursor' = cursor + length (pk_steps batch);
          running = setAll SRunning idxs st
      in case send b batch of
           Inr signature \<Rightarrow>
             sendBatches send pending cursor' (Suc b) batches (setAll (SDone signature) idxs running)
         | Inl e \<Rightarrow> (setAll (errorStatus e) idxs running, False))"

definition walletSender :: "IndexerReads \<Rightarrow> Wallet \<Rightarrow> TxSender option" where
  "walletSender indexer w =
     (if \<not> w_connected w then None
      else (case (w_publicKey w, w_signTransaction w) of
              (Some k, Some sign) \<Rightarrow> Some (signAndRelay indexer k sign)
            | _ \<Rightarrow> None))"

definition sendOne ::
  "web3 \<Rightarrow> (nat \<Rightarrow> IndexerReads) \<Rightarrow> (nat \<Rightarrow> nat \<Rightarrow> nat) \<Rightarrow> Wallet \<Rightarrow> nat \<Rightarrow> PackedTx \<Rightarrow> string res" where
  "sendOne W idx lag w b batch =
     (case walletSender (idx (Suc b)) w of
        Some sender \<Rightarrow> sendAndConfirm W (idx (Suc b)) (lag b) sender (pk_ixs batch)
      | None \<Rightarrow> Inl (Error ''no wallet''))"

definition sendSigned ::
  "web3 \<Rightarrow> (nat \<Rightarrow> IndexerReads) \<Rightarrow> (nat \<Rightarrow> nat \<Rightarrow> nat) \<Rightarrow> bytes list \<Rightarrow> nat \<Rightarrow> PackedTx \<Rightarrow> string res" where
  "sendSigned W idx lag txs b batch =
     (if b < length txs then sendSignedAndConfirm W (idx (Suc b)) (lag b) (txs ! b)
      else relayAndConfirm W (idx (Suc b)) (lag b)
             (Inl (Error ''Cannot read properties of undefined'')))"

text \<open>\<open>run\<close>: the new statuses, and whether \<open>onDone\<close> was called.\<close>

definition run_sequence ::
  "web3 \<Rightarrow> txlib \<Rightarrow> (nat \<Rightarrow> IndexerReads) \<Rightarrow> (nat \<Rightarrow> nat \<Rightarrow> nat) \<Rightarrow> Wallet \<Rightarrow> StepStatus list \<Rightarrow>
   ActivateStep list \<Rightarrow> nat option \<Rightarrow> StepStatus list \<times> bool" where
  "run_sequence W T idx lag w statuses steps startIndex =
     (if isRunning statuses then (statuses, False)
      else case (walletSender (idx 0) w, w_publicKey w) of
        (Some _, Some feePayer) \<Rightarrow>
          (let (statusArr, from0) = initialRunState (length steps) statuses startIndex;
               (st, pending) =
                 probeSteps W (idx 0) (zip [from0..<length steps] (drop from0 steps)) statusArr
           in if length pending = 0 then (st, True)
              else
                (let batches = packSteps W T feePayer (map snd pending);
                     indices = map fst pending
                 in case (if length batches \<le> 1 \<or> length batches > MAX_BATCH_SIGN_TXS
                          then None else w_signAllTransactions w) of
                      None \<Rightarrow> sendBatches (sendOne W idx lag w) indices 0 0 batches st
                    | Some signAll \<Rightarrow>
                        (case bindR (seqR (map (\<lambda>b. mapR (\<lambda>bh. buildUnsignedTx feePayer bh (pk_ixs b))
                                (api_getBlockhash (idx 0))) batches)) signAll of
                           Inl e \<Rightarrow> (setAll (errorStatus e) indices st, False)
                         | Inr txs \<Rightarrow>
                             sendBatches (sendSigned W idx lag txs) indices 0 0 batches st)))
      | _ \<Rightarrow> (replicate (length steps) SPending, False))"

subsection \<open>The starting state\<close>

lemma initialRunState_length [simp]: "length (fst (initialRunState n prev s)) = n"
  by (simp add: initialRunState_def Let_def)

lemma initialRunState_cleared:
  assumes "initialRunState n prev s = (arr, b)" "b \<le> i" "i < n"
  shows "\<not> is_error (arr ! i)"
  using assms by (auto simp: initialRunState_def Let_def is_error_def split: if_splits)

text \<open>Without a start index, everything before the resume point is done and the point itself is not.\<close>

lemma initialRunState_resume:
  assumes "initialRunState n prev None = (arr, b)"
  shows "b \<le> n" "\<forall>i<b. is_done (arr ! i)" "b < n \<Longrightarrow> \<not> is_done (arr ! b)"
proof -
  define st where "st = (if length prev = n then prev else replicate n SPending)"
  have l: "length st = n" by (simp add: st_def)
  have b: "b = orElse (find_index (\<lambda>s. \<not> is_done s) st) n"
    and arr: "arr = map (\<lambda>(i, s). if i \<ge> b \<and> is_error s then SPending else s) (zip [0..<n] st)"
    using assms l by (auto simp: initialRunState_def Let_def st_def)
  have "b \<le> n \<and> (\<forall>i<b. is_done (arr ! i)) \<and> (b < n \<longrightarrow> \<not> is_done (arr ! b))"
  proof (cases "find_index (\<lambda>s. \<not> is_done s) st")
    case None
    then have "\<forall>s\<in>set st. is_done s" by (simp add: find_index_None)
    then show ?thesis using None b l arr nth_mem [of _ st] by auto
  next
    case (Some j)
    then show ?thesis using find_index_Some [OF Some] b l arr by (auto simp: is_done_def)
  qed
  then show "b \<le> n" "\<forall>i<b. is_done (arr ! i)" "b < n \<Longrightarrow> \<not> is_done (arr ! b)" by blast+
qed

lemma initialRunState_start: "snd (initialRunState n prev (Some k)) = k"
  by (simp add: initialRunState_def Let_def)

lemma initialRunState_fresh: "fst (initialRunState n prev (Some k)) = replicate n SPending"
  by (intro nth_equalityI) (auto simp: initialRunState_def Let_def is_error_def)

lemma initialRunState_not_running: "\<not> isRunning prev \<Longrightarrow> \<not> isRunning (fst (initialRunState n prev s))"
  by (auto simp: initialRunState_def Let_def isRunning_def set_zip split: if_splits dest: nth_mem)

subsection \<open>The loops\<close>

lemma setAll_simps [simp]:
  "setAll v [] st = st" "setAll v (i # is) st = setAll v is (st[i := v])"
  by (simp_all add: setAll_def)

lemma setAll_length [simp]: "length (setAll v is st) = length st"
  by (induction "is" arbitrary: st) simp_all

lemma setAll_nth: "i < length st \<Longrightarrow> setAll v is st ! i = (if i \<in> set is then v else st ! i)"
  by (induction "is" arbitrary: st) (auto simp: nth_list_update)

lemma probeSteps_spec:
  assumes "probeSteps W indexer todo st = (st', pending)" "distinct (map fst todo)"
    "\<forall>(i, s)\<in>set todo. i < length st"
  shows "length st' = length st"
    and "pending = filter (\<lambda>(i, s). \<not> (as_skipIfLanded s \<noteq> Some False \<and> stepAlreadyLanded W indexer s)) todo"
    and "\<forall>i<length st. st' ! i =
      (if i \<in> fst ` (set todo - set pending) then SDone ''already-landed'' else st ! i)"
proof -
  let ?keep = "\<lambda>(i :: nat, s). \<not> (as_skipIfLanded s \<noteq> Some False \<and> stepAlreadyLanded W indexer s)"
  have "length st' = length st \<and> pending = filter ?keep todo \<and>
    (\<forall>i<length st. st' ! i =
      (if i \<in> fst ` set (filter (\<lambda>x. \<not> ?keep x) todo) then SDone ''already-landed'' else st ! i))"
    using assms
  proof (induction todo arbitrary: st st' pending)
    case Nil
    then show ?case by simp
  next
    case (Cons x todo)
    obtain i s where x: "x = (i, s)" by (cases x)
    show ?case
    proof (cases "?keep x")
      case True
      then obtain p where p: "probeSteps W indexer todo st = (st', p)" "pending = x # p"
        using Cons.prems(1) x by (auto split: prod.splits)
      show ?thesis using Cons.IH [OF p(1)] Cons.prems(2,3) True p(2) by simp
    next
      case False
      then have p: "probeSteps W indexer todo (st[i := SDone ''already-landed'']) = (st', pending)"
        using Cons.prems(1) x by (simp split: if_splits)
      have "i \<notin> fst ` set todo" using Cons.prems(2) x by simp
      then show ?thesis using Cons.IH [OF p] Cons.prems(2,3) False x
        by (auto simp: nth_list_update)
    qed
  qed
  moreover have "set todo - set (filter ?keep todo) = set (filter (\<lambda>x. \<not> ?keep x) todo)" by auto
  ultimately show "length st' = length st" "pending = filter ?keep todo"
    "\<forall>i<length st. st' ! i =
      (if i \<in> fst ` (set todo - set pending) then SDone ''already-landed'' else st ! i)"
    by simp_all
qed

text \<open>All batches before the failing one are done; the failing one is in error; the rest is untouched.\<close>

lemma sendBatches_spec:
  assumes "sendBatches send pend c b batches st = (st', ok)"
    and "sum_list (map (length \<circ> pk_steps) batches) = length (drop c pend)"
    and "\<forall>bt\<in>set batches. pk_steps bt \<noteq> []"
    and "distinct pend" "\<forall>i\<in>set pend. i < length st"
  shows "\<exists>pre mid post. drop c pend = pre @ mid @ post \<and> length st' = length st \<and>
     (\<forall>i\<in>set pre. is_done (st' ! i)) \<and>
     (\<forall>i<length st. i \<notin> set (pre @ mid) \<longrightarrow> st' ! i = st ! i) \<and>
     (if ok then mid = [] \<and> post = []
      else mid \<noteq> [] \<and> (\<exists>k e. k < length batches \<and> send (b + k) (batches ! k) = Inl e \<and>
        (\<forall>j<k. okR (send (b + j) (batches ! j))) \<and> (\<forall>i\<in>set mid. st' ! i = errorStatus e)))"
  using assms
proof (induction batches arbitrary: c b st)
  case Nil
  then show ?case by (intro exI [of _ "[]"]) auto
next
  case (Cons bt batches)
  define idxs where "idxs = take (length (pk_steps bt)) (drop c pend)"
  have len: "length idxs = length (pk_steps bt)" using Cons.prems(2) by (simp add: idxs_def)
  have dr: "drop c pend = idxs @ drop (c + length (pk_steps bt)) pend"
    by (metis append_take_drop_id drop_drop idxs_def add.commute)
  have lt: "\<forall>i\<in>set idxs. i < length st"
    using Cons.prems(5) by (auto simp: idxs_def dest!: in_set_takeD in_set_dropD)
  show ?case
  proof (cases "send b bt")
    case (Inl e)
    have r: "st' = setAll (errorStatus e) idxs (setAll SRunning idxs st)" "\<not> ok"
      using Cons.prems(1) Inl by (auto simp: Let_def idxs_def)
    have "idxs \<noteq> []" using len Cons.prems(3) by auto
    moreover have "(\<exists>k e'. k < length (bt # batches) \<and> send (b + k) ((bt # batches) ! k) = Inl e' \<and>
        (\<forall>j<k. okR (send (b + j) ((bt # batches) ! j))) \<and> (\<forall>i\<in>set idxs. st' ! i = errorStatus e'))"
      using Inl lt r by (intro exI [of _ 0] exI [of _ e]) (auto simp: setAll_nth)
    ultimately show ?thesis using dr r
      by (intro exI [of _ "[]"] exI [of _ idxs] exI [of _ "drop (c + length (pk_steps bt)) pend"])
         (auto simp: setAll_nth)
  next
    case (Inr s)
    define st1 where "st1 = setAll (SDone s) idxs (setAll SRunning idxs st)"
    have l1: "length st1 = length st" by (simp add: st1_def)
    have r: "sendBatches send pend (c + length (pk_steps bt)) (Suc b) batches st1 = (st', ok)"
      using Cons.prems(1) Inr by (simp add: Let_def idxs_def st1_def)
    have sm: "sum_list (map (length \<circ> pk_steps) batches) = length (drop (c + length (pk_steps bt)) pend)"
      using Cons.prems(2) len arg_cong [OF dr, of length] by (simp add: o_def)
    obtain pre mid post where d: "drop (c + length (pk_steps bt)) pend = pre @ mid @ post"
      and ls: "length st' = length st1" and dn: "\<forall>i\<in>set pre. is_done (st' ! i)"
      and un: "\<forall>i<length st1. i \<notin> set (pre @ mid) \<longrightarrow> st' ! i = st1 ! i"
      and fin: "if ok then mid = [] \<and> post = []
        else mid \<noteq> [] \<and> (\<exists>k e. k < length batches \<and> send (Suc b + k) (batches ! k) = Inl e \<and>
          (\<forall>j<k. okR (send (Suc b + j) (batches ! j))) \<and> (\<forall>i\<in>set mid. st' ! i = errorStatus e))"
      using Cons.IH [OF r sm] Cons.prems(3-5) l1 by auto
    have dist: "set idxs \<inter> set (pre @ mid) = {}"
      using Cons.prems(4) dr d by (metis append.assoc distinct_append distinct_drop inf_sup_aci(1) set_append
          Int_Un_distrib sup_bot.right_neutral Un_empty)
    have A: "\<forall>i\<in>set (idxs @ pre). is_done (st' ! i)"
    proof
      fix i assume i: "i \<in> set (idxs @ pre)"
      show "is_done (st' ! i)"
      proof (cases "i \<in> set pre")
        case True
        then show ?thesis using dn by simp
      next
        case False
        then have "i \<in> set idxs" using i by simp
        then show ?thesis using un dist lt l1 by (auto simp: st1_def setAll_nth is_done_def)
      qed
    qed
    have B: "\<forall>i<length st. i \<notin> set ((idxs @ pre) @ mid) \<longrightarrow> st' ! i = st ! i"
      using un l1 by (auto simp: st1_def setAll_nth)
    have C: "drop c pend = (idxs @ pre) @ mid @ post" using dr d by simp
    have D: "if ok then mid = [] \<and> post = []
        else mid \<noteq> [] \<and> (\<exists>k e. k < length (bt # batches) \<and> send (b + k) ((bt # batches) ! k) = Inl e \<and>
          (\<forall>j<k. okR (send (b + j) ((bt # batches) ! j))) \<and> (\<forall>i\<in>set mid. st' ! i = errorStatus e))"
    proof (cases ok)
      case True
      then show ?thesis using fin by simp
    next
      case False
      then obtain k e where k: "k < length batches" "send (Suc b + k) (batches ! k) = Inl e"
        "\<forall>j<k. okR (send (Suc b + j) (batches ! j))" "\<forall>i\<in>set mid. st' ! i = errorStatus e"
        using fin by auto
      have "\<forall>j<Suc k. okR (send (b + j) ((bt # batches) ! j))"
        using k(3) Inr by (auto simp: less_Suc_eq_0_disj)
      then show ?thesis using False fin k by (auto intro!: exI [of _ "Suc k"])
    qed
    have E: "length st' = length st" using ls l1 by simp
    show ?thesis
      by (intro exI [of _ "idxs @ pre"] exI [of _ mid] exI [of _ post] conjI) (fact C E A B D)+
  qed
qed

subsection \<open>A run\<close>

lemma packed_lengths: "sum_list (map (length \<circ> pk_steps) (packSteps W T p steps)) = length steps"
  using arg_cong [OF packSteps_concat [of W T p steps], of length] by (simp add: length_concat o_def)

lemma errorStatus_is_error [simp]: "is_error (errorStatus e)" "\<not> is_done (errorStatus e)"
  "errorStatus e \<noteq> SRunning"
  by (auto simp: errorStatus_def is_error_def is_done_def split: prod.splits)

lemma is_done_not_running: "is_done s \<Longrightarrow> s \<noteq> SRunning"
  by (auto simp: is_done_def)

text \<open>The part of a run after the probe.\<close>

lemma sendBatches_pending:
  assumes "sendBatches send (map fst pending) 0 0 (packSteps W T p (map snd pending)) st = (st', ok)"
    and "distinct (map fst pending)" "\<forall>i\<in>fst ` set pending. i < length st"
  shows "length st' = length st"
    and "i < length st \<Longrightarrow> i \<notin> fst ` set pending \<Longrightarrow> st' ! i = st ! i"
    and "i < length st \<Longrightarrow> i \<in> fst ` set pending \<Longrightarrow> is_done (st' ! i) \<or> is_error (st' ! i) \<or> st' ! i = st ! i"
    and "ok \<Longrightarrow> \<forall>i\<in>fst ` set pending. is_done (st' ! i)"
    and "\<not> ok \<Longrightarrow> \<exists>i\<in>fst ` set pending. is_error (st' ! i)"
proof -
  have total: "sum_list (map (length \<circ> pk_steps) (packSteps W T p (map snd pending))) =
      length (drop 0 (map fst pending))"
    by (simp add: packed_lengths)
  have nonempty: "\<forall>bt\<in>set (packSteps W T p (map snd pending)). pk_steps bt \<noteq> []"
    using packSteps_ixs by blast
  have lt: "\<forall>i\<in>set (map fst pending). i < length st" using assms(3) by simp
  obtain pre mid post where d: "drop 0 (map fst pending) = pre @ mid @ post" and l: "length st' = length st"
    and dn: "\<forall>i\<in>set pre. is_done (st' ! i)"
    and un: "\<forall>i<length st. i \<notin> set (pre @ mid) \<longrightarrow> st' ! i = st ! i"
    and all: "if ok then mid = [] \<and> post = []
      else mid \<noteq> [] \<and> (\<exists>k e. k < length (packSteps W T p (map snd pending)) \<and>
        send (0 + k) (packSteps W T p (map snd pending) ! k) = Inl e \<and>
        (\<forall>j<k. okR (send (0 + j) (packSteps W T p (map snd pending) ! j))) \<and>
        (\<forall>i\<in>set mid. st' ! i = errorStatus e))"
    using sendBatches_spec [OF assms(1) total nonempty assms(2) lt] by blast
  have fin: "if ok then mid = [] \<and> post = [] else mid \<noteq> [] \<and> (\<exists>e. \<forall>i\<in>set mid. st' ! i = errorStatus e)"
    using all by (cases ok) auto
  have d: "map fst pending = pre @ mid @ post" using d by simp
  have s: "fst ` set pending = set pre \<union> set mid \<union> set post"
    using arg_cong [OF d, of set] by auto
  have mid: "\<forall>i\<in>set mid. is_error (st' ! i)" using fin by (auto split: if_splits)
  show "length st' = length st" by (rule l)
  show "i < length st \<Longrightarrow> i \<notin> fst ` set pending \<Longrightarrow> st' ! i = st ! i" using un s by auto
  show "i < length st \<Longrightarrow> i \<in> fst ` set pending \<Longrightarrow> is_done (st' ! i) \<or> is_error (st' ! i) \<or> st' ! i = st ! i"
    using un dn mid by (cases "i \<in> set (pre @ mid)") auto
  show "ok \<Longrightarrow> \<forall>i\<in>fst ` set pending. is_done (st' ! i)" using fin dn s by auto
  show "\<not> ok \<Longrightarrow> \<exists>i\<in>fst ` set pending. is_error (st' ! i)"
    using fin mid s by (cases mid) auto
qed

lemma run_sequence_refused:
  "isRunning statuses \<Longrightarrow> run_sequence W T idx lag w statuses steps s = (statuses, False)"
  "\<not> isRunning statuses \<Longrightarrow> walletSender (idx 0) w = None \<Longrightarrow>
     run_sequence W T idx lag w statuses steps s = (replicate (length steps) SPending, False)"
  by (simp_all add: run_sequence_def)

lemma run_sequence_spec:
  assumes run: "run_sequence W T idx lag w statuses steps start = (st', ok)"
    and idle: "\<not> isRunning statuses" and wal: "walletSender (idx 0) w = Some snd0"
    and ini: "initialRunState (length steps) statuses start = (arr, b)"
  shows "length st' = length steps" "\<not> isRunning st'"
    and "i < b \<Longrightarrow> i < length steps \<Longrightarrow> st' ! i = arr ! i"
    and "b \<le> i \<Longrightarrow> i < length steps \<Longrightarrow> as_skipIfLanded (steps ! i) \<noteq> Some False \<Longrightarrow>
      stepAlreadyLanded W (idx 0) (steps ! i) \<Longrightarrow> st' ! i = SDone ''already-landed''"
    and "ok \<Longrightarrow> b \<le> i \<Longrightarrow> i < length steps \<Longrightarrow> is_done (st' ! i)"
    and "\<not> ok \<Longrightarrow> \<exists>i. b \<le> i \<and> i < length steps \<and> is_error (st' ! i)"
proof -
  let ?n = "length steps"
  define todo where "todo = zip [b..<?n] (drop b steps)"
  obtain st pending where pr: "probeSteps W (idx 0) todo arr = (st, pending)"
    by (cases "probeSteps W (idx 0) todo arr")
  have la: "length arr = ?n" using initialRunState_length [of ?n statuses start] by (simp add: ini)
  have fsts: "map fst todo = [b..<?n]" by (simp add: todo_def)
  have mem: "(j, s) \<in> set todo \<longleftrightarrow> b \<le> j \<and> j < ?n \<and> s = steps ! j" for j s
  proof
    assume "(j, s) \<in> set todo"
    then show "b \<le> j \<and> j < ?n \<and> s = steps ! j" by (auto simp: todo_def in_set_zip)
  next
    assume a: "b \<le> j \<and> j < ?n \<and> s = steps ! j"
    then have "j - b < ?n - b" by (simp add: diff_less_mono)
    then have "zip [b..<?n] (drop b steps) ! (j - b) = (j, s)" "j - b < length (zip [b..<?n] (drop b steps))"
      using a by simp_all
    then show "(j, s) \<in> set todo" unfolding todo_def by (metis nth_mem)
  qed
  have rng: "\<forall>(j, s)\<in>set todo. j < length arr" using mem la by auto
  note ps = probeSteps_spec [OF pr _ rng, unfolded fsts, OF distinct_upt]
  have pend: "(j, s) \<in> set pending \<longleftrightarrow> b \<le> j \<and> j < ?n \<and> s = steps ! j \<and>
      \<not> (as_skipIfLanded s \<noteq> Some False \<and> stepAlreadyLanded W (idx 0) s)" for j s
    unfolding ps(2) using mem by auto
  have ls: "length st = ?n" using ps(1) la by simp
  have st_land: "st ! j = SDone ''already-landed''" if "b \<le> j" "j < ?n" "j \<notin> fst ` set pending" for j
  proof -
    have "(j, steps ! j) \<in> set todo - set pending" using mem that by force
    then show ?thesis using ps(3) that la by force
  qed
  have st_arr: "st ! j = arr ! j" if "j < ?n" "j < b \<or> j \<in> fst ` set pending" for j
    using ps(3) that la mem pend by force
  have dist: "distinct (map fst pending)"
    unfolding ps(2) by (intro distinct_map_filter) (simp add: fsts)
  have pend_fst: "j \<in> fst ` set pending \<longleftrightarrow> b \<le> j \<and> j < ?n \<and>
      \<not> (as_skipIfLanded (steps ! j) \<noteq> Some False \<and> stepAlreadyLanded W (idx 0) (steps ! j))" for j
  proof -
    have "j \<in> fst ` set pending \<longleftrightarrow> (\<exists>s. (j, s) \<in> set pending)" by force
    then show ?thesis by (simp only: pend) blast
  qed
  have lt: "\<forall>j\<in>fst ` set pending. j < length st"
  proof
    fix j assume "j \<in> fst ` set pending"
    then show "j < length st" by (simp only: pend_fst ls)
  qed
  have no_run: "\<not> isRunning arr" using initialRunState_not_running [OF idle, of ?n start] by (simp add: ini)
  obtain p where p: "w_publicKey w = Some p"
    using wal by (auto simp: walletSender_def split: if_splits option.splits)
  have res: "length st' = ?n \<and>
      (\<forall>j<?n. j \<notin> fst ` set pending \<longrightarrow> st' ! j = st ! j) \<and>
      (\<forall>j<?n. j \<in> fst ` set pending \<longrightarrow> is_done (st' ! j) \<or> is_error (st' ! j) \<or> st' ! j = st ! j) \<and>
      (ok \<longrightarrow> (\<forall>j\<in>fst ` set pending. is_done (st' ! j))) \<and>
      (\<not> ok \<longrightarrow> (\<exists>j\<in>fst ` set pending. is_error (st' ! j)))"
  proof (cases "pending = []")
    case True
    then have "st' = st \<and> ok" using run idle wal p pr by (simp add: run_sequence_def ini Let_def todo_def)
    then show ?thesis using True ls by simp
  next
    case False
    have run_cases: "(\<exists>send. sendBatches send (map fst pending) 0 0 (packSteps W T p (map snd pending)) st = (st', ok))
      \<or> (\<exists>e. st' = setAll (errorStatus e) (map fst pending) st \<and> \<not> ok)"
      using run idle wal p pr False
      by (auto simp: run_sequence_def ini Let_def todo_def split: if_splits option.splits sum.splits)
    then show ?thesis
    proof
      assume "\<exists>send. sendBatches send (map fst pending) 0 0 (packSteps W T p (map snd pending)) st = (st', ok)"
      then obtain send where "sendBatches send (map fst pending) 0 0 (packSteps W T p (map snd pending)) st = (st', ok)"
        by blast
      note sb = sendBatches_pending [OF this dist lt]
      have r1: "length st' = ?n" using sb(1) ls by (rule trans)
      have r2: "\<forall>j<?n. j \<notin> fst ` set pending \<longrightarrow> st' ! j = st ! j"
        by (intro allI impI) (rule sb(2); simp add: ls)
      have r3: "\<forall>j<?n. j \<in> fst ` set pending \<longrightarrow>
          is_done (st' ! j) \<or> is_error (st' ! j) \<or> st' ! j = st ! j"
        by (intro allI impI) (rule sb(3); simp add: ls)
      show ?thesis using r1 r2 r3 sb(4,5) by (intro conjI) simp_all
    next
      assume "\<exists>e. st' = setAll (errorStatus e) (map fst pending) st \<and> \<not> ok"
      then obtain e where e: "st' = setAll (errorStatus e) (map fst pending) st" "\<not> ok" by blast
      then show ?thesis using False lt ls by (cases pending) (auto simp: setAll_nth)
    qed
  qed
  then show "length st' = ?n" by blast
  show "i < b \<Longrightarrow> i < ?n \<Longrightarrow> st' ! i = arr ! i" using res st_arr pend_fst by auto
  show "b \<le> i \<Longrightarrow> i < ?n \<Longrightarrow> as_skipIfLanded (steps ! i) \<noteq> Some False \<Longrightarrow>
      stepAlreadyLanded W (idx 0) (steps ! i) \<Longrightarrow> st' ! i = SDone ''already-landed''"
    using res st_land pend_fst by auto
  show "ok \<Longrightarrow> b \<le> i \<Longrightarrow> i < ?n \<Longrightarrow> is_done (st' ! i)"
    using res st_land by (cases "i \<in> fst ` set pending") (auto simp: is_done_def)
  show "\<not> ok \<Longrightarrow> \<exists>i. b \<le> i \<and> i < ?n \<and> is_error (st' ! i)" using res pend_fst by auto
  have "st' ! j \<noteq> SRunning" if j: "j < ?n" for j
  proof (cases "j < b \<or> j \<in> fst ` set pending")
    case True
    have "arr ! j \<noteq> SRunning" using no_run la j nth_mem [of j arr] unfolding isRunning_def by metis
    then show ?thesis using res st_arr [OF j True] j
      by (cases "j \<in> fst ` set pending") (auto simp: is_done_def is_error_def)
  next
    case False
    then show ?thesis using res st_land [of j] j by auto
  qed
  then show "\<not> isRunning st'" using res by (auto simp: isRunning_def in_set_conv_nth)
qed

end
