(* ===== verification/Trade.thy ===== *)
theory Trade
  imports ActionBase
begin

text \<open>
  Buying and selling a position, \<open>app/src/market/data/actions/trade.ts\<close>: the constant-product
  curve and the fee-adjusted swap output, the slippage floor, the previews and price impacts, the
  optimal unwinding swap (computed in doubles), and the assembly of the instruction lists.  An
  optional argument is an option; reserves that are \<open>null\<close> or absent are \<open>None\<close>.
\<close>

definition TRADE_COMPUTE_UNITS :: int where
  "TRADE_COMPUTE_UNITS = 400000"

definition AMM_FEE_BPS :: int where
  "AMM_FEE_BPS = 100"

definition DEFAULT_SLIPPAGE_BPS :: jsnum where
  "DEFAULT_SLIPPAGE_BPS = Fin 100"

definition decodeReservesFromChain ::
  "web3 \<Rightarrow> IndexerReads \<Rightarrow> address_input \<Rightarrow> AmmReserves option" where
  "decodeReservesFromChain W indexer amm =
     (case bindR (toAddress W ''amm'' amm) (\<lambda>a. api_getAccount indexer (toBase58 W a)) of
        Inr (Some acct) \<Rightarrow> decodeAmmReserves (ac_data acct)
      | _ \<Rightarrow> None)"

subsection \<open>The curve\<close>

definition constantProductOut :: "int \<Rightarrow> int \<Rightarrow> int \<Rightarrow> int" where
  "constantProductOut amountIn inReserve outReserve =
     (if amountIn \<le> 0 \<or> inReserve \<le> 0 \<or> outReserve \<le> 0 then 0
      else bdiv (amountIn * outReserve) (inReserve + amountIn))"

definition ammSwapOut :: "int \<Rightarrow> int \<Rightarrow> int \<Rightarrow> int" where
  "ammSwapOut amountIn inReserve outReserve =
     (if amountIn \<le> 0 \<or> inReserve \<le> 0 \<or> outReserve \<le> 0 then 0
      else
        let inAfterFee = bdiv (amountIn * (10000 - AMM_FEE_BPS)) 10000
        in constantProductOut inAfterFee inReserve outReserve)"

text \<open>\<open>Math.trunc\<close>.\<close>

fun ntrunc :: "jsnum \<Rightarrow> jsnum" where
  "ntrunc (Fin a) = Fin (of_int (if 0 \<le> a then \<lfloor>a\<rfloor> else \<lceil>a\<rceil>))"
| "ntrunc x = x"

text \<open>The conversion to \<open>bigint\<close> throws when the tolerance is \<open>NaN\<close>.\<close>

definition minOutFromSlippage :: "int \<Rightarrow> jsnum \<Rightarrow> int res" where
  "minOutFromSlippage estimateOut slippageBps =
     (if estimateOut \<le> 0 then Inr 0
      else bindR (BigIntOf (nmin (nmax (ntrunc slippageBps) (Fin 0)) (Fin 10000))) (\<lambda>bps.
        Inr (bdiv (estimateOut * (10000 - bps)) 10000)))"

text \<open>The pair (input reserve, output reserve).\<close>

definition reservePair :: "AmmReserves \<Rightarrow> bool \<Rightarrow> int \<times> int" where
  "reservePair reserves inputIsQuote =
     (if inputIsQuote then (ar_quote reserves, ar_base reserves)
      else (ar_base reserves, ar_quote reserves))"

subsection \<open>Previews\<close>

text \<open>The pair (received, outputAmountMin).\<close>

definition previewBuy ::
  "AmmReserves option \<Rightarrow> string \<Rightarrow> int \<Rightarrow> jsnum option \<Rightarrow> (int \<times> int) res" where
  "previewBuy reserves outcome kassAmount slippageBps =
     (case reserves of
        None \<Rightarrow> Inr (kassAmount, 0)
      | Some r \<Rightarrow>
          if kassAmount \<le> 0 then Inr (kassAmount, 0)
          else
            let (inReserve, outReserve) = reservePair r (outcome = ''yes'');
                swapOut = ammSwapOut kassAmount inReserve outReserve
            in bindR (minOutFromSlippage swapOut (orElse slippageBps DEFAULT_SLIPPAGE_BPS)) (\<lambda>m.
               Inr (kassAmount + swapOut, m)))"

text \<open>The impact of a swap, the last lines the two price-impact functions share.\<close>

definition impactOf :: "int \<Rightarrow> int \<Rightarrow> int \<Rightarrow> int \<Rightarrow> jsnum" where
  "impactOf amountIn noFeeOut inReserve outReserve =
     (let spot = ndiv (Number outReserve) (Number inReserve);
          effective = ndiv (Number noFeeOut) (Number amountIn)
      in if nlt (Fin 0) spot
         then nmin (nmax (nsub (Fin 1) (ndiv effective spot)) (Fin 0)) (Fin 1)
         else Fin 0)"

definition buyPriceImpact :: "AmmReserves option \<Rightarrow> string \<Rightarrow> int \<Rightarrow> jsnum" where
  "buyPriceImpact reserves outcome kassAmount =
     (case reserves of
        None \<Rightarrow> Fin 0
      | Some r \<Rightarrow>
          if kassAmount \<le> 0 then Fin 0
          else
            let (inReserve, outReserve) = reservePair r (outcome = ''yes'') in
            if inReserve \<le> 0 \<or> outReserve \<le> 0 then Fin 0
            else
              let noFeeOut = constantProductOut kassAmount inReserve outReserve in
              if noFeeOut \<le> 0 then Fin 0 else impactOf kassAmount noFeeOut inReserve outReserve)"

definition optimalUnwindSwap :: "int \<Rightarrow> int \<Rightarrow> int \<Rightarrow> int res" where
  "optimalUnwindSwap held inReserve outReserve =
     (if held \<le> 1 then Inr 0
      else if inReserve \<le> 0 \<or> outReserve \<le> 0 then Inr (bdiv held 2)
      else
        let h = Number held;
            linear = nsub (nadd (Number inReserve) (Number outReserve)) h;
            disc = nadd (nmul linear linear) (nmul (nmul (Fin 4) h) (Number inReserve));
            s = ndiv (nadd (nneg linear) (nsqrt (nmax disc (Fin 0)))) (Fin 2);
            clamped = nmin (nmax (nfloor s) (Fin 1)) (nsub h (Fin 1))
        in BigIntOf clamped)"

definition sellPriceImpact :: "AmmReserves option \<Rightarrow> string \<Rightarrow> int \<Rightarrow> jsnum res" where
  "sellPriceImpact reserves outcome positionAmount =
     (case reserves of
        None \<Rightarrow> Inr (Fin 0)
      | Some r \<Rightarrow>
          if positionAmount \<le> 1 then Inr (Fin 0)
          else
            let holdingYes = (outcome = ''yes'');
                (inReserve, outReserve) = reservePair r (\<not> holdingYes)
            in if inReserve \<le> 0 \<or> outReserve \<le> 0 then Inr (Fin 0)
               else bindR (optimalUnwindSwap positionAmount inReserve outReserve) (\<lambda>swapAmount.
                 if swapAmount \<le> 0 then Inr (Fin 0)
                 else
                   let noFeeOut = constantProductOut swapAmount inReserve outReserve in
                   if noFeeOut \<le> 0 then Inr (Fin 0)
                   else Inr (impactOf swapAmount noFeeOut inReserve outReserve)))"

record SellPreview =
  pv_received :: int
  pv_outputAmountMin :: int
  pv_residual :: int

definition zero_preview :: SellPreview where
  "zero_preview = \<lparr>pv_received = 0, pv_outputAmountMin = 0, pv_residual = 0\<rparr>"

definition previewSell ::
  "AmmReserves option \<Rightarrow> string \<Rightarrow> int \<Rightarrow> jsnum option \<Rightarrow> SellPreview res" where
  "previewSell reserves outcome positionAmount slippageBps =
     (case reserves of
        None \<Rightarrow> Inr zero_preview
      | Some r \<Rightarrow>
          if positionAmount \<le> 1 then Inr zero_preview
          else
            let holdingYes = (outcome = ''yes'');
                (inReserve, outReserve) = reservePair r (\<not> holdingYes)
            in bindR (optimalUnwindSwap positionAmount inReserve outReserve) (\<lambda>swapAmount.
               if swapAmount \<le> 0 then Inr zero_preview
               else
                 let swapOut = ammSwapOut swapAmount inReserve outReserve;
                     remainder = positionAmount - swapAmount;
                     received = (if remainder < swapOut then remainder else swapOut);
                     residual = (if remainder < swapOut then swapOut - remainder else remainder - swapOut)
                 in bindR (minOutFromSlippage swapOut (orElse slippageBps DEFAULT_SLIPPAGE_BPS)) (\<lambda>m.
                    Inr \<lparr>pv_received = received, pv_outputAmountMin = m, pv_residual = residual\<rparr>)))"

subsection \<open>Assembling the instructions\<close>

record TradeArgs =
  ta_refs :: MarketRefs
  ta_user :: address_input
  ta_outcome :: string
  ta_userBaseAta :: address_input
  ta_reserves :: "AmmReserves option"
  ta_slippageBps :: "jsnum option"

text \<open>The live reserves, or the ones passed.\<close>

definition tradeReserves :: "web3 \<Rightarrow> IndexerReads \<Rightarrow> TradeArgs \<Rightarrow> AmmReserves option" where
  "tradeReserves W indexer a =
     (case decodeReservesFromChain W indexer (AddrObj (mr_amm (ta_refs a))) of
        Some r \<Rightarrow> Some r
      | None \<Rightarrow> ta_reserves a)"

definition buildBuyIxs ::
  "web3 \<Rightarrow> txlib \<Rightarrow> IndexerReads \<Rightarrow> TradeArgs \<Rightarrow> int \<Rightarrow> instruction list res" where
  "buildBuyIxs W T indexer a kassAmount =
     bindR (toAddress W ''Trader'' (ta_user a)) (\<lambda>user.
     if kassAmount \<le> 0 then Inl (ValidationError ''Amount must be greater than zero.'')
     else
     case tradeReserves W indexer a of
       None \<Rightarrow> Inl (ValidationError
         (''Live pool reserves are required to buy '' @ [CHR 0x97] @ '' try again in a moment.''))
     | Some r \<Rightarrow>
     bindR (previewBuy (Some r) (ta_outcome a) kassAmount
       (Some (orElse (ta_slippageBps a) DEFAULT_SLIPPAGE_BPS))) (\<lambda>pv.
     bindR (ensureConditionalAtasInstructions W (ta_refs a) (AddrObj user) None None) (\<lambda>ensure.
     bindR (toAddress W ''SOL ATA'' (ta_userBaseAta a)) (\<lambda>userBaseAta.
     bindR (buyInstructions W
       \<lparr>bp_refs = ta_refs a, bp_user = AddrObj user, bp_outcome = ta_outcome a,
        bp_kassAmount = kassAmount, bp_userBaseAta = AddrObj userBaseAta,
        bp_userYesAta = Some (AddrObj (ea_userYesAta ensure)),
        bp_userNoAta = Some (AddrObj (ea_userNoAta ensure)),
        bp_outputAmountMin = Some (snd pv)\<rparr>) (\<lambda>buy.
     Inr (setComputeUnitLimitIx T TRADE_COMPUTE_UNITS # ea_instructions ensure @ fst buy))))))"

definition buildSellIxs ::
  "web3 \<Rightarrow> txlib \<Rightarrow> IndexerReads \<Rightarrow> TradeArgs \<Rightarrow> int \<Rightarrow> instruction list res" where
  "buildSellIxs W T indexer a positionAmount =
     bindR (toAddress W ''Trader'' (ta_user a)) (\<lambda>user.
     if positionAmount \<le> 0 then Inl (ValidationError ''Amount must be greater than zero.'')
     else
     case tradeReserves W indexer a of
       None \<Rightarrow> Inl (ValidationError
         (''Live pool reserves are required to sell '' @ [CHR 0x97] @ '' try again in a moment.''))
     | Some r \<Rightarrow>
     let holdingYes = (ta_outcome a = ''yes'');
         (inReserve, outReserve) = reservePair r (\<not> holdingYes) in
     bindR (optimalUnwindSwap positionAmount inReserve outReserve) (\<lambda>swapAmount.
     if swapAmount \<le> 0 then Inl (ValidationError ''Position is too small to unwind.'')
     else
     let estOut = ammSwapOut swapAmount inReserve outReserve in
     bindR (minOutFromSlippage estOut (orElse (ta_slippageBps a) DEFAULT_SLIPPAGE_BPS)) (\<lambda>outputAmountMin.
     let remainder = positionAmount - swapAmount;
         mergeAmount = (if remainder < outputAmountMin then remainder else outputAmountMin) in
     if mergeAmount \<le> 0 then Inl (ValidationError ''Position is too small to unwind.'')
     else
     bindR (ensureConditionalAtasInstructions W (ta_refs a) (AddrObj user) None None) (\<lambda>ensure.
     bindR (toAddress W ''SOL ATA'' (ta_userBaseAta a)) (\<lambda>userBaseAta.
     bindR (sellInstructions W
       \<lparr>sp_refs = ta_refs a, sp_user = AddrObj user, sp_outcome = ta_outcome a,
        sp_swapAmount = swapAmount, sp_mergeAmount = mergeAmount,
        sp_userBaseAta = AddrObj userBaseAta,
        sp_userYesAta = Some (AddrObj (ea_userYesAta ensure)),
        sp_userNoAta = Some (AddrObj (ea_userNoAta ensure)),
        sp_outputAmountMin = Some outputAmountMin\<rparr>) (\<lambda>sell.
     Inr (setComputeUnitLimitIx T TRADE_COMPUTE_UNITS # ea_instructions ensure @ fst sell)))))))"

subsection \<open>The curve's bounds\<close>

lemma constantProductOut_pos:
  "0 < a \<Longrightarrow> 0 < x \<Longrightarrow> 0 < y \<Longrightarrow> constantProductOut a x y = a * y div (x + a)"
  by (simp add: constantProductOut_def bdiv_nonneg)

lemma constantProductOut_range:
  "0 \<le> constantProductOut a x y \<and> (0 < y \<longrightarrow> constantProductOut a x y < y)"
proof (cases "0 < a \<and> 0 < x \<and> 0 < y")
  case True
  have "a * y < y * (x + a)" using True by (simp add: algebra_simps)
  then have "a * y div (x + a) < y" using True by (intro zdiv_lessI) simp_all
  moreover have "0 \<le> a * y div (x + a)" using True by (intro pos_imp_zdiv_nonneg_iff [THEN iffD2]) simp_all
  ultimately show ?thesis using True by (simp add: constantProductOut_pos)
next
  case False
  then show ?thesis by (auto simp: constantProductOut_def)
qed

lemma constantProductOut_invariant:
  assumes "0 \<le> a" and "0 < x" and "0 < y"
  shows "x * y \<le> (x + a) * (y - constantProductOut a x y)"
proof (cases "a = 0")
  case True
  then show ?thesis by (simp add: constantProductOut_def)
next
  case False
  with assms have "a * y div (x + a) * (x + a) \<le> a * y" by (intro zdiv_mult_le) simp
  then show ?thesis using assms False by (simp add: constantProductOut_pos algebra_simps)
qed

lemma constantProductOut_mono:
  assumes "a \<le> b" and "0 < x" and "0 < y"
  shows "constantProductOut a x y \<le> constantProductOut b x y"
proof (cases "0 < a")
  case True
  define w where "w = constantProductOut a x y"
  have w: "w = a * y div (x + a)" using True assms by (simp add: w_def constantProductOut_pos)
  have wy: "0 \<le> w" "w \<le> y" using constantProductOut_range [of a x y] assms by (auto simp: w_def)
  have "w * (x + a) \<le> a * y" unfolding w using True assms by (intro zdiv_mult_le) simp
  moreover have "w * (b - a) \<le> y * (b - a)" using wy assms by (intro mult_right_mono) simp_all
  ultimately have "w * (x + b) \<le> b * y" by (simp add: algebra_simps)
  then have "w \<le> b * y div (x + b)" using True assms by (intro zdiv_geI) simp_all
  then show ?thesis using True assms by (simp add: w_def constantProductOut_pos)
next
  case False
  then show ?thesis using constantProductOut_range [of b x y] by (simp add: constantProductOut_def)
qed

lemma ammSwapOut_pos:
  "0 < a \<Longrightarrow> 0 < x \<Longrightarrow> 0 < y \<Longrightarrow> ammSwapOut a x y = constantProductOut (a * 9900 div 10000) x y"
  by (simp add: ammSwapOut_def AMM_FEE_BPS_def bdiv_nonneg)

lemma ammSwapOut_range: "0 \<le> ammSwapOut a x y \<and> (0 < y \<longrightarrow> ammSwapOut a x y < y)"
proof (cases "0 < a \<and> 0 < x \<and> 0 < y")
  case True
  then show ?thesis using constantProductOut_range [of "a * 9900 div 10000" x y]
    by (simp add: ammSwapOut_pos)
next
  case False
  then show ?thesis by (auto simp: ammSwapOut_def)
qed

lemma ammSwapOut_le_constantProductOut: "ammSwapOut a x y \<le> constantProductOut a x y"
proof (cases "0 < a \<and> 0 < x \<and> 0 < y")
  case True
  have "a * 9900 div 10000 \<le> a * 10000 div 10000" using True by (intro zdiv_mono1) simp_all
  then show ?thesis using True by (simp add: ammSwapOut_pos constantProductOut_mono)
next
  case False
  then show ?thesis using constantProductOut_range [of a x y] by (auto simp: ammSwapOut_def)
qed

lemma ammSwapOut_mono:
  assumes "a \<le> b" and "0 < x" and "0 < y"
  shows "ammSwapOut a x y \<le> ammSwapOut b x y"
proof (cases "0 < a")
  case True
  then have "a * 9900 div 10000 \<le> b * 9900 div 10000" using assms by (intro zdiv_mono1) simp_all
  then show ?thesis using True assms by (simp add: ammSwapOut_pos constantProductOut_mono)
next
  case False
  then show ?thesis using ammSwapOut_range [of b x y] by (simp add: ammSwapOut_def)
qed

lemma ammSwapOut_invariant:
  assumes "0 \<le> a" and "0 < x" and "0 < y"
  shows "x * y \<le> (x + a) * (y - ammSwapOut a x y)"
proof -
  have "x * y \<le> (x + a) * (y - constantProductOut a x y)"
    using assms by (rule constantProductOut_invariant)
  also have "\<dots> \<le> (x + a) * (y - ammSwapOut a x y)"
    using assms ammSwapOut_le_constantProductOut [of a x y] by (intro mult_left_mono) simp_all
  finally show ?thesis .
qed

subsection \<open>The slippage floor\<close>

lemma slippage_bps:
  assumes "sl \<noteq> NaN"
  shows "\<exists>bps. 0 \<le> bps \<and> bps \<le> 10000 \<and>
    BigIntOf (nmin (nmax (ntrunc sl) (Fin 0)) (Fin 10000)) = Inr bps"
proof (cases sl)
  case NaN
  with assms show ?thesis by simp
next
  case PInf
  then show ?thesis
    using BigIntOf_of_int [of 10000] by (intro exI [of _ 10000]) (simp add: nmax_def nmin_def)
next
  case NInf
  then show ?thesis
    using BigIntOf_of_int [of 0] by (intro exI [of _ 0]) (simp add: nmax_def nmin_def)
next
  case (Fin a)
  define k where "k = (if 0 \<le> a then \<lfloor>a\<rfloor> else \<lceil>a\<rceil>)"
  have m: "min (max (of_int k) 0) 10000 = (of_int (min (max k 0) 10000) :: rat)"
    by (simp add: min_def max_def)
  show ?thesis
    using BigIntOf_of_int [of "min (max k 0) 10000"] m
    by (intro exI [of _ "min (max k 0) 10000"]) (simp add: Fin k_def)
qed

lemma minOutFromSlippage_range:
  assumes "sl \<noteq> NaN"
  shows "\<exists>m. minOutFromSlippage est sl = Inr m \<and> 0 \<le> m \<and> m \<le> max est 0"
proof (cases "est \<le> 0")
  case True
  then show ?thesis by (simp add: minOutFromSlippage_def)
next
  case False
  obtain bps where b: "0 \<le> bps" "bps \<le> 10000"
    and e: "BigIntOf (nmin (nmax (ntrunc sl) (Fin 0)) (Fin 10000)) = Inr bps"
    using slippage_bps [OF assms] by blast
  have "est * (10000 - bps) div 10000 \<le> est * 10000 div 10000"
    using False b by (intro zdiv_mono1 mult_left_mono) simp_all
  moreover have "0 \<le> est * (10000 - bps) div 10000"
    using False b by (intro pos_imp_zdiv_nonneg_iff [THEN iffD2]) simp_all
  ultimately show ?thesis using False b e by (simp add: minOutFromSlippage_def bdiv_nonneg)
qed

lemma minOutFromSlippage_bps:
  assumes "0 \<le> bps" and "bps \<le> 10000" and "0 \<le> est"
  shows "minOutFromSlippage est (Fin (of_int bps)) = Inr (est * (10000 - bps) div 10000)"
proof -
  have "nmin (nmax (ntrunc (Fin (of_int bps))) (Fin 0)) (Fin 10000) = Fin (of_int bps)"
    using assms by (simp add: min_def max_def)
  then show ?thesis using assms
    by (simp add: minOutFromSlippage_def bdiv_nonneg del: ntrunc.simps nmax_Fin nmin_Fin)
qed

subsection \<open>The unwinding swap\<close>

lemma repr_2_64: "repr (2 ^ 64)"
  by (rule repr_big) simp

text \<open>A 64-bit amount as a number: finite, not negative, and positive when the amount is.\<close>

lemma Number_u64:
  assumes "0 \<le> n" and "n \<le> 2 ^ 64"
  shows "\<exists>a. Number n = Fin a \<and> 0 \<le> a \<and> a \<le> 2 ^ 64 \<and> (0 < n \<longrightarrow> 1 \<le> a)"
proof -
  have "\<bar>of_int n :: rat\<bar> \<le> of_int (2 ^ 64)" using assms by (simp only: of_int_abs [symmetric] of_int_le_iff)
  then have n: "(of_int n :: rat) \<le> 2 ^ 64" using assms by simp
  have "(2 :: rat) ^ 64 \<le> 2 ^ 1023" by (rule power_increasing) simp_all
  then have "Number n = Fin (rnd (of_int n))"
    using n assms unfolding Number_def by (intro num_finite) simp
  moreover have "0 \<le> rnd (of_int n)" using assms by (intro rnd_nonneg) simp
  moreover have "rnd (of_int n) \<le> 2 ^ 64" using n repr_2_64 by (rule dbl.r_le)
  moreover have "1 \<le> rnd (of_int n)" if "0 < n" using that by (intro dbl.r_ge) simp_all
  ultimately show ?thesis by blast
qed

text \<open>Numbers that are not negative, infinity included.\<close>

definition nonneg :: "jsnum \<Rightarrow> bool" where
  "nonneg x \<longleftrightarrow> x = PInf \<or> (\<exists>a. x = Fin a \<and> 0 \<le> a)"

lemma nonneg_num: "0 \<le> x \<Longrightarrow> nonneg (num x)"
proof -
  assume "0 \<le> x"
  then have "0 \<le> rnd x" by (rule rnd_nonneg)
  moreover have "- (2 ^ 1024) < (0 :: rat)"
    by (simp only: neg_less_0_iff_less) (rule zero_less_power, simp)
  ultimately have "\<not> rnd x \<le> - (2 ^ 1024)" by (meson less_le_trans not_le)
  with \<open>0 \<le> rnd x\<close> show ?thesis unfolding num_def Let_def nonneg_def by simp
qed

lemma nonneg_PInf [simp]: "nonneg PInf"
  by (simp add: nonneg_def)

lemma nonnegE:
  assumes "nonneg x"
  obtains "x = PInf" | a where "x = Fin a" "0 \<le> a"
  using assms by (auto simp: nonneg_def)

lemma nonneg_nadd: "nonneg x \<Longrightarrow> nonneg y \<Longrightarrow> nonneg (nadd x y)"
  by (elim nonnegE) (simp_all add: nonneg_num)

lemma nonneg_nmul_Fin: "0 \<le> a * b \<Longrightarrow> nonneg (nmul (Fin a) (Fin b))"
  by (simp add: nonneg_num)

lemma nonneg_nmul: "nonneg x \<Longrightarrow> 0 < b \<Longrightarrow> nonneg (nmul x (Fin b))"
  by (elim nonnegE) (simp_all add: nonneg_num inf_of_def)

lemma nonneg_nmax: "nonneg x \<Longrightarrow> nmax x (Fin 0) = x"
  by (auto simp: nonneg_def nmax_def)

lemma nonneg_nsqrt: "nonneg x \<Longrightarrow> nsqrt x = PInf \<or> (\<exists>a. nsqrt x = Fin a)"
  by (elim nonnegE) simp_all

lemma floor_clamp:
  assumes "x \<noteq> NaN" and "1 \<le> hi"
  shows "\<exists>s. nmin (nmax (nfloor x) (Fin 1)) (Fin (of_int hi)) = Fin (of_int s) \<and> 1 \<le> s \<and> s \<le> hi"
proof (cases x)
  case (Fin a)
  have "min (max (of_int \<lfloor>a\<rfloor>) 1) (of_int hi) = (of_int (min (max \<lfloor>a\<rfloor> 1) hi) :: rat)"
    by (simp add: min_def max_def)
  then show ?thesis using assms Fin by (intro exI [of _ "min (max \<lfloor>a\<rfloor> 1) hi"]) simp
next
  case PInf
  then show ?thesis using assms by (intro exI [of _ hi]) (simp add: nmax_def nmin_def)
next
  case NInf
  have "(1 :: rat) \<le> of_int hi" using assms by simp
  then show ?thesis using assms NInf by (intro exI [of _ 1]) (simp add: nmax_def nmin_def)
qed (use assms in simp)

lemma optimalUnwindSwap_range:
  assumes held: "1 < held" "held \<le> 2 ^ 53"
    and res: "0 < inReserve" "inReserve \<le> 2 ^ 64" "0 < outReserve" "outReserve \<le> 2 ^ 64"
  shows "\<exists>s. optimalUnwindSwap held inReserve outReserve = Inr s \<and> 1 \<le> s \<and> s \<le> held - 1"
proof -
  obtain a where a: "Number inReserve = Fin a" "1 \<le> a" "a \<le> 2 ^ 64" using Number_u64 [of inReserve] res by auto
  obtain b where b: "Number outReserve = Fin b" "1 \<le> b" "b \<le> 2 ^ 64" using Number_u64 [of outReserve] res by auto
  have h: "Number held = Fin (of_int held)" using held by (intro Number_exact) simp
  have big: "(2 :: rat) ^ 65 \<le> 2 ^ 1023" by (rule power_increasing) simp_all
  have r65: "repr (2 ^ 65)" by (rule repr_big) simp
  define ab where "ab = rnd (a + b)"
  have ab: "nadd (Fin a) (Fin b) = Fin ab" using a b big by (simp add: ab_def num_finite)
  have ab0: "0 \<le> ab" "ab \<le> 2 ^ 65"
    using a b r65 by (auto simp: ab_def intro!: rnd_nonneg dbl.r_le)
  have "(of_int held :: rat) \<le> of_int (2 ^ 53)" using held by (simp only: of_int_le_iff)
  then have hb: "0 \<le> (of_int held :: rat)" "(of_int held :: rat) \<le> 2 ^ 65" using held by simp_all
  have "\<bar>ab - of_int held\<bar> \<le> 2 ^ 65" using ab0 hb by linarith
  then have li: "nsub (Fin ab) (Fin (of_int held)) = Fin (rnd (ab - of_int held))"
    using big by (simp only: nsub_def nneg.simps nadd.simps add_uminus_conv_diff num_finite order_trans)
  have hm: "nsub (Fin (of_int held)) (Fin 1) = Fin (of_int (held - 1))"
  proof -
    have "num (of_int (held - 1)) = Fin (of_int (held - 1))"
      using Number_exact [of "held - 1"] held by (simp add: Number_def)
    then show ?thesis by (simp add: nsub_def)
  qed
  define li where "li = rnd (ab - of_int held)"
  define d where "d = nadd (nmul (Fin li) (Fin li)) (nmul (nmul (Fin 4) (Fin (of_int held))) (Fin a))"
  have "nonneg d"
    unfolding d_def using held a by (intro nonneg_nadd nonneg_nmul nonneg_nmul_Fin) simp_all
  then have sq: "nsqrt (nmax d (Fin 0)) = PInf \<or> (\<exists>q. nsqrt (nmax d (Fin 0)) = Fin q)"
    by (simp add: nonneg_nmax nonneg_nsqrt)
  define s where "s = ndiv (nadd (nneg (Fin li)) (nsqrt (nmax d (Fin 0)))) (Fin 2)"
  have "nadd (nneg (Fin li)) (nsqrt (nmax d (Fin 0))) \<noteq> NaN"
    using sq nadd_not_NaN [of "- li"] by auto
  then have "s \<noteq> NaN"
    unfolding s_def by (cases "nadd (nneg (Fin li)) (nsqrt (nmax d (Fin 0)))")
      (auto simp: inf_of_def num_def Let_def)
  from floor_clamp [OF this, of "held - 1"] held
  obtain k where k: "nmin (nmax (nfloor s) (Fin 1)) (Fin (of_int (held - 1))) = Fin (of_int k)"
    and r: "1 \<le> k" "k \<le> held - 1" by auto
  have "optimalUnwindSwap held inReserve outReserve = BigIntOf (Fin (of_int k))"
    using held res
    by (simp add: optimalUnwindSwap_def Let_def a(1) b(1) h ab li hm k [unfolded s_def d_def] li_def [symmetric]
        del: nmul.simps nadd.simps nneg.simps of_int_diff)
  with r show ?thesis by simp
qed

subsection \<open>The price impact\<close>

lemma impactOf_range:
  assumes "0 < x" "x \<le> 2 ^ 64" "0 \<le> y" "y \<le> 2 ^ 64" "0 < a" "a \<le> 2 ^ 64" "0 \<le> n" "n \<le> 2 ^ 64"
  shows "\<exists>c. impactOf a n x y = Fin c \<and> 0 \<le> c \<and> c \<le> 1"
proof -
  obtain i where i: "Number x = Fin i" "1 \<le> i" using Number_u64 [of x] assms by auto
  obtain q where q: "Number y = Fin q" "0 \<le> q" using Number_u64 [of y] assms by auto
  obtain b where b: "Number a = Fin b" "1 \<le> b" using Number_u64 [of a] assms by auto
  obtain m where m: "Number n = Fin m" "0 \<le> m" using Number_u64 [of n] assms by auto
  have big: "(2 :: rat) ^ 64 \<le> 2 ^ 1023" by (rule power_increasing) simp_all
  have fin: "ndiv (Fin u) (Fin v) = Fin (rnd (u / v)) \<and> 0 \<le> rnd (u / v)"
    if "0 \<le> u" "u \<le> 2 ^ 64" "1 \<le> v" for u v :: rat
  proof -
    have "u * 1 \<le> 2 ^ 64 * v" using that by (intro mult_mono) simp_all
    then have "u / v \<le> 2 ^ 64" using that by (simp add: divide_le_eq)
    then show ?thesis using that big by (simp add: num_finite rnd_nonneg)
  qed
  have q64: "q \<le> 2 ^ 64" using q(1) Number_u64 [of y] assms by auto
  have m64: "m \<le> 2 ^ 64" using m(1) Number_u64 [of n] assms by auto
  define sp where "sp = rnd (q / i)"
  define ef where "ef = rnd (m / b)"
  have sp: "ndiv (Fin q) (Fin i) = Fin sp" using fin [of q i] q q64 i by (simp add: sp_def)
  have ef: "ndiv (Fin m) (Fin b) = Fin ef" "0 \<le> ef" using fin [of m b] m m64 b by (simp_all add: ef_def)
  show ?thesis
  proof (cases "0 < sp")
    case True
    have "nonneg (ndiv (Fin ef) (Fin sp))" using True ef(2) by (simp add: nonneg_num)
    then have "nsub (Fin 1) (ndiv (Fin ef) (Fin sp)) \<noteq> NaN"
      by (elim nonnegE) (simp_all add: nsub_def num_def Let_def del: ndiv.simps)
    from clamp_Fin [OF this, of 0 1] show ?thesis
      using True by (simp add: impactOf_def Let_def i q b m sp ef del: ndiv.simps)
  next
    case False
    then show ?thesis by (simp add: impactOf_def Let_def i q b m sp ef del: ndiv.simps)
  qed
qed

subsection \<open>What the builders assemble\<close>

lemma createIdempotentAta_Inr:
  "createIdempotentAta W payer owner mint = Inr p \<longleftrightarrow>
     (\<exists>ata bump. pda_associatedTokenAccount W (AddrObj owner) (AddrObj mint) = Inr (ata, bump) \<and>
        p = (createAtaIdempotentInstruction W payer ata owner mint, ata))"
  by (auto simp: createIdempotentAta_def mapR_Inr_iff)

lemma ensure_two:
  assumes "ensureConditionalAtasInstructions W refs (AddrObj user) None None = Inr e"
  shows "ea_instructions e =
      [createAtaIdempotentInstruction W user (ea_userYesAta e) user (mr_yesMint refs),
       createAtaIdempotentInstruction W user (ea_userNoAta e) user (mr_noMint refs)]"
    and "md_ata W (AddrObj user) (AddrObj (mr_yesMint refs)) = Inr (ea_userYesAta e)"
    and "md_ata W (AddrObj user) (AddrObj (mr_noMint refs)) = Inr (ea_userNoAta e)"
  using assms
  by (auto simp: ensureConditionalAtasInstructions_def Let_def createIdempotentAta_Inr
      md_ata_associatedTokenAccount)

text \<open>
  The form of a trade list: the compute budget, the creation of the two accounts, then two
  instructions that both use exactly these accounts.
\<close>

definition trade_list ::
  "web3 \<Rightarrow> txlib \<Rightarrow> MarketRefs \<Rightarrow> address \<Rightarrow> instruction \<Rightarrow> instruction \<Rightarrow> instruction list \<Rightarrow> bool" where
  "trade_list W T refs user vaultIx swapIx ixs \<longleftrightarrow>
     (\<exists>yes no. md_ata W (AddrObj user) (AddrObj (mr_yesMint refs)) = Inr yes \<and>
        md_ata W (AddrObj user) (AddrObj (mr_noMint refs)) = Inr no \<and>
        take 3 ixs = [setComputeUnitLimitIx T TRADE_COMPUTE_UNITS,
          createAtaIdempotentInstruction W user yes user (mr_yesMint refs),
          createAtaIdempotentInstruction W user no user (mr_noMint refs)] \<and>
        key_at vaultIx 10 = yes \<and> key_at vaultIx 11 = no \<and>
        key_at swapIx 2 = yes \<and> key_at swapIx 3 = no)"

lemma buyInstructions_Inr:
  assumes "buyInstructions W p = Inr (ixs, yes, no)"
    and "bp_userYesAta p = Some (AddrObj y)" and "bp_userNoAta p = Some (AddrObj n)"
  obtains split sw ty where "ixs = [split, sw]" "yes = y" "no = n"
    "bp_outcome p = ''yes'' \<and> ty = Buy \<or> bp_outcome p = ''no'' \<and> ty = Sell"
    "splitTokens W (vaultArgs (bp_refs p) (bp_user p) (bp_userBaseAta p) y n) (bp_kassAmount p) = Inr split"
    "swap W (swapArgs (bp_refs p) (bp_user p) y n ty (bp_kassAmount p) (bp_outputAmountMin p)) = Inr sw"
  using assms
  by (auto simp: buyInstructions_def userConditionalAtas_def isYes_def split: if_splits)

lemma sellInstructions_Inr:
  assumes "sellInstructions W p = Inr (ixs, yes, no)"
    and "sp_userYesAta p = Some (AddrObj y)" and "sp_userNoAta p = Some (AddrObj n)"
  obtains sw merge ty where "ixs = [sw, merge]" "yes = y" "no = n"
    "sp_outcome p = ''yes'' \<and> ty = Sell \<or> sp_outcome p = ''no'' \<and> ty = Buy"
    "swap W (swapArgs (sp_refs p) (sp_user p) y n ty (sp_swapAmount p) (sp_outputAmountMin p)) = Inr sw"
    "mergeTokens W (vaultArgs (sp_refs p) (sp_user p) (sp_userBaseAta p) y n) (sp_mergeAmount p) = Inr merge"
  using assms
  by (auto simp: sellInstructions_def userConditionalAtas_def isYes_def split: if_splits)

definition swap_data :: "SwapType \<Rightarrow> int \<Rightarrow> int \<Rightarrow> bytes" where
  "swap_data ty amount outMin = DISC_swap @ u8 (swap_code ty) @ u64LE amount @ u64LE outMin"

lemma buildBuyIxs_Inr:
  assumes b: "buildBuyIxs W T indexer a amount = Inr ixs"
  shows "\<exists>user r split sw outMin. addr W (ta_user a) = Inr user \<and> 0 < amount \<and>
    tradeReserves W indexer a = Some r \<and> drop 3 ixs = [split, sw] \<and>
    trade_list W T (ta_refs a) user split sw ixs \<and>
    ixData split = DISC_splitTokens @ u64LE amount \<and>
    ixData sw = swap_data (if ta_outcome a = ''yes'' then Buy else Sell) amount outMin \<and>
    minOutFromSlippage (ammSwapOut amount (fst (reservePair r (ta_outcome a = ''yes'')))
      (snd (reservePair r (ta_outcome a = ''yes'')))) (orElse (ta_slippageBps a) DEFAULT_SLIPPAGE_BPS) =
      Inr outMin"
proof -
  from b obtain user r pv ens base buy where
    u: "toAddress W ''Trader'' (ta_user a) = Inr user" and amt: "0 < amount"
    and r: "tradeReserves W indexer a = Some r"
    and pv: "previewBuy (Some r) (ta_outcome a) amount
      (Some (orElse (ta_slippageBps a) DEFAULT_SLIPPAGE_BPS)) = Inr pv"
    and ens: "ensureConditionalAtasInstructions W (ta_refs a) (AddrObj user) None None = Inr ens"
    and buy: "buyInstructions W
       \<lparr>bp_refs = ta_refs a, bp_user = AddrObj user, bp_outcome = ta_outcome a,
        bp_kassAmount = amount, bp_userBaseAta = AddrObj base,
        bp_userYesAta = Some (AddrObj (ea_userYesAta ens)),
        bp_userNoAta = Some (AddrObj (ea_userNoAta ens)),
        bp_outputAmountMin = Some (snd pv)\<rparr> = Inr buy"
    and ixs: "ixs = setComputeUnitLimitIx T TRADE_COMPUTE_UNITS # ea_instructions ens @ fst buy"
    by (auto simp: buildBuyIxs_def split: if_splits option.splits)
  obtain bixs yes no where bq: "buy = (bixs, yes, no)" by (cases buy)
  obtain split sw ty where bi: "bixs = [split, sw]"
    and ty: "ta_outcome a = ''yes'' \<and> ty = Buy \<or> ta_outcome a = ''no'' \<and> ty = Sell"
    and sp: "splitTokens W (vaultArgs (ta_refs a) (AddrObj user) (AddrObj base)
      (ea_userYesAta ens) (ea_userNoAta ens)) amount = Inr split"
    and sw: "swap W (swapArgs (ta_refs a) (AddrObj user) (ea_userYesAta ens) (ea_userNoAta ens) ty
      amount (Some (snd pv))) = Inr sw"
    by (rule buyInstructions_Inr [OF buy [unfolded bq], of "ea_userYesAta ens" "ea_userNoAta ens"])
      auto
  note k = interact_keys [OF sp [unfolded splitTokens_def]] and ks = swap_keys [OF sw]
  have m: "minOutFromSlippage (ammSwapOut amount (fst (reservePair r (ta_outcome a = ''yes'')))
      (snd (reservePair r (ta_outcome a = ''yes'')))) (orElse (ta_slippageBps a) DEFAULT_SLIPPAGE_BPS) =
      Inr (snd pv)"
    using pv amt by (auto simp: previewBuy_def Let_def split: prod.splits)
  have "trade_list W T (ta_refs a) user split sw ixs"
    unfolding trade_list_def ixs using ensure_two [OF ens] k ks by simp
  moreover have "ixData sw = swap_data (if ta_outcome a = ''yes'' then Buy else Sell) amount (snd pv)"
    using ks(4) ty by (auto simp: swap_data_def)
  moreover have "drop 3 ixs = [split, sw]" using ensure_two(1) [OF ens] by (simp add: ixs bq bi)
  ultimately show ?thesis using u amt r k(6) m by (auto simp: toAddress_Inr_iff)
qed

lemma buildSellIxs_Inr:
  assumes b: "buildSellIxs W T indexer a amount = Inr ixs"
  shows "\<exists>user r sw mg s outMin m. addr W (ta_user a) = Inr user \<and> 0 < amount \<and>
    tradeReserves W indexer a = Some r \<and> drop 3 ixs = [sw, mg] \<and>
    trade_list W T (ta_refs a) user mg sw ixs \<and>
    ixData sw = swap_data (if ta_outcome a = ''yes'' then Sell else Buy) s outMin \<and>
    ixData mg = DISC_mergeTokens @ u64LE m \<and>
    optimalUnwindSwap amount (fst (reservePair r (ta_outcome a \<noteq> ''yes'')))
      (snd (reservePair r (ta_outcome a \<noteq> ''yes''))) = Inr s \<and>
    minOutFromSlippage (ammSwapOut s (fst (reservePair r (ta_outcome a \<noteq> ''yes'')))
      (snd (reservePair r (ta_outcome a \<noteq> ''yes'')))) (orElse (ta_slippageBps a) DEFAULT_SLIPPAGE_BPS) =
      Inr outMin \<and>
    0 < s \<and> 0 < m \<and> m \<le> outMin \<and> m \<le> amount - s"
proof -
  from b obtain user r s outMin ens base sell where
    u: "toAddress W ''Trader'' (ta_user a) = Inr user" and amt: "0 < amount"
    and r: "tradeReserves W indexer a = Some r"
    and s: "optimalUnwindSwap amount (fst (reservePair r (ta_outcome a \<noteq> ''yes'')))
      (snd (reservePair r (ta_outcome a \<noteq> ''yes''))) = Inr s" "0 < s"
    and o: "minOutFromSlippage (ammSwapOut s (fst (reservePair r (ta_outcome a \<noteq> ''yes'')))
      (snd (reservePair r (ta_outcome a \<noteq> ''yes'')))) (orElse (ta_slippageBps a) DEFAULT_SLIPPAGE_BPS) =
      Inr outMin"
    and mpos: "0 < min (amount - s) outMin"
    and ens: "ensureConditionalAtasInstructions W (ta_refs a) (AddrObj user) None None = Inr ens"
    and sell: "sellInstructions W
       \<lparr>sp_refs = ta_refs a, sp_user = AddrObj user, sp_outcome = ta_outcome a,
        sp_swapAmount = s, sp_mergeAmount = min (amount - s) outMin,
        sp_userBaseAta = AddrObj base,
        sp_userYesAta = Some (AddrObj (ea_userYesAta ens)),
        sp_userNoAta = Some (AddrObj (ea_userNoAta ens)),
        sp_outputAmountMin = Some outMin\<rparr> = Inr sell"
    and ixs: "ixs = setComputeUnitLimitIx T TRADE_COMPUTE_UNITS # ea_instructions ens @ fst sell"
    by (cases "reservePair r (ta_outcome a \<noteq> ''yes'')")
      (auto simp: buildSellIxs_def Let_def split_beta min_def split: if_splits option.splits)
  obtain bixs yes no where sq: "sell = (bixs, yes, no)" by (cases sell)
  obtain sw mg ty where bi: "bixs = [sw, mg]"
    and ty: "ta_outcome a = ''yes'' \<and> ty = Sell \<or> ta_outcome a = ''no'' \<and> ty = Buy"
    and sw: "swap W (swapArgs (ta_refs a) (AddrObj user) (ea_userYesAta ens) (ea_userNoAta ens) ty
      s (Some outMin)) = Inr sw"
    and mg: "mergeTokens W (vaultArgs (ta_refs a) (AddrObj user) (AddrObj base)
      (ea_userYesAta ens) (ea_userNoAta ens)) (min (amount - s) outMin) = Inr mg"
    by (rule sellInstructions_Inr [OF sell [unfolded sq], of "ea_userYesAta ens" "ea_userNoAta ens"])
      auto
  note k = interact_keys [OF mg [unfolded mergeTokens_def]] and ks = swap_keys [OF sw]
  have "trade_list W T (ta_refs a) user mg sw ixs"
    unfolding trade_list_def ixs using ensure_two [OF ens] k ks by simp
  moreover have "ixData sw = swap_data (if ta_outcome a = ''yes'' then Sell else Buy) s outMin"
    using ks(4) ty by (auto simp: swap_data_def)
  moreover have "drop 3 ixs = [sw, mg]" using ensure_two(1) [OF ens] by (simp add: ixs sq bi)
  ultimately show ?thesis using u amt r s o mpos k(6)
    by (intro exI [of _ user] exI [of _ r] exI [of _ sw] exI [of _ mg] exI [of _ s] exI [of _ outMin]
        exI [of _ "min (amount - s) outMin"]) (simp add: toAddress_Inr_iff)
qed

end
