(* ===== verification/MarketView.thy ===== *)
theory MarketView
  imports Trade
begin

text \<open>
  \<open>app/src/market/lib/marketView.ts\<close> and \<open>lib/beliefs.ts\<close>: what the market pages show.
  Statuses and phases are the numbers that the decoders return.  Probabilities are doubles.
\<close>

definition YES_OPTION :: int where "YES_OPTION = 0"
definition NO_OPTION :: int where "NO_OPTION = 1"
definition RESOLVED_OPTION_NONE :: int where "RESOLVED_OPTION_NONE = 255"
definition SOL_DECIMALS :: nat where "SOL_DECIMALS = 9"

subsection \<open>Status\<close>

datatype ChipTone = Neutral | Info | Ember | ConfirmedTone | Muted

fun CHIP_TONE_CLASSES :: "ChipTone \<Rightarrow> string" where
  "CHIP_TONE_CLASSES Neutral = ''border-hairline bg-liquid-deep text-silver''"
| "CHIP_TONE_CLASSES Info = ''border-cyan-phosphor/30 bg-cyan-phosphor/10 text-cyan-phosphor''"
| "CHIP_TONE_CLASSES Ember = ''border-coral/40 bg-coral/10 text-coral''"
| "CHIP_TONE_CLASSES ConfirmedTone = ''border-aqua/30 bg-aqua/10 text-aqua''"
| "CHIP_TONE_CLASSES Muted = ''border-hairline bg-transparent text-silver-dim''"

definition statusLabel :: "int \<Rightarrow> string" where
  "statusLabel status =
     (if status = status_code Funding then ''Funding''
      else if status = status_code Active then ''Active''
      else if status = status_code Resolved then ''Resolved''
      else if status = status_code Void then ''Void''
      else if status = status_code Cancelled then ''Cancelled''
      else ''Unknown'')"

definition statusTone :: "int \<Rightarrow> ChipTone" where
  "statusTone status =
     (if status = status_code Active then Ember
      else if status = status_code Resolved then ConfirmedTone
      else if status = status_code Void \<or> status = status_code Cancelled then Muted
      else if status = status_code Funding then Info
      else Neutral)"

definition statusChipClasses :: "int \<Rightarrow> string" where
  "statusChipClasses status = CHIP_TONE_CLASSES (statusTone status)"

record FundingActions =
  fa_canActivate :: bool
  fa_canCancel :: bool

definition fundingActions :: "bool \<Rightarrow> bool \<Rightarrow> FundingActions" where
  "fundingActions funded oracleTerminal =
     \<lparr>fa_canActivate = (funded \<and> \<not> oracleTerminal), fa_canCancel = oracleTerminal\<rparr>"

record FundingProgress =
  fp_pct :: jsnum
  fp_funded :: bool

definition fundingProgress :: "int \<Rightarrow> int \<Rightarrow> FundingProgress" where
  "fundingProgress totalContributed minLiquidity =
     (if minLiquidity \<le> 0 then \<lparr>fp_pct = Fin 1, fp_funded = True\<rparr>
      else if totalContributed \<ge> minLiquidity then \<lparr>fp_pct = Fin 1, fp_funded = True\<rparr>
      else (let pct = ndiv (Number totalContributed) (Number minLiquidity) in
            \<lparr>fp_pct = nmax (Fin 0) (nmin (Fin 1) pct), fp_funded = False\<rparr>))"

subsection \<open>Pool values\<close>

definition impliedYesProbability :: "AmmReserves option \<Rightarrow> jsnum option" where
  "impliedYesProbability reserves =
     (case reserves of
        None \<Rightarrow> None
      | Some r \<Rightarrow>
          (let tot = ar_base r + ar_quote r in
           if tot \<le> 0 then None else Some (ndiv (Number (ar_quote r)) (Number tot))))"

definition poolValueKass :: "AmmReserves option \<Rightarrow> int option" where
  "poolValueKass reserves =
     (case reserves of
        None \<Rightarrow> None
      | Some r \<Rightarrow>
          (let s = ar_base r + ar_quote r in
           if s \<le> 0 then None else Some (bdiv (2 * ar_base r * ar_quote r) s)))"

definition contributorLp :: "int \<Rightarrow> int \<Rightarrow> int \<Rightarrow> int \<Rightarrow> int" where
  "contributorLp amount lateLp activationLp activationContributed =
     (let fundingLp = (if activationContributed > 0
                       then bdiv (amount * activationLp) activationContributed else 0)
      in fundingLp + lateLp)"

subsection \<open>Text\<close>

text \<open>The decimal form of a number that \<open>Math.round\<close> returned, below \<open>10 ^ 21\<close>.\<close>

fun round_str :: "jsnum \<Rightarrow> string" where
  "round_str (Fin a) = show_int \<lfloor>a\<rfloor>"
| "round_str PInf = ''Infinity''"
| "round_str NInf = ''-Infinity''"
| "round_str NaN = ''NaN''"

definition formatProbability :: "jsnum option \<Rightarrow> string" where
  "formatProbability p =
     (case p of
        None \<Rightarrow> [CHR 0x97]
      | Some x \<Rightarrow> if x = NaN then [CHR 0x97] else round_str (nround (nmul x (Fin 100))) @ ''%'')"

text \<open>
  \<open>replace(/\B(?=(\d{3})+(?!\d))/g, ",")\<close> on a string of digits: a comma before each group of
  three that ends at the end of the string.
\<close>

fun commas :: "string \<Rightarrow> string" where
  "commas [] = []"
| "commas (c # s) = c # (if s \<noteq> [] \<and> length s mod 3 = 0 then CHR '','' # commas s else commas s)"

definition padStart :: "nat \<Rightarrow> string \<Rightarrow> string" where
  "padStart n s = replicate (n - length s) CHR ''0'' @ s"

definition padEnd :: "nat \<Rightarrow> string \<Rightarrow> string" where
  "padEnd n s = s @ replicate (n - length s) CHR ''0''"

text \<open>\<open>replace(/0+$/, "")\<close>.\<close>

definition strip_zeros :: "string \<Rightarrow> string" where
  "strip_zeros s = rev (dropWhile (\<lambda>c. c = CHR ''0'') (rev s))"

definition formatSol :: "int \<Rightarrow> string" where
  "formatSol amount =
     (let neg = amount < 0;
          a = (if neg then - amount else amount);
          scale = 10 ^ SOL_DECIMALS;
          whole = bdiv a scale;
          frac = a - bdiv a scale * scale;
          wholeStr = commas (show_int whole);
          out = (if frac > 0
                 then wholeStr @ ''.'' @ strip_zeros (padStart SOL_DECIMALS (show_int frac))
                 else wholeStr)
      in if neg then ''-'' @ out else out)"

definition phaseLabel :: "int \<Rightarrow> string" where
  "phaseLabel phase =
     (if phase = phase_code PhaseOpen then ''Open''
      else if phase = phase_code PhaseResolved then ''Resolved''
      else if phase = phase_code PhaseVoid then ''Void''
      else ''Unknown'')"

definition resolutionText :: "MarketOracle option \<Rightarrow> string" where
  "resolutionText orc =
     (case orc of
        None \<Rightarrow> ''GPT subject unavailable''
      | Some s \<Rightarrow>
          if or_phase s = phase_code PhaseResolved then
            (if or_resolvedOption s = YES_OPTION then ''YES won''
             else if or_resolvedOption s = NO_OPTION then ''NO won''
             else ''Resolved'')
          else if or_phase s = phase_code PhaseVoid then ''Voided''
          else phaseLabel (or_phase s))"

text \<open>\<open>Phase.InvalidDeadend\<close> is the older name of \<open>Phase.Void\<close>.\<close>

definition outcomeResolutionText :: "MarketOracle option \<Rightarrow> int \<Rightarrow> string" where
  "outcomeResolutionText orc outcomeIndex =
     (case orc of
        None \<Rightarrow> ''Oracle unavailable''
      | Some s \<Rightarrow>
          if or_phase s = phase_code PhaseResolved then
            (if or_resolvedOption s = outcomeIndex then ''YES won'' else ''NO won'')
          else if or_phase s = phase_code PhaseVoid then ''Voided''
          else phaseLabel (or_phase s))"

definition outcomeLabel :: "int \<Rightarrow> string option \<Rightarrow> string" where
  "outcomeLabel index label =
     (case map_option trim label of
        Some t \<Rightarrow> if t \<noteq> [] then t else ''Outcome '' @ show_int index
      | None \<Rightarrow> ''Outcome '' @ show_int index)"

definition truncateMiddle :: "string \<Rightarrow> nat option \<Rightarrow> nat option \<Rightarrow> string" where
  "truncateMiddle value head0 tail0 =
     (let h = orElse head0 4; t = orElse tail0 4 in
      if length value \<le> h + t + 1 then value
      else take h value @ [CHR 0x85] @ (if t = 0 then value else drop (length value - t) value))"

subsection \<open>Groups\<close>

record OutcomeRow =
  ow_index :: int
  ow_label :: string
  ow_pubkey :: string
  ow_probability :: "jsnum option"
  ow_status :: int

definition outcomeRow :: "MarketSummary \<Rightarrow> string option \<Rightarrow> OutcomeRow" where
  "outcomeRow summary label =
     (let index = mk_outcomeIndex (ms_market summary) in
      \<lparr>ow_index = index, ow_label = outcomeLabel index label, ow_pubkey = ms_pubkey summary,
       ow_probability = impliedYesProbability (ms_reserves summary),
       ow_status = mk_status (ms_market summary)\<rparr>)"

definition GROUP_STATUS_PRIORITY :: "MarketStatus list" where
  "GROUP_STATUS_PRIORITY = [Active, Funding, Resolved, Void, Cancelled]"

definition groupStatus :: "MarketSummary list \<Rightarrow> MarketStatus" where
  "groupStatus markets =
     (let statuses = set (map (\<lambda>m. mk_status (ms_market m)) markets) in
      orElse (find_first (\<lambda>c. status_code c \<in> statuses) GROUP_STATUS_PRIORITY) Funding)"

definition countSome :: "'a option list \<Rightarrow> nat" where
  "countSome values = foldl (\<lambda>count v. count + (if v = None then 0 else 1)) 0 values"

definition sumSome :: "jsnum option list \<Rightarrow> jsnum" where
  "sumSome values = foldl (\<lambda>acc v. nadd acc (orElse v (Fin 0))) (Fin 0) values"

definition normalizeAcrossGroup :: "jsnum option list \<Rightarrow> jsnum option list" where
  "normalizeAcrossGroup values =
     (if countSome values < 2 then values
      else (let s = sumSome values in
            if nle s (Fin 0) then values else map (map_option (\<lambda>v. ndiv v s)) values))"

definition oddsOf :: "jsnum \<Rightarrow> jsnum" where
  "oddsOf v = (if nle (Fin 1) v then PInf else ndiv v (nsub (Fin 1) v))"

definition normalizeOddsAcrossGroup :: "jsnum option list \<Rightarrow> jsnum option list" where
  "normalizeOddsAcrossGroup values =
     (if countSome values < 2 then values
      else
        (let odds = map (map_option oddsOf) values;
             infiniteCount = foldl (\<lambda>count q. count + (if q = Some PInf then 1 else 0)) (0 :: nat) odds
         in if infiniteCount > 0
            then map (map_option (\<lambda>q. if q = PInf then ndiv (Fin 1) (Number (int infiniteCount)) else Fin 0)) odds
            else (let s = sumSome odds in
                  if nle s (Fin 0) then values else map (map_option (\<lambda>q. ndiv q s)) odds)))"

definition firstBoundMarketPubkey :: "web3 \<Rightarrow> MarketSummary list \<Rightarrow> string \<Rightarrow> string option" where
  "firstBoundMarketPubkey W markets orc =
     (case js_sort cmpOutcome (filter (\<lambda>m. toBase58 W (mk_oracle (ms_market m)) = orc) markets) of
        [] \<Rightarrow> None
      | m # _ \<Rightarrow> Some (ms_pubkey m))"

subsection \<open>The detail view\<close>

datatype DetailView = VLoading | VError | VReady | VEmpty

definition detailView :: "string option \<Rightarrow> string option \<Rightarrow> bool \<Rightarrow> js_error option \<Rightarrow> DetailView" where
  "detailView pk data loading err =
     (if data \<noteq> None \<and> data = pk then VReady
      else if loading then VLoading
      else if err \<noteq> None then VError
      else VEmpty)"

subsection \<open>Beliefs (beliefs.ts)\<close>

record Belief =
  be_key :: string
  be_pubkey :: string
  be_market :: Market
  be_reserves :: "AmmReserves option"
  be_outcome :: string
  be_label :: string

definition beliefKey :: "string \<Rightarrow> string \<Rightarrow> string" where
  "beliefKey pk outcome = pk @ '':'' @ outcome"

definition beliefProbability :: "AmmReserves option \<Rightarrow> string \<Rightarrow> jsnum option" where
  "beliefProbability reserves outcome =
     (case impliedYesProbability reserves of
        None \<Rightarrow> None
      | Some p \<Rightarrow> Some (if outcome = ''yes'' then p else nsub (Fin 1) p))"

text \<open>\<open>options[i]\<close>.\<close>

definition at_index :: "'a list \<Rightarrow> int \<Rightarrow> 'a option" where
  "at_index xs i = (if 0 \<le> i \<and> i < int (length xs) then Some (xs ! nat i) else None)"

definition mkBelief :: "MarketSummary \<Rightarrow> string \<Rightarrow> string \<Rightarrow> Belief" where
  "mkBelief m outcome label =
     \<lparr>be_key = beliefKey (ms_pubkey m) outcome, be_pubkey = ms_pubkey m, be_market = ms_market m,
      be_reserves = ms_reserves m, be_outcome = outcome, be_label = label\<rparr>"

definition orLabel :: "string option \<Rightarrow> string \<Rightarrow> string" where
  "orLabel s d = (case map_option trim s of Some t \<Rightarrow> if t \<noteq> [] then t else d | None \<Rightarrow> d)"

definition computeBeliefs :: "bool \<Rightarrow> MarketSummary list \<Rightarrow> string list \<Rightarrow> Belief list" where
  "computeBeliefs isGroup tradable options =
     (if isGroup then
        map (\<lambda>m. mkBelief m ''yes''
               (outcomeLabel (mk_outcomeIndex (ms_market m))
                 (at_index options (mk_outcomeIndex (ms_market m))))) tradable
      else (case tradable of
              [] \<Rightarrow> []
            | lone # _ \<Rightarrow>
                [mkBelief lone ''yes'' (orLabel (at_index options 0) ''Yes''),
                 mkBelief lone ''no'' (orLabel (at_index options 1) ''No'')]))"

definition defaultBeliefKey :: "Belief list \<Rightarrow> string \<Rightarrow> bool \<Rightarrow> string option" where
  "defaultBeliefKey beliefs currentPubkey currentIsActive =
     (let own = (if currentIsActive
                 then find_first (\<lambda>b. be_pubkey b = currentPubkey \<and> be_outcome b = ''yes'') beliefs
                 else None)
      in case own of
           Some b \<Rightarrow> Some (be_key b)
         | None \<Rightarrow> (case beliefs of [] \<Rightarrow> None | b # _ \<Rightarrow> Some (be_key b)))"

subsection \<open>Probabilities lie in the unit interval\<close>

lemma num_wf: "wf_num (Fin a) \<Longrightarrow> num a = Fin a"
proof -
  assume w: "wf_num (Fin a)"
  define B :: rat where "B = 2 ^ 1024"
  have "rnd a = a" "\<bar>a\<bar> < B" using w by (auto simp: rnd_repr B_def)
  then show ?thesis unfolding num_def Let_def B_def [symmetric] by (auto simp: abs_less_iff)
qed

definition unit_num :: "jsnum \<Rightarrow> bool" where
  "unit_num x \<longleftrightarrow> (\<exists>a. x = Fin a \<and> 0 \<le> a \<and> a \<le> 1)"

lemma unit_num_quotient: "0 \<le> a \<Longrightarrow> a \<le> b \<Longrightarrow> 0 < b \<Longrightarrow> unit_num (ndiv (Fin a) (Fin b))"
proof -
  assume a: "0 \<le> a" "a \<le> b" "0 < b"
  then have q: "0 \<le> a / b" "a / b \<le> 1" by simp_all
  have "0 \<le> rnd (a / b) \<and> rnd (a / b) \<le> 1" using q by (intro dbl.r_unit) simp_all
  then show ?thesis using a q by (simp add: unit_num_def num_unit)
qed

text \<open>A share of a sum that dominates it, the sum possibly infinite.\<close>

lemma unit_num_share:
  assumes "nonneg v" "v \<noteq> PInf" "nle v s" "nle (Fin 0) s" "\<not> nle s (Fin 0)"
  shows "unit_num (ndiv v s)"
proof -
  obtain a where a: "v = Fin a" "0 \<le> a" using assms(1,2) by (auto simp: nonneg_def)
  show ?thesis
  proof (cases s)
    case (Fin b)
    then show ?thesis using assms a unit_num_quotient [of a b] by simp
  qed (use assms a in \<open>auto simp: unit_num_def\<close>)
qed

lemma Number_le: "m \<le> n \<Longrightarrow> nle (Number m) (Number n)"
  by (simp add: Number_def num_mono)

definition u64_reserves :: "AmmReserves \<Rightarrow> bool" where
  "u64_reserves r \<longleftrightarrow> is_u64 (ar_base r) \<and> is_u64 (ar_quote r)"

lemma impliedYesProbability_unit:
  assumes "u64_reserves r"
  shows "impliedYesProbability (Some r) = None \<longleftrightarrow> ar_base r = 0 \<and> ar_quote r = 0"
    and "impliedYesProbability (Some r) = Some p \<Longrightarrow> unit_num p"
proof -
  let ?t = "ar_base r + ar_quote r"
  have r: "0 \<le> ar_base r" "0 \<le> ar_quote r" "ar_base r < 2 ^ 64" "ar_quote r < 2 ^ 64"
    using assms by (auto simp: u64_reserves_def is_u64_def)
  show "impliedYesProbability (Some r) = None \<longleftrightarrow> ar_base r = 0 \<and> ar_quote r = 0"
    using r by (auto simp: impliedYesProbability_def Let_def)
  assume p: "impliedYesProbability (Some r) = Some p"
  then have t: "0 < ?t" and pe: "p = ndiv (Number (ar_quote r)) (Number ?t)"
    by (auto simp: impliedYesProbability_def Let_def split: if_splits)
  obtain a where a: "Number (ar_quote r) = Fin a" "0 \<le> a" using Number_u64 [of "ar_quote r"] r by auto
  have one: "nle (Fin 1) (Number ?t)" using Number_le [of 1 ?t] t Number_exact [of 1] by simp
  have le: "nle (Fin a) (Number ?t)" using Number_le [of "ar_quote r" ?t] r a by simp
  have nn: "nonneg (Number ?t)" using nonneg_num [of "of_int ?t"] t by (simp add: Number_def)
  show "unit_num p"
  proof (cases "Number ?t")
    case (Fin b)
    then show ?thesis using pe a one le unit_num_quotient [of a b] by simp
  qed (use pe a nn in \<open>auto simp: unit_num_def nonneg_def\<close>)
qed

text \<open>A no-belief's probability is the complement, still in the interval.\<close>

lemma beliefProbability_unit:
  assumes "u64_reserves r" "beliefProbability (Some r) outcome = Some p"
  shows "unit_num p"
proof -
  obtain q where q: "impliedYesProbability (Some r) = Some q" "p = (if outcome = ''yes'' then q else nsub (Fin 1) q)"
    using assms(2) by (auto simp: beliefProbability_def split: option.splits)
  obtain a where a: "q = Fin a" "0 \<le> a" "a \<le> 1"
    using impliedYesProbability_unit(2) [OF assms(1) q(1)] by (auto simp: unit_num_def)
  have "0 \<le> rnd (1 - a) \<and> rnd (1 - a) \<le> 1" using a by (intro dbl.r_unit) simp_all
  then show ?thesis using a q num_unit [of "1 - a"] by (auto simp: unit_num_def nsub_def)
qed

lemma fundingProgress_spec:
  assumes "0 \<le> c" "is_u64 c" "is_u64 m"
  shows "fp_funded (fundingProgress c m) \<longleftrightarrow> m \<le> 0 \<or> m \<le> c"
    and "unit_num (fp_pct (fundingProgress c m))"
    and "fp_funded (fundingProgress c m) \<Longrightarrow> fp_pct (fundingProgress c m) = Fin 1"
proof -
  show "fp_funded (fundingProgress c m) \<longleftrightarrow> m \<le> 0 \<or> m \<le> c"
    by (auto simp: fundingProgress_def Let_def)
  show "fp_funded (fundingProgress c m) \<Longrightarrow> fp_pct (fundingProgress c m) = Fin 1"
    by (auto simp: fundingProgress_def Let_def split: if_splits)
  show "unit_num (fp_pct (fundingProgress c m))"
  proof (cases "m \<le> 0 \<or> m \<le> c")
    case True
    then show ?thesis by (auto simp: fundingProgress_def Let_def unit_num_def)
  next
    case False
    obtain a b where ab: "Number c = Fin a" "0 \<le> a" "Number m = Fin b" "1 \<le> b"
      using Number_u64 [of c] Number_u64 [of m] assms False by (auto simp: is_u64_def)
    have "a \<le> b" using Number_le [of c m] False ab by simp
    then have "unit_num (ndiv (Fin a) (Fin b))" using ab by (intro unit_num_quotient) simp_all
    then obtain q where "ndiv (Fin a) (Fin b) = Fin q" "0 \<le> q" "q \<le> 1" unfolding unit_num_def by blast
    then show ?thesis using False ab by (simp add: fundingProgress_def Let_def unit_num_def)
  qed
qed

subsection \<open>Rescaling across a group\<close>

definition somes :: "'a option list \<Rightarrow> 'a list" where
  "somes values = concat (map (\<lambda>v. case v of None \<Rightarrow> [] | Some x \<Rightarrow> [x]) values)"

lemma somes_simps [simp]:
  "somes [] = []" "somes (None # vs) = somes vs" "somes (Some x # vs) = x # somes vs"
  by (simp_all add: somes_def)

lemma set_somes: "x \<in> set (somes vs) \<longleftrightarrow> Some x \<in> set vs"
proof (induction vs)
  case (Cons v vs)
  then show ?case by (cases v) auto
qed simp

lemma countSome_eq: "countSome vs = length (somes vs)"
proof -
  have "foldl (\<lambda>count v. count + (if v = None then 0 else 1)) n vs = n + length (somes vs)" for n
  proof (induction vs arbitrary: n)
    case (Cons v vs)
    then show ?case by (cases v) simp_all
  qed simp
  then show ?thesis by (simp add: countSome_def)
qed

lemma nonneg_nle0: "nonneg x \<Longrightarrow> nle (Fin 0) x"
  by (elim nonnegE) simp_all

lemma nadd_ge:
  assumes "nonneg x" "nonneg y" "wf_num x" "wf_num y"
  shows "nle x (nadd x y)" "nle y (nadd x y)"
proof -
  have ge: "nle (Fin a) (num c)" if "wf_num (Fin a)" "a \<le> c" for a c
    using num_mono [OF that(2)] num_wf [OF that(1)] by simp
  show "nle x (nadd x y)" using assms(1,2)
  proof (elim nonnegE)
    fix a b assume "x = Fin a" "0 \<le> a" "y = Fin b" "0 \<le> b"
    then show ?thesis using ge [of a "a + b"] assms(3) by (simp del: wf_num.simps)
  qed simp_all
  show "nle y (nadd x y)" using assms(1,2)
  proof (elim nonnegE)
    fix a b assume "x = Fin a" "0 \<le> a" "y = Fin b" "0 \<le> b"
    then show ?thesis using ge [of b "a + b"] assms(4) by (simp del: wf_num.simps)
  qed simp_all
qed

lemma Some_in_map: "Some v \<in> set (map (map_option f) xs) \<longleftrightarrow> (\<exists>x. Some x \<in> set xs \<and> v = f x)"
proof -
  have e: "map_option f o0 = Some v \<longleftrightarrow> (\<exists>x. o0 = Some x \<and> v = f x)" for o0 by (cases o0) auto
  show ?thesis unfolding set_map image_iff Bex_def
    by (subst eq_commute [of "Some v"]) (simp only: e, blast)
qed

lemma wf_nadd: "wf_num x \<Longrightarrow> wf_num y \<Longrightarrow> wf_num (nadd x y)"
  by (cases x; cases y) auto

lemma foldl_nadd:
  assumes "\<forall>v\<in>set vs. case v of None \<Rightarrow> True | Some x \<Rightarrow> nonneg x \<and> wf_num x" "nonneg acc" "wf_num acc"
  defines "f \<equiv> \<lambda>a v. nadd a (orElse v (Fin 0))"
  shows "nonneg (foldl f acc vs) \<and> nle acc (foldl f acc vs) \<and>
    (\<forall>x\<in>set (somes vs). nle x (foldl f acc vs))"
  using assms(1-3)
proof (induction vs arbitrary: acc)
  case Nil
  then show ?case by (auto simp: nonneg_def)
next
  case (Cons v vs)
  let ?x = "orElse v (Fin 0)"
  have x: "nonneg ?x" "wf_num ?x" using Cons.prems(1) by (cases v; simp add: nonneg_def)+
  have acc': "nonneg (f acc v)" "wf_num (f acc v)" "nle acc (f acc v)" "nle ?x (f acc v)"
    using nadd_ge [OF Cons.prems(2) x(1) Cons.prems(3) x(2)] nonneg_nadd [OF Cons.prems(2) x(1)]
      wf_nadd [OF Cons.prems(3) x(2)] by (simp_all add: f_def)
  have "\<forall>v\<in>set vs. case v of None \<Rightarrow> True | Some x \<Rightarrow> nonneg x \<and> wf_num x"
    using Cons.prems(1) by simp
  note IH = Cons.IH [OF this acc'(1,2)]
  show ?case using IH acc' by (cases v) (auto intro: nle_trans)
qed

definition prob_list :: "jsnum option list \<Rightarrow> bool" where
  "prob_list values \<longleftrightarrow> (\<forall>v. Some v \<in> set values \<longrightarrow> unit_num v \<and> wf_num v)"

lemma prob_list_nonneg: "prob_list vs \<Longrightarrow>
  \<forall>v\<in>set vs. case v of None \<Rightarrow> True | Some x \<Rightarrow> nonneg x \<and> wf_num x"
  by (auto simp: prob_list_def unit_num_def nonneg_def split: option.splits)

lemma normalizeAcrossGroup_unit:
  assumes "prob_list values" "Some v \<in> set (normalizeAcrossGroup values)"
  shows "unit_num v"
proof (cases "countSome values < 2 \<or> nle (sumSome values) (Fin 0)")
  case True
  then show ?thesis using assms by (auto simp: normalizeAcrossGroup_def Let_def prob_list_def split: if_splits)
next
  case False
  then obtain x where x: "Some x \<in> set values" "v = ndiv x (sumSome values)"
    using assms(2) by (auto simp: normalizeAcrossGroup_def Let_def Some_in_map simp del: set_map)
  have s: "nonneg (sumSome values) \<and> (\<forall>x\<in>set (somes values). nle x (sumSome values))"
    using foldl_nadd [OF prob_list_nonneg [OF assms(1)], of "Fin 0"] by (simp add: sumSome_def nonneg_def)
  have "nonneg x" "x \<noteq> PInf" using assms(1) x(1) by (auto simp: prob_list_def unit_num_def nonneg_def)
  then show ?thesis
    using unit_num_share [of x "sumSome values"] s False x nonneg_nle0 set_somes [of x "values"] by blast
qed

text \<open>Rescaling keeps the shape of the group and the order of its options.\<close>

lemma ndiv_mono:
  assumes "nonneg x" "nonneg y" "x \<noteq> PInf" "y \<noteq> PInf" "nle x y" "nonneg s" "\<not> nle s (Fin 0)"
  shows "nle (ndiv x s) (ndiv y s)"
proof -
  obtain a b where ab: "x = Fin a" "y = Fin b" "a \<le> b" "0 \<le> a" using assms(1-5) by (auto simp: nonneg_def)
  show ?thesis using assms(6,7)
  proof (cases s)
    case (Fin c)
    then have "a / c \<le> b / c" using ab assms(7) by (simp add: divide_right_mono)
    then show ?thesis using Fin ab assms(7) num_mono by simp
  qed (auto simp: ab nonneg_def)
qed

lemma normalizeAcrossGroup_shape:
  "length (normalizeAcrossGroup values) = length values"
  "i < length values \<Longrightarrow> normalizeAcrossGroup values ! i = None \<longleftrightarrow> values ! i = None"
  by (auto simp: normalizeAcrossGroup_def Let_def)

lemma normalizeAcrossGroup_order:
  assumes "prob_list values" "i < length values" "j < length values"
    "values ! i = Some x" "values ! j = Some y" "nle x y"
  shows "\<exists>u v. normalizeAcrossGroup values ! i = Some u \<and> normalizeAcrossGroup values ! j = Some v \<and> nle u v"
proof (cases "countSome values < 2 \<or> nle (sumSome values) (Fin 0)")
  case True
  then show ?thesis using assms by (auto simp: normalizeAcrossGroup_def Let_def)
next
  case False
  have "Some x \<in> set values" "Some y \<in> set values" using assms(2-5) nth_mem by metis+
  then have xy: "nonneg x" "nonneg y" "x \<noteq> PInf" "y \<noteq> PInf"
    using assms(1) by (auto simp: prob_list_def unit_num_def nonneg_def)
  have "nonneg (sumSome values)"
    using foldl_nadd [OF prob_list_nonneg [OF assms(1)], of "Fin 0"] by (simp add: sumSome_def nonneg_def)
  then show ?thesis using ndiv_mono [OF xy assms(6)] False assms(2-5)
    by (simp add: normalizeAcrossGroup_def Let_def)
qed

lemma oddsOf_nonneg: "unit_num v \<Longrightarrow> nonneg (oddsOf v) \<and> wf_num (oddsOf v)"
proof -
  assume "unit_num v"
  then obtain a where a: "v = Fin a" "0 \<le> a" "a \<le> 1" by (auto simp: unit_num_def)
  show ?thesis
  proof (cases "a = 1")
    case True
    then show ?thesis using a by (simp add: oddsOf_def)
  next
    case False
    have n: "nsub (Fin 1) (Fin a) = Fin (rnd (1 - a))" "0 \<le> rnd (1 - a)"
      using a num_unit [of "1 - a"] rnd_nonneg [of "1 - a"] by (simp_all add: nsub_def)
    have "nonneg (ndiv (Fin a) (Fin (rnd (1 - a)))) \<and> wf_num (ndiv (Fin a) (Fin (rnd (1 - a)))) \<or> rnd (1 - a) = 0 \<and> a = 0"
      using a n by (auto simp: nonneg_num inf_of_def)
    moreover have "rnd (1 - a) = 1" if "a = 0" using that by simp
    ultimately have "nonneg (ndiv (Fin a) (Fin (rnd (1 - a)))) \<and> wf_num (ndiv (Fin a) (Fin (rnd (1 - a))))"
      by auto
    then show ?thesis using a False n(1) by (simp add: oddsOf_def)
  qed
qed

lemma normalizeOddsAcrossGroup_unit:
  assumes "prob_list values" "Some v \<in> set (normalizeOddsAcrossGroup values)"
  shows "unit_num v"
proof -
  define odds where "odds = map (map_option oddsOf) values"
  define inf where "inf = foldl (\<lambda>count q. count + (if q = Some PInf then 1 else 0)) (0 :: nat) odds"
  have inf0: "foldl (\<lambda>count q. count + (if q = Some PInf then 1 else 0)) n qs =
      n + length (filter (\<lambda>q. q = Some PInf) qs)" for n :: nat and qs :: "jsnum option list"
    by (induction qs arbitrary: n) simp_all
  have in0: "inf = 0 \<longleftrightarrow> Some PInf \<notin> set odds"
    unfolding inf_def inf0 by (auto simp: filter_empty_conv)
  have odds_ok: "\<forall>q\<in>set odds. case q of None \<Rightarrow> True | Some x \<Rightarrow> nonneg x \<and> wf_num x"
    using assms(1) oddsOf_nonneg by (auto simp: odds_def prob_list_def split: option.splits)
  show ?thesis
  proof (cases "countSome values < 2")
    case True
    then show ?thesis using assms by (auto simp: normalizeOddsAcrossGroup_def prob_list_def)
  next
    case many: False
    show ?thesis
    proof (cases "inf > 0")
      case True
      have "unit_num (ndiv (Fin 1) (Number (int inf)))"
      proof -
        have le: "nle (Number 1) (Number (int inf))" using True by (intro Number_le) simp
        have "nonneg (Number (int inf))" by (simp add: Number_def nonneg_num)
        then show ?thesis
          using le Number_exact [of 1] unit_num_share [of "Fin 1" "Number (int inf)"]
          by (elim nonnegE) (auto simp: nonneg_def)
      qed
      moreover have "unit_num (Fin 0)" by (simp add: unit_num_def)
      ultimately show ?thesis using assms(2) many True
        by (auto simp: normalizeOddsAcrossGroup_def Let_def odds_def [symmetric] inf_def [symmetric] Some_in_map
              split: if_splits simp del: set_map)
    next
      case False
      show ?thesis
      proof (cases "nle (sumSome odds) (Fin 0)")
        case True
        then show ?thesis using assms many False
          by (auto simp: normalizeOddsAcrossGroup_def Let_def odds_def [symmetric] inf_def [symmetric] prob_list_def)
      next
        case pos: False
        obtain x where x: "Some x \<in> set odds" "v = ndiv x (sumSome odds)"
          using assms(2) many False pos
          by (auto simp: normalizeOddsAcrossGroup_def Let_def odds_def [symmetric] inf_def [symmetric]
              Some_in_map simp del: set_map)
        have s: "nonneg (sumSome odds) \<and> (\<forall>x\<in>set (somes odds). nle x (sumSome odds))"
          using foldl_nadd [OF odds_ok, of "Fin 0"] by (simp add: sumSome_def nonneg_def)
        have "nonneg x" "x \<noteq> PInf" using odds_ok x(1) in0 False by auto
        then show ?thesis
          using unit_num_share [of x "sumSome odds"] s pos x nonneg_nle0 set_somes [of x odds] by blast
      qed
    qed
  qed
qed

subsection \<open>LP positions and pool value\<close>

lemma contributorLp_eq:
  "0 \<le> amount \<Longrightarrow> 0 \<le> activationLp \<Longrightarrow> 0 < c \<Longrightarrow>
     contributorLp amount lateLp activationLp c = amount * activationLp div c + lateLp"
  by (simp add: contributorLp_def Let_def bdiv_nonneg)

lemma sum_div_le:
  assumes "0 < (c :: int)"
  shows "sum_list (map (\<lambda>a. a * l div c) as) \<le> sum_list as * l div c"
proof (induction as)
  case (Cons a as)
  have "a * l div c + sum_list as * l div c \<le> (a * l + sum_list as * l) div c"
    by (rule zdiv_geI [OF assms])
       (use zdiv_mult_le [OF assms, of "a * l"] zdiv_mult_le [OF assms, of "sum_list as * l"] in \<open>simp add: distrib_right\<close>)
  then show ?case using Cons by (simp add: algebra_simps)
qed simp

text \<open>The funding shares never exceed the LP minted at activation.\<close>

lemma contributorLp_sum:
  assumes "\<forall>a\<in>set amounts. 0 \<le> a" "sum_list amounts \<le> c" "0 < c" "0 \<le> l"
  shows "sum_list (map (\<lambda>a. contributorLp a 0 l c) amounts) \<le> l"
proof -
  have "sum_list (map (\<lambda>a. contributorLp a 0 l c) amounts) = sum_list (map (\<lambda>a. a * l div c) amounts)"
    using assms contributorLp_eq [of _ l c 0] by (intro arg_cong [where f = sum_list] map_cong) auto
  also have "\<dots> \<le> sum_list amounts * l div c" by (rule sum_div_le [OF assms(3)])
  also have "\<dots> \<le> c * l div c" using assms by (intro zdiv_mono1 mult_right_mono) auto
  finally show ?thesis using assms(3) by simp
qed

lemma poolValueKass_bounds:
  assumes "0 \<le> ar_base r" "0 \<le> ar_quote r" "poolValueKass (Some r) = Some v"
  shows "0 \<le> v" "2 * v \<le> ar_base r + ar_quote r" "v \<le> 2 * min (ar_base r) (ar_quote r)"
proof -
  define b where "b = ar_base r"
  define q where "q = ar_quote r"
  have bq: "0 \<le> b" "0 \<le> q" using assms by (simp_all add: b_def q_def)
  have s: "0 < b + q" and v: "v = 2 * b * q div (b + q)"
    using assms by (auto simp: poolValueKass_def Let_def bdiv_nonneg b_def q_def split: if_splits)
  have nn: "0 \<le> 2 * b * q" using bq by simp
  then show "0 \<le> v" using s v by (simp add: pos_imp_zdiv_nonneg_iff)
  have le: "v * (b + q) \<le> 2 * b * q" using s v by (simp add: zdiv_mult_le)
  have sq: "0 \<le> (b - q) * (b - q)" by simp
  then have "4 * b * q \<le> (b + q) * (b + q)" by (simp add: algebra_simps)
  then have "(2 * v) * (b + q) \<le> (b + q) * (b + q)" using le by (simp add: algebra_simps)
  then show "2 * v \<le> ar_base r + ar_quote r" using s by (simp add: b_def [symmetric] q_def [symmetric])
  have "v * (b + q) \<le> 2 * b * (b + q)" "v * (b + q) \<le> 2 * q * (b + q)"
    using le bq by (simp_all add: algebra_simps) (smt (verit) mult_nonneg_nonneg)+
  then have "v \<le> 2 * b" "v \<le> 2 * q" using s by simp_all
  then show "v \<le> 2 * min (ar_base r) (ar_quote r)" by (simp add: b_def q_def min_def)
qed

subsection \<open>The status of a group\<close>

definition status_rank :: "MarketStatus \<Rightarrow> nat" where
  "status_rank s = (case s of Active \<Rightarrow> 0 | Funding \<Rightarrow> 1 | Resolved \<Rightarrow> 2 | Void \<Rightarrow> 3 | Cancelled \<Rightarrow> 4)"

text \<open>The best-ranked status that some market of the group has.\<close>

lemma groupStatus_best:
  assumes "m \<in> set markets" "mk_status (ms_market m) = status_code s"
  shows "\<exists>n\<in>set markets. mk_status (ms_market n) = status_code (groupStatus markets)"
    and "status_rank (groupStatus markets) \<le> status_rank s"
proof -
  let ?S = "(\<lambda>m. mk_status (ms_market m)) ` set markets"
  have s: "status_code s \<in> ?S" using assms by (metis imageI)
  have "(\<exists>n\<in>set markets. mk_status (ms_market n) = status_code (groupStatus markets)) \<and>
      status_rank (groupStatus markets) \<le> status_rank s"
    using s by (cases s) (auto simp: groupStatus_def GROUP_STATUS_PRIORITY_def Let_def status_rank_def image_iff)
  then show "\<exists>n\<in>set markets. mk_status (ms_market n) = status_code (groupStatus markets)"
    and "status_rank (groupStatus markets) \<le> status_rank s" by blast+
qed

lemma detailView_ready: "detailView pk data loading err = VReady \<longleftrightarrow> data \<noteq> None \<and> data = pk"
  by (auto simp: detailView_def)

lemma truncateMiddle_short:
  "length (truncateMiddle value h t) \<le> max (length value) (orElse h 4 + orElse t 4 + 1) \<or> orElse t 4 = 0"
  by (auto simp: truncateMiddle_def Let_def)

end
