(* ===== verification/Amount.thy ===== *)
theory Amount
  imports MarketView
begin

text \<open>
  \<open>app/src/market/data/amount.ts\<close>: parsing a human SOL amount and the balance gate.  The
  result of the parser is the form's message (\<open>Inl\<close>) or the amount in base units (\<open>Inr\<close>).
\<close>

definition SOL_SCALE :: int where
  "SOL_SCALE = 10 ^ SOL_DECIMALS"

text \<open>\<open>/^(\d*)(?:\.(\d*))?$/.exec\<close>: the two groups.\<close>

definition matchAmount :: "string \<Rightarrow> (string \<times> string option) option" where
  "matchAmount t =
     (let m1 = takeWhile is_digit t; rest = dropWhile is_digit t in
      case rest of
        [] \<Rightarrow> Some (m1, None)
      | c # f \<Rightarrow> if c = CHR ''.'' \<and> (\<forall>d\<in>set f. is_digit d) then Some (m1, Some f) else None)"

definition parseSolAmount :: "string \<Rightarrow> string + int" where
  "parseSolAmount raw =
     (let t = trim raw in
      if t = [] then Inl ''Enter a SOL amount.''
      else case matchAmount t of
        None \<Rightarrow> Inl ''Amount must be a number, e.g. 1.5.''
      | Some (m1, m2) \<Rightarrow>
          if m1 = [] \<and> orElse m2 [] = [] then Inl ''Amount must be a number, e.g. 1.5.''
          else
            (let whole = (if m1 = [] then ''0'' else m1);
                 frac = orElse m2 [];
                 padded = padEnd SOL_DECIMALS frac
             in if length frac > SOL_DECIMALS
                then Inl (''SOL supports at most '' @ show_int (int SOL_DECIMALS) @ '' decimal places.'')
                else (let value = dec_val whole * SOL_SCALE + dec_val (if padded = [] then ''0'' else padded)
                      in if value \<le> 0 then Inl ''Amount must be greater than zero.'' else Inr value)))"

definition balanceGateError :: "int option \<Rightarrow> int option \<Rightarrow> string option \<Rightarrow> string option" where
  "balanceGateError amount balance asset0 =
     (let asset = orElse asset0 ''SOL'' in
      case balance of
        None \<Rightarrow> None
      | Some b \<Rightarrow>
          if b = 0 then Some (''You have no '' @ asset @ '' '' @ [CHR 0x97] @ '' you need '' @ asset @ '' to participate.'')
          else (case amount of
                  Some a \<Rightarrow> if a > b then Some (''Amount exceeds your '' @ asset @ '' balance.'') else None
                | None \<Rightarrow> None))"

subsection \<open>What the parser accepts\<close>

lemma matchAmount_Some:
  assumes "matchAmount t = Some (a, b)"
  shows "\<forall>c\<in>set a. is_digit c" "\<forall>c\<in>set (orElse b []). is_digit c"
    and "t = a @ (case b of None \<Rightarrow> [] | Some f \<Rightarrow> CHR ''.'' # f)"
proof -
  have t: "t = takeWhile is_digit t @ dropWhile is_digit t" by simp
  have d: "\<forall>c\<in>set (takeWhile is_digit t). is_digit c" by (auto dest: set_takeWhileD)
  show "\<forall>c\<in>set a. is_digit c" "\<forall>c\<in>set (orElse b []). is_digit c"
    using assms d by (auto simp: matchAmount_def Let_def split: list.splits if_splits)
  show "t = a @ (case b of None \<Rightarrow> [] | Some f \<Rightarrow> CHR ''.'' # f)"
  proof (cases "dropWhile is_digit t")
    case Nil
    then have "takeWhile is_digit t = t" using t by (metis append_Nil2)
    then have "a = t \<and> b = None" using assms Nil unfolding matchAmount_def Let_def
      by (simp del: takeWhile_eq_all_conv dropWhile_eq_Nil_conv)
    then show ?thesis by simp
  next
    case (Cons c f)
    then have "a = takeWhile is_digit t" "b = Some f" "c = CHR ''.''"
      using assms by (simp_all add: matchAmount_def Let_def split: if_splits)
    then show ?thesis using t Cons by simp
  qed
qed

lemma dot_not_digit: "\<not> is_digit CHR ''.''"
  by (simp add: is_digit_def code_of_def)

lemma matchAmount_parts:
  assumes "\<forall>c\<in>set a. is_digit c" "\<forall>c\<in>set (orElse b []). is_digit c"
  shows "matchAmount (a @ (case b of None \<Rightarrow> [] | Some f \<Rightarrow> CHR ''.'' # f)) = Some (a, b)"
proof -
  have "takeWhile is_digit a = a" "dropWhile is_digit a = []" using assms(1) by simp_all
  then show ?thesis
    using assms dot_not_digit
    by (cases b) (simp_all add: matchAmount_def Let_def takeWhile_append dropWhile_append del: takeWhile_eq_all_conv dropWhile_eq_Nil_conv)
qed

text \<open>A decimal numeral: digits, and optionally a point and at most nine more digits.\<close>

definition amount_numeral :: "string \<Rightarrow> string \<Rightarrow> string option \<Rightarrow> bool" where
  "amount_numeral t a b \<longleftrightarrow> t = a @ (case b of None \<Rightarrow> [] | Some f \<Rightarrow> CHR ''.'' # f) \<and>
     (\<forall>c\<in>set a. is_digit c) \<and> (\<forall>c\<in>set (orElse b []). is_digit c) \<and>
     \<not> (a = [] \<and> orElse b [] = []) \<and> length (orElse b []) \<le> SOL_DECIMALS"

text \<open>Its value in base units: the digits as one number, scaled.\<close>

definition amount_value :: "string \<Rightarrow> string option \<Rightarrow> int" where
  "amount_value a b = dec_val (a @ orElse b []) * 10 ^ (SOL_DECIMALS - length (orElse b []))"

lemma dec_val_append: "dec_val (a @ b) = dec_val a * 10 ^ length b + dec_val b"
  by (simp add: dec_val_def num_val_append)

lemma dec_val_pad: "dec_val (f @ replicate n CHR ''0'') = dec_val f * 10 ^ n"
  by (simp add: dec_val_def num_val_append num_val_zeros)

lemma amount_value_eq:
  assumes "length (orElse b []) \<le> SOL_DECIMALS"
  shows "dec_val a * SOL_SCALE + dec_val (padEnd SOL_DECIMALS (orElse b [])) = amount_value a b"
proof -
  have "(10 :: int) ^ SOL_DECIMALS = 10 ^ length (orElse b []) * 10 ^ (SOL_DECIMALS - length (orElse b []))"
    using assms by (simp flip: power_add)
  then show ?thesis
    unfolding amount_value_def SOL_SCALE_def padEnd_def dec_val_pad
    by (simp add: dec_val_append algebra_simps)
qed

lemma parseSolAmount_eq:
  "parseSolAmount raw =
     (if trim raw = [] then Inl ''Enter a SOL amount.''
      else case matchAmount (trim raw) of
        None \<Rightarrow> Inl ''Amount must be a number, e.g. 1.5.''
      | Some (a, b) \<Rightarrow>
          if a = [] \<and> orElse b [] = [] then Inl ''Amount must be a number, e.g. 1.5.''
          else if length (orElse b []) > SOL_DECIMALS
          then Inl (''SOL supports at most '' @ show_int (int SOL_DECIMALS) @ '' decimal places.'')
          else if amount_value a b \<le> 0 then Inl ''Amount must be greater than zero.''
          else Inr (amount_value a b))"
proof -
  have z: "dec_val (if a = [] then ''0'' else a) = dec_val a" for a
    by (simp add: dec_val_def digit_val_def code_of_def)
  have v: "dec_val (if a = [] then ''0'' else a) * SOL_SCALE +
      dec_val (if padEnd SOL_DECIMALS (orElse b []) = [] then ''0'' else padEnd SOL_DECIMALS (orElse b []))
      = amount_value a b" if "\<not> length (orElse b []) > SOL_DECIMALS" for a b
    using that amount_value_eq [of b a] by (simp only: z not_less)
  show ?thesis
  proof (cases "matchAmount (trim raw)")
    case None
    then show ?thesis by (simp add: parseSolAmount_def Let_def)
  next
    case (Some p)
    obtain a b where p: "p = (a, b)" by (cases p)
    show ?thesis
    proof (cases "length (orElse b []) > SOL_DECIMALS")
      case True
      then show ?thesis using Some p by (simp add: parseSolAmount_def Let_def)
    next
      case False
      then show ?thesis using Some p
        unfolding parseSolAmount_def Let_def by (simp only: option.case prod.case v [OF False] if_False)
    qed
  qed
qed

lemma parseSolAmount_iff:
  "parseSolAmount raw = Inr v \<longleftrightarrow>
     (\<exists>a b. amount_numeral (trim raw) a b \<and> v = amount_value a b \<and> 0 < v)"
proof
  assume p: "parseSolAmount raw = Inr v"
  then obtain a b where m: "matchAmount (trim raw) = Some (a, b)"
    by (auto simp: parseSolAmount_eq split: if_splits option.splits)
  then have f: "\<not> (a = [] \<and> orElse b [] = [])" "length (orElse b []) \<le> SOL_DECIMALS"
      "v = amount_value a b \<and> 0 < v"
    using p by (auto simp: parseSolAmount_eq split: if_splits)
  have "amount_numeral (trim raw) a b \<and> v = amount_value a b \<and> 0 < v"
    unfolding amount_numeral_def using matchAmount_Some [OF m] f by blast
  then show "\<exists>a b. amount_numeral (trim raw) a b \<and> v = amount_value a b \<and> 0 < v" by blast
next
  assume "\<exists>a b. amount_numeral (trim raw) a b \<and> v = amount_value a b \<and> 0 < v"
  then obtain a b where n: "amount_numeral (trim raw) a b" "v = amount_value a b" "0 < v" by blast
  have m: "matchAmount (trim raw) = Some (a, b)"
    using n(1) matchAmount_parts [of a b] by (auto simp: amount_numeral_def)
  have "trim raw \<noteq> []" using n(1) by (cases b) (auto simp: amount_numeral_def)
  then show "parseSolAmount raw = Inr v"
    using m n by (auto simp: parseSolAmount_eq amount_numeral_def)
qed

subsection \<open>Printing and parsing again\<close>

lemma commas_digits:
  "\<forall>c\<in>set s. is_digit c \<Longrightarrow> filter (\<lambda>c. c \<noteq> CHR '','') (commas s) = s"
proof (induction s)
  case (Cons c s)
  have "c \<noteq> CHR '',''" using Cons.prems by (auto simp: is_digit_def code_of_def)
  then show ?case using Cons by simp
qed simp

lemma strip_zeros_split: "\<exists>n. s = strip_zeros s @ replicate n CHR ''0''"
proof -
  have d: "\<forall>c\<in>set (takeWhile (\<lambda>c. c = CHR ''0'') (rev s)). c = CHR ''0''" by (auto dest: set_takeWhileD)
  then obtain n where n: "takeWhile (\<lambda>c. c = CHR ''0'') (rev s) = replicate n CHR ''0''"
    by (metis replicate_length_same)
  have "rev s = replicate n CHR ''0'' @ dropWhile (\<lambda>c. c = CHR ''0'') (rev s)"
    using takeWhile_dropWhile_id [of "\<lambda>c. c = CHR ''0''" "rev s"] n by simp
  then have "s = rev (dropWhile (\<lambda>c. c = CHR ''0'') (rev s)) @ replicate n CHR ''0''"
    by (metis rev_append rev_replicate rev_rev_ident)
  then show ?thesis by (auto simp: strip_zeros_def)
qed

lemma dec_str_length: "0 \<le> n \<Longrightarrow> n < 10 ^ k \<Longrightarrow> 0 < k \<Longrightarrow> length (dec_str n) \<le> k"
proof (induction k arbitrary: n)
  case (Suc k)
  show ?case
  proof (cases "n < 10")
    case True
    then show ?thesis by (subst dec_str.simps) simp
  next
    case False
    have "n div 10 < 10 ^ k" using Suc.prems by (intro zdiv_lessI) simp_all
    moreover have "0 < k" using False Suc.prems by (cases k) auto
    ultimately have "length (dec_str (n div 10)) \<le> k" using Suc by simp
    then show ?thesis using False by (subst dec_str.simps) simp
  qed
qed simp

text \<open>
  What \<open>formatSol\<close> prints for a positive amount, its group separators removed, parses back to
  the amount.
\<close>

lemma formatSol_parts:
  assumes "0 < v"
  shows "\<exists>b. amount_numeral (filter (\<lambda>c. c \<noteq> CHR '','') (formatSol v)) (dec_str (v div SOL_SCALE)) b \<and>
    amount_value (dec_str (v div SOL_SCALE)) b = v"
proof -
  define w where "w = v div SOL_SCALE"
  define f where "f = v mod SOL_SCALE"
  have sc: "SOL_SCALE = 1000000000" by (simp add: SOL_SCALE_def SOL_DECIMALS_def)
  have w: "0 \<le> w" using assms by (simp add: w_def sc pos_imp_zdiv_nonneg_iff)
  have f: "0 \<le> f" "f < 10 ^ SOL_DECIMALS" by (simp_all add: f_def sc SOL_DECIMALS_def)
  have v: "w * SOL_SCALE + f = v" by (simp add: w_def f_def)
  have dw: "\<forall>c\<in>set (dec_str w). is_digit c" "dec_str w \<noteq> []" using dec_str_digits [OF w] by simp_all
  have fs: "formatSol v = (if f > 0 then commas (dec_str w) @ ''.'' @ strip_zeros (padStart SOL_DECIMALS (dec_str f))
      else commas (dec_str w))"
    using assms w f by (simp add: formatSol_def Let_def bdiv_nonneg show_int_def w_def f_def
      minus_div_mult_eq_mod flip: SOL_SCALE_def)
  show ?thesis
  proof (cases "f > 0")
    case False
    then have "filter (\<lambda>c. c \<noteq> CHR '','') (formatSol v) = dec_str w" by (simp add: fs commas_digits dw)
    moreover have "amount_value (dec_str w) None = v"
      using v f False w by (simp add: amount_value_def SOL_SCALE_def)
    ultimately show ?thesis using dw
      by (intro exI [of _ None]) (auto simp: amount_numeral_def w_def)
  next
    case True
    define p where "p = padStart SOL_DECIMALS (dec_str f)"
    obtain n where n: "p = strip_zeros p @ replicate n CHR ''0''" using strip_zeros_split by blast
    have "length (dec_str f) \<le> SOL_DECIMALS" using f by (intro dec_str_length) (simp_all add: SOL_DECIMALS_def)
    then have lp: "length p = SOL_DECIMALS" by (simp add: p_def padStart_def)
    have dp: "\<forall>c\<in>set p. is_digit c"
      using dec_str_digits [OF f(1)] by (auto simp: p_def padStart_def is_digit_def code_of_def)
    have vp: "dec_val p = f"
      using f(1) by (simp add: p_def padStart_def dec_val_append) (simp add: dec_val_def num_val_zeros)
    have ls: "length (strip_zeros p) + n = SOL_DECIMALS" using arg_cong [OF n, of length] lp by simp
    have ds: "\<forall>c\<in>set (strip_zeros p). is_digit c"
      using dp arg_cong [OF n, of set] by auto
    have "filter (\<lambda>c. c \<noteq> CHR '','') (strip_zeros p) = strip_zeros p"
      using ds by (auto simp: filter_id_conv is_digit_def code_of_def)
    then have "filter (\<lambda>c. c \<noteq> CHR '','') (formatSol v) = dec_str w @ CHR ''.'' # strip_zeros p"
      using True by (simp add: fs commas_digits dw p_def)
    moreover have "amount_value (dec_str w) (Some (strip_zeros p)) = v"
    proof -
      have "dec_val (strip_zeros p) * 10 ^ n = f" using vp n dec_val_pad [of "strip_zeros p" n] by simp
      moreover have "SOL_DECIMALS - length (strip_zeros p) = n" using ls by simp
      moreover have "(10 :: int) ^ length (strip_zeros p) * 10 ^ n = SOL_SCALE"
        using ls by (simp add: SOL_SCALE_def flip: power_add)
      ultimately show ?thesis using v w by (simp add: amount_value_def dec_val_append algebra_simps)
    qed
    ultimately show ?thesis using dw ds ls
      by (intro exI [of _ "Some (strip_zeros p)"]) (simp add: amount_numeral_def w_def)
  qed
qed

lemma parse_formatSol:
  assumes "0 < v"
  shows "parseSolAmount (filter (\<lambda>c. c \<noteq> CHR '','') (formatSol v)) = Inr v"
proof -
  let ?t = "filter (\<lambda>c. c \<noteq> CHR '','') (formatSol v)"
  obtain b where b: "amount_numeral ?t (dec_str (v div SOL_SCALE)) b"
      "amount_value (dec_str (v div SOL_SCALE)) b = v"
    using formatSol_parts [OF assms] by blast
  have "\<forall>c\<in>set ?t. \<not> is_space c"
  proof -
    have "\<not> is_space CHR ''.''" by (simp add: is_space_def code_of_def)
    then show ?thesis using b(1) is_digit_not_space unfolding amount_numeral_def
      by (cases b) auto
  qed
  then have "trim ?t = ?t" by (rule trim_plain)
  then show ?thesis using b assms parseSolAmount_iff [of ?t v] by metis
qed

lemma balanceGateError_None:
  "balanceGateError amount (Some b) asset = None \<longleftrightarrow> b \<noteq> 0 \<and> (\<forall>a. amount = Some a \<longrightarrow> a \<le> b)"
  by (auto simp: balanceGateError_def Let_def split: option.splits)

end
