(* ===== verification/Browse.thy ===== *)
theory Browse
  imports Amount
begin

text \<open>
  The browse helpers: \<open>app/src/market/lib/marketList.ts\<close> (stages, counts, filters, sorting,
  search), \<open>app/src/lib/heroFeed.ts\<close> (the landing page's cards) and the subsets of
  \<open>app/src/market/hooks/useOracleGroup.ts\<close>.
\<close>

datatype Stage = FundingStage | ActiveStage | ResolvedStage | ClosedStage

datatype MarketFilter = AllStages | OnlyStage Stage

datatype MarketSort = ByValue | ByStage

definition STAGE_ORDER :: "Stage list" where
  "STAGE_ORDER = [FundingStage, ActiveStage, ResolvedStage, ClosedStage]"

definition stageOf :: "OracleGroup \<Rightarrow> Stage" where
  "stageOf g =
     (case groupStatus (gr_markets g) of
        Funding \<Rightarrow> FundingStage
      | Active \<Rightarrow> ActiveStage
      | Resolved \<Rightarrow> ResolvedStage
      | _ \<Rightarrow> ClosedStage)"

definition sumContributed :: "MarketSummary list \<Rightarrow> int" where
  "sumContributed markets = foldl (\<lambda>s m. s + mk_totalContributed (ms_market m)) 0 markets"

definition valueOf :: "OracleGroup \<Rightarrow> int" where
  "valueOf g = sumContributed (gr_markets g)"

record MarketCounts =
  nc_funding :: nat
  nc_active :: nat
  nc_resolved :: nat
  nc_closed :: nat
  nc_total :: nat

fun bump_stage :: "Stage \<Rightarrow> MarketCounts \<Rightarrow> MarketCounts" where
  "bump_stage FundingStage c = c\<lparr>nc_funding := nc_funding c + 1\<rparr>"
| "bump_stage ActiveStage c = c\<lparr>nc_active := nc_active c + 1\<rparr>"
| "bump_stage ResolvedStage c = c\<lparr>nc_resolved := nc_resolved c + 1\<rparr>"
| "bump_stage ClosedStage c = c\<lparr>nc_closed := nc_closed c + 1\<rparr>"

definition deriveMarketCounts :: "OracleGroup list \<Rightarrow> MarketCounts" where
  "deriveMarketCounts groups =
     foldl (\<lambda>c g. let c' = bump_stage (stageOf g) c in c'\<lparr>nc_total := nc_total c' + 1\<rparr>)
       \<lparr>nc_funding = 0, nc_active = 0, nc_resolved = 0, nc_closed = 0, nc_total = 0\<rparr> groups"

definition deriveMarketStats :: "MarketSummary list \<Rightarrow> int" where
  "deriveMarketStats markets = sumContributed markets"

definition filterByStage :: "OracleGroup list \<Rightarrow> MarketFilter \<Rightarrow> OracleGroup list" where
  "filterByStage groups flt =
     (case flt of AllStages \<Rightarrow> groups | OnlyStage s \<Rightarrow> filter (\<lambda>g. stageOf g = s) groups)"

definition cmpValueDesc :: "OracleGroup \<Rightarrow> OracleGroup \<Rightarrow> int" where
  "cmpValueDesc a b =
     (let va = valueOf a; vb = valueOf b in if vb > va then 1 else if vb < va then - 1 else 0)"

definition stage_index :: "Stage \<Rightarrow> int" where
  "stage_index s = (case find_index (\<lambda>t. t = s) STAGE_ORDER of Some i \<Rightarrow> int i | None \<Rightarrow> - 1)"

definition cmpStage :: "OracleGroup \<Rightarrow> OracleGroup \<Rightarrow> int" where
  "cmpStage a b =
     (let diff = stage_index (stageOf a) - stage_index (stageOf b) in
      if diff \<noteq> 0 then diff else cmpValueDesc a b)"

definition sortMarkets :: "OracleGroup list \<Rightarrow> MarketSort \<Rightarrow> OracleGroup list" where
  "sortMarkets groups sort_by =
     js_sort (if sort_by = ByStage then cmpStage else cmpValueDesc) groups"

fun join_sp :: "string list \<Rightarrow> string" where
  "join_sp [] = []"
| "join_sp [s] = s"
| "join_sp (s # ss) = s @ '' '' @ join_sp ss"

definition matchesMarketQuery :: "OracleGroup \<Rightarrow> string \<Rightarrow> string option \<Rightarrow> bool" where
  "matchesMarketQuery g query subject =
     (let q = toLowerCase (trim query) in
      if q = [] then True
      else str_includes
        (toLowerCase (statusLabel (status_code (groupStatus (gr_markets g))) @ '' '' @ orElse subject []
           @ '' '' @ gr_oracle g @ '' '' @ join_sp (map ms_pubkey (gr_markets g)))) q)"

subsection \<open>heroFeed.ts\<close>

definition HERO_K :: nat where
  "HERO_K = 6"

record HeroCard =
  hc_id :: string
  hc_kind :: string
  hc_subjectId :: string
  hc_href :: string
  hc_title :: string
  hc_status :: string
  hc_tone :: ChipTone
  hc_metricAccent :: string
  hc_metricLabel :: string

text \<open>\<open>descBig\<close> on the contributed totals is \<open>cmpContributedDesc\<close>.\<close>

definition rankMarkets :: "MarketSummary list \<Rightarrow> nat option \<Rightarrow> MarketSummary list" where
  "rankMarkets markets k = take (orElse k HERO_K) (js_sort cmpContributedDesc markets)"

definition metaKeysFor :: "web3 \<Rightarrow> MarketSummary list \<Rightarrow> nat option \<Rightarrow> string list" where
  "metaKeysFor W markets k =
     firsts (map (\<lambda>m. toBase58 W (mk_oracle (ms_market m))) (rankMarkets markets k))"

text \<open>\<open>meta\<close> maps a subject key to its \<open>subject\<close> text, absent or undefined alike.\<close>

definition marketCard :: "web3 \<Rightarrow> (string \<Rightarrow> string option) \<Rightarrow> MarketSummary \<Rightarrow> HeroCard" where
  "marketCard W meta m =
     (let prob = formatProbability (impliedYesProbability (ms_reserves m));
          liquidity = formatSol (mk_totalContributed (ms_market m)) @ '' SOL'';
          hasProb = prob \<noteq> [CHR 0x97];
          subjectKey = toBase58 W (mk_oracle (ms_market m))
      in \<lparr>hc_id = ms_pubkey m, hc_kind = ''market'', hc_subjectId = subjectKey,
          hc_href = ''/markets/'' @ ms_pubkey m,
          hc_title = orLabel (meta subjectKey) (''Market '' @ truncateMiddle (ms_pubkey m) None None),
          hc_status = statusLabel (mk_status (ms_market m)),
          hc_tone = statusTone (mk_status (ms_market m)),
          hc_metricAccent = (if hasProb then ''YES '' @ prob else liquidity),
          hc_metricLabel = (if hasProb then [CHR 0xB7] @ '' '' @ liquidity @ '' liq.'' else ''liquidity'')\<rparr>)"

definition buildHeroCards ::
  "web3 \<Rightarrow> MarketSummary list \<Rightarrow> (string \<Rightarrow> string option) \<Rightarrow> nat option \<Rightarrow> HeroCard list" where
  "buildHeroCards W markets meta k = map (marketCard W meta) (rankMarkets markets k)"

subsection \<open>useOracleGroup.ts\<close>

record OracleGroupState =
  og_siblings :: "MarketSummary list"
  og_isGroup :: bool
  og_funding :: "MarketSummary list"
  og_active :: "MarketSummary list"
  og_claimable :: "MarketSummary list"
  og_depositable :: "MarketSummary list"

definition useOracleGroup :: "web3 \<Rightarrow> MarketSummary list option \<Rightarrow> string \<Rightarrow> OracleGroupState" where
  "useOracleGroup W allMarkets orc =
     (let siblings = js_sort cmpOutcome
            (filter (\<lambda>m. toBase58 W (mk_oracle (ms_market m)) = orc) (orElse allMarkets []));
          funding = filter (\<lambda>m. mk_status (ms_market m) = status_code Funding) siblings;
          active = filter (\<lambda>m. mk_status (ms_market m) = status_code Active \<and> ms_reserves m \<noteq> None) siblings
      in \<lparr>og_siblings = siblings, og_isGroup = (length siblings > 1), og_funding = funding,
          og_active = active,
          og_claimable = filter (\<lambda>m. mk_feeCollected (ms_market m)) siblings,
          og_depositable = js_sort cmpOutcome (funding @ active)\<rparr>)"

subsection \<open>Sorting\<close>

interpretation by_value: key_comparator "\<lambda>g. - valueOf g" cmpValueDesc
  by unfold_locales (simp add: cmpValueDesc_def Let_def)

lemma stage_index_simps [simp]:
  "stage_index FundingStage = 0" "stage_index ActiveStage = 1" "stage_index ResolvedStage = 2"
  "stage_index ClosedStage = 3"
  by (simp_all add: stage_index_def STAGE_ORDER_def)

lemma cmpStage_le:
  "cmpStage a b \<le> 0 \<longleftrightarrow> stage_index (stageOf a) < stage_index (stageOf b) \<or>
     stage_index (stageOf a) = stage_index (stageOf b) \<and> valueOf b \<le> valueOf a"
  by (auto simp: cmpStage_def cmpValueDesc_def Let_def)

interpretation by_stage: comparator cmpStage
  by unfold_locales (auto simp: cmpStage_le)

lemma sortMarkets_mset: "mset (sortMarkets groups s) = mset groups"
  by (simp add: sortMarkets_def)

lemma sortMarkets_value: "sorted (map (\<lambda>g. - valueOf g) (sortMarkets groups ByValue))"
  using by_value.key_sorted by (simp add: sortMarkets_def)

lemma sortMarkets_stage:
  assumes "i < j" "j < length groups"
  defines "out \<equiv> sortMarkets groups ByStage"
  shows "stage_index (stageOf (out ! i)) < stage_index (stageOf (out ! j)) \<or>
    stage_index (stageOf (out ! i)) = stage_index (stageOf (out ! j)) \<and> valueOf (out ! j) \<le> valueOf (out ! i)"
  using by_stage.js_sort_nth [OF assms(1,2)] by (simp add: out_def sortMarkets_def cmpStage_le)

subsection \<open>Counts\<close>

definition stage_count :: "OracleGroup list \<Rightarrow> Stage \<Rightarrow> nat" where
  "stage_count groups s = length (filterByStage groups (OnlyStage s))"

lemma counts_append:
  "foldl (\<lambda>c g. let c' = bump_stage (stageOf g) c in c'\<lparr>nc_total := nc_total c' + 1\<rparr>) c groups =
     \<lparr>nc_funding = nc_funding c + stage_count groups FundingStage,
      nc_active = nc_active c + stage_count groups ActiveStage,
      nc_resolved = nc_resolved c + stage_count groups ResolvedStage,
      nc_closed = nc_closed c + stage_count groups ClosedStage,
      nc_total = nc_total c + length groups\<rparr>"
proof (induction groups arbitrary: c)
  case Nil
  then show ?case by (simp add: stage_count_def filterByStage_def)
next
  case (Cons g groups)
  then show ?case by (cases "stageOf g") (simp_all add: stage_count_def filterByStage_def Let_def)
qed

lemma deriveMarketCounts_eq:
  "deriveMarketCounts groups =
     \<lparr>nc_funding = stage_count groups FundingStage, nc_active = stage_count groups ActiveStage,
      nc_resolved = stage_count groups ResolvedStage, nc_closed = stage_count groups ClosedStage,
      nc_total = length groups\<rparr>"
  unfolding deriveMarketCounts_def counts_append by simp

lemma stage_counts_total:
  "stage_count groups FundingStage + stage_count groups ActiveStage +
   stage_count groups ResolvedStage + stage_count groups ClosedStage = length groups"
proof (induction groups)
  case Nil
  then show ?case by (simp add: stage_count_def filterByStage_def)
next
  case (Cons g groups)
  then show ?case by (cases "stageOf g") (simp_all add: stage_count_def filterByStage_def)
qed

text \<open>A group whose status is a member's lands in that member's stage.\<close>

lemma stageOf_active:
  assumes "m \<in> set (gr_markets g)" "mk_status (ms_market m) = status_code Active"
  shows "stageOf g = ActiveStage"
  using groupStatus_best(2) [OF assms]
  by (cases "groupStatus (gr_markets g)") (simp_all add: stageOf_def status_rank_def)

subsection \<open>Ranking and groups\<close>

lemma rankMarkets_length: "length (rankMarkets markets k) = min (orElse k HERO_K) (length markets)"
  by (simp add: rankMarkets_def min.commute)

text \<open>Nothing left out contributes more than something featured.\<close>

lemma rankMarkets_top:
  assumes "i < length (rankMarkets markets k)" "orElse k HERO_K \<le> j" "j < length markets"
  shows "mk_totalContributed (ms_market (js_sort cmpContributedDesc markets ! j))
    \<le> mk_totalContributed (ms_market (rankMarkets markets k ! i))"
proof -
  have "i < j" "i < orElse k HERO_K" using assms by (simp_all add: rankMarkets_length)
  then show ?thesis
    using by_contributed.js_sort_nth [of i j markets] assms(3)
    by (simp add: rankMarkets_def cmpContributedDesc_def cmp_desc_def split: if_splits)
qed

lemma useOracleGroup_depositable:
  "m \<in> set (og_depositable (useOracleGroup W ms orc)) \<longleftrightarrow>
     m \<in> set (og_siblings (useOracleGroup W ms orc)) \<and>
     (mk_status (ms_market m) = status_code Funding \<or>
      mk_status (ms_market m) = status_code Active \<and> ms_reserves m \<noteq> None)"
  by (auto simp: useOracleGroup_def Let_def)

end
