(* ===== verification/Fuzzy.thy ===== *)
theory Fuzzy
  imports JsNumber JsString Sorting "HOL-Library.Sublist"
begin

text \<open>
  \<open>app/src/lib/fuzzySearch.ts\<close>: subsequence matching with a score.  Scores are finite
  doubles, modelled as the rationals that they are, with the rounding of each operation.
\<close>

text \<open>\<open>t.indexOf(c, from)\<close>.\<close>

definition index_from :: "char \<Rightarrow> string \<Rightarrow> nat \<Rightarrow> nat option" where
  "index_from c t k = map_option (\<lambda>i. k + i) (find_index (\<lambda>d. d = c) (drop k t))"

definition boundary_chars :: "char list" where
  "boundary_chars = '' -_/''"

text \<open>The loop over the query: the integer part of the score, the start and the end of the span.\<close>

fun fuzzyLoop ::
  "string \<Rightarrow> string \<Rightarrow> nat \<Rightarrow> nat option \<Rightarrow> int \<Rightarrow> int \<Rightarrow> (int \<times> nat option \<times> nat) option" where
  "fuzzyLoop [] t searchFrom firstMatch consecutive score = Some (score, firstMatch, searchFrom)"
| "fuzzyLoop (c # q) t searchFrom firstMatch consecutive score =
     (case index_from c t searchFrom of
        None \<Rightarrow> None
      | Some idx \<Rightarrow>
          (let firstMatch' = (if firstMatch = None then Some idx else firstMatch);
               consecutive' = (if idx = searchFrom then consecutive + 1 else 0);
               score' = (if idx = searchFrom then score + 3 + consecutive' else score + 1);
               bonus = (if idx = 0 \<or> t ! (idx - 1) \<in> set boundary_chars then 2 else 0)
           in fuzzyLoop q t (idx + 1) firstMatch' consecutive' (score' + bonus)))"

definition fuzzyScore :: "string \<Rightarrow> string \<Rightarrow> rat option" where
  "fuzzyScore query txt =
     (let q = toLowerCase (trim query) in
      if q = [] then Some 0
      else (case fuzzyLoop q (toLowerCase txt) 0 None 0 0 of
              None \<Rightarrow> None
            | Some (score, firstMatch, searchFrom) \<Rightarrow>
                (let span = int searchFrom - int (orElse firstMatch 0)
                 in Some (rnd (of_int score + rnd (of_int (max 0 (20 - span)) * rnd (1 / 10)))))))"

record 'a FuzzyMatch =
  fm_item :: 'a
  fm_score :: rat

text \<open>\<open>b.score - a.score\<close>: the sign of the difference of two finite doubles is exact.\<close>

definition cmpScoreDesc :: "'a FuzzyMatch \<Rightarrow> 'a FuzzyMatch \<Rightarrow> int" where
  "cmpScoreDesc a b = (if fm_score b > fm_score a then 1 else if fm_score b < fm_score a then - 1 else 0)"

definition bestScore :: "string \<Rightarrow> string list \<Rightarrow> rat option" where
  "bestScore query candidates =
     foldl (\<lambda>best c. case fuzzyScore query c of
              None \<Rightarrow> best
            | Some s \<Rightarrow> (case best of None \<Rightarrow> Some s | Some b \<Rightarrow> if s > b then Some s else best))
       None candidates"

definition fuzzySearch ::
  "string \<Rightarrow> 'a list \<Rightarrow> ('a \<Rightarrow> string list) \<Rightarrow> nat \<Rightarrow> 'a FuzzyMatch list" where
  "fuzzySearch query items getCandidates topK =
     (if trim query = [] then []
      else take topK (js_sort cmpScoreDesc (concat (map (\<lambda>item.
             case bestScore query (getCandidates item) of
               None \<Rightarrow> [] | Some s \<Rightarrow> [\<lparr>fm_item = item, fm_score = s\<rparr>]) items))))"

subsection \<open>Matching is being a subsequence\<close>

lemma index_from_None: "index_from c t k = None \<longleftrightarrow> c \<notin> set (drop k t)"
  by (auto simp: index_from_def find_index_None)

lemma index_from_Some:
  assumes "index_from c t k = Some i"
  shows "k \<le> i" "i < length t" "t ! i = c" "c \<notin> set (take (i - k) (drop k t))"
proof -
  obtain j where j: "find_index (\<lambda>d. d = c) (drop k t) = Some j" "i = k + j"
    using assms by (auto simp: index_from_def)
  have f: "j < length (drop k t)" "drop k t ! j = c" "\<forall>m<j. drop k t ! m \<noteq> c"
    using find_index_Some [OF j(1)] by simp_all
  show "k \<le> i" "i < length t" using j f(1) by simp_all
  show "t ! i = c" using j f(1,2) by simp
  show "c \<notin> set (take (i - k) (drop k t))"
    using f(1,3) j(2) by (auto simp: in_set_conv_nth)
qed

text \<open>Taking the first occurrence of a character loses no match.\<close>

lemma subseq_first:
  "c \<notin> set us \<Longrightarrow> subseq (c # q) (us @ c # vs) \<longleftrightarrow> subseq q vs"
  by (induction us) (auto simp: subseq_Cons2_iff)

lemma subseq_absent: "c \<notin> set t \<Longrightarrow> \<not> subseq (c # q) t"
  by (metis list.set_intros(1) subseq_singleton_left subseq_Cons' subseq_order.trans list_emb_set)

lemma fuzzyLoop_matches:
  "fuzzyLoop q t k f n s \<noteq> None \<longleftrightarrow> subseq q (drop k t)"
proof (induction q arbitrary: k f n s)
  case Nil
  then show ?case by simp
next
  case (Cons c q)
  show ?case
  proof (cases "index_from c t k")
    case None
    then have "\<not> subseq (c # q) (drop k t)" by (intro subseq_absent) (simp add: index_from_None)
    then show ?thesis using None by simp
  next
    case (Some i)
    note si = index_from_Some [OF Some]
    have "drop k t = take (i - k) (drop k t) @ drop (i - k) (drop k t)"
      by (rule append_take_drop_id [symmetric])
    also have "drop (i - k) (drop k t) = c # drop (i + 1) t"
      using si(1-3) Cons_nth_drop_Suc [of i t] by simp
    finally have d: "drop k t = take (i - k) (drop k t) @ c # drop (i + 1) t" .
    have "subseq (c # q) (drop k t) \<longleftrightarrow> subseq q (drop (i + 1) t)"
      by (subst d) (rule subseq_first [OF si(4)])
    then show ?thesis using Cons.IH Some by (simp add: Let_def)
  qed
qed

lemma fuzzyScore_iff:
  "fuzzyScore query txt \<noteq> None \<longleftrightarrow> subseq (toLowerCase (trim query)) (toLowerCase txt)"
proof (cases "toLowerCase (trim query) = []")
  case True
  then show ?thesis by (simp add: fuzzyScore_def)
next
  case False
  then show ?thesis
    using fuzzyLoop_matches [of "toLowerCase (trim query)" "toLowerCase txt" 0 None 0 0]
    by (auto simp: fuzzyScore_def Let_def split: option.splits)
qed

subsection \<open>Searching\<close>

interpretation by_score: comparator cmpScoreDesc
  by unfold_locales (auto simp: cmpScoreDesc_def split: if_splits)

lemma bestScore_snoc:
  "bestScore query (cs @ [c]) =
     (case fuzzyScore query c of
        None \<Rightarrow> bestScore query cs
      | Some s \<Rightarrow> (case bestScore query cs of
          None \<Rightarrow> Some s | Some b \<Rightarrow> if s > b then Some s else bestScore query cs))"
  unfolding bestScore_def foldl_append foldl_Cons foldl_Nil ..

lemma bestScore_None: "bestScore query cs = None \<longleftrightarrow> (\<forall>c\<in>set cs. fuzzyScore query c = None)"
proof (induction cs rule: rev_induct)
  case Nil
  then show ?case by (simp add: bestScore_def)
next
  case (snoc c cs)
  then show ?case by (auto simp: bestScore_snoc split: option.splits)
qed

lemma bestScore_attained: "bestScore query cs = Some s \<Longrightarrow> \<exists>c\<in>set cs. fuzzyScore query c = Some s"
proof (induction cs rule: rev_induct)
  case Nil
  then show ?case by (simp add: bestScore_def)
next
  case (snoc c cs)
  then show ?case by (auto simp: bestScore_snoc split: option.splits if_splits)
qed

lemma bestScore_greatest:
  "bestScore query cs = Some s \<Longrightarrow> c \<in> set cs \<Longrightarrow> fuzzyScore query c = Some u \<Longrightarrow> u \<le> s"
proof (induction cs arbitrary: s rule: rev_induct)
  case Nil
  then show ?case by simp
next
  case (snoc d cs)
  show ?case
  proof (cases "bestScore query cs")
    case None
    then have "\<forall>c\<in>set cs. fuzzyScore query c = None" by (simp add: bestScore_None)
    then show ?thesis using snoc.prems None by (auto simp: bestScore_snoc)
  next
    case (Some b)
    then have b: "u \<le> b" if "c \<in> set cs" using snoc.IH [OF Some] snoc.prems(3) that by simp
    show ?thesis
    proof (cases "c \<in> set cs")
      case True
      then show ?thesis using b snoc.prems(1) Some by (auto simp: bestScore_snoc split: option.splits if_splits)
    next
      case False
      then show ?thesis using snoc.prems Some by (auto simp: bestScore_snoc split: if_splits)
    qed
  qed
qed

lemma fuzzySearch_length: "length (fuzzySearch query items f topK) \<le> topK"
  by (simp add: fuzzySearch_def)

lemma fuzzySearch_sorted:
  assumes "i < j" "j < length (fuzzySearch query items f topK)"
  shows "fm_score (fuzzySearch query items f topK ! j) \<le> fm_score (fuzzySearch query items f topK ! i)"
proof -
  have nb: "trim query \<noteq> []" using assms by (auto simp: fuzzySearch_def)
  let ?S = "concat (map (\<lambda>item. case bestScore query (f item) of
      None \<Rightarrow> [] | Some s \<Rightarrow> [\<lparr>fm_item = item, fm_score = s\<rparr>]) items)"
  have j: "j < length ?S" "j < topK" using assms(2) nb by (simp_all add: fuzzySearch_def)
  have "cmpScoreDesc (js_sort cmpScoreDesc ?S ! i) (js_sort cmpScoreDesc ?S ! j) \<le> 0"
    by (rule by_score.js_sort_nth [OF assms(1) j(1)])
  then show ?thesis using nb j assms(1) by (simp add: fuzzySearch_def cmpScoreDesc_def split: if_splits)
qed

lemma fuzzySearch_sound:
  assumes "m \<in> set (fuzzySearch query items f topK)"
  shows "fm_item m \<in> set items" "bestScore query (f (fm_item m)) = Some (fm_score m)"
proof -
  have "m \<in> set (concat (map (\<lambda>item. case bestScore query (f item) of
      None \<Rightarrow> [] | Some s \<Rightarrow> [\<lparr>fm_item = item, fm_score = s\<rparr>]) items))"
    using assms by (auto simp: fuzzySearch_def split: if_splits dest: in_set_takeD)
  then show "fm_item m \<in> set items" "bestScore query (f (fm_item m)) = Some (fm_score m)"
    by (auto split: option.splits)
qed

end
