(* ===== verification/Indexer.thy ===== *)
theory Indexer
  imports Send
begin

text \<open>
  The indexer's HTTP client, the class \<open>IndexerClient\<close> of \<open>app/src/market/lib/indexer.ts\<close>.

  The platform's \<open>fetch\<close> is a parameter, the record \<open>Fetch\<close>: what it settles with for a URL,
  one field per type of body that the client asks for.  A \<open>Response\<close> has its status, its status
  text and what \<open>json()\<close> settles with, read as the type the source asserts: the error body of
  a failed request, the endpoint's value of a successful one.  \<open>indexerClient\<close> is the read surface
  that the rest of the app is given, so everything proved for an arbitrary \<open>IndexerReads\<close> holds of
  the app on top of this client.
\<close>

subsection \<open>The platform\<close>

record ErrorBody =
  eb_error :: "string option"
  eb_logs :: "string list option"

text \<open>\<open>rs_errorJson\<close> is \<open>Inr None\<close> for the body \<open>null\<close>.\<close>

record 'a Response =
  rs_status :: int
  rs_statusText :: string
  rs_errorJson :: "ErrorBody option res"
  rs_json :: "'a res"

definition rs_ok :: "'a Response \<Rightarrow> bool" where
  "rs_ok res \<longleftrightarrow> 200 \<le> rs_status res \<and> rs_status res \<le> 299"

record AccountDto =
  da_data :: string
  da_owner :: string
  da_lamports :: string

record BlockhashDto =
  db_blockhash :: string

record TransactionDto =
  dt_signature :: string

record Fetch =
  ft_config :: "string \<Rightarrow> ConfigDto Response res"
  ft_markets :: "string \<Rightarrow> MarketDto list Response res"
  ft_market :: "string \<Rightarrow> MarketDetailDto Response res"
  ft_candles :: "string \<Rightarrow> CandleDto list Response res"
  ft_account :: "string \<Rightarrow> AccountDto Response res"
  ft_blockhash :: "string \<Rightarrow> BlockhashDto Response res"
  ft_transaction :: "string \<Rightarrow> string \<Rightarrow> TransactionDto Response res"
  ft_status :: "string \<Rightarrow> nat \<Rightarrow> SignatureStatus Response res"

subsection \<open>Reading a response\<close>

text \<open>\<open>if (body?.error) detail = body.error\<close>, a body that is not JSON keeping the default.\<close>

definition errorDetail :: "string \<Rightarrow> ErrorBody option res \<Rightarrow> string" where
  "errorDetail statusText body =
     (case body of
        Inr (Some b) \<Rightarrow> (if truthy (eb_error b) then orElse (eb_error b) [] else statusText)
      | _ \<Rightarrow> statusText)"

definition errorLogs :: "ErrorBody option res \<Rightarrow> string list option" where
  "errorLogs body = (case body of Inr (Some b) \<Rightarrow> eb_logs b | _ \<Rightarrow> None)"

definition jsonOrThrow :: "'a Response \<Rightarrow> string \<Rightarrow> 'a res" where
  "jsonOrThrow res what =
     (if \<not> rs_ok res then
        Inl (Error (what @ '' failed ('' @ show_int (rs_status res) @ ''): '' @
          errorDetail (rs_statusText res) (rs_errorJson res)))
      else rs_json res)"

text \<open>\<open>if (res.status === 404) return null\<close>.\<close>

definition nullOn404 :: "string \<Rightarrow> 'a Response \<Rightarrow> 'a option res" where
  "nullOn404 what res = (if rs_status res = 404 then Inr None else mapR Some (jsonOrThrow res what))"

subsection \<open>The client\<close>

text \<open>\<open>base.replace\<close>: one trailing slash goes.\<close>

definition clientBase :: "string option \<Rightarrow> string" where
  "clientBase env =
     (let base = orElse env ''/api'' in
      if base \<noteq> [] \<and> last base = CHR ''/'' then butlast base else base)"

definition getConfig :: "Fetch \<Rightarrow> string \<Rightarrow> ConfigDto option res" where
  "getConfig F base = bindR (ft_config F (base @ ''/config'')) (nullOn404 ''getConfig'')"

definition getMarkets :: "Fetch \<Rightarrow> string \<Rightarrow> MarketDto list res" where
  "getMarkets F base = bindR (ft_markets F (base @ ''/markets'')) (\<lambda>res. jsonOrThrow res ''getMarkets'')"

definition getMarket :: "Fetch \<Rightarrow> string \<Rightarrow> string \<Rightarrow> MarketDetailDto option res" where
  "getMarket F base pk =
     bindR (ft_market F (base @ ''/markets/'' @ pk)) (nullOn404 ''getMarket'')"

definition getCandles :: "Fetch \<Rightarrow> string \<Rightarrow> string \<Rightarrow> int \<Rightarrow> int \<Rightarrow> CandleDto list res" where
  "getCandles F base pk intervalSecs limit =
     bindR (ft_candles F (base @ ''/markets/'' @ pk @ ''/candles?interval='' @ show_int intervalSecs @
       ''&limit='' @ show_int limit)) (\<lambda>res. jsonOrThrow res ''getCandles'')"

definition accountRead :: "web3 \<Rightarrow> AccountDto \<Rightarrow> AccountRead res" where
  "accountRead W dto =
     bindR (base64ToBytes (da_data dto)) (\<lambda>bytes.
     bindR (addr W (AddrStr (da_owner dto))) (\<lambda>owner.
     mapR (\<lambda>lamports. \<lparr>ac_data = bytes, ac_owner = owner, ac_lamports = lamports\<rparr>)
       (BigIntStr (da_lamports dto))))"

definition getAccount :: "web3 \<Rightarrow> Fetch \<Rightarrow> string \<Rightarrow> string \<Rightarrow> AccountRead option res" where
  "getAccount W F base pk =
     bindR (ft_account F (base @ ''/account/'' @ pk)) (\<lambda>res.
     bindR (nullOn404 ''getAccount'' res) (\<lambda>dto.
       case dto of None \<Rightarrow> Inr None | Some d \<Rightarrow> mapR Some (accountRead W d)))"

definition getBlockhash :: "Fetch \<Rightarrow> string \<Rightarrow> string res" where
  "getBlockhash F base =
     bindR (ft_blockhash F (base @ ''/blockhash'')) (\<lambda>res.
       mapR db_blockhash (jsonOrThrow res ''getBlockhash''))"

text \<open>\<open>JSON.stringify({ tx: txBase64 })\<close>.\<close>

definition txBody :: "string \<Rightarrow> string" where
  "txBody txBase64 = ''{'' @ json_string ''tx'' @ '':'' @ json_string txBase64 @ ''}''"

definition sendTransaction :: "Fetch \<Rightarrow> string \<Rightarrow> string \<Rightarrow> string res" where
  "sendTransaction F base txBase64 =
     bindR (ft_transaction F (base @ ''/transaction'') (txBody txBase64)) (\<lambda>res.
       if \<not> rs_ok res then
         Inl (IndexerTxError (errorDetail (rs_statusText res) (rs_errorJson res)) (errorLogs (rs_errorJson res)))
       else mapR dt_signature (rs_json res))"

definition getSignatureStatus :: "Fetch \<Rightarrow> string \<Rightarrow> string \<Rightarrow> nat \<Rightarrow> SignatureStatus res" where
  "getSignatureStatus F base signature k =
     bindR (ft_status F (base @ ''/transaction/'' @ signature) k) (\<lambda>res.
       jsonOrThrow res ''getSignatureStatus'')"

definition indexerClient :: "web3 \<Rightarrow> Fetch \<Rightarrow> string option \<Rightarrow> IndexerReads" where
  "indexerClient W F env =
     (let base = clientBase env in
      \<lparr>api_getConfig = getConfig F base, api_getMarkets = getMarkets F base,
       api_getMarket = getMarket F base, api_getCandles = getCandles F base,
       api_getAccount = getAccount W F base, api_getBlockhash = getBlockhash F base,
       api_sendTransaction = sendTransaction F base,
       api_getSignatureStatus = getSignatureStatus F base\<rparr>)"

subsection \<open>What the client returns\<close>

lemma indexerClient_sel [simp]:
  "api_getConfig (indexerClient W F env) = getConfig F (clientBase env)"
  "api_getMarkets (indexerClient W F env) = getMarkets F (clientBase env)"
  "api_getMarket (indexerClient W F env) = getMarket F (clientBase env)"
  "api_getCandles (indexerClient W F env) = getCandles F (clientBase env)"
  "api_getAccount (indexerClient W F env) = getAccount W F (clientBase env)"
  "api_getBlockhash (indexerClient W F env) = getBlockhash F (clientBase env)"
  "api_sendTransaction (indexerClient W F env) = sendTransaction F (clientBase env)"
  "api_getSignatureStatus (indexerClient W F env) = getSignatureStatus F (clientBase env)"
  by (simp_all add: indexerClient_def Let_def)

text \<open>The base never ends in the slash that every path starts with, unless it ended in two.\<close>

lemma clientBase_slash: "clientBase (Some (b @ ''/'')) = b"
  by (simp add: clientBase_def)

lemma clientBase_plain: "b \<noteq> [] \<Longrightarrow> last b \<noteq> CHR ''/'' \<Longrightarrow> clientBase (Some b) = b"
  by (simp add: clientBase_def)

lemma clientBase_default: "clientBase None = ''/api''"
  by (simp add: clientBase_def)

lemma nullOn404_404: "rs_status res = 404 \<Longrightarrow> nullOn404 what res = Inr None"
  by (simp add: nullOn404_def)

lemma nullOn404_ok: "rs_ok res \<Longrightarrow> nullOn404 what res = mapR Some (rs_json res)"
  by (auto simp: nullOn404_def jsonOrThrow_def rs_ok_def)

text \<open>An account that the indexer serves as base64, base58 and a decimal arrives as it was.\<close>

lemma accountRead_served:
  assumes "base58_ok W" "wf_address a" "bytesToBase64 bs = Inr enc" "0 \<le> n"
  shows "accountRead W \<lparr>da_data = enc, da_owner = toBase58 W a, da_lamports = dec_str n\<rparr> =
    Inr \<lparr>ac_data = bs, ac_owner = a, ac_lamports = n\<rparr>"
proof -
  have "base64ToBytes enc = Inr bs" using base64_roundtrip [of bs] assms(3) by simp
  moreover have "addr W (AddrStr (toBase58 W a)) = Inr a"
    using assms(1,2) by (simp add: addr_def base58_ok_def)
  ultimately show ?thesis using BigIntStr_dec_str [OF assms(4)] by (simp add: accountRead_def)
qed

lemma getAccount_served:
  assumes "base58_ok W" "wf_address a" "bytesToBase64 bs = Inr enc" "0 \<le> n"
    and "ft_account F (base @ ''/account/'' @ k) = Inr r" "rs_ok r"
    and "rs_json r = Inr \<lparr>da_data = enc, da_owner = toBase58 W a, da_lamports = dec_str n\<rparr>"
  shows "getAccount W F base k = Inr (Some \<lparr>ac_data = bs, ac_owner = a, ac_lamports = n\<rparr>)"
  using accountRead_served [OF assms(1-4)] assms(5-7) by (simp add: getAccount_def nullOn404_ok)

lemma getAccount_absent:
  "ft_account F (base @ ''/account/'' @ k) = Inr r \<Longrightarrow> rs_status r = 404 \<Longrightarrow>
     getAccount W F base k = Inr None"
  by (simp add: getAccount_def nullOn404_404)

lemma getAccount_error:
  "ft_account F (base @ ''/account/'' @ k) = Inr r \<Longrightarrow> rs_status r \<noteq> 404 \<Longrightarrow> \<not> rs_ok r \<Longrightarrow>
     getAccount W F base k = Inl (Error (''getAccount failed ('' @ show_int (rs_status r) @ ''): '' @
       errorDetail (rs_statusText r) (rs_errorJson r)))"
  by (simp add: getAccount_def nullOn404_def jsonOrThrow_def)

text \<open>The detail of an error: the body's non-empty message if there is one.\<close>

lemma errorDetail_message: "eb_error b = Some m \<Longrightarrow> m \<noteq> [] \<Longrightarrow> errorDetail t (Inr (Some b)) = m"
  by (simp add: errorDetail_def truthy_def)

lemma errorDetail_status:
  "errorDetail t (Inl e) = t" "errorDetail t (Inr None) = t"
  "\<not> truthy (eb_error b) \<Longrightarrow> errorDetail t (Inr (Some b)) = t"
  by (simp_all add: errorDetail_def)

text \<open>
  A transaction that the relay refuses reaches the write layer with the program's logs: the send
  error carries them, and its cause is the relay's rejection.
\<close>

lemma relay_refused:
  assumes "ft_transaction F (base @ ''/transaction'') (txBody tx) = Inr r" "\<not> rs_ok r"
  shows "\<exists>m. relayAndConfirm W indexer lag (sendTransaction F base tx) =
    Inl (SendError m None (errorLogs (rs_errorJson r))
      (IndexerTxError (errorDetail (rs_statusText r) (rs_errorJson r)) (errorLogs (rs_errorJson r))))"
  using assms by (simp add: sendTransaction_def relayAndConfirm_def Let_def)

text \<open>What the relay receives is the signed transaction.\<close>

lemma signAndRelay_posts:
  assumes "signAndRelay (indexerClient W F env) feePayer sign ixs = Inr sig"
  shows "\<exists>h signed enc r. getBlockhash F (clientBase env) = Inr h \<and>
    sign (buildUnsignedTx feePayer h ixs) = Inr signed \<and>
    base64ToBytes enc = Inr signed \<and>
    ft_transaction F (clientBase env @ ''/transaction'') (txBody enc) = Inr r \<and> rs_ok r \<and>
    mapR dt_signature (rs_json r) = Inr sig"
proof -
  obtain h signed enc where h: "getBlockhash F (clientBase env) = Inr h"
      "sign (buildUnsignedTx feePayer h ixs) = Inr signed" "bytesToBase64 signed = Inr enc"
      "sendTransaction F (clientBase env) enc = Inr sig"
    using assms by (auto simp: signAndRelay_def)
  obtain r where r: "ft_transaction F (clientBase env @ ''/transaction'') (txBody enc) = Inr r"
      "(if \<not> rs_ok r then Inl (IndexerTxError (errorDetail (rs_statusText r) (rs_errorJson r))
         (errorLogs (rs_errorJson r))) else mapR dt_signature (rs_json r)) = Inr sig"
    using h(4) unfolding sendTransaction_def by (rule bindR_InrE)
  have "base64ToBytes enc = Inr signed" using base64_roundtrip [of signed] h(3) by simp
  then show ?thesis using h(1,2) r by (auto split: if_splits)
qed

end
