(* ===== verification/Hooks.thy ===== *)
theory Hooks
  imports Indexer Sequence
begin

text \<open>
  The read hooks: \<open>useAsync.ts\<close>, \<open>useSolBalance.ts\<close>, \<open>useMarketDetail.ts\<close> and the guard of
  \<open>useWriteAction.ts\<close> in \<open>app/src/market/hooks/\<close>.

  A mounted hook is a state machine.  Its state is the React state cells of the source together with
  the runs of its effect: one \<open>Run\<close> per run, with the \<open>active\<close> flag of its closure and what its
  promise has settled with.  The steps are those of React and of the promises, in any order: a
  render with other dependencies, the effect (which React runs, after the cleanup of the run before,
  when the dependencies or the nonce differ from those of its last run), a \<open>refetch\<close>, the
  settling of the promise of some run, and the unmount.
\<close>

subsection \<open>The runs of an effect\<close>

record ('d, 'a) Run =
  rn_deps :: 'd
  rn_active :: bool
  rn_promise :: "'a res option"

text \<open>The cleanup that the last run returned: \<open>active = false\<close>.\<close>

definition cleanup :: "('d, 'a) Run list \<Rightarrow> ('d, 'a) Run list" where
  "cleanup runs =
     (if runs = [] then [] else butlast runs @ [(last runs)\<lparr>rn_active := False\<rparr>])"

definition startRun :: "'d \<Rightarrow> ('d, 'a) Run list \<Rightarrow> ('d, 'a) Run list" where
  "startRun d runs = runs @ [\<lparr>rn_deps = d, rn_active = True, rn_promise = None\<rparr>]"

definition settleRun :: "nat \<Rightarrow> 'a res \<Rightarrow> ('d, 'a) Run list \<Rightarrow> ('d, 'a) Run list" where
  "settleRun i r runs = runs[i := (runs ! i)\<lparr>rn_promise := Some r\<rparr>]"

text \<open>No run but the last is active.\<close>

definition superseded :: "('d, 'a) Run list \<Rightarrow> bool" where
  "superseded runs \<longleftrightarrow> (\<forall>i<length runs. rn_active (runs ! i) \<longrightarrow> Suc i = length runs)"

definition all_inactive :: "('d, 'a) Run list \<Rightarrow> bool" where
  "all_inactive runs \<longleftrightarrow> (\<forall>i<length runs. \<not> rn_active (runs ! i))"

lemma superseded_Nil [simp]: "superseded []" "all_inactive []"
  by (simp_all add: superseded_def all_inactive_def)

lemma cleanup_inactive:
  assumes "superseded runs"
  shows "all_inactive (cleanup runs)"
proof (cases runs rule: rev_cases)
  case (snoc rs r)
  have "\<not> rn_active (rs ! i)" if "i < length rs" for i
    using assms that unfolding superseded_def snoc
    by (metis length_append_singleton less_SucI less_irrefl nat.inject nth_append)
  then show ?thesis by (simp add: snoc cleanup_def all_inactive_def nth_append)
qed (simp add: cleanup_def)

lemma inactive_superseded: "all_inactive runs \<Longrightarrow> superseded runs"
  by (simp add: all_inactive_def superseded_def)

lemma startRun_superseded: "all_inactive runs \<Longrightarrow> superseded (startRun d runs)"
  by (auto simp: all_inactive_def superseded_def startRun_def nth_append)

lemma startRun_last [simp]:
  "startRun d runs \<noteq> []" "last (startRun d runs) = \<lparr>rn_deps = d, rn_active = True, rn_promise = None\<rparr>"
  by (simp_all add: startRun_def)

lemma settleRun_superseded: "superseded runs \<Longrightarrow> superseded (settleRun i r runs)"
  by (cases "i < length runs") (auto simp: superseded_def settleRun_def nth_list_update split: if_splits)

lemma settleRun_inactive: "all_inactive runs \<Longrightarrow> all_inactive (settleRun i r runs)"
  by (cases "i < length runs") (auto simp: all_inactive_def settleRun_def nth_list_update)

lemma settleRun_Nil [simp]: "settleRun i r runs = [] \<longleftrightarrow> runs = []"
  by (simp add: settleRun_def)

text \<open>Settling an inactive run leaves the last run, if that one is active.\<close>

lemma settleRun_last:
  assumes "superseded runs" "i < length runs"
  shows "rn_active (runs ! i) \<Longrightarrow> last (settleRun i r runs) = (last runs)\<lparr>rn_promise := Some r\<rparr>"
    and "\<not> rn_active (runs ! i) \<Longrightarrow> rn_active (last runs) \<Longrightarrow> last (settleRun i r runs) = last runs"
proof -
  have ne: "runs \<noteq> []" using assms(2) by auto
  then have l: "last runs = runs ! (length runs - 1)"
      "last (settleRun i r runs) = settleRun i r runs ! (length runs - 1)"
    by (simp_all add: last_conv_nth settleRun_def)
  show "last (settleRun i r runs) = (last runs)\<lparr>rn_promise := Some r\<rparr>" if "rn_active (runs ! i)"
  proof -
    have "Suc i = length runs" using assms that by (simp add: superseded_def)
    then have "i = length runs - 1" by simp
    then show ?thesis using l assms(2) by (simp add: settleRun_def)
  qed
  show "last (settleRun i r runs) = last runs" if "\<not> rn_active (runs ! i)" "rn_active (last runs)"
  proof -
    have "i \<noteq> length runs - 1" using that l by auto
    then show ?thesis using l by (simp add: settleRun_def)
  qed
qed

subsection \<open>useAsync\<close>

record ('d, 'a) AsyncCell =
  ay_data :: "'a option"
  ay_error :: "js_error option"
  ay_loading :: bool
  ay_nonce :: nat
  ay_deps :: 'd
  ay_ran :: "('d \<times> nat) option"
  ay_runs :: "('d, 'a) Run list"
  ay_mounted :: bool

definition useAsync :: "'d \<Rightarrow> ('d, 'a) AsyncCell" where
  "useAsync deps =
     \<lparr>ay_data = None, ay_error = None, ay_loading = True, ay_nonce = 0, ay_deps = deps,
      ay_ran = None, ay_runs = [], ay_mounted = True\<rparr>"

text \<open>\<open>refetch\<close> is a functional update of the nonce.\<close>

definition refetch :: "('d, 'a) AsyncCell \<Rightarrow> ('d, 'a) AsyncCell" where
  "refetch c = c\<lparr>ay_nonce := ay_nonce c + 1\<rparr>"

definition asyncEffect :: "('d, 'a) AsyncCell \<Rightarrow> ('d, 'a) AsyncCell" where
  "asyncEffect c =
     c\<lparr>ay_loading := True, ay_error := None, ay_ran := Some (ay_deps c, ay_nonce c),
       ay_runs := startRun (ay_deps c) (cleanup (ay_runs c))\<rparr>"

text \<open>The two handlers of \<open>then\<close>, both guarded by \<open>active\<close>.\<close>

definition asyncSettle :: "nat \<Rightarrow> 'a res \<Rightarrow> ('d, 'a) AsyncCell \<Rightarrow> ('d, 'a) AsyncCell" where
  "asyncSettle i r c =
     (let c' = c\<lparr>ay_runs := settleRun i r (ay_runs c)\<rparr> in
      if \<not> rn_active (ay_runs c ! i) then c'
      else case r of
        Inr result \<Rightarrow> c'\<lparr>ay_data := Some result, ay_loading := False\<rparr>
      | Inl err \<Rightarrow> c'\<lparr>ay_error := Some err, ay_data := None, ay_loading := False\<rparr>)"

definition asyncUnmount :: "('d, 'a) AsyncCell \<Rightarrow> ('d, 'a) AsyncCell" where
  "asyncUnmount c = c\<lparr>ay_runs := cleanup (ay_runs c), ay_mounted := False\<rparr>"

inductive async_step :: "('d, 'a) AsyncCell \<Rightarrow> ('d, 'a) AsyncCell \<Rightarrow> bool" where
  Render: "ay_mounted c \<Longrightarrow> async_step c (c\<lparr>ay_deps := d\<rparr>)"
| Effect: "ay_mounted c \<Longrightarrow> ay_ran c \<noteq> Some (ay_deps c, ay_nonce c) \<Longrightarrow> async_step c (asyncEffect c)"
| Refetch: "async_step c (refetch c)"
| Settle: "i < length (ay_runs c) \<Longrightarrow> rn_promise (ay_runs c ! i) = None \<Longrightarrow> async_step c (asyncSettle i r c)"
| Unmount: "ay_mounted c \<Longrightarrow> async_step c (asyncUnmount c)"

inductive async_reach :: "'d \<Rightarrow> ('d, 'a) AsyncCell \<Rightarrow> bool" for deps where
  start: "async_reach deps (useAsync deps)"
| step: "async_reach deps c \<Longrightarrow> async_step c c' \<Longrightarrow> async_reach deps c'"

text \<open>What the cells show for the promise of the run that counts.\<close>

definition async_shows :: "'a res option \<Rightarrow> ('d, 'a) AsyncCell \<Rightarrow> bool" where
  "async_shows p c \<longleftrightarrow>
     (case p of
        None \<Rightarrow> ay_loading c \<and> ay_error c = None
      | Some (Inr v) \<Rightarrow> \<not> ay_loading c \<and> ay_error c = None \<and> ay_data c = Some v
      | Some (Inl e) \<Rightarrow> \<not> ay_loading c \<and> ay_error c = Some e \<and> ay_data c = None)"

definition async_inv :: "('d, 'a) AsyncCell \<Rightarrow> bool" where
  "async_inv c \<longleftrightarrow>
     superseded (ay_runs c) \<and>
     (ay_ran c = None \<longrightarrow> ay_runs c = [] \<and> ay_loading c \<and> ay_error c = None \<and> ay_data c = None) \<and>
     (\<not> ay_mounted c \<longrightarrow> all_inactive (ay_runs c)) \<and>
     (\<forall>d n. ay_mounted c \<and> ay_ran c = Some (d, n) \<longrightarrow> ay_runs c \<noteq> [] \<and> rn_active (last (ay_runs c)) \<and>
        rn_deps (last (ay_runs c)) = d \<and> async_shows (rn_promise (last (ay_runs c))) c)"

lemma async_inv_start: "async_inv (useAsync deps)"
  by (simp add: async_inv_def useAsync_def)

lemma async_shows_cong [simp]:
  "async_shows p (c\<lparr>ay_deps := d\<rparr>) = async_shows p c"
  "async_shows p (c\<lparr>ay_nonce := n\<rparr>) = async_shows p c"
  "async_shows p (c\<lparr>ay_runs := rs\<rparr>) = async_shows p c"
  by (simp_all add: async_shows_def split: option.split sum.split)

lemma async_inv_effect: "async_inv c \<Longrightarrow> ay_mounted c \<Longrightarrow> async_inv (asyncEffect c)"
  by (simp add: async_inv_def asyncEffect_def async_shows_def cleanup_inactive startRun_superseded)

lemma async_inv_settle:
  assumes inv: "async_inv c" and i: "i < length (ay_runs c)" "rn_promise (ay_runs c ! i) = None"
  shows "async_inv (asyncSettle i r c)"
proof -
  have sup: "superseded (ay_runs c)" and ran: "ay_ran c \<noteq> None"
    and out: "\<not> ay_mounted c \<Longrightarrow> all_inactive (ay_runs c)"
    using inv i by (auto simp: async_inv_def)
  have sup': "superseded (settleRun i r (ay_runs c))" using sup by (rule settleRun_superseded)
  show ?thesis
  proof (cases "rn_active (ay_runs c ! i)")
    case True
    then have m: "ay_mounted c" using out i by (auto simp: all_inactive_def)
    have l: "last (settleRun i r (ay_runs c)) = (last (ay_runs c))\<lparr>rn_promise := Some r\<rparr>"
      using settleRun_last(1) [OF sup i(1) True] .
    have e: "ay_error c = None" if "r = Inr v" for v
    proof -
      have "Suc i = length (ay_runs c)" using sup i(1) True by (simp add: superseded_def)
      then have "last (ay_runs c) = ay_runs c ! i" using i(1) by (metis diff_Suc_1 last_conv_nth list.size(3) not_less0)
      then show ?thesis using inv m ran i(2) by (auto simp: async_inv_def async_shows_def)
    qed
    show ?thesis
      using inv True sup' m ran l e
      by (cases r) (auto simp: async_inv_def asyncSettle_def async_shows_def)
  next
    case False
    have keep: "last (settleRun i r (ay_runs c)) = last (ay_runs c)" if "rn_active (last (ay_runs c))"
      using settleRun_last(2) [OF sup i(1) False that] .
    show ?thesis
      using inv False sup' ran keep settleRun_inactive [of "ay_runs c" i r]
      by (auto simp: async_inv_def asyncSettle_def)
  qed
qed

lemma cleanup_Nil [simp]: "cleanup runs = [] \<longleftrightarrow> runs = []"
  by (simp add: cleanup_def)

lemma async_inv_unmount: "async_inv c \<Longrightarrow> async_inv (asyncUnmount c)"
  by (simp add: async_inv_def asyncUnmount_def cleanup_inactive inactive_superseded)

lemma async_inv_step: "async_step c c' \<Longrightarrow> async_inv c \<Longrightarrow> async_inv c'"
proof (induction rule: async_step.induct)
  case (Render c d)
  then show ?case by (simp add: async_inv_def)
next
  case (Refetch c)
  then show ?case by (simp add: async_inv_def refetch_def)
qed (simp_all add: async_inv_effect async_inv_settle async_inv_unmount)

lemma async_reach_inv: "async_reach deps c \<Longrightarrow> async_inv c"
  by (induction rule: async_reach.induct) (simp_all add: async_inv_start async_inv_step)

text \<open>The data shown is always what some run was fulfilled with.\<close>

lemma settleRun_mem:
  assumes "i < length runs" "rn_promise (runs ! i) = None"
  shows "run \<in> set runs \<Longrightarrow> rn_promise run = Some p \<Longrightarrow> run \<in> set (settleRun i r runs)"
    and "(runs ! i)\<lparr>rn_promise := Some r\<rparr> \<in> set (settleRun i r runs)"
proof -
  show "(runs ! i)\<lparr>rn_promise := Some r\<rparr> \<in> set (settleRun i r runs)"
    using assms(1) by (simp add: settleRun_def set_update_memI)
  show "run \<in> set (settleRun i r runs)" if run: "run \<in> set runs" "rn_promise run = Some p"
  proof -
    obtain j where j: "j < length runs" "runs ! j = run" using run(1) by (metis in_set_conv_nth)
    then have "i \<noteq> j" using assms(2) run(2) by auto
    then have "settleRun i r runs ! j = run" using j by (simp add: settleRun_def)
    then show ?thesis using j(1) nth_mem [of j "settleRun i r runs"] by (simp add: settleRun_def)
  qed
qed

definition fulfilled :: "('d, 'a) Run list \<Rightarrow> 'a \<Rightarrow> bool" where
  "fulfilled runs v \<longleftrightarrow> (\<exists>run\<in>set runs. rn_promise run = Some (Inr v))"

lemma fulfilled_cleanup [simp]: "fulfilled (cleanup runs) v = fulfilled runs v"
proof (cases runs rule: rev_cases)
  case (snoc rs r)
  then show ?thesis by (simp add: fulfilled_def cleanup_def)
qed (simp add: cleanup_def)

lemma fulfilled_startRun [simp]: "fulfilled (startRun d runs) v = fulfilled runs v"
  by (auto simp: fulfilled_def startRun_def)

lemma fulfilled_settleRun:
  assumes "i < length runs" "rn_promise (runs ! i) = None"
  shows "fulfilled runs v \<Longrightarrow> fulfilled (settleRun i r runs) v"
    and "fulfilled (settleRun i (Inr w) runs) w"
  using settleRun_mem(1) [OF assms] settleRun_mem(2) [OF assms, of "Inr w"]
  unfolding fulfilled_def by (blast, metis Run.select_convs(3) Run.surjective Run.update_convs(3))

lemma async_data_step:
  "async_step c c' \<Longrightarrow> (\<And>v. ay_data c = Some v \<Longrightarrow> fulfilled (ay_runs c) v) \<Longrightarrow>
     ay_data c' = Some v \<Longrightarrow> fulfilled (ay_runs c') v"
proof (induction rule: async_step.induct)
  case (Settle i c r)
  note f = fulfilled_settleRun [OF Settle(1,2)]
  show ?case
  proof (cases "rn_active (ay_runs c ! i)")
    case True
    then show ?thesis using Settle.prems f(2) by (cases r) (auto simp: asyncSettle_def Let_def)
  next
    case False
    then show ?thesis using Settle.prems f(1) by (auto simp: asyncSettle_def Let_def)
  qed
qed (simp_all add: asyncEffect_def asyncUnmount_def refetch_def)

lemma async_data_fulfilled: "async_reach deps c \<Longrightarrow> ay_data c = Some v \<Longrightarrow> fulfilled (ay_runs c) v"
proof (induction arbitrary: v rule: async_reach.induct)
  case start
  then show ?case by (simp add: useAsync_def)
next
  case (step c c')
  show ?case by (rule async_data_step [OF step.hyps(2)]) (use step in auto)
qed

text \<open>A late result of a superseded run, or after the unmount, changes nothing that is shown.\<close>

lemma async_late:
  assumes "async_reach deps c" "i < length (ay_runs c)" "Suc i < length (ay_runs c) \<or> \<not> ay_mounted c"
  shows "ay_data (asyncSettle i r c) = ay_data c \<and> ay_error (asyncSettle i r c) = ay_error c \<and>
    ay_loading (asyncSettle i r c) = ay_loading c"
proof -
  have "\<not> rn_active (ay_runs c ! i)"
    using async_reach_inv [OF assms(1)] assms(2,3)
    by (auto simp: async_inv_def superseded_def all_inactive_def)
  then show ?thesis by (simp add: asyncSettle_def Let_def)
qed

subsection \<open>useRefetchAfterWrite\<close>

text \<open>
  The timers are the times at which they are due.  A call clears those still pending and sets one
  per delay; \<open>burstTimes\<close> lists when \<open>refetch\<close> runs for calls at the given times (a
  timer that is due when the next call is made counts as cleared).
\<close>

definition AFTER_WRITE_MS :: "int list" where
  "AFTER_WRITE_MS = [0, 800, 1800, 3500]"

definition afterWrite :: "int \<Rightarrow> int list" where
  "afterWrite now = map (\<lambda>ms. now + ms) AFTER_WRITE_MS"

fun burstTimes :: "int list \<Rightarrow> int list" where
  "burstTimes [] = []"
| "burstTimes [t] = afterWrite t"
| "burstTimes (t # u # ts) = filter (\<lambda>due. due < u) (afterWrite t) @ burstTimes (u # ts)"

lemma burstTimes_last: "\<exists>before. burstTimes (ts @ [t]) = before @ [t, t + 800, t + 1800, t + 3500]"
proof (induction ts rule: burstTimes.induct)
  case 1
  then show ?case by (simp add: afterWrite_def AFTER_WRITE_MS_def)
next
  case (2 u)
  then show ?case by (simp add: afterWrite_def AFTER_WRITE_MS_def)
next
  case (3 u v ts)
  then show ?case by auto
qed

subsection \<open>useMarketDetail\<close>

definition DETAIL_POLL_MS :: int where
  "DETAIL_POLL_MS = 15000"

definition detailTask :: "web3 \<Rightarrow> IndexerReads \<Rightarrow> string option \<Rightarrow> MarketDetail res" where
  "detailTask W indexer pk =
     (if truthy pk then fetchMarketDetail W indexer (orElse pk [])
      else Inl (Error ''No market address supplied.''))"

lemma detailTask_pubkey: "detailTask W indexer pk = Inr d \<Longrightarrow> pk = Some (mt_pubkey d) \<and>
    fetchMarketDetail W indexer (mt_pubkey d) = Inr d"
proof -
  assume d: "detailTask W indexer pk = Inr d"
  then obtain p where p: "pk = Some p" "fetchMarketDetail W indexer p = Inr d"
    by (cases pk) (auto simp: detailTask_def truthy_def split: if_splits)
  then have "mt_pubkey d = p"
    by (auto simp: fetchMarketDetail_def split: option.splits)
  with p show ?thesis by simp
qed

text \<open>Whether the interval that refetches every \<open>DETAIL_POLL_MS\<close> is set.\<close>

definition detailPolls :: "MarketDetail option \<Rightarrow> bool" where
  "detailPolls data =
     (case data of None \<Rightarrow> False | Some d \<Rightarrow> mk_status (mt_market d) = status_code Active)"

subsection \<open>useWriteAction\<close>

definition writeRun ::
  "web3 \<Rightarrow> IndexerReads \<Rightarrow> (nat \<Rightarrow> nat) \<Rightarrow> Wallet \<Rightarrow> WriteStatus \<Rightarrow> instruction list res \<Rightarrow>
   (string \<Rightarrow> unit res) option \<Rightarrow> WriteStatus list \<times> WriteStatus" where
  "writeRun W indexer lag w status build onSuccess =
     (if isBusy status then ([], status)
      else case walletSender indexer w of
        None \<Rightarrow>
          (let s = WError ''Connect a wallet to participate.'' None in ([s], s))
      | Some sender \<Rightarrow> runWriteAction W indexer lag build sender onSuccess)"

lemma failed_with_idle [simp]: "\<not> isBusy (failed_with e)"
  by (simp add: failed_with_def isBusy_def split: prod.split)

lemma writeRun_busy: "isBusy status \<Longrightarrow> writeRun W indexer lag w status build f = ([], status)"
  by (simp add: writeRun_def)

text \<open>A run that starts ends in a status from which the next one may start.\<close>

lemma writeRun_idle:
  "\<not> isBusy status \<Longrightarrow> \<not> isBusy (snd (writeRun W indexer lag w status build f))"
  by (auto simp: writeRun_def Let_def runWriteAction_def isBusy_def failed_with_def
      split: option.split sum.split prod.split)

text \<open>Without a connected wallet nothing is built, signed or sent.\<close>

lemma writeRun_no_wallet:
  assumes "\<not> isBusy status" "\<not> w_connected w \<or> w_publicKey w = None \<or> w_signTransaction w = None"
  shows "writeRun W indexer lag w status build f =
    ([WError ''Connect a wallet to participate.'' None], WError ''Connect a wallet to participate.'' None)"
  using assms by (auto simp: writeRun_def walletSender_def Let_def split: option.split)

subsection \<open>useSolBalance: the fetch\<close>

definition TOKEN_ACCOUNT_AMOUNT_OFFSET :: nat where
  "TOKEN_ACCOUNT_AMOUNT_OFFSET = 64"

definition fetchSolBalance :: "web3 \<Rightarrow> IndexerReads \<Rightarrow> string \<Rightarrow> string \<Rightarrow> int res" where
  "fetchSolBalance W indexer owner baseMint =
     bindR (pda_associatedTokenAccount W (AddrStr owner) (AddrStr baseMint)) (\<lambda>ata.
     bindR (api_getAccount indexer (toBase58 W (fst ata))) (\<lambda>acct.
       case acct of
         None \<Rightarrow> Inr 0
       | Some a \<Rightarrow>
           if length (ac_data a) < TOKEN_ACCOUNT_AMOUNT_OFFSET + 8 then Inr 0
           else readU64LE (ac_data a) TOKEN_ACCOUNT_AMOUNT_OFFSET))"

lemma le_uint_8_bound: "72 \<le> length ds \<Longrightarrow> le_uint (take 8 (drop 64 ds)) < 2 ^ 64"
  using le_uint_bound [of "take 8 (drop 64 ds)"] by simp

lemma fetchSolBalance_range: "fetchSolBalance W indexer owner mint = Inr v \<Longrightarrow> 0 \<le> v \<and> v < 2 ^ 64"
  using le_uint_8_bound
  by (auto simp: fetchSolBalance_def readU64LE_def TOKEN_ACCOUNT_AMOUNT_OFFSET_def getUint_ok le_uint_nonneg
      split: option.splits if_splits)

text \<open>The amount field of an SPL token account: mint, owner, amount, and the rest.\<close>

lemma fetchSolBalance_token_account:
  assumes "pda_associatedTokenAccount W (AddrStr owner) (AddrStr mint) = Inr (a, b)"
    and "api_getAccount indexer (toBase58 W a) =
      Inr (Some \<lparr>ac_data = m @ w @ u64LE v @ rest, ac_owner = p, ac_lamports = l\<rparr>)"
    and "length m = 32" "length w = 32" "0 \<le> v" "v < 2 ^ 64"
  shows "fetchSolBalance W indexer owner mint = Inr v"
  using assms
  by (simp add: fetchSolBalance_def TOKEN_ACCOUNT_AMOUNT_OFFSET_def readU64LE_def getUint_ok u64LE_def
      codec_simps)

subsection \<open>useSolBalance: the hook\<close>

text \<open>
  The same machine with one more branch in the effect: without an owner or a mint nothing is
  fetched.  \<open>balanceKey\<close> is what the dependencies amount to; the indexer client is one object for
  the life of the app.
\<close>

definition balanceKey :: "bool \<Rightarrow> string option \<Rightarrow> string option \<Rightarrow> (string \<times> string) option" where
  "balanceKey isConnected publicKey baseMint =
     (let owner = (if isConnected then publicKey else None) in
      if truthy owner \<and> truthy baseMint then Some (orElse owner [], orElse baseMint []) else None)"

record SolBalanceCell =
  sb_balance :: "int option"
  sb_loading :: bool
  sb_nonce :: nat
  sb_key :: "(string \<times> string) option"
  sb_ran :: "((string \<times> string) option \<times> nat) option"
  sb_runs :: "(string \<times> string, int) Run list"
  sb_mounted :: bool

definition useSolBalance :: "(string \<times> string) option \<Rightarrow> SolBalanceCell" where
  "useSolBalance key =
     \<lparr>sb_balance = None, sb_loading = False, sb_nonce = 0, sb_key = key, sb_ran = None, sb_runs = [],
      sb_mounted = True\<rparr>"

definition refetchBalance :: "SolBalanceCell \<Rightarrow> SolBalanceCell" where
  "refetchBalance c = c\<lparr>sb_nonce := sb_nonce c + 1\<rparr>"

definition balanceEffect :: "SolBalanceCell \<Rightarrow> SolBalanceCell" where
  "balanceEffect c =
     (let c' = c\<lparr>sb_ran := Some (sb_key c, sb_nonce c), sb_runs := cleanup (sb_runs c)\<rparr> in
      case sb_key c of
        None \<Rightarrow> c'\<lparr>sb_balance := None, sb_loading := False\<rparr>
      | Some k \<Rightarrow> c'\<lparr>sb_loading := True, sb_runs := startRun k (sb_runs c')\<rparr>)"

definition balanceSettle :: "nat \<Rightarrow> int res \<Rightarrow> SolBalanceCell \<Rightarrow> SolBalanceCell" where
  "balanceSettle i r c =
     (let c' = c\<lparr>sb_runs := settleRun i r (sb_runs c)\<rparr> in
      if \<not> rn_active (sb_runs c ! i) then c'
      else c'\<lparr>sb_balance := (case r of Inr v \<Rightarrow> Some v | Inl _ \<Rightarrow> None), sb_loading := False\<rparr>)"

definition balanceUnmount :: "SolBalanceCell \<Rightarrow> SolBalanceCell" where
  "balanceUnmount c = c\<lparr>sb_runs := cleanup (sb_runs c), sb_mounted := False\<rparr>"

inductive balance_step :: "SolBalanceCell \<Rightarrow> SolBalanceCell \<Rightarrow> bool" where
  Render: "sb_mounted c \<Longrightarrow> balance_step c (c\<lparr>sb_key := k\<rparr>)"
| Effect: "sb_mounted c \<Longrightarrow> sb_ran c \<noteq> Some (sb_key c, sb_nonce c) \<Longrightarrow> balance_step c (balanceEffect c)"
| Refetch: "balance_step c (refetchBalance c)"
| Settle: "i < length (sb_runs c) \<Longrightarrow> rn_promise (sb_runs c ! i) = None \<Longrightarrow> balance_step c (balanceSettle i r c)"
| Unmount: "sb_mounted c \<Longrightarrow> balance_step c (balanceUnmount c)"

inductive balance_reach :: "(string \<times> string) option \<Rightarrow> SolBalanceCell \<Rightarrow> bool" for key where
  start: "balance_reach key (useSolBalance key)"
| step: "balance_reach key c \<Longrightarrow> balance_step c c' \<Longrightarrow> balance_reach key c'"

text \<open>What the cells show for the run of a key.\<close>

definition balance_shows :: "int res option \<Rightarrow> SolBalanceCell \<Rightarrow> bool" where
  "balance_shows p c \<longleftrightarrow>
     (case p of
        None \<Rightarrow> sb_loading c
      | Some r \<Rightarrow> \<not> sb_loading c \<and> sb_balance c = (case r of Inr v \<Rightarrow> Some v | Inl _ \<Rightarrow> None))"

definition balance_inv :: "SolBalanceCell \<Rightarrow> bool" where
  "balance_inv c \<longleftrightarrow>
     superseded (sb_runs c) \<and>
     (sb_ran c = None \<longrightarrow> sb_runs c = [] \<and> \<not> sb_loading c \<and> sb_balance c = None) \<and>
     (\<not> sb_mounted c \<longrightarrow> all_inactive (sb_runs c)) \<and>
     (\<forall>n. sb_ran c = Some (None, n) \<longrightarrow> all_inactive (sb_runs c) \<and> \<not> sb_loading c \<and> sb_balance c = None) \<and>
     (\<forall>k n. sb_mounted c \<and> sb_ran c = Some (Some k, n) \<longrightarrow> sb_runs c \<noteq> [] \<and> rn_active (last (sb_runs c)) \<and>
        rn_deps (last (sb_runs c)) = k \<and> balance_shows (rn_promise (last (sb_runs c))) c)"

lemma balance_inv_start: "balance_inv (useSolBalance key)"
  by (simp add: balance_inv_def useSolBalance_def)

lemma balance_shows_cong [simp]:
  "balance_shows p (c\<lparr>sb_key := k\<rparr>) = balance_shows p c"
  "balance_shows p (c\<lparr>sb_nonce := n\<rparr>) = balance_shows p c"
  "balance_shows p (c\<lparr>sb_runs := rs\<rparr>) = balance_shows p c"
  by (simp_all add: balance_shows_def split: option.split)

lemma balance_inv_effect: "balance_inv c \<Longrightarrow> sb_mounted c \<Longrightarrow> balance_inv (balanceEffect c)"
  by (simp add: balance_inv_def balanceEffect_def balance_shows_def cleanup_inactive startRun_superseded
      inactive_superseded Let_def split: option.split)

lemma balance_inv_settle:
  assumes inv: "balance_inv c" and i: "i < length (sb_runs c)" "rn_promise (sb_runs c ! i) = None"
  shows "balance_inv (balanceSettle i r c)"
proof -
  have sup: "superseded (sb_runs c)" and ran: "sb_ran c \<noteq> None"
    and out: "\<not> sb_mounted c \<Longrightarrow> all_inactive (sb_runs c)"
    and none: "\<And>n. sb_ran c = Some (None, n) \<Longrightarrow> all_inactive (sb_runs c)"
    using inv i by (auto simp: balance_inv_def)
  have sup': "superseded (settleRun i r (sb_runs c))" using sup by (rule settleRun_superseded)
  show ?thesis
  proof (cases "rn_active (sb_runs c ! i)")
    case True
    then have m: "sb_mounted c" "\<And>n. sb_ran c \<noteq> Some (None, n)"
      using out none i(1) unfolding all_inactive_def by blast+
    have l: "last (settleRun i r (sb_runs c)) = (last (sb_runs c))\<lparr>rn_promise := Some r\<rparr>"
      using settleRun_last(1) [OF sup i(1) True] .
    show ?thesis
      using inv True sup' m ran l
      by (auto simp: balance_inv_def balanceSettle_def balance_shows_def)
  next
    case False
    have keep: "last (settleRun i r (sb_runs c)) = last (sb_runs c)" if "rn_active (last (sb_runs c))"
      using settleRun_last(2) [OF sup i(1) False that] .
    show ?thesis
      using inv False sup' ran keep settleRun_inactive [of "sb_runs c" i r]
      by (auto simp: balance_inv_def balanceSettle_def)
  qed
qed

lemma balance_inv_unmount: "balance_inv c \<Longrightarrow> balance_inv (balanceUnmount c)"
  by (simp add: balance_inv_def balanceUnmount_def cleanup_inactive inactive_superseded)

lemma balance_inv_step: "balance_step c c' \<Longrightarrow> balance_inv c \<Longrightarrow> balance_inv c'"
proof (induction rule: balance_step.induct)
  case (Render c k)
  then show ?case by (auto simp: balance_inv_def)
next
  case (Refetch c)
  then show ?case by (auto simp: balance_inv_def refetchBalance_def)
qed (simp_all add: balance_inv_effect balance_inv_settle balance_inv_unmount)

lemma balance_reach_inv: "balance_reach key c \<Longrightarrow> balance_inv c"
  by (induction rule: balance_reach.induct) (simp_all add: balance_inv_start balance_inv_step)

text \<open>
  A balance that is not being loaded is that of the wallet and mint the effect last ran for.  While
  it is loading, the balance shown is still the one from before: after a change of wallet, that of
  the other wallet.
\<close>

lemma balance_settled:
  assumes "balance_reach key c" "sb_mounted c" "sb_ran c = Some (Some k, n)" "\<not> sb_loading c"
  shows "\<exists>r. last (sb_runs c) = \<lparr>rn_deps = k, rn_active = True, rn_promise = Some r\<rparr> \<and>
    sb_balance c = (case r of Inr v \<Rightarrow> Some v | Inl _ \<Rightarrow> None)"
  using balance_reach_inv [OF assms(1)] assms(2-4)
  by (cases "last (sb_runs c)") (auto simp: balance_inv_def balance_shows_def split: option.splits)

lemma balance_stale:
  "\<exists>c. balance_reach (Some (''a'', m)) c \<and> sb_mounted c \<and> sb_key c = Some (''b'', m) \<and>
     sb_ran c = Some (Some (''b'', m), 0) \<and> sb_loading c \<and> sb_balance c = Some 5"
proof -
  define c1 where "c1 = balanceEffect (useSolBalance (Some (''a'', m)))"
  define c2 where "c2 = balanceSettle 0 (Inr 5) c1"
  define c3 where "c3 = c2\<lparr>sb_key := Some (''b'', m)\<rparr>"
  define c4 where "c4 = balanceEffect c3"
  note d = useSolBalance_def balanceEffect_def balanceSettle_def startRun_def settleRun_def cleanup_def
  have "balance_reach (Some (''a'', m)) c1"
    unfolding c1_def by (rule balance_reach.step [OF balance_reach.start], rule balance_step.Effect) (simp_all add: d)
  then have "balance_reach (Some (''a'', m)) c2"
    unfolding c2_def by (rule balance_reach.step, intro balance_step.Settle) (simp_all add: c1_def d)
  then have "balance_reach (Some (''a'', m)) c3"
    unfolding c3_def by (rule balance_reach.step, intro balance_step.Render) (simp add: c2_def c1_def d)
  then have "balance_reach (Some (''a'', m)) c4"
    unfolding c4_def by (rule balance_reach.step, intro balance_step.Effect) (simp_all add: c3_def c2_def c1_def d)
  moreover have "sb_mounted c4 \<and> sb_key c4 = Some (''b'', m) \<and> sb_ran c4 = Some (Some (''b'', m), 0) \<and>
      sb_loading c4 \<and> sb_balance c4 = Some 5"
    by (simp add: c4_def c3_def c2_def c1_def d)
  ultimately show ?thesis by blast
qed

end
