(* ===== verification/Ticket.thy ===== *)
theory Ticket
  imports Hooks Amount Actions
begin

text \<open>
  The order ticket and the amount forms: the state and handlers of
  \<open>app/src/components/markets/actions/TradePanel.tsx\<close>, the quick-sets and the submit of
  \<open>AddLiquidityControl.tsx\<close> and \<open>ContributeForm.tsx\<close>, and the submit button of
  \<open>formPrimitives.tsx\<close>.  A form's submit returns its new state and, when it starts an action, the
  result of the instruction builder that it hands to \<open>action.run\<close> (\<open>writeRun\<close> of theory Hooks).
\<close>

subsection \<open>Number of a string\<close>

text \<open>
  \<open>Number(s)\<close> of a trimmed, non-empty string: a decimal literal with an optional sign, fraction
  and exponent, \<open>Infinity\<close>, or an unsigned literal with a radix prefix; anything else is \<open>NaN\<close>.
\<close>

definition exponentOf :: "string \<Rightarrow> int option" where
  "exponentOf s =
     (case s of
        [] \<Rightarrow> Some 0
      | c # r \<Rightarrow>
          if c \<noteq> CHR ''e'' \<and> c \<noteq> CHR ''E'' then None
          else
            (let neg = (r \<noteq> [] \<and> hd r = CHR ''-'');
                 ds = (if r \<noteq> [] \<and> (hd r = CHR ''-'' \<or> hd r = CHR ''+'') then tl r else r)
             in if ds \<noteq> [] \<and> list_all is_digit ds
                then Some (if neg then - dec_val ds else dec_val ds) else None))"

definition decimalOf :: "string \<Rightarrow> rat option" where
  "decimalOf s =
     (let whole = takeWhile is_digit s;
          r = dropWhile is_digit s;
          point = (r \<noteq> [] \<and> hd r = CHR ''.'');
          frac = (if point then takeWhile is_digit (tl r) else []);
          rest = (if point then dropWhile is_digit (tl r) else r)
      in if whole = [] \<and> frac = [] then None
         else map_option (\<lambda>e. of_int (dec_val (whole @ frac)) * 10 powi (e - int (length frac)))
                (exponentOf rest))"

definition unsignedOf :: "string \<Rightarrow> jsnum" where
  "unsignedOf s =
     (if s = ''Infinity'' then PInf
      else case decimalOf s of None \<Rightarrow> NaN | Some x \<Rightarrow> num x)"

definition radixOf :: "int \<Rightarrow> string \<Rightarrow> jsnum" where
  "radixOf b ds = (if ds \<noteq> [] \<and> list_all (is_base_digit b) ds then num (of_int (num_val b ds)) else NaN)"

definition NumberStr :: "string \<Rightarrow> jsnum" where
  "NumberStr t =
     (if t \<noteq> [] \<and> hd t = CHR ''-'' then nneg (unsignedOf (tl t))
      else if t \<noteq> [] \<and> hd t = CHR ''+'' then unsignedOf (tl t)
      else if has_prefix t CHR ''x'' CHR ''X'' then radixOf 16 (drop 2 t)
      else if has_prefix t CHR ''o'' CHR ''O'' then radixOf 8 (drop 2 t)
      else if has_prefix t CHR ''b'' CHR ''B'' then radixOf 2 (drop 2 t)
      else unsignedOf t)"

subsection \<open>Amounts as field text\<close>

definition toPlainAmount :: "int \<Rightarrow> string" where
  "toPlainAmount base =
     (let s = padStart (SOL_DECIMALS + 1) (show_int base);
          whole = take (length s - SOL_DECIMALS) s;
          frac = strip_zeros (drop (length s - SOL_DECIMALS) s)
      in if frac \<noteq> [] then whole @ ''.'' @ frac else whole)"

text \<open>The copy of it in \<open>AddLiquidityControl.tsx\<close>.\<close>

definition baseToPlain :: "int \<Rightarrow> string" where
  "baseToPlain base =
     (let s = padStart (SOL_DECIMALS + 1) (show_int base);
          whole = take (length s - SOL_DECIMALS) s;
          frac = strip_zeros (drop (length s - SOL_DECIMALS) s)
      in if frac \<noteq> [] then whole @ ''.'' @ frac else whole)"

text \<open>\<open>parseSolAmount(...).value\<close>.\<close>

definition parsedValue :: "string \<Rightarrow> int option" where
  "parsedValue raw = (case parseSolAmount raw of Inl _ \<Rightarrow> None | Inr v \<Rightarrow> Some v)"

definition parsedError :: "string \<Rightarrow> string option" where
  "parsedError raw = (case parseSolAmount raw of Inl e \<Rightarrow> Some e | Inr _ \<Rightarrow> None)"

subsection \<open>Slippage\<close>

text \<open>The pair of \<open>bps\<close> and the message.\<close>

definition parseSlippagePercent :: "string \<Rightarrow> jsnum \<times> string option" where
  "parseSlippagePercent raw =
     (let t = trim raw in
      if t = [] then (DEFAULT_SLIPPAGE_BPS, None)
      else
        (case NumberStr t of
           Fin pct \<Rightarrow>
             if pct < 0 \<or> pct > 100
             then (DEFAULT_SLIPPAGE_BPS, Some (''Slippage must be 0'' @ [CHR 0x96] @ ''100%.''))
             else (nround (nmul (Fin pct) (Fin 100)), None)
         | _ \<Rightarrow> (DEFAULT_SLIPPAGE_BPS, Some (''Slippage must be 0'' @ [CHR 0x96] @ ''100%.''))))"

subsection \<open>The ticket\<close>

datatype TradeMode = BuyMode | SellMode

record Ticket =
  tk_selectedKey :: string
  tk_mode :: TradeMode
  tk_amount :: string
  tk_amountError :: "string option"
  tk_slippageRaw :: string
  tk_detailsOpen :: bool

definition initialTicket :: "Belief list \<Rightarrow> string option \<Rightarrow> Ticket" where
  "initialTicket beliefs defaultKey =
     \<lparr>tk_selectedKey = orElse defaultKey (case beliefs of [] \<Rightarrow> [] | b # _ \<Rightarrow> be_key b),
      tk_mode = BuyMode, tk_amount = [], tk_amountError = None, tk_slippageRaw = [], tk_detailsOpen = False\<rparr>"

definition selectedBelief :: "Belief list \<Rightarrow> string \<Rightarrow> Belief option" where
  "selectedBelief beliefs key =
     (case find_first (\<lambda>b. be_key b = key) beliefs of
        Some b \<Rightarrow> Some b
      | None \<Rightarrow> (case beliefs of [] \<Rightarrow> None | b # _ \<Rightarrow> Some b))"

definition handleBeliefChange :: "string \<Rightarrow> Ticket \<Rightarrow> Ticket" where
  "handleBeliefChange key t =
     t\<lparr>tk_selectedKey := key, tk_amount := [], tk_amountError := None, tk_detailsOpen := False\<rparr>"

definition handleModeChange :: "TradeMode \<Rightarrow> Ticket \<Rightarrow> Ticket" where
  "handleModeChange m t = t\<lparr>tk_mode := m, tk_amount := [], tk_amountError := None\<rparr>"

text \<open>The effect that follows a selection which has vanished from the beliefs.\<close>

definition resyncTicket :: "Belief list \<Rightarrow> Ticket \<Rightarrow> Ticket" where
  "resyncTicket beliefs t =
     (case selectedBelief beliefs (tk_selectedKey t) of
        None \<Rightarrow> t
      | Some b \<Rightarrow> if be_key b \<noteq> tk_selectedKey t then handleBeliefChange (be_key b) t else t)"

text \<open>The wallet's balances of the base token and of the two outcome tokens.\<close>

record Balances =
  bl_base :: "int option"
  bl_yes :: "int option"
  bl_no :: "int option"

definition positionBalance :: "Balances \<Rightarrow> string \<Rightarrow> int option" where
  "positionBalance bal outcome = (if outcome = ''yes'' then bl_yes bal else bl_no bal)"

definition gateBalance :: "Balances \<Rightarrow> TradeMode \<Rightarrow> string \<Rightarrow> int option" where
  "gateBalance bal mode outcome =
     (if mode = BuyMode then bl_base bal else positionBalance bal outcome)"

definition upperOutcome :: "string \<Rightarrow> string" where
  "upperOutcome s = map (\<lambda>c. let n = code_of c in if 97 \<le> n \<and> n \<le> 122 then chr (n - 32) else c) s"

definition gateAsset :: "TradeMode \<Rightarrow> string \<Rightarrow> string" where
  "gateAsset mode outcome = (if mode = BuyMode then ''SOL'' else upperOutcome outcome @ '' shares'')"

definition ticketBalanceError :: "Balances \<Rightarrow> Belief \<Rightarrow> Ticket \<Rightarrow> string option" where
  "ticketBalanceError bal b t =
     balanceGateError (parsedValue (tk_amount t)) (gateBalance bal (tk_mode t) (be_outcome b))
       (Some (gateAsset (tk_mode t) (be_outcome b)))"

definition bump :: "int \<Rightarrow> Ticket \<Rightarrow> Ticket" where
  "bump n t =
     (let current = orElse (parsedValue (tk_amount t)) 0;
          delta = n * 10 ^ SOL_DECIMALS
      in t\<lparr>tk_amount := toPlainAmount (current + delta), tk_amountError := None\<rparr>)"

definition setMax :: "Balances \<Rightarrow> Belief \<Rightarrow> Ticket \<Rightarrow> Ticket" where
  "setMax bal b t =
     (let t' = (case gateBalance bal (tk_mode t) (be_outcome b) of
                  Some v \<Rightarrow> if v > 0 then t\<lparr>tk_amount := toPlainAmount v\<rparr> else t
                | None \<Rightarrow> t)
      in t'\<lparr>tk_amountError := None\<rparr>)"

subsection \<open>What the ticket shows\<close>

definition ticketSlippage :: "Ticket \<Rightarrow> jsnum" where
  "ticketSlippage t = fst (parseSlippagePercent (tk_slippageRaw t))"

definition buyPreviewOf :: "Belief \<Rightarrow> Ticket \<Rightarrow> (int \<times> int) option res" where
  "buyPreviewOf b t =
     (case (tk_mode t, parsedValue (tk_amount t)) of
        (BuyMode, Some v) \<Rightarrow>
          mapR Some (previewBuy (be_reserves b) (be_outcome b) v (Some (ticketSlippage t)))
      | _ \<Rightarrow> Inr None)"

text \<open>The estimate and the minimum of a buy: \<open>buyReceived\<close> and \<open>buyMinReceived\<close>.\<close>

definition buyFigures :: "Belief \<Rightarrow> Ticket \<Rightarrow> (int \<times> int) option res" where
  "buyFigures b t =
     mapR (map_option (\<lambda>(received, outputAmountMin).
         (received, orElse (parsedValue (tk_amount t)) 0 + outputAmountMin)))
       (buyPreviewOf b t)"

definition sellReceived :: "Belief \<Rightarrow> Ticket \<Rightarrow> int option res" where
  "sellReceived b t =
     (case (tk_mode t, parsedValue (tk_amount t)) of
        (SellMode, Some v) \<Rightarrow>
          mapR (\<lambda>p. if pv_received p > 0 then Some (pv_received p) else None)
            (previewSell (be_reserves b) (be_outcome b) v (Some (ticketSlippage t)))
      | _ \<Rightarrow> Inr None)"

definition priceImpactOf :: "Belief \<Rightarrow> Ticket \<Rightarrow> jsnum res" where
  "priceImpactOf b t =
     (case parsedValue (tk_amount t) of
        None \<Rightarrow> Inr (Fin 0)
      | Some v \<Rightarrow>
          if tk_mode t = BuyMode then Inr (buyPriceImpact (be_reserves b) (be_outcome b) v)
          else sellPriceImpact (be_reserves b) (be_outcome b) v)"

definition priceImpactPct :: "jsnum \<Rightarrow> jsnum" where
  "priceImpactPct impact = ndiv (nround (nmul impact (Fin 1000))) (Fin 10)"

subsection \<open>The submit button\<close>

definition submitLabel :: "string \<Rightarrow> WriteStatus \<Rightarrow> string" where
  "submitLabel verb status =
     (case status of
        WBuilding \<Rightarrow> ''Preparing'' @ [CHR 0x85]
      | WSigning \<Rightarrow> ''Signing'' @ [CHR 0x85]
      | WConfirming \<Rightarrow> ''Confirming'' @ [CHR 0x85]
      | _ \<Rightarrow> verb)"

definition submitDisabled :: "bool \<Rightarrow> WriteStatus \<Rightarrow> bool" where
  "submitDisabled disabled status \<longleftrightarrow>
     disabled \<or> status = WBuilding \<or> status = WSigning \<or> status = WConfirming"

definition ticketDisabled :: "Balances \<Rightarrow> Belief \<Rightarrow> Ticket \<Rightarrow> bool" where
  "ticketDisabled bal b t \<longleftrightarrow>
     truthy (ticketBalanceError bal b t) \<or> truthy (snd (parseSlippagePercent (tk_slippageRaw t)))"

subsection \<open>Submitting\<close>

text \<open>The callback given to \<open>action.run\<close>; \<open>user\<close> is \<open>action.address\<close>.\<close>

definition ticketBuild ::
  "web3 \<Rightarrow> txlib \<Rightarrow> IndexerReads \<Rightarrow> string \<Rightarrow> Belief \<Rightarrow> Ticket \<Rightarrow> int \<Rightarrow> instruction list res" where
  "ticketBuild W T indexer user b t v =
     bindR (marketRefs W (AddrStr (be_pubkey b)) (be_market b)) (\<lambda>refs.
     bindR (pda_associatedTokenAccount W (AddrStr user) (AddrObj (mk_baseMint (be_market b)))) (\<lambda>ata.
     let args = \<lparr>ta_refs = refs, ta_user = AddrStr user, ta_outcome = be_outcome b,
                 ta_userBaseAta = AddrObj (fst ata), ta_reserves = be_reserves b,
                 ta_slippageBps = Some (ticketSlippage t)\<rparr>
     in if tk_mode t = BuyMode then buildBuyIxs W T indexer args v
        else buildSellIxs W T indexer args v))"

definition ticketSubmit ::
  "web3 \<Rightarrow> txlib \<Rightarrow> IndexerReads \<Rightarrow> string \<Rightarrow> Belief \<Rightarrow> Ticket \<Rightarrow>
   Ticket \<times> instruction list res option" where
  "ticketSubmit W T indexer user b t =
     (case parseSolAmount (tk_amount t) of
        Inl e \<Rightarrow> (t\<lparr>tk_amountError := Some e\<rparr>, None)
      | Inr v \<Rightarrow>
          if truthy (snd (parseSlippagePercent (tk_slippageRaw t))) then (t, None)
          else (t\<lparr>tk_amountError := None\<rparr>, Some (ticketBuild W T indexer user b t v)))"

subsection \<open>The deposit form\<close>

record DepositForm =
  df_amount :: string
  df_amountError :: "string option"
  df_accepted :: bool

definition setPercent :: "int option \<Rightarrow> int \<Rightarrow> DepositForm \<Rightarrow> DepositForm" where
  "setPercent balance pct f =
     (case balance of
        None \<Rightarrow> f
      | Some b \<Rightarrow>
          if b \<le> 0 then f
          else f\<lparr>df_amount := baseToPlain (if pct = 100 then b else bdiv (b * pct) 100),
                 df_amountError := None\<rparr>)"

definition depositSubmit ::
  "web3 \<Rightarrow> txlib \<Rightarrow> string \<Rightarrow> Market \<Rightarrow> AmmReserves option \<Rightarrow> string \<Rightarrow> DepositForm \<Rightarrow>
   DepositForm \<times> instruction list res option" where
  "depositSubmit W T pk m reserves user f =
     (case parseSolAmount (df_amount f) of
        Inl e \<Rightarrow> (f\<lparr>df_amountError := Some e\<rparr>, None)
      | Inr v \<Rightarrow>
          (case reserves of
             None \<Rightarrow> (f\<lparr>df_amountError := Some (''Pool reserves are unavailable right now '' @ [CHR 0x97] @
               '' try again in a moment.'')\<rparr>, None)
           | Some r \<Rightarrow> (f\<lparr>df_amountError := None\<rparr>,
               Some (mapR fst (buildAddLiquidityIxs W T
                 \<lparr>wl_market = AddrStr pk, wl_marketAccount = m, wl_reserves = r, wl_contributor = AddrStr user,
                  wl_amount = v, wl_slippageBps = None\<rparr>)))))"

definition depositDisabled :: "int option \<Rightarrow> AmmReserves option \<Rightarrow> DepositForm \<Rightarrow> bool" where
  "depositDisabled balance reserves f \<longleftrightarrow>
     truthy (balanceGateError (parsedValue (df_amount f)) balance None) \<or> reserves = None \<or> \<not> df_accepted f"

text \<open>\<open>ContributeForm\<close>: the amount text and its error.\<close>

definition contributeSubmit ::
  "web3 \<Rightarrow> IndexerReads \<Rightarrow> string \<Rightarrow> string \<Rightarrow> string \<Rightarrow> string \<Rightarrow>
   string option \<times> instruction list res option" where
  "contributeSubmit W indexer pk baseMint user amount =
     (case parseSolAmount amount of
        Inl e \<Rightarrow> (Some e, None)
      | Inr v \<Rightarrow> (None, Some (buildContributeIxs W indexer
        \<lparr>wc_market = AddrStr pk, wc_baseMint = AddrStr baseMint, wc_contributor = AddrStr user, wc_amount = v\<rparr>)))"

subsection \<open>A field filled in by the code reads back exactly\<close>

lemma dec_val_zeros: "dec_val (replicate n CHR ''0'') = 0" and zero_digit: "is_digit CHR ''0''"
  by (simp_all add: dec_val_def num_val_zeros is_digit_def code_of_def)

lemma padStart_digits:
  "0 \<le> n \<Longrightarrow> (\<forall>c\<in>set (padStart k (dec_str n)). is_digit c) \<and> dec_val (padStart k (dec_str n)) = n \<and>
     k \<le> length (padStart k (dec_str n))"
  using dec_str_digits [of n]
  by (auto simp: padStart_def dec_val_append dec_val_zeros zero_digit)

lemma toPlainAmount_parts:
  assumes "0 \<le> v"
  shows "\<exists>a b. amount_numeral (toPlainAmount v) a b \<and> amount_value a b = v"
proof -
  define p where "p = padStart (SOL_DECIMALS + 1) (dec_str v)"
  define k where "k = length p - SOL_DECIMALS"
  define w where "w = take k p"
  define f where "f = strip_zeros (drop k p)"
  have p: "\<forall>c\<in>set p. is_digit c" "dec_val p = v" "SOL_DECIMALS + 1 \<le> length p"
    using padStart_digits [OF assms] unfolding p_def by blast+
  then have k: "0 < k" "length (drop k p) = SOL_DECIMALS" by (simp_all add: k_def)
  obtain n where n: "drop k p = f @ replicate n CHR ''0''" using strip_zeros_split unfolding f_def by blast
  have len: "length f + n = SOL_DECIMALS" using k(2) n by simp
  have pe: "p = w @ f @ replicate n CHR ''0''" unfolding w_def n [symmetric] by simp
  have "set w \<subseteq> set p" "set f \<subseteq> set p"
    using arg_cong [OF pe, of set] by auto
  moreover have "w \<noteq> []" using p(3) k(1) by (auto simp: w_def)
  ultimately have wd: "\<forall>c\<in>set w. is_digit c" "w \<noteq> []" "\<forall>c\<in>set f. is_digit c"
    using p(1) by blast+
  have val: "dec_val (w @ f) * 10 ^ n = v"
    using p(2) dec_val_pad [of "w @ f" n] arg_cong [OF pe, of dec_val] by simp
  have t: "toPlainAmount v = (if f \<noteq> [] then w @ ''.'' @ f else w)"
    using assms by (simp add: toPlainAmount_def show_int_def p_def k_def w_def f_def Let_def)
  have dn: "SOL_DECIMALS - length f = n" using len by simp
  show ?thesis
  proof (cases "f = []")
    case True
    then have "n = SOL_DECIMALS" using len by simp
    then have "amount_numeral (toPlainAmount v) w None \<and> amount_value w None = v"
      using t True wd val by (simp add: amount_numeral_def amount_value_def)
    then show ?thesis by blast
  next
    case False
    then have "amount_numeral (toPlainAmount v) w (Some f) \<and> amount_value w (Some f) = v"
      using t wd val len dn by (simp add: amount_numeral_def amount_value_def)
    then show ?thesis by blast
  qed
qed

lemma amount_numeral_trim: "amount_numeral t a b \<Longrightarrow> trim t = t"
proof (rule trim_plain)
  assume "amount_numeral t a b"
  moreover have "\<not> is_space CHR ''.''" by (simp add: is_space_def code_of_def)
  ultimately show "\<forall>c\<in>set t. \<not> is_space c"
    using is_digit_not_space by (cases b) (auto simp: amount_numeral_def)
qed

lemma parse_toPlainAmount: "0 < v \<Longrightarrow> parseSolAmount (toPlainAmount v) = Inr v"
  using toPlainAmount_parts [of v] amount_numeral_trim parseSolAmount_iff [of "toPlainAmount v" v]
  by (metis less_imp_le)

lemma baseToPlain_eq: "baseToPlain = toPlainAmount"
  by (simp add: fun_eq_iff baseToPlain_def toPlainAmount_def)

lemma parsedValue_toPlainAmount: "0 < v \<Longrightarrow> parsedValue (toPlainAmount v) = Some v"
  by (simp add: parsedValue_def parse_toPlainAmount)

lemma parsedValue_pos: "parsedValue raw = Some v \<Longrightarrow> 0 < v"
  by (auto simp: parsedValue_def parseSolAmount_iff split: sum.splits)

text \<open>A quick-add chip adds exactly its number of whole SOL.\<close>

lemma bump_exact:
  assumes "0 < n"
  shows "parsedValue (tk_amount (bump n t)) = Some (orElse (parsedValue (tk_amount t)) 0 + n * 1000000000)"
proof -
  have "0 \<le> orElse (parsedValue (tk_amount t)) 0"
    using parsedValue_pos [of "tk_amount t"] by (cases "parsedValue (tk_amount t)") auto
  then show ?thesis
    using assms parsedValue_toPlainAmount by (simp add: bump_def Let_def SOL_DECIMALS_def)
qed

text \<open>Max enters the whole balance, and the gate lets it pass.\<close>

lemma setMax_exact:
  assumes "gateBalance bal (tk_mode t) (be_outcome b) = Some v" "0 < v"
  shows "parsedValue (tk_amount (setMax bal b t)) = Some v \<and>
    ticketBalanceError bal b (setMax bal b t) = None"
  using assms parsedValue_toPlainAmount [OF assms(2)]
  by (simp add: setMax_def Let_def ticketBalanceError_def balanceGateError_def)

text \<open>A percentage of a balance never exceeds it.\<close>

lemma setPercent_exact:
  assumes "0 < v" "0 < pct" "pct \<le> 100" "100 \<le> v * pct"
  shows "parsedValue (df_amount (setPercent (Some v) pct f)) = Some (v * pct div 100) \<and>
    v * pct div 100 \<le> v \<and>
    balanceGateError (parsedValue (df_amount (setPercent (Some v) pct f))) (Some v) None = None"
proof -
  have "v * pct \<le> v * 100" using assms by (intro mult_left_mono) simp_all
  then have le: "v * pct div 100 \<le> v" by linarith
  have pos: "0 < v * pct div 100" using assms(4) by linarith
  have bd: "bdiv (v * pct) 100 = v * pct div 100" using assms by (simp add: bdiv_nonneg)
  have "parsedValue (df_amount (setPercent (Some v) pct f)) = Some (v * pct div 100)"
    using assms(1) pos parsedValue_toPlainAmount [of v] parsedValue_toPlainAmount [OF pos]
    by (simp add: setPercent_def baseToPlain_eq bd)
  then show ?thesis using le assms(1) by (simp add: balanceGateError_def)
qed

subsection \<open>The slippage tolerance\<close>

lemma parseSlippagePercent_bps:
  "\<exists>bps. fst (parseSlippagePercent raw) = Fin (of_int bps) \<and> 0 \<le> bps \<and> bps \<le> 10000"
proof -
  have dflt: "\<exists>bps. DEFAULT_SLIPPAGE_BPS = Fin (of_int bps) \<and> 0 \<le> bps \<and> bps \<le> 10000"
    by (intro exI [of _ 100]) (simp add: DEFAULT_SLIPPAGE_BPS_def)
  have ok: "\<exists>bps. nround (nmul (Fin a) (Fin 100)) = Fin (of_int bps) \<and> 0 \<le> bps \<and> bps \<le> 10000"
    if "0 \<le> a" "a \<le> 100" for a
  proof -
    have a: "0 \<le> a * 100" "a * 100 \<le> of_int 10000" using that by simp_all
    have "repr (of_int 10000)" by (rule repr_of_int) simp
    then have r: "0 \<le> rnd (a * 100)" "rnd (a * 100) \<le> of_int 10000"
      using a by (auto intro: dbl.r_le rnd_nonneg)
    have "\<bar>a * 100\<bar> \<le> 2 ^ 1023"
      using a order_trans [of "a * 100" "2 ^ 14" "2 ^ 1023"] power_increasing [of 14 1023 "2 :: rat"] by simp
    then have n: "num (a * 100) = Fin (rnd (a * 100))" by (rule num_finite)
    have "0 \<le> \<lfloor>rnd (a * 100) + 1/2\<rfloor>" "\<lfloor>rnd (a * 100) + 1/2\<rfloor> \<le> 10000"
      using r by (simp_all add: le_floor_iff floor_le_iff)
    then show ?thesis using n by auto
  qed
  show ?thesis
    using dflt ok by (auto simp: parseSlippagePercent_def Let_def split: jsnum.split)
qed

lemma ticketSlippage_number: "ticketSlippage t \<noteq> NaN"
  using parseSlippagePercent_bps [of "tk_slippageRaw t"] by (auto simp: ticketSlippage_def)

text \<open>The minimum shown for a buy is at least the payment and at most the estimate.\<close>

lemma buyFigures_bounds:
  assumes "buyFigures b t = Inr (Some (received, least))" "be_reserves b = Some r"
  shows "\<exists>v. parsedValue (tk_amount t) = Some v \<and> v \<le> least \<and> least \<le> received"
proof -
  obtain v m where v: "tk_mode t = BuyMode" "parsedValue (tk_amount t) = Some v"
      "previewBuy (be_reserves b) (be_outcome b) v (Some (ticketSlippage t)) = Inr (received, m)"
      "least = v + m"
    using assms(1) by (auto simp: buyFigures_def buyPreviewOf_def mapR_Inr_iff
        split: TradeMode.splits option.splits)
  have pos: "0 < v" using parsedValue_pos [OF v(2)] .
  define p where "p = reservePair r (be_outcome b = ''yes'')"
  define so where "so = ammSwapOut v (fst p) (snd p)"
  have pv: "received = v + so \<and> minOutFromSlippage so (ticketSlippage t) = Inr m"
    using v(3) pos assms(2) by (auto simp: previewBuy_def so_def p_def Let_def split: prod.splits)
  have "0 \<le> so" unfolding so_def using ammSwapOut_range by blast
  moreover obtain m' where "minOutFromSlippage so (ticketSlippage t) = Inr m'" "0 \<le> m'" "m' \<le> max so 0"
    using minOutFromSlippage_range [OF ticketSlippage_number] by blast
  ultimately show ?thesis using pv v(2,4) by auto
qed

subsection \<open>The selection\<close>

lemma selectedBelief_mem: "selectedBelief beliefs key = Some b \<Longrightarrow> b \<in> set beliefs"
  by (auto simp: selectedBelief_def dest!: find_first_Some split: option.splits list.splits)

lemma selectedBelief_None: "selectedBelief beliefs key = None \<longleftrightarrow> beliefs = []"
  by (auto simp: selectedBelief_def split: option.splits list.splits)

text \<open>After the effect the selected key is that of the belief which the ticket trades, and running
  it again changes nothing.\<close>

lemma selectedBelief_own:
  "b \<in> set beliefs \<Longrightarrow> \<exists>b'. selectedBelief beliefs (be_key b) = Some b' \<and> be_key b' = be_key b"
  by (cases "find_first (\<lambda>c. be_key c = be_key b) beliefs")
     (auto simp: selectedBelief_def find_first_None dest!: find_first_Some)

lemma resyncTicket_settles:
  assumes "beliefs \<noteq> []"
  shows "\<exists>b\<in>set beliefs. selectedBelief beliefs (tk_selectedKey (resyncTicket beliefs t)) = Some b \<and>
    be_key b = tk_selectedKey (resyncTicket beliefs t)"
proof -
  obtain b where b: "selectedBelief beliefs (tk_selectedKey t) = Some b"
    using assms selectedBelief_None by (metis not_None_eq)
  obtain b' where b': "selectedBelief beliefs (be_key b) = Some b'" "be_key b' = be_key b"
    using selectedBelief_own selectedBelief_mem [OF b] by blast
  have k: "tk_selectedKey (resyncTicket beliefs t) = be_key b"
    using b by (simp add: resyncTicket_def handleBeliefChange_def)
  show ?thesis using b' selectedBelief_mem [OF b'(1)] by (auto simp: k)
qed

lemma resyncTicket_idem: "resyncTicket beliefs (resyncTicket beliefs t) = resyncTicket beliefs t"
proof (cases "beliefs = []")
  case True
  then show ?thesis by (simp add: resyncTicket_def selectedBelief_def)
next
  case False
  then show ?thesis
    using resyncTicket_settles [of beliefs t] by (auto simp: resyncTicket_def [of _ "resyncTicket beliefs t"])
qed

text \<open>A change of what the amount means empties the field.\<close>

lemma selection_clears:
  "tk_amount (handleBeliefChange key t) = []" "tk_amount (handleModeChange m t) = []"
  by (simp_all add: handleBeliefChange_def handleModeChange_def)

subsection \<open>The submit\<close>

text \<open>Nothing is built for an amount that does not parse or a slippage outside its range.\<close>

lemma ticketSubmit_Some:
  "snd (ticketSubmit W T indexer user b t) = Some built \<longleftrightarrow>
     (\<exists>v. parseSolAmount (tk_amount t) = Inr v \<and>
        \<not> truthy (snd (parseSlippagePercent (tk_slippageRaw t))) \<and>
        built = ticketBuild W T indexer user b t v)"
  by (auto simp: ticketSubmit_def split: sum.splits)

text \<open>A submitted buy splits and swaps exactly the amount in the field.\<close>

lemma ticketSubmit_buy:
  assumes "snd (ticketSubmit W T indexer user b t) = Some (Inr ixs)" "tk_mode t = BuyMode"
  shows "\<exists>v refs split sw outMin. parseSolAmount (tk_amount t) = Inr v \<and>
    marketRefs W (AddrStr (be_pubkey b)) (be_market b) = Inr refs \<and> drop 3 ixs = [split, sw] \<and>
    ixData split = DISC_splitTokens @ u64LE v \<and>
    ixData sw = swap_data (if be_outcome b = ''yes'' then Buy else Sell) v outMin"
proof -
  obtain v where v: "parseSolAmount (tk_amount t) = Inr v" "ticketBuild W T indexer user b t v = Inr ixs"
    using assms(1) by (auto simp: ticketSubmit_Some)
  obtain refs ata where r: "marketRefs W (AddrStr (be_pubkey b)) (be_market b) = Inr refs"
      "buildBuyIxs W T indexer \<lparr>ta_refs = refs, ta_user = AddrStr user, ta_outcome = be_outcome b,
         ta_userBaseAta = AddrObj ata, ta_reserves = be_reserves b,
         ta_slippageBps = Some (ticketSlippage t)\<rparr> v = Inr ixs"
    using v(2) assms(2) by (auto simp: ticketBuild_def)
  show ?thesis using buildBuyIxs_Inr [OF r(2)] v(1) r(1) by auto
qed

lemma depositSubmit_Some:
  "snd (depositSubmit W T pk m reserves user f) = Some built \<Longrightarrow>
     parsedValue (df_amount f) \<noteq> None \<and> reserves \<noteq> None \<and>
     df_amountError (fst (depositSubmit W T pk m reserves user f)) = None"
  by (auto simp: depositSubmit_def parsedValue_def split: sum.splits option.splits)

end
