(* ===== verification/Controls.thy ===== *)
theory Controls
  imports Ticket Browse
begin

text \<open>
  Which controls a market's page offers, and when the program accepts what they send:
  \<open>app/src/components/markets/actions/MarketActions.tsx\<close> (the status-gated surfaces),
  \<open>ClaimLpControl.tsx\<close> (the claim), \<open>RedeemControl.tsx\<close>, and the calls to action of
  \<open>MarketCard.tsx\<close>.  The specification is the list of guards at the head of each processor of the
  on-chain program (\<open>programs/markets/src/processor/*.rs\<close>), as \<open>admits\<close>.
\<close>

datatype Control =
    AContribute | AAddLiquidity | AClaimLp | ARefund
  | AActivate | ACancel | AResolve | ARedeem | ACollectFee | AClose

datatype Item = Offer Control | Remark string

definition offered :: "Item list \<Rightarrow> Control set" where
  "offered items = {c. Offer c \<in> set items}"

subsection \<open>MarketActions.tsx\<close>

definition ContributorsRemaining :: "int \<Rightarrow> Item" where
  "ContributorsRemaining opened =
     Remark (if opened > 0
       then show_int opened @ '' contributor'' @ (if opened = 1 then [] else ''s'') @ '' yet to claim '' @
         [CHR 0x97] @ '' the market can be closed once all have exited.''
       else ''All contributions claimed '' @ [CHR 0x97] @ '' the market is ready to close.'')"

text \<open>The two tabs of the liquidity surface of an active market are both offered.\<close>

definition LiquidityActionTabs :: "Item list" where
  "LiquidityActionTabs = [Offer AAddLiquidity, Offer AClaimLp]"

definition MarketLiquidityActions :: "Market \<Rightarrow> bool \<Rightarrow> Item list" where
  "MarketLiquidityActions m isGrouped =
     (if mk_status m = status_code Funding then
        (if isGrouped then [Remark ''Fund this option as part of the group below.'']
         else [Offer AContribute])
      else if mk_status m = status_code Active then LiquidityActionTabs
      else if mk_status m = status_code Resolved \<or> mk_status m = status_code Void then [Offer AClaimLp]
      else if mk_status m = status_code Cancelled then
        (if mk_openContributions m > 0 then [Offer ARefund]
         else [Remark (''All contributors have been refunded '' @ [CHR 0x97] @ '' nothing left to withdraw.'')])
      else [])"

definition oracleTerminalOf :: "MarketOracle option \<Rightarrow> bool" where
  "oracleTerminalOf orc = (case orc of Some s \<Rightarrow> isTerminal (or_phase s) | None \<Rightarrow> False)"

definition showIf :: "bool \<Rightarrow> Item \<Rightarrow> Item list" where
  "showIf b item = (if b then [item] else [])"

definition MarketLifecycleActions :: "Market \<Rightarrow> MarketOracle option \<Rightarrow> Config option \<Rightarrow> Item list" where
  "MarketLifecycleActions m orc config =
     (let oracleTerminal = oracleTerminalOf orc;
          showCollectFee = (config \<noteq> None \<and> mk_feeBps m > 0 \<and> \<not> mk_feeCollected m) in
      if mk_status m = status_code Funding then
        (let funded = fp_funded (fundingProgress (mk_totalContributed m) (mk_minLiquidity m));
             acts = fundingActions funded oracleTerminal in
         if \<not> fa_canActivate acts \<and> \<not> fa_canCancel acts then
           [Remark (''Waiting on the funding floor '' @ [CHR 0x97] @
              '' activation opens once the market is fully funded.'')]
         else showIf (fa_canActivate acts) (Offer AActivate) @ showIf (fa_canCancel acts) (Offer ACancel))
      else if mk_status m = status_code Active then
        (if oracleTerminal then [Offer AResolve]
         else [Remark ''The market resolves once its linked oracle reaches a terminal phase.''])
      else if mk_status m = status_code Resolved \<or> mk_status m = status_code Void then
        (let canClose = (mk_feeCollected m \<and> mk_openContributions m = 0) in
         [Offer ARedeem] @ showIf showCollectFee (Offer ACollectFee) @
         (if canClose then [Offer AClose]
          else showIf (mk_openContributions m > 0) (ContributorsRemaining (mk_openContributions m))))
      else if mk_status m = status_code Cancelled then
        (let canClose = (mk_openContributions m = 0) in
         if canClose then [Offer AClose] else [ContributorsRemaining (mk_openContributions m)])
      else [])"

subsection \<open>ClaimLpControl.tsx\<close>

text \<open>What the control shows: nothing, the note of the tab, the wait for the fee, or the claim.\<close>

datatype ClaimView = ClaimHidden | ClaimNote | ClaimWaiting string | ClaimReady string

definition mineOf :: "web3 \<Rightarrow> string option \<Rightarrow> ContributionRow list \<Rightarrow> ContributionRow option" where
  "mineOf W user contributions =
     (case user of
        None \<Rightarrow> None
      | Some a \<Rightarrow> find_first (\<lambda>r. \<not> cn_claimed (cr_contribution r) \<and>
          toBase58 W (cn_contributor (cr_contribution r)) = a) contributions)"

definition positionText :: "Contribution \<Rightarrow> string" where
  "positionText c =
     (let parts =
        (if cn_amount c > 0 then [formatSol (cn_amount c) @ '' SOL funding contribution''] else []) @
        (if cn_lateLp c > 0 then [formatSol (cn_lateLp c) @ '' LP you added to the pool''] else [])
      in case parts of
           [] \<Rightarrow> ''position''
         | [p] \<Rightarrow> p
         | p # q # _ \<Rightarrow> p @ '' and '' @ q)"

definition ClaimLpControl ::
  "web3 \<Rightarrow> bool \<Rightarrow> string option \<Rightarrow> Market \<Rightarrow> ContributionRow list \<Rightarrow> ClaimView" where
  "ClaimLpControl W embedded user m contributions =
     (case mineOf W user contributions of
        None \<Rightarrow> (if \<not> embedded then ClaimHidden else ClaimNote)
      | Some mine \<Rightarrow>
          (let txt = positionText (cr_contribution mine) in
           if \<not> mk_feeCollected m then ClaimWaiting txt else ClaimReady txt))"

text \<open>\<open>RedeemControl\<close> disables its submit when both balances are known to be zero.\<close>

definition redeemDisabled :: "int option \<Rightarrow> int option \<Rightarrow> bool" where
  "redeemDisabled yes no \<longleftrightarrow> yes = Some 0 \<and> no = Some 0"

subsection \<open>MarketCard.tsx\<close>

definition cardAction :: "Market \<Rightarrow> Control option" where
  "cardAction m =
     (if mk_status m = status_code Funding then
        (if fp_funded (fundingProgress (mk_totalContributed m) (mk_minLiquidity m))
         then Some AActivate else Some AContribute)
      else None)"

subsection \<open>The guards of the program\<close>

fun admits :: "Control \<Rightarrow> Market \<Rightarrow> bool \<Rightarrow> bool" where
  "admits AContribute m terminal = (mk_status m = status_code Funding)"
| "admits AAddLiquidity m terminal = (mk_status m = status_code Active \<and> \<not> terminal)"
| "admits AClaimLp m terminal =
     ((mk_status m = status_code Active \<or> mk_status m = status_code Resolved \<or> mk_status m = status_code Void) \<and>
      mk_feeCollected m)"
| "admits ARefund m terminal = (mk_status m = status_code Cancelled)"
| "admits AActivate m terminal =
     (mk_status m = status_code Funding \<and> mk_minLiquidity m \<le> mk_totalContributed m \<and> \<not> terminal)"
| "admits ACancel m terminal = (mk_status m = status_code Funding \<and> terminal)"
| "admits AResolve m terminal = (\<not> mk_settled m \<and> mk_status m = status_code Active \<and> terminal)"
| "admits ARedeem m terminal = (mk_status m = status_code Resolved \<or> mk_status m = status_code Void)"
| "admits ACollectFee m terminal =
     (\<not> mk_feeCollected m \<and> (mk_status m = status_code Resolved \<or> mk_status m = status_code Void) \<and>
      mk_feeBps m \<noteq> 0 \<and> mk_lpTotal m \<noteq> 0)"
| "admits AClose m terminal =
     ((mk_status m = status_code Resolved \<or> mk_status m = status_code Void \<or> mk_status m = status_code Cancelled) \<and>
      (address_bytes (mk_lpVault m) \<noteq> replicate 32 0 \<longrightarrow> mk_feeCollected m) \<and> mk_openContributions m = 0)"

text \<open>
  What the program keeps of a market it stores: unsigned fields are not negative; a market that is
  settled has left \<open>Active\<close>; \<open>activate\<close> records the vault of the liquidity tokens, so a resolved or
  void market has one and a cancelled market has none; and \<open>resolve_market\<close> marks the fee as
  collected when there is none to collect.
\<close>

definition stored_market :: "Market \<Rightarrow> bool" where
  "stored_market m \<longleftrightarrow>
     0 \<le> mk_minLiquidity m \<and> 0 \<le> mk_totalContributed m \<and> 0 \<le> mk_openContributions m \<and> 0 \<le> mk_feeBps m \<and>
     (mk_status m = status_code Active \<longrightarrow> \<not> mk_settled m) \<and>
     (mk_status m = status_code Cancelled \<longrightarrow> address_bytes (mk_lpVault m) = replicate 32 0) \<and>
     (mk_status m = status_code Resolved \<or> mk_status m = status_code Void \<longrightarrow>
        address_bytes (mk_lpVault m) \<noteq> replicate 32 0 \<and>
        (\<not> mk_feeCollected m \<longrightarrow> mk_feeBps m \<noteq> 0 \<and> mk_lpTotal m \<noteq> 0))"

subsection \<open>The controls and the guards\<close>

lemma funded_iff:
  "0 \<le> t \<Longrightarrow> fp_funded (fundingProgress t least) \<longleftrightarrow> least \<le> t"
  by (simp add: fundingProgress_def Let_def)

lemma offered_simps [simp]:
  "offered [] = {}" "offered (Offer c # items) = insert c (offered items)"
  "offered (Remark s # items) = offered items"
  "offered (xs @ ys) = offered xs \<union> offered ys"
  "offered (showIf b (Offer c)) = (if b then {c} else {})"
  "offered (showIf b (Remark s)) = {}"
  "offered [ContributorsRemaining n] = {}"
  "offered (showIf b (ContributorsRemaining n)) = {}"
  by (auto simp: offered_def showIf_def ContributorsRemaining_def)

definition lifecycle_controls :: "Control set" where
  "lifecycle_controls = {AActivate, ACancel, AResolve, ARedeem, ACollectFee, AClose}"

text \<open>
  With the configuration and the oracle loaded, the lifecycle surface offers a control exactly when
  the program accepts it.
\<close>

lemma lifecycle_offered:
  assumes "0 \<le> mk_totalContributed m"
  shows "mk_status m = 0 \<Longrightarrow> offered (MarketLifecycleActions m (Some s) (Some cfg)) =
      (if isTerminal (or_phase s) then {ACancel}
       else if mk_minLiquidity m \<le> mk_totalContributed m then {AActivate} else {})"
    and "mk_status m = 1 \<Longrightarrow> offered (MarketLifecycleActions m (Some s) (Some cfg)) =
      (if isTerminal (or_phase s) then {AResolve} else {})"
    and "mk_status m = 2 \<or> mk_status m = 3 \<Longrightarrow> offered (MarketLifecycleActions m (Some s) (Some cfg)) =
      {ARedeem} \<union> (if mk_feeBps m > 0 \<and> \<not> mk_feeCollected m then {ACollectFee} else {}) \<union>
      (if mk_feeCollected m \<and> mk_openContributions m = 0 then {AClose} else {})"
    and "mk_status m = 4 \<Longrightarrow> offered (MarketLifecycleActions m (Some s) (Some cfg)) =
      (if mk_openContributions m = 0 then {AClose} else {})"
    and "mk_status m \<notin> {0, 1, 2, 3, 4} \<Longrightarrow> offered (MarketLifecycleActions m (Some s) (Some cfg)) = {}"
  using assms
  by (auto simp: MarketLifecycleActions_def Let_def oracleTerminalOf_def funded_iff fundingActions_def)

lemma lifecycle_exact:
  assumes "stored_market m" "c \<in> lifecycle_controls"
  shows "c \<in> offered (MarketLifecycleActions m (Some s) (Some cfg)) \<longleftrightarrow> admits c m (isTerminal (or_phase s))"
proof -
  have t: "0 \<le> mk_totalContributed m" using assms(1) by (simp add: stored_market_def)
  note o = lifecycle_offered [OF t, of s cfg]
  consider "mk_status m = 0" | "mk_status m = 1" | "mk_status m = 2 \<or> mk_status m = 3" | "mk_status m = 4"
    | "mk_status m \<notin> {0, 1, 2, 3, 4}" by fastforce
  then show ?thesis
  proof cases
    case 1
    then show ?thesis using assms(2) o(1) by (cases c) (simp_all add: lifecycle_controls_def)
  next
    case 2
    then show ?thesis using assms o(2) by (cases c) (simp_all add: lifecycle_controls_def stored_market_def)
  next
    case 3
    then have "mk_status m \<noteq> 0" "mk_status m \<noteq> 1" "mk_status m \<noteq> 4" by auto
    then show ?thesis using 3 assms o(3) by (cases c) (auto simp: lifecycle_controls_def stored_market_def)
  next
    case 4
    then show ?thesis using assms o(4) by (cases c) (auto simp: lifecycle_controls_def stored_market_def)
  next
    case 5
    then show ?thesis using assms(2) o(5) by (cases c) (simp_all add: lifecycle_controls_def)
  qed
qed

text \<open>
  Every control of the liquidity surface is accepted, with two exceptions: the claim waits for the
  fee on its own, and the deposit into an active market is offered even when the oracle is already
  terminal, where the program rejects it.
\<close>

lemma liquidity_admitted:
  assumes "c \<in> offered (MarketLiquidityActions m isGrouped)" "c \<noteq> AClaimLp"
    and "c = AAddLiquidity \<longrightarrow> \<not> terminal"
  shows "admits c m terminal"
  using assms
  by (auto simp: MarketLiquidityActions_def LiquidityActionTabs_def split: if_splits)

lemma deposit_after_terminal:
  "mk_status m = status_code Active \<Longrightarrow>
     AAddLiquidity \<in> offered (MarketLiquidityActions m isGrouped) \<and> \<not> admits AAddLiquidity m True"
  by (simp add: MarketLiquidityActions_def LiquidityActionTabs_def)

text \<open>The claim is enabled exactly for a contributor who has not claimed, once the fee is collected.\<close>

lemma ClaimLpControl_ready:
  "(\<exists>txt. ClaimLpControl W embedded user m cs = ClaimReady txt) \<longleftrightarrow>
     mk_feeCollected m \<and> (\<exists>a. user = Some a \<and>
       (\<exists>r\<in>set cs. \<not> cn_claimed (cr_contribution r) \<and> toBase58 W (cn_contributor (cr_contribution r)) = a))"
proof -
  have "mineOf W user cs = None \<longleftrightarrow> (\<forall>a. user = Some a \<longrightarrow>
      (\<forall>r\<in>set cs. cn_claimed (cr_contribution r) \<or> toBase58 W (cn_contributor (cr_contribution r)) \<noteq> a))"
    by (cases user) (auto simp: mineOf_def find_first_None)
  then show ?thesis
    by (cases "mineOf W user cs") (auto simp: ClaimLpControl_def Let_def)
qed

lemma claim_admitted:
  assumes "ClaimLpControl W embedded user m cs = ClaimReady txt"
    and "AClaimLp \<in> offered (MarketLiquidityActions m isGrouped)"
  shows "admits AClaimLp m terminal"
  using assms ClaimLpControl_ready [of W embedded user m cs]
  by (auto simp: MarketLiquidityActions_def LiquidityActionTabs_def split: if_splits)

text \<open>The call to action of a card is accepted while the oracle is open.\<close>

lemma cardAction_admitted: "0 \<le> mk_totalContributed m \<Longrightarrow> cardAction m = Some c \<Longrightarrow> admits c m False"
  by (auto simp: cardAction_def funded_iff split: if_splits)

text \<open>No stored market is stuck: whatever its phase, a control is offered or the page says what it waits for.\<close>

lemma lifecycle_not_empty:
  assumes "status_code s = mk_status m"
  shows "MarketLifecycleActions m orc config \<noteq> [] \<and> MarketLiquidityActions m isGrouped \<noteq> []"
  using assms
  by (cases s) (auto simp: MarketLifecycleActions_def MarketLiquidityActions_def LiquidityActionTabs_def Let_def
      fundingActions_def showIf_def)

end
