(* ===== verification/GroupPanel.thy ===== *)
theory GroupPanel
  imports Controls
begin

text \<open>
  Acting on all outcomes of a categorical question at once:
  \<open>app/src/components/markets/actions/GroupLiquidityPanel.tsx\<close> (deposit and withdraw), the call to
  action \<open>FundGroupCta\<close> of \<open>app/src/components/markets/CategoricalCard.tsx\<close>, and the beliefs and
  curves that \<open>GroupTradePanel.tsx\<close> hands to the chart and to the order ticket.

  A handler returns the message it sets (\<open>Inl\<close>, empty for an early return without one) or the
  steps that it runs (\<open>Inr\<close>).
\<close>

subsection \<open>GroupLiquidityPanel.tsx: the deposit\<close>

text \<open>
  The reserves of a depositable outcome that is not funding (\<open>m.reserves!\<close>); the group keeps only
  those that have them.
\<close>

definition reservesOf :: "MarketSummary \<Rightarrow> AmmReserves" where
  "reservesOf m = orElse (ms_reserves m) \<lparr>ar_base = 0, ar_quote = 0\<rparr>"

definition isFunding :: "MarketSummary \<Rightarrow> bool" where
  "isFunding m \<longleftrightarrow> mk_status (ms_market m) = status_code Funding"

definition entryLabel :: "MarketSummary \<Rightarrow> string" where
  "entryLabel m = outcomeLabel (mk_outcomeIndex (ms_market m)) None"

definition contributeEntry :: "MarketSummary \<times> int \<Rightarrow> BulkContributeEntry" where
  "contributeEntry p =
     \<lparr>BulkContributeEntry.be_market = AddrStr (ms_pubkey (fst p)),
      BulkContributeEntry.be_label = entryLabel (fst p), be_amount = snd p\<rparr>"

definition fundingEntry :: "MarketSummary \<times> int \<Rightarrow> BulkFundingEntry" where
  "fundingEntry p =
     \<lparr>bf_market = AddrStr (ms_pubkey (fst p)), bf_oracle = AddrObj (mk_oracle (ms_market (fst p))),
      bf_label = entryLabel (fst p), bf_totalContributed = mk_totalContributed (ms_market (fst p)),
      bf_minLiquidity = mk_minLiquidity (ms_market (fst p)), bf_amount = snd p\<rparr>"

definition addEntry :: "MarketSummary \<times> int \<Rightarrow> BulkAddLiquidityEntry" where
  "addEntry p =
     \<lparr>bl_market = AddrStr (ms_pubkey (fst p)), bl_label = entryLabel (fst p), bl_amount = snd p,
      bl_marketAccount = ms_market (fst p), bl_reserves = reservesOf (fst p)\<rparr>"

text \<open>The loop over the depositable outcomes and their shares.\<close>

fun routeShares ::
  "(MarketSummary \<times> int) list \<Rightarrow>
   BulkContributeEntry list \<times> BulkAddLiquidityEntry list \<times> BulkFundingEntry list" where
  "routeShares [] = ([], [], [])"
| "routeShares (p # ps) =
     (let (cs, as, fs) = routeShares ps in
      if isFunding (fst p) then (contributeEntry p # cs, as, fundingEntry p # fs)
      else (cs, addEntry p # as, fs))"

definition groupDepositSteps ::
  "web3 \<Rightarrow> txlib \<Rightarrow> IndexerReads \<Rightarrow> address \<Rightarrow> string \<Rightarrow> MarketSummary list \<Rightarrow> int list \<Rightarrow> bool \<Rightarrow>
   ActivateStep list res" where
  "groupDepositSteps W T indexer baseMint user depositable shares oracleTerminal =
     (let (contributeEntries, addEntries, fundingEntries) = routeShares (zip depositable shares);
          readyToActivate = outcomesReadyToActivate fundingEntries oracleTerminal
      in
      bindR (if \<exists>e\<in>set contributeEntries. be_amount e > 0
             then buildBulkContributeSteps W indexer (AddrObj baseMint) (AddrStr user) contributeEntries
             else Inr []) (\<lambda>contributes.
      bindR (if \<exists>e\<in>set addEntries. bl_amount e > 0
             then buildBulkAddLiquiditySteps W T (AddrStr user) addEntries None
             else Inr []) (\<lambda>adds.
      bindR (if readyToActivate \<noteq> []
             then buildBulkActivateSteps W (AddrObj baseMint) (AddrStr user) readyToActivate
             else Inr []) (\<lambda>activates.
      Inr (contributes @ adds @ activates)))))"

definition groupDeposit ::
  "web3 \<Rightarrow> txlib \<Rightarrow> IndexerReads \<Rightarrow> address option \<Rightarrow> string option \<Rightarrow> OracleGroupState \<Rightarrow> bool \<Rightarrow>
   int option \<Rightarrow> string \<Rightarrow> string option + ActivateStep list" where
  "groupDeposit W T indexer baseMint user gs oracleTerminal balance tot =
     (case (baseMint, user) of
        (Some mint, Some address) \<Rightarrow>
          (if trim tot = [] then Inl (Some ''Enter an amount to deposit.'')
           else case parseSolAmount tot of
             Inl e \<Rightarrow> Inl (Some e)
           | Inr totalValue \<Rightarrow>
               if totalValue \<le> 0 then Inl (Some ''Enter an amount to deposit.'')
               else (case balanceGateError (Some totalValue) balance None of
                 Some gate \<Rightarrow> Inl (Some gate)
               | None \<Rightarrow>
                   (case bindR (uniformSplit totalValue (int (length (og_depositable gs)))) (\<lambda>shares.
                      groupDepositSteps W T indexer mint address (og_depositable gs) shares oracleTerminal) of
                      Inl e \<Rightarrow> Inl (Some (errMsg e))
                    | Inr steps \<Rightarrow> Inr steps)))
      | _ \<Rightarrow> Inl None)"

subsection \<open>GroupLiquidityPanel.tsx: the withdrawal\<close>

definition groupWithdraw ::
  "web3 \<Rightarrow> IndexerReads \<Rightarrow> string option \<Rightarrow> OracleGroupState \<Rightarrow> string option + ActivateStep list" where
  "groupWithdraw W indexer user gs =
     (case user of
        None \<Rightarrow> Inl None
      | Some address \<Rightarrow>
          (case buildBulkClaimLpSteps W indexer (AddrStr address)
             (map (\<lambda>m. \<lparr>bc_market = AddrStr (ms_pubkey m), bc_label = entryLabel m,
                bc_lpMint = AddrStr (toBase58 W (mk_lpMint (ms_market m)))\<rparr>) (og_claimable gs)) of
             Inl e \<Rightarrow> Inl (Some (errMsg e))
           | Inr steps \<Rightarrow> Inr steps))"

text \<open>The panel is shown for a group only.\<close>

definition showsGroupPanel :: "OracleGroupState \<Rightarrow> bool" where
  "showsGroupPanel gs \<longleftrightarrow> \<not> length (og_siblings gs) \<le> 1"

subsection \<open>CategoricalCard.tsx: FundGroupCta\<close>

definition cardFunding :: "OracleGroup \<Rightarrow> MarketSummary list" where
  "cardFunding g = filter isFunding (gr_markets g)"

text \<open>The pair (raised, floor) of the cumulative bar.\<close>

definition cumulativeFunding :: "MarketSummary list \<Rightarrow> (int \<times> int) option" where
  "cumulativeFunding funding =
     (if length funding > 0
      then Some (foldl (\<lambda>s m. s + mk_totalContributed (ms_market m)) 0 funding,
                 foldl (\<lambda>s m. s + mk_minLiquidity (ms_market m)) 0 funding)
      else None)"

definition ctaEntries :: "MarketSummary list \<Rightarrow> int list option \<Rightarrow> BulkFundingEntry list" where
  "ctaEntries funding share =
     map fundingEntry (zip funding (orElse share (replicate (length funding) 0)))"

definition readyNow :: "MarketSummary list \<Rightarrow> BulkFundingEntry list" where
  "readyNow funding = outcomesReadyToActivate (ctaEntries funding None) False"

definition allFunded :: "MarketSummary list \<Rightarrow> bool" where
  "allFunded funding \<longleftrightarrow> length (readyNow funding) = length funding"

definition ctaLaunch ::
  "web3 \<Rightarrow> MarketSummary list \<Rightarrow> string \<Rightarrow> StepStatus list \<Rightarrow> string option \<Rightarrow>
   string option + ActivateStep list" where
  "ctaLaunch W funding baseMint statuses user =
     (case user of
        None \<Rightarrow> Inl None
      | Some address \<Rightarrow>
          if isRunning statuses then Inl None
          else (case buildBulkActivateSteps W (AddrStr baseMint) (AddrStr address) (readyNow funding) of
                  Inl e \<Rightarrow> Inl (Some (errMsg e))
                | Inr steps \<Rightarrow> Inr steps))"

definition ctaDeposit ::
  "web3 \<Rightarrow> IndexerReads \<Rightarrow> MarketSummary list \<Rightarrow> string \<Rightarrow> int option \<Rightarrow> string option \<Rightarrow> string \<Rightarrow>
   string option + ActivateStep list" where
  "ctaDeposit W indexer funding baseMint balance user amount =
     (case parseSolAmount amount of
        Inl e \<Rightarrow> Inl (Some e)
      | Inr value \<Rightarrow>
          if value \<le> 0 then Inl (Some ''Enter an amount to deposit.'')
          else (case balanceGateError (Some value) balance (Some ''SOL'') of
            Some gate \<Rightarrow> Inl (Some gate)
          | None \<Rightarrow>
              (case user of
                 None \<Rightarrow> Inl None
               | Some address \<Rightarrow>
                   (case bindR (uniformSplit value (int (length funding))) (\<lambda>shares.
                      bindR (buildBulkContributeSteps W indexer (AddrStr baseMint) (AddrStr address)
                        (map contributeEntry (zip funding shares))) (\<lambda>contributes.
                      let ready = outcomesReadyToActivate (ctaEntries funding (Some shares)) False in
                      bindR (if ready \<noteq> [] then buildBulkActivateSteps W (AddrStr baseMint) (AddrStr address) ready
                             else Inr []) (\<lambda>activates.
                      Inr (contributes @ activates)))) of
                      Inl e \<Rightarrow> Inl (Some (errMsg e))
                    | Inr steps \<Rightarrow> Inr steps))))"

subsection \<open>GroupTradePanel.tsx\<close>

definition BELIEF_COLORS :: "string list" where
  "BELIEF_COLORS = [''#8fe9dd'', ''#ff6f61'', ''#c9a5ff'', ''#ffd166'', ''#7fd1ae'', ''#6fb7ff'']"

definition colorFor :: "nat \<Rightarrow> string" where
  "colorFor i = BELIEF_COLORS ! (i mod length BELIEF_COLORS)"

definition tradableOf :: "MarketDetail \<Rightarrow> OracleGroupState \<Rightarrow> MarketSummary list" where
  "tradableOf d gs =
     (let current = (if mk_status (mt_market d) = status_code Active
            then [\<lparr>ms_pubkey = mt_pubkey d, ms_market = mt_market d, ms_reserves = mt_reserves d,
                   ms_oracleOptionsCount = None\<rparr>]
            else []);
          others = filter (\<lambda>m. mk_outcomeIndex (ms_market m) \<noteq> mk_outcomeIndex (mt_market d)) (og_active gs)
      in js_sort cmpOutcome (current @ others))"

record ChartSeriesSpec =
  cs_key :: string
  cs_pubkey :: string
  cs_label :: string
  cs_color :: string
  cs_invert :: bool

definition groupBeliefs :: "MarketDetail \<Rightarrow> OracleGroupState \<Rightarrow> string list \<Rightarrow> Belief list" where
  "groupBeliefs d gs options = computeBeliefs (og_isGroup gs) (tradableOf d gs) options"

definition pillProbabilities :: "bool \<Rightarrow> Belief list \<Rightarrow> jsnum option list" where
  "pillProbabilities isGroup beliefs =
     (let ps = map (\<lambda>b. beliefProbability (be_reserves b) (be_outcome b)) beliefs in
      if isGroup then normalizeOddsAcrossGroup ps else normalizeAcrossGroup ps)"

definition chartSeries :: "Belief list \<Rightarrow> ChartSeriesSpec list" where
  "chartSeries beliefs =
     map (\<lambda>(i, b). \<lparr>cs_key = be_key b, cs_pubkey = be_pubkey b, cs_label = Belief.be_label b, cs_color = colorFor i,
                    cs_invert = (be_outcome b = ''no'')\<rparr>)
       (zip [0..<length beliefs] beliefs)"

definition reservesKey :: "Belief \<Rightarrow> string" where
  "reservesKey b =
     be_pubkey b @ '':'' @
     (case be_reserves b of
        Some r \<Rightarrow> show_int (ar_base r) @ ''-'' @ show_int (ar_quote r)
      | None \<Rightarrow> ''empty'')"

fun joinBar :: "string list \<Rightarrow> string" where
  "joinBar [] = []"
| "joinBar [s] = s"
| "joinBar (s # ss) = s @ ''|'' @ joinBar ss"

definition chartRefreshKey :: "Belief list \<Rightarrow> string" where
  "chartRefreshKey beliefs = joinBar (map reservesKey beliefs)"

subsection \<open>Where the shares go\<close>

lemma routeShares_eq:
  "routeShares ps =
     (map contributeEntry (filter (isFunding \<circ> fst) ps), map addEntry (filter (Not \<circ> isFunding \<circ> fst) ps),
      map fundingEntry (filter (isFunding \<circ> fst) ps))"
  by (induction ps) (auto simp: Let_def split: prod.splits)

lemma entry_amounts [simp]:
  "be_amount (contributeEntry p) = snd p" "bl_amount (addEntry p) = snd p" "bf_amount (fundingEntry p) = snd p"
  by (simp_all add: contributeEntry_def addEntry_def fundingEntry_def)

text \<open>No part of the deposit is lost or sent twice.\<close>

lemma routeShares_conserves:
  assumes "routeShares ps = (cs, as, fs)"
  shows "sum_list (map be_amount cs) + sum_list (map bl_amount as) = sum_list (map snd ps) \<and>
    length cs + length as = length ps \<and> map bf_amount fs = map be_amount cs"
  using assms
proof (induction ps arbitrary: cs as fs)
  case (Cons p ps)
  obtain cs' as' fs' where r: "routeShares ps = (cs', as', fs')" by (cases "routeShares ps") auto
  then show ?case using Cons.IH [OF r] Cons.prems by (auto split: if_splits)
qed simp

text \<open>A depositable outcome that is not funding is active and has the reserves its deposit is sized by.\<close>

lemma depositable_reserves:
  assumes "m \<in> set (og_depositable (useOracleGroup W ms orc))" "\<not> isFunding m"
  shows "mk_status (ms_market m) = status_code Active \<and> ms_reserves m = Some (reservesOf m)"
  using assms by (auto simp: useOracleGroup_depositable isFunding_def reservesOf_def)

text \<open>Only outcomes that reach their floor are activated, and none once the oracle is terminal.\<close>

lemma ready_reached:
  "e \<in> set (outcomesReadyToActivate entries terminal) \<longleftrightarrow>
     e \<in> set entries \<and> \<not> terminal \<and>
     (bf_minLiquidity e \<le> 0 \<or> bf_minLiquidity e \<le> bf_totalContributed e + bf_amount e)"
  by (auto simp: outcomesReadyToActivate_def isFunded_def fundingProgress_def Let_def)

lemma groupDeposit_Inr:
  assumes "groupDeposit W T indexer mint user gs terminal balance tot = Inr steps"
  shows "\<exists>value shares baseMint address.
    parseSolAmount tot = Inr value \<and> 0 < value \<and> balanceGateError (Some value) balance None = None \<and>
    mint = Some baseMint \<and> user = Some address \<and>
    uniformSplit value (int (length (og_depositable gs))) = Inr shares \<and>
    groupDepositSteps W T indexer baseMint address (og_depositable gs) shares terminal = Inr steps"
proof -
  obtain bm addr where u: "mint = Some bm" "user = Some addr"
    using assms by (cases mint; cases user) (auto simp: groupDeposit_def)
  obtain v where v: "parseSolAmount tot = Inr v"
    using assms u by (cases "parseSolAmount tot") (auto simp: groupDeposit_def split: if_splits)
  have pos: "0 < v" using v by (auto simp: parseSolAmount_iff)
  have g: "balanceGateError (Some v) balance None = None"
    using assms u v pos by (cases "balanceGateError (Some v) balance None") (auto simp: groupDeposit_def split: if_splits)
  have "bindR (uniformSplit v (int (length (og_depositable gs)))) (\<lambda>shares.
      groupDepositSteps W T indexer bm addr (og_depositable gs) shares terminal) = Inr steps"
    using assms u v pos g by (auto simp: groupDeposit_def split: if_splits sum.splits)
  then show ?thesis using u v pos g by blast
qed

text \<open>
  A deposit that is sent: the amounts of the contributions and of the deposits into pools add up to
  exactly what was entered.
\<close>

lemma groupDeposit_conserves:
  assumes "groupDeposit W T indexer mint user gs terminal balance tot = Inr steps"
    and "og_depositable gs \<noteq> []"
  shows "\<exists>value shares cs as fs. parseSolAmount tot = Inr value \<and> sum_list shares = value \<and>
    length shares = length (og_depositable gs) \<and>
    routeShares (zip (og_depositable gs) shares) = (cs, as, fs) \<and>
    sum_list (map be_amount cs) + sum_list (map bl_amount as) = value \<and>
    (\<forall>b. balance = Some b \<longrightarrow> value \<le> b)"
proof -
  obtain v shares where v: "parseSolAmount tot = Inr v" "0 < v" "balanceGateError (Some v) balance None = None"
      "uniformSplit v (int (length (og_depositable gs))) = Inr shares"
    using groupDeposit_Inr [OF assms(1)] by blast
  have "0 < int (length (og_depositable gs))" "0 \<le> v" using assms(2) v(2) by simp_all
  from uniformSplit_Inr [OF this] have s: "length shares = length (og_depositable gs)" "sum_list shares = v"
    using v(4) by auto
  obtain cs as fs where r: "routeShares (zip (og_depositable gs) shares) = (cs, as, fs)"
    by (cases "routeShares (zip (og_depositable gs) shares)") auto
  have "\<forall>b. balance = Some b \<longrightarrow> v \<le> b" using v(3) balanceGateError_None by blast
  then show ?thesis using routeShares_conserves [OF r] v(1) s r by auto
qed

text \<open>The card offers the launch exactly when every funding outcome has reached its floor.\<close>

lemma length_filter_all: "length (filter p xs) = length xs \<longleftrightarrow> (\<forall>x\<in>set xs. p x)"
  by (metis filter_True length_filter_less less_irrefl)

lemma allFunded_iff:
  "allFunded funding \<longleftrightarrow>
     (\<forall>m\<in>set funding. mk_minLiquidity (ms_market m) \<le> 0 \<or>
        mk_minLiquidity (ms_market m) \<le> mk_totalContributed (ms_market m))"
proof -
  let ?ok = "\<lambda>e. isFunded (bf_totalContributed e + bf_amount e) (bf_minLiquidity e)"
  have z: "ctaEntries funding None = map (\<lambda>m. fundingEntry (m, 0)) funding"
    unfolding ctaEntries_def by (induction funding) auto
  have "allFunded funding \<longleftrightarrow> length (filter ?ok (ctaEntries funding None)) = length (ctaEntries funding None)"
    unfolding allFunded_def readyNow_def outcomesReadyToActivate_def by (simp add: z)
  also have "\<dots> \<longleftrightarrow> (\<forall>e\<in>set (ctaEntries funding None). ?ok e)" by (rule length_filter_all)
  finally show ?thesis
    by (auto simp: z fundingEntry_def isFunded_def fundingProgress_def Let_def)
qed

subsection \<open>The curves and the ticket\<close>

lemma beliefKey_inject: "beliefKey p ''yes'' = beliefKey q ''yes'' \<longleftrightarrow> p = q" "beliefKey p ''yes'' \<noteq> beliefKey p ''no''"
  by (simp_all add: beliefKey_def)

lemma belief_keys_distinct:
  assumes "distinct (map ms_pubkey tradable)"
  shows "distinct (map be_key (computeBeliefs isGroup tradable options))"
proof (cases isGroup)
  case True
  then have "map be_key (computeBeliefs isGroup tradable options) = map (\<lambda>p. beliefKey p ''yes'') (map ms_pubkey tradable)"
    by (simp add: computeBeliefs_def mkBelief_def)
  then show ?thesis
    using assms beliefKey_inject by (auto simp: distinct_map inj_on_def)
next
  case False
  then show ?thesis
    by (cases tradable) (simp_all add: computeBeliefs_def mkBelief_def beliefKey_inject)
qed

lemma chartSeries_keys: "map cs_key (chartSeries beliefs) = map be_key beliefs"
  by (rule nth_equalityI) (simp_all add: chartSeries_def)

text \<open>Every tradable outcome of the page has a curve, in outcome order.\<close>

lemma tradable_sorted:
  "i < j \<Longrightarrow> j < length (tradableOf d gs) \<Longrightarrow>
     mk_outcomeIndex (ms_market (tradableOf d gs ! i)) \<le> mk_outcomeIndex (ms_market (tradableOf d gs ! j))"
  using by_outcome.js_sort_nth unfolding tradableOf_def Let_def by (simp add: cmpOutcome_def)

end
