(* ===== verification/Pages.thy ===== *)
theory Pages
  imports GroupPanel
begin

text \<open>
  The pages: the market page (\<open>app/src/pages/MarketDetail.tsx\<close>: tabs, liquidity overview, liquidity
  provenance, contributions ledger, and its view over \<open>useMarketDetail\<close>), the browse page
  (\<open>app/src/pages/Markets.tsx\<close>), the probability bar, and the state of the form that creates a market
  (\<open>CreateMarketForm/index.tsx\<close>).
\<close>

subsection \<open>MarketDetail.tsx: figures\<close>

text \<open>\<open>x.toFixed(1)\<close> of a finite number below \<open>10 ^ 21\<close>: the nearest tenth, the larger of two.\<close>

definition tenths_str :: "int \<Rightarrow> string" where
  "tenths_str n = show_int (n div 10) @ ''.'' @ show_int (n mod 10)"

fun toFixed1 :: "jsnum \<Rightarrow> string" where
  "toFixed1 (Fin a) =
     (if a < 0 then ''-'' @ tenths_str \<lfloor>- a * 10 + 1/2\<rfloor> else tenths_str \<lfloor>a * 10 + 1/2\<rfloor>)"
| "toFixed1 PInf = ''Infinity''"
| "toFixed1 NInf = ''-Infinity''"
| "toFixed1 NaN = ''NaN''"

definition percentOf :: "int \<Rightarrow> int \<Rightarrow> string" where
  "percentOf part whole =
     (if whole \<le> 0 then ''0%''
      else toFixed1 (ndiv (Number (bdiv (part * 10000) whole)) (Fin 100)) @ ''%'')"

text \<open>The liquidity overview, once a pool exists and before.\<close>

datatype LiquidityOverview =
    PoolOverview "AmmReserves option" int int string
  | FundingOverview int int int string

definition fundingTotals :: "Market \<Rightarrow> OracleGroupState \<Rightarrow> int \<times> int" where
  "fundingTotals m gs =
     (if og_isGroup gs
      then (foldl (\<lambda>s x. s + mk_totalContributed (ms_market x)) 0 (og_funding gs),
            foldl (\<lambda>s x. s + mk_minLiquidity (ms_market x)) 0 (og_funding gs))
      else (mk_totalContributed m, mk_minLiquidity m))"

definition myContribution :: "web3 \<Rightarrow> string option \<Rightarrow> ContributionRow list \<Rightarrow> Contribution option" where
  "myContribution W user contributions =
     (case user of
        None \<Rightarrow> None
      | Some a \<Rightarrow> map_option cr_contribution
          (find_first (\<lambda>r. toBase58 W (cn_contributor (cr_contribution r)) = a) contributions))"

definition liquidityOverview ::
  "web3 \<Rightarrow> string option \<Rightarrow> MarketDetail \<Rightarrow> OracleGroupState \<Rightarrow> LiquidityOverview" where
  "liquidityOverview W user d gs =
     (let m = mt_market d; mine = myContribution W user (mt_contributions d) in
      if mk_grossLpTotal m > 0 then
        (let yourLp = (case mine of
               Some c \<Rightarrow> contributorLp (cn_amount c) (cn_lateLp c) (mk_activationLp m) (mk_activationContributed m)
             | None \<Rightarrow> 0)
         in PoolOverview (mt_reserves d) (mk_grossLpTotal m) yourLp
              (if user \<noteq> None then percentOf yourLp (mk_grossLpTotal m) else [CHR 0x97]))
      else
        (let totals = fundingTotals m gs;
             yourStake = (case mine of Some c \<Rightarrow> cn_amount c | None \<Rightarrow> 0)
         in FundingOverview (fst totals) (snd totals) yourStake
              (if user \<noteq> None then percentOf yourStake (fst totals) else [CHR 0x97])))"

text \<open>The liquidity tokens minted at activation, and those added since.\<close>

definition independentLp :: "Market \<Rightarrow> int" where
  "independentLp m =
     (if mk_grossLpTotal m > mk_activationLp m then mk_grossLpTotal m - mk_activationLp m else 0)"

subsection \<open>MarketDetail.tsx: the contributions ledger\<close>

datatype RowKind = FundingRow | LiquidityRow

record LedgerRow =
  lr_key :: string
  lr_contributor :: string
  lr_kind :: RowKind
  lr_amount :: string
  lr_claimed :: bool

definition ledgerRow :: "web3 \<Rightarrow> ContributionRow \<Rightarrow> string \<Rightarrow> RowKind \<Rightarrow> string \<Rightarrow> LedgerRow" where
  "ledgerRow W r sfx kind amount =
     \<lparr>lr_key = cr_pubkey r @ sfx, lr_contributor = toBase58 W (cn_contributor (cr_contribution r)),
      lr_kind = kind, lr_amount = amount, lr_claimed = cn_claimed (cr_contribution r)\<rparr>"

definition ledgerRows :: "web3 \<Rightarrow> ContributionRow \<Rightarrow> LedgerRow list" where
  "ledgerRows W r =
     (let c = cr_contribution r in
      (if cn_lateLp c > 0
       then [ledgerRow W r '':lp'' LiquidityRow (formatSol (cn_lateLp c) @ '' LP'')] else []) @
      (if cn_amount c > 0
       then [ledgerRow W r '':fund'' FundingRow (formatSol (cn_amount c) @ '' SOL'')] else []) @
      (if cn_lateLp c = 0 \<and> cn_amount c = 0
       then [ledgerRow W r '':fund'' FundingRow ''0 SOL''] else []))"

definition contributionsLedger :: "web3 \<Rightarrow> ContributionRow list \<Rightarrow> LedgerRow list" where
  "contributionsLedger W contributions = concat (map (ledgerRows W) contributions)"

subsection \<open>MarketDetail.tsx: the tabs\<close>

definition hasTradableOutcome :: "MarketDetail \<Rightarrow> OracleGroupState \<Rightarrow> bool" where
  "hasTradableOutcome d gs \<longleftrightarrow>
     mk_status (mt_market d) = status_code Active \<or> (\<exists>m\<in>set (og_active gs). ms_pubkey m \<noteq> mt_pubkey d)"

definition detailTabs :: "bool \<Rightarrow> string list" where
  "detailTabs tradable = (if tradable then [''trade''] else []) @ [''liquidity'', ''manage'', ''details'']"

definition activeTab :: "MarketDetail \<Rightarrow> OracleGroupState \<Rightarrow> string option \<Rightarrow> string" where
  "activeTab d gs paramTab =
     (let defaultTab = (if mk_status (mt_market d) = status_code Active then ''trade'' else ''liquidity'') in
      case paramTab of
        Some t \<Rightarrow> if t \<in> set (detailTabs (hasTradableOutcome d gs)) then t else defaultTab
      | None \<Rightarrow> defaultTab)"

text \<open>The page's view over the cells of \<open>useMarketDetail\<close>.\<close>

definition pageView :: "string option \<Rightarrow> (string option, MarketDetail) AsyncCell \<Rightarrow> DetailView" where
  "pageView pk c = detailView pk (map_option mt_pubkey (ay_data c)) (ay_loading c) (ay_error c)"

definition pageError :: "js_error \<Rightarrow> string" where
  "pageError e =
     (case e of
        MarketNotFoundError m \<Rightarrow> ''This market was not found.''
      | _ \<Rightarrow> ''Could not load this market: '' @ errMsg e)"

subsection \<open>Markets.tsx\<close>

definition visibleGroups :: "OracleGroup list \<Rightarrow> string \<Rightarrow> MarketFilter \<Rightarrow> MarketSort \<Rightarrow> OracleGroup list" where
  "visibleGroups groups query flt srt =
     (let searched = filter (\<lambda>g. matchesMarketQuery g query None) groups in
      sortMarkets (filterByStage searched flt) srt)"

subsection \<open>ProbabilityBar.tsx\<close>

text \<open>The pair of whole percentages; the gauge computes the same.\<close>

definition probabilityPair :: "jsnum option \<Rightarrow> (jsnum \<times> jsnum) option" where
  "probabilityPair p =
     (case p of
        None \<Rightarrow> None
      | Some x \<Rightarrow> (let yesPct = nround (nmul x (Fin 100)) in Some (yesPct, nsub (Fin 100) yesPct)))"

subsection \<open>CreateMarketForm\<close>

record CreateForm =
  cf_seed :: string
  cf_seedError :: "string option"
  cf_optionsCount :: int
  cf_batchMode :: bool

definition initialCreateForm :: CreateForm where
  "initialCreateForm = \<lparr>cf_seed = [], cf_seedError = None, cf_optionsCount = 2, cf_batchMode = False\<rparr>"

definition formCategorical :: "CreateForm \<Rightarrow> bool" where
  "formCategorical f \<longleftrightarrow> cf_optionsCount f > 2"

definition chooseBinary :: "CreateForm \<Rightarrow> CreateForm" where
  "chooseBinary f = f\<lparr>cf_optionsCount := 2, cf_batchMode := False\<rparr>"

definition chooseCategorical :: "CreateForm \<Rightarrow> CreateForm" where
  "chooseCategorical f =
     f\<lparr>cf_optionsCount := (if cf_optionsCount f > 2 then cf_optionsCount f else 3), cf_batchMode := True\<rparr>"

text \<open>The outcomes field: \<open>Number.isInteger(n) && n >= 3 && n <= 32\<close>.\<close>

definition enterOutcomes :: "string \<Rightarrow> CreateForm \<Rightarrow> CreateForm" where
  "enterOutcomes v f =
     (case (if trim v = [] then Fin 0 else NumberStr (trim v)) of
        Fin a \<Rightarrow>
          if a = of_int \<lfloor>a\<rfloor> \<and> 3 \<le> a \<and> a \<le> 32 then f\<lparr>cf_optionsCount := \<lfloor>a\<rfloor>\<rparr> else f
      | _ \<Rightarrow> f)"

definition createEffect :: "CreateForm \<Rightarrow> CreateForm" where
  "createEffect f = (if \<not> formCategorical f then f\<lparr>cf_batchMode := False\<rparr> else f)"

definition totalCost :: "CreateForm \<Rightarrow> int option" where
  "totalCost f =
     (case parsedValue (cf_seed f) of
        Some v \<Rightarrow> if cf_batchMode f then Some (v * cf_optionsCount f) else None
      | None \<Rightarrow> None)"

definition createBalanceError :: "int option \<Rightarrow> CreateForm \<Rightarrow> string option" where
  "createBalanceError balance f =
     balanceGateError (if cf_batchMode f then totalCost f else parsedValue (cf_seed f)) balance None"

text \<open>\<open>validate\<close>: the form with its message, and the seed when it passes.\<close>

definition validateCreate :: "string option \<Rightarrow> CreateForm \<Rightarrow> CreateForm \<times> int option" where
  "validateCreate baseMint f =
     (case parseSolAmount (cf_seed f) of
        Inl e \<Rightarrow> (f\<lparr>cf_seedError := Some e\<rparr>, None)
      | Inr v \<Rightarrow>
          if \<not> truthy baseMint
          then (f\<lparr>cf_seedError := Some ''Waiting for the on-chain config (SOL mint) to load.''\<rparr>, None)
          else (f\<lparr>cf_seedError := None\<rparr>, Some v))"

definition createSubmit ::
  "web3 \<Rightarrow> IndexerReads \<Rightarrow> int \<Rightarrow> address \<Rightarrow> string option \<Rightarrow> string \<Rightarrow> CreateForm \<Rightarrow>
   CreateForm \<times> CreateMarketBuild res option" where
  "createSubmit W indexer randomNonce dummyLlmContext baseMint user f =
     (case validateCreate baseMint f of
        (f', None) \<Rightarrow> (f', None)
      | (f', Some seedValue) \<Rightarrow>
          (f', Some (buildCreateMarketIxs W indexer randomNonce dummyLlmContext
             \<lparr>wm_baseMint = AddrStr (orElse baseMint []), wm_creator = AddrStr user,
              wm_seedAmount = seedValue, wm_optionsCount = Some 2, wm_outcomeIndex = Some 0,
              wm_nonce = None, wm_llmContext = None\<rparr>)))"

definition createBatchSubmit ::
  "web3 \<Rightarrow> IndexerReads \<Rightarrow> int \<Rightarrow> address \<Rightarrow> string option \<Rightarrow> string \<Rightarrow> StepStatus list \<Rightarrow> CreateForm \<Rightarrow>
   CreateForm \<times> CreateAllBuild res option" where
  "createBatchSubmit W indexer randomNonce dummyLlmContext baseMint user statuses f =
     (if isRunning statuses then (f, None)
      else case validateCreate baseMint f of
        (f', None) \<Rightarrow> (f', None)
      | (f', Some seedValue) \<Rightarrow>
          (f', Some (buildCreateAllSteps W indexer randomNonce dummyLlmContext
             \<lparr>wq_optionsCount = cf_optionsCount f, wq_creator = AddrStr user,
              wq_baseMint = AddrStr (orElse baseMint []), wq_seedAmount = seedValue, wq_nonce = None,
              wq_llmContext = None\<rparr>)))"

subsection \<open>The market page\<close>

text \<open>The active tab is one of the tabs on the page, whatever the address bar says.\<close>

lemma activeTab_mem: "activeTab d gs paramTab \<in> set (detailTabs (hasTradableOutcome d gs))"
  by (cases paramTab) (auto simp: activeTab_def detailTabs_def hasTradableOutcome_def)

text \<open>
  The runs of the page's effect are fetches of the market of their dependencies, from whatever the
  indexer answered at the time.
\<close>

definition detail_runs :: "web3 \<Rightarrow> (string option, MarketDetail) Run list \<Rightarrow> bool" where
  "detail_runs W runs \<longleftrightarrow>
     (\<forall>run\<in>set runs. \<forall>d. rn_promise run = Some (Inr d) \<longrightarrow> (\<exists>indexer. detailTask W indexer (rn_deps run) = Inr d))"

lemma pageView_ready:
  assumes "async_reach deps c" "detail_runs W (ay_runs c)" "pageView pk c = VReady"
  shows "\<exists>d indexer. ay_data c = Some d \<and> pk = Some (mt_pubkey d) \<and>
    fetchMarketDetail W indexer (mt_pubkey d) = Inr d"
proof -
  obtain d where d: "ay_data c = Some d" "pk = Some (mt_pubkey d)"
    using assms(3) by (auto simp: pageView_def detailView_ready)
  obtain run where run: "run \<in> set (ay_runs c)" "rn_promise run = Some (Inr d)"
    using async_data_fulfilled [OF assms(1) d(1)] by (auto simp: fulfilled_def)
  obtain indexer where "detailTask W indexer (rn_deps run) = Inr d"
    using assms(2) run by (auto simp: detail_runs_def)
  then show ?thesis using detailTask_pubkey d by blast
qed

lemma independentLp_split:
  "0 \<le> mk_activationLp m \<Longrightarrow> mk_activationLp m \<le> mk_grossLpTotal m \<Longrightarrow>
     mk_activationLp m + independentLp m = mk_grossLpTotal m"
  by (simp add: independentLp_def)

lemma percentOf_whole: "0 < w \<Longrightarrow> percentOf w w = ''100.0%''"
proof -
  assume w: "0 < w"
  have "num 100 = Fin (rnd (of_int 100))" by (simp add: num_finite)
  then have n: "num 100 = Fin 100" using rnd_of_int [of 100] by simp
  have "ndiv (Number 10000) (Fin 100) = Fin 100" using n by (simp add: Number_exact)
  moreover have "dec_str 100 = ''100''" "dec_str 0 = ''0''"
    by (simp_all add: dec_str.simps [of 100] dec_str.simps [of 10] dec_str.simps [of 1] dec_str.simps [of 0] chr_def
        char_of_def bit_simps)
  moreover have "bdiv (w * 10000) w = 10000" using w by (simp add: bdiv_nonneg)
  moreover have "\<lfloor>2001 / 2 :: rat\<rfloor> = 1000" by (simp add: floor_eq_iff)
  moreover have "\<not> w \<le> 0" using w by simp
  ultimately show ?thesis by (simp add: percentOf_def tenths_str_def show_int_def)
qed

subsection \<open>The ledger\<close>

text \<open>Every contribution is listed, and the keys of the rows are distinct.\<close>

lemma ledgerRows_some:
  "0 \<le> cn_amount (cr_contribution r) \<Longrightarrow> 0 \<le> cn_lateLp (cr_contribution r) \<Longrightarrow> ledgerRows W r \<noteq> []"
  by (auto simp: ledgerRows_def Let_def)

lemma ledgerRows_keys:
  "x \<in> set (ledgerRows W r) \<Longrightarrow> lr_key x = cr_pubkey r @ '':lp'' \<or> lr_key x = cr_pubkey r @ '':fund''"
  by (auto simp: ledgerRows_def ledgerRow_def Let_def split: if_splits)

lemma ledger_key_inject:
  "p @ '':lp'' \<noteq> q @ '':fund''" "p @ '':lp'' = q @ '':lp'' \<longleftrightarrow> p = q" "p @ '':fund'' = q @ '':fund'' \<longleftrightarrow> p = q"
proof -
  have "last (p @ '':lp'') \<noteq> last (q @ '':fund'')" by simp
  then show "p @ '':lp'' \<noteq> q @ '':fund''" by metis
qed simp_all

lemma ledger_keys_distinct:
  assumes "distinct (map cr_pubkey rs)"
  shows "distinct (map lr_key (contributionsLedger W rs))"
  using assms
proof (induction rs)
  case (Cons r rs)
  have own: "distinct (map lr_key (ledgerRows W r))"
    using ledger_key_inject(1) [of "cr_pubkey r" "cr_pubkey r"]
    by (auto simp: ledgerRows_def ledgerRow_def Let_def)
  have "lr_key x \<noteq> lr_key y" if x: "x \<in> set (ledgerRows W r)" and y: "y \<in> set (contributionsLedger W rs)" for x y
  proof -
    obtain r' where r': "r' \<in> set rs" "y \<in> set (ledgerRows W r')" using y by (auto simp: contributionsLedger_def)
    then have "cr_pubkey r \<noteq> cr_pubkey r'" using Cons.prems by auto
    then show ?thesis
      using ledgerRows_keys [OF x] ledgerRows_keys [OF r'(2)] ledger_key_inject by metis
  qed
  then show ?case using own Cons by (auto simp: contributionsLedger_def)
qed (simp add: contributionsLedger_def)

subsection \<open>The browse page\<close>

lemma visibleGroups_mset:
  "mset (visibleGroups groups query flt srt) =
     {#g \<in># mset groups. matchesMarketQuery g query None \<and> (flt = AllStages \<or> flt = OnlyStage (stageOf g))#}"
  by (cases flt) (auto simp: visibleGroups_def Let_def sortMarkets_mset filterByStage_def filter_filter_mset
      intro: filter_mset_cong)

subsection \<open>The probability bar\<close>

lemma probabilityPair_complement:
  assumes "unit_num x"
  shows "\<exists>k. probabilityPair (Some x) = Some (Fin (of_int k), Fin (of_int (100 - k))) \<and> 0 \<le> k \<and> k \<le> 100"
proof -
  obtain a where a: "x = Fin a" "0 \<le> a" "a \<le> 1" using assms by (auto simp: unit_num_def)
  have m: "0 \<le> a * 100" "a * 100 \<le> of_int 100" using a by simp_all
  have "repr (of_int 100)" by (rule repr_of_int) simp
  then have r: "0 \<le> rnd (a * 100)" "rnd (a * 100) \<le> 100"
    using m dbl.r_le [of "a * 100" "of_int 100"] by (auto intro: rnd_nonneg)
  have "\<bar>a * 100\<bar> \<le> 2 ^ 1023"
    using m order_trans [of "a * 100" "2 ^ 7" "2 ^ 1023"] power_increasing [of 7 1023 "2 :: rat"] by simp
  then have n: "num (a * 100) = Fin (rnd (a * 100))" by (rule num_finite)
  define k where "k = \<lfloor>rnd (a * 100) + 1/2\<rfloor>"
  have k: "0 \<le> k" "k \<le> 100" using r by (simp_all add: k_def le_floor_iff floor_le_iff)
  have s: "nsub (Fin 100) (Fin (of_int k)) = Fin (of_int (100 - k))"
    using Number_exact [of "100 - k"] k by (simp add: nsub_def Number_def)
  show ?thesis
    using s k by (intro exI [of _ k]) (simp add: probabilityPair_def Let_def a(1) n flip: k_def)
qed

subsection \<open>The form that creates a market\<close>

definition create_form_ok :: "CreateForm \<Rightarrow> bool" where
  "create_form_ok f \<longleftrightarrow>
     (cf_optionsCount f = 2 \<or> 3 \<le> cf_optionsCount f \<and> cf_optionsCount f \<le> 32) \<and>
     (cf_batchMode f \<longrightarrow> formCategorical f)"

lemma create_form_ops:
  "create_form_ok initialCreateForm"
  "create_form_ok f \<Longrightarrow> create_form_ok (chooseBinary f)"
  "create_form_ok f \<Longrightarrow> create_form_ok (chooseCategorical f)"
  "create_form_ok f \<Longrightarrow> create_form_ok (createEffect f)"
  by (auto simp: create_form_ok_def initialCreateForm_def chooseBinary_def chooseCategorical_def createEffect_def
      formCategorical_def)

lemma enterOutcomes_ok: "create_form_ok f \<Longrightarrow> create_form_ok (enterOutcomes v f)"
proof -
  assume f: "create_form_ok f"
  have "3 \<le> \<lfloor>a\<rfloor> \<and> \<lfloor>a\<rfloor> \<le> 32" if "(3 :: rat) \<le> a" "a \<le> 32" for a
    using that by (simp add: le_floor_iff floor_le_iff)
  then show ?thesis
    using f by (auto simp: enterOutcomes_def create_form_ok_def formCategorical_def split: jsnum.split)
qed

text \<open>In batch mode the gate compares the balance with the seeds of all outcomes.\<close>

lemma createBalance_covers:
  assumes "createBalanceError (Some b) f = None" "parsedValue (cf_seed f) = Some v"
  shows "(if cf_batchMode f then v * cf_optionsCount f else v) \<le> b"
  using assms by (auto simp: createBalanceError_def totalCost_def balanceGateError_None split: if_splits)

end
