(* ===== verification/PriceGrid.thy ===== *)
theory PriceGrid
  imports MarketView
begin

text \<open>
  \<open>app/src/components/markets/priceGrid.ts\<close>: the uniform grids of the price chart.  Times are
  whole seconds and are kept as integers; values and the grid step are doubles.
\<close>

record GridPoint =
  gp_time :: int
  gp_value :: "jsnum option"

definition MAX_POINTS :: int where
  "MAX_POINTS = 3600"

definition gridStep :: "int \<Rightarrow> jsnum" where
  "gridStep windowSecs = nmax (Fin 1) (nceil (ndiv (Number windowSecs) (Number MAX_POINTS)))"

definition gridBars :: "int \<Rightarrow> jsnum" where
  "gridBars windowSecs = nceil (ndiv (Number windowSecs) (gridStep windowSecs))"

text \<open>The inner \<open>while\<close>: the carried close and the candles after bucket \<open>b\<close>.\<close>

fun advance :: "int \<Rightarrow> jsnum option \<Rightarrow> CandleDto list \<Rightarrow> jsnum option \<times> CandleDto list" where
  "advance b carried [] = (carried, [])"
| "advance b carried (c # cs) =
     (if cd_time c \<le> b then advance b (Some (cd_close c)) cs else (carried, c # cs))"

text \<open>
  The loop over buckets.  The interval is positive at every call; with 0 the bounds of the source
  are \<open>NaN\<close> and its loop body never runs.
\<close>

function gridLoop ::
  "int \<Rightarrow> int \<Rightarrow> int \<Rightarrow> jsnum option \<Rightarrow> CandleDto list \<Rightarrow> GridPoint list" where
  "gridLoop interval endBucket b carried cs =
     (if b \<le> endBucket \<and> 0 < interval then
        (let (carried', cs') = advance b carried cs in
         (case carried' of Some v \<Rightarrow> [\<lparr>gp_time = b, gp_value = Some v\<rparr>] | None \<Rightarrow> [])
           @ gridLoop interval endBucket (b + interval) carried' cs')
      else [])"
  by auto
termination
  by (relation "measure (\<lambda>(interval, endBucket, b, _, _). nat (endBucket - b + 1))") auto

declare gridLoop.simps [simp del]

definition buildGrid :: "CandleDto list \<Rightarrow> int \<Rightarrow> int \<Rightarrow> int \<Rightarrow> GridPoint list" where
  "buildGrid candles interval nowSec maxBars =
     (if candles = [] then []
      else
        (let firstBucket = cd_time (hd candles);
             lastBucket = cd_time (last candles);
             currentBucket = nowSec div interval * interval;
             endBucket = max currentBucket lastBucket;
             start = max firstBucket (endBucket - (maxBars - 1) * interval);
             (carried, cs) = advance start None candles
         in gridLoop interval endBucket start carried cs))"

definition buildWindowedGrid :: "CandleDto list \<Rightarrow> int \<Rightarrow> int \<Rightarrow> int \<Rightarrow> GridPoint list" where
  "buildWindowedGrid candles interval nowSec maxBars =
     (let core = buildGrid candles interval nowSec maxBars in
      if core = [] \<or> int (length core) \<ge> maxBars then core
      else map (\<lambda>i. \<lparr>gp_time = gp_time (hd core) - i * interval, gp_value = None\<rparr>)
             (rev [1..maxBars - int (length core)]) @ core)"

definition invertGrid :: "GridPoint list \<Rightarrow> GridPoint list" where
  "invertGrid grid =
     map (\<lambda>p. \<lparr>gp_time = gp_time p, gp_value = map_option (\<lambda>v. nsub (Fin 1) v) (gp_value p)\<rparr>) grid"

definition normalizeGridsAcrossGroup :: "GridPoint list list \<Rightarrow> bool \<Rightarrow> GridPoint list list" where
  "normalizeGridsAcrossGroup grids oddsSpace =
     (let axisLength = foldl (\<lambda>m g. max m (length g)) 0 grids in
      if axisLength = 0 then grids
      else
        (let axisGrid = orElse (find_first (\<lambda>g. length g = axisLength) grids) [];
             normalizeFn = (if oddsSpace then normalizeOddsAcrossGroup else normalizeAcrossGroup);
             bucket = (\<lambda>i.
               (let raw = map (\<lambda>g. if length g = axisLength then gp_value (g ! i) else None) grids;
                    realCount = length (filter (\<lambda>v. v \<noteq> None) raw)
                in if realCount \<ge> 2 then normalizeFn raw else raw))
         in map (\<lambda>(j, g). if length g \<noteq> axisLength then []
               else map (\<lambda>i. \<lparr>gp_time = gp_time (axisGrid ! i), gp_value = bucket i ! j\<rparr>) [0..<axisLength])
             (zip [0..<length grids] grids)))"

subsection \<open>The step\<close>

text \<open>In the range of a window, the ceiling of a quotient of doubles is that of the exact quotient.\<close>

lemma nceil_ndiv_exact:
  assumes w: "0 \<le> w" "w \<le> 2 ^ 50" and d: "0 < d" "d \<le> 2 ^ 50"
  shows "nceil (ndiv (Number w) (Number d)) = Fin (of_int \<lceil>of_int w / of_int d :: rat\<rceil>)"
proof -
  define q :: rat where "q = of_int w / of_int d"
  define n where "n = \<lceil>q\<rceil>"
  have d1: "(1 :: rat) \<le> of_int d" using d(1) by simp
  have "(of_int w :: rat) * 1 \<le> of_int w * of_int d" using w d1 by (intro mult_left_mono) simp_all
  then have q: "0 \<le> q" "q \<le> of_int w" using w d1 by (simp_all add: q_def divide_le_eq)
  have wd: "Number w = Fin (of_int w)" "Number d = Fin (of_int d)"
    using w d by (auto intro!: Number_exact)
  have n: "of_int n - 1 < q" "q \<le> of_int n" unfolding n_def by linarith+
  have n0: "0 \<le> n" "n \<le> w" using q unfolding n_def by (auto simp: ceiling_le_iff)
  have "q \<le> 2 ^ 50" using q(2) w(2) by (metis of_int_le_iff of_int_numeral of_int_power order_trans)
  then have "\<bar>q\<bar> \<le> 2 ^ 1023" using q(1) by (simp add: order_trans [OF _ power_increasing [of 50 1023]])
  then have quo: "ndiv (Number w) (Number d) = Fin (rnd q)"
    using d(1) by (simp add: wd q_def num_finite)
  have up: "rnd q \<le> of_int n" using n(2) n0 w by (intro dbl.r_le repr_of_int) auto
  have "of_int n - 1 < rnd q"
  proof (cases "n = 0")
    case True
    then show ?thesis using q rnd_nonneg [of q] by simp
  next
    case False
    define k where "k = Suc (ilog2 d)"
    have k: "d < 2 ^ k" "2 ^ k \<le> 2 * d" using ilog2_bounds [OF d(1)] by (auto simp: k_def)
    have "(n - 1) * d < w"
    proof -
      have "of_int (n - 1) * of_int d < (of_int w :: rat)" using n(1) d1 by (simp add: q_def pos_less_divide_eq)
      then show ?thesis by (simp only: of_int_mult [symmetric] of_int_less_iff)
    qed
    then have nd: "(n - 1) * d + 1 \<le> w" by simp
    define m where "m = (n - 1) * 2 ^ k + 1"
    define x :: rat where "x = of_int m * pow2 (- int k)"
    have p: "pow2 (- int k) * 2 ^ k = 1" using pow2_add [of "- int k" "int k"] by simp
    have xk: "x * 2 ^ k = of_int m" using p by (simp add: x_def mult.assoc)
    have "m \<le> (n - 1) * (2 * d) + 1"
      using k(2) False n0 by (auto simp: m_def intro: mult_left_mono)
    then have "m \<le> 2 * w" using nd by simp
    moreover have "0 \<le> m" using False n0 by (simp add: m_def)
    moreover have "d < 2 ^ 51" using d by simp
    then have "k \<le> 52"
    proof -
      have "(2 :: int) ^ k \<le> 2 ^ 51" using k(2) d(2) by simp
      then show ?thesis using power_le_imp_le_exp [of "2 :: int" k 51] by simp
    qed
    ultimately have "repr x" using w unfolding repr_def x_def
      by (intro exI [of _ m] exI [of _ "- int k"]) simp
    moreover have "x \<le> q"
    proof -
      have "x * 2 ^ k = (of_int n - 1) * 2 ^ k + 1" by (simp add: xk m_def)
      moreover have "(of_int n - 1) * 2 ^ k + 1 \<le> q * 2 ^ k"
      proof -
        have "(of_int (n - 1) * of_int d + 1 :: rat) \<le> of_int w"
          using nd by (metis of_int_1 of_int_add of_int_le_iff of_int_mult)
        then have "(of_int (n - 1) * of_int d + 1) / of_int d \<le> q"
          using d1 unfolding q_def by (intro divide_right_mono) simp_all
        then have "of_int (n - 1) + 1 / of_int d \<le> q" using d1 by (simp add: add_divide_distrib)
        then have "(of_int (n - 1) + 1 / of_int d) * 2 ^ k \<le> q * 2 ^ k" by (intro mult_right_mono) simp_all
        moreover have "(1 :: rat) \<le> 1 / of_int d * 2 ^ k"
        proof -
          have "(of_int d :: rat) \<le> of_int (2 ^ k)" using k(1) by (simp only: of_int_le_iff)
          then show ?thesis using d1 by (simp add: field_simps)
        qed
        ultimately show ?thesis by (simp add: distrib_right)
      qed
      ultimately have "x * 2 ^ k \<le> q * 2 ^ k" by simp
      then show ?thesis by (rule mult_right_le_imp_le) simp
    qed
    ultimately have "x \<le> rnd q" by (intro dbl.r_ge)
    moreover have "of_int n - 1 < x"
    proof -
      have "(of_int n - 1) * 2 ^ k < x * 2 ^ k" by (simp add: xk m_def)
      then show ?thesis by (simp add: mult_less_cancel_right)
    qed
    ultimately show ?thesis by simp
  qed
  then have "\<lceil>rnd q\<rceil> = n" using up by (simp add: ceiling_eq_iff)
  then show ?thesis by (simp add: quo n_def q_def)
qed

definition exactStep :: "int \<Rightarrow> int" where
  "exactStep w = max 1 \<lceil>of_int w / 3600 :: rat\<rceil>"

lemma gridStep_exact: "0 \<le> w \<Longrightarrow> w \<le> 2 ^ 50 \<Longrightarrow> gridStep w = Fin (of_int (exactStep w))"
  using nceil_ndiv_exact [of w 3600]
  by (simp add: gridStep_def MAX_POINTS_def exactStep_def of_int_max)

lemma exactStep_bounds:
  assumes "0 \<le> w" "w \<le> 2 ^ 50"
  shows "1 \<le> exactStep w" "exactStep w \<le> 2 ^ 50" "w \<le> 3600 * exactStep w"
proof -
  show "1 \<le> exactStep w" by (simp add: exactStep_def)
  have "(of_int w / 3600 :: rat) \<le> of_int w" using assms by simp
  then have "\<lceil>of_int w / 3600 :: rat\<rceil> \<le> w" by (simp add: ceiling_le_iff)
  then show "exactStep w \<le> 2 ^ 50" using assms by (simp add: exactStep_def)
  have "(of_int w / 3600 :: rat) \<le> of_int (exactStep w)"
    unfolding exactStep_def using le_of_int_ceiling [of "of_int w / 3600 :: rat"]
    by (meson max.cobounded2 of_int_le_iff order_trans)
  then have "(of_int w :: rat) \<le> of_int (3600 * exactStep w)" by simp
  then show "w \<le> 3600 * exactStep w" by (simp only: of_int_le_iff)
qed

lemma gridBars_exact:
  assumes "0 \<le> w" "w \<le> 2 ^ 50"
  shows "\<exists>n. gridBars w = Fin (of_int n) \<and> 0 \<le> n \<and> n \<le> MAX_POINTS \<and>
    w \<le> n * exactStep w \<and> (n - 1) * exactStep w < w"
proof -
  let ?s = "exactStep w"
  define n where "n = \<lceil>of_int w / of_int ?s :: rat\<rceil>"
  note b = exactStep_bounds [OF assms]
  have s0: "(0 :: rat) < of_int ?s" using b(1) by simp
  have "Number ?s = Fin (of_int ?s)" using b by (intro Number_exact) simp
  then have g: "gridBars w = Fin (of_int n)"
    using nceil_ndiv_exact [of w ?s] assms b by (simp add: gridBars_def gridStep_exact n_def)
  have "(of_int w / of_int ?s :: rat) \<le> of_int MAX_POINTS"
  proof -
    have "(of_int w :: rat) \<le> of_int (3600 * ?s)" using b(3) by (simp only: of_int_le_iff)
    then show ?thesis using s0 by (simp add: MAX_POINTS_def field_simps)
  qed
  then have "n \<le> MAX_POINTS" by (simp add: n_def ceiling_le_iff)
  moreover have q0: "(0 :: rat) \<le> of_int w / of_int ?s" using assms b by simp
  then have "0 \<le> n" unfolding n_def by linarith
  moreover have "(of_int w / of_int ?s :: rat) \<le> of_int n" "of_int n - 1 < (of_int w / of_int ?s :: rat)"
    unfolding n_def by linarith+
  then have "(of_int w :: rat) \<le> of_int n * of_int ?s" "(of_int n - 1) * of_int ?s < (of_int w :: rat)"
    using s0 by (simp_all add: field_simps)
  then have "(of_int w :: rat) \<le> of_int (n * ?s)" "(of_int ((n - 1) * ?s) :: rat) < of_int w" by simp_all
  then have "w \<le> n * ?s" "(n - 1) * ?s < w" by (simp_all only: of_int_le_iff of_int_less_iff)
  ultimately show ?thesis using g by blast
qed

subsection \<open>The grid\<close>

definition before :: "int \<Rightarrow> CandleDto list \<Rightarrow> CandleDto list" where
  "before b cs = takeWhile (\<lambda>c. cd_time c \<le> b) cs"

text \<open>The close that holds at a time: of the last candle not after it, else the carried one.\<close>

definition closeAt :: "jsnum option \<Rightarrow> CandleDto list \<Rightarrow> int \<Rightarrow> jsnum option" where
  "closeAt carried cs t = (if before t cs = [] then carried else Some (cd_close (last (before t cs))))"

lemma advance_eq: "advance b carried cs = (closeAt carried cs b, dropWhile (\<lambda>c. cd_time c \<le> b) cs)"
  by (induction cs arbitrary: carried) (auto simp: closeAt_def before_def)

lemma before_later:
  "b \<le> t \<Longrightarrow> before t cs = before b cs @ before t (dropWhile (\<lambda>c. cd_time c \<le> b) cs)"
  by (induction cs) (auto simp: before_def)

lemma closeAt_later:
  "b \<le> t \<Longrightarrow> closeAt (closeAt carried cs b) (dropWhile (\<lambda>c. cd_time c \<le> b) cs) t = closeAt carried cs t"
  using before_later [of b t cs] by (auto simp: closeAt_def)

lemma closeAt_Some: "\<exists>v. closeAt (Some u) cs t = Some v"
  by (simp add: closeAt_def)

lemma upto_shift: "0 < d \<Longrightarrow> 0 \<le> m \<Longrightarrow> [0..m div d] = 0 # map (\<lambda>k. k + 1) [0..(m - d) div d]"
proof -
  assume d: "0 < d" "(0 :: int) \<le> m"
  have e: "(m - d) div d = m div d - 1" using div_mult_self1 [of d m "- 1"] d(1) by simp
  have "map (\<lambda>k. k + 1) [0..m div d - 1] = [1..m div d]"
    by (rule nth_equalityI) auto
  moreover have "0 \<le> m div d" using d by (simp add: pos_imp_zdiv_nonneg_iff)
  ultimately show ?thesis by (simp add: e upto_rec1)
qed

lemma gridLoop_eq:
  "0 < interval \<Longrightarrow> gridLoop interval e b (Some u) cs =
     map (\<lambda>k. \<lparr>gp_time = b + k * interval, gp_value = closeAt (Some u) cs (b + k * interval)\<rparr>)
       [0..(e - b) div interval]"
proof (induction interval e b "Some u" cs arbitrary: u rule: gridLoop.induct)
  case (1 interval e b cs)
  show ?case
  proof (cases "b \<le> e")
    case False
    then have "(e - b) div interval < 0" using 1(2) by (simp add: div_neg_pos_less0)
    then show ?thesis using False by (subst gridLoop.simps) simp
  next
    case True
    obtain v where v: "closeAt (Some u) cs b = Some v" using closeAt_Some by blast
    define cs' where "cs' = dropWhile (\<lambda>c. cd_time c \<le> b) cs"
    have adv: "advance b (Some u) cs = (Some v, cs')" by (simp add: advance_eq v cs'_def)
    have IH: "gridLoop interval e (b + interval) (Some v) cs' =
        map (\<lambda>k. \<lparr>gp_time = b + interval + k * interval,
            gp_value = closeAt (Some v) cs' (b + interval + k * interval)\<rparr>)
          [0..(e - (b + interval)) div interval]"
      using 1(1) [OF conjI [OF True 1(2)] refl adv [symmetric] 1(2)] .
    have later: "closeAt (Some v) cs' t = closeAt (Some u) cs t" if "b \<le> t" for t
      using closeAt_later [OF that, of "Some u" cs] by (simp add: v cs'_def)
    have "gridLoop interval e b (Some u) cs =
        \<lparr>gp_time = b, gp_value = Some v\<rparr> # gridLoop interval e (b + interval) (Some v) cs'"
      using True 1(2) by (subst gridLoop.simps) (simp add: adv)
    also have "\<dots> = map (\<lambda>k. \<lparr>gp_time = b + k * interval, gp_value = closeAt (Some u) cs (b + k * interval)\<rparr>)
        (0 # map (\<lambda>k. k + 1) [0..(e - b - interval) div interval])"
      using 1(2) later v by (simp add: IH algebra_simps o_def)
    also have "0 # map (\<lambda>k. k + 1) [0..(e - b - interval) div interval] = [0..(e - b) div interval]"
      using upto_shift [of interval "e - b"] 1(2) True by simp
    finally show ?thesis .
  qed
qed

definition gridEnd :: "CandleDto list \<Rightarrow> int \<Rightarrow> int \<Rightarrow> int" where
  "gridEnd candles interval nowSec = max (nowSec div interval * interval) (cd_time (last candles))"

definition gridStart :: "CandleDto list \<Rightarrow> int \<Rightarrow> int \<Rightarrow> int \<Rightarrow> int" where
  "gridStart candles interval nowSec maxBars =
     max (cd_time (hd candles)) (gridEnd candles interval nowSec - (maxBars - 1) * interval)"

lemma buildGrid_eq:
  fixes nowSec maxBars :: int
  assumes "candles \<noteq> []" "0 < interval"
  defines "s \<equiv> gridStart candles interval nowSec maxBars"
  shows "buildGrid candles interval nowSec maxBars =
    map (\<lambda>k. \<lparr>gp_time = s + k * interval, gp_value = closeAt None candles (s + k * interval)\<rparr>)
      [0..(gridEnd candles interval nowSec - s) div interval]"
    and "0 \<le> k \<Longrightarrow> \<exists>v. closeAt None candles (s + k * interval) = Some v"
proof -
  obtain c cs where c: "candles = c # cs" using assms(1) by (cases candles) auto
  have hd: "cd_time (hd candles) \<le> s" by (simp add: s_def gridStart_def)
  have some: "\<exists>v. closeAt None candles t = Some v" if "s \<le> t" for t
    using hd that by (auto simp: closeAt_def before_def c)
  show "0 \<le> k \<Longrightarrow> \<exists>v. closeAt None candles (s + k * interval) = Some v"
    using some assms(2) by simp
  obtain u where u: "closeAt None candles s = Some u" using some by blast
  have "buildGrid candles interval nowSec maxBars =
      gridLoop interval (gridEnd candles interval nowSec) s (Some u) (dropWhile (\<lambda>c. cd_time c \<le> s) candles)"
    using assms(1) u
    by (simp add: buildGrid_def Let_def advance_eq gridStart_def [symmetric] gridEnd_def [symmetric] s_def [symmetric])
  also have "\<dots> = map (\<lambda>k. \<lparr>gp_time = s + k * interval, gp_value = closeAt None candles (s + k * interval)\<rparr>)
      [0..(gridEnd candles interval nowSec - s) div interval]"
    using closeAt_later [of s _ None candles] u assms(2) by (auto simp: gridLoop_eq)
  finally show "buildGrid candles interval nowSec maxBars =
    map (\<lambda>k. \<lparr>gp_time = s + k * interval, gp_value = closeAt None candles (s + k * interval)\<rparr>)
      [0..(gridEnd candles interval nowSec - s) div interval]" .
qed

lemma buildGrid_length:
  assumes "0 < interval" "1 \<le> maxBars"
  shows "int (length (buildGrid candles interval nowSec maxBars)) \<le> maxBars"
proof (cases "candles = []")
  case False
  let ?s = "gridStart candles interval nowSec maxBars"
  let ?e = "gridEnd candles interval nowSec"
  have "?e - ?s \<le> (maxBars - 1) * interval" by (simp add: gridStart_def)
  then have "(?e - ?s) div interval < maxBars"
    using assms by (intro zdiv_lessI) (simp_all add: algebra_simps)
  then show ?thesis using assms by (simp add: buildGrid_eq(1) [OF False assms(1)])
qed (use assms in \<open>simp add: buildGrid_def\<close>)

text \<open>The windowed grid is a full window of equidistant points.\<close>

lemma buildWindowedGrid_nth:
  assumes "candles \<noteq> []" "0 < interval" "1 \<le> maxBars" "buildGrid candles interval nowSec maxBars \<noteq> []"
  shows "int (length (buildWindowedGrid candles interval nowSec maxBars)) = maxBars"
    and "i < length (buildWindowedGrid candles interval nowSec maxBars) \<Longrightarrow>
      gp_time (buildWindowedGrid candles interval nowSec maxBars ! i) =
      gp_time (hd (buildWindowedGrid candles interval nowSec maxBars)) + int i * interval"
proof -
  let ?core = "buildGrid candles interval nowSec maxBars"
  let ?win = "buildWindowedGrid candles interval nowSec maxBars"
  define n where "n = length ?core"
  define s where "s = gridStart candles interval nowSec maxBars"
  define h where "h = s - (maxBars - int n) * interval"
  have n: "int n \<le> maxBars" "0 < n" using buildGrid_length [OF assms(2,3)] assms(4) by (simp_all add: n_def)
  have core: "gp_time (?core ! j) = s + int j * interval" if "j < n" for j
    using that unfolding n_def by (simp add: buildGrid_eq(1) [OF assms(1,2)] s_def)
  have hdc: "gp_time (hd ?core) = s" using core [of 0] n(2) assms(4) by (simp add: hd_conv_nth)
  let ?pad = "map (\<lambda>i. \<lparr>gp_time = gp_time (hd ?core) - i * interval, gp_value = None\<rparr>) (rev [1..maxBars - int n])"
  have win: "?win = ?pad @ ?core"
    using n assms(4) by (auto simp: buildWindowedGrid_def Let_def n_def)
  show len: "int (length ?win) = maxBars" using n by (simp add: win n_def [symmetric])
  have at: "gp_time (?win ! j) = h + int j * interval" if "j < length ?win" for j
  proof (cases "j < length ?pad")
    case True
    then have "gp_time (?win ! j) = s - (maxBars - int n - int j) * interval"
      by (simp add: win nth_append hdc rev_nth) (use assms(3) in \<open>simp add: nat_diff_distrib algebra_simps\<close>)
    then show ?thesis by (simp add: h_def algebra_simps)
  next
    case False
    have lp: "int (length ?pad) = maxBars - int n" using n by simp
    have "j - length ?pad < n" using that False len lp n by linarith
    then have "gp_time (?win ! j) = s + int (j - length ?pad) * interval"
      using False core by (simp add: win nth_append del: length_map length_rev)
    also have "int (j - length ?pad) = int j - (maxBars - int n)" using False lp by linarith
    finally show ?thesis by (simp add: h_def algebra_simps)
  qed
  have "0 < length ?win" using len assms(3) by linarith
  then have "gp_time (hd ?win) = h" using at [of 0] by (simp add: hd_conv_nth)
  then show "i < length ?win \<Longrightarrow> gp_time (?win ! i) = gp_time (hd ?win) + int i * interval"
    using at by simp
qed

end
