(* ===== verification/Chart.thy ===== *)
theory Chart
  imports PriceGrid GroupPanel "HOL-Library.AList"
begin

text \<open>
  The price chart, \<open>app/src/components/markets/PriceChart.tsx\<close>: loading the candles of the plotted
  markets, plotting the window (\<open>replot\<close>) and growing the curves with the clock (\<open>rollForward\<close>).

  The chart library is not modelled: \<open>replot\<close> returns the data it sets per line and the range it
  frames, \<open>rollForward\<close> the points it appends.  \<open>pubkeyStateRef\<close>, an insertion-ordered \<open>Map\<close>, is
  an association list.  The step and the number of bars of a window are whole numbers (lemma
  \<open>gridStep_exact\<close>), and \<open>intOf\<close> reads them.
\<close>

record PubkeyState =
  ps_candles :: "CandleDto list"
  ps_plottedStep :: int
  ps_carriedClose :: "jsnum option"

type_synonym PubkeyStates = "(string \<times> PubkeyState) list"

definition WINDOWS :: "(string \<times> int) list" where
  "WINDOWS = [(''1m'', 60), (''15m'', 900), (''1H'', 3600), (''1D'', 86400)]"

definition CANDLE_LIMIT :: int where
  "CANDLE_LIMIT = MAX_POINTS"

definition freshState :: PubkeyState where
  "freshState = \<lparr>ps_candles = [], ps_plottedStep = 0, ps_carriedClose = None\<rparr>"

definition stateOf :: "PubkeyStates \<Rightarrow> string \<Rightarrow> PubkeyState" where
  "stateOf sts pk = orElse (map_of sts pk) freshState"

definition intOf :: "jsnum \<Rightarrow> int" where
  "intOf x = (case x of Fin a \<Rightarrow> \<lfloor>a\<rfloor> | _ \<Rightarrow> 0)"

definition stepOf :: "int \<Rightarrow> int" where
  "stepOf windowSecs = intOf (gridStep windowSecs)"

definition barsOf :: "int \<Rightarrow> int" where
  "barsOf windowSecs = intOf (gridBars windowSecs)"

subsection \<open>Loading\<close>

definition chartPubkeys :: "ChartSeriesSpec list \<Rightarrow> string list" where
  "chartPubkeys specs = firsts (map cs_pubkey specs)"

text \<open>The loop over the settled fetches: the new states, and whether any market has data.\<close>

fun loadResults ::
  "(string \<times> CandleDto list res) list \<Rightarrow> PubkeyStates \<Rightarrow> bool \<Rightarrow> PubkeyStates \<times> bool" where
  "loadResults [] sts anyData = (sts, anyData)"
| "loadResults ((pk, result) # rest) sts anyData =
     (let st = stateOf sts pk in
      case result of
        Inr cs \<Rightarrow>
          loadResults rest (AList.update pk (st\<lparr>ps_candles := cs\<rparr>) sts) (anyData \<or> cs \<noteq> [])
      | Inl _ \<Rightarrow> loadResults rest sts (anyData \<or> ps_candles st \<noteq> []))"

text \<open>The new states and the two flags \<open>error\<close> and \<open>empty\<close>.\<close>

definition loadCandles ::
  "string list \<Rightarrow> CandleDto list res list \<Rightarrow> PubkeyStates \<Rightarrow> PubkeyStates \<times> bool \<times> bool" where
  "loadCandles pubkeys results sts =
     (let (sts', anyData) = loadResults (zip pubkeys results) sts False;
          allRejected = (pubkeys \<noteq> [] \<and> list_all (\<lambda>r. \<not> okR r) results)
      in (sts', allRejected \<and> \<not> anyData, \<not> anyData))"

subsection \<open>Plotting the window\<close>

definition specGrid :: "int \<Rightarrow> int \<Rightarrow> PubkeyState \<Rightarrow> GridPoint list" where
  "specGrid windowSecs nowSec st = buildWindowedGrid (ps_candles st) (stepOf windowSecs) nowSec (barsOf windowSecs)"

definition plotted :: "GridPoint list \<Rightarrow> PubkeyState \<Rightarrow> PubkeyState" where
  "plotted grid st =
     st\<lparr>ps_plottedStep := (if grid = [] then 0 else gp_time (last grid)),
        ps_carriedClose := (if grid = [] then None else gp_value (last grid))\<rparr>"

definition plotSpec :: "int \<Rightarrow> int \<Rightarrow> ChartSeriesSpec \<Rightarrow> PubkeyStates \<Rightarrow> PubkeyStates" where
  "plotSpec windowSecs nowSec spec sts =
     (let st = stateOf sts (cs_pubkey spec) in
      AList.update (cs_pubkey spec) (plotted (specGrid windowSecs nowSec st) st) sts)"

record Plot =
  pl_states :: PubkeyStates
  pl_data :: "(string \<times> GridPoint list) list"
  pl_range :: "(int \<times> int) option"

text \<open>\<open>lines\<close> are the keys that have a line in the chart.\<close>

definition replot ::
  "int \<Rightarrow> bool \<Rightarrow> int \<Rightarrow> ChartSeriesSpec list \<Rightarrow> string set \<Rightarrow> bool \<Rightarrow> PubkeyStates \<Rightarrow> Plot" where
  "replot windowSecs isGroup nowSec specs lines fit sts =
     (let preInvertGrids = map (\<lambda>s. specGrid windowSecs nowSec (stateOf sts (cs_pubkey s))) specs;
          invertedGrids = map (\<lambda>(s, g). if cs_invert s then invertGrid g else g) (zip specs preInvertGrids);
          normalizedGrids = normalizeGridsAcrossGroup invertedGrids isGroup;
          sawRealData = (\<exists>g\<in>set preInvertGrids. \<exists>p\<in>set g. gp_value p \<noteq> None)
      in \<lparr>pl_states = fold (plotSpec windowSecs nowSec) specs sts,
          pl_data = filter (\<lambda>(k, g). k \<in> lines) (zip (map cs_key specs) normalizedGrids),
          pl_range = (if fit \<and> sawRealData then Some (nowSec - windowSecs, nowSec) else None)\<rparr>)"

subsection \<open>Growing with the clock\<close>

text \<open>The \<open>while\<close> loop: the times appended.  It may not end, so its result is optional.\<close>

partial_function (option) rollTimes :: "int \<Rightarrow> int \<Rightarrow> int \<Rightarrow> int list option" where
  "rollTimes step nowStep b =
     (if nowStep > b
      then Option.bind (rollTimes step nowStep (b + step)) (\<lambda>ts. Some ((b + step) # ts))
      else Some [])"

definition nowStepOf :: "int \<Rightarrow> int \<Rightarrow> int" where
  "nowStepOf windowSecs nowMs =
     intOf (nfloor (ndiv (ndiv (Number nowMs) (Fin 1000)) (gridStep windowSecs))) * stepOf windowSecs"

definition rawBySpec :: "PubkeyStates \<Rightarrow> ChartSeriesSpec list \<Rightarrow> jsnum option list" where
  "rawBySpec sts specs =
     map (\<lambda>s. case map_of sts (cs_pubkey s) of
            None \<Rightarrow> None
          | Some st \<Rightarrow> map_option (\<lambda>c. if cs_invert s then nsub (Fin 1) c else c) (ps_carriedClose st)) specs"

definition normalizedBySpec :: "bool \<Rightarrow> PubkeyStates \<Rightarrow> ChartSeriesSpec list \<Rightarrow> jsnum option list" where
  "normalizedBySpec isGroup sts specs =
     (if isGroup then normalizeOddsAcrossGroup (rawBySpec sts specs)
      else normalizeAcrossGroup (rawBySpec sts specs))"

text \<open>The points appended at one time: one per line of the market that has a value.\<close>

definition pointsAt ::
  "(ChartSeriesSpec \<times> jsnum option) list \<Rightarrow> string set \<Rightarrow> string \<Rightarrow> int \<Rightarrow> (string \<times> int \<times> jsnum) list" where
  "pointsAt specs lines pk b =
     concat (map (\<lambda>(s, v). case v of
         Some x \<Rightarrow> if cs_pubkey s = pk \<and> cs_key s \<in> lines then [(cs_key s, b, x)] else []
       | None \<Rightarrow> []) specs)"

fun rollStates ::
  "(ChartSeriesSpec \<times> jsnum option) list \<Rightarrow> string set \<Rightarrow> int \<Rightarrow> int \<Rightarrow> PubkeyStates \<Rightarrow>
   (PubkeyStates \<times> (string \<times> int \<times> jsnum) list) option" where
  "rollStates specs lines step nowStep [] = Some ([], [])"
| "rollStates specs lines step nowStep ((pk, st) # rest) =
     (if ps_carriedClose st = None then
        map_option (\<lambda>(sts, ups). ((pk, st) # sts, ups)) (rollStates specs lines step nowStep rest)
      else
        Option.bind (rollTimes step nowStep (ps_plottedStep st)) (\<lambda>ts.
        map_option (\<lambda>(sts, ups).
            ((pk, st\<lparr>ps_plottedStep := max (ps_plottedStep st) (if ts = [] then ps_plottedStep st else last ts)\<rparr>) # sts,
             concat (map (pointsAt specs lines pk) ts) @ ups))
          (rollStates specs lines step nowStep rest)))"

definition rollForward ::
  "int \<Rightarrow> bool \<Rightarrow> int \<Rightarrow> ChartSeriesSpec list \<Rightarrow> string set \<Rightarrow> PubkeyStates \<Rightarrow>
   (PubkeyStates \<times> (string \<times> int \<times> jsnum) list) option" where
  "rollForward windowSecs isGroup nowMs specs lines sts =
     rollStates (zip specs (normalizedBySpec isGroup sts specs)) lines (stepOf windowSecs)
       (nowStepOf windowSecs nowMs) sts"

subsection \<open>The loop ends, and what it appends\<close>

lemma stepOf_pos:
  assumes "0 \<le> w" "w \<le> 2 ^ 50"
  shows "1 \<le> stepOf w" and "gridStep w = Fin (of_int (stepOf w))"
  using gridStep_exact [OF assms] exactStep_bounds(1) [OF assms] by (simp_all add: stepOf_def intOf_def)

definition missing :: "int \<Rightarrow> int \<Rightarrow> int \<Rightarrow> nat" where
  "missing step nowStep b = nat ((nowStep - b + step - 1) div step)"

lemma missing_step:
  assumes "0 < step" "b < nowStep"
  shows "missing step nowStep b = Suc (missing step nowStep (b + step))"
proof -
  have e: "nowStep - b + step - 1 = (nowStep - (b + step) + step - 1) + step" by simp
  have "(nowStep - b + step - 1) div step = (nowStep - (b + step) + step - 1) div step + 1"
    unfolding e using assms(1) by (subst div_add_self2) simp_all
  moreover have "0 \<le> (nowStep - (b + step) + step - 1) div step"
    using assms by (simp add: pos_imp_zdiv_nonneg_iff)
  ultimately show ?thesis by (simp add: missing_def nat_add_distrib)
qed

lemma missing_none: "0 < step \<Longrightarrow> nowStep \<le> b \<Longrightarrow> missing step nowStep b = 0"
proof -
  assume s: "0 < step" "nowStep \<le> b"
  have "(nowStep - b + step - 1) div step \<le> 0"
    using s by (cases "nowStep - b + step - 1 < 0") (simp_all add: div_neg_pos_less0 less_imp_le)
  then show ?thesis by (simp add: missing_def)
qed

definition ticks :: "int \<Rightarrow> nat \<Rightarrow> int \<Rightarrow> int list" where
  "ticks step n b = map (\<lambda>k. b + int k * step) [1..<Suc n]"

lemma ticks_0 [simp]: "ticks step 0 b = []"
  by (simp add: ticks_def)

lemma ticks_Suc: "ticks step (Suc n) b = (b + step) # ticks step n (b + step)"
proof -
  have "[1..<Suc (Suc n)] = 1 # map Suc [1..<Suc n]" by (simp add: upt_conv_Cons map_Suc_upt del: upt_Suc)
  then show ?thesis by (simp add: ticks_def algebra_simps o_def del: upt_Suc)
qed

lemma rollTimes_eq:
  "0 < step \<Longrightarrow> rollTimes step nowStep b = Some (ticks step (missing step nowStep b) b)"
proof (induction "missing step nowStep b" arbitrary: b)
  case 0
  then have "\<not> nowStep > b" using missing_step by fastforce
  then show ?case using 0 by (subst rollTimes.simps) simp
next
  case (Suc n)
  have lt: "nowStep > b"
  proof (rule ccontr)
    assume "\<not> nowStep > b"
    then show False using missing_none [OF Suc.prems, of nowStep b] Suc.hyps(2) by simp
  qed
  have n: "n = missing step nowStep (b + step)" using missing_step [OF Suc.prems lt] Suc.hyps(2) by simp
  have "rollTimes step nowStep b = Some ((b + step) # ticks step n (b + step))"
    using lt Suc.hyps(1) [OF n Suc.prems] n by (subst rollTimes.simps) simp
  then show ?case using Suc.hyps(2) ticks_Suc by metis
qed

text \<open>Where the curve ends afterwards: at the current step or less than a step after it.\<close>

lemma missing_reaches:
  assumes "0 < step"
  shows "nowStep \<le> b + int (missing step nowStep b) * step"
    and "b < nowStep \<Longrightarrow> b + int (missing step nowStep b) * step < nowStep + step"
proof -
  define q where "q = (nowStep - b + step - 1) div step"
  have q: "q * step \<le> nowStep - b + step - 1" "nowStep - b + step - 1 < q * step + step"
    using assms div_mult_mod_eq [of "nowStep - b + step - 1" step] pos_mod_bound [of step] pos_mod_sign [of step]
    unfolding q_def by (smt (verit))+
  have m: "int (missing step nowStep b) = max q 0" by (simp add: missing_def q_def)
  have le: "q * step \<le> max q 0 * step" using assms by (intro mult_right_mono) simp_all
  show "nowStep \<le> b + int (missing step nowStep b) * step" using q(2) le m by simp
  show "b + int (missing step nowStep b) * step < nowStep + step" if "b < nowStep"
  proof -
    have "0 \<le> q" using assms that by (simp add: q_def pos_imp_zdiv_nonneg_iff)
    then show ?thesis using q(1) m by simp
  qed
qed

definition rolled :: "int \<Rightarrow> int \<Rightarrow> PubkeyState \<Rightarrow> PubkeyState" where
  "rolled step nowStep st =
     (if ps_carriedClose st = None then st
      else st\<lparr>ps_plottedStep := ps_plottedStep st + int (missing step nowStep (ps_plottedStep st)) * step\<rparr>)"

definition rolledTimes :: "int \<Rightarrow> int \<Rightarrow> PubkeyState \<Rightarrow> int list" where
  "rolledTimes step nowStep st =
     (if ps_carriedClose st = None then []
      else ticks step (missing step nowStep (ps_plottedStep st)) (ps_plottedStep st))"

lemma rolled_last:
  assumes "0 < step"
  shows "max p (if ticks step m p = [] then p else last (ticks step m p)) = p + int m * step"
  using assms by (cases m) (simp_all add: ticks_def last_map max_def)

lemma rollStates_eq:
  assumes "0 < step"
  shows "rollStates specs lines step nowStep sts =
    Some (map (\<lambda>(pk, st). (pk, rolled step nowStep st)) sts,
          concat (map (\<lambda>(pk, st). concat (map (pointsAt specs lines pk) (rolledTimes step nowStep st))) sts))"
proof (induction sts)
  case (Cons p sts)
  obtain pk st where p: "p = (pk, st)" by (cases p)
  show ?case
  proof (cases "ps_carriedClose st = None")
    case True
    then show ?thesis using Cons.IH by (simp add: p rolled_def rolledTimes_def)
  next
    case False
    then show ?thesis
      using Cons.IH rollTimes_eq [OF assms, of nowStep "ps_plottedStep st"]
        rolled_last [OF assms, of "ps_plottedStep st" "missing step nowStep (ps_plottedStep st)"]
      by (auto simp: p rolled_def rolledTimes_def)
  qed
qed simp

lemma rolled_reaches:
  assumes "0 < step" "ps_carriedClose st \<noteq> None"
  shows "nowStep \<le> ps_plottedStep (rolled step nowStep st)"
  using missing_reaches(1) [OF assms(1)] assms(2) by (auto simp: rolled_def)

lemma rolledTimes_again: "0 < step \<Longrightarrow> rolledTimes step nowStep (rolled step nowStep st) = []"
  using rolled_reaches [of step st nowStep] missing_none [of step nowStep]
  by (cases "ps_carriedClose st = None") (auto simp: rolledTimes_def rolled_def)

lemma rolled_again: "0 < step \<Longrightarrow> rolled step nowStep (rolled step nowStep st) = rolled step nowStep st"
  using rolled_reaches [of step st nowStep] missing_none [of step nowStep]
  by (cases "ps_carriedClose st = None") (auto simp: rolled_def)

lemma rolledTimes_grid:
  assumes "0 < step" "b \<in> set (rolledTimes step nowStep st)"
  shows "ps_carriedClose st \<noteq> None \<and> (\<exists>j\<ge>1. b = ps_plottedStep st + int j * step) \<and> b < nowStep + step"
proof -
  let ?p = "ps_plottedStep st"
  have c: "ps_carriedClose st \<noteq> None" using assms(2) by (auto simp: rolledTimes_def split: if_splits)
  then obtain j where j: "1 \<le> j" "j \<le> missing step nowStep ?p" "b = ?p + int j * step"
    using assms(2) by (auto simp: rolledTimes_def ticks_def)
  then have "missing step nowStep ?p \<noteq> 0" by simp
  then have lt: "?p < nowStep" using missing_none [OF assms(1), of nowStep ?p] by linarith
  have "int j * step \<le> int (missing step nowStep ?p) * step" using j assms(1) by (intro mult_right_mono) simp_all
  then have "b < nowStep + step" using missing_reaches(2) [OF assms(1) lt] j(3) by linarith
  then show ?thesis using c j by blast
qed

lemma rolled_carried [simp]: "ps_carriedClose (rolled step nowStep st) = ps_carriedClose st"
  by (simp add: rolled_def)

lemma rawBySpec_rolled:
  "rawBySpec (map (\<lambda>(pk, st). (pk, rolled step nowStep st)) sts) specs = rawBySpec sts specs"
proof -
  have "map_of (map (\<lambda>(pk, st). (pk, rolled step nowStep st)) sts) k = map_option (rolled step nowStep) (map_of sts k)" for k
    by (induction sts) auto
  then show ?thesis by (auto simp: rawBySpec_def split: option.split)
qed

text \<open>
  The tick of the clock always ends.  It appends points on the grid that the curve already has, none
  beyond the current step's bar; afterwards every curve with a value has reached the current step,
  and another tick at the same time appends nothing.
\<close>

lemma rollForward_spec:
  assumes "0 \<le> w" "w \<le> 2 ^ 50"
  shows "\<exists>sts' ups. rollForward w isGroup nowMs specs lines sts = Some (sts', ups) \<and>
    (\<forall>(k, b, x)\<in>set ups. \<exists>(pk, st)\<in>set sts. (\<exists>j\<ge>1. b = ps_plottedStep st + int j * stepOf w) \<and>
       b < nowStepOf w nowMs + stepOf w) \<and>
    (\<forall>(pk, st)\<in>set sts'. ps_carriedClose st \<noteq> None \<longrightarrow> nowStepOf w nowMs \<le> ps_plottedStep st) \<and>
    rollForward w isGroup nowMs specs lines sts' = Some (sts', [])"
proof -
  let ?step = "stepOf w" and ?now = "nowStepOf w nowMs"
  have s: "0 < ?step" using stepOf_pos(1) [OF assms] by simp
  let ?specs = "zip specs (normalizedBySpec isGroup sts specs)"
  let ?sts = "map (\<lambda>(pk, st). (pk, rolled ?step ?now st)) sts"
  let ?ups = "concat (map (\<lambda>(pk, st). concat (map (pointsAt ?specs lines pk) (rolledTimes ?step ?now st))) sts)"
  have r: "rollForward w isGroup nowMs specs lines sts = Some (?sts, ?ups)"
    by (simp only: rollForward_def rollStates_eq [OF s])
  have grid: "\<exists>(pk, st)\<in>set sts. (\<exists>j\<ge>1. b = ps_plottedStep st + int j * ?step) \<and> b < ?now + ?step"
    if ups: "(k, b, x) \<in> set ?ups" for k b x
  proof -
    obtain pk st b' where st: "(pk, st) \<in> set sts" "b' \<in> set (rolledTimes ?step ?now st)"
        "(k, b, x) \<in> set (pointsAt ?specs lines pk b')"
      using ups by auto
    then have "b' = b" by (auto simp: pointsAt_def split: option.splits if_splits)
    then show ?thesis using rolledTimes_grid [OF s] st by blast
  qed
  have reach: "\<forall>(pk, st)\<in>set ?sts. ps_carriedClose st \<noteq> None \<longrightarrow> ?now \<le> ps_plottedStep st"
    using rolled_reaches [OF s] by auto
  have "normalizedBySpec isGroup ?sts specs = normalizedBySpec isGroup sts specs"
    by (simp add: normalizedBySpec_def rawBySpec_rolled)
  moreover have "map (\<lambda>(pk, st). (pk, rolled ?step ?now st)) ?sts = ?sts"
    by (auto simp: rolled_again [OF s])
  ultimately have again: "rollForward w isGroup nowMs specs lines ?sts = Some (?sts, [])"
    by (simp only: rollForward_def rollStates_eq [OF s]) (simp add: case_prod_beta rolledTimes_again [OF s])
  show ?thesis using r grid reach again by (intro exI conjI) (assumption | blast | auto)+
qed

subsection \<open>Loading keeps what it has\<close>

text \<open>A failed fetch keeps the candles of its market, a successful one replaces them.\<close>

lemma loadResults_states:
  assumes "distinct (map fst rs)"
  shows "stateOf (fst (loadResults rs sts b)) pk =
    (case map_of rs pk of Some (Inr cs) \<Rightarrow> (stateOf sts pk)\<lparr>ps_candles := cs\<rparr> | _ \<Rightarrow> stateOf sts pk)"
  using assms
proof (induction rs sts b rule: loadResults.induct)
  case (2 k result rest sts anyData)
  have up: "stateOf (AList.update k v sts) pk = (if pk = k then v else stateOf sts pk)" for v
    by (simp add: stateOf_def update_conv')
  have notin: "map_of rest k = None" using 2(3) by (simp add: map_of_eq_None_iff)
  show ?case
  proof (cases result)
    case (Inl e)
    then show ?thesis using 2 notin by (auto simp: Let_def split: option.splits sum.splits)
  next
    case (Inr cs)
    then show ?thesis using 2 notin up by (auto simp: Let_def split: option.splits sum.splits)
  qed
qed simp

definition hasData :: "PubkeyStates \<Rightarrow> string \<times> CandleDto list res \<Rightarrow> bool" where
  "hasData sts p = (case snd p of Inr cs \<Rightarrow> cs \<noteq> [] | Inl _ \<Rightarrow> ps_candles (stateOf sts (fst p)) \<noteq> [])"

lemma hasData_update: "fst p \<noteq> k \<Longrightarrow> hasData (AList.update k v sts) p = hasData sts p"
  by (simp add: hasData_def stateOf_def update_conv' split: sum.split)

lemma loadResults_any:
  "distinct (map fst rs) \<Longrightarrow> snd (loadResults rs sts b) \<longleftrightarrow> b \<or> (\<exists>p\<in>set rs. hasData sts p)"
proof (induction rs sts b rule: loadResults.induct)
  case (2 k result rest sts anyData)
  have ne: "\<forall>p\<in>set rest. fst p \<noteq> k" "distinct (map fst rest)" using 2(3) by auto
  show ?case
  proof (cases result)
    case (Inl e)
    then show ?thesis using 2(1) [OF refl Inl ne(2)] by (simp add: Let_def hasData_def)
  next
    case (Inr cs)
    then show ?thesis using 2(2) [OF refl Inr ne(2)] ne(1) hasData_update by (simp add: Let_def hasData_def [of sts "(k, Inr cs)"])
  qed
qed simp

text \<open>
  The chart reports an error only when every fetch failed and nothing was loaded before, so that one
  market that cannot be read never hides the others.
\<close>

lemma loadCandles_error:
  assumes "length results = length pubkeys" "distinct pubkeys"
  shows "fst (snd (loadCandles pubkeys results sts)) \<longleftrightarrow>
    pubkeys \<noteq> [] \<and> (\<forall>r\<in>set results. \<not> okR r) \<and> (\<forall>pk\<in>set pubkeys. ps_candles (stateOf sts pk) = [])"
proof -
  have d: "distinct (map fst (zip pubkeys results))" using assms by simp
  have any: "snd (loadResults (zip pubkeys results) sts False) \<longleftrightarrow>
      (\<exists>pk\<in>set pubkeys. ps_candles (stateOf sts pk) \<noteq> [])" if f: "\<forall>r\<in>set results. \<not> okR r"
  proof -
    have "hasData sts p \<longleftrightarrow> ps_candles (stateOf sts (fst p)) \<noteq> []" if "p \<in> set (zip pubkeys results)" for p
    proof -
      have "\<not> okR (snd p)" using f that by (metis prod.collapse set_zip_rightD)
      then show ?thesis by (cases "snd p") (simp_all add: okR_def hasData_def)
    qed
    moreover have "set pubkeys = fst ` set (zip pubkeys results)"
      using assms(1) by (metis list.set_map map_fst_zip)
    ultimately show ?thesis using loadResults_any [OF d, of sts False] by auto
  qed
  show ?thesis
    using any by (auto simp: loadCandles_def Let_def list_all_iff split: prod.splits)
qed

end
