(* ===== verification/ControlRuns.thy ===== *)
theory ControlRuns
  imports Controls Wire Sequence
begin

text \<open>
  What the controls of a market's page send: the submits of \<open>ActivateControl.tsx\<close>,
  \<open>CancelControl.tsx\<close>, \<open>ResolveControl.tsx\<close>, \<open>RefundControl.tsx\<close>, \<open>ClaimLpControl.tsx\<close>,
  \<open>RedeemControl.tsx\<close>, \<open>CollectFeeControl.tsx\<close>, \<open>CloseMarketControl.tsx\<close> and of the two calls to
  action of \<open>MarketCard.tsx\<close>, with the status lines they show (\<open>WriteStatusRegion.tsx\<close>,
  \<open>ConnectGate.tsx\<close>, \<open>lib/explorer.ts\<close>).  The result ties them to the program: the transaction of a
  control calls the handler of that control, on the market of the page.
\<close>

subsection \<open>The submits\<close>

definition cancelSubmit :: "web3 \<Rightarrow> string \<Rightarrow> Market \<Rightarrow> instruction list res" where
  "cancelSubmit W pk m = buildCancelIxs W (AddrStr pk) (AddrObj (mk_oracle m))"

definition resolveSubmit :: "web3 \<Rightarrow> string \<Rightarrow> Market \<Rightarrow> instruction list res" where
  "resolveSubmit W pk m = buildResolveIxs W (AddrStr pk) (AddrObj (mk_oracle m)) (AddrObj (mk_question m))"

definition refundSubmit :: "web3 \<Rightarrow> IndexerReads \<Rightarrow> string \<Rightarrow> Market \<Rightarrow> string \<Rightarrow> instruction list res" where
  "refundSubmit W indexer pk m user =
     buildRefundIxs W indexer (AddrStr pk) (AddrObj (mk_baseMint m)) (AddrStr user)"

definition claimLpSubmit :: "web3 \<Rightarrow> IndexerReads \<Rightarrow> string \<Rightarrow> Market \<Rightarrow> string \<Rightarrow> instruction list res" where
  "claimLpSubmit W indexer pk m user =
     buildClaimLpIxs W indexer (AddrStr pk) (AddrStr user) (AddrObj (mk_lpMint m))"

definition collectFeeSubmit ::
  "web3 \<Rightarrow> txlib \<Rightarrow> string \<Rightarrow> Market \<Rightarrow> Config \<Rightarrow> instruction list res" where
  "collectFeeSubmit W T pk m config = buildCollectFeeIxs W T (AddrStr pk) m config"

definition closeMarketSubmit :: "web3 \<Rightarrow> txlib \<Rightarrow> string \<Rightarrow> Market \<Rightarrow> instruction list res" where
  "closeMarketSubmit W T pk m = buildCloseMarketIxs W T (AddrStr pk) (AddrObj (mk_creator m))"

definition redeemSubmit :: "web3 \<Rightarrow> txlib \<Rightarrow> string \<Rightarrow> Market \<Rightarrow> string \<Rightarrow> instruction list res" where
  "redeemSubmit W T pk m user =
     bindR (marketRefs W (AddrStr pk) m) (\<lambda>refs. buildRedeemIxs W T refs (AddrStr user))"

text \<open>
  \<open>ActivateControl\<close> keeps the steps it built, so that a retry resumes the same sequence.  The result
  is the form and the steps handed to the sequence, if any.
\<close>

record ActivateForm =
  af_steps :: "ActivateStep list option"
  af_buildError :: "string option"

definition activateSubmit ::
  "web3 \<Rightarrow> string \<Rightarrow> Market \<Rightarrow> string \<Rightarrow> StepStatus list \<Rightarrow> ActivateForm \<Rightarrow>
   ActivateForm \<times> ActivateStep list option" where
  "activateSubmit W pk m user statuses f =
     (if isRunning statuses then (f, None)
      else
        let f' = f\<lparr>af_buildError := None\<rparr> in
        case (case af_steps f of
                Some steps \<Rightarrow> Inr steps
              | None \<Rightarrow> buildActivateSequence W
                  \<lparr>wa_market = AddrStr pk, wa_oracle = AddrObj (mk_oracle m),
                   wa_baseMint = AddrObj (mk_baseMint m), wa_payer = AddrStr user\<rparr>) of
          Inl e \<Rightarrow> (f'\<lparr>af_buildError := Some (errMsg e)\<rparr>, None)
        | Inr built \<Rightarrow> (f'\<lparr>af_steps := Some built\<rparr>, Some built))"

definition activateVerb :: "StepStatus list \<Rightarrow> string" where
  "activateVerb statuses =
     (if allDone statuses then ''Activated''
      else if \<exists>s\<in>set statuses. is_error s then ''Retry activation''
      else if isRunning statuses then ''Activating'' @ [CHR 0x85]
      else ''Activate market'')"

text \<open>The disabled state of the submit of the step sequences.\<close>

definition activateDisabled :: "StepStatus list \<Rightarrow> bool" where
  "activateDisabled statuses \<longleftrightarrow> isRunning statuses \<or> allDone statuses"

subsection \<open>MarketCard.tsx\<close>

text \<open>\<open>StakeCta\<close>: the message of the field, and the transaction.\<close>

definition stakeSubmit ::
  "web3 \<Rightarrow> IndexerReads \<Rightarrow> string \<Rightarrow> Market \<Rightarrow> string \<Rightarrow> string \<Rightarrow>
   string option \<times> instruction list res option" where
  "stakeSubmit W indexer pk m user amount =
     (case parseSolAmount amount of
        Inl e \<Rightarrow> (Some e, None)
      | Inr v \<Rightarrow> (None, Some (buildContributeIxs W indexer
          \<lparr>wc_market = AddrStr pk, wc_baseMint = AddrStr (toBase58 W (mk_baseMint m)),
           wc_contributor = AddrStr user, wc_amount = v\<rparr>)))"

definition launchSubmit ::
  "web3 \<Rightarrow> string \<Rightarrow> Market \<Rightarrow> string \<Rightarrow> StepStatus list \<Rightarrow> ActivateForm \<Rightarrow>
   ActivateForm \<times> ActivateStep list option" where
  "launchSubmit W pk m user statuses f =
     (if isRunning statuses then (f, None)
      else
        let f' = f\<lparr>af_buildError := None\<rparr> in
        case (case af_steps f of
                Some steps \<Rightarrow> Inr steps
              | None \<Rightarrow> buildActivateSequence W
                  \<lparr>wa_market = AddrStr pk, wa_oracle = AddrObj (mk_oracle m),
                   wa_baseMint = AddrObj (mk_baseMint m), wa_payer = AddrStr user\<rparr>) of
          Inl e \<Rightarrow> (f'\<lparr>af_buildError := Some (errMsg e)\<rparr>, None)
        | Inr built \<Rightarrow> (f'\<lparr>af_steps := Some built\<rparr>, Some built))"

definition launchVerb :: "StepStatus list \<Rightarrow> string" where
  "launchVerb statuses =
     (if allDone statuses then ''Launched''
      else if \<exists>s\<in>set statuses. is_error s then ''Retry launch''
      else if isRunning statuses then ''Launching'' @ [CHR 0x85]
      else ''Launch market'')"

subsection \<open>lib/explorer.ts, ConnectGate.tsx, WriteStatusRegion.tsx\<close>

text \<open>\<open>encodeURIComponent\<close> of a string of characters up to \<open>U+00FF\<close>.\<close>

definition uri_unreserved :: "char \<Rightarrow> bool" where
  "uri_unreserved c \<longleftrightarrow>
     c \<in> set ''ABCDEFGHIJKLMNOPQRSTUVWXYZabcdefghijklmnopqrstuvwxyz0123456789-_.!~*()'' \<or> c = CHR 0x27"

definition percent_byte :: "nat \<Rightarrow> string" where
  "percent_byte n =
     (let hex = ''0123456789ABCDEF'' in [CHR ''%'', hex ! (n div 16), hex ! (n mod 16)])"

definition encodeURIComponent :: "string \<Rightarrow> string" where
  "encodeURIComponent s =
     concat (map (\<lambda>c. if uri_unreserved c then [c]
       else let n = of_char c :: nat in
         if n < 128 then percent_byte n
         else percent_byte (192 + n div 64) @ percent_byte (128 + n mod 64)) s)"

text \<open>The build-time variable \<open>VITE_EXPLORER_CLUSTER\<close> is an argument.\<close>

definition clusterQuery :: "string option \<Rightarrow> string" where
  "clusterQuery env = (if truthy env then ''?cluster='' @ encodeURIComponent (orElse env []) else [])"

definition explorerAddressUrl :: "string option \<Rightarrow> string \<Rightarrow> string" where
  "explorerAddressUrl env address = ''https://explorer.solana.com/address/'' @ address @ clusterQuery env"

definition explorerTxUrl :: "string option \<Rightarrow> string \<Rightarrow> string" where
  "explorerTxUrl env signature = ''https://explorer.solana.com/tx/'' @ signature @ clusterQuery env"

definition shortSig :: "string \<Rightarrow> string" where
  "shortSig signature =
     (if length signature \<le> 12 then signature
      else take 6 signature @ [CHR 0x85] @ drop (length signature - 6) signature)"

datatype GateView = GateOpen | GateConnect

definition ConnectGate :: "bool \<Rightarrow> GateView" where
  "ConnectGate isConnected = (if isConnected then GateOpen else GateConnect)"

definition BUSY_LABEL :: "WriteStatus \<Rightarrow> string option" where
  "BUSY_LABEL status =
     (case status of
        WBuilding \<Rightarrow> Some (''Preparing transaction'' @ [CHR 0x85])
      | WSigning \<Rightarrow> Some (''Awaiting wallet signature'' @ [CHR 0x85])
      | WConfirming \<Rightarrow> Some (''Confirming on-chain'' @ [CHR 0x85])
      | _ \<Rightarrow> None)"

text \<open>What the region shows: nothing, the busy line, the verb with the signature and its link, or the message and the logs.\<close>

datatype StatusLine = NoLine | BusyLine string | DoneLine string string string | ErrorLine string "string option"

fun joinLines :: "string list \<Rightarrow> string" where
  "joinLines [] = []"
| "joinLines [s] = s"
| "joinLines (s # ss) = s @ CHR 0x0A # joinLines ss"

definition WriteStatusRegion :: "string option \<Rightarrow> string \<Rightarrow> WriteStatus \<Rightarrow> StatusLine" where
  "WriteStatusRegion env successVerb status =
     (case BUSY_LABEL status of
        Some l \<Rightarrow> BusyLine l
      | None \<Rightarrow>
          (case status of
             WSuccess signature \<Rightarrow> DoneLine successVerb (shortSig signature) (explorerTxUrl env signature)
           | WError message logs \<Rightarrow>
               ErrorLine message (case logs of
                 Some (l # ls) \<Rightarrow> Some (joinLines (l # ls)) | _ \<Rightarrow> None)
           | _ \<Rightarrow> NoLine))"

text \<open>The glyph of a step and its trailing text in the step list.\<close>

datatype StepGlyph = GlyphDone | GlyphError | GlyphRunning | GlyphPending

definition stepGlyph :: "StepStatus \<Rightarrow> StepGlyph" where
  "stepGlyph status =
     (case status of
        SDone s \<Rightarrow> GlyphDone | SError m l \<Rightarrow> GlyphError | SRunning \<Rightarrow> GlyphRunning | SPending \<Rightarrow> GlyphPending)"

subsection \<open>One table of the controls\<close>

text \<open>The instructions of a control's transaction or, for the activation, of its steps.\<close>

fun controlIxs ::
  "web3 \<Rightarrow> txlib \<Rightarrow> IndexerReads \<Rightarrow> string \<Rightarrow> Market \<Rightarrow> Config \<Rightarrow> string \<Rightarrow> Control \<Rightarrow> instruction list res option" where
  "controlIxs W T indexer pk m config user ACancel = Some (cancelSubmit W pk m)"
| "controlIxs W T indexer pk m config user AResolve = Some (resolveSubmit W pk m)"
| "controlIxs W T indexer pk m config user ARefund = Some (refundSubmit W indexer pk m user)"
| "controlIxs W T indexer pk m config user AClaimLp = Some (claimLpSubmit W indexer pk m user)"
| "controlIxs W T indexer pk m config user ACollectFee = Some (collectFeeSubmit W T pk m config)"
| "controlIxs W T indexer pk m config user AClose = Some (closeMarketSubmit W T pk m)"
| "controlIxs W T indexer pk m config user ARedeem = Some (redeemSubmit W T pk m user)"
| "controlIxs W T indexer pk m config user AActivate =
     map_option (\<lambda>steps. Inr (concat (map as_ixs steps)))
       (snd (activateSubmit W pk m user [] \<lparr>af_steps = None, af_buildError = None\<rparr>))"
| "controlIxs W T indexer pk m config user _ = None"

text \<open>The handler of the program that a control's transaction is for; a redemption calls the vault.\<close>

fun handlerOf :: "Control \<Rightarrow> Ix option" where
  "handlerOf ACancel = Some Cancel"
| "handlerOf AResolve = Some ResolveMarket"
| "handlerOf ARefund = Some Refund"
| "handlerOf AClaimLp = Some ClaimLp"
| "handlerOf ACollectFee = Some CollectFee"
| "handlerOf AClose = Some CloseMarket"
| "handlerOf AActivate = Some Activate"
| "handlerOf _ = None"

text \<open>An instruction of the program: its call, on this market, which is the first account.\<close>

definition calls :: "web3 \<Rightarrow> Ix \<Rightarrow> string \<Rightarrow> instruction \<Rightarrow> bool" where
  "calls W h pk ix \<longleftrightarrow>
     ixProgramId ix = MARKET_PROGRAM_ID W \<and> parse_call (ixData ix) = Some (CEmpty h) \<and> ixKeys ix \<noteq> [] \<and>
     addr W (AddrStr pk) = Inr (pubkey (hd (ixKeys ix))) \<and>
     map role_of (take (length (account_roles h)) (ixKeys ix)) = account_roles h"

subsection \<open>The transactions call the handlers\<close>

lemma mkIx_first:
  "mkIx pid (wA W a s # ks) d = Inr ix \<Longrightarrow>
     ixProgramId ix = pid \<and> ixKeys ix \<noteq> [] \<and> addr W a = Inr (pubkey (hd (ixKeys ix)))"
  by (cases ix) (auto simp: mkIx_Inr_iff wA_Inr_iff)

text \<open>The market argument of the builders without a payload.\<close>

fun market_of :: "builder_call \<Rightarrow> address_input" where
  "market_of (BCancel a) = ca_market a"
| "market_of (BRefund a) = rf_market a"
| "market_of (BActivate a) = av_market a"
| "market_of (BClaimLp a) = cl_market a"
| "market_of (BResolveMarket a) = rm_market a"
| "market_of (BCollectFee a) = cq_market a"
| "market_of (BCloseMarket a) = cz_market a"
| "market_of _ = AddrStr []"

fun own_program :: "builder_call \<Rightarrow> bool" where
  "own_program (BCancel a) = (ca_programId a = None)"
| "own_program (BRefund a) = (rf_programId a = None)"
| "own_program (BActivate a) = (av_programId a = None)"
| "own_program (BClaimLp a) = (cl_programId a = None)"
| "own_program (BResolveMarket a) = (rm_programId a = None)"
| "own_program (BCollectFee a) = (cq_programId a = None)"
| "own_program (BCloseMarket a) = (cz_programId a = None)"
| "own_program _ = False"

lemma build_first:
  assumes "build_ix W b = Inr ix" "own_program b"
  shows "ixProgramId ix = MARKET_PROGRAM_ID W \<and> ixKeys ix \<noteq> [] \<and>
    addr W (market_of b) = Inr (pubkey (hd (ixKeys ix)))"
  using assms
  by (cases b) (auto simp: ix_cancel_def ix_refund_def ix_activate_def ix_claimLp_def ix_resolveMarket_def
      ix_collectFee_def ix_closeMarket_def Let_def PID_def dest!: mkIx_first)

lemma build_calls:
  assumes "build_ix W b = Inr ix" "own_program b" "call_of W b = CEmpty h"
    and "addr W (market_of b) = addr W (AddrStr pk)"
  shows "calls W h pk ix"
proof -
  have "wf_build W b" using assms(2) by (cases b) simp_all
  moreover have "call_ix (call_of W b) = h" using assms(3) by simp
  ultimately show ?thesis
    using build_ix_parsed [OF assms(1)] build_ix_roles [OF assms(1)] build_first [OF assms(1,2)] assms(3,4)
    by (simp add: calls_def)
qed

lemma marketRefs_market: "marketRefs W a m = Inr refs \<Longrightarrow> addr W a = Inr (mr_market refs)"
  by (auto simp: marketRefs_def toAddress_Inr_iff marketRefsFromAccount_def)

lemma last_withCreate [simp]: "last (withCreate c [ix]) = ix"
  by (simp add: withCreate_def split: option.split)

lemma cancel_calls: "cancelSubmit W pk m = Inr ixs \<Longrightarrow> calls W Cancel pk (last ixs)"
  by (auto simp: cancelSubmit_def buildCancelIxs_def toAddress_Inr_iff intro: build_calls [where b = "BCancel a" for a])

lemma resolve_calls: "resolveSubmit W pk m = Inr ixs \<Longrightarrow> calls W ResolveMarket pk (last ixs)"
  by (auto simp: resolveSubmit_def buildResolveIxs_def toAddress_Inr_iff
      intro: build_calls [where b = "BResolveMarket a" for a])

lemma refund_calls: "refundSubmit W indexer pk m user = Inr ixs \<Longrightarrow> calls W Refund pk (last ixs)"
  by (auto simp: refundSubmit_def buildRefundIxs_def toAddress_Inr_iff
      intro: build_calls [where b = "BRefund a" for a])

lemma claimLp_calls: "claimLpSubmit W indexer pk m user = Inr ixs \<Longrightarrow> calls W ClaimLp pk (last ixs)"
  by (auto simp: claimLpSubmit_def buildClaimLpIxs_def toAddress_Inr_iff
      intro: build_calls [where b = "BClaimLp a" for a])

lemma closeMarket_calls: "closeMarketSubmit W T pk m = Inr ixs \<Longrightarrow> calls W CloseMarket pk (last ixs)"
  by (auto simp: closeMarketSubmit_def buildCloseMarketIxs_def closeMarketInstruction_def toAddress_Inr_iff
      intro: build_calls [where b = "BCloseMarket a" for a])

lemma collectFee_calls: "collectFeeSubmit W T pk m config = Inr ixs \<Longrightarrow> calls W CollectFee pk (last ixs)"
  by (auto simp: collectFeeSubmit_def buildCollectFeeIxs_def collectFeeInstruction_def dest!: marketRefs_market
      intro: build_calls [where b = "BCollectFee a" for a])

lemma compose_market:
  "composeMarketInstructions W p = Inr (ixs, refs) \<Longrightarrow> addr W (cp_market p) = Inr (mr_market refs)"
  by (auto simp: composeMarketInstructions_def Let_def)

lemma activate_calls:
  assumes "snd (activateSubmit W pk m user statuses \<lparr>af_steps = None, af_buildError = err\<rparr>) = Some steps"
  shows "calls W Activate pk (last (concat (map as_ixs steps)))"
proof -
  let ?a = "\<lparr>wa_market = AddrStr pk, wa_oracle = AddrObj (mk_oracle m), wa_baseMint = AddrObj (mk_baseMint m),
    wa_payer = AddrStr user\<rparr>"
  have "buildActivateSequence W ?a = Inr steps"
    using assms by (auto simp: activateSubmit_def Let_def split: if_splits sum.splits)
  from buildActivateSequence_Inr [OF this] obtain market orc baseMint payer ixq ixv ixa refs ixact where
    ad: "addr W (AddrStr pk) = Inr market"
    and c: "composeMarketInstructions W
      \<lparr>cp_market = AddrObj market, cp_oracle = AddrObj orc, cp_baseMint = AddrObj baseMint,
       cp_payer = AddrObj payer\<rparr> = Inr ([ixq, ixv, ixa], refs)"
    and act: "activateInstruction W refs (AddrObj payer) = Inr ixact"
    and ixs: "map as_ixs steps = [[ixq], [ixv], [ixa], [ixact]]"
    by auto
  have "calls W Activate pk ixact"
    using act compose_market [OF c] ad
    by (auto simp: activateInstruction_def intro: build_calls [where b = "BActivate a" for a])
  then show ?thesis by (simp add: ixs)
qed

text \<open>A retry of an activation runs the very steps of the first attempt, so that it resumes.\<close>

lemma activateSubmit_resumes:
  assumes "snd (activateSubmit W pk m user statuses f) = Some steps" "\<not> isRunning later"
  shows "snd (activateSubmit W pk' m' user' later (fst (activateSubmit W pk m user statuses f))) = Some steps"
  using assms by (auto simp: activateSubmit_def Let_def split: if_splits sum.splits)

lemma launchSubmit_eq: "launchSubmit = activateSubmit"
  by (simp add: fun_eq_iff launchSubmit_def activateSubmit_def)

lemma controlIxs_calls:
  assumes "controlIxs W T indexer pk m config user c = Some (Inr ixs)" "handlerOf c = Some h"
  shows "calls W h pk (last ixs)"
  using assms cancel_calls resolve_calls refund_calls claimLp_calls closeMarket_calls collectFee_calls activate_calls
  by (cases c) auto

text \<open>A redemption ends in the redemption of the vault.\<close>

lemma redeem_vault:
  assumes "redeemSubmit W T pk m user = Inr ixs"
  shows "ixProgramId (last ixs) = CONDITIONAL_VAULT_ID W \<and> ixData (last ixs) = DISC_redeemTokens"
  using assms
  by (auto simp: redeemSubmit_def buildRedeemIxs_def redeemInstructions_def redeemTokens_def
      interactWithVault_def Let_def mkIx_Inr_iff split: option.splits)

subsection \<open>The status line\<close>

text \<open>Only unreserved characters and percent escapes enter a link, whatever the configuration says.\<close>

lemma encodeURIComponent_safe: "c \<in> set (encodeURIComponent s) \<Longrightarrow> uri_unreserved c \<or> c = CHR ''%''"
proof -
  have hex: "n < 16 \<Longrightarrow> uri_unreserved (''0123456789ABCDEF'' ! n)" for n
    by (simp add: uri_unreserved_def numeral_eq_Suc less_Suc_eq) auto
  have p: "c \<in> set (percent_byte n) \<Longrightarrow> n < 256 \<Longrightarrow> uri_unreserved c \<or> c = CHR ''%''" for n
    using hex [of "n div 16"] hex [of "n mod 16"] by (auto simp: percent_byte_def Let_def)
  have b: "(of_char d :: nat) < 256" for d by simp
  show "uri_unreserved c \<or> c = CHR ''%''" if m: "c \<in> set (encodeURIComponent s)"
  proof -
    obtain d where d: "c \<in> set (if uri_unreserved d then [d]
       else let n = of_char d :: nat in
         if n < 128 then percent_byte n
         else percent_byte (192 + n div 64) @ percent_byte (128 + n mod 64))"
      using m unfolding encodeURIComponent_def set_concat set_map by blast
    have "(of_char d :: nat) div 64 < 64" using b [of d] by linarith
    moreover have "(of_char d :: nat) mod 64 < 64" by simp
    ultimately show ?thesis
      using d p [of "of_char d"] p [of "192 + of_char d div 64"] p [of "128 + of_char d mod 64"]
      by (auto simp: Let_def split: if_splits)
  qed
qed

text \<open>The link of a success is shown exactly for the signature of the confirmed transaction.\<close>

lemma statusRegion_done:
  "WriteStatusRegion env v status = DoneLine v t url \<longleftrightarrow>
     (\<exists>sig. status = WSuccess sig \<and> t = shortSig sig \<and> url = explorerTxUrl env sig)"
  by (auto simp: WriteStatusRegion_def BUSY_LABEL_def split: WriteStatus.splits)

lemma statusRegion_busy: "(\<exists>l. WriteStatusRegion env v status = BusyLine l) \<longleftrightarrow> isBusy status"
  by (auto simp: WriteStatusRegion_def BUSY_LABEL_def isBusy_def split: WriteStatus.splits)

text \<open>A sequence that is done or running cannot be started again from its button.\<close>

lemma activate_button:
  "\<not> activateDisabled statuses \<Longrightarrow> activateVerb statuses = ''Activate market'' \<or> activateVerb statuses = ''Retry activation''"
  by (simp add: activateDisabled_def activateVerb_def)

end
