(* ===== verification/StdWallet.thy ===== *)
theory StdWallet
  imports Sequence
begin

text \<open>
  The wallet provider of \<open>app/src/lib/standardWallet.tsx\<close>: the remembered wallet, the restoring of
  the last session, signing through the Wallet Standard, and the value that \<open>useWallet()\<close> gives to
  the write hooks.

  The Wallet Standard library and the transaction class are the parameter \<open>WalletLib\<close>.  A stored text
  is what \<open>JSON.parse\<close> makes of it, \<open>None\<close> for a text that is not JSON.  An account and a wallet have
  the fields that the provider reads.  The provider's state is the record \<open>WalletCell\<close>; its steps are
  the handlers and the restoring effect, and a step's output is the wallet asked to reconnect.
\<close>

subsection \<open>Parameters\<close>

record StdAccount =
  sa_address :: string
  sa_chains :: "string list"

record UiWallet =
  uw_name :: string
  uw_accounts :: "StdAccount list"
  uw_features :: "string list"

record SignInput =
  si_account :: StdAccount
  si_transaction :: bytes
  si_chain :: string

record WalletLib =
  wx_feature :: "StdAccount \<Rightarrow> (SignInput list \<Rightarrow> bytes list res) res"
  wx_serialize :: "Transaction \<Rightarrow> bytes res"
  wx_from :: "bytes option \<Rightarrow> bytes res"

datatype json =
    JNull
  | JBool bool
  | JNumber jsnum
  | JString string
  | JArray "json list"
  | JObject "(string \<times> json) list"

text \<open>\<open>localStorage\<close>: whether it may be used, and the item of \<open>LAST_WALLET_KEY\<close>.\<close>

record LocalStorage =
  ls_denied :: bool
  ls_item :: "json option option"

subsection \<open>The remembered wallet\<close>

record StoredWallet =
  sw_name :: string
  sw_address :: string

definition readLastWallet :: "LocalStorage \<Rightarrow> StoredWallet option" where
  "readLastWallet st =
     (if ls_denied st then None
      else case ls_item st of
        Some (Some (JObject fs)) \<Rightarrow>
          (case (map_of fs ''name'', map_of fs ''address'') of
             (Some (JString n), Some (JString a)) \<Rightarrow> Some \<lparr>sw_name = n, sw_address = a\<rparr>
           | _ \<Rightarrow> None)
      | _ \<Rightarrow> None)"

definition writeLastWallet :: "StoredWallet option \<Rightarrow> LocalStorage \<Rightarrow> LocalStorage" where
  "writeLastWallet v st =
     (if ls_denied st then st
      else case v of
        Some w \<Rightarrow> st\<lparr>ls_item := Some (Some (JObject
          [(''name'', JString (sw_name w)), (''address'', JString (sw_address w))]))\<rparr>
      | None \<Rightarrow> st\<lparr>ls_item := None\<rparr>)"

datatype ReconnectAction = Adopt StdAccount | Silent UiWallet | Nothing

definition resolveReconnect :: "StoredWallet option \<Rightarrow> UiWallet list \<Rightarrow> bool \<Rightarrow> ReconnectAction" where
  "resolveReconnect stored ws triedSilent =
     (case stored of
        None \<Rightarrow> Nothing
      | Some s \<Rightarrow>
          (case find_first (\<lambda>w. uw_name w = sw_name s) ws of
             None \<Rightarrow> Nothing
           | Some owner \<Rightarrow>
               (case find_first (\<lambda>a. sa_address a = sw_address s) (uw_accounts owner) of
                  Some exact \<Rightarrow> Adopt exact
                | None \<Rightarrow>
                    if \<not> triedSilent then Silent owner
                    else (case uw_accounts owner of
                            a # _ \<Rightarrow> Adopt a
                          | [] \<Rightarrow> Nothing))))"

text \<open>Whether the silent connect reaches the wallet's feature.\<close>

definition silentConnect :: "UiWallet \<Rightarrow> bool" where
  "silentConnect w \<longleftrightarrow> ''standard:connect'' \<in> set (uw_features w)"

subsection \<open>Signing\<close>

definition solanaChain :: "StdAccount \<Rightarrow> string" where
  "solanaChain a = orElse (find_first (starts_with ''solana:'') (sa_chains a)) ''solana:mainnet''"

definition signAllWithAccount :: "WalletLib \<Rightarrow> StdAccount \<Rightarrow> Transaction list \<Rightarrow> bytes list res" where
  "signAllWithAccount L acct txs =
     bindR (wx_feature L acct) (\<lambda>sign.
     let chain = solanaChain acct in
     bindR (seqR (map (\<lambda>tx. mapR (\<lambda>b. \<lparr>si_account = acct, si_transaction = b, si_chain = chain\<rparr>)
         (wx_serialize L tx)) txs)) sign)"

text \<open>\<open>const [signed] = ...\<close>: \<open>undefined\<close> when the wallet returns nothing.\<close>

definition signWithAccount :: "WalletLib \<Rightarrow> StdAccount \<Rightarrow> Transaction \<Rightarrow> bytes option res" where
  "signWithAccount L acct tx =
     mapR (\<lambda>outs. case outs of [] \<Rightarrow> None | o1 # _ \<Rightarrow> Some o1) (signAllWithAccount L acct [tx])"

subsection \<open>The provider\<close>

record WalletCell =
  wp_wallets :: "UiWallet list"
  wp_account :: "StdAccount option"
  wp_open :: bool
  wp_triedSilent :: bool
  wp_storage :: LocalStorage

definition initialWalletCell :: "UiWallet list \<Rightarrow> LocalStorage \<Rightarrow> WalletCell" where
  "initialWalletCell ws st =
     \<lparr>wp_wallets = ws, wp_account = None, wp_open = False, wp_triedSilent = False, wp_storage = st\<rparr>"

definition walletOwner :: "UiWallet list \<Rightarrow> string \<Rightarrow> UiWallet option" where
  "walletOwner ws address = find_first (\<lambda>w. \<exists>a\<in>set (uw_accounts w). sa_address a = address) ws"

definition adopt :: "StdAccount \<Rightarrow> WalletCell \<Rightarrow> WalletCell" where
  "adopt acct c =
     c\<lparr>wp_account := Some acct,
       wp_storage := writeLastWallet (Some
         \<lparr>sw_name = (case walletOwner (wp_wallets c) (sa_address acct) of Some w \<Rightarrow> uw_name w | None \<Rightarrow> []),
          sw_address = sa_address acct\<rparr>) (wp_storage c)\<rparr>"

text \<open>The effect, with the wallet it asks to reconnect silently.\<close>

definition restoreEffect :: "WalletCell \<Rightarrow> WalletCell \<times> UiWallet option" where
  "restoreEffect c =
     (if wp_account c \<noteq> None then (c, None)
      else case resolveReconnect (readLastWallet (wp_storage c)) (wp_wallets c) (wp_triedSilent c) of
        Adopt acct \<Rightarrow> (c\<lparr>wp_account := Some acct\<rparr>, None)
      | Silent w \<Rightarrow> (c\<lparr>wp_triedSilent := True\<rparr>, Some w)
      | Nothing \<Rightarrow> (c, None))"

text \<open>
  \<open>disconnect\<close>, with whether it calls the wallet's \<open>standard:disconnect\<close>.  The features of a
  wallet are an array of names, which the code indexes by a name: what it finds is an element
  whose index has that name, and an element is a string, which has no method \<open>disconnect\<close>.
\<close>

definition arrayProperty :: "string list \<Rightarrow> string \<Rightarrow> string option" where
  "arrayProperty xs name =
     map_option (\<lambda>i. xs ! i) (find_first (\<lambda>i. show_int (int i) = name) [0..<length xs])"

definition stringMethod :: "string \<Rightarrow> bool" where
  "stringMethod name \<longleftrightarrow>
     name \<in> {''at'', ''charAt'', ''charCodeAt'', ''codePointAt'', ''concat'', ''endsWith'', ''includes'',
       ''indexOf'', ''lastIndexOf'', ''localeCompare'', ''match'', ''matchAll'', ''normalize'', ''padEnd'',
       ''padStart'', ''repeat'', ''replace'', ''replaceAll'', ''search'', ''slice'', ''split'', ''startsWith'',
       ''substring'', ''toLowerCase'', ''toUpperCase'', ''toString'', ''trim'', ''trimEnd'', ''trimStart'', ''valueOf''}"

definition disconnect :: "WalletCell \<Rightarrow> WalletCell \<times> bool" where
  "disconnect c =
     (let wallet = (case wp_account c of None \<Rightarrow> None | Some a \<Rightarrow> walletOwner (wp_wallets c) (sa_address a));
          feat = (case wallet of None \<Rightarrow> None | Some w \<Rightarrow> arrayProperty (uw_features w) ''standard:disconnect'');
          called = (feat \<noteq> None \<and> stringMethod ''disconnect'')
      in (c\<lparr>wp_account := None, wp_storage := writeLastWallet None (wp_storage c)\<rparr>, called))"

definition publicKeyOf :: "web3 \<Rightarrow> WalletCell \<Rightarrow> address option res" where
  "publicKeyOf W c =
     (case wp_account c of
        None \<Rightarrow> Inr None
      | Some a \<Rightarrow> mapR Some (addr W (AddrStr (sa_address a))))"

definition stdSignTransaction :: "WalletLib \<Rightarrow> StdAccount option \<Rightarrow> SignTransaction" where
  "stdSignTransaction L account tx =
     (case account of
        None \<Rightarrow> Inl (Error ''wallet not connected'')
      | Some a \<Rightarrow> bindR (signWithAccount L a tx) (wx_from L))"

definition stdSignAllTransactions :: "WalletLib \<Rightarrow> StdAccount option \<Rightarrow> Transaction list \<Rightarrow> bytes list res" where
  "stdSignAllTransactions L account txs =
     (case account of
        None \<Rightarrow> Inl (Error ''wallet not connected'')
      | Some a \<Rightarrow> bindR (signAllWithAccount L a txs) (\<lambda>signed. seqR (map (\<lambda>w. wx_from L (Some w)) signed)))"

text \<open>The connection of the RPC write path: the latest blockhash, and sending raw bytes.\<close>

definition stdSendTransaction ::
  "WalletLib \<Rightarrow> StdAccount option \<Rightarrow> address option \<Rightarrow> string res \<Rightarrow> (bytes option \<Rightarrow> string res) \<Rightarrow> Transaction \<Rightarrow> string res" where
  "stdSendTransaction L account publicKey latestBlockhash sendRaw tx =
     (case (account, publicKey) of
        (Some a, Some k) \<Rightarrow>
          bindR latestBlockhash (\<lambda>h.
          bindR (signWithAccount L a (tx\<lparr>tr_feePayer := k, tr_recentBlockhash := h\<rparr>)) sendRaw)
      | _ \<Rightarrow> Inl (Error ''wallet not connected''))"

text \<open>The value of the wallet context, as far as the write hooks read it.\<close>

definition walletValue :: "web3 \<Rightarrow> WalletLib \<Rightarrow> WalletCell \<Rightarrow> Wallet res" where
  "walletValue W L c =
     mapR (\<lambda>k. \<lparr>w_connected = (wp_account c \<noteq> None), w_publicKey = k,
        w_signTransaction = Some (stdSignTransaction L (wp_account c)),
        w_signAllTransactions = Some (stdSignAllTransactions L (wp_account c))\<rparr>)
       (publicKeyOf W c)"

subsection \<open>The steps of a page load\<close>

inductive wallet_run :: "UiWallet list \<Rightarrow> LocalStorage \<Rightarrow> WalletCell \<Rightarrow> UiWallet list \<Rightarrow> bool" for ws st where
  Load: "wallet_run ws st (initialWalletCell ws st) []"
| Registered: "wallet_run ws st c asked \<Longrightarrow> wallet_run ws st (c\<lparr>wp_wallets := ws'\<rparr>) asked"
| Picker: "wallet_run ws st c asked \<Longrightarrow> wallet_run ws st (c\<lparr>wp_open := b\<rparr>) asked"
| Adopted: "wallet_run ws st c asked \<Longrightarrow> wallet_run ws st (adopt acct c) asked"
| Restored: "wallet_run ws st c asked \<Longrightarrow> restoreEffect c = (c', None) \<Longrightarrow> wallet_run ws st c' asked"
| Asked: "wallet_run ws st c asked \<Longrightarrow> restoreEffect c = (c', Some w) \<Longrightarrow> wallet_run ws st c' (w # asked)"
| Disconnected: "wallet_run ws st c asked \<Longrightarrow> wallet_run ws st (fst (disconnect c)) asked"

subsection \<open>Restoring a session\<close>

lemma read_write:
  "\<not> ls_denied st \<Longrightarrow> readLastWallet (writeLastWallet v st) = v"
  by (cases v) (simp_all add: readLastWallet_def writeLastWallet_def)

lemma read_denied: "ls_denied st \<Longrightarrow> readLastWallet st = None" "ls_denied (writeLastWallet v st) = ls_denied st"
  by (simp_all add: readLastWallet_def writeLastWallet_def split: option.split)

lemma read_removed: "readLastWallet (writeLastWallet None st) = None"
  by (simp add: readLastWallet_def writeLastWallet_def)

text \<open>
  An adopted account survives the reload: once the first wallet of the remembered name exposes the
  address, restoring adopts it, without asking the wallet.
\<close>

lemma adopt_restores:
  assumes "\<not> ls_denied (wp_storage c)" "walletOwner (wp_wallets c) (sa_address acct) = Some w"
    and "find_first (\<lambda>v. uw_name v = uw_name w) ws = Some v" "a \<in> set (uw_accounts v)" "sa_address a = sa_address acct"
  shows "\<exists>a'. restoreEffect (initialWalletCell ws (wp_storage (adopt acct c))) =
      ((initialWalletCell ws (wp_storage (adopt acct c)))\<lparr>wp_account := Some a'\<rparr>, None) \<and>
    sa_address a' = sa_address acct \<and> a' \<in> set (uw_accounts v)"
proof -
  obtain a' where a': "find_first (\<lambda>a. sa_address a = sa_address acct) (uw_accounts v) = Some a'"
    using assms(4,5) find_first_None [of "\<lambda>a. sa_address a = sa_address acct" "uw_accounts v"] by fastforce
  have "readLastWallet (wp_storage (adopt acct c)) = Some \<lparr>sw_name = uw_name w, sw_address = sa_address acct\<rparr>"
    using assms(1,2) by (simp add: adopt_def read_write)
  then have "resolveReconnect (readLastWallet (wp_storage (adopt acct c))) ws False = Adopt a'"
    using assms(3) a' by (simp add: resolveReconnect_def)
  then show ?thesis
    using find_first_Some [OF a'] by (simp add: restoreEffect_def initialWalletCell_def)
qed

text \<open>After a disconnect nothing is restored, now or after a reload.\<close>

lemma disconnect_stays:
  "restoreEffect (fst (disconnect c)) = (fst (disconnect c), None)"
  "restoreEffect (initialWalletCell ws (wp_storage (fst (disconnect c)))) =
     (initialWalletCell ws (wp_storage (fst (disconnect c))), None)"
  by (simp_all add: restoreEffect_def disconnect_def Let_def read_removed resolveReconnect_def initialWalletCell_def)

text \<open>The wallet is never told: its disconnect feature is not called, whatever features it has.\<close>

lemma disconnect_silent: "\<not> snd (disconnect c)"
  by (simp add: disconnect_def Let_def stringMethod_def)

lemma restoreEffect_asks:
  "restoreEffect c = (c', Some w) \<Longrightarrow> \<not> wp_triedSilent c \<and> wp_triedSilent c' \<and> wp_account c' = None \<and> w \<in> set (wp_wallets c)"
  by (auto simp: restoreEffect_def resolveReconnect_def dest: find_first_Some
      split: if_splits option.splits list.splits)

lemma restoreEffect_keeps: "restoreEffect c = (c', o') \<Longrightarrow> wp_triedSilent c \<Longrightarrow> wp_triedSilent c'"
  by (auto simp: restoreEffect_def split: if_splits ReconnectAction.splits)

text \<open>In one page load at most one wallet is asked to reconnect.\<close>

lemma wallet_run_silent:
  "wallet_run ws st c asked \<Longrightarrow> length asked \<le> 1 \<and> (asked \<noteq> [] \<longrightarrow> wp_triedSilent c)"
proof (induction rule: wallet_run.induct)
  case (Restored c asked c')
  then show ?case using restoreEffect_keeps by blast
next
  case (Asked c asked c' w)
  then have "asked = []" using restoreEffect_asks by blast
  then show ?case using Asked.hyps restoreEffect_asks by simp
qed (simp_all add: initialWalletCell_def adopt_def disconnect_def Let_def)

subsection \<open>What the write hooks see\<close>

text \<open>A connected wallet passes the gate of the write hooks, a disconnected one does not.\<close>

lemma walletValue_gate:
  assumes "walletValue W L c = Inr v"
  shows "(walletSender indexer v \<noteq> None \<longleftrightarrow> wp_account c \<noteq> None) \<and> (w_connected v \<longleftrightarrow> wp_account c \<noteq> None) \<and>
    (\<forall>a. wp_account c = Some a \<longrightarrow> (\<exists>k. addr W (AddrStr (sa_address a)) = Inr k \<and> w_publicKey v = Some k))"
  using assms
  by (cases "wp_account c") (auto simp: walletValue_def publicKeyOf_def walletSender_def mapR_Inr_iff)

text \<open>
  A batch is one request: the wallet's feature gets one input per transaction, in order, all for the
  connected account and one chain.
\<close>

lemma signAll_once:
  assumes "signAllWithAccount L acct txs = Inr outs"
  shows "\<exists>sign inputs. wx_feature L acct = Inr sign \<and> sign inputs = Inr outs \<and> length inputs = length txs \<and>
    (\<forall>i<length txs. wx_serialize L (txs ! i) = Inr (si_transaction (inputs ! i)) \<and>
       si_account (inputs ! i) = acct \<and> si_chain (inputs ! i) = solanaChain acct)"
proof -
  obtain sign inputs where f: "wx_feature L acct = Inr sign" "sign inputs = Inr outs"
      "seqR (map (\<lambda>tx. mapR (\<lambda>b. \<lparr>si_account = acct, si_transaction = b, si_chain = solanaChain acct\<rparr>)
         (wx_serialize L tx)) txs) = Inr inputs"
    using assms by (auto simp: signAllWithAccount_def Let_def)
  have l: "length inputs = length txs" using seqR_length [OF f(3)] by simp
  have "wx_serialize L (txs ! i) = Inr (si_transaction (inputs ! i)) \<and> si_account (inputs ! i) = acct \<and>
      si_chain (inputs ! i) = solanaChain acct" if "i < length txs" for i
    using seqR_nth_map [OF f(3), of i] that l by (auto simp: mapR_Inr_iff)
  then show ?thesis using f l by blast
qed

lemma solanaChain_prefix: "starts_with ''solana:'' (solanaChain a)"
proof (cases "find_first (starts_with ''solana:'') (sa_chains a)")
  case (Some c)
  then show ?thesis using find_first_Some [OF Some] by (simp add: solanaChain_def)
qed (simp add: solanaChain_def)

end
