(* ===== verification/Mock.thy ===== *)
theory Mock
  imports MarketView
begin

unbundle bit_operations_syntax

text \<open>
  The offline preview: the fixtures of \<open>market/data/mockMarkets/fixtures.ts\<close>, their synthetic
  candles, and the \<open>MockIndexerClient\<close> (\<open>market/lib/mockIndexerClient.ts\<close>) that serves them in
  place of the indexer.  Every address of a fixture is hashed from a label with 32-bit FNV-1a and
  encoded by the library; the candles come from the 32-bit generator \<open>mulberry32\<close>, in binary64
  arithmetic.  A character code is below 128 in every string hashed here.
\<close>

subsection \<open>Addresses of fixtures\<close>

text \<open>\<open>Math.imul\<close> and the bitwise operators act on 32-bit words.\<close>

definition fnv1a :: "string \<Rightarrow> 32 word" where
  "fnv1a str = foldl (\<lambda>h c. (h XOR word_of_int (code_of c)) * 0x01000193) 0x811c9dc5 str"

text \<open>The loop of \<open>fixturePubkey\<close>: \<open>n\<close> bytes from index \<open>i\<close> on, after the hash \<open>h\<close>.\<close>

fun fixtureBytes :: "string \<Rightarrow> nat \<Rightarrow> nat \<Rightarrow> 32 word \<Rightarrow> bytes" where
  "fixtureBytes label 0 i h = []"
| "fixtureBytes label (Suc n) i h =
     (let h' = fnv1a (label @ '':'' @ show_int (int i) @ '':'' @ show_int (uint h))
      in ucast (h' AND 0xff) # fixtureBytes label n (Suc i) h')"

definition fixturePubkey :: "web3 \<Rightarrow> string \<Rightarrow> string" where
  "fixturePubkey W label = toBase58 W (Address (fixtureBytes label 32 0 (fnv1a label)))"

text \<open>The all-zero address, before a market is activated.\<close>

definition ZERO :: string where
  "ZERO = ''11111111111111111111111111111111''"

definition BASE_MINT :: "web3 \<Rightarrow> string" where
  "BASE_MINT W = fixturePubkey W ''base-mint''"

definition solAmt :: "int \<Rightarrow> string" where
  "solAmt whole = show_int (whole * 10 ^ 9)"

subsection \<open>Oracles\<close>

definition O_FUNDING :: "web3 \<Rightarrow> string" where "O_FUNDING W = fixturePubkey W ''oracle-funding''"

definition O_FUNDED :: "web3 \<Rightarrow> string" where "O_FUNDED W = fixturePubkey W ''oracle-funded''"

definition O_ACTIVE :: "web3 \<Rightarrow> string" where "O_ACTIVE W = fixturePubkey W ''oracle-active''"

definition O_RESOLVED :: "web3 \<Rightarrow> string" where "O_RESOLVED W = fixturePubkey W ''oracle-resolved''"

definition O_RESOLVED_NO :: "web3 \<Rightarrow> string" where "O_RESOLVED_NO W = fixturePubkey W ''oracle-resolved-no''"

definition O_VOID :: "web3 \<Rightarrow> string" where "O_VOID W = fixturePubkey W ''oracle-void''"

definition O_CANCELLED :: "web3 \<Rightarrow> string" where "O_CANCELLED W = fixturePubkey W ''oracle-cancelled''"

definition O_CATEGORICAL :: "web3 \<Rightarrow> string" where "O_CATEGORICAL W = fixturePubkey W ''oracle-categorical''"

definition O_CATEGORICAL_FUNDING :: "web3 \<Rightarrow> string" where "O_CATEGORICAL_FUNDING W = fixturePubkey W ''oracle-categorical-funding''"

definition O_CATEGORICAL_FUNDED :: "web3 \<Rightarrow> string" where "O_CATEGORICAL_FUNDED W = fixturePubkey W ''oracle-categorical-funded''"

definition O_CATEGORICAL_ACTIVE :: "web3 \<Rightarrow> string" where "O_CATEGORICAL_ACTIVE W = fixturePubkey W ''oracle-categorical-active''"

definition O_CATEGORICAL_VOID :: "web3 \<Rightarrow> string" where "O_CATEGORICAL_VOID W = fixturePubkey W ''oracle-categorical-void''"

definition O_CATEGORICAL_CANCELLED :: "web3 \<Rightarrow> string" where "O_CATEGORICAL_CANCELLED W = fixturePubkey W ''oracle-categorical-cancelled''"

definition O_CAT9_FUNDING :: "web3 \<Rightarrow> string" where "O_CAT9_FUNDING W = fixturePubkey W ''oracle-cat9-funding''"

definition O_CAT9_RESOLVED :: "web3 \<Rightarrow> string" where "O_CAT9_RESOLVED W = fixturePubkey W ''oracle-cat9-resolved''"

definition oracleDto :: "int \<Rightarrow> int \<Rightarrow> int \<Rightarrow> OracleDto" where
  "oracleDto n p r = \<lparr>dx_optionsCount = n, dx_phase = p, dx_resolvedOption = r\<rparr>"

text \<open>The object literal: a later entry for a key would win.\<close>

definition ORACLES :: "web3 \<Rightarrow> string \<Rightarrow> OracleDto option" where
  "ORACLES W = Map.empty(
     O_FUNDING W \<mapsto> oracleDto 2 1 0,
     O_FUNDED W \<mapsto> oracleDto 2 1 0,
     O_ACTIVE W \<mapsto> oracleDto 2 3 0,
     O_RESOLVED W \<mapsto> oracleDto 2 7 0,
     O_RESOLVED_NO W \<mapsto> oracleDto 2 7 1,
     O_VOID W \<mapsto> oracleDto 2 8 255,
     O_CANCELLED W \<mapsto> oracleDto 2 8 255,
     O_CATEGORICAL W \<mapsto> oracleDto 3 7 2,
     O_CATEGORICAL_FUNDING W \<mapsto> oracleDto 3 1 0,
     O_CATEGORICAL_FUNDED W \<mapsto> oracleDto 3 1 0,
     O_CATEGORICAL_ACTIVE W \<mapsto> oracleDto 3 3 0,
     O_CATEGORICAL_VOID W \<mapsto> oracleDto 3 8 255,
     O_CATEGORICAL_CANCELLED W \<mapsto> oracleDto 3 8 255,
     O_CAT9_FUNDING W \<mapsto> oracleDto 9 1 0,
     O_CAT9_RESOLVED W \<mapsto> oracleDto 9 7 4)"

subsection \<open>Markets and contributions\<close>

record MarketFixture =
  mf_dto :: MarketDto
  mf_oracle :: "OracleDto option"
  mf_reserves :: "ReservesDto option"
  mf_contributions :: "ContributionDto list"

text \<open>\<open>over\<close> is the update with the optional fields of the argument, which win over the defaults.\<close>

definition makeMarket ::
  "web3 \<Rightarrow> string \<Rightarrow> string \<Rightarrow> string \<Rightarrow> int \<Rightarrow> string \<Rightarrow> (MarketDto \<Rightarrow> MarketDto) \<Rightarrow> MarketDto" where
  "makeMarket W label address orc status slabel over = over
     \<lparr>dm_address = address, dm_status = status, dm_statusLabel = slabel, dm_oracle = orc,
      dm_creator = fixturePubkey W (label @ ''-creator''), dm_baseMint = BASE_MINT W,
      dm_escrowVault = fixturePubkey W (label @ ''-escrow''), dm_minLiquidity = solAmt 500000,
      dm_totalContributed = solAmt 0, dm_openContributions = 1, dm_bump = 253, dm_escrowBump = 252,
      dm_outcomeIndex = 0, dm_feeBps = 250, dm_feeCollected = 0, dm_settled = 0,
      dm_question = ZERO, dm_vault = ZERO, dm_yesMint = ZERO, dm_noMint = ZERO, dm_amm = ZERO,
      dm_lpMint = ZERO, dm_lpVault = ZERO, dm_lpTotal = solAmt 0, dm_activationLp = solAmt 0,
      dm_activationContributed = solAmt 0, dm_grossLpTotal = solAmt 0, dm_slot = ''1000''\<rparr>"

definition makeContribution ::
  "web3 \<Rightarrow> string \<Rightarrow> string \<Rightarrow> int \<Rightarrow> bool option \<Rightarrow> int option \<Rightarrow> string option \<Rightarrow> ContributionDto" where
  "makeContribution W market label amountWhole claimed lateLpWhole slot =
     \<lparr>dc_market = market, dc_contributor = fixturePubkey W (label @ ''-contributor''),
      dc_amount = solAmt amountWhole, dc_claimed = orElse claimed False, dc_bump = 254,
      dc_lateLp = solAmt (orElse lateLpWhole 0), dc_slot = Some (orElse slot ''1000'')\<rparr>"


definition MKT_FUNDING :: "web3 \<Rightarrow> string" where "MKT_FUNDING W = fixturePubkey W ''market-funding-binary''"

definition MKT_FUNDED :: "web3 \<Rightarrow> string" where "MKT_FUNDED W = fixturePubkey W ''market-funded-binary''"

definition MKT_ACTIVE :: "web3 \<Rightarrow> string" where "MKT_ACTIVE W = fixturePubkey W ''market-active-binary''"

definition MKT_RESOLVED :: "web3 \<Rightarrow> string" where "MKT_RESOLVED W = fixturePubkey W ''market-resolved-binary''"

definition MKT_VOID :: "web3 \<Rightarrow> string" where "MKT_VOID W = fixturePubkey W ''market-void-binary''"

definition MKT_CANCELLED :: "web3 \<Rightarrow> string" where "MKT_CANCELLED W = fixturePubkey W ''market-cancelled-binary''"

definition MKT_CAT_0 :: "web3 \<Rightarrow> string" where "MKT_CAT_0 W = fixturePubkey W ''market-categorical-outcome-0''"

definition MKT_CAT_1 :: "web3 \<Rightarrow> string" where "MKT_CAT_1 W = fixturePubkey W ''market-categorical-outcome-1''"

definition MKT_CAT_2 :: "web3 \<Rightarrow> string" where "MKT_CAT_2 W = fixturePubkey W ''market-categorical-outcome-2''"

definition MKT_CAT_FUNDING_0 :: "web3 \<Rightarrow> string" where "MKT_CAT_FUNDING_0 W = fixturePubkey W ''market-categorical-funding-outcome-0''"

definition MKT_CAT_FUNDING_1 :: "web3 \<Rightarrow> string" where "MKT_CAT_FUNDING_1 W = fixturePubkey W ''market-categorical-funding-outcome-1''"

definition MKT_CAT_FUNDING_2 :: "web3 \<Rightarrow> string" where "MKT_CAT_FUNDING_2 W = fixturePubkey W ''market-categorical-funding-outcome-2''"

definition MKT_RESOLVED_NO :: "web3 \<Rightarrow> string" where "MKT_RESOLVED_NO W = fixturePubkey W ''market-resolved-no-binary''"

definition MKT_CAT_FUNDED_0 :: "web3 \<Rightarrow> string" where "MKT_CAT_FUNDED_0 W = fixturePubkey W ''market-categorical-funded-outcome-0''"

definition MKT_CAT_FUNDED_1 :: "web3 \<Rightarrow> string" where "MKT_CAT_FUNDED_1 W = fixturePubkey W ''market-categorical-funded-outcome-1''"

definition MKT_CAT_FUNDED_2 :: "web3 \<Rightarrow> string" where "MKT_CAT_FUNDED_2 W = fixturePubkey W ''market-categorical-funded-outcome-2''"

definition MKT_CAT_ACTIVE_0 :: "web3 \<Rightarrow> string" where "MKT_CAT_ACTIVE_0 W = fixturePubkey W ''market-categorical-active-outcome-0''"

definition MKT_CAT_ACTIVE_1 :: "web3 \<Rightarrow> string" where "MKT_CAT_ACTIVE_1 W = fixturePubkey W ''market-categorical-active-outcome-1''"

definition MKT_CAT_ACTIVE_2 :: "web3 \<Rightarrow> string" where "MKT_CAT_ACTIVE_2 W = fixturePubkey W ''market-categorical-active-outcome-2''"

definition MKT_CAT_VOID_0 :: "web3 \<Rightarrow> string" where "MKT_CAT_VOID_0 W = fixturePubkey W ''market-categorical-void-outcome-0''"

definition MKT_CAT_VOID_1 :: "web3 \<Rightarrow> string" where "MKT_CAT_VOID_1 W = fixturePubkey W ''market-categorical-void-outcome-1''"

definition MKT_CAT_VOID_2 :: "web3 \<Rightarrow> string" where "MKT_CAT_VOID_2 W = fixturePubkey W ''market-categorical-void-outcome-2''"

definition MKT_CAT_CANCELLED_0 :: "web3 \<Rightarrow> string" where "MKT_CAT_CANCELLED_0 W = fixturePubkey W ''market-categorical-cancelled-outcome-0''"

definition MKT_CAT_CANCELLED_1 :: "web3 \<Rightarrow> string" where "MKT_CAT_CANCELLED_1 W = fixturePubkey W ''market-categorical-cancelled-outcome-1''"

definition MKT_CAT_CANCELLED_2 :: "web3 \<Rightarrow> string" where "MKT_CAT_CANCELLED_2 W = fixturePubkey W ''market-categorical-cancelled-outcome-2''"

subsection \<open>The fixtures\<close>

definition fixture_funding :: "web3 \<Rightarrow> MarketFixture" where
  "fixture_funding W =
     \<lparr>mf_dto = makeMarket W ''funding'' (MKT_FUNDING W) (O_FUNDING W) 0 ''Funding''
        (\<lambda>d. d\<lparr>dm_totalContributed := solAmt 235000, dm_openContributions := 2, dm_slot := ''1001''\<rparr>),
      mf_oracle = ORACLES W (O_FUNDING W), mf_reserves = None,
      mf_contributions = [makeContribution W (MKT_FUNDING W) ''funding-a'' 150000 None None (Some ''1001''),
        makeContribution W (MKT_FUNDING W) ''funding-b'' 85000 None None (Some ''1000'')]\<rparr>"

definition fixture_funded :: "web3 \<Rightarrow> MarketFixture" where
  "fixture_funded W =
     \<lparr>mf_dto = makeMarket W ''funded'' (MKT_FUNDED W) (O_FUNDED W) 0 ''Funding''
        (\<lambda>d. d\<lparr>dm_totalContributed := solAmt 650000, dm_openContributions := 2, dm_slot := ''1003''\<rparr>),
      mf_oracle = ORACLES W (O_FUNDED W), mf_reserves = None,
      mf_contributions = [makeContribution W (MKT_FUNDED W) ''funded-a'' 400000 None None (Some ''1003''),
        makeContribution W (MKT_FUNDED W) ''funded-b'' 250000 None None (Some ''1002'')]\<rparr>"

definition fixture_active :: "web3 \<Rightarrow> MarketFixture" where
  "fixture_active W =
     \<lparr>mf_dto = makeMarket W ''active'' (MKT_ACTIVE W) (O_ACTIVE W) 1 ''Active''
        (\<lambda>d. d\<lparr>dm_totalContributed := solAmt 620000, dm_openContributions := 2,
          dm_question := fixturePubkey W ''active-question'',
          dm_vault := fixturePubkey W ''active-vault'',
          dm_yesMint := fixturePubkey W ''active-yes-mint'',
          dm_noMint := fixturePubkey W ''active-no-mint'',
          dm_amm := fixturePubkey W ''active-amm'',
          dm_lpMint := fixturePubkey W ''active-lp-mint'',
          dm_lpVault := fixturePubkey W ''active-lp-vault'', dm_lpTotal := solAmt 640000,
          dm_activationLp := solAmt 620000, dm_activationContributed := solAmt 620000,
          dm_grossLpTotal := solAmt 640000, dm_slot := ''1010''\<rparr>),
      mf_oracle = ORACLES W (O_ACTIVE W), mf_reserves = Some \<lparr>dr_base = solAmt 600000, dr_quote = solAmt 400000\<rparr>,
      mf_contributions = [makeContribution W (MKT_ACTIVE W) ''active-a'' 420000 None None (Some ''1005''),
        makeContribution W (MKT_ACTIVE W) ''active-b'' 200000 None (Some 20000) (Some ''1010'')]\<rparr>"

definition fixture_resolved :: "web3 \<Rightarrow> MarketFixture" where
  "fixture_resolved W =
     \<lparr>mf_dto = makeMarket W ''resolved'' (MKT_RESOLVED W) (O_RESOLVED W) 2 ''Resolved''
        (\<lambda>d. d\<lparr>dm_totalContributed := solAmt 500000, dm_openContributions := 1, dm_feeCollected := 1,
          dm_settled := 1, dm_question := fixturePubkey W ''resolved-question'',
          dm_vault := fixturePubkey W ''resolved-vault'',
          dm_yesMint := fixturePubkey W ''resolved-yes-mint'',
          dm_noMint := fixturePubkey W ''resolved-no-mint'',
          dm_amm := fixturePubkey W ''resolved-amm'',
          dm_lpMint := fixturePubkey W ''resolved-lp-mint'',
          dm_lpVault := fixturePubkey W ''resolved-lp-vault'', dm_lpTotal := solAmt 500000,
          dm_activationLp := solAmt 500000, dm_activationContributed := solAmt 500000,
          dm_grossLpTotal := solAmt 500000, dm_slot := ''1020''\<rparr>),
      mf_oracle = ORACLES W (O_RESOLVED W), mf_reserves = None,
      mf_contributions = [makeContribution W (MKT_RESOLVED W) ''resolved-a'' 300000 (Some True) None (Some ''1015''),
        makeContribution W (MKT_RESOLVED W) ''resolved-b'' 200000 (Some False) None (Some ''1020'')]\<rparr>"

definition fixture_resolved_no :: "web3 \<Rightarrow> MarketFixture" where
  "fixture_resolved_no W =
     \<lparr>mf_dto = makeMarket W ''resolved-no'' (MKT_RESOLVED_NO W) (O_RESOLVED_NO W) 2 ''Resolved''
        (\<lambda>d. d\<lparr>dm_totalContributed := solAmt 540000, dm_openContributions := 1, dm_feeCollected := 1,
          dm_settled := 1, dm_question := fixturePubkey W ''resolved-no-question'',
          dm_vault := fixturePubkey W ''resolved-no-vault'',
          dm_yesMint := fixturePubkey W ''resolved-no-yes-mint'',
          dm_noMint := fixturePubkey W ''resolved-no-no-mint'',
          dm_amm := fixturePubkey W ''resolved-no-amm'',
          dm_lpMint := fixturePubkey W ''resolved-no-lp-mint'',
          dm_lpVault := fixturePubkey W ''resolved-no-lp-vault'', dm_lpTotal := solAmt 540000,
          dm_activationLp := solAmt 540000, dm_activationContributed := solAmt 540000,
          dm_grossLpTotal := solAmt 540000, dm_slot := ''1021''\<rparr>),
      mf_oracle = ORACLES W (O_RESOLVED_NO W), mf_reserves = None,
      mf_contributions = [makeContribution W (MKT_RESOLVED_NO W) ''resolved-no-a'' 340000 (Some False) None (Some ''1016''),
        makeContribution W (MKT_RESOLVED_NO W) ''resolved-no-b'' 200000 (Some True) None (Some ''1021'')]\<rparr>"

definition fixture_void :: "web3 \<Rightarrow> MarketFixture" where
  "fixture_void W =
     \<lparr>mf_dto = makeMarket W ''void'' (MKT_VOID W) (O_VOID W) 3 ''Void''
        (\<lambda>d. d\<lparr>dm_totalContributed := solAmt 480000, dm_openContributions := 1, dm_feeBps := 0,
          dm_feeCollected := 1, dm_settled := 1, dm_question := fixturePubkey W ''void-question'',
          dm_vault := fixturePubkey W ''void-vault'',
          dm_yesMint := fixturePubkey W ''void-yes-mint'',
          dm_noMint := fixturePubkey W ''void-no-mint'', dm_amm := fixturePubkey W ''void-amm'',
          dm_lpMint := fixturePubkey W ''void-lp-mint'',
          dm_lpVault := fixturePubkey W ''void-lp-vault'', dm_lpTotal := solAmt 480000,
          dm_activationLp := solAmt 480000, dm_activationContributed := solAmt 480000,
          dm_grossLpTotal := solAmt 480000, dm_slot := ''1030''\<rparr>),
      mf_oracle = ORACLES W (O_VOID W), mf_reserves = None,
      mf_contributions = [makeContribution W (MKT_VOID W) ''void-a'' 480000 (Some False) None (Some ''1025'')]\<rparr>"

definition fixture_cancelled :: "web3 \<Rightarrow> MarketFixture" where
  "fixture_cancelled W =
     \<lparr>mf_dto = makeMarket W ''cancelled'' (MKT_CANCELLED W) (O_CANCELLED W) 4 ''Cancelled''
        (\<lambda>d. d\<lparr>dm_totalContributed := solAmt 150000, dm_openContributions := 2, dm_slot := ''1004''\<rparr>),
      mf_oracle = ORACLES W (O_CANCELLED W), mf_reserves = None,
      mf_contributions = [makeContribution W (MKT_CANCELLED W) ''cancelled-a'' 100000 (Some False) None (Some ''1002''),
        makeContribution W (MKT_CANCELLED W) ''cancelled-b'' 50000 (Some True) None (Some ''1004'')]\<rparr>"

definition fixture_cat0 :: "web3 \<Rightarrow> MarketFixture" where
  "fixture_cat0 W =
     \<lparr>mf_dto = makeMarket W ''cat0'' (MKT_CAT_0 W) (O_CATEGORICAL W) 2 ''Resolved''
        (\<lambda>d. d\<lparr>dm_outcomeIndex := 0, dm_totalContributed := solAmt 300000, dm_openContributions := 1,
          dm_feeCollected := 1, dm_settled := 1, dm_question := fixturePubkey W ''cat0-question'',
          dm_vault := fixturePubkey W ''cat0-vault'',
          dm_yesMint := fixturePubkey W ''cat0-yes-mint'',
          dm_noMint := fixturePubkey W ''cat0-no-mint'', dm_amm := fixturePubkey W ''cat0-amm'',
          dm_lpMint := fixturePubkey W ''cat0-lp-mint'',
          dm_lpVault := fixturePubkey W ''cat0-lp-vault'', dm_lpTotal := solAmt 300000,
          dm_activationLp := solAmt 300000, dm_activationContributed := solAmt 300000,
          dm_grossLpTotal := solAmt 300000, dm_slot := ''1040''\<rparr>),
      mf_oracle = ORACLES W (O_CATEGORICAL W), mf_reserves = None,
      mf_contributions = [makeContribution W (MKT_CAT_0 W) ''cat0-a'' 300000 (Some True) None (Some ''1035'')]\<rparr>"

definition fixture_cat1 :: "web3 \<Rightarrow> MarketFixture" where
  "fixture_cat1 W =
     \<lparr>mf_dto = makeMarket W ''cat1'' (MKT_CAT_1 W) (O_CATEGORICAL W) 1 ''Active''
        (\<lambda>d. d\<lparr>dm_outcomeIndex := 1, dm_totalContributed := solAmt 250000, dm_openContributions := 1,
          dm_question := fixturePubkey W ''cat1-question'',
          dm_vault := fixturePubkey W ''cat1-vault'',
          dm_yesMint := fixturePubkey W ''cat1-yes-mint'',
          dm_noMint := fixturePubkey W ''cat1-no-mint'', dm_amm := fixturePubkey W ''cat1-amm'',
          dm_lpMint := fixturePubkey W ''cat1-lp-mint'',
          dm_lpVault := fixturePubkey W ''cat1-lp-vault'', dm_lpTotal := solAmt 250000,
          dm_activationLp := solAmt 250000, dm_activationContributed := solAmt 250000,
          dm_grossLpTotal := solAmt 250000, dm_slot := ''1036''\<rparr>),
      mf_oracle = ORACLES W (O_CATEGORICAL W), mf_reserves = Some \<lparr>dr_base = solAmt 350000, dr_quote = solAmt 150000\<rparr>,
      mf_contributions = [makeContribution W (MKT_CAT_1 W) ''cat1-a'' 250000 None None (Some ''1033'')]\<rparr>"

definition fixture_cat2 :: "web3 \<Rightarrow> MarketFixture" where
  "fixture_cat2 W =
     \<lparr>mf_dto = makeMarket W ''cat2'' (MKT_CAT_2 W) (O_CATEGORICAL W) 2 ''Resolved''
        (\<lambda>d. d\<lparr>dm_outcomeIndex := 2, dm_totalContributed := solAmt 200000, dm_openContributions := 1,
          dm_feeCollected := 1, dm_settled := 1, dm_question := fixturePubkey W ''cat2-question'',
          dm_vault := fixturePubkey W ''cat2-vault'',
          dm_yesMint := fixturePubkey W ''cat2-yes-mint'',
          dm_noMint := fixturePubkey W ''cat2-no-mint'', dm_amm := fixturePubkey W ''cat2-amm'',
          dm_lpMint := fixturePubkey W ''cat2-lp-mint'',
          dm_lpVault := fixturePubkey W ''cat2-lp-vault'', dm_lpTotal := solAmt 200000,
          dm_activationLp := solAmt 200000, dm_activationContributed := solAmt 200000,
          dm_grossLpTotal := solAmt 200000, dm_slot := ''1041''\<rparr>),
      mf_oracle = ORACLES W (O_CATEGORICAL W), mf_reserves = None,
      mf_contributions = [makeContribution W (MKT_CAT_2 W) ''cat2-a'' 200000 (Some False) None (Some ''1038'')]\<rparr>"

definition fixture_cat_funding_0 :: "web3 \<Rightarrow> MarketFixture" where
  "fixture_cat_funding_0 W =
     \<lparr>mf_dto = makeMarket W ''cat-funding-0'' (MKT_CAT_FUNDING_0 W) (O_CATEGORICAL_FUNDING W) 0 ''Funding''
        (\<lambda>d. d\<lparr>dm_outcomeIndex := 0, dm_totalContributed := solAmt 5000, dm_openContributions := 1,
          dm_slot := ''1050''\<rparr>),
      mf_oracle = ORACLES W (O_CATEGORICAL_FUNDING W), mf_reserves = None,
      mf_contributions = [makeContribution W (MKT_CAT_FUNDING_0 W) ''cat-funding-0-a'' 5000 None None (Some ''1050'')]\<rparr>"

definition fixture_cat_funding_1 :: "web3 \<Rightarrow> MarketFixture" where
  "fixture_cat_funding_1 W =
     \<lparr>mf_dto = makeMarket W ''cat-funding-1'' (MKT_CAT_FUNDING_1 W) (O_CATEGORICAL_FUNDING W) 0 ''Funding''
        (\<lambda>d. d\<lparr>dm_outcomeIndex := 1, dm_totalContributed := solAmt 80000, dm_openContributions := 1,
          dm_slot := ''1051''\<rparr>),
      mf_oracle = ORACLES W (O_CATEGORICAL_FUNDING W), mf_reserves = None,
      mf_contributions = [makeContribution W (MKT_CAT_FUNDING_1 W) ''cat-funding-1-a'' 80000 None None (Some ''1051'')]\<rparr>"

definition fixture_cat_funding_2 :: "web3 \<Rightarrow> MarketFixture" where
  "fixture_cat_funding_2 W =
     \<lparr>mf_dto = makeMarket W ''cat-funding-2'' (MKT_CAT_FUNDING_2 W) (O_CATEGORICAL_FUNDING W) 0 ''Funding''
        (\<lambda>d. d\<lparr>dm_outcomeIndex := 2, dm_totalContributed := solAmt 120000, dm_openContributions := 1,
          dm_slot := ''1052''\<rparr>),
      mf_oracle = ORACLES W (O_CATEGORICAL_FUNDING W), mf_reserves = None,
      mf_contributions = [makeContribution W (MKT_CAT_FUNDING_2 W) ''cat-funding-2-a'' 120000 None None (Some ''1052'')]\<rparr>"

definition fixture_cat_funded_0 :: "web3 \<Rightarrow> MarketFixture" where
  "fixture_cat_funded_0 W =
     \<lparr>mf_dto = makeMarket W ''cat-funded-0'' (MKT_CAT_FUNDED_0 W) (O_CATEGORICAL_FUNDED W) 0 ''Funding''
        (\<lambda>d. d\<lparr>dm_outcomeIndex := 0, dm_totalContributed := solAmt 560000, dm_openContributions := 1,
          dm_slot := ''1060''\<rparr>),
      mf_oracle = ORACLES W (O_CATEGORICAL_FUNDED W), mf_reserves = None,
      mf_contributions = [makeContribution W (MKT_CAT_FUNDED_0 W) ''cat-funded-0-a'' 560000 None None (Some ''1060'')]\<rparr>"

definition fixture_cat_funded_1 :: "web3 \<Rightarrow> MarketFixture" where
  "fixture_cat_funded_1 W =
     \<lparr>mf_dto = makeMarket W ''cat-funded-1'' (MKT_CAT_FUNDED_1 W) (O_CATEGORICAL_FUNDED W) 0 ''Funding''
        (\<lambda>d. d\<lparr>dm_outcomeIndex := 1, dm_totalContributed := solAmt 510000, dm_openContributions := 1,
          dm_slot := ''1061''\<rparr>),
      mf_oracle = ORACLES W (O_CATEGORICAL_FUNDED W), mf_reserves = None,
      mf_contributions = [makeContribution W (MKT_CAT_FUNDED_1 W) ''cat-funded-1-a'' 510000 None None (Some ''1061'')]\<rparr>"

definition fixture_cat_funded_2 :: "web3 \<Rightarrow> MarketFixture" where
  "fixture_cat_funded_2 W =
     \<lparr>mf_dto = makeMarket W ''cat-funded-2'' (MKT_CAT_FUNDED_2 W) (O_CATEGORICAL_FUNDED W) 0 ''Funding''
        (\<lambda>d. d\<lparr>dm_outcomeIndex := 2, dm_totalContributed := solAmt 700000, dm_openContributions := 1,
          dm_slot := ''1062''\<rparr>),
      mf_oracle = ORACLES W (O_CATEGORICAL_FUNDED W), mf_reserves = None,
      mf_contributions = [makeContribution W (MKT_CAT_FUNDED_2 W) ''cat-funded-2-a'' 700000 None None (Some ''1062'')]\<rparr>"

definition fixture_cat_active_0 :: "web3 \<Rightarrow> MarketFixture" where
  "fixture_cat_active_0 W =
     \<lparr>mf_dto = makeMarket W ''cat-active-0'' (MKT_CAT_ACTIVE_0 W) (O_CATEGORICAL_ACTIVE W) 1 ''Active''
        (\<lambda>d. d\<lparr>dm_outcomeIndex := 0, dm_totalContributed := solAmt 520000, dm_openContributions := 1,
          dm_question := fixturePubkey W ''cat-active-0-question'',
          dm_vault := fixturePubkey W ''cat-active-0-vault'',
          dm_yesMint := fixturePubkey W ''cat-active-0-yes-mint'',
          dm_noMint := fixturePubkey W ''cat-active-0-no-mint'',
          dm_amm := fixturePubkey W ''cat-active-0-amm'',
          dm_lpMint := fixturePubkey W ''cat-active-0-lp-mint'',
          dm_lpVault := fixturePubkey W ''cat-active-0-lp-vault'', dm_lpTotal := solAmt 520000,
          dm_activationLp := solAmt 520000, dm_activationContributed := solAmt 520000,
          dm_grossLpTotal := solAmt 520000, dm_slot := ''1070''\<rparr>),
      mf_oracle = ORACLES W (O_CATEGORICAL_ACTIVE W), mf_reserves = Some \<lparr>dr_base = solAmt 300000, dr_quote = solAmt 220000\<rparr>,
      mf_contributions = [makeContribution W (MKT_CAT_ACTIVE_0 W) ''cat-active-0-a'' 520000 None None (Some ''1070'')]\<rparr>"

definition fixture_cat_active_1 :: "web3 \<Rightarrow> MarketFixture" where
  "fixture_cat_active_1 W =
     \<lparr>mf_dto = makeMarket W ''cat-active-1'' (MKT_CAT_ACTIVE_1 W) (O_CATEGORICAL_ACTIVE W) 1 ''Active''
        (\<lambda>d. d\<lparr>dm_outcomeIndex := 1, dm_totalContributed := solAmt 500000, dm_openContributions := 1,
          dm_question := fixturePubkey W ''cat-active-1-question'',
          dm_vault := fixturePubkey W ''cat-active-1-vault'',
          dm_yesMint := fixturePubkey W ''cat-active-1-yes-mint'',
          dm_noMint := fixturePubkey W ''cat-active-1-no-mint'',
          dm_amm := fixturePubkey W ''cat-active-1-amm'',
          dm_lpMint := fixturePubkey W ''cat-active-1-lp-mint'',
          dm_lpVault := fixturePubkey W ''cat-active-1-lp-vault'', dm_lpTotal := solAmt 500000,
          dm_activationLp := solAmt 500000, dm_activationContributed := solAmt 500000,
          dm_grossLpTotal := solAmt 500000, dm_slot := ''1071''\<rparr>),
      mf_oracle = ORACLES W (O_CATEGORICAL_ACTIVE W), mf_reserves = Some \<lparr>dr_base = solAmt 180000, dr_quote = solAmt 320000\<rparr>,
      mf_contributions = [makeContribution W (MKT_CAT_ACTIVE_1 W) ''cat-active-1-a'' 500000 None None (Some ''1071'')]\<rparr>"

definition fixture_cat_active_2 :: "web3 \<Rightarrow> MarketFixture" where
  "fixture_cat_active_2 W =
     \<lparr>mf_dto = makeMarket W ''cat-active-2'' (MKT_CAT_ACTIVE_2 W) (O_CATEGORICAL_ACTIVE W) 1 ''Active''
        (\<lambda>d. d\<lparr>dm_outcomeIndex := 2, dm_totalContributed := solAmt 540000, dm_openContributions := 1,
          dm_question := fixturePubkey W ''cat-active-2-question'',
          dm_vault := fixturePubkey W ''cat-active-2-vault'',
          dm_yesMint := fixturePubkey W ''cat-active-2-yes-mint'',
          dm_noMint := fixturePubkey W ''cat-active-2-no-mint'',
          dm_amm := fixturePubkey W ''cat-active-2-amm'',
          dm_lpMint := fixturePubkey W ''cat-active-2-lp-mint'',
          dm_lpVault := fixturePubkey W ''cat-active-2-lp-vault'', dm_lpTotal := solAmt 540000,
          dm_activationLp := solAmt 540000, dm_activationContributed := solAmt 540000,
          dm_grossLpTotal := solAmt 540000, dm_slot := ''1072''\<rparr>),
      mf_oracle = ORACLES W (O_CATEGORICAL_ACTIVE W), mf_reserves = Some \<lparr>dr_base = solAmt 260000, dr_quote = solAmt 280000\<rparr>,
      mf_contributions = [makeContribution W (MKT_CAT_ACTIVE_2 W) ''cat-active-2-a'' 540000 None None (Some ''1072'')]\<rparr>"

definition fixture_cat_void_0 :: "web3 \<Rightarrow> MarketFixture" where
  "fixture_cat_void_0 W =
     \<lparr>mf_dto = makeMarket W ''cat-void-0'' (MKT_CAT_VOID_0 W) (O_CATEGORICAL_VOID W) 3 ''Void''
        (\<lambda>d. d\<lparr>dm_outcomeIndex := 0, dm_totalContributed := solAmt 510000, dm_openContributions := 1,
          dm_feeBps := 0, dm_feeCollected := 1, dm_settled := 1,
          dm_question := fixturePubkey W ''cat-void-0-question'',
          dm_vault := fixturePubkey W ''cat-void-0-vault'',
          dm_yesMint := fixturePubkey W ''cat-void-0-yes-mint'',
          dm_noMint := fixturePubkey W ''cat-void-0-no-mint'',
          dm_amm := fixturePubkey W ''cat-void-0-amm'',
          dm_lpMint := fixturePubkey W ''cat-void-0-lp-mint'',
          dm_lpVault := fixturePubkey W ''cat-void-0-lp-vault'', dm_lpTotal := solAmt 510000,
          dm_activationLp := solAmt 510000, dm_activationContributed := solAmt 510000,
          dm_grossLpTotal := solAmt 510000, dm_slot := ''1080''\<rparr>),
      mf_oracle = ORACLES W (O_CATEGORICAL_VOID W), mf_reserves = None,
      mf_contributions = [makeContribution W (MKT_CAT_VOID_0 W) ''cat-void-0-a'' 510000 None None (Some ''1075'')]\<rparr>"

definition fixture_cat_void_1 :: "web3 \<Rightarrow> MarketFixture" where
  "fixture_cat_void_1 W =
     \<lparr>mf_dto = makeMarket W ''cat-void-1'' (MKT_CAT_VOID_1 W) (O_CATEGORICAL_VOID W) 3 ''Void''
        (\<lambda>d. d\<lparr>dm_outcomeIndex := 1, dm_totalContributed := solAmt 505000, dm_openContributions := 1,
          dm_feeBps := 0, dm_feeCollected := 1, dm_settled := 1,
          dm_question := fixturePubkey W ''cat-void-1-question'',
          dm_vault := fixturePubkey W ''cat-void-1-vault'',
          dm_yesMint := fixturePubkey W ''cat-void-1-yes-mint'',
          dm_noMint := fixturePubkey W ''cat-void-1-no-mint'',
          dm_amm := fixturePubkey W ''cat-void-1-amm'',
          dm_lpMint := fixturePubkey W ''cat-void-1-lp-mint'',
          dm_lpVault := fixturePubkey W ''cat-void-1-lp-vault'', dm_lpTotal := solAmt 505000,
          dm_activationLp := solAmt 505000, dm_activationContributed := solAmt 505000,
          dm_grossLpTotal := solAmt 505000, dm_slot := ''1081''\<rparr>),
      mf_oracle = ORACLES W (O_CATEGORICAL_VOID W), mf_reserves = None,
      mf_contributions = [makeContribution W (MKT_CAT_VOID_1 W) ''cat-void-1-a'' 505000 None None (Some ''1076'')]\<rparr>"

definition fixture_cat_void_2 :: "web3 \<Rightarrow> MarketFixture" where
  "fixture_cat_void_2 W =
     \<lparr>mf_dto = makeMarket W ''cat-void-2'' (MKT_CAT_VOID_2 W) (O_CATEGORICAL_VOID W) 3 ''Void''
        (\<lambda>d. d\<lparr>dm_outcomeIndex := 2, dm_totalContributed := solAmt 515000, dm_openContributions := 1,
          dm_feeBps := 0, dm_feeCollected := 1, dm_settled := 1,
          dm_question := fixturePubkey W ''cat-void-2-question'',
          dm_vault := fixturePubkey W ''cat-void-2-vault'',
          dm_yesMint := fixturePubkey W ''cat-void-2-yes-mint'',
          dm_noMint := fixturePubkey W ''cat-void-2-no-mint'',
          dm_amm := fixturePubkey W ''cat-void-2-amm'',
          dm_lpMint := fixturePubkey W ''cat-void-2-lp-mint'',
          dm_lpVault := fixturePubkey W ''cat-void-2-lp-vault'', dm_lpTotal := solAmt 515000,
          dm_activationLp := solAmt 515000, dm_activationContributed := solAmt 515000,
          dm_grossLpTotal := solAmt 515000, dm_slot := ''1082''\<rparr>),
      mf_oracle = ORACLES W (O_CATEGORICAL_VOID W), mf_reserves = None,
      mf_contributions = [makeContribution W (MKT_CAT_VOID_2 W) ''cat-void-2-a'' 515000 None None (Some ''1077'')]\<rparr>"

definition fixture_cat_cancelled_0 :: "web3 \<Rightarrow> MarketFixture" where
  "fixture_cat_cancelled_0 W =
     \<lparr>mf_dto = makeMarket W ''cat-cancelled-0'' (MKT_CAT_CANCELLED_0 W) (O_CATEGORICAL_CANCELLED W) 4 ''Cancelled''
        (\<lambda>d. d\<lparr>dm_outcomeIndex := 0, dm_totalContributed := solAmt 60000, dm_openContributions := 1,
          dm_slot := ''1090''\<rparr>),
      mf_oracle = ORACLES W (O_CATEGORICAL_CANCELLED W), mf_reserves = None,
      mf_contributions = [makeContribution W (MKT_CAT_CANCELLED_0 W) ''cat-cancelled-0-a'' 60000 (Some False) None (Some ''1090'')]\<rparr>"

definition fixture_cat_cancelled_1 :: "web3 \<Rightarrow> MarketFixture" where
  "fixture_cat_cancelled_1 W =
     \<lparr>mf_dto = makeMarket W ''cat-cancelled-1'' (MKT_CAT_CANCELLED_1 W) (O_CATEGORICAL_CANCELLED W) 4 ''Cancelled''
        (\<lambda>d. d\<lparr>dm_outcomeIndex := 1, dm_totalContributed := solAmt 45000, dm_openContributions := 1,
          dm_slot := ''1091''\<rparr>),
      mf_oracle = ORACLES W (O_CATEGORICAL_CANCELLED W), mf_reserves = None,
      mf_contributions = [makeContribution W (MKT_CAT_CANCELLED_1 W) ''cat-cancelled-1-a'' 45000 (Some False) None (Some ''1091'')]\<rparr>"

definition fixture_cat_cancelled_2 :: "web3 \<Rightarrow> MarketFixture" where
  "fixture_cat_cancelled_2 W =
     \<lparr>mf_dto = makeMarket W ''cat-cancelled-2'' (MKT_CAT_CANCELLED_2 W) (O_CATEGORICAL_CANCELLED W) 4 ''Cancelled''
        (\<lambda>d. d\<lparr>dm_outcomeIndex := 2, dm_totalContributed := solAmt 70000, dm_openContributions := 1,
          dm_slot := ''1092''\<rparr>),
      mf_oracle = ORACLES W (O_CATEGORICAL_CANCELLED W), mf_reserves = None,
      mf_contributions = [makeContribution W (MKT_CAT_CANCELLED_2 W) ''cat-cancelled-2-a'' 70000 (Some True) None (Some ''1092'')]\<rparr>"

definition HAND_FIXTURES :: "web3 \<Rightarrow> MarketFixture list" where
  "HAND_FIXTURES W =
     [fixture_funding W, fixture_funded W, fixture_active W, fixture_resolved W,
      fixture_resolved_no W, fixture_void W, fixture_cancelled W, fixture_cat0 W,
      fixture_cat1 W, fixture_cat2 W, fixture_cat_funding_0 W, fixture_cat_funding_1 W,
      fixture_cat_funding_2 W, fixture_cat_funded_0 W, fixture_cat_funded_1 W,
      fixture_cat_funded_2 W, fixture_cat_active_0 W, fixture_cat_active_1 W,
      fixture_cat_active_2 W, fixture_cat_void_0 W, fixture_cat_void_1 W, fixture_cat_void_2 W,
      fixture_cat_cancelled_0 W, fixture_cat_cancelled_1 W, fixture_cat_cancelled_2 W]"

text \<open>The two groups of nine outcomes are generated.\<close>

definition cat9FundingFixture :: "web3 \<Rightarrow> int \<Rightarrow> MarketFixture" where
  "cat9FundingFixture W i =
     (let address = fixturePubkey W (''market-cat9-funding-outcome-'' @ show_int i);
          contributedWhole = 10000 + i * 40000; slot = show_int (1100 + i) in
      \<lparr>mf_dto = makeMarket W (''cat9-funding-'' @ show_int i) address (O_CAT9_FUNDING W) 0 ''Funding''
         (\<lambda>d. d\<lparr>dm_outcomeIndex := i, dm_totalContributed := solAmt contributedWhole,
            dm_openContributions := 1, dm_slot := slot\<rparr>),
       mf_oracle = ORACLES W (O_CAT9_FUNDING W), mf_reserves = None,
       mf_contributions = [makeContribution W address (''cat9-funding-'' @ show_int i @ ''-a'')
         contributedWhole None None (Some slot)]\<rparr>)"

definition makeCat9FundingFixtures :: "web3 \<Rightarrow> MarketFixture list" where
  "makeCat9FundingFixtures W = map (cat9FundingFixture W) [0..8]"

definition PENDING :: int where "PENDING = 7"

definition cat9ResolvedFixture :: "web3 \<Rightarrow> int \<Rightarrow> MarketFixture" where
  "cat9ResolvedFixture W i =
     (let address = fixturePubkey W (''market-cat9-resolved-outcome-'' @ show_int i);
          contributedWhole = 400000 + i * 15000; slot = show_int (1200 + i);
          pending = (i = PENDING); label = ''cat9-resolved-'' @ show_int i in
      \<lparr>mf_dto = makeMarket W label address (O_CAT9_RESOLVED W)
         (if pending then 1 else 2) (if pending then ''Active'' else ''Resolved'')
         (\<lambda>d. d\<lparr>dm_outcomeIndex := i, dm_totalContributed := solAmt contributedWhole,
            dm_openContributions := 1,
            dm_feeCollected := (if pending then 0 else 1), dm_settled := (if pending then 0 else 1),
            dm_question := fixturePubkey W (label @ ''-question''),
            dm_vault := fixturePubkey W (label @ ''-vault''),
            dm_yesMint := fixturePubkey W (label @ ''-yes-mint''),
            dm_noMint := fixturePubkey W (label @ ''-no-mint''),
            dm_amm := fixturePubkey W (label @ ''-amm''),
            dm_lpMint := fixturePubkey W (label @ ''-lp-mint''),
            dm_lpVault := fixturePubkey W (label @ ''-lp-vault''),
            dm_lpTotal := solAmt contributedWhole, dm_activationLp := solAmt contributedWhole,
            dm_activationContributed := solAmt contributedWhole,
            dm_grossLpTotal := solAmt contributedWhole, dm_slot := slot\<rparr>),
       mf_oracle = ORACLES W (O_CAT9_RESOLVED W),
       mf_reserves = (if pending then Some \<lparr>dr_base = solAmt 240000, dr_quote = solAmt 260000\<rparr> else None),
       mf_contributions = [makeContribution W address (label @ ''-a'') contributedWhole None None (Some slot)]\<rparr>)"

definition makeCat9ResolvedFixtures :: "web3 \<Rightarrow> MarketFixture list" where
  "makeCat9ResolvedFixtures W = map (cat9ResolvedFixture W) [0..8]"

definition FIXTURES :: "web3 \<Rightarrow> MarketFixture list" where
  "FIXTURES W = HAND_FIXTURES W @ makeCat9FundingFixtures W @ makeCat9ResolvedFixtures W"

text \<open>The \<open>Map\<close> of the fixtures by address: a later fixture would replace an earlier one.\<close>

definition BY_PUBKEY :: "web3 \<Rightarrow> string \<Rightarrow> MarketFixture option" where
  "BY_PUBKEY W = map_of (rev (map (\<lambda>f. (dm_address (mf_dto f), f)) (FIXTURES W)))"

definition MOCK_MARKET_PUBKEYS :: "web3 \<Rightarrow> string list" where
  "MOCK_MARKET_PUBKEYS W = map (\<lambda>f. dm_address (mf_dto f)) (FIXTURES W)"

definition mockMarketDtos :: "web3 \<Rightarrow> MarketDto list" where
  "mockMarketDtos W = map mf_dto (FIXTURES W)"

definition mockMarketDetailFor :: "web3 \<Rightarrow> string \<Rightarrow> MarketDetailDto option" where
  "mockMarketDetailFor W key =
     (case BY_PUBKEY W key of
        None \<Rightarrow> None
      | Some f \<Rightarrow> Some \<lparr>dd_market = mf_dto f, dd_contributions = mf_contributions f,
          dd_oracle = mf_oracle f, dd_reserves = mf_reserves f\<rparr>)"

subsection \<open>Candles\<close>

text \<open>One draw of \<open>mulberry32\<close>: the state of the closure and the number.\<close>

definition mulberry32 :: "32 word \<Rightarrow> 32 word \<times> jsnum" where
  "mulberry32 st =
     (let state = st + 0x6d2b79f5;
          t = (state XOR drop_bit 15 state) * (1 OR state);
          t = (t + (t XOR drop_bit 7 t) * (61 OR t)) XOR t
      in (state, ndiv (Number (uint (t XOR drop_bit 14 t))) (Number 4294967296)))"

definition CANDLE_EPOCH :: int where
  "CANDLE_EPOCH = 1700000000"

text \<open>One turn of the loop from the price and the generator's state.\<close>

definition candleStep :: "int \<Rightarrow> jsnum \<Rightarrow> 32 word \<Rightarrow> CandleDto \<times> 32 word" where
  "candleStep time price st =
     (let open' = price;
          (st, r1) = mulberry32 st;
          drift = nadd (nmul (nsub r1 (num (1/2))) (num (4/100)))
                       (nmul (nsub (num (1/2)) open') (num (2/100)));
          close = nmin (num (98/100)) (nmax (num (2/100)) (nadd open' drift));
          (st, r2) = mulberry32 st;
          wickUp = nmul r2 (num (1/100));
          (st, r3) = mulberry32 st;
          wickDown = nmul r3 (num (1/100));
          high = nmin (num (99/100)) (nadd (nmax open' close) wickUp);
          low = nmax (num (1/100)) (nsub (nmin open' close) wickDown)
      in (\<lparr>cd_time = time, cd_open = open', cd_high = high, cd_low = low, cd_close = close\<rparr>, st))"

fun candleLoop :: "nat \<Rightarrow> int \<Rightarrow> int \<Rightarrow> jsnum \<Rightarrow> 32 word \<Rightarrow> CandleDto list" where
  "candleLoop 0 time intervalSecs price st = []"
| "candleLoop (Suc n) time intervalSecs price st =
     (let (c, st') = candleStep time price st
      in c # candleLoop n (time + intervalSecs) intervalSecs (cd_close c) st')"

definition startBucketOf :: "int \<Rightarrow> int \<Rightarrow> int option \<Rightarrow> int" where
  "startBucketOf intervalSecs limit nowSecs =
     (let lastBucket = (case nowSecs of
            None \<Rightarrow> CANDLE_EPOCH + (limit - 1) * intervalSecs
          | Some now \<Rightarrow> now div intervalSecs * intervalSecs)
      in lastBucket - (limit - 1) * intervalSecs)"

definition mockCandlesFor :: "string \<Rightarrow> int \<Rightarrow> int \<Rightarrow> int option \<Rightarrow> CandleDto list" where
  "mockCandlesFor key intervalSecs limit nowSecs =
     candleLoop (nat limit) (startBucketOf intervalSecs limit nowSecs) intervalSecs (num (1/2))
       (fnv1a (key @ '':'' @ show_int intervalSecs))"

definition mockConfigDto :: "web3 \<Rightarrow> ConfigDto" where
  "mockConfigDto W =
     (let minLiquidity = solAmt 500000 in
      \<lparr>fg_address = fixturePubkey W ''config'', fg_authority = fixturePubkey W ''futarchy-authority'',
       fg_baseMint = BASE_MINT W, fg_minLiquidity = minLiquidity, fg_bump = 254, fg_feeBps = 250,
       fg_feeDestination = fixturePubkey W ''fee-destination'', fg_marketCreationEma = ''0'',
       fg_lastMarketCreationUnix = ''0'', fg_minLiquidityEmaThreshold = ''15000000000'',
       fg_minLiquidityEmaCap = ''1443000000000'', fg_minLiquidityMax = minLiquidity, fg_slot = ''999''\<rparr>)"

subsection \<open>MockIndexerClient\<close>

definition mockWriteError :: "'a res" where
  "mockWriteError = Inl (Error ''MockIndexerClient: writes are not supported in mock mode'')"

text \<open>\<open>now\<close> is \<open>Math.floor(Date.now() / 1000)\<close>.\<close>

definition MockIndexerClient :: "web3 \<Rightarrow> int \<Rightarrow> IndexerReads" where
  "MockIndexerClient W now =
     \<lparr>api_getConfig = Inr (Some (mockConfigDto W)),
      api_getMarkets = Inr (mockMarketDtos W),
      api_getMarket = (\<lambda>k. Inr (mockMarketDetailFor W k)),
      api_getCandles = (\<lambda>k intervalSecs limit. Inr (mockCandlesFor k intervalSecs limit (Some now))),
      api_getAccount = (\<lambda>k. Inr None),
      api_getBlockhash = mockWriteError,
      api_sendTransaction = (\<lambda>tx. mockWriteError),
      api_getSignatureStatus = (\<lambda>signature polls. mockWriteError)\<rparr>"

subsection \<open>The addresses are genuine\<close>

lemma length_fixtureBytes [simp]: "length (fixtureBytes label n i h) = n"
  by (induction label n i h rule: fixtureBytes.induct) (simp_all add: Let_def)

lemma fixturePubkey_parses:
  "base58_ok W \<Longrightarrow> newAddress W (fixturePubkey W l) = Inr (Address (fixtureBytes l 32 0 (fnv1a l)))"
  by (simp add: newAddress_def addr_def fixturePubkey_def base58_ok_def wf_address_def)

lemma take_fixtureBytes: "k \<le> n \<Longrightarrow> take k (fixtureBytes l n i h) = fixtureBytes l k i h"
  by (induction l n i h arbitrary: k rule: fixtureBytes.induct) (auto simp: Let_def take_Cons split: nat.split)

text \<open>
  Two bytes of the hash tell the labels of the preview apart.  They are evaluated over lists of
  character codes, with the hash of the label as the starting state of the rounds.
\<close>

definition fnv_codes :: "32 word \<Rightarrow> int list \<Rightarrow> 32 word" where
  "fnv_codes h s = foldl (\<lambda>h c. (h XOR word_of_int c) * 0x01000193) h s"

function dec_codes :: "int \<Rightarrow> int list \<Rightarrow> int list" where
  "dec_codes n a = (if n < 10 then (48 + n) # a else dec_codes (n div 10) ((48 + n mod 10) # a))"
  by auto
termination
  by (relation "measure (nat \<circ> fst)") auto

declare dec_codes.simps [simp del]

definition key_round :: "32 word \<Rightarrow> int \<Rightarrow> 32 word \<Rightarrow> 32 word" where
  "key_round p i h = fnv_codes p (58 # dec_codes i (58 # dec_codes (uint h) []))"

definition key2 :: "string \<Rightarrow> bytes" where
  "key2 l =
     (let p = fnv1a l; h = key_round p 0 p in
      [ucast (h AND 0xff), ucast (key_round p 1 h AND 0xff)])"

definition keys2 :: "32 word list \<Rightarrow> 32 word list \<Rightarrow> bytes list" where
  "keys2 hs ks = map2 (\<lambda>h k. [ucast (h AND 0xff), ucast (k AND 0xff)]) hs ks"

lemma dec_codes_eq: "0 \<le> n \<Longrightarrow> dec_codes n a = map code_of (dec_str n) @ a"
proof (induction n a rule: dec_codes.induct)
  case (1 n a)
  have d: "0 \<le> n mod 10" "n mod 10 < 10" by simp_all
  show ?case
    using 1 d by (simp add: dec_codes.simps [of n] dec_str.simps [of n] code_of_chr)
qed

lemma fnv1a_codes: "fnv1a (l @ s) = fnv_codes (fnv1a l) (map code_of s)"
  by (simp add: fnv1a_def fnv_codes_def foldl_map)

lemma key_round_eq:
  "0 \<le> i \<Longrightarrow> fnv1a (l @ '':'' @ show_int i @ '':'' @ show_int (uint h)) = key_round (fnv1a l) i h"
proof -
  assume "0 \<le> i"
  moreover have "code_of (CHR '':'') = 58" by (simp add: code_of_def)
  ultimately show ?thesis
    by (simp add: fnv1a_codes key_round_def dec_codes_eq show_int_def del: dec_codes.simps)
qed

lemma key2_eq: "take 2 (fixtureBytes l 32 0 (fnv1a l)) = key2 l"
proof -
  have "take 2 (fixtureBytes l 32 0 (fnv1a l)) = fixtureBytes l (Suc (Suc 0)) 0 (fnv1a l)"
    by (simp add: take_fixtureBytes numeral_2_eq_2)
  also have "\<dots> = key2 l"
    using key_round_eq [of 0 l] key_round_eq [of 1 l] by (simp add: key2_def Let_def)
  finally show ?thesis .
qed

lemma map_key2:
  assumes "map fnv1a ls = ps" and "map (\<lambda>p. key_round p 0 p) ps = hs" and "map2 (\<lambda>p h. key_round p 1 h) ps hs = ks"
  shows "map key2 ls = keys2 hs ks"
  unfolding assms [symmetric] keys2_def by (induction ls) (simp_all add: key2_def Let_def)

lemma distinct_pubkeys:
  assumes "base58_ok W" and "distinct (map key2 ls)"
  shows "distinct (map (fixturePubkey W) ls)"
proof -
  have "inj_on (fixturePubkey W) (set ls)"
  proof (rule inj_onI)
    fix l l' assume m: "l \<in> set ls" "l' \<in> set ls" "fixturePubkey W l = fixturePubkey W l'"
    then have "fixtureBytes l 32 0 (fnv1a l) = fixtureBytes l' 32 0 (fnv1a l')"
      using fixturePubkey_parses [OF assms(1), of l] fixturePubkey_parses [OF assms(1), of l'] by simp
    then have "key2 l = key2 l'" by (simp flip: key2_eq)
    with assms(2) m(1,2) show "l = l'" by (auto simp: distinct_map inj_on_def)
  qed
  then show ?thesis using assms(2) by (auto simp: distinct_map)
qed

text \<open>
  The hashes of the labels, and of the first two rounds over each of them: the low bytes of the
  rounds differ in at least one place.
\<close>

definition oracle_labels :: "string list" where
  "oracle_labels = [
     ''oracle-funding'', ''oracle-funded'', ''oracle-active'', ''oracle-resolved'',
     ''oracle-resolved-no'', ''oracle-void'', ''oracle-cancelled'', ''oracle-categorical'',
     ''oracle-categorical-funding'', ''oracle-categorical-funded'', ''oracle-categorical-active'',
     ''oracle-categorical-void'', ''oracle-categorical-cancelled'', ''oracle-cat9-funding'',
     ''oracle-cat9-resolved'']"

lemma oracle_hashes: "map fnv1a oracle_labels = [
     0xf27a79d3, 0x6a2297d4, 0x973641e8, 0x73f2119e, 0x13c8873e, 0xebc579c0, 0xc6e786d9, 0x5005f652,
     0x2934b7ea, 0x7e3f7727, 0x4cd02f07, 0x970c82a7, 0x4f7d1ae4, 0xa192485, 0xf549959c]"
  by code_simp

lemma oracle_round0: "map (\<lambda>p. key_round p 0 p) [
     0xf27a79d3, 0x6a2297d4, 0x973641e8, 0x73f2119e, 0x13c8873e, 0xebc579c0, 0xc6e786d9, 0x5005f652,
     0x2934b7ea, 0x7e3f7727, 0x4cd02f07, 0x970c82a7, 0x4f7d1ae4, 0xa192485, 0xf549959c] = [
     0x22a4b2dd, 0xc12a612f, 0xc343c572, 0x19f7ac8d, 0x61083659, 0x61ff2c99, 0xf2faddc3, 0xa6601a22,
     0x6ac7ca56, 0x5bb30d3c, 0xe06ab95, 0xeace8ef4, 0xb35e707b, 0xc3d35f81, 0x8f55ed46]"
  by code_simp

lemma oracle_round1: "map2 (\<lambda>p h. key_round p 1 h) [
     0xf27a79d3, 0x6a2297d4, 0x973641e8, 0x73f2119e, 0x13c8873e, 0xebc579c0, 0xc6e786d9, 0x5005f652,
     0x2934b7ea, 0x7e3f7727, 0x4cd02f07, 0x970c82a7, 0x4f7d1ae4, 0xa192485, 0xf549959c] [
     0x22a4b2dd, 0xc12a612f, 0xc343c572, 0x19f7ac8d, 0x61083659, 0x61ff2c99, 0xf2faddc3, 0xa6601a22,
     0x6ac7ca56, 0x5bb30d3c, 0xe06ab95, 0xeace8ef4, 0xb35e707b, 0xc3d35f81, 0x8f55ed46] = [
     0xeb912b86, 0xe2c93b0b, 0xfb1644aa, 0xb9d3a97e, 0xd00b6763, 0x74256448, 0x2c5b293e, 0xcd3b387e,
     0x431e8200, 0xe0165d90, 0xe091d534, 0x458ed341, 0x41b6e3b4, 0x5669cea2, 0x5e4d41b4]"
  by code_simp

lemmas oracle_keys = map_key2 [OF oracle_hashes oracle_round0 oracle_round1, unfolded keys2_def]

definition market_labels :: "string list" where
  "market_labels = [
     ''market-funding-binary'', ''market-funded-binary'', ''market-active-binary'',
     ''market-resolved-binary'', ''market-resolved-no-binary'', ''market-void-binary'',
     ''market-cancelled-binary'', ''market-categorical-outcome-0'', ''market-categorical-outcome-1'',
     ''market-categorical-outcome-2'', ''market-categorical-funding-outcome-0'',
     ''market-categorical-funding-outcome-1'', ''market-categorical-funding-outcome-2'',
     ''market-categorical-funded-outcome-0'', ''market-categorical-funded-outcome-1'',
     ''market-categorical-funded-outcome-2'', ''market-categorical-active-outcome-0'',
     ''market-categorical-active-outcome-1'', ''market-categorical-active-outcome-2'',
     ''market-categorical-void-outcome-0'', ''market-categorical-void-outcome-1'',
     ''market-categorical-void-outcome-2'', ''market-categorical-cancelled-outcome-0'',
     ''market-categorical-cancelled-outcome-1'', ''market-categorical-cancelled-outcome-2'']"

lemma market_hashes: "map fnv1a market_labels = [
     0xd9a30e3d, 0x64d1be84, 0xe6efe6f0, 0x5eeef2ce, 0xbfe73142, 0x7013e9e0, 0x21f9b0ff, 0xeff41c88,
     0xf0f41e1b, 0xf1f41fae, 0x5406e20, 0x6406fb3, 0x7407146, 0xca9a0bad, 0xc99a0a1a, 0xc89a0887,
     0x410d49e5, 0x400d4852, 0x3f0d46bf, 0x128cc145, 0x118cbfb2, 0x108cbe1f, 0x335c7ce2, 0x345c7e75,
     0x315c79bc]"
  by code_simp

lemma market_round0: "map (\<lambda>p. key_round p 0 p) [
     0xd9a30e3d, 0x64d1be84, 0xe6efe6f0, 0x5eeef2ce, 0xbfe73142, 0x7013e9e0, 0x21f9b0ff, 0xeff41c88,
     0xf0f41e1b, 0xf1f41fae, 0x5406e20, 0x6406fb3, 0x7407146, 0xca9a0bad, 0xc99a0a1a, 0xc89a0887,
     0x410d49e5, 0x400d4852, 0x3f0d46bf, 0x128cc145, 0x118cbfb2, 0x108cbe1f, 0x335c7ce2, 0x345c7e75,
     0x315c79bc] = [
     0x48b8663d, 0xcd1e56f2, 0xd6a20c86, 0xa9ff03b0, 0x52d0335a, 0xfed79128, 0xfc0a054f, 0xbdabd8d9,
     0xa3ed2062, 0xf0fceb0a, 0x8ef5728b, 0xdf129a9b, 0x49a507aa, 0x5afe0b61, 0xd1ae04fa, 0xaeb1fe31,
     0xf3da4b5c, 0xc0ef490, 0x7d01737e, 0x45852a44, 0x91a3e1c5, 0xf47d673b, 0x149638fc, 0xe4e15c76,
     0x323e9519]"
  by code_simp

lemma market_round1: "map2 (\<lambda>p h. key_round p 1 h) [
     0xd9a30e3d, 0x64d1be84, 0xe6efe6f0, 0x5eeef2ce, 0xbfe73142, 0x7013e9e0, 0x21f9b0ff, 0xeff41c88,
     0xf0f41e1b, 0xf1f41fae, 0x5406e20, 0x6406fb3, 0x7407146, 0xca9a0bad, 0xc99a0a1a, 0xc89a0887,
     0x410d49e5, 0x400d4852, 0x3f0d46bf, 0x128cc145, 0x118cbfb2, 0x108cbe1f, 0x335c7ce2, 0x345c7e75,
     0x315c79bc] [
     0x48b8663d, 0xcd1e56f2, 0xd6a20c86, 0xa9ff03b0, 0x52d0335a, 0xfed79128, 0xfc0a054f, 0xbdabd8d9,
     0xa3ed2062, 0xf0fceb0a, 0x8ef5728b, 0xdf129a9b, 0x49a507aa, 0x5afe0b61, 0xd1ae04fa, 0xaeb1fe31,
     0xf3da4b5c, 0xc0ef490, 0x7d01737e, 0x45852a44, 0x91a3e1c5, 0xf47d673b, 0x149638fc, 0xe4e15c76,
     0x323e9519] = [
     0x7091808d, 0x14f985e5, 0x90337153, 0x5dff65e3, 0x8181b4b3, 0x88441186, 0x33efb616, 0x2f7f07a3,
     0x801cfb04, 0x73261242, 0x4638be6f, 0xa8315d17, 0xde38de6c, 0xdefc3a1a, 0x437dac05, 0xfe89b03d,
     0x92682f32, 0x587b8a95, 0x82df0c16, 0xde30d4da, 0x496e84d0, 0x64d5bc49, 0x90296110, 0xc2f2b507,
     0x2fdc1b9d]"
  by code_simp

lemmas market_keys = map_key2 [OF market_hashes market_round0 market_round1, unfolded keys2_def]

definition large_labels :: "string list" where
  "large_labels = [
     ''market-cat9-funding-outcome-0'', ''market-cat9-funding-outcome-1'',
     ''market-cat9-funding-outcome-2'', ''market-cat9-funding-outcome-3'',
     ''market-cat9-funding-outcome-4'', ''market-cat9-funding-outcome-5'',
     ''market-cat9-funding-outcome-6'', ''market-cat9-funding-outcome-7'',
     ''market-cat9-funding-outcome-8'', ''market-cat9-resolved-outcome-0'',
     ''market-cat9-resolved-outcome-1'', ''market-cat9-resolved-outcome-2'',
     ''market-cat9-resolved-outcome-3'', ''market-cat9-resolved-outcome-4'',
     ''market-cat9-resolved-outcome-5'', ''market-cat9-resolved-outcome-6'',
     ''market-cat9-resolved-outcome-7'', ''market-cat9-resolved-outcome-8'']"

lemma large_hashes: "map fnv1a large_labels = [
     0x59a2e17f, 0x58a2dfec, 0x5ba2e4a5, 0x5aa2e312, 0x55a2db33, 0x54a2d9a0, 0x57a2de59, 0x56a2dcc6,
     0x61a2ee17, 0xbbd10f1e, 0xbcd110b1, 0xb9d10bf8, 0xbad10d8b, 0xbfd1156a, 0xc0d116fd, 0xbdd11244,
     0xbed113d7, 0xb3d10286]"
  by code_simp

lemma large_round0: "map (\<lambda>p. key_round p 0 p) [
     0x59a2e17f, 0x58a2dfec, 0x5ba2e4a5, 0x5aa2e312, 0x55a2db33, 0x54a2d9a0, 0x57a2de59, 0x56a2dcc6,
     0x61a2ee17, 0xbbd10f1e, 0xbcd110b1, 0xb9d10bf8, 0xbad10d8b, 0xbfd1156a, 0xc0d116fd, 0xbdd11244,
     0xbed113d7, 0xb3d10286] = [
     0xe3dac390, 0x1d8e5b5e, 0xeb493c80, 0xd1b63044, 0xf0aab8e1, 0xde8ecbab, 0x787f075d, 0xf6109eb5,
     0x85406531, 0xa89aabb8, 0xe51fc260, 0xc72c5dc9, 0x1534fcb9, 0x8b28ac1, 0xd3eb7264, 0x4eaac196,
     0x3eeadd04, 0x4f5b9f52]"
  by code_simp

lemma large_round1: "map2 (\<lambda>p h. key_round p 1 h) [
     0x59a2e17f, 0x58a2dfec, 0x5ba2e4a5, 0x5aa2e312, 0x55a2db33, 0x54a2d9a0, 0x57a2de59, 0x56a2dcc6,
     0x61a2ee17, 0xbbd10f1e, 0xbcd110b1, 0xb9d10bf8, 0xbad10d8b, 0xbfd1156a, 0xc0d116fd, 0xbdd11244,
     0xbed113d7, 0xb3d10286] [
     0xe3dac390, 0x1d8e5b5e, 0xeb493c80, 0xd1b63044, 0xf0aab8e1, 0xde8ecbab, 0x787f075d, 0xf6109eb5,
     0x85406531, 0xa89aabb8, 0xe51fc260, 0xc72c5dc9, 0x1534fcb9, 0x8b28ac1, 0xd3eb7264, 0x4eaac196,
     0x3eeadd04, 0x4f5b9f52] = [
     0xcf352165, 0x1ed2d116, 0xb216329e, 0x51afb377, 0xf690eeaa, 0x73f02ebf, 0x2914fec5, 0x2c7847fe,
     0xd39cb891, 0x93662faa, 0xe8e36c2c, 0x7449307e, 0xfcd0ed73, 0xa9f2049d, 0x8ef23812, 0x7e35f2dc,
     0xad492390, 0x72f8aa81]"
  by code_simp

lemmas large_keys = map_key2 [OF large_hashes large_round0 large_round1, unfolded keys2_def]

lemma oracles_distinct: "base58_ok W \<Longrightarrow> distinct (map (fixturePubkey W) oracle_labels)"
  by (rule distinct_pubkeys) (simp_all add: oracle_keys)

lemma markets_distinct: "base58_ok W \<Longrightarrow> distinct (map (fixturePubkey W) (market_labels @ large_labels))"
  by (rule distinct_pubkeys) (simp_all add: market_keys large_keys)

lemmas oracle_name_defs =
    O_FUNDING_def O_FUNDED_def O_ACTIVE_def O_RESOLVED_def O_RESOLVED_NO_def O_VOID_def
    O_CANCELLED_def O_CATEGORICAL_def O_CATEGORICAL_FUNDING_def O_CATEGORICAL_FUNDED_def
    O_CATEGORICAL_ACTIVE_def O_CATEGORICAL_VOID_def O_CATEGORICAL_CANCELLED_def O_CAT9_FUNDING_def
    O_CAT9_RESOLVED_def

lemmas market_name_defs =
    MKT_FUNDING_def MKT_FUNDED_def MKT_ACTIVE_def MKT_RESOLVED_def MKT_RESOLVED_NO_def MKT_VOID_def
    MKT_CANCELLED_def MKT_CAT_0_def MKT_CAT_1_def MKT_CAT_2_def MKT_CAT_FUNDING_0_def
    MKT_CAT_FUNDING_1_def MKT_CAT_FUNDING_2_def MKT_CAT_FUNDED_0_def MKT_CAT_FUNDED_1_def
    MKT_CAT_FUNDED_2_def MKT_CAT_ACTIVE_0_def MKT_CAT_ACTIVE_1_def MKT_CAT_ACTIVE_2_def
    MKT_CAT_VOID_0_def MKT_CAT_VOID_1_def MKT_CAT_VOID_2_def MKT_CAT_CANCELLED_0_def
    MKT_CAT_CANCELLED_1_def MKT_CAT_CANCELLED_2_def

text \<open>Every key of the table of oracles is found.\<close>

lemma ORACLES_hit:
  assumes "base58_ok W"
  shows "ORACLES W (O_FUNDING W) = Some (oracleDto 2 1 0)"
    "ORACLES W (O_FUNDED W) = Some (oracleDto 2 1 0)"
    "ORACLES W (O_ACTIVE W) = Some (oracleDto 2 3 0)"
    "ORACLES W (O_RESOLVED W) = Some (oracleDto 2 7 0)"
    "ORACLES W (O_RESOLVED_NO W) = Some (oracleDto 2 7 1)"
    "ORACLES W (O_VOID W) = Some (oracleDto 2 8 255)"
    "ORACLES W (O_CANCELLED W) = Some (oracleDto 2 8 255)"
    "ORACLES W (O_CATEGORICAL W) = Some (oracleDto 3 7 2)"
    "ORACLES W (O_CATEGORICAL_FUNDING W) = Some (oracleDto 3 1 0)"
    "ORACLES W (O_CATEGORICAL_FUNDED W) = Some (oracleDto 3 1 0)"
    "ORACLES W (O_CATEGORICAL_ACTIVE W) = Some (oracleDto 3 3 0)"
    "ORACLES W (O_CATEGORICAL_VOID W) = Some (oracleDto 3 8 255)"
    "ORACLES W (O_CATEGORICAL_CANCELLED W) = Some (oracleDto 3 8 255)"
    "ORACLES W (O_CAT9_FUNDING W) = Some (oracleDto 9 1 0)"
    "ORACLES W (O_CAT9_RESOLVED W) = Some (oracleDto 9 7 4)"
  using oracles_distinct [OF assms]
  by (simp_all add: ORACLES_def oracle_labels_def oracle_name_defs)

subsection \<open>The fixtures go through the data layer\<close>

text \<open>What the preview relies on: the base58 codec, on which the all-zero address parses.\<close>

definition preview_lib :: "web3 \<Rightarrow> bool" where
  "preview_lib W \<longleftrightarrow> base58_ok W \<and> parseAddress W ZERO = Some (Address (replicate 32 0))"

definition fixtureAddress :: "string \<Rightarrow> address" where
  "fixtureAddress l = Address (fixtureBytes l 32 0 (fnv1a l))"

lemma pubkey_parses [simp]: "preview_lib W \<Longrightarrow> newAddress W (fixturePubkey W l) = Inr (fixtureAddress l)"
  by (simp add: preview_lib_def fixturePubkey_parses fixtureAddress_def)

lemma ZERO_parses [simp]: "preview_lib W \<Longrightarrow> newAddress W ZERO = Inr (Address (replicate 32 0))"
  by (simp add: preview_lib_def newAddress_def addr_def)

lemma BASE_MINT_parses [simp]: "preview_lib W \<Longrightarrow> newAddress W (BASE_MINT W) = Inr (fixtureAddress ''base-mint'')"
  by (simp add: BASE_MINT_def)

lemma solAmt_parses [simp]: "0 \<le> n \<Longrightarrow> BigIntStr (solAmt n) = Inr (n * 10 ^ 9)"
  by (simp add: solAmt_def show_int_def BigIntStr_dec_str)

text \<open>
  A fixture is a consistent state of a market: its strings parse, its label is that of its status,
  its contributions are its own and add up to its total, its liquidity is what the activation and
  the late deposits minted, it is settled when it is over and has reserves when it is live, and
  its outcome is one of its oracle's.
\<close>

definition market_ok :: "web3 \<Rightarrow> MarketFixture \<Rightarrow> Market \<Rightarrow> Contribution list \<Rightarrow> AmmReserves option \<Rightarrow> OracleDto \<Rightarrow> bool" where
  "market_ok W f m cs r orc \<longleftrightarrow>
     dm_statusLabel (mf_dto f) = statusLabel (mk_status m) \<and>
     list_all (\<lambda>c. newAddress W (dm_address (mf_dto f)) = Inr (cn_market c)) cs \<and>
     sum_list (map cn_amount cs) = mk_totalContributed m \<and>
     mk_grossLpTotal m = mk_activationLp m + sum_list (map cn_lateLp cs) \<and>
     (mk_settled m \<longleftrightarrow> mk_status m = status_code Resolved \<or> mk_status m = status_code Void) \<and>
     (r \<noteq> None \<longleftrightarrow> mk_status m = status_code Active) \<and>
     0 \<le> mk_outcomeIndex m \<and> mk_outcomeIndex m < dx_optionsCount orc"

definition fixture_ok :: "web3 \<Rightarrow> MarketFixture \<Rightarrow> bool" where
  "fixture_ok W f \<longleftrightarrow>
     (\<exists>m cs r orc. mapMarketDto W (mf_dto f) = Inr m \<and>
        seqR (map (mapContributionDto W) (mf_contributions f)) = Inr cs \<and>
        mapOpt mapReservesDto (mf_reserves f) = Inr r \<and> mf_oracle f = Some orc \<and> market_ok W f m cs r orc)"

lemma fixture_okI:
  assumes "mapMarketDto W (mf_dto f) = Inr m" "seqR (map (mapContributionDto W) (mf_contributions f)) = Inr cs"
    and "mapOpt mapReservesDto (mf_reserves f) = Inr r" "mf_oracle f = Some orc" "market_ok W f m cs r orc"
  shows "fixture_ok W f"
  using assms unfolding fixture_ok_def by blast

lemma names_parse:
  assumes "preview_lib W"
  shows "newAddress W (O_FUNDING W) = Inr (fixtureAddress ''oracle-funding'')"
    "newAddress W (O_FUNDED W) = Inr (fixtureAddress ''oracle-funded'')"
    "newAddress W (O_ACTIVE W) = Inr (fixtureAddress ''oracle-active'')"
    "newAddress W (O_RESOLVED W) = Inr (fixtureAddress ''oracle-resolved'')"
    "newAddress W (O_RESOLVED_NO W) = Inr (fixtureAddress ''oracle-resolved-no'')"
    "newAddress W (O_VOID W) = Inr (fixtureAddress ''oracle-void'')"
    "newAddress W (O_CANCELLED W) = Inr (fixtureAddress ''oracle-cancelled'')"
    "newAddress W (O_CATEGORICAL W) = Inr (fixtureAddress ''oracle-categorical'')"
    "newAddress W (O_CATEGORICAL_FUNDING W) = Inr (fixtureAddress ''oracle-categorical-funding'')"
    "newAddress W (O_CATEGORICAL_FUNDED W) = Inr (fixtureAddress ''oracle-categorical-funded'')"
    "newAddress W (O_CATEGORICAL_ACTIVE W) = Inr (fixtureAddress ''oracle-categorical-active'')"
    "newAddress W (O_CATEGORICAL_VOID W) = Inr (fixtureAddress ''oracle-categorical-void'')"
    "newAddress W (O_CATEGORICAL_CANCELLED W) = Inr (fixtureAddress ''oracle-categorical-cancelled'')"
    "newAddress W (O_CAT9_FUNDING W) = Inr (fixtureAddress ''oracle-cat9-funding'')"
    "newAddress W (O_CAT9_RESOLVED W) = Inr (fixtureAddress ''oracle-cat9-resolved'')"
    "newAddress W (MKT_FUNDING W) = Inr (fixtureAddress ''market-funding-binary'')"
    "newAddress W (MKT_FUNDED W) = Inr (fixtureAddress ''market-funded-binary'')"
    "newAddress W (MKT_ACTIVE W) = Inr (fixtureAddress ''market-active-binary'')"
    "newAddress W (MKT_RESOLVED W) = Inr (fixtureAddress ''market-resolved-binary'')"
    "newAddress W (MKT_VOID W) = Inr (fixtureAddress ''market-void-binary'')"
    "newAddress W (MKT_CANCELLED W) = Inr (fixtureAddress ''market-cancelled-binary'')"
    "newAddress W (MKT_CAT_0 W) = Inr (fixtureAddress ''market-categorical-outcome-0'')"
    "newAddress W (MKT_CAT_1 W) = Inr (fixtureAddress ''market-categorical-outcome-1'')"
    "newAddress W (MKT_CAT_2 W) = Inr (fixtureAddress ''market-categorical-outcome-2'')"
    "newAddress W (MKT_CAT_FUNDING_0 W) = Inr (fixtureAddress ''market-categorical-funding-outcome-0'')"
    "newAddress W (MKT_CAT_FUNDING_1 W) = Inr (fixtureAddress ''market-categorical-funding-outcome-1'')"
    "newAddress W (MKT_CAT_FUNDING_2 W) = Inr (fixtureAddress ''market-categorical-funding-outcome-2'')"
    "newAddress W (MKT_RESOLVED_NO W) = Inr (fixtureAddress ''market-resolved-no-binary'')"
    "newAddress W (MKT_CAT_FUNDED_0 W) = Inr (fixtureAddress ''market-categorical-funded-outcome-0'')"
    "newAddress W (MKT_CAT_FUNDED_1 W) = Inr (fixtureAddress ''market-categorical-funded-outcome-1'')"
    "newAddress W (MKT_CAT_FUNDED_2 W) = Inr (fixtureAddress ''market-categorical-funded-outcome-2'')"
    "newAddress W (MKT_CAT_ACTIVE_0 W) = Inr (fixtureAddress ''market-categorical-active-outcome-0'')"
    "newAddress W (MKT_CAT_ACTIVE_1 W) = Inr (fixtureAddress ''market-categorical-active-outcome-1'')"
    "newAddress W (MKT_CAT_ACTIVE_2 W) = Inr (fixtureAddress ''market-categorical-active-outcome-2'')"
    "newAddress W (MKT_CAT_VOID_0 W) = Inr (fixtureAddress ''market-categorical-void-outcome-0'')"
    "newAddress W (MKT_CAT_VOID_1 W) = Inr (fixtureAddress ''market-categorical-void-outcome-1'')"
    "newAddress W (MKT_CAT_VOID_2 W) = Inr (fixtureAddress ''market-categorical-void-outcome-2'')"
    "newAddress W (MKT_CAT_CANCELLED_0 W) = Inr (fixtureAddress ''market-categorical-cancelled-outcome-0'')"
    "newAddress W (MKT_CAT_CANCELLED_1 W) = Inr (fixtureAddress ''market-categorical-cancelled-outcome-1'')"
    "newAddress W (MKT_CAT_CANCELLED_2 W) = Inr (fixtureAddress ''market-categorical-cancelled-outcome-2'')"
  using assms by (simp_all add: oracle_name_defs market_name_defs)

lemmas fixture_defs =
    fixture_funding_def fixture_funded_def fixture_active_def fixture_resolved_def
    fixture_resolved_no_def fixture_void_def fixture_cancelled_def fixture_cat0_def fixture_cat1_def
    fixture_cat2_def fixture_cat_funding_0_def fixture_cat_funding_1_def fixture_cat_funding_2_def
    fixture_cat_funded_0_def fixture_cat_funded_1_def fixture_cat_funded_2_def
    fixture_cat_active_0_def fixture_cat_active_1_def fixture_cat_active_2_def
    fixture_cat_void_0_def fixture_cat_void_1_def fixture_cat_void_2_def fixture_cat_cancelled_0_def
    fixture_cat_cancelled_1_def fixture_cat_cancelled_2_def

lemmas fixture_eval = mapMarketDto_def mapContributionDto_def mapReservesDto_def makeMarket_def makeContribution_def

lemmas market_eval = market_ok_def statusLabel_def oracleDto_def

lemma hand_fixtures_ok:
  assumes W: "preview_lib W" and f: "f \<in> set (HAND_FIXTURES W)"
  shows "fixture_ok W f"
proof -
  have b: "base58_ok W" using W by (simp add: preview_lib_def)
  show ?thesis
    using f unfolding HAND_FIXTURES_def set_simps
    by (elim insertE emptyE)
      ((rule fixture_okI, simp add: fixture_defs fixture_eval names_parse [OF W] W,
        simp add: fixture_defs fixture_eval names_parse [OF W] W,
        simp add: fixture_defs fixture_eval, simp add: fixture_defs ORACLES_hit [OF b],
        simp add: fixture_defs fixture_eval market_eval names_parse [OF W] W)+)
qed
lemma cat9Funding_ok:
  assumes W: "preview_lib W" and i: "0 \<le> i" "i \<le> 8"
  shows "fixture_ok W (cat9FundingFixture W i)"
proof -
  have b: "base58_ok W" using W by (simp add: preview_lib_def)
  show ?thesis
    using i
    by - (rule fixture_okI,
        simp add: cat9FundingFixture_def fixture_eval names_parse [OF W] W Let_def,
        simp add: cat9FundingFixture_def fixture_eval names_parse [OF W] W Let_def,
        simp add: cat9FundingFixture_def fixture_eval Let_def,
        simp add: cat9FundingFixture_def ORACLES_hit [OF b] Let_def,
        simp add: cat9FundingFixture_def fixture_eval market_eval names_parse [OF W] W Let_def)
qed

lemma cat9Resolved_ok:
  assumes W: "preview_lib W" and i: "0 \<le> i" "i \<le> 8"
  shows "fixture_ok W (cat9ResolvedFixture W i)"
proof -
  have b: "base58_ok W" using W by (simp add: preview_lib_def)
  show ?thesis
    using i
    by - (cases "i = PENDING", (rule fixture_okI,
        simp add: cat9ResolvedFixture_def fixture_eval names_parse [OF W] W Let_def,
        simp add: cat9ResolvedFixture_def fixture_eval names_parse [OF W] W Let_def,
        simp add: cat9ResolvedFixture_def fixture_eval Let_def,
        simp add: cat9ResolvedFixture_def ORACLES_hit [OF b] Let_def,
        simp add: cat9ResolvedFixture_def fixture_eval market_eval names_parse [OF W] W Let_def)+)
qed

lemma fixtures_ok: "preview_lib W \<Longrightarrow> f \<in> set (FIXTURES W) \<Longrightarrow> fixture_ok W f"
  by (auto simp: FIXTURES_def makeCat9FundingFixtures_def makeCat9ResolvedFixtures_def
      hand_fixtures_ok cat9Funding_ok cat9Resolved_ok)

text \<open>No two markets of the preview share an address, so each is found under its own.\<close>

lemma upto_0_8: "[0..8] = [0, 1, 2, 3, 4, 5, 6, 7, 8 :: int]"
  by (simp add: upto.simps)

lemma show_digits:
  "show_int 0 = ''0''" "show_int 1 = ''1''" "show_int 2 = ''2''" "show_int 3 = ''3''" "show_int 4 = ''4''"
  "show_int 5 = ''5''" "show_int 6 = ''6''" "show_int 7 = ''7''" "show_int 8 = ''8''"
  by code_simp+

lemma pubkeys_labels: "MOCK_MARKET_PUBKEYS W = map (fixturePubkey W) (market_labels @ large_labels)"
  by (simp add: MOCK_MARKET_PUBKEYS_def FIXTURES_def HAND_FIXTURES_def makeCat9FundingFixtures_def
      makeCat9ResolvedFixtures_def upto_0_8 show_digits fixture_defs market_name_defs makeMarket_def
      cat9FundingFixture_def cat9ResolvedFixture_def Let_def market_labels_def large_labels_def)

lemma pubkeys_distinct: "base58_ok W \<Longrightarrow> distinct (MOCK_MARKET_PUBKEYS W)"
  using markets_distinct [of W] unfolding pubkeys_labels .

lemma BY_PUBKEY_hit:
  assumes "base58_ok W"
  shows "BY_PUBKEY W a = Some f \<longleftrightarrow> f \<in> set (FIXTURES W) \<and> dm_address (mf_dto f) = a"
proof -
  have "distinct (map fst (rev (map (\<lambda>f. (dm_address (mf_dto f), f)) (FIXTURES W))))"
    using pubkeys_distinct [OF assms] by (simp add: MOCK_MARKET_PUBKEYS_def rev_map [symmetric] comp_def)
  then show ?thesis by (auto simp: BY_PUBKEY_def)
qed

subsection \<open>What the preview shows\<close>

lemma mockMarketDetailFor_hit:
  "base58_ok W \<Longrightarrow> f \<in> set (FIXTURES W) \<Longrightarrow>
     mockMarketDetailFor W (dm_address (mf_dto f)) =
       Some \<lparr>dd_market = mf_dto f, dd_contributions = mf_contributions f, dd_oracle = mf_oracle f,
         dd_reserves = mf_reserves f\<rparr>"
  using BY_PUBKEY_hit [of W "dm_address (mf_dto f)" f] by (simp add: mockMarketDetailFor_def)

lemma mockMarketDetailFor_miss:
  assumes "base58_ok W"
  shows "mockMarketDetailFor W k = None \<longleftrightarrow> k \<notin> set (MOCK_MARKET_PUBKEYS W)"
proof -
  have "BY_PUBKEY W k = None \<longleftrightarrow> k \<notin> set (MOCK_MARKET_PUBKEYS W)"
    using BY_PUBKEY_hit [OF assms, of k] unfolding MOCK_MARKET_PUBKEYS_def set_map
    by (metis (no_types, lifting) image_iff not_None_eq)
  then show ?thesis by (cases "BY_PUBKEY W k") (simp_all add: mockMarketDetailFor_def)
qed

lemma mapMarketDto_oracle: "mapMarketDto W dto = Inr m \<Longrightarrow> newAddress W (dm_oracle dto) = Inr (mk_oracle m)"
  by (auto simp: mapMarketDto_def bindR_Inr_iff)

lemma toBase58_fixtureAddress: "toBase58 W (fixtureAddress l) = fixturePubkey W l"
  by (simp add: fixtureAddress_def fixturePubkey_def)

lemma fixture_oracles: "set (map (\<lambda>f. dm_oracle (mf_dto f)) (FIXTURES W)) = set (map (fixturePubkey W) oracle_labels)"
  by (simp add: FIXTURES_def HAND_FIXTURES_def makeCat9FundingFixtures_def makeCat9ResolvedFixtures_def
      upto_0_8 fixture_defs oracle_name_defs makeMarket_def cat9FundingFixture_def cat9ResolvedFixture_def
      Let_def oracle_labels_def insert_commute)

lemma summaryOf_mock:
  assumes W: "preview_lib W" and f: "f \<in> set (FIXTURES W)"
  shows "\<exists>s. summaryOf W (MockIndexerClient W now) (mf_dto f) = Inr s \<and> ms_pubkey s = dm_address (mf_dto f) \<and>
    mapMarketDto W (mf_dto f) = Inr (ms_market s) \<and> oracleKey W s = dm_oracle (mf_dto f)"
proof -
  obtain m cs r orc where ok: "mapMarketDto W (mf_dto f) = Inr m"
    "mapOpt mapReservesDto (mf_reserves f) = Inr r" "mf_oracle f = Some orc"
    using fixtures_ok [OF W f] unfolding fixture_ok_def by blast
  obtain l where l: "dm_oracle (mf_dto f) = fixturePubkey W l"
    using fixture_oracles [of W] f by auto
  then have "mk_oracle m = fixtureAddress l" using mapMarketDto_oracle [OF ok(1)] W by simp
  then show ?thesis
    using ok l mockMarketDetailFor_hit [OF _ f] W
    by (simp add: summaryOf_def MockIndexerClient_def oracleKey_def toBase58_fixtureAddress preview_lib_def)
qed

lemma length_firsts: "length (firsts xs) = card (set xs)"
  by (metis distinct_card distinct_firsts set_firsts)

lemma preview_markets:
  assumes W: "preview_lib W"
  shows "\<exists>ss. fetchMarkets W (MockIndexerClient W now) = Inr ss \<and>
    mset (map ms_pubkey ss) = mset (MOCK_MARKET_PUBKEYS W) \<and> length (groupByOracle W ss) = 15"
proof -
  define s where "s f = (SOME s. summaryOf W (MockIndexerClient W now) (mf_dto f) = Inr s)" for f :: MarketFixture
  have s: "summaryOf W (MockIndexerClient W now) (mf_dto f) = Inr (s f) \<and> ms_pubkey (s f) = dm_address (mf_dto f) \<and>
      oracleKey W (s f) = dm_oracle (mf_dto f)" if "f \<in> set (FIXTURES W)" for f
    using summaryOf_mock [OF W that, of now] unfolding s_def by auto
  let ?ss = "js_sort cmpContributedDesc (map s (FIXTURES W))"
  have "seqR (map (summaryOf W (MockIndexerClient W now)) (mockMarketDtos W)) = Inr (map s (FIXTURES W))"
    using s by (auto simp: seqR_Inr_iff mockMarketDtos_def)
  then have f: "fetchMarkets W (MockIndexerClient W now) = Inr ?ss"
    by (simp add: fetchMarkets_def MockIndexerClient_def)
  have m: "mset ?ss = mset (map s (FIXTURES W))" by simp
  then have st: "set ?ss = s ` set (FIXTURES W)" by (metis set_mset_mset set_map)
  have "mset (map ms_pubkey ?ss) = image_mset ms_pubkey (mset (map s (FIXTURES W)))" by (simp add: m)
  also have "\<dots> = mset (MOCK_MARKET_PUBKEYS W)"
    using s by (auto simp: MOCK_MARKET_PUBKEYS_def image_mset.compositionality intro!: image_mset_cong)
  finally have pk: "mset (map ms_pubkey ?ss) = mset (MOCK_MARKET_PUBKEYS W)" .
  have "oracleKey W ` set ?ss = set (map (fixturePubkey W) oracle_labels)"
    using s unfolding st fixture_oracles [symmetric] by force
  then have "length (groupByOracle W ?ss) = length (map (fixturePubkey W) oracle_labels)"
    using oracles_distinct [of W] W distinct_card [of "map (fixturePubkey W) oracle_labels"]
    by (simp add: groupByOracle_eq length_firsts preview_lib_def)
  then show ?thesis using f pk by (auto simp: oracle_labels_def)
qed

text \<open>
  The fixtures number the phases of their oracles by an older scheme (1 a proposal, 3 a vote, 7
  resolved, 8 void), in which only the undecided ones of a market that is raising funds read as
  terminal today.
\<close>

lemma preview_phases:
  assumes "base58_ok W" and "f \<in> set (FIXTURES W)" and "mf_oracle f = Some orc"
  shows "isTerminal (dx_phase orc) \<longleftrightarrow> dm_status (mf_dto f) = status_code Funding"
  using assms(2,3)
  by (auto simp: FIXTURES_def HAND_FIXTURES_def makeCat9FundingFixtures_def makeCat9ResolvedFixtures_def
      fixture_defs makeMarket_def ORACLES_hit [OF assms(1)] oracleDto_def isTerminal_def
      cat9FundingFixture_def cat9ResolvedFixture_def Let_def split: if_splits)


end
