(* ===== verification/Preview.thy ===== *)
theory Preview
  imports Mock Hooks
begin

text \<open>
  What the offline preview guarantees: its candles are candles (each opens where the previous one
  closed, its body lies between its low and its high, and every price stays inside the open unit
  interval, with all roundings of binary64 counted), and no write succeeds in it.
\<close>

subsection \<open>The generator\<close>

lemma num_small:
  assumes "\<bar>x\<bar> \<le> 4"
  shows "num x = Fin (rnd x)" and "\<bar>rnd x\<bar> \<le> 4"
proof -
  have "(2 :: rat) ^ 2 \<le> 2 ^ 1023" by (rule power_increasing) simp_all
  then have "\<bar>x\<bar> \<le> 2 ^ 1023" using assms by simp
  then show "num x = Fin (rnd x)" by (rule num_finite)
  have "repr 4" "repr (- 4)" using repr_of_int [of 4] repr_of_int [of "- 4"] by simp_all
  then show "\<bar>rnd x\<bar> \<le> 4" using assms by (intro dbl.r_abs_le)
qed

lemma draw_unit: "\<exists>r. ndiv (Number (uint (u :: 32 word))) (Number 4294967296) = Fin r \<and> 0 \<le> r \<and> r < 1"
proof -
  define n where "n = uint u"
  have n: "0 \<le> n" "n < 4294967296" unfolding n_def by (rule unsigned_greater_eq) (use uint_lt2p [of u] in simp)
  let ?q = "of_int n / 4294967296 :: rat"
  have "(of_int n :: rat) < of_int 4294967296" using n by (simp only: of_int_less_iff)
  then have q: "0 \<le> ?q" "?q < 1" using n by simp_all
  have "?q = of_int n * pow2 (- 32)" by (simp add: power_int_minus field_simps)
  then have "repr ?q" unfolding repr_def using n by (intro exI [of _ n] exI [of _ "- 32"]) simp
  then have "num ?q = Fin ?q" using num_unit [of ?q] q by (simp add: rnd_repr)
  moreover have "Number n = Fin (of_int n)" "Number 4294967296 = Fin 4294967296"
    using n by (simp_all add: Number_exact)
  ultimately have "ndiv (Number n) (Number 4294967296) = Fin ?q" by simp
  then show ?thesis using q unfolding n_def by blast
qed

lemma mulberry32_unit: "\<exists>r. snd (mulberry32 st) = Fin r \<and> 0 \<le> r \<and> r < 1"
  by (simp add: mulberry32_def Let_def draw_unit)

subsection \<open>A candle\<close>

definition price_ok :: "jsnum \<Rightarrow> bool" where
  "price_ok x \<longleftrightarrow> (\<exists>p. x = Fin p \<and> repr p \<and> rnd (2/100) \<le> p \<and> p \<le> rnd (98/100))"

definition candle_ok :: "CandleDto \<Rightarrow> bool" where
  "candle_ok c \<longleftrightarrow>
     price_ok (cd_open c) \<and> price_ok (cd_close c) \<and>
     nle (num (1/100)) (cd_low c) \<and> nle (cd_low c) (nmin (cd_open c) (cd_close c)) \<and>
     nle (nmax (cd_open c) (cd_close c)) (cd_high c) \<and> nle (cd_high c) (num (99/100))"

lemma unit_lit: "0 \<le> x \<Longrightarrow> x \<le> 1 \<Longrightarrow> num x = Fin (rnd x) \<and> 0 \<le> rnd x \<and> rnd x \<le> 1"
  using num_unit [of x] dbl.r_unit [of x] by simp

lemma wick_ok:
  assumes "0 \<le> r" "r < 1"
  shows "\<exists>w. nmul (Fin r) (num (1/100)) = Fin w \<and> 0 \<le> w \<and> w \<le> 1"
proof -
  have l: "num (1/100) = Fin (rnd (1/100)) \<and> 0 \<le> rnd (1/100) \<and> rnd (1/100) \<le> 1" by (rule unit_lit) simp_all
  then have "0 \<le> r * rnd (1/100)" "r * rnd (1/100) \<le> 1"
    using assms mult_le_one [of r "rnd (1/100)"] by simp_all
  with l unit_lit [of "r * rnd (1/100)"] show ?thesis by auto
qed

lemma price_unit: "price_ok x \<Longrightarrow> \<exists>p. x = Fin p \<and> 0 \<le> p \<and> p \<le> 1"
  using unit_lit [of "2/100"] unit_lit [of "98/100"] by (force simp: price_ok_def)

text \<open>A centred number times a literal below one is small.\<close>

lemma pull_small:
  assumes "\<bar>a - b\<bar> \<le> 1" "0 \<le> k" "k \<le> 1"
  shows "\<exists>d. nmul (nsub (Fin a) (Fin b)) (num k) = Fin d \<and> \<bar>d\<bar> \<le> 1"
proof -
  have one: "repr 1" "repr (- 1)" using repr_minus [of 1] by simp_all
  have s: "nsub (Fin a) (Fin b) = Fin (rnd (a - b))" using num_small [of "a - b"] assms by (simp add: nsub_def)
  have "\<bar>rnd (a - b)\<bar> \<le> 1" using assms one by (intro dbl.r_abs_le)
  moreover have k: "num k = Fin (rnd k) \<and> 0 \<le> rnd k \<and> rnd k \<le> 1" using assms by (intro unit_lit)
  ultimately have p: "\<bar>rnd (a - b) * rnd k\<bar> \<le> 1" by (simp add: abs_mult mult_le_one)
  then have "\<bar>rnd (rnd (a - b) * rnd k)\<bar> \<le> 1" using one by (intro dbl.r_abs_le)
  with s k p show ?thesis using num_small [of "rnd (a - b) * rnd k"] by simp
qed

lemma drift_finite:
  assumes "0 \<le> r" "r < 1" "price_ok x"
  shows "\<exists>d. nadd x (nadd (nmul (nsub (Fin r) (num (1/2))) (num (4/100)))
      (nmul (nsub (num (1/2)) x) (num (2/100)))) = Fin d"
proof -
  obtain p where p: "x = Fin p" "0 \<le> p" "p \<le> 1" using price_unit [OF assms(3)] by auto
  have h: "num (1/2) = Fin (rnd (1/2)) \<and> 0 \<le> rnd (1/2) \<and> rnd (1/2) \<le> 1" by (rule unit_lit) simp_all
  obtain d where d: "nmul (nsub (Fin r) (num (1/2))) (num (4/100)) = Fin d" "\<bar>d\<bar> \<le> 1"
    using pull_small [of r "rnd (1/2)" "4/100"] h assms by (auto simp: abs_le_iff)
  obtain e where e: "nmul (nsub (num (1/2)) x) (num (2/100)) = Fin e" "\<bar>e\<bar> \<le> 1"
    using pull_small [of "rnd (1/2)" p "2/100"] h p by (auto simp: abs_le_iff)
  have de: "\<bar>d + e\<bar> \<le> 2" using d e by linarith
  then have "num (d + e) = Fin (rnd (d + e))" by (intro num_small) simp
  moreover have "repr 2" "repr (- 2)" using repr_of_int [of 2] repr_of_int [of "- 2"] by simp_all
  then have "\<bar>rnd (d + e)\<bar> \<le> 2" using de by (intro dbl.r_abs_le)
  then have "\<bar>p + rnd (d + e)\<bar> \<le> 4" using p by linarith
  ultimately show ?thesis
    using num_small [of "p + rnd (d + e)"] unfolding d(1) e(1) unfolding p(1) by simp
qed

lemma clamp_repr:
  assumes "wf_num x" "x \<noteq> NaN" "repr lo" "repr hi" "lo \<le> hi"
  shows "\<exists>q. nmin (Fin hi) (nmax (Fin lo) x) = Fin q \<and> repr q \<and> lo \<le> q \<and> q \<le> hi"
  using assms by (cases x) (auto simp: nmin_def nmax_def)

lemma candleStep_ok:
  assumes "price_ok price"
  shows "candle_ok (fst (candleStep t price st)) \<and> cd_open (fst (candleStep t price st)) = price \<and>
    cd_time (fst (candleStep t price st)) = t"
proof -
  obtain p where p: "price = Fin p" "repr p" "rnd (2/100) \<le> p" "p \<le> rnd (98/100)"
    using assms unfolding price_ok_def by blast
  define st1 where "st1 = fst (mulberry32 st)"
  define st2 where "st2 = fst (mulberry32 st1)"
  obtain r1 where r1: "snd (mulberry32 st) = Fin r1" "0 \<le> r1" "r1 < 1" using mulberry32_unit by blast
  obtain r2 where r2: "snd (mulberry32 st1) = Fin r2" "0 \<le> r2" "r2 < 1" using mulberry32_unit by blast
  obtain r3 where r3: "snd (mulberry32 st2) = Fin r3" "0 \<le> r3" "r3 < 1" using mulberry32_unit by blast
  define x where "x = nadd price (nadd (nmul (nsub (Fin r1) (num (1/2))) (num (4/100)))
      (nmul (nsub (num (1/2)) price) (num (2/100))))"
  obtain d where d: "x = Fin d" using drift_finite [OF r1(2,3) assms] unfolding x_def by blast
  have wf: "wf_num x" unfolding x_def p(1) by (cases "nadd (nmul (nsub (Fin r1) (num (1/2))) (num (4/100)))
      (nmul (nsub (num (1/2)) (Fin p)) (num (2/100)))") simp_all
  have lits: "num (2/100) = Fin (rnd (2/100))" "num (98/100) = Fin (rnd (98/100))"
    "num (1/100) = Fin (rnd (1/100))" "num (99/100) = Fin (rnd (99/100))"
    by (simp_all add: num_small)
  have ord: "rnd (1/100) \<le> rnd (2/100)" "rnd (2/100) \<le> rnd (98/100)" "rnd (98/100) \<le> rnd (99/100)"
    by (simp_all add: rnd_mono)
  obtain q where q: "nmin (num (98/100)) (nmax (num (2/100)) x) = Fin q" "repr q"
    "rnd (2/100) \<le> q" "q \<le> rnd (98/100)"
    using clamp_repr [OF wf _ dbl.r_rep dbl.r_rep ord(2)] d lits by auto
  obtain u where u: "nmul (Fin r2) (num (1/100)) = Fin u" "0 \<le> u" "u \<le> 1" using wick_ok [OF r2(2,3)] by blast
  obtain w where w: "nmul (Fin r3) (num (1/100)) = Fin w" "0 \<le> w" "w \<le> 1" using wick_ok [OF r3(2,3)] by blast
  have unit: "0 \<le> rnd (2/100)" "rnd (98/100) \<le> 1" by (simp_all add: dbl.r_unit)
  define M where "M = max p q"
  define m where "m = min p q"
  have M: "repr M" "M \<le> rnd (99/100)" "\<bar>M + u\<bar> \<le> 4" using p q u ord unit by (auto simp: M_def max_def)
  have m: "repr m" "rnd (1/100) \<le> m" "\<bar>m - w\<bar> \<le> 4" using p q w ord unit by (auto simp: m_def min_def)
  have hi: "nadd (Fin M) (Fin u) = Fin (rnd (M + u))" "M \<le> rnd (M + u)"
    using num_small [OF M(3)] dbl.r_add_ge [OF M(1) u(2)] by simp_all
  have lo: "nsub (Fin m) (Fin w) = Fin (rnd (m - w))" "rnd (m - w) \<le> m"
    using num_small [OF m(3)] dbl.r_le [of "m - w" m] m(1) w(2) by (simp_all add: nsub_def)
  have c: "fst (candleStep t price st) =
      \<lparr>cd_time = t, cd_open = Fin p, cd_high = nmin (num (99/100)) (Fin (rnd (M + u))),
       cd_low = nmax (num (1/100)) (Fin (rnd (m - w))), cd_close = Fin q\<rparr>"
    using q(1) u(1) w(1) hi(1) lo(1) r1(1) r2(1) r3(1)
    unfolding candleStep_def x_def Let_def p(1)
    by (simp add: case_prod_beta st1_def [symmetric] st2_def [symmetric] M_def m_def del: divide_eq_eq)
  show ?thesis unfolding c using p q M m hi lo
    by (auto simp: candle_ok_def price_ok_def lits M_def [symmetric] m_def [symmetric])
qed

subsection \<open>The series\<close>

lemma start_ok: "price_ok (num (1/2))"
  by (auto simp: price_ok_def num_small rnd_mono dbl.r_rep)

fun chained :: "CandleDto list \<Rightarrow> bool" where
  "chained (c # d # cs) \<longleftrightarrow> cd_open d = cd_close c \<and> chained (d # cs)"
| "chained cs \<longleftrightarrow> True"

lemma candleLoop_length [simp]: "length (candleLoop n t i p st) = n"
  by (induction n t i p st rule: candleLoop.induct) (simp_all add: case_prod_beta)

lemma candleStep_time: "candleStep t' p st = ((fst (candleStep t p st))\<lparr>cd_time := t'\<rparr>, snd (candleStep t p st))"
  by (simp add: candleStep_def Let_def case_prod_beta)

lemma cd_time_step [simp]: "cd_time (fst (candleStep t p st)) = t"
  by (simp add: candleStep_def Let_def case_prod_beta)

lemma cd_open_step [simp]: "cd_open (fst (candleStep t p st)) = p"
  by (simp add: candleStep_def Let_def case_prod_beta)

lemma candleLoop_times: "map cd_time (candleLoop n t i p st) = map (\<lambda>k. t + int k * i) [0..<n]"
proof (induction n arbitrary: t p st)
  case (Suc n)
  have "[0..<Suc n] = 0 # map Suc [0..<n]" by (simp add: upt_conv_Cons map_Suc_upt del: upt_Suc)
  then show ?case using Suc by (simp add: case_prod_beta algebra_simps del: upt_Suc)
qed simp

lemma candleLoop_ok: "price_ok p \<Longrightarrow> list_all candle_ok (candleLoop n t i p st)"
proof (induction n arbitrary: t p st)
  case (Suc n)
  have c: "candle_ok (fst (candleStep t p st))" using candleStep_ok [OF Suc.prems] by blast
  then have "price_ok (cd_close (fst (candleStep t p st)))" by (simp add: candle_ok_def)
  then show ?case using c Suc.IH by (simp add: case_prod_beta)
qed simp

lemma candleLoop_open: "candleLoop (Suc n) t i p st = c # cs \<Longrightarrow> cd_open c = p"
  by (auto simp: case_prod_beta)

lemma candleLoop_chained: "chained (candleLoop n t i p st)"
proof (induction n arbitrary: t p st)
  case (Suc n)
  let ?c = "fst (candleStep t p st)"
  let ?cs = "candleLoop n (t + i) i (cd_close ?c) (snd (candleStep t p st))"
  show ?case
  proof (cases n)
    case 0
    then show ?thesis by (simp add: case_prod_beta)
  next
    case (Suc m)
    then obtain d ds where d: "?cs = d # ds" by (cases ?cs) (simp_all add: case_prod_beta)
    then have "cd_open d = cd_close ?c" using candleLoop_open Suc by blast
    then show ?thesis using Suc.IH [of "t + i" "cd_close ?c" "snd (candleStep t p st)"] d
      by (simp add: case_prod_beta)
  qed
qed simp

text \<open>Only the times of a series depend on where it starts.\<close>

lemma candleLoop_values:
  "map (\<lambda>c. c\<lparr>cd_time := 0\<rparr>) (candleLoop n t i p st) = map (\<lambda>c. c\<lparr>cd_time := 0\<rparr>) (candleLoop n t' i p st)"
proof (induction n arbitrary: t t' p st)
  case (Suc n)
  then show ?case by (simp add: case_prod_beta candleStep_time [of t' p st t])
qed simp

text \<open>The last candle is the bar that holds the present.\<close>

lemma mockCandles_last:
  assumes "0 < i" "0 < n"
  shows "\<exists>c. last (mockCandlesFor key i (int n) (Some now)) = c \<and> cd_time c \<le> now \<and> now < cd_time c + i"
proof -
  let ?cs = "mockCandlesFor key i (int n) (Some now)"
  have l: "length ?cs = n" by (simp add: mockCandlesFor_def)
  then have ne: "?cs \<noteq> []" using assms by auto
  have "cd_time (last ?cs) = last (map cd_time ?cs)" using ne by (simp add: last_map)
  also have "\<dots> = startBucketOf i (int n) (Some now) + int (n - 1) * i"
    using assms by (simp add: mockCandlesFor_def candleLoop_times last_map)
  also have "\<dots> = now div i * i" using assms by (simp add: startBucketOf_def Let_def of_nat_diff)
  finally have "cd_time (last ?cs) = now div i * i" .
  moreover have "now div i * i \<le> now" "now < now div i * i + i"
    using assms(1) div_mult_mod_eq [of now i] pos_mod_bound [of i now] pos_mod_sign [of i now] by linarith+
  ultimately show ?thesis by auto
qed

subsection \<open>No write succeeds\<close>

lemma mock_api [simp]:
  "api_getBlockhash (MockIndexerClient W now) = mockWriteError"
  "api_sendTransaction (MockIndexerClient W now) tx = mockWriteError"
  "api_getSignatureStatus (MockIndexerClient W now) sig k = mockWriteError"
  "api_getAccount (MockIndexerClient W now) a = Inr None"
  by (simp_all add: MockIndexerClient_def)

lemma mock_sender: "walletSender (MockIndexerClient W now) w = Some sender \<Longrightarrow> sender ixs = mockWriteError"
  by (auto simp: walletSender_def signAndRelay_def mockWriteError_def split: if_splits option.splits)

lemma relay_mockWriteError: "\<exists>e. relayAndConfirm W indexer lag mockWriteError = Inl e"
  by (simp add: relayAndConfirm_def mockWriteError_def Let_def)

lemma failed_with_not_success [simp]: "failed_with e \<noteq> WSuccess sig"
  by (simp add: failed_with_def split: prod.split)

lemma mock_write_fails:
  assumes "snd (writeRun W (MockIndexerClient W' now) lag w status build f) = WSuccess sig"
  shows "status = WSuccess sig \<and> isBusy status"
proof (cases "walletSender (MockIndexerClient W' now) w")
  case None
  then show ?thesis using assms by (simp add: writeRun_def Let_def split: if_splits)
next
  case (Some sender)
  have "sendAndConfirm W (MockIndexerClient W' now) lag sender ixs \<noteq> Inr s" for ixs s
    using mock_sender [OF Some] relay_mockWriteError [of W "MockIndexerClient W' now" lag]
    by (auto simp: sendAndConfirm_def)
  then show ?thesis using assms Some
    by (cases build) (auto simp: writeRun_def runWriteAction_def Let_def split: if_splits sum.splits)
qed

lemma mock_write_never_succeeds:
  "snd (writeRun W (MockIndexerClient W' now) lag w status build f) \<noteq> WSuccess sig"
  using mock_write_fails by (fastforce simp: isBusy_def)

text \<open>Nor does a sequence of steps complete: nothing has landed on a chain that does not exist.\<close>

lemma mock_not_landed: "\<not> stepAlreadyLanded W (MockIndexerClient W' now) step"
  by (simp add: stepAlreadyLanded_def split: option.split)

subsection \<open>Every page of the preview loads\<close>

lemma fixture_address:
  assumes "f \<in> set (FIXTURES W)"
  shows "\<exists>l. dm_address (mf_dto f) = fixturePubkey W l"
proof -
  have "dm_address (mf_dto f) \<in> set (MOCK_MARKET_PUBKEYS W)" using assms by (auto simp: MOCK_MARKET_PUBKEYS_def)
  then show ?thesis by (auto simp: pubkeys_labels)
qed

definition contribution_ok :: "web3 \<Rightarrow> ContributionDto \<Rightarrow> bool" where
  "contribution_ok W c \<longleftrightarrow>
     (\<exists>l s n. dc_contributor c = fixturePubkey W l \<and> dc_slot c = Some s \<and> BigIntStr s = Inr n)"

lemma makeContribution_ok:
  "BigIntStr (orElse slot ''1000'') = Inr n \<Longrightarrow> contribution_ok W (makeContribution W market label amt claimed late slot)"
  by (auto simp: contribution_ok_def makeContribution_def)

lemma makeContribution_ok_digits:
  "orElse slot ''1000'' \<noteq> [] \<Longrightarrow> list_all is_digit (orElse slot ''1000'') \<Longrightarrow>
     contribution_ok W (makeContribution W market label amt claimed late slot)"
  by (rule makeContribution_ok, rule BigIntStr_digits) (simp_all add: list_all_iff)

lemma makeContribution_ok_int:
  "0 \<le> n \<Longrightarrow> contribution_ok W (makeContribution W market label amt claimed late (Some (show_int n)))"
  by (rule makeContribution_ok, unfold orElse.simps show_int_def) (simp add: BigIntStr_dec_str)

lemma contributions_ok: "f \<in> set (FIXTURES W) \<Longrightarrow> list_all (contribution_ok W) (mf_contributions f)"
  by (auto simp: FIXTURES_def HAND_FIXTURES_def makeCat9FundingFixtures_def makeCat9ResolvedFixtures_def
      fixture_defs cat9FundingFixture_def cat9ResolvedFixture_def Let_def makeContribution_ok_int
      makeContribution_ok_digits is_digit_def code_of_def)

lemma preview_page:
  assumes W: "preview_lib W" and f: "f \<in> set (FIXTURES W)" and p: "\<forall>ss a. findProgramAddress W ss a \<noteq> None"
  shows "\<exists>d. fetchMarketDetail W (MockIndexerClient W now) (dm_address (mf_dto f)) = Inr d \<and>
    mapMarketDto W (mf_dto f) = Inr (mt_market d) \<and> mt_oracle d \<noteq> None \<and>
    length (mt_contributions d) = length (mf_contributions f)"
proof -
  let ?k = "dm_address (mf_dto f)"
  obtain m cs r orc where ok: "mapMarketDto W (mf_dto f) = Inr m"
    "seqR (map (mapContributionDto W) (mf_contributions f)) = Inr cs"
    "mapOpt mapReservesDto (mf_reserves f) = Inr r" "mf_oracle f = Some orc"
    using fixtures_ok [OF W f] unfolding fixture_ok_def by blast
  obtain l where l: "?k = fixturePubkey W l" using fixture_address [OF f] by blast
  have "\<exists>row. contributionRow W ?k c = Inr row" if c: "c \<in> set (mf_contributions f)" for c
  proof -
    obtain l' s n where s: "dc_contributor c = fixturePubkey W l'" "dc_slot c = Some s" "BigIntStr s = Inr n"
      using contributions_ok [OF f] c by (auto simp: contribution_ok_def list_all_iff)
    have "\<exists>x. mapContributionDto W c = Inr x" using ok(2) c by (auto simp: seqR_Inr_iff map_eq_conv dest: sym) (metis image_eqI imageE list.set_map)
    moreover obtain a where "findProgramAddress W [ascii ''contribution'', address_bytes (fixtureAddress l),
        address_bytes (fixtureAddress l')] (MARKET_PROGRAM_ID W) = Some a" using p by blast
    then have "\<exists>a. pda_contribution W (AddrStr ?k) (AddrStr (dc_contributor c)) None = Inr a"
      using pubkey_parses [OF W] by (auto simp: pda_contribution_def deriveMarket_def derive_def pubkeyBytes_def l s(1) newAddress_def)
    ultimately show ?thesis using s by (auto simp: contributionRow_def)
  qed
  then obtain row where "\<And>c. c \<in> set (mf_contributions f) \<Longrightarrow> contributionRow W ?k c = Inr (row c)" by metis
  then have rows: "seqR (map (contributionRow W ?k) (mf_contributions f)) = Inr (map row (mf_contributions f))"
    by (simp add: seqR_Inr_iff)
  have "mockMarketDetailFor W ?k = Some \<lparr>dd_market = mf_dto f, dd_contributions = mf_contributions f,
      dd_oracle = mf_oracle f, dd_reserves = mf_reserves f\<rparr>"
    using mockMarketDetailFor_hit f W by (simp add: preview_lib_def)
  then show ?thesis using ok rows by (simp add: fetchMarketDetail_def MockIndexerClient_def)
qed
lemma preview_page_missing:
  "base58_ok W \<Longrightarrow> k \<notin> set (MOCK_MARKET_PUBKEYS W) \<Longrightarrow>
     fetchMarketDetail W (MockIndexerClient W now) k = Inl (MarketNotFoundError k)"
  using mockMarketDetailFor_miss [of W k] by (simp add: fetchMarketDetail_def MockIndexerClient_def)

end
