(* ===== verification/Platform.thy ===== *)
theory Platform
  imports Preview Indexer StdWallet
begin

text \<open>
  The shell the app runs in: the clusters and RPC endpoints of \<open>lib/cluster.ts\<close> and
  \<open>lib/ClusterProvider.tsx\<close>, the mock and e2e modes (\<open>lib/mode.ts\<close>, \<open>market/lib/e2e.ts\<close>), the
  wallets scripted for them (\<open>lib/mockWrite.ts\<close>, \<open>lib/mockWallet.tsx\<close>, \<open>lib/e2eWallet.tsx\<close>), the
  choice of the providers (\<open>AppProviders.tsx\<close>, \<open>IndexerProvider.tsx\<close>), and the keyboard of
  \<open>ui/Tabs.tsx\<close>.

  What the build and the browser supply is the record \<open>Env\<close>: the variables of \<open>import.meta.env\<close>,
  the flag of a development build, and the window, absent on a server: its origin, the parameters of
  its address and the key that a test may inject.
\<close>

record Window =
  wi_origin :: string
  wi_search :: "string \<Rightarrow> string option"
  wi_secret :: "int list option"

record Env =
  ev_var :: "string \<Rightarrow> string option"
  ev_DEV :: bool
  ev_window :: "Window option"

text \<open>\<open>(value as string | undefined)?.trim() || undefined\<close>.\<close>

definition setting :: "Env \<Rightarrow> string \<Rightarrow> string option" where
  "setting E name =
     (case ev_var E name of
        Some v \<Rightarrow> if trim v = [] then None else Some (trim v)
      | None \<Rightarrow> None)"

subsection \<open>lib/cluster.ts\<close>

datatype Cluster = Localnet | Devnet | MainnetBeta

fun clusterName :: "Cluster \<Rightarrow> string" where
  "clusterName Localnet = ''localnet''"
| "clusterName Devnet = ''devnet''"
| "clusterName MainnetBeta = ''mainnet-beta''"

definition CLUSTERS :: "Cluster list" where
  "CLUSTERS = [Localnet, Devnet, MainnetBeta]"

fun CLUSTER_LABELS :: "Cluster \<Rightarrow> string" where
  "CLUSTER_LABELS Localnet = ''Localnet''"
| "CLUSTER_LABELS Devnet = ''Devnet''"
| "CLUSTER_LABELS MainnetBeta = ''Mainnet''"

definition RPC_OVERRIDE :: "Env \<Rightarrow> string option" where
  "RPC_OVERRIDE E = setting E ''VITE_RPC_URL''"

definition MAGIC_ROUTER_URL :: "Env \<Rightarrow> string option" where
  "MAGIC_ROUTER_URL E = setting E ''VITE_MAGIC_ROUTER_URL''"

definition GATEWAY_PATH :: string where
  "GATEWAY_PATH = ''/indexer/rpc''"

definition isGatewayMode :: "Env \<Rightarrow> bool" where
  "isGatewayMode E \<longleftrightarrow> RPC_OVERRIDE E = None"

definition isMagicRouter :: "Env \<Rightarrow> bool" where
  "isMagicRouter E \<longleftrightarrow> RPC_OVERRIDE E \<noteq> None \<and> MAGIC_ROUTER_URL E \<noteq> None"

definition clusterOf :: "string \<Rightarrow> Cluster option" where
  "clusterOf s = find_first (\<lambda>c. clusterName c = s) CLUSTERS"

definition gatewayCluster :: "Env \<Rightarrow> Cluster" where
  "gatewayCluster E =
     (case map_option trim (ev_var E ''VITE_CLUSTER'') of
        Some c \<Rightarrow> orElse (clusterOf c) MainnetBeta
      | None \<Rightarrow> MainnetBeta)"

definition endpointFor :: "Env \<Rightarrow> Cluster \<Rightarrow> string" where
  "endpointFor E cluster =
     (case RPC_OVERRIDE E of
        None \<Rightarrow> (case ev_window E of Some w \<Rightarrow> wi_origin w | None \<Rightarrow> []) @ GATEWAY_PATH
      | Some rpc \<Rightarrow>
          if MAGIC_ROUTER_URL E \<noteq> None \<and> cluster \<noteq> Localnet then the (MAGIC_ROUTER_URL E)
          else case cluster of
                 Localnet \<Rightarrow> rpc
               | Devnet \<Rightarrow> ''https://api.devnet.solana.com''
               | MainnetBeta \<Rightarrow> ''https://api.mainnet-beta.solana.com'')"

text \<open>\<open>stored\<close> is the item \<open>kassandra:cluster\<close> of the local storage.\<close>

definition readStoredCluster :: "Env \<Rightarrow> string option \<Rightarrow> Cluster" where
  "readStoredCluster E stored =
     (if isGatewayMode E then gatewayCluster E
      else if ev_window E = None then Localnet
      else case stored of
             Some s \<Rightarrow> if s = [] then Localnet else orElse (clusterOf s) Localnet
           | None \<Rightarrow> Localnet)"

text \<open>\<open>ClusterProvider\<close>: the state, the setter and the value of the context.\<close>

record ClusterCell =
  cc_cluster :: Cluster
  cc_stored :: "string option"

definition initialClusterCell :: "Env \<Rightarrow> string option \<Rightarrow> ClusterCell" where
  "initialClusterCell E stored = \<lparr>cc_cluster = readStoredCluster E stored, cc_stored = stored\<rparr>"

definition setCluster :: "Env \<Rightarrow> Cluster \<Rightarrow> ClusterCell \<Rightarrow> ClusterCell" where
  "setCluster E chosen c =
     c\<lparr>cc_cluster := chosen,
       cc_stored := (if ev_window E \<noteq> None then Some (clusterName chosen) else cc_stored c)\<rparr>"

definition clusterContext :: "Env \<Rightarrow> ClusterCell \<Rightarrow> Cluster \<times> string \<times> Cluster list" where
  "clusterContext E c = (cc_cluster c, endpointFor E (cc_cluster c), CLUSTERS)"

text \<open>The links of \<open>lib/explorer.ts\<close>, which depend on the cluster.\<close>

definition clusterTxUrl :: "Cluster \<Rightarrow> string \<Rightarrow> string option" where
  "clusterTxUrl cluster signature =
     (let base = ''https://explorer.solana.com/tx/'' @ signature in
      case cluster of
        Localnet \<Rightarrow> None
      | Devnet \<Rightarrow> Some (base @ ''?cluster=devnet'')
      | MainnetBeta \<Rightarrow> Some base)"

definition shortSignature :: "string \<Rightarrow> nat \<Rightarrow> nat \<Rightarrow> string" where
  "shortSignature signature h t =
     (if length signature \<le> h + t + 1 then signature
      else take h signature @ [CHR 0x85] @ (if t = 0 then signature else drop (length signature - t) signature))"

subsection \<open>lib/mode.ts\<close>

definition searchHas :: "Env \<Rightarrow> string \<Rightarrow> bool" where
  "searchHas E name = (case ev_window E of Some w \<Rightarrow> wi_search w name \<noteq> None | None \<Rightarrow> False)"

definition isMockMode :: "Env \<Rightarrow> bool" where
  "isMockMode E =
     (if ev_var E ''VITE_MOCK'' = Some ''1'' then True
      else if ev_DEV E \<and> ev_window E \<noteq> None then searchHas E ''mock''
      else False)"

definition isE2eMode :: "Env \<Rightarrow> bool" where
  "isE2eMode E =
     (if ev_var E ''VITE_E2E'' = Some ''1'' then True
      else if ev_DEV E \<and> ev_window E \<noteq> None then searchHas E ''e2e''
      else False)"

text \<open>The copy of \<open>market/lib/e2e.ts\<close>.\<close>

definition marketE2eMode :: "Env \<Rightarrow> bool" where
  "marketE2eMode E \<longleftrightarrow>
     (if ev_var E ''VITE_E2E'' = Some ''1'' then True
      else ev_DEV E \<and> ev_window E \<noteq> None \<and> searchHas E ''e2e'')"

subsection \<open>The scripted wallets\<close>

definition MOCK_PUBKEY :: string where
  "MOCK_PUBKEY = ''MockWa11etAdaL0ve1ace111111111111111111111111''"

definition searchParam :: "Env \<Rightarrow> string \<Rightarrow> string option" where
  "searchParam E name = (case ev_window E of None \<Rightarrow> None | Some w \<Rightarrow> wi_search w name)"

definition txMode :: "Env \<Rightarrow> string" where
  "txMode E = orElse (searchParam E ''tx'') ''success''"

definition mockWalletConnected :: "Env \<Rightarrow> bool" where
  "mockWalletConnected E \<longleftrightarrow> searchParam E ''wallet'' = Some ''connected''"

text \<open>What the scripted connection answers to a status poll: whether it reports an error.\<close>

definition mockStatusErr :: "Env \<Rightarrow> bool" where
  "mockStatusErr E \<longleftrightarrow> txMode E = ''failconfirm''"

text \<open>A thrown error has a name, a message, and a code or logs.\<close>

record MockWalletError =
  me_name :: string
  me_message :: string
  me_code :: "int option"
  me_logs :: "string list option"

definition mockSendTransaction :: "Env \<Rightarrow> MockWalletError + string" where
  "mockSendTransaction E =
     (if txMode E = ''reject'' then
        Inl \<lparr>me_name = ''WalletSignTransactionError'', me_message = ''User rejected the request.'',
             me_code = Some 4001, me_logs = None\<rparr>
      else if txMode E = ''error'' then
        Inl \<lparr>me_name = ''SendTransactionError'', me_message = ''Simulation failed'', me_code = None,
             me_logs = Some
               [''Program KassVxvXUEPr5apSr2MqiGva4VFtJXyYLLDFS3f83nY invoke [1]'',
                ''Program log: Error: WrongPhase'',
                ''Program KassVxvXUEPr5apSr2MqiGva4VFtJXyYLLDFS3f83nY failed: custom program error: 0x1'']\<rparr>
      else Inr ''mockSig1111111111111111111111111111111111111111111111111111111111'')"

text \<open>The value of the mock wallet as the write hooks read it; it has no signing functions.\<close>

definition MockWalletProvider :: "Env \<Rightarrow> address \<Rightarrow> Wallet" where
  "MockWalletProvider E mockPublicKey =
     \<lparr>w_connected = mockWalletConnected E,
      w_publicKey = (if mockWalletConnected E then Some mockPublicKey else None),
      w_signTransaction = None, w_signAllTransactions = None\<rparr>"

text \<open>
  The e2e wallet over a keypair library.  \<open>parseNumbers\<close> is \<open>JSON.parse\<close> of the variable, and the
  injected key wins over it.
\<close>

record 'k KeypairLib =
  kl_fromSecretKey :: "bytes \<Rightarrow> 'k res"
  kl_publicKey :: "'k \<Rightarrow> address"
  kl_sign :: "'k \<Rightarrow> Transaction \<Rightarrow> bytes res"

definition e2eSecret :: "Env \<Rightarrow> (string \<Rightarrow> int list res) \<Rightarrow> int list option res" where
  "e2eSecret E parseNumbers =
     (let envSecret = (if ev_DEV E then map_option trim (ev_var E ''VITE_E2E_WALLET_SECRET'') else None) in
      case (case ev_window E of Some w \<Rightarrow> wi_secret w | None \<Rightarrow> None) of
        Some s \<Rightarrow> Inr (Some s)
      | None \<Rightarrow> (if truthy envSecret then mapR Some (parseNumbers (orElse envSecret [])) else Inr None))"

text \<open>\<open>market/lib/e2eWallet.tsx\<close> takes the injected key only.\<close>

definition marketE2eSecret :: "Env \<Rightarrow> int list option" where
  "marketE2eSecret E = (case ev_window E of Some w \<Rightarrow> wi_secret w | None \<Rightarrow> None)"

text \<open>The key in flight, and the flag of the clean-up.\<close>

record 'k E2eCell =
  ek_keypair :: "'k option"
  ek_pending :: "'k res option"
  ek_cancelled :: bool

definition e2eEffect :: "'k KeypairLib \<Rightarrow> int list option \<Rightarrow> 'k E2eCell" where
  "e2eEffect K secret =
     \<lparr>ek_keypair = None,
      ek_pending =
        (case secret of
           Some s \<Rightarrow> if s = [] then None else Some (kl_fromSecretKey K (map word_of_int s))
         | None \<Rightarrow> None),
      ek_cancelled = False\<rparr>"

definition e2eSettle :: "'k E2eCell \<Rightarrow> 'k E2eCell" where
  "e2eSettle c =
     (case ek_pending c of
        Some (Inr kp) \<Rightarrow>
          (if ek_cancelled c then c\<lparr>ek_pending := None\<rparr> else c\<lparr>ek_keypair := Some kp, ek_pending := None\<rparr>)
      | _ \<Rightarrow> c\<lparr>ek_pending := None\<rparr>)"

definition e2eUnmount :: "'k E2eCell \<Rightarrow> 'k E2eCell" where
  "e2eUnmount c = c\<lparr>ek_cancelled := True\<rparr>"

definition e2eSign :: "'k KeypairLib \<Rightarrow> 'k option \<Rightarrow> SignTransaction" where
  "e2eSign K keypair tx =
     (case keypair of None \<Rightarrow> Inl (Error ''e2e wallet not ready'') | Some kp \<Rightarrow> kl_sign K kp tx)"

definition e2eSignAll :: "'k KeypairLib \<Rightarrow> 'k option \<Rightarrow> Transaction list \<Rightarrow> bytes list res" where
  "e2eSignAll K keypair txs =
     (case keypair of
        None \<Rightarrow> Inl (Error ''e2e wallet not ready'')
      | Some kp \<Rightarrow> seqR (map (kl_sign K kp) txs))"

definition e2eSendTransaction ::
  "'k KeypairLib \<Rightarrow> 'k option \<Rightarrow> string res \<Rightarrow> (bytes \<Rightarrow> string res) \<Rightarrow> Transaction \<Rightarrow> string res" where
  "e2eSendTransaction K keypair latestBlockhash sendRaw tx =
     (case keypair of
        None \<Rightarrow> Inl (Error ''e2e wallet not ready'')
      | Some kp \<Rightarrow>
          bindR latestBlockhash (\<lambda>h.
          bindR (kl_sign K kp (tx\<lparr>tr_feePayer := kl_publicKey K kp, tr_recentBlockhash := h\<rparr>)) sendRaw))"

definition E2eWalletProvider :: "'k KeypairLib \<Rightarrow> 'k E2eCell \<Rightarrow> Wallet" where
  "E2eWalletProvider K c =
     \<lparr>w_connected = (ek_keypair c \<noteq> None),
      w_publicKey = map_option (kl_publicKey K) (ek_keypair c),
      w_signTransaction = Some (e2eSign K (ek_keypair c)),
      w_signAllTransactions = Some (e2eSignAll K (ek_keypair c))\<rparr>"

subsection \<open>AppProviders.tsx, IndexerProvider.tsx\<close>

datatype WalletShell = MockShell | E2eShell | StandardShell

definition walletShell :: "Env \<Rightarrow> WalletShell" where
  "walletShell E = (if isMockMode E then MockShell else if isE2eMode E then E2eShell else StandardShell)"

text \<open>\<open>viteApi\<close> is the configured base of the indexer's API.\<close>

definition IndexerProvider :: "web3 \<Rightarrow> Fetch \<Rightarrow> Env \<Rightarrow> string option \<Rightarrow> int \<Rightarrow> IndexerReads" where
  "IndexerProvider W F E viteApi now =
     (if isMockMode E then MockIndexerClient W now else indexerClient W F viteApi)"

subsection \<open>ui/Tabs.tsx, hooks/useInitialReveal.ts\<close>

text \<open>The tab a key moves to, if the key is one of the tab list's.\<close>

definition tabKey :: "string list \<Rightarrow> string \<Rightarrow> string \<Rightarrow> string option" where
  "tabKey ids current key =
     (case find_first (\<lambda>i. ids ! i = current) [0..<length ids] of
        None \<Rightarrow> None
      | Some i \<Rightarrow>
          if key = ''ArrowRight'' \<or> key = ''ArrowDown'' then Some (ids ! ((i + 1) mod length ids))
          else if key = ''ArrowLeft'' \<or> key = ''ArrowUp'' then Some (ids ! ((i + length ids - 1) mod length ids))
          else if key = ''Home'' then Some (ids ! 0)
          else if key = ''End'' then Some (ids ! (length ids - 1))
          else None)"

text \<open>One render and its effect: the value returned, and the ref after the effect.\<close>

definition useInitialReveal :: "bool \<Rightarrow> bool \<Rightarrow> bool \<times> bool" where
  "useInitialReveal ready seen = (ready \<and> \<not> seen, seen \<or> ready)"

fun reveals :: "bool \<Rightarrow> bool list \<Rightarrow> bool list" where
  "reveals seen [] = []"
| "reveals seen (ready # rs) = fst (useInitialReveal ready seen) # reveals (snd (useInitialReveal ready seen)) rs"

subsection \<open>What a production build can do\<close>

text \<open>Without the flags of the build, nothing in the browser turns the mock or the e2e mode on.\<close>

definition production :: "Env \<Rightarrow> bool" where
  "production E \<longleftrightarrow> \<not> ev_DEV E \<and> ev_var E ''VITE_MOCK'' \<noteq> Some ''1'' \<and> ev_var E ''VITE_E2E'' \<noteq> Some ''1''"

lemma production_shell:
  assumes "production E"
  shows "walletShell E = StandardShell" and "IndexerProvider W F E api now = indexerClient W F api"
    and "\<not> marketE2eMode E"
  using assms
  by (simp_all add: production_def walletShell_def IndexerProvider_def isMockMode_def isE2eMode_def marketE2eMode_def)

lemma e2e_modes_agree: "marketE2eMode E = isE2eMode E"
  by (simp add: marketE2eMode_def isE2eMode_def)

text \<open>The secret of the e2e wallet is not read from the build's variables in production.\<close>

lemma production_secret: "\<not> ev_DEV E \<Longrightarrow> e2eSecret E parseNumbers = Inr (marketE2eSecret E)"
  by (simp add: e2eSecret_def marketE2eSecret_def truthy_def split: option.split)

subsection \<open>Endpoints\<close>

text \<open>In gateway mode every cluster is reached through the page's own origin.\<close>

lemma gateway_endpoint:
  "isGatewayMode E \<Longrightarrow> ev_window E = Some w \<Longrightarrow> endpointFor E cluster = wi_origin w @ ''/indexer/rpc''"
  by (simp add: isGatewayMode_def endpointFor_def GATEWAY_PATH_def)

lemma localnet_direct: "RPC_OVERRIDE E = Some rpc \<Longrightarrow> endpointFor E Localnet = rpc"
  by (simp add: endpointFor_def)

lemma magic_router_endpoint:
  "isMagicRouter E \<Longrightarrow> endpointFor E cluster =
     (if cluster = Localnet then the (RPC_OVERRIDE E) else the (MAGIC_ROUTER_URL E))"
  by (cases cluster) (auto simp: isMagicRouter_def endpointFor_def split: option.split)

lemma setting_trimmed: "setting E n = Some v \<Longrightarrow> v \<noteq> [] \<and> \<not> is_space (hd v) \<and> \<not> is_space (last v)"
  using trim_no_space_ends by (auto simp: setting_def split: option.splits if_splits)

lemma clusterOf_name [simp]: "clusterOf (clusterName c) = Some c"
  by (cases c) (simp_all add: clusterOf_def CLUSTERS_def)

lemma clusterOf_Some: "clusterOf s = Some c \<Longrightarrow> s = clusterName c"
  by (auto simp: clusterOf_def CLUSTERS_def split: if_splits)

text \<open>A chosen cluster is the one of the next load, where it can be chosen at all.\<close>

lemma cluster_remembered:
  "\<not> isGatewayMode E \<Longrightarrow> ev_window E \<noteq> None \<Longrightarrow>
     cc_cluster (initialClusterCell E (cc_stored (setCluster E c cell))) = c"
  by (cases c) (simp_all add: initialClusterCell_def setCluster_def readStoredCluster_def
      clusterOf_name [of Localnet, simplified] clusterOf_name [of Devnet, simplified]
      clusterOf_name [of MainnetBeta, simplified])

lemma gateway_ignores_storage: "isGatewayMode E \<Longrightarrow> readStoredCluster E stored = gatewayCluster E"
  by (simp add: readStoredCluster_def)

subsection \<open>Scripted wallets\<close>

text \<open>The mock wallet never passes the gate of the write hooks, connected or not.\<close>

lemma mock_wallet_gate:
  "walletSender indexer (MockWalletProvider E k) = None"
  "\<not> isBusy status \<Longrightarrow>
     snd (writeRun W indexer lag (MockWalletProvider E k) status build f) =
       WError ''Connect a wallet to participate.'' None"
  by (simp_all add: walletSender_def MockWalletProvider_def writeRun_def Let_def split: option.split)

lemma e2e_wallet_gate:
  "walletSender indexer (E2eWalletProvider K c) =
     map_option (\<lambda>kp. signAndRelay indexer (kl_publicKey K kp) (kl_sign K kp)) (ek_keypair c)"
  by (cases "ek_keypair c") (simp_all add: walletSender_def E2eWalletProvider_def e2eSign_def [abs_def])

lemma e2e_unmounted: "ek_keypair c = None \<Longrightarrow> ek_keypair (e2eSettle (e2eUnmount c)) = None"
  by (simp add: e2eSettle_def e2eUnmount_def split: option.split sum.split)

subsection \<open>Tabs and reveals\<close>

lemma find_index:
  assumes "distinct ids" "i < length ids"
  shows "find_first (\<lambda>j. ids ! j = ids ! i) [0..<length ids] = Some i"
proof (cases "find_first (\<lambda>j. ids ! j = ids ! i) [0..<length ids]")
  case None
  then show ?thesis using assms find_first_None [of "\<lambda>j. ids ! j = ids ! i" "[0..<length ids]"] by auto
next
  case (Some j)
  then show ?thesis using find_first_Some [OF Some] assms by (auto simp: nth_eq_iff_index_eq)
qed

lemma tabKey_nth:
  assumes "distinct ids" "i < length ids"
  shows "tabKey ids (ids ! i) ''ArrowRight'' = Some (ids ! ((i + 1) mod length ids))"
    and "tabKey ids (ids ! i) ''ArrowLeft'' = Some (ids ! ((i + length ids - 1) mod length ids))"
  using find_index [OF assms] by (simp_all add: tabKey_def)

lemma tabKey_member: "tabKey ids current key = Some t \<Longrightarrow> t \<in> set ids"
proof -
  assume t: "tabKey ids current key = Some t"
  then obtain i where i: "find_first (\<lambda>i. ids ! i = current) [0..<length ids] = Some i"
    by (auto simp: tabKey_def split: option.splits)
  then have "0 < length ids" using find_first_Some [OF i] by auto
  then show ?thesis using t i by (auto simp: tabKey_def split: if_splits)
qed

text \<open>The arrow keys undo each other.\<close>

lemma tabKey_back:
  assumes "distinct ids" "t \<in> set ids" "tabKey ids t ''ArrowRight'' = Some u"
  shows "tabKey ids u ''ArrowLeft'' = Some t"
proof -
  obtain i where i: "i < length ids" "t = ids ! i" using assms(2) by (metis in_set_conv_nth)
  let ?j = "(i + 1) mod length ids"
  have "0 < length ids" using i by auto
  then have j: "?j < length ids" by (rule mod_less_divisor)
  have u: "u = ids ! ?j" using assms(3) tabKey_nth(1) [OF assms(1) i(1)] i(2) by simp
  have "(?j + length ids - 1) mod length ids = i"
  proof (cases "i + 1 = length ids")
    case True
    then show ?thesis using i by simp
  next
    case False
    then have "?j = i + 1" using i by simp
    then show ?thesis using i by simp
  qed
  then show ?thesis using tabKey_nth(2) [OF assms(1) j] i(2) u by simp
qed

text \<open>Over all renders, the entrance is announced at most once, and at the first ready render.\<close>

lemma reveals_seen: "reveals True rs = replicate (length rs) False"
  by (induction rs) (simp_all add: useInitialReveal_def)

lemma reveals_once: "reveals False rs = map (\<lambda>i. rs ! i \<and> \<not> (\<exists>j<i. rs ! j)) [0..<length rs]"
proof (induction rs)
  case (Cons r rs)
  have u: "[0..<length (r # rs)] = 0 # map Suc [0..<length rs]"
    by (simp add: upt_conv_Cons map_Suc_upt del: upt_Suc)
  show ?case using Cons unfolding u
    by (cases r) (simp_all add: useInitialReveal_def reveals_seen comp_def All_less_Suc2 map_replicate_const del: upt_Suc)
qed simp

end
