(* ===== verification/ChartLife.thy ===== *)
theory ChartLife
  imports Chart
begin

text \<open>
  The life of the price chart, \<open>app/src/components/markets/PriceChart.tsx\<close>: its state and refs as a
  record, and every event that reaches it as a function on that record: mounting, a render with other
  series, another window, a reload, the poll, a load that settles, the tick of the clock and unmounting.
  \<open>chart_step\<close> takes them in any order.

  A line holds the points handed to it since its last \<open>setData\<close>.  The chart library refuses an update
  that is not newer than the last point, and data that does not ascend; the invariant is that neither
  happens, as long as no candle is later than the clock (\<open>candles_ok\<close>).  \<open>clock_behind\<close> shows what
  happens otherwise.
\<close>

subsection \<open>The component\<close>

type_synonym Lines = "(string \<times> GridPoint list) list"

text \<open>A load in flight, with what its closure has captured; \<open>active\<close> is whether its run is the current one.\<close>

record ChartLoad =
  lo_run :: nat
  lo_pubkeys :: "string list"
  lo_fit :: bool
  lo_window :: int
  lo_group :: bool

record ChartCell =
  ch_mounted :: bool
  ch_specs :: "ChartSeriesSpec list"
  ch_group :: bool
  ch_window :: int
  ch_lines :: Lines
  ch_states :: PubkeyStates
  ch_range :: "(int \<times> int) option"
  ch_run :: nat
  ch_pubkeys :: "string list"
  ch_loads :: "ChartLoad list"
  ch_empty :: bool
  ch_error :: bool

definition initialChart :: "ChartSeriesSpec list \<Rightarrow> bool \<Rightarrow> ChartCell" where
  "initialChart specs isGroup =
     \<lparr>ch_mounted = False, ch_specs = specs, ch_group = isGroup, ch_window = 3600, ch_lines = [], ch_states = [],
      ch_range = None, ch_run = 0, ch_pubkeys = [], ch_loads = [], ch_empty = False, ch_error = False\<rparr>"

fun joinComma :: "string list \<Rightarrow> string" where
  "joinComma [] = []"
| "joinComma [s] = s"
| "joinComma (s # ss) = s @ '','' @ joinComma ss"

definition specKeys :: "ChartSeriesSpec list \<Rightarrow> string" where
  "specKeys specs = joinComma (map cs_key specs)"

definition lineKeys :: "Lines \<Rightarrow> string set" where
  "lineKeys lines = fst ` set lines"

text \<open>\<open>setData\<close> and \<open>update\<close> of the lines.\<close>

definition setData :: "(string \<times> GridPoint list) list \<Rightarrow> Lines \<Rightarrow> Lines" where
  "setData data lines = fold (\<lambda>(k, g). AList.update k g) data lines"

definition appendPoint :: "string \<times> int \<times> jsnum \<Rightarrow> Lines \<Rightarrow> Lines" where
  "appendPoint u lines =
     (case u of (k, b, x) \<Rightarrow>
       AList.update k (orElse (map_of lines k) [] @ [\<lparr>gp_time = b, gp_value = Some x\<rparr>]) lines)"

definition plotLines :: "int \<Rightarrow> bool \<Rightarrow> int \<Rightarrow> bool \<Rightarrow> ChartCell \<Rightarrow> ChartCell" where
  "plotLines nowSec fit windowSecs isGroup c =
     (let p = replot windowSecs isGroup nowSec (ch_specs c) (lineKeys (ch_lines c)) fit (ch_states c)
      in c\<lparr>ch_states := pl_states p, ch_lines := setData (pl_data p) (ch_lines c),
           ch_range := (case pl_range p of Some r \<Rightarrow> Some r | None \<Rightarrow> ch_range c)\<rparr>)"

text \<open>The effect on the set of keys: the old lines go, every series gets a new one, and the window is framed.\<close>

definition linesEffect :: "int \<Rightarrow> ChartCell \<Rightarrow> ChartCell" where
  "linesEffect nowSec c =
     plotLines nowSec True (ch_window c) (ch_group c)
       (c\<lparr>ch_lines := fold (\<lambda>s. AList.update (cs_key s) []) (ch_specs c) []\<rparr>)"

definition beginLoad :: "bool \<Rightarrow> ChartCell \<Rightarrow> ChartCell" where
  "beginLoad fit c =
     c\<lparr>ch_loads := ch_loads c @
         [\<lparr>lo_run = ch_run c, lo_pubkeys = ch_pubkeys c, lo_fit = fit, lo_window = ch_window c,
           lo_group = ch_group c\<rparr>]\<rparr>"

text \<open>The load effect: its cleanup ends the previous run, and the first load frames the window.\<close>

definition loadEffect :: "ChartCell \<Rightarrow> ChartCell" where
  "loadEffect c = beginLoad True (c\<lparr>ch_run := Suc (ch_run c), ch_pubkeys := chartPubkeys (ch_specs c)\<rparr>)"

subsection \<open>The events\<close>

definition chartMount :: "int \<Rightarrow> ChartCell \<Rightarrow> ChartCell" where
  "chartMount nowSec c = loadEffect (linesEffect nowSec (c\<lparr>ch_mounted := True\<rparr>))"

definition chartRender :: "int \<Rightarrow> ChartSeriesSpec list \<Rightarrow> bool \<Rightarrow> ChartCell \<Rightarrow> ChartCell" where
  "chartRender nowSec specs isGroup c =
     (let c' = c\<lparr>ch_specs := specs, ch_group := isGroup\<rparr> in
      if specKeys specs \<noteq> specKeys (ch_specs c) \<or> isGroup \<noteq> ch_group c
      then loadEffect (linesEffect nowSec c') else c')"

definition setWindowSecs :: "int \<Rightarrow> ChartCell \<Rightarrow> ChartCell" where
  "setWindowSecs w c = (if w = ch_window c then c else loadEffect (c\<lparr>ch_window := w\<rparr>))"

text \<open>A load that settles: dropped when its run has ended.\<close>

definition loadSettle :: "int \<Rightarrow> nat \<Rightarrow> CandleDto list res list \<Rightarrow> ChartCell \<Rightarrow> ChartCell" where
  "loadSettle nowSec i results c =
     (let l = ch_loads c ! i;
          c' = c\<lparr>ch_loads := take i (ch_loads c) @ drop (Suc i) (ch_loads c)\<rparr> in
      if lo_run l \<noteq> ch_run c then c'
      else let (sts, err, emp) = loadCandles (lo_pubkeys l) results (ch_states c) in
        plotLines nowSec (lo_fit l) (lo_window l) (lo_group l)
          (c'\<lparr>ch_states := sts, ch_error := err, ch_empty := emp\<rparr>))"

text \<open>The tick: \<open>None\<close> if its loop did not end.\<close>

definition chartTick :: "int \<Rightarrow> ChartCell \<Rightarrow> ChartCell option" where
  "chartTick nowMs c =
     map_option (\<lambda>(sts, ups). c\<lparr>ch_states := sts, ch_lines := fold appendPoint ups (ch_lines c)\<rparr>)
       (rollForward (ch_window c) (ch_group c) nowMs (ch_specs c) (lineKeys (ch_lines c)) (ch_states c))"

definition chartUnmount :: "ChartCell \<Rightarrow> ChartCell" where
  "chartUnmount c = c\<lparr>ch_mounted := False, ch_lines := [], ch_run := Suc (ch_run c)\<rparr>"

subsection \<open>Every order of events\<close>

text \<open>
  What the page hands to the chart: the keys are distinct, and each is made of its market's address
  and its outcome.  No address has a comma or is empty.
\<close>

definition specs_ok :: "ChartSeriesSpec list \<Rightarrow> bool" where
  "specs_ok specs \<longleftrightarrow>
     distinct (map cs_key specs) \<and>
     (\<forall>s\<in>set specs. CHR '','' \<notin> set (cs_pubkey s) \<and>
        cs_key s = beliefKey (cs_pubkey s) (if cs_invert s then ''no'' else ''yes''))"

text \<open>The cached candles are on the window's grid and none is later than the clock.\<close>

definition candles_ok :: "int \<Rightarrow> int \<Rightarrow> PubkeyStates \<Rightarrow> bool" where
  "candles_ok windowSecs nowSec sts \<longleftrightarrow>
     (\<forall>(pk, st)\<in>set sts. \<forall>k\<in>set (ps_candles st). cd_time k \<le> nowSec \<and> stepOf windowSecs dvd cd_time k)"

inductive chart_step :: "ChartCell \<Rightarrow> ChartCell \<Rightarrow> bool" where
  Mount: "\<not> ch_mounted c \<Longrightarrow> candles_ok (ch_window c) nowSec (ch_states c) \<Longrightarrow> chart_step c (chartMount nowSec c)"
| Render: "ch_mounted c \<Longrightarrow> specs_ok specs \<Longrightarrow> candles_ok (ch_window c) nowSec (ch_states c) \<Longrightarrow>
    chart_step c (chartRender nowSec specs isGroup c)"
| Window: "ch_mounted c \<Longrightarrow> w \<in> snd ` set WINDOWS \<Longrightarrow> chart_step c (setWindowSecs w c)"
| Reload: "ch_mounted c \<Longrightarrow> chart_step c (loadEffect c)"
| Poll: "ch_mounted c \<Longrightarrow> chart_step c (beginLoad False c)"
| Settle: "i < length (ch_loads c) \<Longrightarrow> length results = length (lo_pubkeys (ch_loads c ! i)) \<Longrightarrow>
    candles_ok (lo_window (ch_loads c ! i)) nowSec
      (fst (loadCandles (lo_pubkeys (ch_loads c ! i)) results (ch_states c))) \<Longrightarrow>
    chart_step c (loadSettle nowSec i results c)"
| Tick: "ch_mounted c \<Longrightarrow> chartTick nowMs c = Some c' \<Longrightarrow> chart_step c c'"
| Unmount: "ch_mounted c \<Longrightarrow> chart_step c (chartUnmount c)"

inductive chart_reach :: "ChartSeriesSpec list \<Rightarrow> bool \<Rightarrow> ChartCell \<Rightarrow> bool" for specs isGroup where
  start: "specs_ok specs \<Longrightarrow> chart_reach specs isGroup (initialChart specs isGroup)"
| step: "chart_reach specs isGroup c \<Longrightarrow> chart_step c c' \<Longrightarrow> chart_reach specs isGroup c'"

inductive_cases chart_stepE: "chart_step c c'"

subsection \<open>One time axis\<close>

definition windowAxis :: "int \<Rightarrow> int \<Rightarrow> int list" where
  "windowAxis windowSecs nowSec =
     map (\<lambda>i. nowSec div stepOf windowSecs * stepOf windowSecs - (barsOf windowSecs - 1 - i) * stepOf windowSecs)
       [0..barsOf windowSecs - 1]"

definition ascending :: "GridPoint list \<Rightarrow> bool" where
  "ascending g \<longleftrightarrow> sorted_wrt (<) (map gp_time g)"

lemma window_step:
  assumes "w \<in> snd ` set WINDOWS"
  shows "0 \<le> w" "w \<le> 2 ^ 50" "0 < stepOf w" "1 \<le> barsOf w"
proof -
  show w: "0 \<le> w" "w \<le> 2 ^ 50" using assms by (auto simp: WINDOWS_def)
  have p: "0 < w" using assms by (auto simp: WINDOWS_def)
  show "0 < stepOf w" using stepOf_pos(1) [OF w] by simp
  obtain n where n: "gridBars w = Fin (of_int n)" "w \<le> n * exactStep w" using gridBars_exact [OF w] by blast
  have "0 < n * exactStep w" using n(2) p by linarith
  then have "0 < n" using exactStep_bounds(1) [OF w] by (simp add: zero_less_mult_iff)
  then show "1 \<le> barsOf w" using n(1) by (simp add: barsOf_def intOf_def)
qed

lemma windowAxis_ascending: "0 < stepOf w \<Longrightarrow> sorted_wrt (<) (windowAxis w now)"
proof -
  assume s: "0 < stepOf w"
  have "sorted_wrt (<) [0..barsOf w - 1]" by simp
  moreover have "x < y \<Longrightarrow> a - (n - x) * stepOf w < a - (n - y) * stepOf w" for x y a n :: int
    using s by (simp add: algebra_simps)
  ultimately show ?thesis
    unfolding windowAxis_def sorted_wrt_map by (rule sorted_wrt_mono_rel [rotated]) blast
qed

lemma grid_last:
  assumes cs: "\<forall>k\<in>set cs. cd_time k \<le> now \<and> step dvd cd_time k" and "cs \<noteq> []" and s: "0 < step" "1 \<le> bars"
  shows "buildGrid cs step now bars \<noteq> []" "gp_time (last (buildGrid cs step now bars)) = now div step * step"
proof -
  let ?c = "now div step * step"
  have below: "t \<le> ?c" if "step dvd t" "t \<le> now" for t
  proof -
    obtain k where "t = step * k" using \<open>step dvd t\<close> by blast
    then show ?thesis using \<open>t \<le> now\<close> s(1) zdiv_mono1 [of t now step] by (simp add: mult.commute)
  qed
  have h: "cd_time (last cs) \<le> ?c" "cd_time (hd cs) \<le> ?c" "step dvd cd_time (hd cs)"
    using cs \<open>cs \<noteq> []\<close> below by auto
  let ?s = "gridStart cs step now bars"
  have e: "gridEnd cs step now = ?c" using h(1) by (simp add: gridEnd_def)
  have "step dvd ?s" using h(3) by (simp add: gridStart_def e max_def)
  then have d: "step dvd ?c - ?s" by simp
  have le: "?s \<le> ?c" using h(2) s by (simp add: gridStart_def e)
  have q: "0 \<le> (?c - ?s) div step" using le s(1) by (simp add: pos_imp_zdiv_nonneg_iff)
  note g = buildGrid_eq(1) [OF \<open>cs \<noteq> []\<close> s(1), of now bars, unfolded e]
  show "buildGrid cs step now bars \<noteq> []" using q by (simp add: g)
  have "last [0..(?c - ?s) div step] = (?c - ?s) div step" using q by (simp add: upto_rec2)
  then have "gp_time (last (buildGrid cs step now bars)) = ?s + (?c - ?s) div step * step"
    using q by (simp add: g last_map)
  then show "gp_time (last (buildGrid cs step now bars)) = ?c" using d by simp
qed

text \<open>With such candles every grid of a plot that is not empty has the times of the window.\<close>

lemma specGrid_axis:
  assumes w: "w \<in> snd ` set WINDOWS" and cs: "\<forall>k\<in>set (ps_candles st). cd_time k \<le> now \<and> stepOf w dvd cd_time k"
  shows "map gp_time (specGrid w now st) = [] \<or> map gp_time (specGrid w now st) = windowAxis w now"
proof (cases "ps_candles st = []")
  case True
  then show ?thesis by (simp add: specGrid_def buildWindowedGrid_def buildGrid_def)
next
  case False
  let ?g = "specGrid w now st" and ?step = "stepOf w" and ?n = "barsOf w"
  note s = window_step [OF w]
  note core = grid_last [OF cs False s(3,4)]
  note g = buildWindowedGrid_nth [OF False s(3,4) core(1), folded specGrid_def]
  have ne: "?g \<noteq> []" using g(1) s(4) by auto
  have "last ?g = last (buildGrid (ps_candles st) ?step now ?n)"
    using core(1) by (simp add: specGrid_def buildWindowedGrid_def Let_def)
  then have l: "gp_time (last ?g) = now div ?step * ?step" using core(2) by simp
  have "gp_time (last ?g) = gp_time (hd ?g) + int (length ?g - 1) * ?step"
    using g(2) [of "length ?g - 1"] ne by (simp add: last_conv_nth)
  then have h: "gp_time (hd ?g) = now div ?step * ?step - (?n - 1) * ?step"
    using l g(1) s(4) by (simp add: of_nat_diff)
  have "map gp_time ?g = windowAxis w now"
  proof (rule nth_equalityI)
    show len: "length (map gp_time ?g) = length (windowAxis w now)" using g(1) s(4) by (simp add: windowAxis_def)
    show "map gp_time ?g ! i = windowAxis w now ! i" if "i < length (map gp_time ?g)" for i
      using g(2) [of i] that h len by (simp add: windowAxis_def algebra_simps)
  qed
  then show ?thesis ..
qed

lemma invertGrid_times [simp]: "map gp_time (invertGrid g) = map gp_time g" "invertGrid g = [] \<longleftrightarrow> g = []"
  by (simp_all add: invertGrid_def)

lemma foldl_max_length:
  "foldl (\<lambda>m g. max m (length g)) m gs = n \<longleftrightarrow>
     (m \<le> n \<and> (\<forall>g\<in>set gs. length g \<le> n) \<and> (m = n \<or> (\<exists>g\<in>set gs. length g = n)))"
proof (induction gs arbitrary: m)
  case (Cons g gs)
  then show ?case by (auto simp: max_def)
qed auto

text \<open>Every grid of the common length gets the times of the first one of it.\<close>

lemma normalize_shape:
  assumes "foldl (\<lambda>m g. max m (length g)) 0 grids = n" "n \<noteq> 0" "find_first (\<lambda>g. length g = n) grids = Some a"
  shows "\<exists>V. normalizeGridsAcrossGroup grids odds = map (\<lambda>(j, g). if length g \<noteq> n then []
    else map (\<lambda>i. \<lparr>gp_time = gp_time (a ! i), gp_value = V i ! j\<rparr>) [0..<n]) (zip [0..<length grids] grids)"
  unfolding normalizeGridsAcrossGroup_def Let_def assms(1,3) using assms(2)
  by (simp only: if_False orElse.simps) (rule exI, rule refl)

text \<open>On one axis the normalisation leaves the times of every grid as they are.\<close>

lemma normalize_times:
  assumes "\<forall>g\<in>set grids. map gp_time g = [] \<or> map gp_time g = axis"
  shows "map (map gp_time) (normalizeGridsAcrossGroup grids odds) = map (map gp_time) grids"
proof -
  define n where "n = foldl (\<lambda>m g. max m (length g)) 0 grids"
  have n: "\<forall>g\<in>set grids. length g \<le> n" "n = 0 \<or> (\<exists>g\<in>set grids. length g = n)"
    using foldl_max_length [of 0 grids n] n_def by auto
  show ?thesis
  proof (cases "n = 0")
    case True
    then show ?thesis by (simp add: normalizeGridsAcrossGroup_def n_def Let_def)
  next
    case False
    then obtain g0 where g0: "g0 \<in> set grids" "length g0 = n" using n(2) by blast
    have ax: "map gp_time g = axis" if "g \<in> set grids" "length g = n" for g using assms that False by auto
    have la: "length axis = n" using ax [OF g0] g0(2) by (metis length_map)
    have full: "length g = n" if "g \<in> set grids" "g \<noteq> []" for g using assms that la by (metis Nil_is_map_conv length_map)
    obtain a where a: "find_first (\<lambda>g. length g = n) grids = Some a"
      using find_first_None [of "\<lambda>g. length g = n" grids] g0 by fastforce
    then have ta: "map gp_time a = axis" using find_first_Some [OF a] ax by blast
    have nth: "gp_time (a ! i) = axis ! i" if "i < n" for i
      using ta la that by (metis length_map nth_map)
    obtain V where V: "normalizeGridsAcrossGroup grids odds = map (\<lambda>(j, g). if length g \<noteq> n then []
        else map (\<lambda>i. \<lparr>gp_time = gp_time (a ! i), gp_value = V i ! j\<rparr>) [0..<n]) (zip [0..<length grids] grids)"
      using normalize_shape [OF n_def [symmetric] False a] ..
    have times: "map gp_time (grids ! j) = (if length (grids ! j) \<noteq> n then [] else map (\<lambda>i. gp_time (a ! i)) [0..<n])"
      if j: "j < length grids" for j
    proof (cases "length (grids ! j) = n")
      case True
      then have "map gp_time (grids ! j) = axis" using ax j by simp
      moreover have "map (\<lambda>i. gp_time (a ! i)) [0..<n] = axis"
        using nth la by (intro nth_equalityI) simp_all
      ultimately show ?thesis using True by simp
    next
      case False
      then show ?thesis using full j by (metis list.simps(8) nth_mem)
    qed
    show ?thesis by (rule nth_equalityI) (simp_all add: V times comp_def)
  qed
qed


subsection \<open>What a plot leaves\<close>

lemma lineKeys_setData: "lineKeys (setData data lines) = fst ` set data \<union> lineKeys lines"
proof (induction data arbitrary: lines)
  case (Cons p data)
  obtain k g where "p = (k, g)" by (cases p)
  then show ?case using Cons [of "AList.update k g lines"] by (auto simp: setData_def lineKeys_def dom_update)
qed (simp add: setData_def)

lemma map_of_setData: "map_of (setData data lines) = map_of lines ++ map_of (rev data)"
proof (induction data arbitrary: lines)
  case (Cons p data)
  obtain k g where p: "p = (k, g)" by (cases p)
  then have "map_of (setData (p # data) lines) = (map_of lines)(k \<mapsto> g) ++ map_of (rev data)"
    using Cons [of "AList.update k g lines"] by (simp add: setData_def update_conv' fun_upd_def)
  also have "\<dots> = map_of lines ++ map_of (rev data @ [p])" by (simp add: p fun_eq_iff map_add_def split: option.split)
  finally show ?case by simp
qed (simp add: setData_def)

text \<open>A plot replaces the state of every plotted market by \<open>plotted\<close>, which is idempotent.\<close>

definition replotted :: "int \<Rightarrow> int \<Rightarrow> PubkeyState \<Rightarrow> PubkeyState" where
  "replotted windowSecs nowSec st = plotted (specGrid windowSecs nowSec st) st"

lemma replotted_idem [simp]:
  "ps_candles (replotted w now st) = ps_candles st" "specGrid w now (replotted w now st) = specGrid w now st"
  "replotted w now (replotted w now st) = replotted w now st"
  by (simp_all add: replotted_def plotted_def specGrid_def)

lemma plotSpec_eq: "plotSpec w now s sts = AList.update (cs_pubkey s) (replotted w now (stateOf sts (cs_pubkey s))) sts"
  by (simp add: plotSpec_def replotted_def Let_def)

lemma plot_states:
  "map_of (fold (plotSpec w now) specs sts) pk =
     (if pk \<in> cs_pubkey ` set specs then Some (replotted w now (stateOf sts pk)) else map_of sts pk)"
proof (induction specs arbitrary: sts)
  case (Cons s specs)
  have "stateOf (plotSpec w now s sts) pk = (if pk = cs_pubkey s then replotted w now (stateOf sts pk) else stateOf sts pk)"
    by (simp add: plotSpec_eq stateOf_def update_conv')
  then show ?case using Cons [of "plotSpec w now s sts"] by (auto simp: plotSpec_eq update_conv')
qed simp

lemma plot_states_distinct:
  "distinct (map fst sts) \<Longrightarrow> distinct (map fst (fold (plotSpec w now) specs sts))"
  by (induction specs arbitrary: sts) (simp_all add: plotSpec_eq distinct_update)

lemma candles_ok_state:
  assumes "candles_ok w now sts"
  shows "\<forall>k\<in>set (ps_candles (stateOf sts pk)). cd_time k \<le> now \<and> stepOf w dvd cd_time k"
proof (cases "map_of sts pk")
  case None
  then show ?thesis by (simp add: stateOf_def freshState_def)
next
  case (Some st)
  then have "(pk, st) \<in> set sts" by (rule map_of_SomeD)
  then show ?thesis using assms Some by (auto simp: candles_ok_def stateOf_def)
qed

text \<open>The grids of a plot, before they are normalised, and what each line is given.\<close>

definition rawGrids :: "int \<Rightarrow> int \<Rightarrow> ChartSeriesSpec list \<Rightarrow> PubkeyStates \<Rightarrow> GridPoint list list" where
  "rawGrids windowSecs nowSec specs sts =
     map (\<lambda>s. let g = specGrid windowSecs nowSec (stateOf sts (cs_pubkey s)) in if cs_invert s then invertGrid g else g) specs"

lemma length_normalizeGrids [simp]: "length (normalizeGridsAcrossGroup grids odds) = length grids"
  by (simp add: normalizeGridsAcrossGroup_def Let_def)

lemma replot_data:
  assumes "\<forall>s\<in>set specs. cs_key s \<in> lines"
  shows "pl_data (replot w isGroup now specs lines fit sts) =
    zip (map cs_key specs) (normalizeGridsAcrossGroup (rawGrids w now specs sts) isGroup)"
proof -
  have "map (\<lambda>(s, g). if cs_invert s then invertGrid g else g)
      (zip specs (map (\<lambda>s. specGrid w now (stateOf sts (cs_pubkey s))) specs)) = rawGrids w now specs sts"
    by (rule nth_equalityI) (simp_all add: rawGrids_def Let_def)
  moreover have "(k, g) \<in> set (zip (map cs_key specs) gs) \<Longrightarrow> k \<in> lines" for k g gs
    using assms set_zip_leftD by fastforce
  ultimately show ?thesis by (auto simp: replot_def Let_def intro!: filter_True)
qed

lemma replot_times:
  assumes w: "w \<in> snd ` set WINDOWS" and c: "candles_ok w now sts"
    and all: "\<forall>s\<in>set specs. cs_key s \<in> lines"
    and d: "(k, g) \<in> set (pl_data (replot w isGroup now specs lines fit sts))"
  shows "\<exists>s\<in>set specs. k = cs_key s \<and> map gp_time g = map gp_time (specGrid w now (stateOf sts (cs_pubkey s)))"
proof -
  let ?raw = "rawGrids w now specs sts"
  have t: "map gp_time (?raw ! i) = map gp_time (specGrid w now (stateOf sts (cs_pubkey (specs ! i))))"
    if "i < length specs" for i using that by (simp add: rawGrids_def Let_def)
  have "\<forall>g\<in>set ?raw. map gp_time g = [] \<or> map gp_time g = windowAxis w now"
  proof
    fix g assume "g \<in> set ?raw"
    then obtain s :: ChartSeriesSpec where "g = (if cs_invert s then invertGrid (specGrid w now (stateOf sts (cs_pubkey s)))
        else specGrid w now (stateOf sts (cs_pubkey s)))"
      by (simp only: rawGrids_def Let_def set_map image_iff) blast
    then have "map gp_time g = map gp_time (specGrid w now (stateOf sts (cs_pubkey s)))" by simp
    then show "map gp_time g = [] \<or> map gp_time g = windowAxis w now"
      using specGrid_axis [OF w candles_ok_state [OF c, of "cs_pubkey s"]] by metis
  qed
  then have n: "map (map gp_time) (normalizeGridsAcrossGroup ?raw isGroup) = map (map gp_time) ?raw"
    by (rule normalize_times)
  have len: "length ?raw = length specs" by (simp add: rawGrids_def)
  obtain i where i: "i < length specs" "k = cs_key (specs ! i)" "g = normalizeGridsAcrossGroup ?raw isGroup ! i"
    using d len by (auto simp: replot_data [OF all] set_zip)
  then have "map gp_time g = map gp_time (?raw ! i)" using arg_cong [OF n, of "\<lambda>xs. xs ! i"] len by simp
  then show ?thesis using i t by auto
qed

lemma replot_keys:
  "\<forall>s\<in>set specs. cs_key s \<in> lines \<Longrightarrow>
     map fst (pl_data (replot w isGroup now specs lines fit sts)) = map cs_key specs"
  by (simp add: replot_data rawGrids_def)

subsection \<open>The invariant\<close>

text \<open>
  The line of a series has ascending points, none later than what is plotted of its market; a chart
  that is mounted has exactly the lines of its series, and one that is not has none.  A load of the
  current run was made for the current window.
\<close>

definition line_ok :: "ChartSeriesSpec list \<Rightarrow> PubkeyStates \<Rightarrow> string \<Rightarrow> GridPoint list \<Rightarrow> bool" where
  "line_ok specs sts k g \<longleftrightarrow>
     ascending g \<and>
     (g \<noteq> [] \<longrightarrow> (\<exists>s\<in>set specs. cs_key s = k \<and>
        (\<exists>st. map_of sts (cs_pubkey s) = Some st \<and> gp_time (last g) \<le> ps_plottedStep st)))"

definition chart_inv :: "ChartCell \<Rightarrow> bool" where
  "chart_inv c \<longleftrightarrow>
     specs_ok (ch_specs c) \<and> distinct (map fst (ch_states c)) \<and> ch_window c \<in> snd ` set WINDOWS \<and>
     lineKeys (ch_lines c) = (if ch_mounted c then cs_key ` set (ch_specs c) else {}) \<and>
     (\<forall>k g. map_of (ch_lines c) k = Some g \<longrightarrow> line_ok (ch_specs c) (ch_states c) k g) \<and>
     (\<forall>l\<in>set (ch_loads c). lo_run l \<le> ch_run c \<and>
        (lo_run l = ch_run c \<longrightarrow> ch_mounted c \<and> lo_window l = ch_window c \<and> lo_group l = ch_group c))"

lemma specs_ok_pubkey:
  assumes "specs_ok specs" "specs_ok specs'" "map cs_key specs = map cs_key specs'" "s \<in> set specs"
  shows "\<exists>s'\<in>set specs'. cs_key s' = cs_key s \<and> cs_pubkey s' = cs_pubkey s"
proof -
  have "cs_key s \<in> set (map cs_key specs')" using assms(3,4) by (metis image_eqI list.set_map)
  then obtain s' where s': "s' \<in> set specs'" "cs_key s' = cs_key s" by auto
  then have "beliefKey (cs_pubkey s') (if cs_invert s' then ''no'' else ''yes'') =
      beliefKey (cs_pubkey s) (if cs_invert s then ''no'' else ''yes'')"
    using assms(1,2,4) by (metis specs_ok_def)
  then have "cs_pubkey s' = cs_pubkey s" by (simp add: beliefKey_def split: if_splits)
  then show ?thesis using s' by blast
qed

lemma joinComma_inject:
  assumes "\<forall>x\<in>set xs. x \<noteq> [] \<and> CHR '','' \<notin> set x" "\<forall>y\<in>set ys. y \<noteq> [] \<and> CHR '','' \<notin> set y"
    and "joinComma xs = joinComma ys"
  shows "xs = ys"
proof -
  have cut: "takeWhile (\<lambda>c. c \<noteq> CHR '','') (joinComma (z # zs)) = z \<and>
      dropWhile (\<lambda>c. c \<noteq> CHR '','') (joinComma (z # zs)) = (if zs = [] then [] else CHR '','' # joinComma zs)"
    if "CHR '','' \<notin> set z" for z zs
    using that by (cases zs) (auto simp: takeWhile_append dropWhile_append)
  have ne: "joinComma (z # zs) \<noteq> []" if "z \<noteq> []" for z zs using that by (cases zs) simp_all
  show ?thesis using assms
  proof (induction xs arbitrary: ys)
    case Nil
    then show ?case using ne by (cases ys) (simp_all, metis)
  next
    case (Cons x xs)
    then obtain y ys' where y: "ys = y # ys'" using ne [of x xs] by (cases ys) auto
    have "CHR '','' \<notin> set x" "CHR '','' \<notin> set y" using Cons.prems y by auto
    then have e: "x = y" "(if xs = [] then [] else CHR '','' # joinComma xs) = (if ys' = [] then [] else CHR '','' # joinComma ys')"
      using cut [of x xs] cut [of y ys'] Cons.prems(3) y by metis+
    have "joinComma xs = joinComma ys'" using e(2) by (auto split: if_splits)
    then show ?case using Cons.IH [of ys'] Cons.prems y e(1) by simp
  qed
qed

lemma specKeys_inject:
  assumes "specs_ok specs" "specs_ok specs'" "specKeys specs = specKeys specs'"
  shows "map cs_key specs = map cs_key specs'"
proof -
  have "\<forall>x\<in>set (map cs_key specs). x \<noteq> [] \<and> CHR '','' \<notin> set x" if "specs_ok specs" for specs
  proof -
    have "s \<in> set specs \<Longrightarrow> cs_key s \<noteq> [] \<and> CHR '','' \<notin> set (cs_key s)" for s
      using that by (simp add: specs_ok_def beliefKey_def)
    then show ?thesis by auto
  qed
  then show ?thesis using joinComma_inject assms unfolding specKeys_def by blast
qed

lemma line_ok_specs:
  assumes "line_ok specs sts k g" "specs_ok specs" "specs_ok specs'" "map cs_key specs = map cs_key specs'"
  shows "line_ok specs' sts k g"
  using assms(1) specs_ok_pubkey [OF assms(2-4)] unfolding line_ok_def by metis

text \<open>A plot establishes the invariant of the lines, whatever it was before.\<close>

lemma plot_lines_ok:
  assumes specs: "specs_ok (ch_specs c)" and keys: "lineKeys (ch_lines c) = cs_key ` set (ch_specs c)"
    and w: "w \<in> snd ` set WINDOWS" and cs: "candles_ok w now (ch_states c)"
    and k: "map_of (ch_lines (plotLines now fit w isGroup c)) k = Some g"
  shows "line_ok (ch_specs c) (ch_states (plotLines now fit w isGroup c)) k g"
proof -
  let ?p = "replot w isGroup now (ch_specs c) (lineKeys (ch_lines c)) fit (ch_states c)"
  have all: "\<forall>s\<in>set (ch_specs c). cs_key s \<in> lineKeys (ch_lines c)" using keys by simp
  note fst = replot_keys [OF all, of w isGroup now fit "ch_states c"]
  have m: "(map_of (ch_lines c) ++ map_of (rev (pl_data ?p))) k = Some g"
    using k by (simp add: plotLines_def map_of_setData Let_def)
  have "map_of (rev (pl_data ?p)) k \<noteq> None"
  proof
    assume none: "map_of (rev (pl_data ?p)) k = None"
    then have "map_of (ch_lines c) k = Some g" using m by (simp add: map_add_def)
    moreover have "k \<notin> fst ` set (pl_data ?p)" using none by (simp add: map_of_eq_None_iff)
    ultimately have "map_of (ch_lines c) k = Some g" "k \<notin> fst ` set (pl_data ?p)" .
    then have "k \<in> lineKeys (ch_lines c)" by (auto simp: lineKeys_def dest: map_of_SomeD intro!: image_eqI)
    moreover have "fst ` set (pl_data ?p) = cs_key ` set (ch_specs c)" using fst by (metis list.set_map)
    ultimately show False using keys \<open>k \<notin> fst ` set (pl_data ?p)\<close> by simp
  qed
  then have "map_of (rev (pl_data ?p)) k = Some g" using m by (auto simp: map_add_def split: option.splits)
  then have "(k, g) \<in> set (pl_data ?p)" using map_of_SomeD by force
  then obtain s where s: "s \<in> set (ch_specs c)" "k = cs_key s"
      "map gp_time g = map gp_time (specGrid w now (stateOf (ch_states c) (cs_pubkey s)))"
    using replot_times [OF w cs all] by blast
  let ?st = "stateOf (ch_states c) (cs_pubkey s)"
  have st: "map_of (ch_states (plotLines now fit w isGroup c)) (cs_pubkey s) = Some (replotted w now ?st)"
    using s(1) by (simp add: plotLines_def replot_def Let_def plot_states)
  have "ascending g"
    using specGrid_axis [OF w candles_ok_state [OF cs], of "cs_pubkey s"] s(3)
      windowAxis_ascending [OF window_step(3) [OF w]] by (auto simp: ascending_def)
  moreover have "gp_time (last g) \<le> ps_plottedStep (replotted w now ?st)" if "g \<noteq> []"
  proof -
    have ne: "specGrid w now ?st \<noteq> []" using s(3) that by auto
    then have "gp_time (last g) = gp_time (last (specGrid w now ?st))" using s(3) that by (metis last_map)
    then show ?thesis using ne by (simp add: replotted_def plotted_def)
  qed
  ultimately show ?thesis using s st by (auto simp: line_ok_def)
qed

lemma plotLines_sel [simp]:
  "ch_mounted (plotLines now fit w isGroup c) = ch_mounted c" "ch_specs (plotLines now fit w isGroup c) = ch_specs c"
  "ch_group (plotLines now fit w isGroup c) = ch_group c" "ch_window (plotLines now fit w isGroup c) = ch_window c"
  "ch_run (plotLines now fit w isGroup c) = ch_run c" "ch_loads (plotLines now fit w isGroup c) = ch_loads c"
  "ch_pubkeys (plotLines now fit w isGroup c) = ch_pubkeys c"
  by (simp_all add: plotLines_def Let_def)

lemma plotLines_keys:
  "lineKeys (ch_lines c) = cs_key ` set (ch_specs c) \<Longrightarrow>
     lineKeys (ch_lines (plotLines now fit w isGroup c)) = cs_key ` set (ch_specs c)"
proof -
  assume keys: "lineKeys (ch_lines c) = cs_key ` set (ch_specs c)"
  then have "fst ` set (pl_data (replot w isGroup now (ch_specs c) (lineKeys (ch_lines c)) fit (ch_states c))) =
      cs_key ` set (ch_specs c)"
    using replot_keys [of "ch_specs c" "lineKeys (ch_lines c)"] by (metis image_eqI list.set_map)
  then show ?thesis using keys by (simp add: plotLines_def Let_def lineKeys_setData)
qed

lemma plotLines_states:
  "distinct (map fst (ch_states c)) \<Longrightarrow> distinct (map fst (ch_states (plotLines now fit w isGroup c)))"
  by (simp add: plotLines_def replot_def Let_def plot_states_distinct)

subsection \<open>The tick\<close>

lemma appendPoint_eq:
  "appendPoint (k, b, x) lines = AList.update k (orElse (map_of lines k) [] @ [\<lparr>gp_time = b, gp_value = Some x\<rparr>]) lines"
  by (simp add: appendPoint_def)

lemma lineKeys_appends: "lineKeys (fold appendPoint ups lines) = lineKeys lines \<union> fst ` set ups"
proof (induction ups arbitrary: lines)
  case (Cons u ups)
  obtain k b x where "u = (k, b, x)" by (cases u)
  then show ?case using Cons [of "appendPoint u lines"] by (auto simp: appendPoint_eq lineKeys_def dom_update)
qed simp

definition pointOf :: "string \<times> int \<times> jsnum \<Rightarrow> GridPoint" where
  "pointOf u = (case u of (k, b, x) \<Rightarrow> \<lparr>gp_time = b, gp_value = Some x\<rparr>)"

lemma map_of_appends:
  assumes "map_of lines k = Some g"
  shows "map_of (fold appendPoint ups lines) k = Some (g @ map pointOf (filter (\<lambda>u. fst u = k) ups))"
  using assms
proof (induction ups arbitrary: lines g)
  case (Cons u ups)
  obtain k' b x where u: "u = (k', b, x)" by (cases u)
  then have "map_of (appendPoint u lines) k = Some (if k' = k then g @ [pointOf u] else g)"
    using Cons.prems by (auto simp: appendPoint_eq update_conv' pointOf_def)
  then show ?case using Cons.IH u by fastforce
qed simp

lemma pointsAt_Cons:
  "pointsAt ((s, v) # zs) L pk b =
     (case v of Some x \<Rightarrow> if cs_pubkey s = pk \<and> cs_key s \<in> L then [(cs_key s, b, x)] else [] | None \<Rightarrow> []) @
     pointsAt zs L pk b"
  by (simp add: pointsAt_def)

lemma pointsAt_key:
  assumes "distinct (map (cs_key \<circ> fst) zs)" "(s, v) \<in> set zs"
  shows "filter (\<lambda>u. fst u = cs_key s) (pointsAt zs L pk b) =
    (case v of Some x \<Rightarrow> if cs_pubkey s = pk \<and> cs_key s \<in> L then [(cs_key s, b, x)] else [] | None \<Rightarrow> [])"
  using assms
proof (induction zs)
  case (Cons z zs)
  obtain s' v' where z: "z = (s', v')" by (cases z)
  have none: "filter (\<lambda>u. fst u = cs_key s') (pointsAt zs L pk b) = []" if "cs_key s' \<notin> (cs_key \<circ> fst) ` set zs"
    using that by (force simp: pointsAt_def filter_empty_conv split: option.splits if_splits)
  show ?case
  proof (cases "(s, v) = z")
    case True
    then show ?thesis using none Cons.prems(1) z by (auto simp: z pointsAt_Cons split: option.splits)
  next
    case False
    then have "(s, v) \<in> set zs" using Cons.prems(2) by auto
    moreover from this have "cs_key s \<noteq> cs_key s'" using Cons.prems(1) z by force
    ultimately show ?thesis using Cons.IH Cons.prems(1) by (auto simp: z pointsAt_Cons split: option.splits)
  qed
qed simp

lemma concat_map_of:
  "distinct (map fst sts) \<Longrightarrow> concat (map (\<lambda>(pk, st). if p = pk then F st else []) sts) =
     (case map_of sts p of Some st \<Rightarrow> F st | None \<Rightarrow> [])"
proof (induction sts)
  case (Cons q sts)
  obtain pk st where q: "q = (pk, st)" by (cases q)
  have "map_of sts pk = None" using Cons.prems q by (simp add: map_of_eq_None_iff)
  then show ?case using Cons q by auto
qed simp

lemma rolledTimes_ascending:
  assumes "0 < step"
  shows "sorted_wrt (<) (rolledTimes step nowStep st)"
    and "t \<in> set (rolledTimes step nowStep st) \<Longrightarrow>
      ps_plottedStep st < t \<and> t \<le> ps_plottedStep (rolled step nowStep st)"
proof -
  have "sorted_wrt (<) [1..<Suc n]" for n by (simp del: upt_Suc)
  then have "sorted_wrt (<) (ticks step n b)" for n b
    using assms unfolding ticks_def sorted_wrt_map by (rule_tac sorted_wrt_mono_rel [rotated]) simp_all
  then show "sorted_wrt (<) (rolledTimes step nowStep st)" by (simp add: rolledTimes_def)
  show "ps_plottedStep st < t \<and> t \<le> ps_plottedStep (rolled step nowStep st)"
    if t: "t \<in> set (rolledTimes step nowStep st)"
  proof -
    have "ps_carriedClose st \<noteq> None" using t by (auto simp: rolledTimes_def split: if_splits)
    moreover from this obtain j where "1 \<le> j" "j \<le> missing step nowStep (ps_plottedStep st)"
        "t = ps_plottedStep st + int j * step"
      using t by (auto simp: rolledTimes_def ticks_def)
    moreover from this have "int j * step \<le> int (missing step nowStep (ps_plottedStep st)) * step" "0 < int j * step"
      using assms by (simp_all add: mult_right_mono)
    ultimately show ?thesis by (simp add: rolled_def)
  qed
qed

text \<open>What a tick appends to the line of a series: the missing times of its market, all with one value.\<close>

lemma tick_points:
  assumes s: "0 < step" and d: "distinct (map (cs_key \<circ> fst) zs)" "distinct (map fst sts)" and z: "(s, v) \<in> set zs"
    and r: "rollStates zs L step nowStep sts = Some (sts', ups)"
  shows "\<exists>ts. map pointOf (filter (\<lambda>u. fst u = cs_key s) ups) = map (\<lambda>t. \<lparr>gp_time = t, gp_value = v\<rparr>) ts \<and>
    (ts = [] \<or> (\<exists>st. map_of sts (cs_pubkey s) = Some st \<and> ts = rolledTimes step nowStep st))"
proof (cases v)
  case None
  then have "filter (\<lambda>u. fst u = cs_key s) ups = []"
    using r pointsAt_key [OF d(1) z] rollStates_eq [OF s, of zs L nowStep sts]
    by (auto simp: filter_concat comp_def case_prod_beta)
  then show ?thesis by simp
next
  case (Some x)
  have ups: "filter (\<lambda>u. fst u = cs_key s) ups = concat (map (\<lambda>(pk, st).
      if cs_pubkey s = pk then (if cs_key s \<in> L then map (\<lambda>t. (cs_key s, t, x)) (rolledTimes step nowStep st) else []) else []) sts)"
    using r Some pointsAt_key [OF d(1) z] rollStates_eq [OF s, of zs L nowStep sts]
    by (auto simp: filter_concat comp_def case_prod_beta concat_map_singleton intro!: arg_cong [of _ _ concat] map_cong)
  show ?thesis
    unfolding ups concat_map_of [OF d(2)] using Some
    by (cases "map_of sts (cs_pubkey s)") (auto simp: pointOf_def comp_def)
qed

subsection \<open>Every step keeps the invariant\<close>

lemma inv_linesEffect:
  assumes specs: "specs_ok (ch_specs c)" and d: "distinct (map fst (ch_states c))" and w: "ch_window c \<in> snd ` set WINDOWS"
    and cs: "candles_ok (ch_window c) now (ch_states c)" and m: "ch_mounted c"
    and l: "\<forall>l\<in>set (ch_loads c). lo_run l \<le> ch_run c"
  shows "chart_inv (loadEffect (linesEffect now c))"
proof -
  let ?new = "c\<lparr>ch_lines := fold (\<lambda>s. AList.update (cs_key s) []) (ch_specs c) []\<rparr>"
  have "lineKeys (fold (\<lambda>s. AList.update (cs_key s) []) specs ls) = cs_key ` set specs \<union> lineKeys ls"
    for specs :: "ChartSeriesSpec list" and ls :: Lines
    by (induction specs arbitrary: ls) (auto simp: lineKeys_def dom_update)
  then have k: "lineKeys (ch_lines ?new) = cs_key ` set (ch_specs ?new)" by (simp add: lineKeys_def)
  let ?plot = "linesEffect now c"
  have e: "?plot = plotLines now True (ch_window c) (ch_group c) ?new" by (simp add: linesEffect_def)
  have "\<forall>k g. map_of (ch_lines ?plot) k = Some g \<longrightarrow> line_ok (ch_specs c) (ch_states ?plot) k g"
    using plot_lines_ok [of ?new "ch_window c" now, OF _ k] specs w cs unfolding e by simp
  moreover have "lineKeys (ch_lines ?plot) = cs_key ` set (ch_specs c)"
    using plotLines_keys [OF k] unfolding e by simp
  moreover have "distinct (map fst (ch_states ?plot))" unfolding e by (rule plotLines_states) (simp add: d)
  moreover have "ch_specs ?plot = ch_specs c" "ch_mounted ?plot" "ch_window ?plot = ch_window c" "ch_run ?plot = ch_run c"
      "ch_loads ?plot = ch_loads c" "ch_group ?plot = ch_group c"
    unfolding e by (simp_all add: m)
  ultimately show ?thesis using specs w l by (auto simp: chart_inv_def loadEffect_def beginLoad_def)
qed

lemma inv_loadEffect: "chart_inv c \<Longrightarrow> ch_mounted c \<Longrightarrow> w \<in> snd ` set WINDOWS \<Longrightarrow> chart_inv (loadEffect (c\<lparr>ch_window := w\<rparr>))"
  by (auto simp: chart_inv_def loadEffect_def beginLoad_def)

lemma inv_poll: "chart_inv c \<Longrightarrow> ch_mounted c \<Longrightarrow> chart_inv (beginLoad False c)"
  by (auto simp: chart_inv_def beginLoad_def)

lemma inv_unmount: "chart_inv c \<Longrightarrow> chart_inv (chartUnmount c)"
  by (auto simp: chart_inv_def chartUnmount_def lineKeys_def)

lemma loadResults_distinct: "distinct (map fst sts) \<Longrightarrow> distinct (map fst (fst (loadResults rs sts b)))"
  by (induction rs sts b rule: loadResults.induct) (simp_all add: Let_def distinct_update split: sum.split)

lemma inv_settle:
  assumes c: "chart_inv c" and i: "i < length (ch_loads c)"
    and cs: "candles_ok (lo_window (ch_loads c ! i)) now (fst (loadCandles (lo_pubkeys (ch_loads c ! i)) rs (ch_states c)))"
  shows "chart_inv (loadSettle now i rs c)"
proof -
  let ?l = "ch_loads c ! i" and ?ls = "take i (ch_loads c) @ drop (Suc i) (ch_loads c)"
  have sub: "set ?ls \<subseteq> set (ch_loads c)" by (auto dest: in_set_takeD in_set_dropD)
  show ?thesis
  proof (cases "lo_run ?l = ch_run c")
    case False
    then show ?thesis using c sub by (auto simp: chart_inv_def loadSettle_def Let_def)
  next
    case True
    obtain sts err emp where r: "loadCandles (lo_pubkeys ?l) rs (ch_states c) = (sts, err, emp)" by (cases "loadCandles (lo_pubkeys ?l) rs (ch_states c)")
    let ?c = "c\<lparr>ch_loads := ?ls, ch_states := sts, ch_error := err, ch_empty := emp\<rparr>"
    have l: "ch_mounted c" "lo_window ?l = ch_window c" "lo_group ?l = ch_group c"
      using c True nth_mem [OF i] by (auto simp: chart_inv_def)
    have e: "loadSettle now i rs c = plotLines now (lo_fit ?l) (ch_window c) (ch_group c) ?c"
      using True l by (simp add: loadSettle_def r Let_def)
    have d: "distinct (map fst sts)"
      using r loadResults_distinct [of "ch_states c" "zip (lo_pubkeys ?l) rs" False] c
      by (auto simp: loadCandles_def Let_def chart_inv_def split: prod.splits)
    have k: "lineKeys (ch_lines ?c) = cs_key ` set (ch_specs ?c)" using c l by (simp add: chart_inv_def)
    have "\<forall>k g. map_of (ch_lines (loadSettle now i rs c)) k = Some g \<longrightarrow>
        line_ok (ch_specs c) (ch_states (loadSettle now i rs c)) k g"
      using plot_lines_ok [of ?c "ch_window c" now, OF _ k] c cs r l unfolding e by (simp add: chart_inv_def)
    moreover have "lineKeys (ch_lines (loadSettle now i rs c)) = cs_key ` set (ch_specs c)"
      using plotLines_keys [OF k] unfolding e by simp
    moreover have "distinct (map fst (ch_states (loadSettle now i rs c)))"
      unfolding e by (rule plotLines_states) (simp add: d)
    ultimately show ?thesis using c sub l by (auto simp: chart_inv_def e)
  qed
qed

lemma map_of_rolled:
  "map_of (map (\<lambda>(pk, st). (pk, rolled step now st)) sts) pk = map_option (rolled step now) (map_of sts pk)"
  by (induction sts) auto

lemma line_ok_append:
  assumes ok: "line_ok specs sts k g" and d: "distinct (map cs_key specs)" and sp: "sp \<in> set specs" "cs_key sp = k"
    and s: "0 < step"
    and ts: "ts = [] \<or> (\<exists>st. map_of sts (cs_pubkey sp) = Some st \<and> ts = rolledTimes step now st)"
  shows "line_ok specs (map (\<lambda>(pk, st). (pk, rolled step now st)) sts) k
    (g @ map (\<lambda>t. \<lparr>gp_time = t, gp_value = v\<rparr>) ts)"
proof (cases "ts = []")
  case True
  have "ps_plottedStep st \<le> ps_plottedStep (rolled step now st)" for st using s by (simp add: rolled_def)
  then show ?thesis using ok True by (fastforce simp: line_ok_def map_of_rolled intro: order_trans)
next
  case False
  then obtain st where st: "map_of sts (cs_pubkey sp) = Some st" "ts = rolledTimes step now st" using ts by blast
  have same: "s1 = sp" if "s1 \<in> set specs" "cs_key s1 = k" for s1 :: ChartSeriesSpec
    using that sp d by (auto simp: distinct_map inj_on_def)
  have le: "gp_time (last g) \<le> ps_plottedStep st" if "g \<noteq> []" using ok that same st(1) by (auto simp: line_ok_def)
  note asc = rolledTimes_ascending [OF s]
  have "gp_time x < t" if "x \<in> set g" "t \<in> set ts" for x t
  proof -
    have "gp_time x \<le> gp_time (last g)"
      using ok that(1) by (cases g rule: rev_cases) (auto simp: line_ok_def ascending_def sorted_wrt_append)
    then show ?thesis using le asc(2) that st(2) by (cases "g = []") fastforce+
  qed
  then have "ascending (g @ map (\<lambda>t. \<lparr>gp_time = t, gp_value = v\<rparr>) ts)"
    using ok asc(1) st(2) by (auto simp: line_ok_def ascending_def sorted_wrt_append comp_def)
  then show ?thesis using sp False asc(2) [of "last ts"] st by (auto simp: line_ok_def map_of_rolled last_map)
qed

lemma inv_tick:
  assumes c: "chart_inv c" and m: "ch_mounted c" and t: "chartTick nowMs c = Some c'"
  shows "chart_inv c'"
proof -
  let ?w = "ch_window c" and ?L = "lineKeys (ch_lines c)" and ?specs = "ch_specs c" and ?sts = "ch_states c"
  let ?step = "stepOf ?w" and ?now = "nowStepOf ?w nowMs"
  let ?zs = "zip ?specs (normalizedBySpec (ch_group c) ?sts ?specs)"
  obtain sts' ups where r: "rollStates ?zs ?L ?step ?now ?sts = Some (sts', ups)"
      "c' = c\<lparr>ch_states := sts', ch_lines := fold appendPoint ups (ch_lines c)\<rparr>"
    using t by (auto simp: chartTick_def rollForward_def)
  have s: "0 < ?step" using c window_step(3) by (simp add: chart_inv_def)
  have rolls: "sts' = map (\<lambda>(pk, st). (pk, rolled ?step ?now st)) ?sts"
      "ups = concat (map (\<lambda>(pk, st). concat (map (pointsAt ?zs ?L pk) (rolledTimes ?step ?now st))) ?sts)"
    using r(1) rollStates_eq [OF s, of ?zs ?L ?now ?sts] by auto
  have fst: "map fst sts' = map fst ?sts" by (simp add: rolls(1) comp_def case_prod_beta)
  have "fst ` set ups \<subseteq> ?L" by (auto simp: rolls(2) pointsAt_def split: option.splits if_splits)
  then have keys: "lineKeys (fold appendPoint ups (ch_lines c)) = ?L" by (auto simp: lineKeys_appends)
  have len: "length (normalizedBySpec (ch_group c) ?sts ?specs) = length ?specs"
    by (simp add: normalizedBySpec_def rawBySpec_def normalizeAcrossGroup_def normalizeOddsAcrossGroup_def Let_def)
  have zk: "map (cs_key \<circ> fst) ?zs = map cs_key ?specs" using len by (simp add: map_map [symmetric] del: map_map)
  have d: "distinct (map cs_key ?specs)" "distinct (map fst ?sts)" using c by (simp_all add: chart_inv_def specs_ok_def)
  have lines: "line_ok ?specs sts' k g'" if g': "map_of (fold appendPoint ups (ch_lines c)) k = Some g'" for k g'
  proof -
    have "k \<in> ?L" using g' keys by (force simp: lineKeys_def dest: map_of_SomeD)
    then obtain g where g: "map_of (ch_lines c) k = Some g" by (auto simp: lineKeys_def dest: weak_map_of_SomeI)
    have ok: "line_ok ?specs ?sts k g" using c g by (simp add: chart_inv_def)
    obtain sp where sp: "sp \<in> set ?specs" "cs_key sp = k" using \<open>k \<in> ?L\<close> c m by (auto simp: chart_inv_def)
    then obtain v where v: "(sp, v) \<in> set ?zs" using len by (metis in_set_impl_in_set_zip1)
    obtain ts where ts: "map pointOf (filter (\<lambda>u. fst u = k) ups) = map (\<lambda>t. \<lparr>gp_time = t, gp_value = v\<rparr>) ts"
        "ts = [] \<or> (\<exists>st. map_of ?sts (cs_pubkey sp) = Some st \<and> ts = rolledTimes ?step ?now st)"
      using tick_points [OF s _ d(2) v r(1)] sp(2) d(1) zk by auto
    have "g' = g @ map (\<lambda>t. \<lparr>gp_time = t, gp_value = v\<rparr>) ts" using map_of_appends [OF g, of ups] g' ts(1) by simp
    then show ?thesis using line_ok_append [OF ok d(1) sp s ts(2)] by (simp add: rolls(1))
  qed
  show ?thesis using c keys lines m fst by (simp add: chart_inv_def r(2))
qed

lemma inv_step: "chart_step c c' \<Longrightarrow> chart_inv c \<Longrightarrow> chart_inv c'"
proof (induction rule: chart_step.induct)
  case (Mount c nowSec)
  then have "\<forall>l\<in>set (ch_loads c). lo_run l \<le> ch_run c" by (simp add: chart_inv_def)
  then show ?case
    using Mount inv_linesEffect [of "c\<lparr>ch_mounted := True\<rparr>" nowSec] by (simp add: chart_inv_def chartMount_def)
next
  case (Render c specs nowSec isGroup)
  let ?c = "c\<lparr>ch_specs := specs, ch_group := isGroup\<rparr>"
  show ?case
  proof (cases "specKeys specs \<noteq> specKeys (ch_specs c) \<or> isGroup \<noteq> ch_group c")
    case True
    moreover have "chart_inv (loadEffect (linesEffect nowSec ?c))"
      using Render by (intro inv_linesEffect) (simp_all add: chart_inv_def)
    ultimately show ?thesis by (simp add: chartRender_def Let_def)
  next
    case False
    have ok: "specs_ok (ch_specs c)" using Render by (simp add: chart_inv_def)
    then have k: "map cs_key (ch_specs c) = map cs_key specs" using False Render specKeys_inject by metis
    then have "cs_key ` set specs = cs_key ` set (ch_specs c)" by (metis list.set_map)
    then have "chart_inv ?c"
      using Render line_ok_specs [OF _ ok Render(2) k] False by (simp add: chart_inv_def)
    then show ?thesis using False by (simp add: chartRender_def Let_def)
  qed
next
  case (Window c w)
  then show ?case using inv_loadEffect by (simp add: setWindowSecs_def)
next
  case (Reload c)
  then show ?case using inv_loadEffect [of c "ch_window c"] by (simp add: chart_inv_def)
qed (simp_all add: inv_poll inv_settle inv_tick inv_unmount)

lemma reach_inv: "chart_reach specs isGroup c \<Longrightarrow> chart_inv c"
proof (induction rule: chart_reach.induct)
  case start
  then show ?case by (simp add: chart_inv_def initialChart_def lineKeys_def WINDOWS_def)
qed (rule inv_step)

text \<open>The tick never blocks, and a load whose run has ended changes nothing but that it is over.\<close>

lemma tick_total: "chart_inv c \<Longrightarrow> \<exists>c'. chartTick nowMs c = Some c'"
  using rollForward_spec [of "ch_window c" "ch_group c" nowMs] window_step(1,2)
  by (force simp: chart_inv_def chartTick_def)

lemma late_load:
  "lo_run (ch_loads c ! i) \<noteq> ch_run c \<Longrightarrow>
     loadSettle now i rs c = c\<lparr>ch_loads := take i (ch_loads c) @ drop (Suc i) (ch_loads c)\<rparr>"
  by (simp add: loadSettle_def Let_def)

text \<open>The series of the page meet the conditions.\<close>

lemma chartSeries_ok:
  assumes "distinct (map ms_pubkey tradable)" "\<forall>m\<in>set tradable. CHR '','' \<notin> set (ms_pubkey m)"
  shows "specs_ok (chartSeries (computeBeliefs isGroup tradable options))"
proof -
  let ?bs = "computeBeliefs isGroup tradable options"
  have b: "be_key b = beliefKey (be_pubkey b) (if be_outcome b = ''no'' then ''no'' else ''yes'') \<and>
      CHR '','' \<notin> set (be_pubkey b)" if "b \<in> set ?bs" for b
    using that assms(2) by (auto simp: computeBeliefs_def mkBelief_def split: if_splits list.splits)
  have "distinct (map cs_key (chartSeries ?bs))"
    using belief_keys_distinct [OF assms(1)] by (simp add: chartSeries_keys)
  then show ?thesis using b by (auto simp: specs_ok_def chartSeries_def dest!: set_zip_rightD)
qed

subsection \<open>A clock that is behind\<close>

text \<open>
  The comment on \<open>normalizeGridsAcrossGroup\<close> calls it guaranteed that the grids of one plot share their
  time axis.  A candle later than the clock breaks it: its market's grid ends later, the other lines
  of the group are given those times, and the next tick hands them a point before their last.
\<close>

definition lagState :: "int \<Rightarrow> PubkeyState" where
  "lagState t = freshState\<lparr>ps_candles := [\<lparr>cd_time = t, cd_open = Fin (1/2), cd_high = Fin (1/2), cd_low = Fin (1/2),
     cd_close = Fin (1/2)\<rparr>]\<rparr>"

definition lagSpec :: "string \<Rightarrow> ChartSeriesSpec" where
  "lagSpec pk = \<lparr>cs_key = beliefKey pk ''yes'', cs_pubkey = pk, cs_label = pk, cs_color = [], cs_invert = False\<rparr>"

definition lagCell :: ChartCell where
  "lagCell = (initialChart [lagSpec ''a'', lagSpec ''b''] True)
     \<lparr>ch_mounted := True, ch_window := 60, ch_lines := [(''a:yes'', []), (''b:yes'', [])],
      ch_states := [(''a'', lagState 1005), (''b'', lagState 1000)]\<rparr>"

lemma lag_step: "stepOf 60 = 1" "barsOf 60 = 60" "nowStepOf 60 1001000 = 1001"
proof -
  have e: "exactStep 60 = 1" by (simp add: exactStep_def)
  then have g: "gridStep 60 = Fin 1" using gridStep_exact [of 60] by simp
  then show s: "stepOf 60 = 1" by (simp add: stepOf_def intOf_def)
  obtain n where n: "gridBars 60 = Fin (of_int n)" "60 \<le> n * exactStep 60" "(n - 1) * exactStep 60 < 60"
    using gridBars_exact [of 60] by auto
  then have "n = 60" by (simp add: e)
  then show "barsOf 60 = 60" using n(1) by (simp add: barsOf_def intOf_def)
  have "Number 1001000 = Fin 1001000" "num 1001 = Fin 1001"
    using Number_exact [of 1001000] Number_exact [of 1001] by (simp_all add: Number_def)
  then have "ndiv (Number 1001000) (Fin 1000) = Fin 1001" "ndiv (Fin 1001) (Fin 1) = Fin 1001" by simp_all
  then show "nowStepOf 60 1001000 = 1001" by (simp add: nowStepOf_def g s intOf_def)
qed

lemma lag_grid:
  assumes "1000 \<le> t"
  shows "length (specGrid 60 1000 (lagState t)) = 60"
    and "last (specGrid 60 1000 (lagState t)) = \<lparr>gp_time = t, gp_value = Some (Fin (1/2))\<rparr>"
proof -
  let ?cs = "ps_candles (lagState t)"
  have cs: "?cs = [\<lparr>cd_time = t, cd_open = Fin (1/2), cd_high = Fin (1/2), cd_low = Fin (1/2), cd_close = Fin (1/2)\<rparr>]"
    by (simp add: lagState_def)
  have core: "buildGrid ?cs 1 1000 60 = [\<lparr>gp_time = t, gp_value = Some (Fin (1/2))\<rparr>]"
    using assms by (simp add: cs buildGrid_def Let_def gridLoop.simps [of 1 t t] gridLoop.simps [of 1 t "t + 1"])
  then show "last (specGrid 60 1000 (lagState t)) = \<lparr>gp_time = t, gp_value = Some (Fin (1/2))\<rparr>"
    by (simp add: specGrid_def lag_step buildWindowedGrid_def Let_def)
  show "length (specGrid 60 1000 (lagState t)) = 60"
    by (simp add: specGrid_def lag_step buildWindowedGrid_def Let_def core)
qed

lemma normalizeOdds_defined:
  "i < length vs \<Longrightarrow> vs ! i = Some x \<Longrightarrow> \<exists>y. normalizeOddsAcrossGroup vs ! i = Some y"
  by (auto simp: normalizeOddsAcrossGroup_def Let_def)

lemma lag_sel:
  "ch_specs lagCell = [lagSpec ''a'', lagSpec ''b'']" "lineKeys (ch_lines lagCell) = {''a:yes'', ''b:yes''}"
  "ch_states lagCell = [(''a'', lagState 1005), (''b'', lagState 1000)]" "ch_group lagCell" "ch_window lagCell = 60"
  "cs_key (lagSpec ''a'') = ''a:yes''" "cs_key (lagSpec ''b'') = ''b:yes''" "cs_pubkey (lagSpec pk) = pk"
  "\<not> cs_invert (lagSpec pk)"
  by (auto simp: lagCell_def initialChart_def lineKeys_def lagSpec_def beliefKey_def)

lemma lag_plot:
  "\<exists>g. map_of (ch_lines (plotLines 1000 True 60 True lagCell)) ''b:yes'' = Some g \<and> gp_time (last g) = 1005 \<and> g \<noteq> []"
  "lineKeys (ch_lines (plotLines 1000 True 60 True lagCell)) = {''a:yes'', ''b:yes''}"
proof -
  let ?specs = "[lagSpec ''a'', lagSpec ''b'']" and ?c = "plotLines 1000 True 60 True lagCell"
  let ?A = "specGrid 60 1000 (lagState 1005)" and ?B = "specGrid 60 1000 (lagState 1000)"
  have raw: "rawGrids 60 1000 ?specs (ch_states lagCell) = [?A, ?B]"
    by (simp add: rawGrids_def lag_sel stateOf_def Let_def)
  obtain V where V: "normalizeGridsAcrossGroup [?A, ?B] True = map (\<lambda>(j, g). if length g \<noteq> 60 then []
      else map (\<lambda>i. \<lparr>gp_time = gp_time (?A ! i), gp_value = V i ! j\<rparr>) [0..<60]) (zip [0..<length [?A, ?B]] [?A, ?B])"
    using normalize_shape [of "[?A, ?B]" 60 ?A True] by (auto simp: lag_grid)
  define gb where "gb = map (\<lambda>i. \<lparr>gp_time = gp_time (?A ! i), gp_value = V i ! 1\<rparr>) [0..<60]"
  define ga where "ga = map (\<lambda>i. \<lparr>gp_time = gp_time (?A ! i), gp_value = V i ! 0\<rparr>) [0..<60]"
  have n: "normalizeGridsAcrossGroup [?A, ?B] True = [ga, gb]" unfolding V by (simp add: lag_grid ga_def gb_def)
  have data: "pl_data (replot 60 True 1000 ?specs {''a:yes'', ''b:yes''} True (ch_states lagCell)) =
      [(''a:yes'', ga), (''b:yes'', gb)]"
    by (subst replot_data) (simp_all add: lag_sel(6,7) raw n)
  have line: "map_of (ch_lines ?c) ''b:yes'' = Some gb" "lineKeys (ch_lines ?c) = {''a:yes'', ''b:yes''}"
    by (simp_all add: plotLines_def Let_def lag_sel(1,2) data map_of_setData lineKeys_setData)
  have "?A ! 59 = last ?A" using lag_grid(1) [of 1005] by (subst last_conv_nth) auto
  then have end1: "gp_time (last gb) = 1005" "gb \<noteq> []" by (simp_all add: gb_def last_map lag_grid)
  show "\<exists>g. map_of (ch_lines ?c) ''b:yes'' = Some g \<and> gp_time (last g) = 1005 \<and> g \<noteq> []"
      "lineKeys (ch_lines ?c) = {''a:yes'', ''b:yes''}"
    using line end1 by blast+
qed

text \<open>Market \<open>b\<close> has no candle after the clock, but its line is given one, and then an older point.\<close>

lemma clock_behind:
  "\<exists>c' g. chartTick 1001000 (plotLines 1000 True 60 True lagCell) = Some c' \<and>
     map_of (ch_lines c') ''b:yes'' = Some g \<and> \<not> ascending g"
proof -
  let ?specs = "[lagSpec ''a'', lagSpec ''b'']" and ?c = "plotLines 1000 True 60 True lagCell"
  obtain gb where line: "map_of (ch_lines ?c) ''b:yes'' = Some gb" and end1: "gp_time (last gb) = 1005" "gb \<noteq> []"
    using lag_plot(1) by blast
  have st: "map_of (ch_states ?c) pk = Some (replotted 60 1000 (lagState t))" if "(pk, t) \<in> {(''a'', 1005), (''b'', 1000)}" for pk t
    using that by (auto simp: plotLines_def replot_def Let_def lag_sel plotSpec_eq update_conv' stateOf_def)
  have carried: "ps_carriedClose (replotted 60 1000 (lagState t)) = Some (Fin (1/2))"
      "ps_plottedStep (replotted 60 1000 (lagState t)) = t" if "1000 \<le> t" for t
    using lag_grid [OF that] by (auto simp: replotted_def plotted_def)
  have rawv: "rawBySpec (ch_states ?c) ?specs = [Some (Fin (1/2)), Some (Fin (1/2))]"
    by (simp add: rawBySpec_def lag_sel st carried)
  let ?zs = "zip ?specs (normalizedBySpec True (ch_states ?c) ?specs)"
  obtain y where "normalizeOddsAcrossGroup [Some (Fin (1/2)), Some (Fin (1/2))] ! 1 = Some y"
    using normalizeOdds_defined [of 1 "[Some (Fin (1/2)), Some (Fin (1/2))]"] by auto
  then have zs: "(lagSpec ''b'', Some y) \<in> set ?zs"
    by (auto simp: normalizedBySpec_def rawv in_set_conv_nth intro!: exI [of _ 1] split: nat.splits)
       (simp_all add: normalizeOddsAcrossGroup_def Let_def)
  let ?ups = "concat (map (\<lambda>(pk, s). concat (map (pointsAt ?zs {''a:yes'', ''b:yes''} pk) (rolledTimes 1 1001 s))) (ch_states ?c))"
  let ?sts = "map (\<lambda>(pk, s). (pk, rolled 1 1001 s)) (ch_states ?c)"
  have tick: "chartTick 1001000 ?c = Some (?c\<lparr>ch_states := ?sts, ch_lines := fold appendPoint ?ups (ch_lines ?c)\<rparr>)"
    unfolding chartTick_def rollForward_def
    by (simp add: lag_plot(2) lag_step rollStates_eq lag_sel)
  have "rolledTimes 1 1001 (replotted 60 1000 (lagState 1000)) = [1001]"
    by (simp add: rolledTimes_def carried missing_def ticks_def)
  moreover have "(''b'', replotted 60 1000 (lagState 1000)) \<in> set (ch_states ?c)" using st by (auto dest: map_of_SomeD)
  moreover have "(''b:yes'', 1001, y) \<in> set (pointsAt ?zs {''a:yes'', ''b:yes''} ''b'' 1001)"
    using zs unfolding pointsAt_def by (force simp: lag_sel)
  ultimately have "(''b:yes'', 1001, y) \<in> set ?ups" by force
  then have "pointOf (''b:yes'', 1001, y) \<in> set (map pointOf (filter (\<lambda>u. fst u = ''b:yes'') ?ups))" by auto
  moreover have "ascending (gb @ ps) \<Longrightarrow> p \<in> set ps \<Longrightarrow> gp_time (last gb) < gp_time p" for ps p
    using end1(2) by (auto simp: ascending_def sorted_wrt_append)
  ultimately have "\<not> ascending (gb @ map pointOf (filter (\<lambda>u. fst u = ''b:yes'') ?ups))"
    using end1(1) by (fastforce simp: pointOf_def)
  then show ?thesis using tick map_of_appends [OF line, of ?ups] by auto
qed

end
