(* ===== verification/Views.thy ===== *)
theory Views
  imports ControlRuns Platform Pages
begin

text \<open>
  What the screens show, as data: the cards of the list (\<open>MarketCard.tsx\<close>, \<open>CategoricalCard.tsx\<close>),
  their bars and gauges (\<open>FundingBar.tsx\<close>, \<open>ProbabilityGauge.tsx\<close>), the panels of the market's page
  (\<open>MarketDetail.tsx\<close>), the step lists (\<open>ActivateControl.tsx\<close>, \<open>BatchStepList.tsx\<close>), the toolbar of
  the list (\<open>UnifiedDashboard.tsx\<close>), the navigation bar and the wallet picker.  A view holds the texts
  and figures a component renders and the conditions under which it renders them; tags, classes and
  layout are left out.
\<close>

subsection \<open>Figures\<close>

text \<open>\<open>Math.round(x * 100)\<close>.\<close>

definition roundPct :: "jsnum \<Rightarrow> jsnum" where
  "roundPct x = nround (nmul x (Fin 100))"

record FundingBarView =
  fb_percent :: jsnum
  fb_raised :: string
  fb_floor :: string
  fb_funded :: bool

definition FundingBar :: "int \<Rightarrow> int \<Rightarrow> FundingBarView" where
  "FundingBar totalContributed minLiquidity =
     (let p = fundingProgress totalContributed minLiquidity in
      \<lparr>fb_percent = roundPct (fp_pct p), fb_raised = formatSol totalContributed,
       fb_floor = formatSol minLiquidity @ '' SOL'', fb_funded = fp_funded p\<rparr>)"

text \<open>The gauge shows the pair of percentages, or that there is no price.\<close>

datatype GaugeView = PriceUnavailable | Gauge jsnum jsnum

definition ProbabilityGauge :: "jsnum option \<Rightarrow> GaugeView" where
  "ProbabilityGauge probability =
     (case probability of
        None \<Rightarrow> PriceUnavailable
      | Some p \<Rightarrow> (let yesPct = roundPct p in Gauge yesPct (nsub (Fin 100) yesPct)))"

text \<open>\<open>x.toFixed(2)\<close> of a non-negative number: the nearest hundredth, the larger of two.\<close>

definition cents_str :: "int \<Rightarrow> string" where
  "cents_str n = show_int (n div 100) @ ''.'' @ padStart 2 (show_int (n mod 100))"

fun toFixed2 :: "jsnum \<Rightarrow> string" where
  "toFixed2 (Fin a) =
     (if a < 0 then ''-'' @ cents_str \<lfloor>- a * 100 + 1/2\<rfloor> else cents_str \<lfloor>a * 100 + 1/2\<rfloor>)"
| "toFixed2 PInf = ''Infinity''"
| "toFixed2 NInf = ''-Infinity''"
| "toFixed2 NaN = ''NaN''"

subsection \<open>The cards\<close>

record MarketCardView =
  mv_status :: string
  mv_subject :: string
  mv_tradeHint :: bool
  mv_link :: string
  mv_title :: string
  mv_funding :: "FundingBarView option"
  mv_probability :: "(jsnum \<times> jsnum) option option"
  mv_tvl :: string
  mv_cta :: "Control option"

text \<open>\<open>subject\<close> is the optional display text of the market's subject.\<close>

definition MarketCard :: "web3 \<Rightarrow> MarketSummary \<Rightarrow> string option \<Rightarrow> MarketCardView" where
  "MarketCard W summary metaSubject =
     (let m = ms_market summary; pk = ms_pubkey summary;
          funding = (mk_status m = status_code Funding); active = (mk_status m = status_code Active);
          subject = map_option trim metaSubject in
      \<lparr>mv_status = statusLabel (mk_status m),
       mv_subject = ''Subject '' @ truncateMiddle (toBase58 W (mk_oracle m)) (Some 4) (Some 4),
       mv_tradeHint = active,
       mv_link = ''/markets/'' @ pk,
       mv_title = (if truthy subject then orElse subject [] else truncateMiddle pk (Some 6) (Some 6)),
       mv_funding = (if funding then Some (FundingBar (mk_totalContributed m) (mk_minLiquidity m)) else None),
       mv_probability = (if active then Some (probabilityPair (impliedYesProbability (ms_reserves summary))) else None),
       mv_tvl = formatSol (mk_totalContributed m) @ '' SOL'',
       mv_cta = cardAction m\<rparr>)"

record OutcomeLine =
  ol_label :: string
  ol_link :: string
  ol_probability :: string
  ol_arrow :: bool

record CategoricalCardView =
  cv_status :: string
  cv_subject :: string
  cv_title :: string
  cv_funding :: "FundingBarView option"
  cv_outcomes :: "OutcomeLine list"
  cv_tvl :: string
  cv_cta :: bool

text \<open>\<open>options\<close> are the optional labels of the outcomes, by index.\<close>

definition optionLabel :: "string list option \<Rightarrow> int \<Rightarrow> string option" where
  "optionLabel options i =
     (case options of
        None \<Rightarrow> None
      | Some ls \<Rightarrow> if 0 \<le> i \<and> nat i < length ls then Some (ls ! nat i) else None)"

definition groupTvl :: "OracleGroup \<Rightarrow> int" where
  "groupTvl g = foldl (\<lambda>s m. s + mk_totalContributed (ms_market m)) 0 (gr_markets g)"

definition CategoricalCard ::
  "OracleGroup \<Rightarrow> string option \<Rightarrow> string list option \<Rightarrow> CategoricalCardView" where
  "CategoricalCard g metaSubject options =
     (let outcomes = map (\<lambda>s. outcomeRow s (optionLabel options (mk_outcomeIndex (ms_market s)))) (gr_markets g);
          normalized = normalizeOddsAcrossGroup (map ow_probability outcomes);
          optionsCount = orElse (gr_optionsCount g) (int (length (gr_markets g)));
          subject = map_option trim metaSubject;
          overall = groupStatus (gr_markets g);
          funding = cardFunding g in
      \<lparr>cv_status = statusLabel (status_code overall),
       cv_subject = ''Subject '' @ truncateMiddle (gr_oracle g) (Some 4) (Some 4),
       cv_title = (if truthy subject then orElse subject []
         else show_int (int (length (gr_markets g))) @ '' of '' @ show_int optionsCount @ '' outcomes live''),
       cv_funding = map_option (\<lambda>t. FundingBar (fst t) (snd t)) (cumulativeFunding funding),
       cv_outcomes = map (\<lambda>i. \<lparr>ol_label = ow_label (outcomes ! i), ol_link = ''/markets/'' @ ow_pubkey (outcomes ! i),
           ol_probability = formatProbability (normalized ! i), ol_arrow = (overall = Active)\<rparr>)
         [0..<length outcomes],
       cv_tvl = formatSol (groupTvl g) @ '' SOL'',
       cv_cta = (length funding > 0)\<rparr>)"

subsection \<open>MarketDetail.tsx: the panels\<close>

text \<open>The two texts of the header: the outcome, and its place among the options.\<close>

definition detailHeader :: "MarketDetail \<Rightarrow> string \<times> string option" where
  "detailHeader d =
     (let i = mk_outcomeIndex (mt_market d) in
      (''outcome '' @ show_int i,
       map_option (\<lambda>orc. ''outcome '' @ show_int i @ '' of '' @ show_int (or_optionsCount orc)) (mt_oracle d)))"

definition lpComposition :: "Market \<Rightarrow> (string \<times> string) list option" where
  "lpComposition m =
     (let grossLp = mk_grossLpTotal m; fundingLp = mk_activationLp m; indep = independentLp m in
      if grossLp > 0 then Some
        [(''From funding ('' @ percentOf fundingLp grossLp @ '')'', formatSol fundingLp @ '' LP''),
         (''From independent LPs ('' @ percentOf indep grossLp @ '')'', formatSol indep @ '' LP''),
         (''Total LP'', formatSol grossLp @ '' LP'')]
      else None)"

definition poolComposition :: "AmmReserves option \<Rightarrow> (string \<times> string) list option" where
  "poolComposition reserves =
     map_option (\<lambda>r. [(''cYES (pays 1 SOL on YES)'', formatSol (ar_base r)),
       (''cNO (pays 1 SOL on NO)'', formatSol (ar_quote r))]) reserves"

definition poolDetails :: "Market \<Rightarrow> (string \<times> string) list" where
  "poolDetails m =
     [(''Raised'', formatSol (mk_totalContributed m) @ '' SOL''),
      (''Floor'', formatSol (mk_minLiquidity m) @ '' SOL''),
      (''Protocol fee'', toFixed2 (ndiv (Number (mk_feeBps m)) (Fin 100)) @ ''%'')] @
     (if mk_feeBps m > 0 then [(''Fee collected'', if mk_feeCollected m then ''yes'' else ''no'')] else [])"

text \<open>The probability panel: the gauge of an active market.\<close>

definition probabilityPanel :: "MarketDetail \<Rightarrow> GaugeView option" where
  "probabilityPanel d =
     (if mk_status (mt_market d) = status_code Active
      then Some (ProbabilityGauge (impliedYesProbability (mt_reserves d))) else None)"

definition subjectPanel :: "MarketDetail \<Rightarrow> (string \<times> string \<times> string) option" where
  "subjectPanel d =
     map_option (\<lambda>orc. (phaseLabel (or_phase orc), show_int (or_optionsCount orc),
       outcomeResolutionText (Some orc) (mk_outcomeIndex (mt_market d)))) (mt_oracle d)"

definition ZERO_ADDRESS :: string where
  "ZERO_ADDRESS = ''11111111111111111111111111111111''"

text \<open>A row of the bindings: nothing yet, or the text, what is copied, and the link.\<close>

datatype AddressRow = SetAtActivation | BoundAddress string string string

definition addressRow :: "web3 \<Rightarrow> string option \<Rightarrow> address \<Rightarrow> AddressRow" where
  "addressRow W env a =
     (let v = toBase58 W a in
      if v = ZERO_ADDRESS then SetAtActivation
      else BoundAddress (truncateMiddle v (Some 4) (Some 4)) v (explorerAddressUrl env v))"

definition bindings :: "web3 \<Rightarrow> string option \<Rightarrow> Market \<Rightarrow> (string \<times> AddressRow) list" where
  "bindings W env m =
     map (map_prod id (addressRow W env))
       [(''GPT subject'', mk_oracle m), (''Creator'', mk_creator m), (''SOL mint'', mk_baseMint m),
        (''Escrow vault'', mk_escrowVault m), (''Question'', mk_question m),
        (''Conditional vault'', mk_vault m), (''cYES mint'', mk_yesMint m), (''cNO mint'', mk_noMint m),
        (''AMM pool'', mk_amm m), (''LP mint'', mk_lpMint m), (''LP vault'', mk_lpVault m)]"

subsection \<open>Step lists\<close>

text \<open>What follows the label of a step: a note, a link with its text, or nothing.\<close>

datatype StepTail = NoTail | AlreadyOnChain | TxLink string string

record StepRow =
  sr_glyph :: StepGlyph
  sr_text :: string
  sr_tail :: StepTail
  sr_error :: "string option"

definition stepStatusAt :: "StepStatus list \<Rightarrow> nat \<Rightarrow> StepStatus" where
  "stepStatusAt statuses i = (if i < length statuses then statuses ! i else SPending)"

definition stepError :: "StepStatus \<Rightarrow> string option" where
  "stepError st = (case st of SError m logs \<Rightarrow> Some m | _ \<Rightarrow> None)"

definition stepText :: "nat \<Rightarrow> ActivateStep \<Rightarrow> string" where
  "stepText i step = show_int (int i + 1) @ ''. '' @ as_label step"

definition StepList :: "string option \<Rightarrow> ActivateStep list \<Rightarrow> StepStatus list \<Rightarrow> StepRow list" where
  "StepList env steps statuses =
     map (\<lambda>i. let st = stepStatusAt statuses i in
         \<lparr>sr_glyph = stepGlyph st, sr_text = stepText i (steps ! i),
          sr_tail = (case st of
             SDone signature \<Rightarrow>
               if signature = ''already-landed'' then AlreadyOnChain
               else TxLink (explorerTxUrl env signature) (shortSig signature)
           | _ \<Rightarrow> NoTail),
          sr_error = stepError st\<rparr>) [0..<length steps]"

text \<open>The compact list of the batches has no links.\<close>

definition BatchStepList :: "ActivateStep list \<Rightarrow> StepStatus list \<Rightarrow> StepRow list" where
  "BatchStepList steps statuses =
     map (\<lambda>i. let st = stepStatusAt statuses i in
         \<lparr>sr_glyph = stepGlyph st, sr_text = stepText i (steps ! i),
          sr_tail = (if st = SDone ''already-landed'' then AlreadyOnChain else NoTail),
          sr_error = stepError st\<rparr>) [0..<length steps]"

subsection \<open>Truncated.tsx, AvatarBubble.tsx\<close>

text \<open>
  A click writes the full value to the clipboard, when there is one that accepts it; the confirmation
  goes after \<open>1200\<close> ms.  The clipboard is absent, denies, or takes the text.
\<close>

datatype Clipboard = NoClipboard | Denied | Accepts

record TruncatedCell =
  td_copied :: bool
  td_clipboard :: "string option"

definition onCopy :: "Clipboard \<Rightarrow> string \<Rightarrow> TruncatedCell \<Rightarrow> TruncatedCell" where
  "onCopy clip v c =
     (case clip of Accepts \<Rightarrow> c\<lparr>td_copied := True, td_clipboard := Some v\<rparr> | _ \<Rightarrow> c)"

definition copyTimeout :: "TruncatedCell \<Rightarrow> TruncatedCell" where
  "copyTimeout c = c\<lparr>td_copied := False\<rparr>"

text \<open>The shown text, and the label for assistive technology of the copyable form.\<close>

definition Truncated :: "string \<Rightarrow> nat option \<Rightarrow> nat option \<Rightarrow> string option \<Rightarrow> TruncatedCell \<Rightarrow> string \<times> string" where
  "Truncated v h t label c =
     (let l = orElse label ''value'' in
      (truncateMiddle v (Some (orElse h 4)) (Some (orElse t 4)),
       if td_copied c then l @ '' copied to clipboard'' else ''Copy '' @ l @ '' '' @ v))"

subsection \<open>UnifiedDashboard.tsx\<close>

text \<open>A chip: its label, whether it is pressed, and its count.\<close>

definition filterChips :: "MarketFilter \<Rightarrow> MarketCounts \<Rightarrow> (string \<times> bool \<times> nat) list" where
  "filterChips filter0 counts =
     [(''All'', filter0 = AllStages, nc_total counts),
      (''Funding'', filter0 = OnlyStage FundingStage, nc_funding counts),
      (''Active'', filter0 = OnlyStage ActiveStage, nc_active counts),
      (''Resolved'', filter0 = OnlyStage ResolvedStage, nc_resolved counts),
      (''Closed'', filter0 = OnlyStage ClosedStage, nc_closed counts)]"

definition sortChips :: "MarketSort \<Rightarrow> (string \<times> bool) list" where
  "sortChips sort0 = [(''Value at stake'', sort0 = ByValue), (''Stage'', sort0 = ByStage)]"

subsection \<open>NavBar.tsx\<close>

record NavLink =
  nl_label :: string
  nl_href :: string
  nl_route :: bool
  nl_external :: bool

definition NAV_LINKS :: "NavLink list" where
  "NAV_LINKS =
     [\<lparr>nl_label = ''Markets'', nl_href = ''/markets'', nl_route = True, nl_external = False\<rparr>,
      \<lparr>nl_label = ''Governance'', nl_href = ''/#why-kassandra'', nl_route = False, nl_external = False\<rparr>,
      \<lparr>nl_label = ''Docs'', nl_href = ''https://dodecahedr0x.github.io/kassandra/'', nl_route = False, nl_external = True\<rparr>]"

definition isActiveLink :: "NavLink \<Rightarrow> string \<Rightarrow> bool" where
  "isActiveLink link pathname \<longleftrightarrow>
     nl_route link \<and>
     (pathname = nl_href link \<or> take (length (nl_href link) + 1) pathname = nl_href link @ ''/'')"

definition truncateAddress :: "string \<Rightarrow> string" where
  "truncateAddress a = take 4 a @ [CHR 0x85] @ drop (length a - 4) a"

text \<open>The menu of small screens: whether it is open, and the location its effect last saw.\<close>

record NavCell =
  nb_open :: bool
  nb_location :: "string \<times> string"

definition navToggle :: "NavCell \<Rightarrow> NavCell" where
  "navToggle c = c\<lparr>nb_open := \<not> nb_open c\<rparr>"

definition navLocation :: "string \<times> string \<Rightarrow> NavCell \<Rightarrow> NavCell" where
  "navLocation loc c = (if loc = nb_location c then c else c\<lparr>nb_location := loc, nb_open := False\<rparr>)"

definition navKey :: "string \<Rightarrow> NavCell \<Rightarrow> NavCell" where
  "navKey key c = (if nb_open c \<and> key = ''Escape'' then c\<lparr>nb_open := False\<rparr> else c)"

text \<open>The cluster control: a fixed label, or the choices with the chosen one.\<close>

datatype ClusterControl = FixedCluster string | ClusterChoice Cluster "(Cluster \<times> string) list"

definition ClusterSelector :: "Env \<Rightarrow> ClusterCell \<Rightarrow> ClusterControl" where
  "ClusterSelector E c =
     (if isGatewayMode E then FixedCluster (CLUSTER_LABELS (cc_cluster c))
      else ClusterChoice (cc_cluster c) (map (\<lambda>k. (k, CLUSTER_LABELS k)) CLUSTERS))"

text \<open>The connect control: the address with a disconnect, or the way to the picker.\<close>

datatype ConnectView = ConnectedTo string string | ConnectButton string bool

definition ConnectControl :: "bool \<Rightarrow> string option \<Rightarrow> bool \<Rightarrow> ConnectView" where
  "ConnectControl isConnected publicKey connecting =
     (case publicKey of
        Some a \<Rightarrow> if isConnected then ConnectedTo (truncateAddress a) a
          else ConnectButton (if connecting then ''Connecting'' @ [CHR 0x85] else ''Connect wallet'') connecting
      | None \<Rightarrow> ConnectButton (if connecting then ''Connecting'' @ [CHR 0x85] else ''Connect wallet'') connecting)"

subsection \<open>WalletMenu.tsx\<close>

fun connectableLoop :: "string list \<Rightarrow> UiWallet list \<Rightarrow> UiWallet list" where
  "connectableLoop seen [] = []"
| "connectableLoop seen (w # ws) =
     (if uw_name w \<in> set seen then connectableLoop seen ws
      else if ''standard:connect'' \<notin> set (uw_features w) then connectableLoop seen ws
      else w # connectableLoop (uw_name w # seen) ws)"

definition connectableWallets :: "UiWallet list \<Rightarrow> UiWallet list" where
  "connectableWallets ws = connectableLoop [] ws"

text \<open>A row's click: the accounts that connecting gave; the first is adopted and the picker closes.\<close>

definition walletRowClick :: "StdAccount list res \<Rightarrow> WalletCell \<Rightarrow> WalletCell res" where
  "walletRowClick accounts c =
     mapR (\<lambda>as. case as of [] \<Rightarrow> c | a # rest \<Rightarrow> (adopt a c)\<lparr>wp_open := False\<rparr>) accounts"

datatype MenuView = MenuClosed | NoWallets | WalletRows "string list"

definition WalletMenu :: "WalletCell \<Rightarrow> MenuView" where
  "WalletMenu c =
     (if \<not> wp_open c then MenuClosed
      else let rows = connectableWallets (wp_wallets c) in
        if length rows = 0 then NoWallets else WalletRows (map uw_name rows))"

subsection \<open>The figures are in range\<close>

lemma roundPct_range:
  assumes "unit_num x"
  shows "\<exists>k. roundPct x = Fin (of_int k) \<and> nsub (Fin 100) (roundPct x) = Fin (of_int (100 - k)) \<and> 0 \<le> k \<and> k \<le> 100"
  using probabilityPair_complement [OF assms] by (auto simp: probabilityPair_def roundPct_def Let_def)

lemma roundPct_1: "roundPct (Fin 1) = Fin 100"
proof -
  have "\<lfloor>201 / 2 :: rat\<rfloor> = 100" by (rule floor_unique) simp_all
  then show ?thesis using Number_exact [of 100] by (simp add: roundPct_def Number_def)
qed

lemma FundingBar_range:
  assumes "0 \<le> c" "is_u64 c" "is_u64 m"
  shows "\<exists>k. fb_percent (FundingBar c m) = Fin (of_int k) \<and> 0 \<le> k \<and> k \<le> 100 \<and>
    (fb_funded (FundingBar c m) \<longrightarrow> k = 100) \<and> (fb_funded (FundingBar c m) \<longleftrightarrow> m \<le> 0 \<or> m \<le> c)"
proof -
  obtain k where k: "roundPct (fp_pct (fundingProgress c m)) = Fin (of_int k)" "0 \<le> k" "k \<le> 100"
    using roundPct_range [OF fundingProgress_spec(2) [OF assms]] by blast
  moreover have "k = 100" if "fp_funded (fundingProgress c m)"
    using fundingProgress_spec(3) [OF assms that] k(1) roundPct_1 by simp
  ultimately show ?thesis using fundingProgress_spec(1) [OF assms] by (auto simp: FundingBar_def Let_def)
qed

lemma ProbabilityGauge_range:
  assumes "u64_reserves r" "ProbabilityGauge (impliedYesProbability (Some r)) = Gauge y n"
  shows "\<exists>k. y = Fin (of_int k) \<and> n = Fin (of_int (100 - k)) \<and> 0 \<le> k \<and> k \<le> 100"
proof -
  obtain p where p: "impliedYesProbability (Some r) = Some p" "y = roundPct p" "n = nsub (Fin 100) (roundPct p)"
    using assms(2) by (auto simp: ProbabilityGauge_def Let_def split: option.splits)
  show ?thesis using roundPct_range [OF impliedYesProbability_unit(2) [OF assms(1) p(1)]] p(2,3) by auto
qed

lemma ulp_ex_bound: "\<bar>x\<bar> < pow2 k \<Longrightarrow> - 1022 \<le> k \<Longrightarrow> x \<noteq> 0 \<Longrightarrow> ulp_ex x \<le> k - 52"
proof -
  assume x: "\<bar>x\<bar> < pow2 k" "- 1022 \<le> k" "x \<noteq> 0"
  then have "pow2 (ex2 \<bar>x\<bar>) < pow2 k" using ex2_bounds [of "\<bar>x\<bar>"] by simp
  then have "ex2 \<bar>x\<bar> < k" by (meson not_le pow2_mono)
  then show ?thesis using x by (simp add: ulp_ex_def)
qed

text \<open>A percentage of basis points is shown exactly.\<close>

lemma fee_percent:
  assumes "0 \<le> b" "b \<le> 10000"
  shows "toFixed2 (ndiv (Number b) (Fin 100)) = cents_str b"
proof -
  let ?x = "of_int b / 100 :: rat"
  have r: "0 \<le> ?x" "?x \<le> of_int 100" using assms by simp_all
  have "\<bar>rnd ?x - ?x\<bar> < 1/400"
  proof (cases "b = 0")
    case False
    have "ulp_ex ?x \<le> 7 - 52" using r False by (intro ulp_ex_bound) simp_all
    then have "pow2 (ulp_ex ?x) \<le> pow2 (- 45)" by (intro pow2_mono) simp
    also have "\<dots> < 1/400" by (simp add: power_int_minus)
    finally show ?thesis using rnd_error [of ?x] by linarith
  qed simp
  then have e: "of_int b \<le> rnd ?x * 100 + 1/2" "rnd ?x * 100 + 1/2 < of_int b + 1"
    unfolding abs_less_iff by linarith+
  then have "\<lfloor>rnd ?x * 100 + 1/2\<rfloor> = b" by (rule floor_unique)
  moreover have "ndiv (Number b) (Fin 100) = Fin (rnd ?x)"
    using Number_exact [of b] assms r num_finite [of ?x] order_trans [of ?x "2 ^ 7" "2 ^ 1023"]
      power_increasing [of 7 1023 "2 :: rat"] by simp
  moreover have "0 \<le> rnd ?x" using r(1) by (rule rnd_nonneg)
  ultimately show ?thesis by simp
qed

subsection \<open>The cards\<close>

text \<open>A card shows the bar and a call to action while funding, the price while active, else neither.\<close>

lemma MarketCard_stage:
  "mv_funding (MarketCard W s meta) \<noteq> None \<longleftrightarrow> mk_status (ms_market s) = status_code Funding"
  "mv_cta (MarketCard W s meta) \<noteq> None \<longleftrightarrow> mk_status (ms_market s) = status_code Funding"
  "mv_probability (MarketCard W s meta) \<noteq> None \<longleftrightarrow> mk_status (ms_market s) = status_code Active"
  "mv_tradeHint (MarketCard W s meta) \<longleftrightarrow> mk_status (ms_market s) = status_code Active"
  by (simp_all add: MarketCard_def cardAction_def Let_def)

lemma MarketCard_cta:
  "mv_cta (MarketCard W s meta) = Some AActivate \<longleftrightarrow>
     (\<exists>v. mv_funding (MarketCard W s meta) = Some v \<and> fb_funded v)"
  by (simp add: MarketCard_def cardAction_def FundingBar_def Let_def)

lemma cumulativeFunding_eq:
  "cumulativeFunding f = (if f = [] then None else Some (sum_list (map (mk_totalContributed \<circ> ms_market) f),
     sum_list (map (mk_minLiquidity \<circ> ms_market) f)))"
  by (simp add: cumulativeFunding_def foldl_sum comp_def)

lemma groupTvl_eq: "groupTvl g = sum_list (map (mk_totalContributed \<circ> ms_market) (gr_markets g))"
  by (simp add: groupTvl_def foldl_sum comp_def)

lemma CategoricalCard_lines:
  "map ol_link (cv_outcomes (CategoricalCard g meta options)) = map (\<lambda>s. ''/markets/'' @ ms_pubkey s) (gr_markets g)"
  by (rule nth_equalityI) (simp_all add: CategoricalCard_def Let_def outcomeRow_def)

lemma CategoricalCard_cta:
  "cv_cta (CategoricalCard g meta options) \<longleftrightarrow> (\<exists>s\<in>set (gr_markets g). mk_status (ms_market s) = status_code Funding)"
  "cv_funding (CategoricalCard g meta options) \<noteq> None \<longleftrightarrow> cv_cta (CategoricalCard g meta options)"
  by (auto simp: CategoricalCard_def Let_def cumulativeFunding_eq cardFunding_def isFunding_def filter_empty_conv)

subsection \<open>The page\<close>

text \<open>The two parts of the liquidity tokens are all of them.\<close>

lemma lp_parts: "mk_activationLp m \<le> mk_grossLpTotal m \<Longrightarrow> mk_activationLp m + independentLp m = mk_grossLpTotal m"
  by (simp add: independentLp_def)

lemma poolDetails_fee:
  "0 \<le> mk_feeBps m \<Longrightarrow> mk_feeBps m \<le> 10000 \<Longrightarrow>
     map_of (poolDetails m) ''Protocol fee'' = Some (cents_str (mk_feeBps m) @ ''%'')"
  by (simp add: poolDetails_def fee_percent)

text \<open>A binding is shown as unset exactly for the all-zero address, and its link is that of the address.\<close>

lemma addressRow_zero:
  assumes "base58_ok W" "wf_address a" "wf_address z" "toBase58 W z = ZERO_ADDRESS"
  shows "addressRow W env a = SetAtActivation \<longleftrightarrow> a = z"
  using base58_ok_inj [OF assms(1-3)] assms(4) by (auto simp: addressRow_def Let_def)

subsection \<open>Step lists\<close>

lemma StepList_done:
  assumes "i < length steps"
  shows "sr_glyph (StepList env steps statuses ! i) = GlyphDone \<longleftrightarrow> is_done (stepStatusAt statuses i)"
    and "sr_error (StepList env steps statuses ! i) \<noteq> None \<longleftrightarrow> is_error (stepStatusAt statuses i)"
  using assms
  by (auto simp: StepList_def Let_def stepGlyph_def stepError_def is_done_def is_error_def split: StepStatus.splits)

text \<open>The compact list is the full list without its links.\<close>

definition without_link :: "StepRow \<Rightarrow> StepRow" where
  "without_link r = r\<lparr>sr_tail := (case sr_tail r of AlreadyOnChain \<Rightarrow> AlreadyOnChain | _ \<Rightarrow> NoTail)\<rparr>"

lemma BatchStepList_eq: "BatchStepList steps statuses = map without_link (StepList env steps statuses)"
  by (rule nth_equalityI)
    (auto simp: BatchStepList_def StepList_def Let_def without_link_def split: StepStatus.splits)

text \<open>All steps read as done exactly when the sequence is over.\<close>

lemma StepList_allDone:
  assumes "length statuses = length steps" "steps \<noteq> []"
  shows "allDone statuses \<longleftrightarrow> (\<forall>r\<in>set (StepList env steps statuses). sr_glyph r = GlyphDone)"
proof -
  have "(\<forall>r\<in>set (StepList env steps statuses). sr_glyph r = GlyphDone) \<longleftrightarrow>
      (\<forall>i<length steps. sr_glyph (StepList env steps statuses ! i) = GlyphDone)"
    by (simp add: all_set_conv_all_nth) (simp add: StepList_def)
  also have "\<dots> \<longleftrightarrow> (\<forall>i<length steps. is_done (statuses ! i))"
    using StepList_done(1) [of _ steps env statuses] assms(1) by (simp add: stepStatusAt_def)
  finally show ?thesis using assms by (auto simp: allDone_def all_set_conv_all_nth)
qed

subsection \<open>The shell\<close>

lemma onCopy_value: "td_copied (onCopy clip v c) \<Longrightarrow> \<not> td_copied c \<Longrightarrow> td_clipboard (onCopy clip v c) = Some v"
  by (cases clip) (simp_all add: onCopy_def)

text \<open>Exactly one filter chip and one sort chip is pressed; the counts of the stages add up to the first.\<close>

lemma filterChips_pressed: "length (filter (\<lambda>(l, p, n). p) (filterChips f c)) = 1"
proof (cases f)
  case (OnlyStage st)
  then show ?thesis by (cases st) (simp_all add: filterChips_def)
qed (simp add: filterChips_def)

lemma sortChips_pressed: "length (filter snd (sortChips s)) = 1"
  by (cases s) (simp_all add: sortChips_def)

text \<open>The menu of small screens never stays open over another page.\<close>

lemma navLocation_closed: "loc \<noteq> nb_location c \<Longrightarrow> \<not> nb_open (navLocation loc c)"
  by (simp add: navLocation_def)

text \<open>
  The picker offers, in the order of the registry, the first connectable entry of every name that
  has one, and no name twice.
\<close>

lemma connectableLoop_spec:
  "connectableLoop seen ws =
     (let cs = filter (\<lambda>w. ''standard:connect'' \<in> set (uw_features w)) ws in
      map (\<lambda>n. the (find_first (\<lambda>w. uw_name w = n) cs)) (filter (\<lambda>n. n \<notin> set seen) (firsts (map uw_name cs))))"
proof (induction seen ws rule: connectableLoop.induct)
  case (2 seen w ws)
  show ?case using 2
    by (auto simp: Let_def filter_filter conj_commute intro!: map_cong filter_cong arg_cong [where f = the])
qed simp

lemma connectableLoop_set:
  "w \<in> set (connectableLoop seen ws) \<Longrightarrow>
     w \<in> set ws \<and> ''standard:connect'' \<in> set (uw_features w) \<and> uw_name w \<notin> set seen"
  by (induction seen ws rule: connectableLoop.induct) (auto split: if_splits)

lemma connectableLoop_names: "distinct (map uw_name (connectableLoop seen ws))"
proof (induction seen ws rule: connectableLoop.induct)
  case (2 seen w ws)
  have "uw_name w \<notin> uw_name ` set (connectableLoop (uw_name w # seen) ws)"
    using connectableLoop_set [of _ "uw_name w # seen" ws] by force
  then show ?case using 2 by simp
qed simp

text \<open>A click in the picker is a step of the wallet provider.\<close>

lemma walletRowClick_run:
  assumes "wallet_run ws st c asked" "walletRowClick accounts c = Inr c'"
  shows "wallet_run ws st c' asked"
proof -
  obtain as where as: "accounts = Inr as" using assms(2) by (cases accounts) (simp_all add: walletRowClick_def)
  show ?thesis
  proof (cases as)
    case Nil
    then have "c' = c" using assms(2) as by (simp add: walletRowClick_def)
    then show ?thesis using assms(1) by (simp only:)
  next
    case (Cons a rest)
    then have "c' = (adopt a c)\<lparr>wp_open := False\<rparr>" using assms(2) as by (simp add: walletRowClick_def)
    then show ?thesis by (simp only:) (intro wallet_run.Picker wallet_run.Adopted assms(1))
  qed
qed

end
