(* ===== verification/Screens.thy ===== *)
theory Screens
  imports Views GroupPanel Chart
begin

text \<open>
  The forms and pages as data: the fields and buttons of \<open>formPrimitives.tsx\<close>; what the order ticket
  (\<open>TradePanel.tsx\<close>), the deposit and contribute forms, the redemption, the claim, the group panel and
  the calls to action of the cards show and when their buttons are enabled; the browse page
  (\<open>Markets.tsx\<close>), the legend of \<open>GroupTradePanel.tsx\<close>, the create form, the routes of \<open>App.tsx\<close> and
  the contexts of \<open>AppProviders.tsx\<close>.  Each view is a function of the component's state, as modelled in
  the theories it imports; the lemmas relate what is shown and enabled to what a submit then does.
\<close>

subsection \<open>formPrimitives.tsx\<close>

text \<open>The line under a field is its error, else its hint; the flag tells them apart.\<close>

record FieldView =
  fv_label :: string
  fv_line :: "(string \<times> bool) option"
  fv_invalid :: bool

definition Field :: "string \<Rightarrow> string option \<Rightarrow> string option \<Rightarrow> FieldView" where
  "Field label hint err =
     \<lparr>fv_label = label,
      fv_line = (if truthy err then Some (orElse err [], True)
        else if truthy hint then Some (orElse hint [], False) else None),
      fv_invalid = truthy err\<rparr>"

record ButtonView =
  bt_label :: string
  bt_disabled :: bool
  bt_busy :: bool

definition SubmitButton :: "string \<Rightarrow> WriteStatus \<Rightarrow> bool \<Rightarrow> ButtonView" where
  "SubmitButton verb status disabled =
     \<lparr>bt_label = submitLabel verb status, bt_disabled = submitDisabled disabled status,
      bt_busy = (status = WBuilding \<or> status = WSigning \<or> status = WConfirming)\<rparr>"

datatype BalanceLine = NoBalanceLine | CheckingBalance | YourSol string

definition SolBalanceLine :: "int option \<Rightarrow> bool \<Rightarrow> BalanceLine" where
  "SolBalanceLine balance loading =
     (case balance of
        None \<Rightarrow> if loading then CheckingBalance else NoBalanceLine
      | Some b \<Rightarrow> YourSol (formatSol b))"

subsection \<open>TradePanel.tsx\<close>

definition PRESETS :: "int list" where
  "PRESETS = [10, 50, 100]"

text \<open>A tab or a chip is its label and whether it is selected.\<close>

definition ModeTabs :: "TradeMode \<Rightarrow> (string \<times> bool) list" where
  "ModeTabs mode = [(''Buy'', mode = BuyMode), (''Sell'', mode = SellMode)]"

definition BeliefSelect :: "Belief list \<Rightarrow> (string \<times> string) list" where
  "BeliefSelect beliefs = map (\<lambda>b. (be_key b, be_label b)) beliefs"

definition dashOr :: "(int \<Rightarrow> string) \<Rightarrow> int option \<Rightarrow> string" where
  "dashOr f v = (case v of None \<Rightarrow> [CHR 0x97] | Some b \<Rightarrow> f b)"

definition ticketBalanceLine :: "Balances \<Rightarrow> Belief \<Rightarrow> Ticket \<Rightarrow> string" where
  "ticketBalanceLine bal b t =
     (if tk_mode t = BuyMode then ''Balance '' @ dashOr (\<lambda>v. formatSol v @ '' SOL'') (bl_base bal)
      else ''You hold '' @ dashOr (\<lambda>v. formatSol v @ '' '' @ upperOutcome (be_outcome b))
        (positionBalance bal (be_outcome b)))"

definition sellPreviewOf :: "Belief \<Rightarrow> Ticket \<Rightarrow> SellPreview option res" where
  "sellPreviewOf b t =
     (case (tk_mode t, parsedValue (tk_amount t)) of
        (SellMode, Some v) \<Rightarrow>
          mapR Some (previewSell (be_reserves b) (be_outcome b) v (Some (ticketSlippage t)))
      | _ \<Rightarrow> Inr None)"

text \<open>The estimate of a trade, and the note on the shares that a sale leaves unmerged.\<close>

definition buyReceive :: "Belief \<Rightarrow> (int \<times> int) option \<Rightarrow> string option" where
  "buyReceive b figures = map_option (\<lambda>f. formatSol (fst f) @ '' '' @ upperOutcome (be_outcome b) @ '' shares'') figures"

definition sellReceive :: "SellPreview option \<Rightarrow> string option" where
  "sellReceive p = (case p of Some q \<Rightarrow> if pv_received q > 0 then Some (formatSol (pv_received q) @ '' SOL'') else None
     | None \<Rightarrow> None)"

definition sellResidual :: "Belief \<Rightarrow> SellPreview option \<Rightarrow> string option" where
  "sellResidual b p =
     (case p of
        Some q \<Rightarrow> if pv_received q > 0 \<and> pv_residual q > 0
          then Some (formatSol (pv_residual q) @ '' '' @ upperOutcome (be_outcome b)) else None
      | None \<Rightarrow> None)"

record TicketView =
  tv_header :: string
  tv_modes :: "(string \<times> bool) list"
  tv_gate :: GateView
  tv_beliefs :: "(string \<times> string) list"
  tv_owned :: "string \<times> string"
  tv_balance :: string
  tv_unit :: string
  tv_error :: "string option"
  tv_chips :: "string list"
  tv_receive :: "string option"
  tv_residual :: "string option"
  tv_impact :: "(jsnum \<times> bool) option"
  tv_details :: "(FieldView \<times> string option) option"
  tv_button :: ButtonView
  tv_status :: StatusLine

text \<open>\<open>b\<close> is the selected belief; the previews may throw, and then the render does.\<close>

definition TradePanel ::
  "string option \<Rightarrow> string option \<Rightarrow> Belief list \<Rightarrow> Belief \<Rightarrow> Balances \<Rightarrow> Ticket \<Rightarrow> bool \<Rightarrow> WriteStatus \<Rightarrow> TicketView res" where
  "TradePanel env question beliefs b bal t isConnected status =
     bindR (buyFigures b t) (\<lambda>figures.
     bindR (sellPreviewOf b t) (\<lambda>sellPreview.
     bindR (priceImpactOf b t) (\<lambda>priceImpact.
     let outcome = upperOutcome (be_outcome b);
         buying = (tk_mode t = BuyMode);
         slippageError = snd (parseSlippagePercent (tk_slippageRaw t));
         inputError = (case tk_amountError t of Some e \<Rightarrow> Some e | None \<Rightarrow> ticketBalanceError bal b t);
         entered = (parsedValue (tk_amount t) \<noteq> None)
     in Inr
       \<lparr>tv_header = orElse question ''Trade this market'',
        tv_modes = ModeTabs (tk_mode t),
        tv_gate = ConnectGate isConnected,
        tv_beliefs = BeliefSelect beliefs,
        tv_owned = (dashOr formatSol (bl_yes bal) @ '' YES'', dashOr formatSol (bl_no bal) @ '' NO''),
        tv_balance = ticketBalanceLine bal b t,
        tv_unit = (if buying then ''SOL'' else ''shares''),
        tv_error = (if truthy inputError then inputError else None),
        tv_chips = map (\<lambda>n. ''+'' @ show_int n) PRESETS @ [''Max''],
        tv_receive = (if buying then buyReceive b figures else sellReceive sellPreview),
        tv_residual = (if buying then None else sellResidual b sellPreview),
        tv_impact = (if entered then Some (priceImpactPct priceImpact, nle (num (1/10)) priceImpact) else None),
        tv_details =
          (if entered \<and> tk_detailsOpen t then Some
             (Field ''Max slippage''
                (Some ''The trade reverts if the price moves beyond this tolerance before it lands.'') slippageError,
              if buying
              then map_option (\<lambda>f. formatSol (snd f) @ '' '' @ outcome @ '' shares'') figures
              else None)
           else None),
        tv_button = SubmitButton ((if buying then ''Buy '' else ''Sell '') @ outcome) status (ticketDisabled bal b t),
        tv_status = WriteStatusRegion env (if buying then ''Bought'' else ''Sold'') status\<rparr>)))"

subsection \<open>AddLiquidityControl.tsx, ContributeForm.tsx, RedeemControl.tsx, ClaimLpControl.tsx\<close>

definition PERCENTS :: "int list" where
  "PERCENTS = [25, 50, 75, 100]"

record DepositView =
  dp_heading :: bool
  dp_gate :: GateView
  dp_balance :: string
  dp_chips :: "string list"
  dp_error :: "string option"
  dp_accepted :: bool
  dp_button :: ButtonView
  dp_status :: StatusLine

definition AddLiquidityControl ::
  "string option \<Rightarrow> bool \<Rightarrow> int option \<Rightarrow> bool \<Rightarrow> AmmReserves option \<Rightarrow> DepositForm \<Rightarrow> bool \<Rightarrow> WriteStatus \<Rightarrow> DepositView" where
  "AddLiquidityControl env embedded balance loading reserves f isConnected status =
     (let balanceError = balanceGateError (parsedValue (df_amount f)) balance None;
          inputError = (case df_amountError f of Some e \<Rightarrow> Some e | None \<Rightarrow> balanceError)
      in \<lparr>dp_heading = (\<not> embedded), dp_gate = ConnectGate isConnected,
          dp_balance = (case balance of
             None \<Rightarrow> if loading then [CHR 0x85] else [CHR 0x97]
           | Some b \<Rightarrow> formatSol b),
          dp_chips = map (\<lambda>p. if p = 100 then ''Max'' else show_int p @ ''%'') PERCENTS,
          dp_error = (if truthy inputError then inputError else None),
          dp_accepted = df_accepted f,
          dp_button = SubmitButton ''Deposit'' status (depositDisabled balance reserves f),
          dp_status = WriteStatusRegion env ''Liquidity added'' status\<rparr>)"

record ContributeView =
  cb_gate :: GateView
  cb_field :: FieldView
  cb_line :: BalanceLine
  cb_button :: ButtonView
  cb_status :: StatusLine

definition ContributeForm ::
  "string option \<Rightarrow> int option \<Rightarrow> bool \<Rightarrow> string \<Rightarrow> string option \<Rightarrow> bool \<Rightarrow> WriteStatus \<Rightarrow> ContributeView" where
  "ContributeForm env balance loading amount amountError isConnected status =
     (let balanceError = balanceGateError (parsedValue amount) balance None
      in \<lparr>cb_gate = ConnectGate isConnected,
          cb_field = Field ''Amount (SOL)'' None (case amountError of Some e \<Rightarrow> Some e | None \<Rightarrow> balanceError),
          cb_line = SolBalanceLine balance loading,
          cb_button = SubmitButton ''Contribute'' status (truthy balanceError),
          cb_status = WriteStatusRegion env ''Contributed'' status\<rparr>)"

record RedeemView =
  rv_gate :: GateView
  rv_yes :: string
  rv_no :: string
  rv_button :: ButtonView
  rv_nothing :: bool
  rv_status :: StatusLine

definition RedeemControl ::
  "string option \<Rightarrow> int option \<Rightarrow> int option \<Rightarrow> bool \<Rightarrow> WriteStatus \<Rightarrow> RedeemView" where
  "RedeemControl env yes no isConnected status =
     \<lparr>rv_gate = ConnectGate isConnected, rv_yes = dashOr formatSol yes, rv_no = dashOr formatSol no,
      rv_button = SubmitButton ''Redeem'' status (redeemDisabled yes no),
      rv_nothing = redeemDisabled yes no, rv_status = WriteStatusRegion env ''Redeemed'' status\<rparr>"

text \<open>The button of a claim, if it has one.\<close>

definition claimButton :: "ClaimView \<Rightarrow> WriteStatus \<Rightarrow> ButtonView option" where
  "claimButton v status =
     (case v of
        ClaimHidden \<Rightarrow> None
      | ClaimNote \<Rightarrow> None
      | ClaimWaiting txt \<Rightarrow> Some (SubmitButton ''Waiting for fee collection'' WIdle True)
      | ClaimReady txt \<Rightarrow> Some (SubmitButton ''Claim LP'' status False))"

text \<open>The two tabs of an active market's liquidity.\<close>

datatype LiqTab = DepositTab | ClaimTab

definition LiquiditySubTabs :: "LiqTab \<Rightarrow> (string \<times> bool) list" where
  "LiquiditySubTabs v = [(''Deposit'', v = DepositTab), (''Claim'', v = ClaimTab)]"

subsection \<open>GroupLiquidityPanel.tsx\<close>

text \<open>What a uniform split gives to each outcome: one amount, or the two that differ by a lamport.\<close>

definition shareLabel :: "int list \<Rightarrow> string" where
  "shareLabel shares =
     formatSol (shares ! 0) @
     (case find_first (\<lambda>s. s \<noteq> shares ! 0) shares of Some s \<Rightarrow> [CHR 0x96] @ formatSol s | None \<Rightarrow> []) @ '' SOL each''"

definition perShareLabel :: "nat \<Rightarrow> string \<Rightarrow> string option res" where
  "perShareLabel n tot =
     (case (if trim tot = [] then None else parsedValue tot) of
        None \<Rightarrow> Inr None
      | Some v \<Rightarrow> mapR (\<lambda>shares. if n > 0 \<and> v > 0 then Some (shareLabel shares) else None) (uniformSplit v (int n)))"

definition plural :: "nat \<Rightarrow> string" where
  "plural n = (if n > 1 then ''s'' else [])"

definition depositHint :: "nat \<Rightarrow> string option \<Rightarrow> string" where
  "depositHint n per =
     ''Split uniformly across '' @ show_int (int n) @ '' outcome'' @ plural n @
     (case per of Some l \<Rightarrow> '' '' @ [CHR 0xB7] @ '' '' @ l | None \<Rightarrow> [])"

record GroupPanelView =
  gl_outcomes :: nat
  gl_gate :: GateView
  gl_deposit :: "(FieldView \<times> BalanceLine \<times> bool \<times> ButtonView) option"
  gl_withdraw :: "(nat \<times> ButtonView) option"
  gl_steps :: "StepRow list"

text \<open>\<open>None\<close> for a lone market; without an outcome that takes deposits, a note stands for the form.\<close>

definition GroupLiquidityPanel ::
  "OracleGroupState \<Rightarrow> bool \<Rightarrow> int option \<Rightarrow> bool \<Rightarrow> string \<Rightarrow> string option \<Rightarrow> ActivateStep list \<Rightarrow>
   StepStatus list \<Rightarrow> bool \<Rightarrow> GroupPanelView option res" where
  "GroupLiquidityPanel gs oracleTerminal balance loading tot err steps statuses isConnected =
     (let n = length (og_depositable gs); k = length (og_claimable gs); busy = isRunning statuses in
      mapR (\<lambda>per.
        if length (og_siblings gs) \<le> 1 then None
        else Some
          \<lparr>gl_outcomes = length (og_siblings gs), gl_gate = ConnectGate isConnected,
           gl_deposit =
             (if n > 0 then Some
                (Field ''Deposit (total SOL)'' (Some (depositHint n per)) err,
                 SolBalanceLine balance loading,
                 og_funding gs \<noteq> [] \<and> \<not> oracleTerminal,
                 \<lparr>bt_label = (if busy then ''Depositing'' @ [CHR 0x85]
                    else ''Deposit into '' @ show_int (int n) @ '' outcomes''),
                  bt_disabled = busy, bt_busy = False\<rparr>)
              else None),
           gl_withdraw =
             (if k > 0 then Some
                (k, \<lparr>bt_label = (if busy then ''Withdrawing'' @ [CHR 0x85]
                       else ''Withdraw from '' @ show_int (int k) @ '' outcomes''),
                     bt_disabled = busy, bt_busy = False\<rparr>)
              else None),
           gl_steps = BatchStepList steps statuses\<rparr>)
        (perShareLabel n tot))"

subsection \<open>The calls to action of the cards\<close>

text \<open>\<open>LaunchCta\<close> of \<open>MarketCard.tsx\<close>, and the launch of \<open>FundGroupCta\<close>.\<close>

definition launchButton :: "StepStatus list \<Rightarrow> ButtonView" where
  "launchButton statuses =
     \<lparr>bt_label = launchVerb statuses, bt_disabled = (isRunning statuses \<or> allDone statuses),
      bt_busy = isRunning statuses\<rparr>"

record StakeView =
  sk_gate :: GateView
  sk_button :: ButtonView
  sk_error :: "string option"
  sk_status :: StatusLine

definition StakeCta :: "string option \<Rightarrow> string option \<Rightarrow> bool \<Rightarrow> WriteStatus \<Rightarrow> StakeView" where
  "StakeCta env amountError isConnected status =
     \<lparr>sk_gate = ConnectGate isConnected, sk_button = SubmitButton ''Stake'' status False,
      sk_error = (if truthy amountError then amountError else None),
      sk_status = WriteStatusRegion env ''Staked'' status\<rparr>"

datatype GroupCta = LaunchGroup ButtonView | StakeGroup string ButtonView BalanceLine

definition FundGroupCta :: "MarketSummary list \<Rightarrow> int option \<Rightarrow> bool \<Rightarrow> StepStatus list \<Rightarrow> GroupCta" where
  "FundGroupCta funding balance loading statuses =
     (if allFunded funding then LaunchGroup (launchButton statuses)
      else StakeGroup (''Total (SOL) '' @ [CHR 0xB7] @ '' split across '' @ show_int (int (length funding)))
        \<lparr>bt_label = (if isRunning statuses then ''Staking'' @ [CHR 0x85] else ''Stake''),
         bt_disabled = isRunning statuses, bt_busy = isRunning statuses\<rparr>
        (SolBalanceLine balance loading))"

subsection \<open>Markets.tsx\<close>

text \<open>A card of the grid: a market of a binary subject, or a whole group.\<close>

datatype CardSlot = OneMarket MarketSummary | OneGroup OracleGroup

definition cardSlots :: "OracleGroup \<Rightarrow> CardSlot list" where
  "cardSlots g = (if isCategorical g then [OneGroup g] else map OneMarket (gr_markets g))"

fun slotMarkets :: "CardSlot \<Rightarrow> MarketSummary list" where
  "slotMarkets (OneMarket s) = [s]"
| "slotMarkets (OneGroup g) = gr_markets g"

text \<open>The cards with their entrance index, which counts over both kinds of card.\<close>

definition cardGrid :: "OracleGroup list \<Rightarrow> bool \<Rightarrow> (CardSlot \<times> nat option) list" where
  "cardGrid visible stagger =
     (let slots = concat (map cardSlots visible) in
      zip slots (map (\<lambda>i. if stagger then Some i else None) [0..<length slots]))"

datatype ListContent = NothingFound | NoMatches | CardGrid "(CardSlot \<times> nat option) list"

record ListPage =
  lp_warning :: "string option"
  lp_tvl :: string
  lp_filters :: "(string \<times> bool \<times> nat) list"
  lp_sorts :: "(string \<times> bool) list"
  lp_shown :: nat
  lp_content :: ListContent

datatype MarketsView = ReadingChain | ListFailed "string option" | MarketsList ListPage

text \<open>
  \<open>config\<close> is what the configuration hook holds: \<open>None\<close> while it has no answer, \<open>Some None\<close> when the
  account does not exist.  \<open>seen\<close> is the ref of \<open>useInitialReveal\<close>.
\<close>

definition MarketsPage ::
  "web3 \<Rightarrow> (unit, MarketSummary list) AsyncCell \<Rightarrow> bool \<Rightarrow> Config option option \<Rightarrow> bool \<Rightarrow>
   string \<Rightarrow> MarketFilter \<Rightarrow> MarketSort \<Rightarrow> MarketsView" where
  "MarketsPage W cell configLoading config seen query flt srt =
     (let ready = (ay_data cell \<noteq> None);
          stillLoading = (\<not> ready \<and> ay_loading cell);
          summaries = orElse (ay_data cell) [];
          groups = groupByOracle W summaries;
          stagger = fst (useInitialReveal (\<not> stillLoading \<and> groups \<noteq> []) seen);
          notInitialized = (\<not> configLoading \<and> config = Some None);
          visible = visibleGroups groups query flt srt
      in if stillLoading then ReadingChain
         else if \<not> ready then ListFailed (map_option errMsg (ay_error cell))
         else MarketsList
           \<lparr>lp_warning = map_option (\<lambda>e.
              if notInitialized
              then ''The kassandra-market program is not set up '' @ [CHR 0x97] @ '' its on-chain Config account is missing.''
              else ''Couldn'' @ [CHR 0x92] @ ''t load markets: '' @ errMsg e) (ay_error cell),
            lp_tvl = formatSol (deriveMarketStats summaries),
            lp_filters = filterChips flt (deriveMarketCounts groups),
            lp_sorts = sortChips srt,
            lp_shown = length visible,
            lp_content =
              (if groups = [] then NothingFound
               else if visible = [] then NoMatches
               else CardGrid (cardGrid visible stagger))\<rparr>)"

subsection \<open>GroupTradePanel.tsx, PriceChart.tsx\<close>

record TradeTab =
  tt_pills :: "(string \<times> string \<times> string) list"
  tt_series :: "ChartSeriesSpec list"
  tt_refreshKey :: string
  tt_default :: "string option"

text \<open>The legend: label, colour, probability.  Nothing is shown without a belief to trade.\<close>

definition GroupTradePanel :: "MarketDetail \<Rightarrow> OracleGroupState \<Rightarrow> string list \<Rightarrow> TradeTab option" where
  "GroupTradePanel d gs options =
     (let beliefs = groupBeliefs d gs options;
          probabilities = pillProbabilities (og_isGroup gs) beliefs
      in if beliefs = [] then None
         else Some
           \<lparr>tt_pills = map (\<lambda>i. (be_label (beliefs ! i), colorFor i, formatProbability (probabilities ! i)))
              [0..<length beliefs],
            tt_series = chartSeries beliefs,
            tt_refreshKey = chartRefreshKey beliefs,
            tt_default = defaultBeliefKey beliefs (mt_pubkey d) (mk_status (mt_market d) = status_code Active)\<rparr>)"

definition chartWindows :: "int \<Rightarrow> (string \<times> bool) list" where
  "chartWindows windowSecs = map (\<lambda>(l, secs). (l, secs = windowSecs)) WINDOWS"

text \<open>The text over an empty chart, and whether it is a failure.\<close>

definition chartOverlay :: "bool \<Rightarrow> bool \<Rightarrow> (string \<times> bool) option" where
  "chartOverlay noData err =
     (if err then Some (''Couldn'' @ [CHR 0x92] @ ''t load price history.'', True)
      else if noData then Some (''No price history yet '' @ [CHR 0x97] @ '' trades will populate the chart.'', False)
      else None)"

subsection \<open>CreateMarketForm\<close>

definition batchVerb :: "StepStatus list \<Rightarrow> int \<Rightarrow> string" where
  "batchVerb statuses optionsCount =
     (if allDone statuses then ''Created '' @ [CHR 0x97] @ '' view markets''
      else if \<exists>s\<in>set statuses. is_error s then ''Retry creating''
      else if isRunning statuses then ''Creating'' @ [CHR 0x85]
      else ''Create all '' @ show_int optionsCount @ '' outcomes'')"

definition batchProgress :: "StepStatus list \<Rightarrow> int \<Rightarrow> string option" where
  "batchProgress statuses optionsCount =
     (case find_index (\<lambda>s. s = SRunning) statuses of
        None \<Rightarrow> None
      | Some i \<Rightarrow>
          if i = 0 then Some (''Creating GPT subject'' @ [CHR 0x85])
          else Some (''Creating outcome '' @ show_int (int i) @ '' of '' @ show_int optionsCount @ [CHR 0x85]))"

record BatchView =
  bv_steps :: "StepRow list"
  bv_progress :: "string option"
  bv_button :: ButtonView
  bv_error :: "string option"

record CreateView =
  kv_uninitialized :: bool
  kv_gate :: GateView
  kv_types :: "(string \<times> bool) list"
  kv_outcomes :: "(FieldView \<times> string) option"
  kv_seed :: FieldView
  kv_total :: "string option"
  kv_balance :: BalanceLine
  kv_batch :: "BatchView option"
  kv_single :: "(ButtonView \<times> StatusLine) option"

definition CreateMarketForm ::
  "string option \<Rightarrow> bool \<Rightarrow> int option \<Rightarrow> bool \<Rightarrow> CreateForm \<Rightarrow> ActivateStep list option \<Rightarrow> string option \<Rightarrow>
   StepStatus list \<Rightarrow> bool \<Rightarrow> WriteStatus \<Rightarrow> CreateView" where
  "CreateMarketForm env notInitialized balance loading f batchSteps batchError statuses isConnected status =
     (let categorical = formCategorical f;
          balanceError = createBalanceError balance f;
          n = cf_optionsCount f
      in \<lparr>kv_uninitialized = notInitialized, kv_gate = ConnectGate isConnected,
          kv_types = [(''Binary'', \<not> categorical), (''Categorical'', categorical)],
          kv_outcomes =
            (if categorical then Some
               (Field ''Outcomes'' (Some ''One GPT Subject, then one binary sub-market per outcome.'') None, show_int n)
             else None),
          kv_seed = Field (if cf_batchMode f then ''Seed per outcome (SOL)'' else ''Seed (SOL)'')
            (Some ''Your initial contribution to the funding pool.'')
            (case cf_seedError f of Some e \<Rightarrow> Some e | None \<Rightarrow> balanceError),
          kv_total =
            (if cf_batchMode f then map_option (\<lambda>v. formatSol (v * n)) (parsedValue (cf_seed f)) else None),
          kv_balance = SolBalanceLine balance loading,
          kv_batch =
            (if cf_batchMode f then Some
               \<lparr>bv_steps = (case batchSteps of Some st \<Rightarrow> BatchStepList st statuses | None \<Rightarrow> []),
                bv_progress = (if isRunning statuses then batchProgress statuses n else None),
                bv_button = \<lparr>bt_label = batchVerb statuses n,
                  bt_disabled = (isRunning statuses \<or> allDone statuses \<or> truthy balanceError),
                  bt_busy = isRunning statuses\<rparr>,
                bv_error = (if truthy batchError then batchError else None)\<rparr>
             else None),
          kv_single =
            (if cf_batchMode f then None
             else Some (SubmitButton ''Create market'' status (truthy balanceError),
               WriteStatusRegion env ''Market created'' status))\<rparr>)"

subsection \<open>App.tsx, AppProviders.tsx, ConnectGate.tsx\<close>

text \<open>
  The routes, by the segments of the path.  The router compares without regard to case, and prefers
  a literal segment to a parameter.
\<close>

datatype Route = LandingRoute | MarketsRoute | CreateRoute | DetailRoute string | StyleGuideRoute | Redirect "string list"

definition routeOf :: "string list \<Rightarrow> Route" where
  "routeOf path =
     (let p = map toLowerCase path in
      if p = [] then LandingRoute
      else if hd p = ''oracles'' then Redirect [''markets'']
      else if p = [''admin''] then Redirect [''markets'']
      else if p = [''markets''] then MarketsRoute
      else if p = [''markets'', ''new''] then CreateRoute
      else if length p = 2 \<and> hd p = ''markets'' then DetailRoute (path ! 1)
      else if p = [''styleguide''] then StyleGuideRoute
      else Redirect [])"

definition pathOf :: "string list \<Rightarrow> string" where
  "pathOf path = concat (map (\<lambda>s. ''/'' @ s) path)"

text \<open>The contexts that the tree of \<open>AppProviders\<close> provides.\<close>

datatype AppContext = ClusterCtx | ConnectionCtx | WalletCtx | WalletMenuCtx | IndexerCtx | WalletModalCtx

definition appContexts :: "Env \<Rightarrow> AppContext list" where
  "appContexts E =
     [ClusterCtx, ConnectionCtx, WalletCtx] @ (if walletShell E = StandardShell then [WalletMenuCtx] else []) @ [IndexerCtx]"

text \<open>
  The two ways to the wallet picker.  The navigation bar sets the menu's \<open>open\<close>, of the context or of
  its idle default; the gate of the forms asks the adapter's modal, whose context does nothing when
  no provider is mounted.
\<close>

definition navConnect :: "Env \<Rightarrow> WalletCell \<Rightarrow> WalletCell" where
  "navConnect E c = (if WalletMenuCtx \<in> set (appContexts E) then c\<lparr>wp_open := True\<rparr> else c)"

definition gateConnect :: "Env \<Rightarrow> bool \<Rightarrow> bool" where
  "gateConnect E modalVisible = (modalVisible \<or> WalletModalCtx \<in> set (appContexts E))"

subsection \<open>A field reads as invalid exactly when it shows an error\<close>

lemma Field_error: "fv_invalid (Field label hint err) \<longleftrightarrow> (\<exists>e. fv_line (Field label hint err) = Some (e, True))"
  by (simp add: Field_def)

lemma SubmitButton_idle: "\<not> isBusy status \<Longrightarrow> bt_disabled (SubmitButton verb status d) = d \<and> bt_label (SubmitButton verb status d) = verb"
  by (cases status) (simp_all add: SubmitButton_def submitDisabled_def submitLabel_def isBusy_def)

subsection \<open>The ticket\<close>

lemma TradePanel_Inr:
  assumes "TradePanel env question beliefs b bal t isConnected status = Inr v"
  shows "\<exists>figures. buyFigures b t = Inr figures \<and>
    tv_button v = SubmitButton ((if tk_mode t = BuyMode then ''Buy '' else ''Sell '') @ upperOutcome (be_outcome b))
      status (ticketDisabled bal b t) \<and>
    tv_error v = (let e = (case tk_amountError t of Some e \<Rightarrow> Some e | None \<Rightarrow> ticketBalanceError bal b t) in
      if truthy e then e else None) \<and>
    (tk_mode t = BuyMode \<longrightarrow> (\<forall>fw s. tv_details v = Some (fw, Some s) \<longrightarrow>
       (\<exists>r m. figures = Some (r, m) \<and> s = formatSol m @ '' '' @ upperOutcome (be_outcome b) @ '' shares'')))"
  using assms by (auto simp: TradePanel_def Let_def split: if_splits)

text \<open>An enabled button with a readable amount starts the trade; a balance error disables it and is shown.\<close>

lemma TradePanel_enabled:
  assumes "TradePanel env question beliefs b bal t isConnected status = Inr v" "\<not> bt_disabled (tv_button v)"
    and "parsedValue (tk_amount t) = Some a"
  shows "ticketSubmit W T indexer user b t = (t\<lparr>tk_amountError := None\<rparr>, Some (ticketBuild W T indexer user b t a))"
    and "tk_amountError t = None \<Longrightarrow> tv_error v = None"
proof -
  have p: "parseSolAmount (tk_amount t) = Inr a"
    using assms(3) by (simp add: parsedValue_def split: sum.splits)
  have d: "\<not> ticketDisabled bal b t"
    using assms(2) TradePanel_Inr [OF assms(1)] by (auto simp: SubmitButton_def submitDisabled_def)
  then show "ticketSubmit W T indexer user b t = (t\<lparr>tk_amountError := None\<rparr>, Some (ticketBuild W T indexer user b t a))"
    using p by (simp add: ticketSubmit_def ticketDisabled_def)
  show "tv_error v = None" if "tk_amountError t = None"
    using TradePanel_Inr [OF assms(1)] d that by (auto simp: ticketDisabled_def Let_def)
qed

lemma TradePanel_balance_error:
  assumes "TradePanel env question beliefs b bal t isConnected status = Inr v" "tk_amountError t = None"
    and "truthy (ticketBalanceError bal b t)"
  shows "bt_disabled (tv_button v) \<and> tv_error v = ticketBalanceError bal b t"
  using TradePanel_Inr [OF assms(1)] assms(2,3)
  by (auto simp: SubmitButton_def submitDisabled_def ticketDisabled_def Let_def)

text \<open>
  The minimum that the details show for a buy is the paid amount plus the floor in the swap of the
  transaction, provided the pool is still the one the page shows when the transaction is built.
\<close>

lemma shown_minimum:
  assumes v: "TradePanel env question beliefs b bal t isConnected status = Inr v" and m: "tk_mode t = BuyMode"
    and s: "tv_details v = Some (fw, Some s)"
    and built: "snd (ticketSubmit W T indexer user b t) = Some (Inr ixs)"
    and live: "\<And>refs. marketRefs W (AddrStr (be_pubkey b)) (be_market b) = Inr refs \<Longrightarrow>
      decodeReservesFromChain W indexer (AddrObj (mr_amm refs)) \<in> {None, be_reserves b}"
  shows "\<exists>a split sw outMin. parseSolAmount (tk_amount t) = Inr a \<and> drop 3 ixs = [split, sw] \<and>
    ixData sw = swap_data (if be_outcome b = ''yes'' then Buy else Sell) a outMin \<and>
    s = formatSol (a + outMin) @ '' '' @ upperOutcome (be_outcome b) @ '' shares''"
proof -
  obtain r mn where f: "buyFigures b t = Inr (Some (r, mn))" "s = formatSol mn @ '' '' @ upperOutcome (be_outcome b) @ '' shares''"
    using TradePanel_Inr [OF v] m s by auto
  obtain a where a: "parseSolAmount (tk_amount t) = Inr a" "ticketBuild W T indexer user b t a = Inr ixs"
    using built by (auto simp: ticketSubmit_Some)
  obtain refs ata where r: "marketRefs W (AddrStr (be_pubkey b)) (be_market b) = Inr refs"
      "buildBuyIxs W T indexer \<lparr>ta_refs = refs, ta_user = AddrStr user, ta_outcome = be_outcome b,
         ta_userBaseAta = AddrObj ata, ta_reserves = be_reserves b,
         ta_slippageBps = Some (ticketSlippage t)\<rparr> a = Inr ixs"
    using a(2) m by (auto simp: ticketBuild_def)
  obtain rs split sw outMin where sw: "0 < a" "drop 3 ixs = [split, sw]"
      "ixData sw = swap_data (if be_outcome b = ''yes'' then Buy else Sell) a outMin"
      "tradeReserves W indexer \<lparr>ta_refs = refs, ta_user = AddrStr user, ta_outcome = be_outcome b,
         ta_userBaseAta = AddrObj ata, ta_reserves = be_reserves b, ta_slippageBps = Some (ticketSlippage t)\<rparr> = Some rs"
      "minOutFromSlippage (ammSwapOut a (fst (reservePair rs (be_outcome b = ''yes'')))
        (snd (reservePair rs (be_outcome b = ''yes'')))) (ticketSlippage t) = Inr outMin"
    using buildBuyIxs_Inr [OF r(2)] by auto
  have "be_reserves b = Some rs" using sw(4) live [OF r(1)] by (auto simp: tradeReserves_def split: option.splits)
  then have "previewBuy (be_reserves b) (be_outcome b) a (Some (ticketSlippage t)) =
      Inr (a + ammSwapOut a (fst (reservePair rs (be_outcome b = ''yes''))) (snd (reservePair rs (be_outcome b = ''yes''))), outMin)"
    using sw(1,5) by (simp add: previewBuy_def case_prod_beta Let_def)
  then have "mn = a + outMin"
    using f(1) m a(1) by (auto simp: buyFigures_def buyPreviewOf_def parsedValue_def)
  then show ?thesis using a(1) sw(2,3) f(2) by blast
qed

subsection \<open>The other forms\<close>

lemma AddLiquidity_enabled:
  assumes "\<not> bt_disabled (dp_button (AddLiquidityControl env embedded balance loading reserves f isConnected status))"
    and "parsedValue (df_amount f) = Some a"
  shows "df_accepted f \<and> (\<exists>built. snd (depositSubmit W T pk m reserves user f) = Some built)"
  using assms
  by (auto simp: AddLiquidityControl_def Let_def SubmitButton_def submitDisabled_def depositDisabled_def
      depositSubmit_def parsedValue_def split: sum.splits)

lemma claimButton_enabled:
  "claimButton (ClaimLpControl W embedded user m cs) status = Some bv \<Longrightarrow> \<not> bt_disabled bv \<Longrightarrow>
     mk_feeCollected m \<and> mineOf W user cs \<noteq> None"
  by (auto simp: ClaimLpControl_def claimButton_def SubmitButton_def submitDisabled_def Let_def
      split: option.splits if_splits)

text \<open>The label of a split names every amount that it gives.\<close>

lemma shareLabel_covers:
  assumes "uniformSplit v n = Inr shares" "0 < n" "0 < v" "s \<in> set shares"
  shows "s = shares ! 0 \<or> find_first (\<lambda>s. s \<noteq> shares ! 0) shares = Some s"
proof (cases "s = shares ! 0")
  case False
  obtain i where i: "i < length shares" "s = shares ! i" using assms(4) by (auto simp: in_set_conv_nth)
  have sh: "\<forall>i<length shares. shares ! i = (if int i < v mod n then v div n + 1 else v div n)"
    using uniformSplit_Inr [of n v] assms(1-3) by auto
  obtain t where t: "find_first (\<lambda>s. s \<noteq> shares ! 0) shares = Some t"
    using False assms(4) find_first_None [of "\<lambda>s. s \<noteq> shares ! 0" shares] by fastforce
  obtain j where j: "j < length shares" "t = shares ! j" "t \<noteq> shares ! 0"
    using find_first_Some [OF t] by (auto simp: in_set_conv_nth)
  have "0 < length shares" using i by linarith
  then have "s = t" using sh i j False by (auto split: if_splits)
  then show ?thesis using t by simp
qed simp

lemma GroupLiquidityPanel_offers:
  assumes "GroupLiquidityPanel gs terminal balance loading tot err steps statuses isConnected = Inr (Some v)"
  shows "og_siblings gs \<noteq> [] \<and> (gl_deposit v \<noteq> None \<longleftrightarrow> og_depositable gs \<noteq> []) \<and>
    (gl_withdraw v \<noteq> None \<longleftrightarrow> og_claimable gs \<noteq> []) \<and>
    (\<forall>f l a bv. gl_deposit v = Some (f, l, a, bv) \<longrightarrow> bt_disabled bv = isRunning statuses)"
  using assms by (auto simp: GroupLiquidityPanel_def Let_def mapR_Inr_iff split: if_splits)

text \<open>The card launches exactly when every outcome that raises funds has reached its floor.\<close>

lemma FundGroupCta_launch:
  "(\<exists>bv. FundGroupCta funding balance loading statuses = LaunchGroup bv) \<longleftrightarrow> allFunded funding"
  by (simp add: FundGroupCta_def)

subsection \<open>The browse page\<close>

lemma cardSlots_markets: "concat (map slotMarkets (cardSlots g)) = gr_markets g"
proof -
  have "concat (map (\<lambda>s. slotMarkets (OneMarket s)) xs) = xs" for xs by (induction xs) simp_all
  then show ?thesis by (simp add: cardSlots_def comp_def)
qed

text \<open>The grid shows every market of the visible groups, once and in their order.\<close>

lemma cardGrid_markets: "concat (map (slotMarkets \<circ> fst) (cardGrid visible stagger)) = concat (map gr_markets visible)"
proof -
  have "map fst (cardGrid visible stagger) = concat (map cardSlots visible)" by (simp add: cardGrid_def Let_def)
  moreover have "concat (map slotMarkets (concat (map cardSlots gs))) = concat (map gr_markets gs)" for gs
    by (induction gs) (simp_all add: cardSlots_markets)
  ultimately show ?thesis by (metis map_map)
qed

lemma cardGrid_index:
  "i < length (cardGrid visible stagger) \<Longrightarrow> snd (cardGrid visible stagger ! i) = (if stagger then Some i else None)"
  by (simp add: cardGrid_def Let_def)

lemma MarketsPage_list:
  assumes "MarketsPage W cell configLoading config seen query flt srt = MarketsList p"
  shows "\<exists>ms. ay_data cell = Some ms \<and> lp_shown p = length (visibleGroups (groupByOracle W ms) query flt srt) \<and>
    (\<forall>grid. lp_content p = CardGrid grid \<longrightarrow> concat (map (slotMarkets \<circ> fst) grid) =
       concat (map gr_markets (visibleGroups (groupByOracle W ms) query flt srt))) \<and>
    ((\<forall>grid. lp_content p \<noteq> CardGrid grid) \<longrightarrow> lp_shown p = 0)"
proof -
  have "visibleGroups [] query flt srt = []" using visibleGroups_mset [of "[]" query flt srt] by simp
  then show ?thesis using assms cardGrid_markets by (auto simp: MarketsPage_def Let_def split: if_splits)
qed

subsection \<open>Routes and contexts\<close>

text \<open>A card's link leads to the page of its market; a redirect leads to a page.\<close>

lemma lower_markets: "map toLowerCase [''markets'', pk] = [''markets'', toLowerCase pk]"
proof -
  have "toLowerCase ''markets'' = ''markets''" by code_simp
  then show ?thesis by simp
qed

lemma route_market: "toLowerCase pk \<noteq> ''new'' \<Longrightarrow> routeOf [''markets'', pk] = DetailRoute pk"
  unfolding routeOf_def Let_def lower_markets by simp

lemma card_path: "''/markets/'' @ pk = pathOf [''markets'', pk]"
  by (simp add: pathOf_def)

lemma route_redirect: "routeOf path = Redirect p \<Longrightarrow> p \<in> {[], [''markets'']}"
  by (auto simp: routeOf_def Let_def split: if_splits)

lemma route_pages: "routeOf [] = LandingRoute" "routeOf [''markets''] = MarketsRoute"
  by code_simp+

text \<open>
  The gate of the forms cannot open a picker: no provider of the adapter's modal is mounted, in any
  mode, so a click on its button changes nothing, while the one of the navigation bar opens the menu.
\<close>

lemma gate_inert: "gateConnect E visible = visible"
  by (simp add: gateConnect_def appContexts_def)

lemma nav_opens: "walletShell E = StandardShell \<Longrightarrow> wp_open (navConnect E c)"
  by (simp add: navConnect_def appContexts_def)

end
