(* ===== verification/DetailPage.thy ===== *)
theory DetailPage
  imports Screens
begin

text \<open>
  The pages put together: the tab bar (\<open>ui/Tabs.tsx\<close>), the lifecycle controls and the two tabs of an
  active market's liquidity as they are shown (\<open>markets/actions/*.tsx\<close>), the market page with its tabs
  and panels (\<open>pages/MarketDetail.tsx\<close>), the navigation bar (\<open>landing/NavBar.tsx\<close>), and the landing
  page's featured markets with their entrance (\<open>landing/Hero.tsx\<close>, \<open>ui/Reveal.tsx\<close>).
\<close>

subsection \<open>ui/Tabs.tsx\<close>

record TabItem =
  ti_id :: string
  ti_label :: string
  ti_count :: "nat option"
  ti_dot :: "string option"

record TabButton =
  tb_item :: TabItem
  tb_id :: string
  tb_controls :: string
  tb_selected :: bool
  tb_tabIndex :: int

definition Tabs :: "TabItem list \<Rightarrow> string \<Rightarrow> TabButton list" where
  "Tabs items value =
     map (\<lambda>t. let selected = (ti_id t = value) in
       \<lparr>tb_item = t, tb_id = ''tab-'' @ ti_id t, tb_controls = ''panel-'' @ ti_id t, tb_selected = selected,
        tb_tabIndex = (if selected then 0 else - 1)\<rparr>) items"

text \<open>A panel is its id and its content; nothing stands for an inactive one, so its state is gone.\<close>

definition TabPanel :: "string \<Rightarrow> bool \<Rightarrow> 'a \<Rightarrow> (string \<times> 'a) list" where
  "TabPanel tid active content = (if active then [(''panel-'' @ tid, content)] else [])"

subsection \<open>The lifecycle controls\<close>

record CrankView =
  cw_title :: string
  cw_gate :: GateView
  cw_button :: ButtonView
  cw_status :: StatusLine

definition CancelControl :: "string option \<Rightarrow> bool \<Rightarrow> WriteStatus \<Rightarrow> CrankView" where
  "CancelControl env isConnected status =
     \<lparr>cw_title = ''Cancel market'', cw_gate = ConnectGate isConnected,
      cw_button = SubmitButton ''Cancel market'' status False, cw_status = WriteStatusRegion env ''Cancelled'' status\<rparr>"

definition ResolveControl :: "string option \<Rightarrow> bool \<Rightarrow> WriteStatus \<Rightarrow> CrankView" where
  "ResolveControl env isConnected status =
     \<lparr>cw_title = ''Resolve market'', cw_gate = ConnectGate isConnected,
      cw_button = SubmitButton ''Resolve market'' status False, cw_status = WriteStatusRegion env ''Resolved'' status\<rparr>"

definition RefundControl :: "string option \<Rightarrow> bool \<Rightarrow> WriteStatus \<Rightarrow> CrankView" where
  "RefundControl env isConnected status =
     \<lparr>cw_title = ''Refund contribution'', cw_gate = ConnectGate isConnected,
      cw_button = SubmitButton ''Refund my stake'' status False, cw_status = WriteStatusRegion env ''Refunded'' status\<rparr>"

text \<open>The text of the fee control names the fee.\<close>

definition CollectFeeControl :: "string option \<Rightarrow> Market \<Rightarrow> bool \<Rightarrow> WriteStatus \<Rightarrow> string \<times> CrankView" where
  "CollectFeeControl env m isConnected status =
     (toFixed2 (ndiv (Number (mk_feeBps m)) (Fin 100)) @ ''%'',
      \<lparr>cw_title = ''Collect protocol fee'', cw_gate = ConnectGate isConnected,
       cw_button = SubmitButton ''Collect protocol fee'' status False,
       cw_status = WriteStatusRegion env ''Fee collected'' status\<rparr>)"

definition CloseMarketControl :: "string option \<Rightarrow> bool \<Rightarrow> WriteStatus \<Rightarrow> CrankView" where
  "CloseMarketControl env isConnected status =
     \<lparr>cw_title = ''Close market & reclaim rent'', cw_gate = ConnectGate isConnected,
      cw_button = SubmitButton ''Close market'' status False, cw_status = WriteStatusRegion env ''Market closed'' status\<rparr>"

record ActivateView =
  aw_gate :: GateView
  aw_steps :: "StepRow list option"
  aw_button :: ButtonView
  aw_error :: "string option"

definition ActivateControl :: "string option \<Rightarrow> bool \<Rightarrow> ActivateForm \<Rightarrow> StepStatus list \<Rightarrow> ActivateView" where
  "ActivateControl env isConnected f statuses =
     \<lparr>aw_gate = ConnectGate isConnected, aw_steps = map_option (\<lambda>steps. StepList env steps statuses) (af_steps f),
      aw_button = \<lparr>bt_label = activateVerb statuses, bt_disabled = activateDisabled statuses,
        bt_busy = isRunning statuses\<rparr>,
      aw_error = (if truthy (af_buildError f) then af_buildError f else None)\<rparr>"

subsection \<open>MarketActions.tsx\<close>

text \<open>
  The liquidity of an active market: the form of the deposit lives in its tab, which is unmounted when
  the other one is chosen, so what was entered is gone.
\<close>

record LiquidityTabs =
  lq_tab :: LiqTab
  lq_form :: DepositForm
  lq_status :: WriteStatus

definition emptyDeposit :: DepositForm where
  "emptyDeposit = \<lparr>df_amount = [], df_amountError = None, df_accepted = False\<rparr>"

definition initialLiquidityTabs :: LiquidityTabs where
  "initialLiquidityTabs = \<lparr>lq_tab = DepositTab, lq_form = emptyDeposit, lq_status = WIdle\<rparr>"

definition setLiqTab :: "LiqTab \<Rightarrow> LiquidityTabs \<Rightarrow> LiquidityTabs" where
  "setLiqTab t c = (if t = lq_tab c then c else initialLiquidityTabs\<lparr>lq_tab := t\<rparr>)"

datatype LiquiditySurface = DepositSurface DepositView | ClaimSurface ClaimView "ButtonView option"

definition liquiditySurface ::
  "web3 \<Rightarrow> string option \<Rightarrow> string option \<Rightarrow> MarketDetail \<Rightarrow> int option \<Rightarrow> bool \<Rightarrow> LiquidityTabs \<Rightarrow> bool \<Rightarrow>
   (string \<times> bool) list \<times> LiquiditySurface" where
  "liquiditySurface W env user d balance loading c isConnected =
     (LiquiditySubTabs (lq_tab c),
      (case lq_tab c of
         DepositTab \<Rightarrow>
           DepositSurface (AddLiquidityControl env True balance loading (mt_reserves d) (lq_form c) isConnected (lq_status c))
       | ClaimTab \<Rightarrow>
           (let v = ClaimLpControl W True user (mt_market d) (mt_contributions d)
            in ClaimSurface v (claimButton v (lq_status c)))))"

subsection \<open>MarketDetail.tsx\<close>

text \<open>The \<open>?tab=\<close> of the address: \<open>URLSearchParams\<close> as a list of pairs, its \<open>get\<close> and its \<open>set\<close>.\<close>

fun paramGet :: "string \<Rightarrow> (string \<times> string) list \<Rightarrow> string option" where
  "paramGet k [] = None"
| "paramGet k ((k', v) # ps) = (if k' = k then Some v else paramGet k ps)"

fun paramSet :: "string \<Rightarrow> string \<Rightarrow> (string \<times> string) list \<Rightarrow> (string \<times> string) list" where
  "paramSet k v [] = [(k, v)]"
| "paramSet k v ((k', w) # ps) =
     (if k' = k then (k, v) # filter (\<lambda>p. fst p \<noteq> k) ps else (k', w) # paramSet k v ps)"

definition setTab :: "string \<Rightarrow> (string \<times> string) list \<Rightarrow> (string \<times> string) list" where
  "setTab tid searchParams = paramSet ''tab'' tid searchParams"

definition tabItems :: "bool \<Rightarrow> TabItem list" where
  "tabItems hasTradable =
     (if hasTradable then [\<lparr>ti_id = ''trade'', ti_label = ''Trade'', ti_count = None, ti_dot = Some ''coral''\<rparr>] else []) @
     [\<lparr>ti_id = ''liquidity'', ti_label = ''Liquidity'', ti_count = None, ti_dot = None\<rparr>,
      \<lparr>ti_id = ''manage'', ti_label = ''Manage'', ti_count = None, ti_dot = None\<rparr>,
      \<lparr>ti_id = ''details'', ti_label = ''Details'', ti_count = None, ti_dot = None\<rparr>]"

text \<open>What a panel holds; the controls it mounts have their own state.\<close>

datatype TabContent =
    TradeContent "TradeTab option"
  | LiquidityContent LiquidityOverview "Item list" "GroupPanelView option"
      "(string \<times> string) list option" "(string \<times> string) list option" "(string \<times> string) list" nat "LedgerRow list"
  | ManageContent "Item list"
  | DetailsContent "GaugeView option" "(string \<times> string \<times> string) option" "(string \<times> AddressRow) list"

record DetailBodyView =
  db_header :: "string \<times> string option"
  db_chip :: string
  db_resolution :: string
  db_address :: string
  db_tabs :: "TabButton list"
  db_panels :: "(string \<times> TabContent) list"

text \<open>\<open>groupPanel\<close> is the view of \<open>GroupLiquidityPanel\<close> over the state of that component.\<close>

definition DetailBody ::
  "web3 \<Rightarrow> string option \<Rightarrow> string option \<Rightarrow> MarketDetail \<Rightarrow> OracleGroupState \<Rightarrow> Config option \<Rightarrow>
   GroupPanelView option \<Rightarrow> (string \<times> string) list \<Rightarrow> DetailBodyView" where
  "DetailBody W env user d gs config groupPanel searchParams =
     (let m = mt_market d;
          hasTradable = hasTradableOutcome d gs;
          tabs = tabItems hasTradable;
          active = activeTab d gs (paramGet ''tab'' searchParams)
      in \<lparr>db_header = detailHeader d, db_chip = statusLabel (mk_status m),
          db_resolution = outcomeResolutionText (mt_oracle d) (mk_outcomeIndex m),
          db_address = truncateMiddle (mt_pubkey d) (Some 4) (Some 4),
          db_tabs = Tabs tabs active,
          db_panels =
            (if hasTradable then TabPanel ''trade'' (active = ''trade'') (TradeContent (GroupTradePanel d gs [])) else []) @
            TabPanel ''liquidity'' (active = ''liquidity'')
              (LiquidityContent (liquidityOverview W user d gs) (MarketLiquidityActions m (og_isGroup gs)) groupPanel
                (lpComposition m) (poolComposition (mt_reserves d)) (poolDetails m)
                (length (mt_contributions d)) (contributionsLedger W (mt_contributions d))) @
            TabPanel ''manage'' (active = ''manage'') (ManageContent (MarketLifecycleActions m (mt_oracle d) config)) @
            TabPanel ''details'' (active = ''details'')
              (DetailsContent (probabilityPanel d) (subjectPanel d) (bindings W env m))\<rparr>)"

datatype MarketPage = PageBody DetailBodyView | PageFailed string string | PageSkeleton nat | PageNothing

definition MarketDetailPage ::
  "web3 \<Rightarrow> string option \<Rightarrow> string option \<Rightarrow> string option \<Rightarrow> (string option, MarketDetail) AsyncCell \<Rightarrow> OracleGroupState \<Rightarrow>
   Config option \<Rightarrow> GroupPanelView option \<Rightarrow> (string \<times> string) list \<Rightarrow> MarketPage" where
  "MarketDetailPage W env user pk c gs config groupPanel searchParams =
     (case (pageView pk c, ay_data c, ay_error c) of
        (VReady, Some d, _) \<Rightarrow> PageBody (DetailBody W env user d gs config groupPanel searchParams)
      | (VError, _, Some e) \<Rightarrow>
          PageFailed (if truthy pk then truncateMiddle (orElse pk []) (Some 6) (Some 6) else ''Market'') (pageError e)
      | (VLoading, _, _) \<Rightarrow> PageSkeleton 3
      | _ \<Rightarrow> PageNothing)"

subsection \<open>NavBar.tsx\<close>

text \<open>A link of the bar: its label, target, whether it is the current page, and whether it opens a new tab.\<close>

definition navItems :: "string \<Rightarrow> (string \<times> string \<times> bool \<times> bool) list" where
  "navItems pathname =
     map (\<lambda>l. (nl_label l, nl_href l, isActiveLink l pathname, \<not> nl_route l \<and> nl_external l)) NAV_LINKS"

record NavView =
  nv_toggle :: string
  nv_links :: "(string \<times> string \<times> bool \<times> bool) list"
  nv_home :: string
  nv_cluster :: ClusterControl
  nv_connect :: ConnectView
  nv_menu :: "((string \<times> string \<times> bool \<times> bool) list \<times> ClusterControl) option"

definition NavBar :: "Env \<Rightarrow> ClusterCell \<Rightarrow> bool \<Rightarrow> string option \<Rightarrow> bool \<Rightarrow> NavCell \<Rightarrow> NavView" where
  "NavBar E cell isConnected publicKey connecting c =
     (let links = navItems (fst (nb_location c)); cluster = ClusterSelector E cell in
      \<lparr>nv_toggle = (if nb_open c then ''Close menu'' else ''Open menu''), nv_links = links, nv_home = ''/'',
       nv_cluster = cluster, nv_connect = ConnectControl isConnected publicKey connecting,
       nv_menu = (if nb_open c then Some (links, cluster) else None)\<rparr>)"

text \<open>A link of the menu closes it.\<close>

definition menuLink :: "NavCell \<Rightarrow> NavCell" where
  "menuLink c = c\<lparr>nb_open := False\<rparr>"

subsection \<open>Hero.tsx, Reveal.tsx\<close>

definition SLOT_DEPTHS :: "int list" where
  "SLOT_DEPTHS = [12, 7, 9, 13, 6, 10]"

text \<open>A featured card with its slot's depth and the delay of its entrance, the skeletons, or nothing.\<close>

datatype HeroView = Constellation "(HeroCard \<times> int \<times> nat) list" | Skeletons "int list" | NoHero

definition Hero :: "web3 \<Rightarrow> MarketSummary list option \<Rightarrow> bool \<Rightarrow> HeroView" where
  "Hero W markets marketsLoading =
     (let cards = take 6 (buildHeroCards W (orElse markets []) (\<lambda>k. None) None);
          showSkeletons = (cards = [] \<and> marketsLoading)
      in if cards \<noteq> [] then Constellation (map (\<lambda>i. (cards ! i, SLOT_DEPTHS ! i, i * 90)) [0..<length cards])
         else if showSkeletons then Skeletons SLOT_DEPTHS
         else NoHero)"

record RevealCell =
  rc_revealed :: bool
  rc_observing :: bool

definition initialReveal :: RevealCell where
  "initialReveal = \<lparr>rc_revealed = False, rc_observing = False\<rparr>"

text \<open>The effect: without an observer the content is shown at once, else it is watched until it is seen.\<close>

definition revealEffect :: "bool \<Rightarrow> bool \<Rightarrow> RevealCell \<Rightarrow> RevealCell" where
  "revealEffect element observer c =
     (if rc_revealed c then c
      else if \<not> element \<or> \<not> observer then c\<lparr>rc_revealed := True\<rparr>
      else c\<lparr>rc_observing := True\<rparr>)"

definition revealEntries :: "bool list \<Rightarrow> RevealCell \<Rightarrow> RevealCell" where
  "revealEntries isIntersecting c =
     (if rc_observing c \<and> True \<in> set isIntersecting then c\<lparr>rc_revealed := True, rc_observing := False\<rparr> else c)"

subsection \<open>One tab, one panel\<close>

lemma tabItems_ids: "map ti_id (tabItems t) = detailTabs t"
  by (simp add: tabItems_def detailTabs_def)

lemma Tabs_selected: "filter tb_selected (Tabs items value) = map (\<lambda>t. \<lparr>tb_item = t, tb_id = ''tab-'' @ ti_id t,
    tb_controls = ''panel-'' @ ti_id t, tb_selected = True, tb_tabIndex = 0\<rparr>) (filter (\<lambda>t. ti_id t = value) items)"
  by (induction items) (simp_all add: Tabs_def Let_def)

lemma DetailBody_panels:
  "map fst (db_panels (DetailBody W env user d gs config gp ps)) =
     [''panel-'' @ activeTab d gs (paramGet ''tab'' ps)]"
  using activeTab_mem [of d gs "paramGet ''tab'' ps"]
  by (auto simp: DetailBody_def Let_def TabPanel_def detailTabs_def split: if_splits)

lemma tabItems_one:
  "a \<in> set (detailTabs h) \<Longrightarrow> \<exists>t. filter (\<lambda>t. ti_id t = a) (tabItems h) = [t] \<and> ti_id t = a"
  by (auto simp: tabItems_def detailTabs_def split: if_splits)

text \<open>Whatever the address says, one tab is selected, it can take the focus, and its panel is the one shown.\<close>

lemma DetailBody_one:
  "\<exists>t p. filter tb_selected (db_tabs (DetailBody W env user d gs config gp ps)) = [t] \<and>
     db_panels (DetailBody W env user d gs config gp ps) = [p] \<and> fst p = tb_controls t \<and> tb_tabIndex t = 0"
proof -
  let ?a = "activeTab d gs (paramGet ''tab'' ps)" and ?b = "DetailBody W env user d gs config gp ps"
  obtain t where t: "filter (\<lambda>t. ti_id t = ?a) (tabItems (hasTradableOutcome d gs)) = [t]" "ti_id t = ?a"
    using tabItems_one [OF activeTab_mem [of d gs "paramGet ''tab'' ps"]] by blast
  have "db_tabs ?b = Tabs (tabItems (hasTradableOutcome d gs)) ?a" by (simp add: DetailBody_def Let_def)
  moreover obtain p where "db_panels ?b = [p]" "fst p = ''panel-'' @ ?a"
    using DetailBody_panels [of W env user d gs config gp ps] by auto
  ultimately show ?thesis using t by (simp add: Tabs_selected)
qed

text \<open>A tab that is chosen is restored from the address.\<close>

lemma paramGet_set: "paramGet k (paramSet k v ps) = Some v"
  by (induction k v ps rule: paramSet.induct) auto

lemma paramGet_other: "k' \<noteq> k \<Longrightarrow> paramGet k' (paramSet k v ps) = paramGet k' ps"
proof (induction k v ps rule: paramSet.induct)
  case (2 k v k2 w ps)
  have "paramGet k' (filter (\<lambda>p. fst p \<noteq> k) ps) = paramGet k' ps" using 2(2) by (induction ps) auto
  then show ?case using 2 by auto
qed simp

lemma setTab_active:
  "t \<in> set (detailTabs (hasTradableOutcome d gs)) \<Longrightarrow> activeTab d gs (paramGet ''tab'' (setTab t ps)) = t"
  by (simp add: setTab_def paramGet_set activeTab_def Let_def)

text \<open>The page's body is that of the market in the address.\<close>

lemma MarketDetailPage_body:
  assumes "MarketDetailPage W env user pk c gs config gp ps = PageBody b"
  shows "\<exists>d. ay_data c = Some d \<and> pk = Some (mt_pubkey d) \<and> b = DetailBody W env user d gs config gp ps"
  using assms
  by (auto simp: MarketDetailPage_def pageView_def detailView_def split: option.splits DetailView.splits if_splits)

lemma MarketDetailPage_failed:
  assumes "MarketDetailPage W env user pk c gs config gp ps = PageFailed t msg"
  shows "\<exists>e. ay_error c = Some e \<and> msg = pageError e \<and> \<not> ay_loading c"
  using assms
  by (auto simp: MarketDetailPage_def pageView_def detailView_def split: option.splits DetailView.splits if_splits)

lemma setLiqTab_back: "lq_tab c = DepositTab \<Longrightarrow> lq_form (setLiqTab DepositTab (setLiqTab ClaimTab c)) = emptyDeposit"
  by (simp add: setLiqTab_def initialLiquidityTabs_def)

subsection \<open>The landing page and the bar\<close>

text \<open>There is a slot for every featured card.\<close>

lemma Hero_slots:
  assumes "Hero W markets loading = Constellation cs"
  shows "length cs \<le> length SLOT_DEPTHS \<and> map fst cs = take 6 (buildHeroCards W (orElse markets []) (\<lambda>k. None) None)"
proof -
  define cards where "cards = take 6 (buildHeroCards W (orElse markets []) (\<lambda>k. None) None)"
  have "cs = map (\<lambda>i. (cards ! i, SLOT_DEPTHS ! i, i * 90)) [0..<length cards]"
    using assms unfolding Hero_def Let_def cards_def [symmetric] by (auto split: if_splits)
  moreover have "length cards \<le> 6" by (simp add: cards_def)
  ultimately show ?thesis unfolding cards_def [symmetric] by (simp add: SLOT_DEPTHS_def comp_def map_nth)
qed

lemma Hero_waiting: "Hero W None True = Skeletons SLOT_DEPTHS"
  by (simp add: Hero_def buildHeroCards_def rankMarkets_def Let_def)

text \<open>Content is never stuck: shown once, it stays so, and without an observer it is shown at once.\<close>

lemma reveal_stays: "rc_revealed c \<Longrightarrow> rc_revealed (revealEntries es c) \<and> rc_revealed (revealEffect el ob c)"
  by (simp add: revealEntries_def revealEffect_def)

lemma reveal_shown: "rc_revealed (revealEffect el False initialReveal)"
    "rc_revealed (revealEntries [True] (revealEffect True True initialReveal))"
  by (simp_all add: revealEntries_def revealEffect_def initialReveal_def)

lemma NavBar_menu: "nv_menu (NavBar E cell ic pk cn c) \<noteq> None \<longleftrightarrow> nb_open c"
  by (simp add: NavBar_def Let_def)

lemma menuLink_closed: "nv_menu (NavBar E cell ic pk cn (menuLink c)) = None"
  by (simp add: NavBar_def menuLink_def Let_def)

end
