(* ===== verification/PointerField.thy ===== *)
theory PointerField
  imports MarketView
begin

text \<open>
  The pointer field of the landing page, \<open>app/src/hooks/usePointerField.ts\<close>: four spring channels, the
  single animation loop that integrates them, and the style properties it publishes.

  The doubles of the integrator are rationals with the rounding \<open>rnd\<close> of each operation; every number
  here is far from overflow.  The browser's queue of animation frames is part of the state.  The lemmas
  bound the rounding error of one step of the spring, show that the spring contracts a box around its
  target in spite of it, and from that: what is published stays in the range, and the loop ends.
\<close>

subsection \<open>The hook\<close>

definition STIFFNESS :: rat where
  "STIFFNESS = 150"

definition DAMPING :: rat where
  "DAMPING = rnd (2 * sqrt_rnd STIFFNESS)"

record Channel =
  c_p :: rat
  c_v :: rat
  c_t :: rat

record PointerField =
  pf_x :: Channel
  pf_y :: Channel
  pf_px :: Channel
  pf_py :: Channel
  pf_raf :: nat
  pf_last :: rat
  pf_bound :: bool
  pf_style :: "(string \<times> string) list"
  pf_mounted :: bool
  pf_queue :: "nat list"
  pf_next :: nat

text \<open>\<open>x.toFixed(d)\<close> of a finite number: the nearest multiple, the larger in absolute value of two.\<close>

definition fixed_str :: "nat \<Rightarrow> int \<Rightarrow> string" where
  "fixed_str d n = show_int (n div 10 ^ d) @ ''.'' @ padStart d (show_int (n mod 10 ^ d))"

definition toFixed :: "nat \<Rightarrow> rat \<Rightarrow> string" where
  "toFixed d a =
     (if a < 0 then ''-'' @ fixed_str d \<lfloor>- a * 10 ^ d + 1/2\<rfloor> else fixed_str d \<lfloor>a * 10 ^ d + 1/2\<rfloor>)"

definition writeField :: "PointerField \<Rightarrow> PointerField" where
  "writeField s = s\<lparr>pf_style :=
     [(''--pointer-x'', toFixed 4 (c_p (pf_x s))),
      (''--pointer-y'', toFixed 4 (c_p (pf_y s))),
      (''--pointer-px'', toFixed 3 (c_p (pf_px s)) @ ''%''),
      (''--pointer-py'', toFixed 3 (c_p (pf_py s)) @ ''%'')]\<rparr>"

text \<open>The elapsed time of a frame in seconds, at most a thirtieth.\<close>

definition frameDt :: "rat \<Rightarrow> rat \<Rightarrow> rat" where
  "frameDt prev ts = min (rnd (rnd (ts - prev) / 1000)) (rnd (1 / 30))"

definition springStep :: "rat \<Rightarrow> Channel \<Rightarrow> Channel" where
  "springStep dt c =
     (let force = rnd (rnd (- STIFFNESS * rnd (c_p c - c_t c)) - rnd (DAMPING * c_v c));
          v = rnd (c_v c + rnd (force * dt))
      in c\<lparr>c_v := v, c_p := rnd (c_p c + rnd (v * dt))\<rparr>)"

definition moving :: "Channel \<Rightarrow> bool" where
  "moving c \<longleftrightarrow> \<bar>c_v c\<bar> > rnd (1 / 100) \<or> \<bar>rnd (c_p c - c_t c)\<bar> > rnd (1 / 100)"

definition snapChannel :: "Channel \<Rightarrow> Channel" where
  "snapChannel c = c\<lparr>c_p := c_t c, c_v := 0\<rparr>"

definition onAll :: "(Channel \<Rightarrow> Channel) \<Rightarrow> PointerField \<Rightarrow> PointerField" where
  "onAll f s = s\<lparr>pf_x := f (pf_x s), pf_y := f (pf_y s), pf_px := f (pf_px s), pf_py := f (pf_py s)\<rparr>"

definition anyMoving :: "PointerField \<Rightarrow> bool" where
  "anyMoving s \<longleftrightarrow> moving (pf_x s) \<or> moving (pf_y s) \<or> moving (pf_px s) \<or> moving (pf_py s)"

definition requestFrame :: "PointerField \<Rightarrow> PointerField" where
  "requestFrame s = s\<lparr>pf_raf := pf_next s, pf_queue := pf_queue s @ [pf_next s], pf_next := Suc (pf_next s)\<rparr>"

definition stepField :: "rat \<Rightarrow> PointerField \<Rightarrow> PointerField" where
  "stepField ts s =
     (let l = (if pf_last s = 0 then ts else pf_last s);
          s1 = writeField (onAll (springStep (frameDt l ts)) (s\<lparr>pf_last := ts\<rparr>))
      in if anyMoving s1 then requestFrame s1
         else (writeField (onAll snapChannel s1))\<lparr>pf_raf := 0, pf_last := 0\<rparr>)"

definition ensureRunning :: "PointerField \<Rightarrow> PointerField" where
  "ensureRunning s = (if pf_raf s = 0 then requestFrame (s\<lparr>pf_last := 0\<rparr>) else s)"

record Rect =
  re_left :: rat
  re_top :: rat
  re_width :: rat
  re_height :: rat

definition onMove :: "rat \<Rightarrow> rat \<Rightarrow> Rect \<Rightarrow> PointerField \<Rightarrow> PointerField" where
  "onMove clientX clientY r s =
     (if re_width r = 0 \<or> re_height r = 0 then s
      else let rx = rnd (rnd (clientX - re_left r) / re_width r);
               ry = rnd (rnd (clientY - re_top r) / re_height r)
           in ensureRunning (s\<lparr>
                pf_x := (pf_x s)\<lparr>c_t := max (- 1) (min 1 (rnd (rnd (rx * 2) - 1)))\<rparr>,
                pf_y := (pf_y s)\<lparr>c_t := max (- 1) (min 1 (rnd (rnd (ry * 2) - 1)))\<rparr>,
                pf_px := (pf_px s)\<lparr>c_t := max 0 (min 100 (rnd (rx * 100)))\<rparr>,
                pf_py := (pf_py s)\<lparr>c_t := max 0 (min 100 (rnd (ry * 100)))\<rparr>\<rparr>))"

definition syncField :: "bool \<Rightarrow> bool \<Rightarrow> PointerField \<Rightarrow> PointerField" where
  "syncField fine reduce s = s\<lparr>pf_bound := fine \<and> \<not> reduce\<rparr>"

text \<open>Mounting: the channels at rest, nothing published, the listener as the media queries say.\<close>

definition atRest :: "rat \<Rightarrow> Channel" where
  "atRest p = \<lparr>c_p = p, c_v = 0, c_t = p\<rparr>"

definition mountField :: "bool \<Rightarrow> bool \<Rightarrow> PointerField" where
  "mountField fine reduce =
     syncField fine reduce
       \<lparr>pf_x = atRest 0, pf_y = atRest 0, pf_px = atRest 50, pf_py = atRest 32, pf_raf = 0, pf_last = 0,
        pf_bound = False, pf_style = [], pf_mounted = True, pf_queue = [], pf_next = 1\<rparr>"

definition unmountField :: "PointerField \<Rightarrow> PointerField" where
  "unmountField s =
     s\<lparr>pf_mounted := False, pf_bound := False,
       pf_queue := (if pf_raf s \<noteq> 0 then removeAll (pf_raf s) (pf_queue s) else pf_queue s)\<rparr>"

text \<open>
  What the browser delivers: a pointer event reaches a bound listener, a change of a media query and the
  unmounting a mounted hook, and a frame runs the first callback of the queue.
\<close>

datatype PfEvent = Move rat rat Rect | Frame rat | Media bool bool | Unmount

fun pfEvent :: "PfEvent \<Rightarrow> PointerField \<Rightarrow> PointerField" where
  "pfEvent (Move x y r) s = (if pf_bound s then onMove x y r s else s)"
| "pfEvent (Frame ts) s =
     (case pf_queue s of [] \<Rightarrow> s | _ # q \<Rightarrow> stepField ts (s\<lparr>pf_queue := q\<rparr>))"
| "pfEvent (Media fine reduce) s = (if pf_mounted s then syncField fine reduce s else s)"
| "pfEvent Unmount s = (if pf_mounted s then unmountField s else s)"

definition pfRun :: "PfEvent list \<Rightarrow> PointerField \<Rightarrow> PointerField" where
  "pfRun = fold pfEvent"

text \<open>The clock of the frames: positive, and a tenth of a millisecond or more from one frame to the next.\<close>

fun timed :: "PointerField \<Rightarrow> PfEvent list \<Rightarrow> bool" where
  "timed s [] = True"
| "timed s (e # es) =
     ((case e of Frame ts \<Rightarrow> 0 < ts \<and> (pf_last s = 0 \<or> pf_last s + 1 / 10 \<le> ts) | _ \<Rightarrow> True)
      \<and> timed (pfEvent e s) es)"

subsection \<open>Rounding errors\<close>

lemma rnd_error_within:
  assumes "\<bar>x\<bar> \<le> b" and "1 \<le> b"
  shows "\<bar>rnd x - x\<bar> \<le> b / 2 ^ 53"
proof (cases "x = 0")
  case True
  with assms show ?thesis by simp
next
  case False
  let ?q = "pow2 (ulp_ex x)"
  have e: "\<bar>rnd x - x\<bar> \<le> 1/2 * ?q" using rnd_error [of x] by simp
  have "pow2 (max (ex2 \<bar>x\<bar>) (- 1022)) \<le> b"
  proof (cases "ex2 \<bar>x\<bar> \<le> - 1022")
    case True
    have "pow2 (- 1022) \<le> pow2 0" by (rule pow2_mono) simp
    with True assms(2) show ?thesis by (simp add: max_def)
  next
    case f: False
    have "pow2 (ex2 \<bar>x\<bar>) \<le> \<bar>x\<bar>" using ex2_bounds [of "\<bar>x\<bar>"] False by simp
    with f assms(1) show ?thesis by (simp add: max_def)
  qed
  moreover have "?q * 2 ^ 52 = pow2 (max (ex2 \<bar>x\<bar>) (- 1022))"
    using pow2_diff_mult [of _ 52] unfolding ulp_ex_def by simp
  ultimately show ?thesis using e by simp
qed

lemma rnd_near:
  assumes "\<bar>a - b\<bar> \<le> d" and "\<bar>a\<bar> \<le> B" and "1 \<le> B"
  shows "\<bar>rnd a - b\<bar> \<le> d + B / 2 ^ 53" and "\<bar>rnd a\<bar> \<le> B + B / 2 ^ 53"
  using rnd_error_within [OF assms(2,3)] assms(1,2) by (simp_all only: abs_le_iff) linarith+

lemma near_le:
  fixes a b m d B C :: rat
  shows "\<bar>a - b\<bar> \<le> d \<Longrightarrow> \<bar>b - m\<bar> \<le> B \<Longrightarrow> d + B \<le> C \<Longrightarrow> \<bar>a - m\<bar> \<le> C"
  by linarith

lemma budget:
  fixes e D K M :: rat
  shows "e \<le> 4 / 10 ^ 7 * D \<Longrightarrow> 14 / 10 ^ 7 * D \<le> K \<Longrightarrow> e + (M - K) \<le> M - D / 10 ^ 6"
  by simp

lemma scale_dt:
  fixes a dt :: rat
  assumes "\<bar>a\<bar> \<le> B" and "0 \<le> dt" and "dt \<le> 1 / 30"
  shows "\<bar>a * dt\<bar> \<le> B / 30"
proof -
  have "\<bar>a\<bar> * dt \<le> B * (1 / 30)" using assms by (intro mult_mono) simp_all
  with assms(2) show ?thesis by (simp add: abs_mult)
qed

lemma DAMPING_val: "DAMPING = 3447350341514429 / 140737488355328"
  by code_simp

lemma thirtieth_val: "rnd (1 / 30) = 4803839602528529 / 144115188075855872"
  by code_simp

lemma hundredth_val: "rnd (1 / 100) = 5764607523034235 / 576460752303423488"
  by code_simp

text \<open>The spring without rounding: its new velocity and position.\<close>

definition exactV :: "rat \<Rightarrow> Channel \<Rightarrow> rat" where
  "exactV dt c = c_v c + (- 150 * (c_p c - c_t c) - DAMPING * c_v c) * dt"

definition exactP :: "rat \<Rightarrow> Channel \<Rightarrow> rat" where
  "exactP dt c = c_p c + exactV dt c * dt"

text \<open>One step in doubles, against the exact step: the errors in units of \<open>2 ^ -53\<close>.\<close>

lemma springStep_error:
  assumes L: "1 \<le> L" and p: "\<bar>c_p c\<bar> \<le> 2 * L" and t: "\<bar>c_t c\<bar> \<le> 2 * L"
    and v: "\<bar>c_v c\<bar> \<le> 30 * L" and dt: "0 \<le> dt" "dt \<le> 1 / 30"
  shows "\<bar>c_v (springStep dt c) - exactV dt c\<bar> \<le> 231 * L / 2 ^ 53"
    and "\<bar>c_p (springStep dt c) - exactP dt c\<bar> \<le> 15 * L / 2 ^ 53"
proof -
  let ?u = "L / 2 ^ 53"
  have u: "0 < ?u" "?u \<le> L / 1000000" using L by simp_all
  define e where "e = rnd (c_p c - c_t c)"
  have e: "\<bar>e - (c_p c - c_t c)\<bar> \<le> 4 * ?u" "\<bar>e\<bar> \<le> 4 * L + 4 * ?u"
    using rnd_near [of "c_p c - c_t c" "c_p c - c_t c" 0 "4 * L"] p t L unfolding e_def by auto
  define f1 where "f1 = rnd (- STIFFNESS * e)"
  have "\<bar>- STIFFNESS * e - - 150 * (c_p c - c_t c)\<bar> \<le> 600 * ?u"
  proof -
    have "- STIFFNESS * e - - 150 * (c_p c - c_t c) = - 150 * (e - (c_p c - c_t c))"
      unfolding STIFFNESS_def by (simp add: algebra_simps)
    then show ?thesis using e(1) by (simp only: abs_mult) simp
  qed
  moreover have "\<bar>- STIFFNESS * e\<bar> \<le> 601 * L"
    using e(2) u unfolding STIFFNESS_def by (simp add: abs_le_iff) linarith
  ultimately have f1: "\<bar>f1 - - 150 * (c_p c - c_t c)\<bar> \<le> 1201 * ?u" "\<bar>f1\<bar> \<le> 602 * L"
    using rnd_near [of "- STIFFNESS * e" "- 150 * (c_p c - c_t c)" "600 * ?u" "601 * L"] L u
    unfolding f1_def by auto
  define f2 where "f2 = rnd (DAMPING * c_v c)"
  have "\<bar>DAMPING * c_v c\<bar> \<le> 735 * L"
    using v L unfolding DAMPING_val by (simp add: abs_le_iff)
  then have f2: "\<bar>f2 - DAMPING * c_v c\<bar> \<le> 735 * ?u" "\<bar>f2\<bar> \<le> 736 * L"
    using rnd_near [of "DAMPING * c_v c" "DAMPING * c_v c" 0 "735 * L"] L u unfolding f2_def by auto
  define f where "f = rnd (f1 - f2)"
  let ?F = "- 150 * (c_p c - c_t c) - DAMPING * c_v c"
  have "\<bar>f1 - f2 - ?F\<bar> \<le> 1936 * ?u" using f1(1) f2(1) by (simp only: abs_le_iff) linarith
  moreover have "\<bar>f1 - f2\<bar> \<le> 1338 * L" using f1(2) f2(2) by (simp only: abs_le_iff) linarith
  ultimately have f: "\<bar>f - ?F\<bar> \<le> 3274 * ?u" "\<bar>f\<bar> \<le> 1339 * L"
    using rnd_near [of "f1 - f2" ?F "1936 * ?u" "1338 * L"] L u unfolding f_def by auto
  define g where "g = rnd (f * dt)"
  have "\<bar>f * dt - ?F * dt\<bar> \<le> 110 * ?u"
    using scale_dt [OF f(1) dt] u by (simp add: left_diff_distrib)
  moreover have "\<bar>f * dt\<bar> \<le> 45 * L" using scale_dt [OF f(2) dt] L by simp
  ultimately have g: "\<bar>g - ?F * dt\<bar> \<le> 155 * ?u" "\<bar>g\<bar> \<le> 46 * L"
    using rnd_near [of "f * dt" "?F * dt" "110 * ?u" "45 * L"] L u unfolding g_def by auto
  define w where "w = rnd (c_v c + g)"
  have "\<bar>c_v c + g - exactV dt c\<bar> \<le> 155 * ?u" using g(1) unfolding exactV_def by simp
  moreover have "\<bar>c_v c + g\<bar> \<le> 76 * L" using v g(2) by (simp only: abs_le_iff) linarith
  ultimately have w: "\<bar>w - exactV dt c\<bar> \<le> 231 * ?u" "\<bar>w\<bar> \<le> 77 * L"
    using rnd_near [of "c_v c + g" "exactV dt c" "155 * ?u" "76 * L"] L u unfolding w_def by auto
  define h where "h = rnd (w * dt)"
  have "\<bar>w * dt - exactV dt c * dt\<bar> \<le> 77/10 * ?u"
    using scale_dt [OF w(1) dt] u by (simp add: left_diff_distrib)
  moreover have "\<bar>w * dt\<bar> \<le> 26/10 * L" using scale_dt [OF w(2) dt] L by simp
  ultimately have h: "\<bar>h - exactV dt c * dt\<bar> \<le> 103/10 * ?u" "\<bar>h\<bar> \<le> 261/100 * L"
    using rnd_near [of "w * dt" "exactV dt c * dt" "77/10 * ?u" "26/10 * L"] L u unfolding h_def by auto
  have "\<bar>c_p c + h - exactP dt c\<bar> \<le> 103/10 * ?u" using h(1) unfolding exactP_def by simp
  moreover have "\<bar>c_p c + h\<bar> \<le> 47/10 * L" using p h(2) L by (simp only: abs_le_iff) linarith
  ultimately have "\<bar>rnd (c_p c + h) - exactP dt c\<bar> \<le> 15 * ?u"
    using rnd_near(1) [of "c_p c + h" "exactP dt c" "103/10 * ?u" "47/10 * L"] L by auto
  moreover have "springStep dt c = c\<lparr>c_v := w, c_p := rnd (c_p c + h)\<rparr>"
    unfolding springStep_def Let_def e_def f1_def f2_def f_def g_def w_def h_def ..
  ultimately show "\<bar>c_v (springStep dt c) - exactV dt c\<bar> \<le> 231 * L / 2 ^ 53"
    and "\<bar>c_p (springStep dt c) - exactP dt c\<bar> \<le> 15 * L / 2 ^ 53"
    using w(1) by simp_all
qed

subsection \<open>The spring contracts a box\<close>

text \<open>
  The lead of a channel is where it is heading: its position plus its velocity over half the damping.  In
  an exact step, new position and new lead are weighted means of position, lead and target.
\<close>

definition lead :: "Channel \<Rightarrow> rat" where
  "lead c = c_p c + c_v c / (DAMPING / 2)"

lemma mean_bound:
  fixes x y z :: rat
  assumes "0 \<le> a1" "0 \<le> a2" "0 \<le> a3" "a1 + a2 + a3 = 1" "k \<le> a3" "\<bar>x\<bar> \<le> M" "\<bar>y\<bar> \<le> M" "\<bar>z\<bar> \<le> H" "H \<le> M"
  shows "\<bar>a1 * x + a2 * y + a3 * z\<bar> \<le> M - k * (M - H)"
proof -
  have "\<bar>a1 * x\<bar> \<le> a1 * M" "\<bar>a2 * y\<bar> \<le> a2 * M" "\<bar>a3 * z\<bar> \<le> a3 * H"
    using assms by (simp_all add: abs_mult mult_left_mono)
  then have "\<bar>a1 * x + a2 * y + a3 * z\<bar> \<le> a1 * M + a2 * M + a3 * H" by linarith
  also have "\<dots> = (a1 + a2 + a3) * M - a3 * (M - H)" by (simp add: algebra_simps)
  also have "\<dots> \<le> M - k * (M - H)" using assms by (simp add: mult_right_mono)
  finally show ?thesis .
qed

lemma sum_near:
  fixes a b c d k u :: rat
  assumes "\<bar>a - b\<bar> \<le> u" and "\<bar>(c - d) / k\<bar> \<le> w"
  shows "\<bar>a + c / k - (b + d / k)\<bar> \<le> u + w"
proof -
  have "a + c / k - (b + d / k) = (a - b) + (c - d) / k" by (simp add: diff_divide_distrib)
  with assms show ?thesis by linarith
qed

lemma half_damping_error:
  "\<bar>a\<bar> \<le> 231 * L / 2 ^ 53 \<Longrightarrow> 0 \<le> L \<Longrightarrow> \<bar>a / (DAMPING / 2)\<bar> \<le> 19 * L / 2 ^ 53"
  unfolding DAMPING_val by (simp add: abs_divide)

lemma weighted_step:
  fixes r :: rat
  assumes "r \<noteq> 0" and "v = r * (y - x)" and "P = v + (- 150 * (x - z) - 2 * r * v) * dt"
  shows "x + P * dt = (1 - r * dt * (1 - 2 * r * dt) - 150 * (dt * dt)) * x + r * dt * (1 - 2 * r * dt) * y
           + 150 * (dt * dt) * z"
    and "x + P * dt + P / r = (1 - (1 + r * dt) * (1 - 2 * r * dt) - (150 * (dt * dt) + 150 / r * dt)) * x
           + (1 + r * dt) * (1 - 2 * r * dt) * y + (150 * (dt * dt) + 150 / r * dt) * z"
  unfolding assms(2,3) using assms(1) by (simp_all add: field_simps)

lemma exact_box:
  assumes dt: "1 / 10001 \<le> dt" "dt \<le> 1 / 30"
    and p: "\<bar>c_p c - m\<bar> \<le> M" and s: "\<bar>lead c - m\<bar> \<le> M" and t: "\<bar>c_t c - m\<bar> \<le> H" and "H \<le> M"
  shows "\<bar>exactP dt c - m\<bar> \<le> M - 150 * (dt * dt) * (M - H)"
    and "\<bar>exactP dt c + exactV dt c / (DAMPING / 2) - m\<bar> \<le> M - 150 * (dt * dt) * (M - H)"
proof -
  define r where "r = DAMPING / 2"
  let ?x = "c_p c - m" and ?y = "lead c - m" and ?z = "c_t c - m"
  have rv: "r = 3447350341514429 / 281474976710656" unfolding r_def DAMPING_val by simp
  define a2 where "a2 = r * dt * (1 - 2 * r * dt)"
  define a3 where "a3 = 150 * (dt * dt)"
  define b2 where "b2 = (1 + r * dt) * (1 - 2 * r * dt)"
  define b3 where "b3 = 150 * (dt * dt) + 150 / r * dt"
  have dt0: "0 \<le> dt" "0 < r" using dt rv by simp_all
  have dd: "dt * dt \<le> 1 / 900" "0 < dt * dt" using mult_mono [of dt "1/30" dt "1/30"] dt by simp_all
  have r: "0 \<le> 1 - 2 * r * dt" "0 \<le> r * dt" "r * dt \<le> 41 / 100" using dt unfolding rv by simp_all
  have "a2 \<le> 41 / 100 * 1" unfolding a2_def by (rule mult_mono [OF r(3) _ _ r(1)]) (use r(2) in linarith)+
  moreover have "0 \<le> a2" unfolding a2_def by (rule mult_nonneg_nonneg [OF r(2,1)])
  ultimately have a: "0 \<le> a2" "0 \<le> a3" "0 \<le> 1 - a2 - a3"
    unfolding a3_def using dd by simp_all
  have "0 \<le> dt * ((r - 150 / r) + (2 * r * r - 150) * dt)"
    using dt unfolding rv by (intro mult_nonneg_nonneg) simp_all
  also have "\<dots> = 1 - b2 - b3" unfolding b2_def b3_def by (simp add: algebra_simps)
  finally have "0 \<le> 1 - b2 - b3" .
  moreover have "0 \<le> b2" unfolding b2_def by (rule mult_nonneg_nonneg [OF _ r(1)]) (use r(2) in simp)
  ultimately have b: "0 \<le> b2" "0 \<le> b3" "0 \<le> 1 - b2 - b3"
    unfolding b3_def using dd dt0 by simp_all
  have v: "c_v c = r * (?y - ?x)" unfolding lead_def r_def DAMPING_val by simp
  have V: "exactV dt c = c_v c + (- 150 * (?x - ?z) - 2 * r * c_v c) * dt"
    unfolding exactV_def r_def by simp
  have "r \<noteq> 0" using dt0 by simp
  note w = weighted_step [OF this v V]
  have P: "exactP dt c - m = (1 - a2 - a3) * ?x + a2 * ?y + a3 * ?z"
    using w(1) unfolding exactP_def a2_def a3_def by simp
  have S: "exactP dt c + exactV dt c / (DAMPING / 2) - m = (1 - b2 - b3) * ?x + b2 * ?y + b3 * ?z"
    using w(2) unfolding exactP_def b2_def b3_def r_def [symmetric] by simp
  have k: "150 * (dt * dt) \<le> a3" "150 * (dt * dt) \<le> b3" unfolding a3_def b3_def rv using dt by simp_all
  show "\<bar>exactP dt c - m\<bar> \<le> M - 150 * (dt * dt) * (M - H)"
    unfolding P by (rule mean_bound [OF a(3,1,2) _ k(1) p s t \<open>H \<le> M\<close>]) simp
  show "\<bar>exactP dt c + exactV dt c / (DAMPING / 2) - m\<bar> \<le> M - 150 * (dt * dt) * (M - H)"
    unfolding S by (rule mean_bound [OF b(3,1,2) _ k(2) p s t \<open>H \<le> M\<close>]) simp
qed

text \<open>
  In doubles: a channel that is in the box around its targets, up to \<open>slack\<close>, stays there, and what is
  further out than that comes closer.
\<close>

definition slack :: "rat \<Rightarrow> rat" where
  "slack L = L / 10 ^ 8"

definition inBox :: "rat \<Rightarrow> rat \<Rightarrow> Channel \<Rightarrow> bool" where
  "inBox m M c \<longleftrightarrow> \<bar>c_p c - m\<bar> \<le> M \<and> \<bar>lead c - m\<bar> \<le> M"

lemma springStep_box:
  assumes L: "1 \<le> L" and dt: "1 / 10001 \<le> dt" "dt \<le> 1 / 30"
    and box: "inBox m M c" and t: "\<bar>c_t c - m\<bar> \<le> H"
    and M: "H + slack L \<le> M" "M \<le> 6 / 5 * L" and m: "\<bar>m\<bar> + M \<le> 2 * L"
  shows "inBox m (M - (M - H) / 10 ^ 6) (springStep dt c)"
proof -
  note b = box [unfolded inBox_def] and M' = M [unfolded slack_def]
  have HM: "H \<le> M" and l: "L \<le> 10 ^ 8 * (M - H)" using M' L by simp_all
  have v: "\<bar>c_v c\<bar> \<le> 30 * L"
    using b M' L unfolding lead_def DAMPING_val by (simp add: abs_le_iff)
  have p: "\<bar>c_p c\<bar> \<le> 2 * L" and t': "\<bar>c_t c\<bar> \<le> 2 * L" using b t m HM by linarith+
  have dt0: "0 \<le> dt" using dt by simp
  note err = springStep_error [OF L p t' v dt0 dt(2)]
  define K where "K = 150 * (dt * dt) * (M - H)"
  have "1 / 10001 * (1 / 10001) \<le> dt * dt" using dt by (intro mult_mono) simp_all
  then have "150 * (1 / 10001 * (1 / 10001)) * (M - H) \<le> K"
    unfolding K_def using HM by (intro mult_right_mono) simp_all
  then have k: "14 / 10 ^ 7 * (M - H) \<le> K" using HM by simp
  have "34 * L / 2 ^ 53 \<le> 4 / 10 ^ 7 * (M - H)" using l HM by (simp add: field_simps)
  then have bud: "34 * L / 2 ^ 53 + (M - K) \<le> M - (M - H) / 10 ^ 6" using k by (rule budget)
  let ?c = "springStep dt c"
  note e = exact_box [OF dt b [THEN conjunct1] b [THEN conjunct2] t HM, folded K_def]
  have "\<bar>c_p ?c - m\<bar> \<le> M - (M - H) / 10 ^ 6"
    by (rule near_le [OF err(2) e(1)]) (use bud L in simp)
  moreover have "\<bar>lead ?c - (exactP dt c + exactV dt c / (DAMPING / 2))\<bar> \<le> 34 * L / 2 ^ 53"
  proof -
    have "\<bar>(c_v ?c - exactV dt c) / (DAMPING / 2)\<bar> \<le> 19 * L / 2 ^ 53"
      by (rule half_damping_error [OF err(1)]) (use L in simp)
    from sum_near [OF err(2) this] show ?thesis unfolding lead_def by simp
  qed
  then have "\<bar>lead ?c - m\<bar> \<le> M - (M - H) / 10 ^ 6"
    by (rule near_le [OF _ e(2)]) (rule bud)
  ultimately show ?thesis unfolding inBox_def by simp
qed

lemma springStep_idle:
  assumes "repr (c_p c)" and "repr (c_v c)"
  shows "springStep 0 c = c"
  using assms by (simp add: springStep_def Let_def rnd_repr)

lemma springStep_repr [simp]: "repr (c_p (springStep dt c))" "repr (c_v (springStep dt c))"
  by (simp_all add: springStep_def Let_def)

lemma springStep_target [simp]: "c_t (springStep dt c) = c_t c"
  by (simp add: springStep_def Let_def)

lemma frameDt_cases:
  assumes "0 < ts" and "l = 0 \<or> l + 1 / 10 \<le> ts"
  shows "frameDt (if l = 0 then ts else l) ts = 0 \<and> l = 0 \<or>
    1 / 10001 \<le> frameDt (if l = 0 then ts else l) ts \<and> frameDt (if l = 0 then ts else l) ts \<le> 1 / 30"
proof (cases "l = 0")
  case True
  then show ?thesis by (simp add: frameDt_def thirtieth_val)
next
  case False
  with assms have "1 / 10 \<le> ts - l" by simp
  then have "rnd (1 / 10) \<le> rnd (ts - l)" by (rule rnd_mono)
  then have "rnd (rnd (1 / 10) / 1000) \<le> rnd (rnd (ts - l) / 1000)"
    by (intro rnd_mono) (simp add: divide_right_mono)
  moreover have "1 / 10001 \<le> rnd (rnd (1 / 10) / 1000)" by code_simp
  ultimately show ?thesis using False by (simp add: frameDt_def thirtieth_val)
qed

subsection \<open>One channel\<close>

lemma inBox_mono: "inBox m M c \<Longrightarrow> M \<le> N \<Longrightarrow> inBox m N c"
  by (simp add: inBox_def)

definition chanOk :: "rat \<Rightarrow> rat \<Rightarrow> rat \<Rightarrow> Channel \<Rightarrow> bool" where
  "chanOk m H L c \<longleftrightarrow>
     inBox m (H + slack L) c \<and> \<bar>c_t c - m\<bar> \<le> H \<and> repr (c_t c) \<and> repr (c_p c) \<and> repr (c_v c)"

definition roomy :: "rat \<Rightarrow> rat \<Rightarrow> rat \<Rightarrow> bool" where
  "roomy m H L \<longleftrightarrow> 1 \<le> L \<and> H + slack L \<le> 6 / 5 * L \<and> \<bar>m\<bar> + (H + slack L) \<le> 2 * L"

lemma roomy_unit [simp]: "roomy 0 1 1" and roomy_pct [simp]: "roomy 50 50 100"
  by (simp_all add: roomy_def slack_def)

definition okDt :: "rat \<Rightarrow> bool" where
  "okDt dt \<longleftrightarrow> dt = 0 \<or> 1 / 10001 \<le> dt \<and> dt \<le> 1 / 30"

lemma springStep_ok:
  assumes r: "roomy m H L" and c: "chanOk m H L c" and dt: "okDt dt"
  shows "chanOk m H L (springStep dt c)"
proof (cases "dt = 0")
  case True
  with c show ?thesis by (simp add: chanOk_def springStep_idle)
next
  case False
  with dt have d: "1 / 10001 \<le> dt" "dt \<le> 1 / 30" by (simp_all add: okDt_def)
  have L: "1 \<le> L" and M: "H + slack L \<le> H + slack L" "H + slack L \<le> 6 / 5 * L"
    and m: "\<bar>m\<bar> + (H + slack L) \<le> 2 * L"
    using r by (simp_all add: roomy_def)
  have "inBox m (H + slack L - (H + slack L - H) / 10 ^ 6) (springStep dt c)"
    using c by (intro springStep_box [OF L d _ _ M m]) (simp_all add: chanOk_def)
  then have "inBox m (H + slack L) (springStep dt c)"
    by (rule inBox_mono) (use L in \<open>simp add: slack_def\<close>)
  with c show ?thesis by (simp add: chanOk_def)
qed

lemma chanOk_target:
  "chanOk m H L c \<Longrightarrow> \<bar>t - m\<bar> \<le> H \<Longrightarrow> repr t \<Longrightarrow> chanOk m H L (c\<lparr>c_t := t\<rparr>)"
  by (simp add: chanOk_def inBox_def lead_def)

lemma chanOk_rest:
  assumes "\<bar>p - m\<bar> \<le> H" and "0 \<le> L" and "repr p"
  shows "chanOk m H L (atRest p)"
  using assms by (simp add: chanOk_def inBox_def lead_def atRest_def slack_def)

lemma chanOk_p: "chanOk m H L c \<Longrightarrow> \<bar>c_p c - m\<bar> \<le> H + slack L"
  by (simp add: chanOk_def inBox_def)

lemma snap_rest: "snapChannel c = atRest (c_t c)"
  by (simp add: snapChannel_def atRest_def)

lemma snap_ok: "roomy m H L \<Longrightarrow> chanOk m H L c \<Longrightarrow> chanOk m H L (snapChannel c)"
  unfolding snap_rest by (intro chanOk_rest) (simp_all add: chanOk_def roomy_def)

text \<open>Near its target a channel is not moving; one that keeps its target gets near it.\<close>

lemma near_not_moving:
  assumes "inBox (c_t c) (1 / 10 ^ 4) c"
  shows "\<not> moving c"
proof -
  let ?x = "c_p c - c_t c"
  have x: "\<bar>?x\<bar> \<le> 1 / 10 ^ 4" and l: "\<bar>lead c - c_t c\<bar> \<le> 1 / 10 ^ 4"
    using assms by (simp_all add: inBox_def)
  have x': "\<bar>?x\<bar> \<le> 1 / 100" using x by simp
  have "?x \<le> 1 / 100" and "- ?x \<le> 1 / 100" using abs_le_D1 [OF x'] abs_le_D2 [OF x'] by simp_all
  then have "rnd ?x \<le> rnd (1 / 100) \<and> rnd (- ?x) \<le> rnd (1 / 100)" by (simp only: rnd_mono)
  then have "\<bar>rnd ?x\<bar> \<le> rnd (1 / 100)" by (simp only: rnd_minus abs_le_iff)
  moreover have "\<bar>lead c - c_p c\<bar> \<le> 2 * (1 / 10 ^ 4)" using x l by linarith
  then have "\<bar>c_v c\<bar> \<le> rnd (1 / 100)"
    unfolding lead_def DAMPING_val hundredth_val by (simp add: abs_le_iff)
  ultimately show ?thesis by (simp add: moving_def not_less)
qed

lemma springStep_approach:
  assumes L: "1 \<le> L" "L \<le> 1000" and d: "1 / 10001 \<le> dt" "dt \<le> 1 / 30"
    and box: "inBox (c_t c) (max (1 / 10 ^ 4) (M - of_nat n / 10 ^ 10)) c"
    and M: "M \<le> 6 / 5 * L" "\<bar>c_t c\<bar> + M \<le> 2 * L" "\<bar>c_t c\<bar> \<le> L"
  shows "inBox (c_t c) (max (1 / 10 ^ 4) (M - of_nat (Suc n) / 10 ^ 10)) (springStep dt c)"
proof -
  let ?K = "max (1 / 10 ^ 4) (M - of_nat n / 10 ^ 10)"
  have "M - of_nat n / 10 ^ 10 \<le> M" by simp
  then have k: "?K \<le> max (1 / 10 ^ 4) M" by simp
  have u: "1 / 10 ^ 4 \<le> L / 10" using L by simp
  have "max (1 / 10 ^ 4) M \<le> 6 / 5 * L" using M(1) u L(1) by (intro max.boundedI) simp_all
  with k have K2: "?K \<le> 6 / 5 * L" by linarith
  have "max (1 / 10 ^ 4) M \<le> 2 * L - \<bar>c_t c\<bar>" using M(2,3) u L(1) by (intro max.boundedI) simp_all
  with k have K3: "\<bar>c_t c\<bar> + ?K \<le> 2 * L" by linarith
  have "slack L \<le> 1 / 10 ^ 4" using L by (simp add: slack_def)
  then have K4: "0 + slack L \<le> ?K" by simp
  have "inBox (c_t c) (?K - (?K - 0) / 10 ^ 6) (springStep dt c)"
    by (rule springStep_box [OF L(1) d box _ K4 K2 K3]) simp
  moreover have "?K - (?K - 0) / 10 ^ 6 \<le> max (1 / 10 ^ 4) (M - of_nat (Suc n) / 10 ^ 10)"
    by (simp add: max_def field_simps)
  ultimately show ?thesis by (rule inBox_mono)
qed

subsection \<open>What is published\<close>

text \<open>The texts of a number in \<open>-1..1\<close> with four digits, and of a percentage in \<open>0..100\<close> with three.\<close>

definition unitText :: "string \<Rightarrow> bool" where
  "unitText t \<longleftrightarrow> (\<exists>n. 0 \<le> n \<and> n \<le> 10 ^ 4 \<and> (t = fixed_str 4 n \<or> t = ''-'' @ fixed_str 4 n))"

definition pctText :: "string \<Rightarrow> bool" where
  "pctText t \<longleftrightarrow> (\<exists>n. 0 \<le> n \<and> n \<le> 10 ^ 5 \<and> t = fixed_str 3 n @ ''%'') \<or> t = ''-0.000%''"

definition publishedOk :: "(string \<times> string) list \<Rightarrow> bool" where
  "publishedOk st \<longleftrightarrow>
     st = [] \<or>
     (\<exists>a b c d. st = [(''--pointer-x'', a), (''--pointer-y'', b), (''--pointer-px'', c), (''--pointer-py'', d)]
        \<and> unitText a \<and> unitText b \<and> pctText c \<and> pctText d)"

lemma unitText_toFixed:
  assumes "\<bar>a\<bar> \<le> 1 + slack 1"
  shows "unitText (toFixed 4 a)"
proof -
  have "\<bar>a\<bar> * 10 ^ 4 + 1/2 < of_int (10 ^ 4 + 1)" using assms by (simp add: slack_def)
  then have "\<lfloor>\<bar>a\<bar> * 10 ^ 4 + 1/2\<rfloor> < 10 ^ 4 + 1" by (simp only: floor_less_iff)
  moreover have "0 \<le> \<lfloor>\<bar>a\<bar> * 10 ^ 4 + 1/2\<rfloor>" by simp
  moreover have "toFixed 4 a = (if a < 0 then ''-'' else []) @ fixed_str 4 \<lfloor>\<bar>a\<bar> * 10 ^ 4 + 1/2\<rfloor>"
    by (simp add: toFixed_def)
  ultimately show ?thesis unfolding unitText_def
    by (intro exI [of _ "\<lfloor>\<bar>a\<bar> * 10 ^ 4 + 1/2\<rfloor>"]) simp
qed

lemma minus_zero_text: "''-'' @ fixed_str 3 0 @ ''%'' = ''-0.000%''"
  by code_simp

lemma pctText_toFixed:
  assumes "\<bar>a - 50\<bar> \<le> 50 + slack 100"
  shows "pctText (toFixed 3 a @ ''%'')"
proof (cases "a < 0")
  case True
  have "\<lfloor>- a * 10 ^ 3 + 1/2\<rfloor> = 0"
    using assms True by (intro floor_unique) (simp_all add: slack_def abs_le_iff)
  with True minus_zero_text show ?thesis by (simp add: pctText_def toFixed_def)
next
  case False
  have "a \<le> 100 + slack 100" using assms by (simp add: abs_le_iff)
  then have "a * 10 ^ 3 + 1/2 < of_int (10 ^ 5 + 1)" by (simp add: slack_def)
  then have "\<lfloor>a * 10 ^ 3 + 1/2\<rfloor> < 10 ^ 5 + 1" by (simp only: floor_less_iff)
  with False show ?thesis unfolding pctText_def toFixed_def
    by (intro disjI1 exI [of _ "\<lfloor>a * 10 ^ 3 + 1/2\<rfloor>"]) simp
qed

subsection \<open>The invariant of the hook\<close>

definition channelsOk :: "PointerField \<Rightarrow> bool" where
  "channelsOk s \<longleftrightarrow>
     chanOk 0 1 1 (pf_x s) \<and> chanOk 0 1 1 (pf_y s) \<and> chanOk 50 50 100 (pf_px s) \<and> chanOk 50 50 100 (pf_py s)"

definition settled :: "PointerField \<Rightarrow> bool" where
  "settled s \<longleftrightarrow> (\<forall>c\<in>{pf_x s, pf_y s, pf_px s, pf_py s}. c = atRest (c_t c))"

text \<open>The queue holds the one frame the hook asked for, as long as it is mounted and the loop runs.\<close>

definition pfInv :: "PointerField \<Rightarrow> bool" where
  "pfInv s \<longleftrightarrow>
     channelsOk s \<and> publishedOk (pf_style s) \<and> 0 < pf_next s \<and>
     pf_queue s = (if pf_mounted s \<and> pf_raf s \<noteq> 0 then [pf_raf s] else []) \<and>
     (pf_mounted s \<and> pf_raf s = 0 \<longrightarrow> settled s) \<and> (pf_bound s \<longrightarrow> pf_mounted s)"

lemma writeField_published: "channelsOk s \<Longrightarrow> publishedOk (pf_style (writeField s))"
  unfolding channelsOk_def publishedOk_def writeField_def
  using chanOk_p [of 0 1 1] chanOk_p [of 50 50 100] by (auto intro!: unitText_toFixed pctText_toFixed)

lemma writeField_channels [simp]: "channelsOk (writeField s) = channelsOk s"
  by (simp add: channelsOk_def writeField_def)

lemma requestFrame_simps [simp]:
  "channelsOk (requestFrame s) = channelsOk s" "pf_style (requestFrame s) = pf_style s"
  "pf_raf (requestFrame s) = pf_next s" "pf_queue (requestFrame s) = pf_queue s @ [pf_next s]"
  "pf_next (requestFrame s) = Suc (pf_next s)" "pf_bound (requestFrame s) = pf_bound s"
  "pf_mounted (requestFrame s) = pf_mounted s" "pf_last (requestFrame s) = pf_last s"
  "pf_x (requestFrame s) = pf_x s" "pf_y (requestFrame s) = pf_y s"
  "pf_px (requestFrame s) = pf_px s" "pf_py (requestFrame s) = pf_py s"
  by (simp_all add: requestFrame_def channelsOk_def)

lemma s1_simps:
  "pf_next (writeField (onAll f s)) = pf_next s" "pf_queue (writeField (onAll f s)) = pf_queue s"
  "pf_mounted (writeField (onAll f s)) = pf_mounted s" "pf_bound (writeField (onAll f s)) = pf_bound s"
  by (simp_all add: writeField_def onAll_def)

lemma onAll_channels:
  "channelsOk s \<Longrightarrow> (\<And>m H L c. roomy m H L \<Longrightarrow> chanOk m H L c \<Longrightarrow> chanOk m H L (f c)) \<Longrightarrow> channelsOk (onAll f s)"
  by (simp add: channelsOk_def onAll_def)

lemma stepField_inv:
  assumes inv: "pfInv s" and q: "pf_queue s \<noteq> []"
    and t: "0 < ts" "pf_last s = 0 \<or> pf_last s + 1 / 10 \<le> ts"
  shows "pfInv (stepField ts (s\<lparr>pf_queue := []\<rparr>))"
proof -
  let ?s = "s\<lparr>pf_queue := []\<rparr>" and ?l = "if pf_last s = 0 then ts else pf_last s"
  let ?s1 = "writeField (onAll (springStep (frameDt ?l ts)) (?s\<lparr>pf_last := ts\<rparr>))"
  have dt: "okDt (frameDt ?l ts)" using frameDt_cases [OF t] by (auto simp: okDt_def)
  have c1: "channelsOk ?s1"
    using inv springStep_ok [OF _ _ dt] unfolding writeField_channels
    by (intro onAll_channels) (simp_all add: pfInv_def channelsOk_def)
  show ?thesis
  proof (cases "anyMoving ?s1")
    case True
    then have e: "stepField ts ?s = requestFrame ?s1"
      by (simp add: stepField_def Let_def cong: if_cong split del: if_split)
    have "publishedOk (pf_style ?s1)" using c1 by (intro writeField_published) simp
    with inv q c1 show ?thesis unfolding e pfInv_def
      by (auto simp: s1_simps split: if_splits)
  next
    case False
    let ?s2 = "(writeField (onAll snapChannel ?s1))\<lparr>pf_raf := 0, pf_last := 0\<rparr>"
    have e: "stepField ts ?s = ?s2" using False by (simp add: stepField_def Let_def cong: if_cong split del: if_split)
    have c2: "channelsOk (onAll snapChannel ?s1)" using c1 snap_ok by (rule onAll_channels)
    then have "publishedOk (pf_style ?s2)" using writeField_published by simp
    moreover have "channelsOk ?s2" using c2 by (simp add: channelsOk_def writeField_def)
    moreover have "settled ?s2"
      by (simp add: settled_def onAll_def writeField_def snap_rest atRest_def)
    ultimately show ?thesis unfolding e using inv q
      by (auto simp: pfInv_def writeField_def onAll_def split: if_splits)
  qed
qed

lemma clamped_unit: "\<bar>max (- 1) (min 1 (rnd x)) - 0\<bar> \<le> 1" "repr (max (- 1) (min 1 (rnd x)))"
  using repr_minus [OF repr_1] by (auto simp: max_def min_def)

lemma clamped_pct: "\<bar>max 0 (min 100 (rnd x)) - 50\<bar> \<le> 50" "repr (max 0 (min 100 (rnd x)))"
  using repr_of_int [of 100] by (auto simp: max_def min_def abs_le_iff)

lemma onMove_inv:
  assumes inv: "pfInv s" and m: "pf_mounted s"
  shows "pfInv (onMove x y r s)"
proof (cases "re_width r = 0 \<or> re_height r = 0")
  case True
  with inv show ?thesis by (simp add: onMove_def)
next
  case False
  with inv m show ?thesis
    by (auto simp: onMove_def Let_def ensureRunning_def pfInv_def channelsOk_def requestFrame_def
          intro!: chanOk_target clamped_unit clamped_pct)
qed

lemma pfEvent_inv:
  assumes "pfInv s" and "timed s (e # es)"
  shows "pfInv (pfEvent e s)"
proof (cases e)
  case (Move x y r)
  have "pf_bound s \<Longrightarrow> pf_mounted s" using assms by (simp add: pfInv_def)
  with Move assms show ?thesis by (cases "pf_bound s") (simp_all add: onMove_inv)
next
  case (Frame ts)
  have "pf_queue s \<noteq> [] \<Longrightarrow> pf_queue s = [pf_raf s]" using assms by (simp add: pfInv_def split: if_splits)
  with Frame assms show ?thesis
    using stepField_inv [of s ts] by (cases "pf_queue s") auto
next
  case (Media f r)
  with assms show ?thesis
    by (auto simp: pfInv_def syncField_def channelsOk_def settled_def onAll_def)
next
  case Unmount
  with assms show ?thesis by (auto simp: pfInv_def unmountField_def channelsOk_def)
qed

lemma mountField_inv: "pfInv (mountField f r)"
proof -
  have "repr 50" "repr 32" using repr_of_int [of 50] repr_of_int [of 32] by simp_all
  then show ?thesis
    by (auto simp: pfInv_def mountField_def syncField_def channelsOk_def settled_def onAll_def
          publishedOk_def intro!: chanOk_rest) (simp_all add: atRest_def)
qed

lemma pfRun_inv: "pfInv s \<Longrightarrow> timed s es \<Longrightarrow> pfInv (pfRun es s)"
  unfolding pfRun_def
  by (induction es arbitrary: s) (auto dest: pfEvent_inv)

subsection \<open>The loop ends\<close>

text \<open>The frames of a schedule.\<close>

definition frames :: "(nat \<Rightarrow> rat) \<Rightarrow> nat \<Rightarrow> PfEvent list" where
  "frames ts n = map (\<lambda>i. Frame (ts i)) [0..<n]"

lemma frames_Suc: "frames ts (Suc n) = frames ts n @ [Frame (ts n)]"
  by (simp add: frames_def)

lemma pfRun_append: "pfRun (es @ fs) s = pfRun fs (pfRun es s)"
  by (simp add: pfRun_def)

lemma timed_append: "timed s (es @ fs) \<longleftrightarrow> timed s es \<and> timed (pfRun es s) fs"
  by (induction es arbitrary: s) (auto simp: pfRun_def)

definition nearTargets :: "nat \<Rightarrow> PointerField \<Rightarrow> bool" where
  "nearTargets n s \<longleftrightarrow>
     (\<forall>c\<in>{pf_x s, pf_y s, pf_px s, pf_py s}. inBox (c_t c) (max (1 / 10 ^ 4) (102 - of_nat n / 10 ^ 10)) c)"

lemma frame_running:
  assumes inv: "pfInv s" and m: "pf_mounted s" and r: "pf_raf (pfEvent (Frame ts) s) \<noteq> 0" "pf_raf s \<noteq> 0"
  defines "dt \<equiv> frameDt (if pf_last s = 0 then ts else pf_last s) ts" and "s' \<equiv> pfEvent (Frame ts) s"
  shows "pf_mounted s' \<and> pf_last s' = ts \<and> anyMoving s' \<and>
    pf_x s' = springStep dt (pf_x s) \<and> pf_y s' = springStep dt (pf_y s) \<and>
    pf_px s' = springStep dt (pf_px s) \<and> pf_py s' = springStep dt (pf_py s)"
proof -
  let ?s = "s\<lparr>pf_queue := []\<rparr>" and ?l = "if pf_last s = 0 then ts else pf_last s"
  let ?s1 = "writeField (onAll (springStep dt) (?s\<lparr>pf_last := ts\<rparr>))"
  have s': "s' = stepField ts ?s" using inv m r(2) by (simp add: s'_def pfInv_def)
  have e: "stepField ts ?s = (if anyMoving ?s1 then requestFrame ?s1
      else (writeField (onAll snapChannel ?s1))\<lparr>pf_raf := 0, pf_last := 0\<rparr>)"
    unfolding dt_def by (simp add: stepField_def Let_def cong: if_cong split del: if_split)
  have "anyMoving ?s1" using r(1) unfolding s'_def [symmetric] s' e by (simp split: if_splits)
  then show ?thesis unfolding s' e using m by (simp add: anyMoving_def writeField_def onAll_def)
qed

lemma chanOk_near:
  assumes "chanOk 0 1 1 c \<or> chanOk 50 50 100 c"
  shows "\<bar>c_t c\<bar> \<le> 100 \<and> inBox (c_t c) 102 c"
proof -
  have "slack 1 \<le> 1" "slack 100 \<le> 1" by (simp_all add: slack_def)
  with assms show ?thesis unfolding chanOk_def inBox_def by linarith
qed

lemma near_step:
  assumes inv: "channelsOk s" and near: "nearTargets n s" and dt: "1 / 10001 \<le> dt" "dt \<le> 1 / 30"
    and e: "pf_x s' = springStep dt (pf_x s)" "pf_y s' = springStep dt (pf_y s)"
      "pf_px s' = springStep dt (pf_px s)" "pf_py s' = springStep dt (pf_py s)"
  shows "nearTargets (Suc n) s'"
proof -
  have "inBox (c_t c) (max (1 / 10 ^ 4) (102 - of_nat (Suc n) / 10 ^ 10)) (springStep dt c)"
    if c: "c \<in> {pf_x s, pf_y s, pf_px s, pf_py s}" for c
  proof -
    have "\<bar>c_t c\<bar> \<le> 100" using c inv chanOk_near [of c] by (auto simp: channelsOk_def)
    moreover have "inBox (c_t c) (max (1 / 10 ^ 4) (102 - of_nat n / 10 ^ 10)) c"
      using near c unfolding nearTargets_def by blast
    ultimately show ?thesis by (intro springStep_approach [of 101, OF _ _ dt]) simp_all
  qed
  then show ?thesis unfolding nearTargets_def e by simp
qed

lemma near_all_not_moving:
  assumes "nearTargets n s" and "102 * 10 ^ 10 \<le> (of_nat n :: rat)"
  shows "\<not> anyMoving s"
proof -
  have "(102 :: rat) \<le> of_nat n / 10 ^ 10"
    using assms(2) by simp
  then have "max (1 / 10 ^ 4) (102 - of_nat n / 10 ^ 10 :: rat) = 1 / 10 ^ 4" by simp
  then have "\<forall>c\<in>{pf_x s, pf_y s, pf_px s, pf_py s}. inBox (c_t c) (1 / 10 ^ 4) c"
    using assms(1) unfolding nearTargets_def by (simp only:)
  then show ?thesis unfolding anyMoving_def by (auto simp del: power_numeral dest!: near_not_moving)
qed

theorem loop_ends:
  assumes inv: "pfInv s" and m: "pf_mounted s" and t: "\<And>n. timed s (frames ts n)"
  shows "\<exists>n. pf_raf (pfRun (frames ts n) s) = 0"
proof (rule ccontr)
  let ?s = "\<lambda>n. pfRun (frames ts n) s"
  assume no: "\<nexists>n. pf_raf (?s n) = 0"
  have r: "pf_raf (?s n) \<noteq> 0" for n using no by metis
  have i: "pfInv (?s n)" for n using inv t by (rule pfRun_inv)
  have s: "?s (Suc n) = pfEvent (Frame (ts n)) (?s n)" for n
    unfolding frames_Suc pfRun_append by (simp add: pfRun_def)
  have c: "0 < ts n \<and> (pf_last (?s n) = 0 \<or> pf_last (?s n) + 1 / 10 \<le> ts n)" for n
    using t [of "Suc n"] unfolding frames_Suc timed_append by simp
  have mo: "pf_mounted (?s n)" for n
  proof (induction n)
    case 0
    show ?case using m by (simp add: frames_def pfRun_def)
  next
    case (Suc n)
    show ?case using frame_running [OF i Suc _ r] r [of "Suc n"] unfolding s by blast
  qed
  let ?d = "\<lambda>n. frameDt (if pf_last (?s n) = 0 then ts n else pf_last (?s n)) (ts n)"
  have f: "pf_last (?s (Suc n)) = ts n \<and> anyMoving (?s (Suc n))"
    and g: "pf_x (?s (Suc n)) = springStep (?d n) (pf_x (?s n))" "pf_y (?s (Suc n)) = springStep (?d n) (pf_y (?s n))"
      "pf_px (?s (Suc n)) = springStep (?d n) (pf_px (?s n))" "pf_py (?s (Suc n)) = springStep (?d n) (pf_py (?s n))" for n
    using frame_running [OF i mo _ r] r [of "Suc n"] unfolding s by blast+
  have "nearTargets n (?s (Suc n))" for n
  proof (induction n)
    case 0
    show ?case using i [of "Suc 0"] chanOk_near
      by (auto simp: nearTargets_def pfInv_def channelsOk_def)
  next
    case (Suc n)
    have "pf_last (?s (Suc n)) \<noteq> 0" using f [of n] c [of n] by auto
    then have d: "1 / 10001 \<le> ?d (Suc n)" "?d (Suc n) \<le> 1 / 30"
      using frameDt_cases c [of "Suc n"] by blast+
    have "channelsOk (?s (Suc n))" using i unfolding pfInv_def by blast
    then show ?case using Suc d g by (rule near_step)
  qed
  moreover obtain n where "102 * 10 ^ 10 \<le> (of_nat n :: rat)" using real_arch_simple by blast
  ultimately show False using near_all_not_moving f by blast
qed

lemma frame_mounted: "pf_mounted (pfEvent (Frame ts) s) = pf_mounted s"
  by (cases "pf_queue s") (simp_all add: stepField_def Let_def writeField_def onAll_def)

lemma frames_mounted: "pf_mounted (pfRun (frames ts n) s) = pf_mounted s"
proof (induction n)
  case 0
  show ?case by (simp add: frames_def pfRun_def)
next
  case (Suc n)
  then show ?case unfolding frames_Suc pfRun_append by (simp add: pfRun_def frame_mounted del: pfEvent.simps)
qed

lemma pf_settles:
  assumes inv: "pfInv s" and m: "pf_mounted s" and t: "\<And>n. timed s (frames ts n)"
  shows "\<exists>n. pf_queue (pfRun (frames ts n) s) = [] \<and> settled (pfRun (frames ts n) s)"
proof -
  obtain n where n: "pf_raf (pfRun (frames ts n) s) = 0" using loop_ends [OF assms] by blast
  have "pfInv (pfRun (frames ts n) s)" using inv t by (rule pfRun_inv)
  with n m show ?thesis using frames_mounted [of ts n s] unfolding pfInv_def by auto
qed

lemma pf_unmounted: "pfInv s \<Longrightarrow> \<not> pf_mounted s \<Longrightarrow> pfEvent e s = s"
  by (cases e) (auto simp: pfInv_def)

text \<open>A channel at rest that gets another target never passes it by more than the slack.\<close>

lemma springSteps_ok:
  "roomy m H L \<Longrightarrow> chanOk m H L c \<Longrightarrow> list_all okDt dts \<Longrightarrow> chanOk m H L (fold springStep dts c)"
  by (induction dts arbitrary: c) (simp_all add: springStep_ok)

lemma no_overshoot:
  assumes L: "1 \<le> L" "\<bar>p\<bar> \<le> L" "\<bar>t\<bar> \<le> L" and r: "repr p" "repr t" and d: "list_all okDt dts"
  shows "min p t - slack L \<le> c_p (fold springStep dts (atRest p\<lparr>c_t := t\<rparr>)) \<and>
    c_p (fold springStep dts (atRest p\<lparr>c_t := t\<rparr>)) \<le> max p t + slack L"
proof -
  let ?m = "(p + t) / 2" and ?H = "\<bar>t - p\<bar> / 2" and ?c = "atRest p\<lparr>c_t := t\<rparr>"
  have "\<bar>p + t\<bar> + \<bar>t - p\<bar> \<le> 2 * L" using L by linarith
  then have m1: "\<bar>?m\<bar> + ?H \<le> L" by (simp add: abs_divide)
  have "\<bar>t - p\<bar> \<le> 2 * L" using L by linarith
  then have m2: "?H \<le> L" by simp
  have "p - ?m = - ((t - p) / 2)" and "t - ?m = (t - p) / 2" by (simp_all add: field_simps)
  then have m3: "\<bar>p - ?m\<bar> \<le> ?H" and m4: "\<bar>t - ?m\<bar> \<le> ?H"
    by (simp_all only: abs_minus_cancel abs_divide)
  have s: "0 \<le> slack L" "slack L \<le> L / 10" using L by (simp_all add: slack_def)
  have "roomy ?m ?H L" using m1 m2 s L(1) by (simp add: roomy_def)
  moreover have "chanOk ?m ?H L (atRest p)" using m3 L(1) r(1) by (intro chanOk_rest) simp_all
  then have "chanOk ?m ?H L ?c" using m4 r(2) by (rule chanOk_target)
  ultimately have "chanOk ?m ?H L (fold springStep dts ?c)" using d by (intro springSteps_ok)
  from chanOk_p [OF this] have "\<bar>c_p (fold springStep dts ?c) - ?m\<bar> \<le> ?H + slack L" .
  moreover have "min p t = ?m - ?H" and "max p t = ?m + ?H"
    by (simp_all add: min_def max_def abs_if field_simps)
  ultimately show ?thesis unfolding abs_le_iff by (auto simp: field_simps)
qed

lemma settled_channel:
  assumes inv: "pfInv s" and st: "settled s"
    and c: "c \<in> {pf_x s, pf_y s} \<and> L = 1 \<or> c \<in> {pf_px s, pf_py s} \<and> L = 100"
  shows "c = atRest (c_p c) \<and> \<bar>c_p c\<bar> \<le> L \<and> repr (c_p c)"
proof -
  have r: "c = atRest (c_t c)" using st c by (auto simp: settled_def)
  then have p: "c_p c = c_t c" by (metis Channel.select_convs(1) atRest_def)
  have "\<bar>c_t c\<bar> \<le> L \<and> repr (c_t c)"
    using inv c by (auto simp: pfInv_def channelsOk_def chanOk_def abs_le_iff)
  with r show ?thesis unfolding p by simp
qed

text \<open>Frames that come a tenth of a millisecond or more apart are in time, whatever the hook does with them.\<close>

fun spaced :: "rat \<Rightarrow> rat list \<Rightarrow> bool" where
  "spaced l [] = True"
| "spaced l (t # ts) = (l + 1 / 10 \<le> t \<and> spaced t ts)"

lemma stepField_last: "pf_last (stepField ts s) = 0 \<or> pf_last (stepField ts s) = ts"
  by (simp add: stepField_def Let_def requestFrame_def writeField_def onAll_def)

lemma onMove_last: "pf_last (onMove x y r s) = pf_last s \<or> pf_last (onMove x y r s) = 0"
  by (simp add: onMove_def Let_def ensureRunning_def requestFrame_def)

lemma timed_spaced:
  "pf_last s \<le> l \<Longrightarrow> 0 \<le> l \<Longrightarrow> spaced l ts \<Longrightarrow> timed s (map Frame ts)"
proof (induction ts arbitrary: s l)
  case (Cons t ts)
  then have t: "l + 1 / 10 \<le> t" "spaced t ts" by simp_all
  then have "0 \<le> t" using Cons.prems(2) by simp
  have "pf_last (pfEvent (Frame t) s) \<le> t"
    using stepField_last [of t "s\<lparr>pf_queue := tl (pf_queue s)\<rparr>"] Cons.prems t \<open>0 \<le> t\<close>
    by (auto split: list.split)
  from Cons.IH [OF this \<open>0 \<le> t\<close> t(2)] t Cons.prems show ?case by simp
qed simp

end
