(* ===== verification/Toolbar.thy ===== *)
theory Toolbar
  imports DetailPage
begin

text \<open>
  The toolbar of the browse page (\<open>unified/UnifiedDashboard.tsx\<close>), the cards and sections of the landing page
  (\<open>landing/Hero.tsx\<close>, \<open>HowItWorks.tsx\<close>, \<open>TrustPanel.tsx\<close>), the small building blocks they and the forms
  use (\<open>ui/AvatarBubble.tsx\<close>, \<open>SectionHeader.tsx\<close>, \<open>TriggerPreviewCard.tsx\<close>, \<open>markets/ProbabilityBar.tsx\<close>,
  \<open>CreateMarketForm/ModeButton.tsx\<close>), and the functions of the build configuration (\<open>app/vite.config.ts\<close>).
  A view is what is rendered without its style classes.
\<close>

subsection \<open>UnifiedDashboard.tsx\<close>

record ChipView =
  cv_pressed :: bool
  cv_label :: string
  cv_dot :: "string option"
  cv_count :: "nat option"

definition ToggleChip :: "bool \<Rightarrow> string \<Rightarrow> string option \<Rightarrow> nat option \<Rightarrow> ChipView" where
  "ToggleChip active label dot cnt =
     \<lparr>cv_pressed = active, cv_label = label, cv_dot = (if truthy dot then dot else None), cv_count = cnt\<rparr>"

text \<open>The headline figure and the tiles; all of them are the value locked in the markets.\<close>

definition UnifiedStats :: "int \<Rightarrow> string \<times> string \<times> (string \<times> string) list" where
  "UnifiedStats marketTvl =
     (''Capital at stake'', formatSol marketTvl, [(formatSol marketTvl, ''Market TVL'')])"

record FiltersView =
  fv_search :: string
  fv_sorts :: "ChipView list"
  fv_filters :: "ChipView list"
  fv_shown :: string

definition FILTER_DOTS :: "string list" where
  "FILTER_DOTS = [''bg-silver'', ''bg-cyan-phosphor'', ''bg-coral'', ''bg-aqua'', ''bg-silver-dim'']"

definition UnifiedFilters ::
  "string \<Rightarrow> MarketFilter \<Rightarrow> MarketSort \<Rightarrow> MarketCounts \<Rightarrow> nat \<Rightarrow> FiltersView" where
  "UnifiedFilters search filter0 sort0 counts shown =
     \<lparr>fv_search = search,
      fv_sorts = map (\<lambda>(label, active). ToggleChip active label None None) (sortChips sort0),
      fv_filters = map2 (\<lambda>(label, active, cnt) dot. ToggleChip active label (Some dot) (Some cnt))
        (filterChips filter0 counts) FILTER_DOTS,
      fv_shown = show_int (int shown) @ '' shown''\<rparr>"

text \<open>The handlers: what the page holds, and a click or an input on the toolbar.\<close>

record BrowseState =
  bw_query :: string
  bw_filter :: MarketFilter
  bw_sort :: MarketSort

definition initialBrowse :: BrowseState where
  "initialBrowse = \<lparr>bw_query = [], bw_filter = AllStages, bw_sort = ByValue\<rparr>"

datatype ToolbarEvent = TypeQuery string | PressFilter nat | PressSort nat

definition filterValues :: "MarketFilter list" where
  "filterValues = AllStages # map OnlyStage [FundingStage, ActiveStage, ResolvedStage, ClosedStage]"

definition sortValues :: "MarketSort list" where
  "sortValues = [ByValue, ByStage]"

fun toolbarEvent :: "ToolbarEvent \<Rightarrow> BrowseState \<Rightarrow> BrowseState" where
  "toolbarEvent (TypeQuery q) s = s\<lparr>bw_query := q\<rparr>"
| "toolbarEvent (PressFilter i) s = (if i < length filterValues then s\<lparr>bw_filter := filterValues ! i\<rparr> else s)"
| "toolbarEvent (PressSort i) s = (if i < length sortValues then s\<lparr>bw_sort := sortValues ! i\<rparr> else s)"

definition browseToolbar :: "OracleGroup list \<Rightarrow> BrowseState \<Rightarrow> FiltersView" where
  "browseToolbar groups s =
     UnifiedFilters (bw_query s) (bw_filter s) (bw_sort s) (deriveMarketCounts groups)
       (length (visibleGroups groups (bw_query s) (bw_filter s) (bw_sort s)))"

text \<open>After pressing a chip it is the one that is pressed; without a query, what is shown is what it counts.\<close>

lemma filterValues_length: "length filterValues = 5"
  by (simp add: filterValues_def)

lemma nth_five: "i < (5 :: nat) \<Longrightarrow> i = 0 \<or> i = 1 \<or> i = 2 \<or> i = 3 \<or> i = 4"
  by linarith

lemma pressed_filter:
  assumes "i < 5"
  shows "map cv_pressed (fv_filters (browseToolbar groups (toolbarEvent (PressFilter i) s))) = (replicate 5 False)[i := True]"
  using nth_five [OF assms]
  by (auto simp: browseToolbar_def UnifiedFilters_def filterChips_def FILTER_DOTS_def ToggleChip_def
      filterValues_def numeral_eq_Suc)

lemma pressed_sort:
  assumes "i < 2"
  shows "map cv_pressed (fv_sorts (browseToolbar groups (toolbarEvent (PressSort i) s))) = (replicate 2 False)[i := True]"
  using assms
  by (auto simp: browseToolbar_def UnifiedFilters_def sortChips_def ToggleChip_def sortValues_def
      numeral_eq_Suc less_Suc_eq)

lemma chip_counts_shown:
  assumes "i < 5" and "trim (bw_query s) = []"
  defines "s' \<equiv> toolbarEvent (PressFilter i) s"
  shows "map cv_count (fv_filters (browseToolbar groups s)) ! i =
      Some (length (visibleGroups groups (bw_query s') (bw_filter s') (bw_sort s')))"
proof -
  have q: "matchesMarketQuery g (bw_query s) None" for g
    using assms(2) by (simp add: matchesMarketQuery_def toLowerCase_def)
  have n: "length (visibleGroups groups (bw_query s) f o') = length (filterByStage groups f)" for f o'
    using arg_cong [OF sortMarkets_mset, of size "filterByStage groups f" o'] by (simp add: visibleGroups_def q)
  have c: "map cv_count (fv_filters (browseToolbar groups s)) =
      map (\<lambda>f. Some (length (filterByStage groups f))) filterValues"
    by (simp add: browseToolbar_def UnifiedFilters_def filterChips_def FILTER_DOTS_def ToggleChip_def
        filterValues_def deriveMarketCounts_eq stage_count_def) (simp add: filterByStage_def)
  show ?thesis using assms(1) unfolding c s'_def by (simp add: filterValues_length n)
qed

text \<open>The filter and the query are independent: pressing a chip keeps the query and the order.\<close>

lemma toolbar_independent:
  "bw_query (toolbarEvent (PressFilter i) s) = bw_query s" "bw_sort (toolbarEvent (PressFilter i) s) = bw_sort s"
  "bw_query (toolbarEvent (PressSort j) s) = bw_query s" "bw_filter (toolbarEvent (PressSort j) s) = bw_filter s"
  "bw_filter (toolbarEvent (TypeQuery q) s) = bw_filter s" "bw_sort (toolbarEvent (TypeQuery q) s) = bw_sort s"
  by simp_all

subsection \<open>Hero.tsx: the cards\<close>

datatype HeroTone = ToneOf ChipTone | AccentTone

fun TONE_CLASSES :: "HeroTone \<Rightarrow> string" where
  "TONE_CLASSES (ToneOf Neutral) = ''border-hairline text-silver-mist''"
| "TONE_CLASSES (ToneOf Info) = ''border-cyan-phosphor/30 text-cyan-phosphor''"
| "TONE_CLASSES AccentTone = ''border-lavender-phosphor/30 text-lavender-phosphor''"
| "TONE_CLASSES (ToneOf Ember) = ''border-coral/40 text-coral''"
| "TONE_CLASSES (ToneOf ConfirmedTone) = ''border-aqua/40 text-aqua''"
| "TONE_CLASSES (ToneOf Muted) = ''border-hairline text-silver-dim''"

text \<open>The scatter slots with their depths; a card and a skeleton stand in the slot of their index.\<close>

definition POSITIONS :: "(string \<times> int) list" where
  "POSITIONS =
     [(''lg:top-[24px] lg:left-0'', 12), (''lg:top-[8px] lg:right-[16px]'', 7),
      (''lg:top-[286px] lg:left-0'', 9), (''lg:top-[300px] lg:right-0'', 13),
      (''lg:bottom-[8px] lg:left-[96px]'', 6), (''lg:bottom-[28px] lg:right-[120px]'', 10)]"

record SlotView =
  sv_pos :: string
  sv_depth :: string

definition slotView :: "nat \<Rightarrow> SlotView" where
  "slotView index = \<lparr>sv_pos = fst (POSITIONS ! index), sv_depth = show_int (snd (POSITIONS ! index)) @ ''px''\<rparr>"

definition SkeletonCard :: "nat \<Rightarrow> SlotView" where
  "SkeletonCard = slotView"

record ConstellationView =
  kv_slot :: SlotView
  kv_delay :: nat
  kv_href :: string
  kv_kind :: string
  kv_status :: "string \<times> string"
  kv_title :: string
  kv_metric :: "string \<times> string"

definition ConstellationCard :: "HeroCard \<Rightarrow> nat \<Rightarrow> ConstellationView" where
  "ConstellationCard hc index =
     \<lparr>kv_slot = slotView index, kv_delay = index * 90, kv_href = hc_href hc, kv_kind = hc_kind hc,
      kv_status = (hc_status hc, TONE_CLASSES (ToneOf (hc_tone hc))), kv_title = hc_title hc,
      kv_metric = (hc_metricAccent hc, hc_metricLabel hc)\<rparr>"

fun heroSlots :: "HeroView \<Rightarrow> SlotView list" where
  "heroSlots (Constellation cs) = map (\<lambda>i. kv_slot (ConstellationCard (fst (cs ! i)) i)) [0..<length cs]"
| "heroSlots (Skeletons ds) = map SkeletonCard [0..<length ds]"
| "heroSlots NoHero = []"

lemma POSITIONS_depths: "map snd POSITIONS = SLOT_DEPTHS"
  by (simp add: POSITIONS_def SLOT_DEPTHS_def)

text \<open>Whatever is shown, no two cards or skeletons stand in one slot.\<close>

lemma slot_positions: "distinct (map (\<lambda>i. sv_pos (slotView i)) [0..<6])"
  by code_simp

lemma hero_slots_distinct: "distinct (map sv_pos (heroSlots (Hero W markets loading)))"
proof -
  have take6: "map (\<lambda>i. sv_pos (slotView i)) [0..<n] = take n (map (\<lambda>i. sv_pos (slotView i)) [0..<6])" if "n \<le> 6" for n
    using that by (simp add: take_map min_def)
  have d: "distinct (map (\<lambda>i. sv_pos (slotView i)) [0..<n])" if "n \<le> 6" for n
    unfolding take6 [OF that] using slot_positions by (rule distinct_take)
  show ?thesis
  proof (cases "Hero W markets loading")
    case (Constellation cs)
    then have "length cs \<le> 6" using Hero_slots [OF Constellation] by (simp add: SLOT_DEPTHS_def)
    with d Constellation show ?thesis by (simp add: ConstellationCard_def comp_def)
  next
    case (Skeletons ds)
    then have "length ds = 6" by (auto simp: Hero_def Let_def SLOT_DEPTHS_def split: if_splits)
    with d [of 6] Skeletons show ?thesis by (simp add: SkeletonCard_def comp_def)
  qed simp
qed

subsection \<open>HowItWorks.tsx, TrustPanel.tsx\<close>

record StepCard =
  sc_step :: string
  sc_title :: string
  sc_body :: string

definition STEPS :: "StepCard list" where
  "STEPS =
     [\<lparr>sc_step = ''01'', sc_title = ''Create'',
       sc_body = ''Stand up a GPT Subject and bind a binary or categorical prediction market to it. Seed the funding pool in the same transaction.''\<rparr>,
      \<lparr>sc_step = ''02'', sc_title = ''Fund'',
       sc_body = ''Anyone can contribute SOL until the market hits its liquidity floor. At the floor, anyone can activate and compose the cYES/cNO pool.''\<rparr>,
      \<lparr>sc_step = ''03'', sc_title = ''Trade'',
       sc_body = ''Once Active, the AMM prices YES against NO. Buy or sell shares; implied probability is the live market estimate.''\<rparr>,
      \<lparr>sc_step = ''04'', sc_title = ''GPT resolves'',
       sc_body = ''MagicBlock GPT settles the subject. Winning shares redeem 1 SOL; the market closes after claims.''\<rparr>]"

definition HowItWorks :: "(string \<times> string \<times> string \<times> nat) list" where
  "HowItWorks = map (\<lambda>i. let s = STEPS ! i in (''Step '' @ sc_step s, sc_title s, sc_body s, i * 90)) [0..<length STEPS]"

definition FLANK :: "(string \<times> string) list" where
  "FLANK =
     [(''Futarchy governance'', ''MetaDAO markets set parameters and steer the treasury.''),
      (''Live AMM'', ''Active markets trade cYES against cNO; implied probability is the pool price.''),
      (''GPT settlement'', ''MagicBlock GPT stamps the winning option on the Subject PDA.''),
      (''On-chain accounts'', ''Every market, contribution, and Subject is a program account you can inspect.'')]"

definition FlankCard :: "string \<times> string \<Rightarrow> nat \<Rightarrow> (string \<times> string) \<times> nat" where
  "FlankCard texts delay = (texts, delay)"

text \<open>The two columns on either side of the panel.\<close>

definition TrustPanel :: "((string \<times> string) \<times> nat) list \<times> ((string \<times> string) \<times> nat) list" where
  "TrustPanel =
     ([FlankCard (FLANK ! 0) 80, FlankCard (FLANK ! 1) 160], [FlankCard (FLANK ! 2) 80, FlankCard (FLANK ! 3) 160])"

lemma trust_shows_all: "map fst (fst TrustPanel @ snd TrustPanel) = FLANK"
  by (simp add: TrustPanel_def FlankCard_def FLANK_def)

subsection \<open>The building blocks\<close>

text \<open>
  \<open>toUpperCase\<close> in the code page of the model; the two letters without a capital in it are left alone, and
  the sharp s is written with two.
\<close>

definition upper_char :: "char \<Rightarrow> string" where
  "upper_char c =
     (let n = code_of c in
      if 97 \<le> n \<and> n \<le> 122 \<or> 224 \<le> n \<and> n \<le> 254 \<and> n \<noteq> 247 then [chr (n - 32)]
      else if n = 154 \<or> n = 156 \<or> n = 158 then [chr (n - 16)]
      else if n = 255 then [chr 159]
      else if n = 223 then ''SS''
      else [c])"

definition toUpperCase :: "string \<Rightarrow> string" where
  "toUpperCase s = concat (map upper_char s)"

text \<open>The words of a string: \<open>split(/\\s+/).filter(Boolean)\<close>.\<close>

function words :: "string \<Rightarrow> string list" where
  "words s =
     (let t = dropWhile is_space s in
      if t = [] then [] else takeWhile (\<lambda>c. \<not> is_space c) t # words (dropWhile (\<lambda>c. \<not> is_space c) t))"
  by auto
termination
proof (relation "measure length")
  fix s t :: string
  assume t: "t = dropWhile is_space s" "t \<noteq> []"
  then have "\<not> is_space (hd t)" using hd_dropWhile by blast
  with t(2) have "length (dropWhile (\<lambda>c. \<not> is_space c) t) < length t"
    by (cases t) (auto simp: le_imp_less_Suc length_dropWhile_le)
  also have "\<dots> \<le> length s" unfolding t(1) by (rule length_dropWhile_le)
  finally show "(dropWhile (\<lambda>c. \<not> is_space c) t, s) \<in> measure length" by simp
qed simp

declare words.simps [simp del]

definition initials :: "string \<Rightarrow> string" where
  "initials name =
     (case words (trim name) of
        [] \<Rightarrow> ''?''
      | [p] \<Rightarrow> toUpperCase (take 2 p)
      | p # q # ps \<Rightarrow> toUpperCase [hd p, hd (last (q # ps))])"

datatype AvatarBody = AvatarImage string string | AvatarInitials string string

text \<open>The picture or the initials, and the size of the dot of a verified one in tenths of a pixel.\<close>

definition AvatarBubble :: "string option \<Rightarrow> string \<Rightarrow> int \<Rightarrow> bool \<Rightarrow> AvatarBody \<times> int option" where
  "AvatarBubble src name px verified =
     ((if truthy src then AvatarImage (orElse src []) name else AvatarInitials name (initials name)),
      (if verified then Some (max 180 (px * 3)) else None))"

lemma words_nonempty: "w \<in> set (words s) \<Longrightarrow> w \<noteq> [] \<and> (\<forall>c\<in>set w. \<not> is_space c)"
proof (induction s rule: words.induct)
  case (1 s)
  define t where "t = dropWhile is_space s"
  show ?case
  proof (cases "t = []")
    case True
    then show ?thesis using 1(2) by (simp add: words.simps [of s] t_def)
  next
    case False
    then have h: "\<not> is_space (hd t)" unfolding t_def using hd_dropWhile by blast
    have e: "words s = takeWhile (\<lambda>c. \<not> is_space c) t # words (dropWhile (\<lambda>c. \<not> is_space c) t)"
      using False by (simp add: words.simps [of s] t_def Let_def)
    show ?thesis
    proof (cases "w = takeWhile (\<lambda>c. \<not> is_space c) t")
      case True
      with False h show ?thesis by (cases t) (auto dest: set_takeWhileD)
    next
      case w: False
      with 1(2) have "w \<in> set (words (dropWhile (\<lambda>c. \<not> is_space c) t))" unfolding e by simp
      then show ?thesis by (rule 1(1) [OF t_def False])
    qed
  qed
qed

lemma upper_char_ne: "upper_char c \<noteq> []"
  by (simp add: upper_char_def Let_def)

text \<open>Every name has initials to show.\<close>

lemma initials_ne: "initials name \<noteq> []"
proof (cases "words (trim name)")
  case Nil
  then show ?thesis by (simp add: initials_def)
next
  case (Cons p ps)
  then have "p \<noteq> []" using words_nonempty [of p "trim name"] by simp
  then obtain c cs where p: "p = c # cs" by (cases p) simp_all
  have "toUpperCase (c # xs) \<noteq> []" for xs by (simp add: toUpperCase_def upper_char_ne)
  then show ?thesis unfolding initials_def Cons p by (cases ps) (simp_all add: numeral_2_eq_2)
qed

text \<open>The heading of a section: an eyebrow, one or two lines and a paragraph.\<close>

record SectionHeaderView =
  sh_eyebrow :: "(string \<times> bool) option"
  sh_heading :: "string \<times> string list"
  sh_paragraph :: "string option"

definition nonempty :: "string option \<Rightarrow> string option" where
  "nonempty s = (if truthy s then s else None)"

definition SectionHeader ::
  "string option \<Rightarrow> bool \<Rightarrow> string \<Rightarrow> string option \<Rightarrow> string option \<Rightarrow> string option \<Rightarrow> SectionHeaderView" where
  "SectionHeader eyebrow eyebrowPill line1 line2 paragraph heading =
     \<lparr>sh_eyebrow = map_option (\<lambda>e. (e, eyebrowPill)) (nonempty eyebrow),
      sh_heading = (orElse heading ''h2'', line1 # (case nonempty line2 of None \<Rightarrow> [] | Some l \<Rightarrow> [l])),
      sh_paragraph = nonempty paragraph\<rparr>"

definition TriggerPreviewCard ::
  "string option \<Rightarrow> string \<Rightarrow> string option \<Rightarrow> string option \<Rightarrow> string \<times> string \<times> string option \<times> string" where
  "TriggerPreviewCard whenLabel condition0 variable actionLabel =
     (orElse whenLabel ''When'', condition0, nonempty variable, orElse actionLabel ''+ Add Action'')"

text \<open>The bar: the two labels, and the value and width of its filled part.\<close>

datatype BarView = BarUnavailable | Bar string string string

definition ProbabilityBar :: "jsnum option \<Rightarrow> BarView" where
  "ProbabilityBar probability =
     (case probabilityPair probability of
        None \<Rightarrow> BarUnavailable
      | Some (yesPct, noPct) \<Rightarrow>
          Bar (''YES '' @ round_str yesPct @ ''%'') (''NO '' @ round_str noPct @ ''%'') (round_str yesPct @ ''%''))"

lemma ProbabilityBar_adds_up:
  assumes "unit_num x"
  shows "\<exists>k. ProbabilityBar (Some x) =
      Bar (''YES '' @ show_int k @ ''%'') (''NO '' @ show_int (100 - k) @ ''%'') (show_int k @ ''%'') \<and> 0 \<le> k \<and> k \<le> 100"
proof -
  obtain k where k: "probabilityPair (Some x) = Some (Fin (of_int k), Fin (of_int (100 - k)))" "0 \<le> k" "k \<le> 100"
    using probabilityPair_complement [OF assms] by blast
  have "ProbabilityBar (Some x) = Bar (''YES '' @ show_int k @ ''%'') (''NO '' @ show_int (100 - k) @ ''%'') (show_int k @ ''%'')"
    unfolding ProbabilityBar_def k(1) by (simp only: option.case prod.case round_str.simps floor_of_int)
  with k(2,3) show ?thesis by blast
qed

text \<open>One segment of the toggle: whether it is checked, and its label.\<close>

definition ModeButton :: "bool \<Rightarrow> string \<Rightarrow> bool \<times> string" where
  "ModeButton active label = (active, label)"

subsection \<open>vite.config.ts\<close>

text \<open>
  The script that a development server injects into the page: only in e2e mode, when the wallet file exists and
  its \<open>secretKey\<close> is a non-empty array (\<open>Inl\<close> for what is not one).  Reading or parsing may throw.
\<close>

definition injectE2eWallet ::
  "string option \<Rightarrow> bool \<Rightarrow> ('j + int list) res \<Rightarrow> (int list \<Rightarrow> string) \<Rightarrow> string list option res" where
  "injectE2eWallet viteE2e fileExists secretKey stringify =
     (if viteE2e \<noteq> Some ''1'' then Inr None
      else if \<not> fileExists then Inr None
      else bindR secretKey (\<lambda>k.
        case k of
          Inl _ \<Rightarrow> Inr None
        | Inr ns \<Rightarrow>
            if ns = [] then Inr None
            else Inr (Some [''window.__E2E_WALLET_SECRET__ = '' @ stringify ns @ '';''])))"

definition proxyTarget :: "string option \<Rightarrow> string option \<Rightarrow> string" where
  "proxyTarget INDEXER_URL VITE_INDEXER_URL = orElse INDEXER_URL (orElse VITE_INDEXER_URL ''http://127.0.0.1:3111'')"

text \<open>The path that the development proxy asks the indexer for; \<open>None\<close> is served by the server itself.\<close>

definition rewriteRpc :: "string \<Rightarrow> string" where
  "rewriteRpc path = (if starts_with ''/indexer/rpc'' path then ''/rpc'' @ drop 12 path else path)"

definition proxyPath :: "string \<Rightarrow> string option" where
  "proxyPath path =
     (if starts_with ''/api'' path then Some path
      else if starts_with ''/indexer/rpc'' path then Some (rewriteRpc path)
      else None)"

definition includes_any :: "string \<Rightarrow> string list \<Rightarrow> bool" where
  "includes_any s keys \<longleftrightarrow> (\<exists>k\<in>set keys. str_includes s k)"

definition manualChunks :: "string \<Rightarrow> string option" where
  "manualChunks path =
     (if includes_any path [''@kassandra-market/markets'', ''/sdks/markets/ts/dist/''] then Some ''sdk''
      else if includes_any path
        [''@solana/'', ''node_modules/ox/'', ''node_modules/@noble/'', ''node_modules/@solana-mobile/'',
         ''node_modules/@wallet-standard/'', ''node_modules/jayson/'', ''node_modules/rpc-websockets/'']
      then Some ''solana''
      else if includes_any path
        [''node_modules/react/'', ''node_modules/react-dom/'', ''node_modules/react-router-dom/'',
         ''node_modules/react-router/'', ''node_modules/scheduler/'']
      then Some ''react-vendor''
      else None)"

lemma proxy_gateway: "proxyPath (GATEWAY_PATH @ rest) = Some (''/rpc'' @ rest)"
  by (simp add: proxyPath_def GATEWAY_PATH_def rewriteRpc_def)

lemma inject_guarded:
  "injectE2eWallet env fileExists key stringify = Inr (Some tags) \<Longrightarrow> env = Some ''1'' \<and> fileExists"
  by (auto simp: injectE2eWallet_def split: if_splits)

end
