(* ===== verification/WriteHook.thy ===== *)
theory WriteHook
  imports Platform
begin

text \<open>
  What the forms hold of a write (\<open>market/hooks/useWriteAction.ts\<close>): the value of the hook over its status and
  the wallet, its run and its reset; and the signing wallet of the market package's e2e mode
  (\<open>market/lib/e2eWallet.tsx\<close>), which can drive such a write but never sends by itself.
\<close>

subsection \<open>useWriteAction.ts\<close>

record WriteAction =
  wa_status :: WriteStatus
  wa_busy :: bool
  wa_address :: "string option"
  wa_connected :: bool

definition useWriteAction :: "web3 \<Rightarrow> Wallet \<Rightarrow> WriteStatus \<Rightarrow> WriteAction" where
  "useWriteAction W w status =
     \<lparr>wa_status = status, wa_busy = isBusy status, wa_address = map_option (toBase58 W) (w_publicKey w),
      wa_connected = w_connected w\<rparr>"

text \<open>Mounting, a run (\<open>writeRun\<close> gives its final status) and a reset.\<close>

datatype WriteEvent =
    RunWrite "instruction list res" "(string \<Rightarrow> unit res) option"
  | ResetWrite

definition initialWrite :: WriteStatus where
  "initialWrite = WIdle"

fun writeEvent ::
  "web3 \<Rightarrow> IndexerReads \<Rightarrow> (nat \<Rightarrow> nat) \<Rightarrow> Wallet \<Rightarrow> WriteEvent \<Rightarrow> WriteStatus \<Rightarrow> WriteStatus" where
  "writeEvent W indexer lag w (RunWrite build onSuccess) status = snd (writeRun W indexer lag w status build onSuccess)"
| "writeEvent W indexer lag w ResetWrite status = WIdle"

text \<open>
  Between two runs the hook is never busy, so every run that the user starts takes place; and without a
  wallet that can sign, it ends at once with the request to connect one.
\<close>

lemma write_never_stuck:
  "\<not> wa_busy (useWriteAction W w' (fold (writeEvent W indexer lag w) es initialWrite))"
proof -
  have "\<not> isBusy status \<Longrightarrow> \<not> isBusy (fold (writeEvent W indexer lag w) es status)" for status
  proof (induction es arbitrary: status)
    case (Cons e es)
    then show ?case by (cases e) (simp_all add: writeRun_idle, simp add: isBusy_def)
  qed simp
  then show ?thesis by (simp add: useWriteAction_def initialWrite_def isBusy_def)
qed

lemma write_unsigned:
  assumes "\<not> w_connected w \<or> w_publicKey w = None \<or> w_signTransaction w = None"
  shows "writeEvent W indexer lag w (RunWrite build f) (fold (writeEvent W indexer lag w) es initialWrite) =
    WError ''Connect a wallet to participate.'' None"
proof -
  have "\<not> isBusy (fold (writeEvent W indexer lag w) es initialWrite)"
    using write_never_stuck [of W w indexer lag w es] by (simp add: useWriteAction_def)
  from writeRun_no_wallet [OF this assms] show ?thesis by simp
qed

subsection \<open>market/lib/e2eWallet.tsx\<close>

record E2eValue =
  ev_wallet :: Wallet
  ev_sendTransaction :: "Transaction \<Rightarrow> string res"

definition marketE2eMount :: "'k KeypairLib \<Rightarrow> Env \<Rightarrow> 'k E2eCell" where
  "marketE2eMount K E =
     (case marketE2eSecret E of
        None \<Rightarrow> \<lparr>ek_keypair = None, ek_pending = None, ek_cancelled = False\<rparr>
      | Some secret \<Rightarrow>
          \<lparr>ek_keypair = None,
           ek_pending = (if secret = [] then None else Some (kl_fromSecretKey K (map word_of_int secret))),
           ek_cancelled = False\<rparr>)"

definition marketE2eSign :: "'k KeypairLib \<Rightarrow> 'k option \<Rightarrow> SignTransaction" where
  "marketE2eSign K keypair tx =
     (case keypair of None \<Rightarrow> Inl (Error ''e2e wallet not ready'') | Some kp \<Rightarrow> kl_sign K kp tx)"

definition marketE2eSignAll :: "'k KeypairLib \<Rightarrow> 'k option \<Rightarrow> Transaction list \<Rightarrow> bytes list res" where
  "marketE2eSignAll K keypair txs =
     (case keypair of
        None \<Rightarrow> Inl (Error ''e2e wallet not ready'')
      | Some kp \<Rightarrow> seqR (map (kl_sign K kp) txs))"

definition marketE2eProvider :: "'k KeypairLib \<Rightarrow> 'k E2eCell \<Rightarrow> E2eValue" where
  "marketE2eProvider K c =
     \<lparr>ev_wallet =
        \<lparr>w_connected = (ek_keypair c \<noteq> None), w_publicKey = map_option (kl_publicKey K) (ek_keypair c),
         w_signTransaction = Some (marketE2eSign K (ek_keypair c)),
         w_signAllTransactions = Some (marketE2eSignAll K (ek_keypair c))\<rparr>,
      ev_sendTransaction =
        (\<lambda>tx. Inl (Error ''e2e wallet: use signTransaction + indexer relay, not sendTransaction''))\<rparr>"

text \<open>Up to the sending it is the e2e wallet of the application, without a key that was built in.\<close>

lemma market_e2e_same:
  "ev_wallet (marketE2eProvider K c) = E2eWalletProvider K c"
  "marketE2eMount K E = e2eEffect K (marketE2eSecret E)"
proof -
  have "marketE2eSign K k = e2eSign K k" "marketE2eSignAll K k = e2eSignAll K k" for k
    by (auto simp: marketE2eSign_def e2eSign_def marketE2eSignAll_def e2eSignAll_def)
  then show "ev_wallet (marketE2eProvider K c) = E2eWalletProvider K c"
    by (simp add: marketE2eProvider_def E2eWalletProvider_def)
  show "marketE2eMount K E = e2eEffect K (marketE2eSecret E)"
    by (simp add: marketE2eMount_def e2eEffect_def split: option.split)
qed

text \<open>A write through it goes by signing and the relay, as soon as the key has been read.\<close>

lemma market_e2e_writes:
  "wa_connected (useWriteAction W (ev_wallet (marketE2eProvider K c)) status) \<longleftrightarrow> ek_keypair c \<noteq> None"
  "wa_address (useWriteAction W (ev_wallet (marketE2eProvider K c)) status) =
     map_option (toBase58 W \<circ> kl_publicKey K) (ek_keypair c)"
  "walletSender indexer (ev_wallet (marketE2eProvider K c)) =
     map_option (\<lambda>kp. signAndRelay indexer (kl_publicKey K kp) (kl_sign K kp)) (ek_keypair c)"
proof -
  have s: "marketE2eSign K (Some kp) = kl_sign K kp" for kp by (rule ext) (simp add: marketE2eSign_def)
  show "wa_connected (useWriteAction W (ev_wallet (marketE2eProvider K c)) status) \<longleftrightarrow> ek_keypair c \<noteq> None"
    by (simp add: useWriteAction_def marketE2eProvider_def)
  show "wa_address (useWriteAction W (ev_wallet (marketE2eProvider K c)) status) =
     map_option (toBase58 W \<circ> kl_publicKey K) (ek_keypair c)"
    by (simp add: useWriteAction_def marketE2eProvider_def option.map_comp)
  show "walletSender indexer (ev_wallet (marketE2eProvider K c)) =
     map_option (\<lambda>kp. signAndRelay indexer (kl_publicKey K kp) (kl_sign K kp)) (ek_keypair c)"
    by (cases "ek_keypair c") (simp_all add: marketE2eProvider_def walletSender_def s)
qed

end
