(* ===== verification/Refresh.thy ===== *)
theory Refresh
  imports GroupPanel
begin

text \<open>
  What a confirmed write fetches again: the \<open>onSuccess\<close> of every component that writes, composed with the
  one its parent hands down.  The market page keeps two copies of its market, its own detail and the list
  from which the group is cut; \<open>page_write_refetches\<close> says which writes renew which, and
  \<open>stale_group\<close> what becomes of the copy that is not renewed.
\<close>

subsection \<open>The fetched cells and the handlers\<close>

text \<open>
  The page's detail (\<open>useMarketDetail\<close>), the list of all markets (\<open>useMarkets\<close>, also behind
  \<open>useOracleGroup\<close>), and the balances that the writing component itself holds (\<open>useSolBalance\<close> of the base
  mint and of the two outcome mints).
\<close>

datatype Fetched = PageDetail | MarketList | BaseBalance | YesBalance | NoBalance

definition tradeOnSuccess :: "Fetched list \<Rightarrow> Fetched list" where
  "tradeOnSuccess parent = [BaseBalance, YesBalance, NoBalance] @ parent"

definition groupTradeOnSuccess :: "Fetched list \<Rightarrow> Fetched list" where
  "groupTradeOnSuccess page = tradeOnSuccess (page @ [MarketList])"

definition addLiquidityOnSuccess :: "Fetched list \<Rightarrow> Fetched list" where
  "addLiquidityOnSuccess parent = BaseBalance # parent"

definition contributeOnSuccess :: "Fetched list \<Rightarrow> Fetched list" where
  "contributeOnSuccess parent = BaseBalance # parent"

definition redeemOnSuccess :: "Fetched list \<Rightarrow> Fetched list" where
  "redeemOnSuccess parent = [YesBalance, NoBalance] @ parent"

definition groupLiquidityOnSuccess :: "Fetched list \<Rightarrow> Fetched list" where
  "groupLiquidityOnSuccess parent = [BaseBalance, MarketList] @ parent"

definition fundGroupOnSuccess :: "Fetched list \<Rightarrow> Fetched list" where
  "fundGroupOnSuccess parent = BaseBalance # parent"

text \<open>The page hands its own \<open>refetchAfterWrite\<close> down; the list page hands down that of the list.\<close>

definition pageRefetch :: "Fetched list" where
  "pageRefetch = [PageDetail]"

definition listRefetch :: "Fetched list" where
  "listRefetch = [MarketList]"

text \<open>The controls of the market page: those of the two action panels, the group panel and the ticket.\<close>

datatype PageWrite = PanelWrite Control | GroupLiquidityWrite | TradeWrite

definition liquidityTabsOnSuccess :: "Control \<Rightarrow> Fetched list \<Rightarrow> Fetched list" where
  "liquidityTabsOnSuccess c renew = (if c = AAddLiquidity then addLiquidityOnSuccess renew else renew)"

fun panelOnSuccess :: "Control \<Rightarrow> Fetched list \<Rightarrow> Fetched list" where
  "panelOnSuccess AContribute renew = contributeOnSuccess renew"
| "panelOnSuccess AAddLiquidity renew = liquidityTabsOnSuccess AAddLiquidity renew"
| "panelOnSuccess ARedeem renew = redeemOnSuccess renew"
| "panelOnSuccess c renew = renew"

fun pageOnSuccess :: "PageWrite \<Rightarrow> Fetched list" where
  "pageOnSuccess (PanelWrite c) = panelOnSuccess c pageRefetch"
| "pageOnSuccess GroupLiquidityWrite = groupLiquidityOnSuccess pageRefetch"
| "pageOnSuccess TradeWrite = groupTradeOnSuccess pageRefetch"

text \<open>The cards of the list page.\<close>

datatype CardWrite = StakeWrite | LaunchWrite | FundGroupWrite

fun cardOnSuccess :: "CardWrite \<Rightarrow> Fetched list" where
  "cardOnSuccess FundGroupWrite = fundGroupOnSuccess listRefetch"
| "cardOnSuccess _ = listRefetch"

text \<open>Creating a market: the balance, and the page to go to.\<close>

definition createOnSuccess :: "string option \<Rightarrow> Fetched list \<times> string option" where
  "createOnSuccess built = ([BaseBalance], map_option (\<lambda>m. ''/markets/'' @ m) built)"

definition createBatchOnSuccess :: "Fetched list \<times> string option" where
  "createBatchOnSuccess = ([BaseBalance], Some ''/markets'')"

subsection \<open>Which copies a write renews\<close>

text \<open>
  Every write of the page renews the page's detail, and a write that spends base tokens renews their balance;
  but only a trade and the group panel renew the list.
\<close>

lemma page_write_refetches:
  "PageDetail \<in> set (pageOnSuccess w)"
  "MarketList \<in> set (pageOnSuccess w) \<longleftrightarrow> w = TradeWrite \<or> w = GroupLiquidityWrite"
  "w \<in> {PanelWrite AContribute, PanelWrite AAddLiquidity, GroupLiquidityWrite, TradeWrite} \<Longrightarrow>
     BaseBalance \<in> set (pageOnSuccess w)"
  by (cases w; cases "case w of PanelWrite c \<Rightarrow> c";
      auto simp: pageRefetch_def groupLiquidityOnSuccess_def groupTradeOnSuccess_def tradeOnSuccess_def
        contributeOnSuccess_def addLiquidityOnSuccess_def liquidityTabsOnSuccess_def redeemOnSuccess_def)+

lemma card_write_refetches: "MarketList \<in> set (cardOnSuccess w)"
  by (cases w) (simp_all add: listRefetch_def fundGroupOnSuccess_def)

text \<open>
  The page after a write: each copy is what it was, or what the chain now holds, as the write's handler renews
  it.  The detail and the list are the market's copies in the two.
\<close>

record MarketCopies =
  mc_detail :: Market
  mc_list :: "MarketSummary list"

definition afterPageWrite :: "PageWrite \<Rightarrow> Market \<Rightarrow> MarketSummary list \<Rightarrow> MarketCopies \<Rightarrow> MarketCopies" where
  "afterPageWrite w detail markets s =
     \<lparr>mc_detail = (if PageDetail \<in> set (pageOnSuccess w) then detail else mc_detail s),
      mc_list = (if MarketList \<in> set (pageOnSuccess w) then markets else mc_list s)\<rparr>"

text \<open>
  A funded outcome of a group is activated on its own page.  The page then shows it as active, while the
  group still counts it among the outcomes that raise funds; the next group deposit sends its share as a
  contribution, which the program refuses for an active market.
\<close>

lemma routeShares_funding:
  assumes "p \<in> set ps" and "isFunding (fst p)"
  shows "contributeEntry p \<in> set (fst (routeShares ps))"
  using assms by (auto simp: routeShares_eq)

theorem stale_group:
  fixes W :: web3 and s :: MarketCopies and live :: Market and markets :: "MarketSummary list" and orc :: string
  defines "s' \<equiv> afterPageWrite (PanelWrite AActivate) live markets s"
  defines "g \<equiv> useOracleGroup W (Some (mc_list s')) orc"
  assumes m: "m \<in> set (mc_list s)" "isFunding m" "toBase58 W (mk_oracle (ms_market m)) = orc"
    and live: "mk_status live = status_code Active"
    and share: "(m, share) \<in> set (zip (og_depositable g) shares)"
  shows "mk_status (mc_detail s') = status_code Active \<and> m \<in> set (og_funding g) \<and>
    contributeEntry (m, share) \<in> set (fst (routeShares (zip (og_depositable g) shares))) \<and>
    \<not> admits AContribute live terminal"
proof -
  have l: "mc_list s' = mc_list s" and d: "mc_detail s' = live"
    unfolding s'_def afterPageWrite_def by (simp_all add: pageRefetch_def)
  have "m \<in> set (og_funding g)"
    using m unfolding g_def l by (simp add: useOracleGroup_def Let_def isFunding_def)
  moreover have "contributeEntry (m, share) \<in> set (fst (routeShares (zip (og_depositable g) shares)))"
    using share m(2) by (intro routeShares_funding) simp_all
  ultimately show ?thesis using live unfolding d by simp
qed

end
