(* ===== verification/LocalStack.thy ===== *)
theory LocalStack
  imports Constants
begin

text \<open>
  The local development stack, \<open>sdks/markets/ts/scripts/local-stack.mts\<close>: the paths it computes, the wait
  for the indexer's health, the demo data it seeds, and its life as an event machine over the two
  processes it starts.  The harness (\<open>MarketSurfpoolHarness\<close>, a test helper) is represented by the
  success or failure of each of its calls.

  \<open>stack_cleans_up\<close> shows that a stack that booted never exits with a process left running, whatever the
  order of signals, failures and exits; \<open>boot_orphans\<close> shows the one path that does.
\<close>

subsection \<open>Paths\<close>

text \<open>\<open>resolve\<close> of node's path module, on the segments of an absolute and of a relative path.\<close>

type_synonym path = "string list"

fun resolvePath :: "path \<Rightarrow> string list \<Rightarrow> path" where
  "resolvePath p [] = p"
| "resolvePath p (s # ss) =
     resolvePath (if s = ''..'' then butlast p else if s = ''.'' \<or> s = [] then p else p @ [s]) ss"

definition REPO_ROOT :: "path \<Rightarrow> path" where
  "REPO_ROOT here = resolvePath here [''..'', ''..'']"

definition INDEXER_BIN :: "path \<Rightarrow> path" where
  "INDEXER_BIN here = resolvePath (REPO_ROOT here) [''target'', ''debug'', ''kassandra-market-indexer'']"

definition WALLET_FILE :: "path \<Rightarrow> path" where
  "WALLET_FILE here = resolvePath here [''..'', ''.local'', ''wallet.json'']"

lemma resolvePath_plain:
  "\<forall>s\<in>set ss. s \<notin> {''..'', ''.'', []} \<Longrightarrow> resolvePath p ss = p @ ss"
  by (induction ss arbitrary: p) auto

text \<open>
  Where the script lies in the repository, its root is taken to be \<open>sdks/markets\<close>, while cargo writes the
  binary to \<open>target\<close> of the workspace: the path that the script checks is not the one that is built.
\<close>

lemma indexer_bin_path:
  "INDEXER_BIN (repo @ [''sdks'', ''markets'', ''ts'', ''scripts'']) =
     repo @ [''sdks'', ''markets'', ''target'', ''debug'', ''kassandra-market-indexer'']"
  by (simp add: INDEXER_BIN_def REPO_ROOT_def butlast_append)

lemma indexer_bin_misses_build:
  "INDEXER_BIN (repo @ [''sdks'', ''markets'', ''ts'', ''scripts''])
     \<noteq> repo @ [''target'', b, ''kassandra-market-indexer'']"
  by (simp add: indexer_bin_path)

subsection \<open>The settings\<close>

text \<open>The ports: the number that the environment variable reads as, when it is set.\<close>

definition RPC_PORT :: "int option \<Rightarrow> int" where
  "RPC_PORT env = (case env of None \<Rightarrow> 8899 | Some p \<Rightarrow> p)"

definition INDEXER_PORT :: "int option \<Rightarrow> int" where
  "INDEXER_PORT env = (case env of None \<Rightarrow> 10000 | Some p \<Rightarrow> p)"

definition RECONCILE_MS :: int where
  "RECONCILE_MS = 500"

definition STACK_MIN_LIQ :: int where
  "STACK_MIN_LIQ = 1000000000"

definition BELOW_FLOOR :: int where
  "BELOW_FLOOR = 600000000"

definition WALLET_KASS :: int where
  "WALLET_KASS = 10 ^ 15"

subsection \<open>startIndexer and waitForHealth\<close>

text \<open>What the child process gets on top of the environment of the script.\<close>

record IndexerChild =
  ic_bin :: path
  ic_rpcUrl :: string
  ic_wsPort :: int
  ic_port :: int
  ic_reconcileMs :: int
  ic_rustLog :: string

definition startIndexer ::
  "(path \<Rightarrow> bool) \<Rightarrow> path \<Rightarrow> int \<Rightarrow> int \<Rightarrow> string option \<Rightarrow> string \<Rightarrow> string + IndexerChild" where
  "startIndexer existsSync here rpcPort port rustLog rpcUrl =
     (if \<not> existsSync (INDEXER_BIN here)
      then Inl (''Missing '' @ concat (map (\<lambda>s. ''/'' @ s) (INDEXER_BIN here)) @ ''. Run `make build-indexer` first.'')
      else Inr \<lparr>ic_bin = INDEXER_BIN here, ic_rpcUrl = rpcUrl, ic_wsPort = rpcPort + 1, ic_port = port,
                ic_reconcileMs = RECONCILE_MS,
                ic_rustLog = (case rustLog of None \<Rightarrow> ''info'' | Some l \<Rightarrow> l)\<rparr>)"

text \<open>
  The \<open>n\<close>-th request answers after \<open>lat n\<close> ms, with a success or not (a refused connection is not); the
  next one follows 250 ms later.  \<open>t\<close> is the time since the start.
\<close>

function waitForHealth :: "(nat \<Rightarrow> nat) \<Rightarrow> (nat \<Rightarrow> bool) \<Rightarrow> nat \<Rightarrow> nat \<Rightarrow> string + unit" where
  "waitForHealth lat ok n t =
     (if t < 30000
      then if ok n then Inr () else waitForHealth lat ok (Suc n) (t + lat n + 250)
      else Inl ''indexer /health never came up'')"
  by auto
termination by (relation "measure (\<lambda>(_, _, _, t). 30000 - t)") auto

declare waitForHealth.simps [simp del]

text \<open>The time at which request \<open>n + k\<close> starts, when request \<open>n\<close> starts at \<open>t\<close>.\<close>

fun askedAt :: "(nat \<Rightarrow> nat) \<Rightarrow> nat \<Rightarrow> nat \<Rightarrow> nat \<Rightarrow> nat" where
  "askedAt lat n t 0 = t"
| "askedAt lat n t (Suc k) = askedAt lat (Suc n) (t + lat n + 250) k"

lemma askedAt_mono: "t \<le> askedAt lat n t k"
proof (induction k arbitrary: n t)
  case (Suc k)
  have "t \<le> t + lat n + 250" by simp
  also have "\<dots> \<le> askedAt lat (Suc n) (t + lat n + 250) k" by (rule Suc)
  finally show ?case by simp
qed simp

lemma waitForHealth_iff:
  "waitForHealth lat ok n t = Inr () \<longleftrightarrow> (\<exists>k. ok (n + k) \<and> askedAt lat n t k < 30000)"
proof (induction lat ok n t rule: waitForHealth.induct)
  case (1 lat ok n t)
  show ?case
  proof (cases "t < 30000 \<and> \<not> ok n")
    case True
    then have "waitForHealth lat ok n t = waitForHealth lat ok (Suc n) (t + lat n + 250)"
      by (simp add: waitForHealth.simps [of lat ok n t])
    also have "\<dots> = Inr () \<longleftrightarrow> (\<exists>k. ok (Suc n + k) \<and> askedAt lat (Suc n) (t + lat n + 250) k < 30000)"
      using True by (intro 1) simp_all
    also have "\<dots> \<longleftrightarrow> (\<exists>k. ok (n + k) \<and> askedAt lat n t k < 30000)"
      using True by (metis add_0_right add_Suc add_Suc_right askedAt.simps(2) not0_implies_Suc)
    finally show ?thesis .
  next
    case False
    have "t < 30000" if "askedAt lat n t k < 30000" for k using that askedAt_mono [of t lat n k] by simp
    with False show ?thesis by (auto simp: waitForHealth.simps [of lat ok n t] intro!: exI [of _ 0])
  qed
qed

subsection \<open>The demo data\<close>

text \<open>
  The steps of \<open>seedAndBlock\<close> after the health check, each an awaited call that may throw.  The oracles
  are numbered in the order in which they are seeded; all of them are \<open>Phase.Proposal\<close> (open).
\<close>

datatype SeedStep =
    GenerateWallet
  | Airdrop int
  | SetUpgradeAuthority
  | CreateMint nat
  | FundTokenAccount int
  | CreateFeeAccount int
  | InitConfigTx int int
  | DeriveWalletAta
  | SeedOracle nat
  | CreateMarketTx nat nat int
  | MakeWalletDir
  | WriteWalletFile

definition seedMarket :: "nat \<Rightarrow> nat \<Rightarrow> int \<Rightarrow> SeedStep" where
  "seedMarket = CreateMarketTx"

definition seedSteps :: "SeedStep list" where
  "seedSteps =
     [GenerateWallet, Airdrop 50000000000, SetUpgradeAuthority,
      CreateMint 9, FundTokenAccount WALLET_KASS, CreateFeeAccount 0,
      InitConfigTx STACK_MIN_LIQ 100, DeriveWalletAta,
      SeedOracle 2, seedMarket 0 0 BELOW_FLOOR,
      SeedOracle 2, seedMarket 1 0 STACK_MIN_LIQ,
      SeedOracle 3] @ map (\<lambda>i. seedMarket 2 i BELOW_FLOOR) [0..<3] @
     [MakeWalletDir, WriteWalletFile]"

text \<open>
  Each market is created on an oracle that was seeded before, for an outcome that the oracle has, and no two
  markets share oracle and outcome; all that the markets take from the wallet was put there before.
\<close>

fun oraclesOf :: "SeedStep list \<Rightarrow> nat list" where
  "oraclesOf [] = []"
| "oraclesOf (SeedOracle k # ss) = k # oraclesOf ss"
| "oraclesOf (_ # ss) = oraclesOf ss"

fun marketsOf :: "SeedStep list \<Rightarrow> (nat \<times> nat) list" where
  "marketsOf [] = []"
| "marketsOf (CreateMarketTx o' i a # ss) = (o', i) # marketsOf ss"
| "marketsOf (_ # ss) = marketsOf ss"

fun stepOk :: "SeedStep list \<Rightarrow> SeedStep \<Rightarrow> bool" where
  "stepOk before (CreateMarketTx o' i a) \<longleftrightarrow>
     o' < length (oraclesOf before) \<and> i < oraclesOf before ! o' \<and>
     (o', i) \<notin> set (marketsOf before) \<and> InitConfigTx STACK_MIN_LIQ 100 \<in> set before \<and> 0 < a"
| "stepOk before (InitConfigTx _ _) \<longleftrightarrow> SetUpgradeAuthority \<in> set before"
| "stepOk before _ \<longleftrightarrow> True"

lemma seedSteps_ok:
  "list_all (\<lambda>i. stepOk (take i seedSteps) (seedSteps ! i)) [0..<length seedSteps]"
  by code_simp

lemma seed_amounts:
  "BELOW_FLOOR < STACK_MIN_LIQ \<and> BELOW_FLOOR + STACK_MIN_LIQ + 3 * BELOW_FLOOR \<le> WALLET_KASS"
  by code_simp

subsection \<open>The life of the stack\<close>

text \<open>
  \<open>sk_teardown\<close> is the code of the teardown that runs, \<open>sk_steps\<close> the seeding that is left (\<open>None\<close> once it
  has failed), \<open>sk_health\<close> whether the health check is still awaited.
\<close>

record Stack =
  sk_surfpool :: bool
  sk_indexer :: bool
  sk_teardown :: "int option"
  sk_health :: bool
  sk_steps :: "SeedStep list option"
  sk_seeded :: "SeedStep list"
  sk_exit :: "int option"

definition teardown :: "int \<Rightarrow> Stack \<Rightarrow> Stack" where
  "teardown code s =
     (if sk_teardown s \<noteq> None then s
      else s\<lparr>sk_teardown := Some code, sk_indexer := False\<rparr>)"

text \<open>
  What happens to it: the health check or the next step of the seeding settles, a signal arrives, the indexer
  exits on its own, or the harness has been torn down.  After its exit nothing reaches the script any more.
\<close>

datatype StackEvent = HealthSettles "string + unit" | StepSettles bool | Signal | IndexerExits | HarnessDown

definition seedFails :: "Stack \<Rightarrow> Stack" where
  "seedFails s = teardown 1 (s\<lparr>sk_steps := None\<rparr>)"

fun stackStep :: "StackEvent \<Rightarrow> Stack \<Rightarrow> Stack" where
  "stackStep (HealthSettles r) s =
     (if sk_health s then (case r of Inr _ \<Rightarrow> s\<lparr>sk_health := False\<rparr> | Inl _ \<Rightarrow> seedFails (s\<lparr>sk_health := False\<rparr>))
      else s)"
| "stackStep (StepSettles good) s =
     (if sk_health s then s
      else case sk_steps s of
        Some (x # xs) \<Rightarrow> if good then s\<lparr>sk_steps := Some xs, sk_seeded := sk_seeded s @ [x]\<rparr> else seedFails s
      | _ \<Rightarrow> s)"
| "stackStep Signal s = teardown 0 s"
| "stackStep IndexerExits s = (if sk_indexer s then teardown 1 (s\<lparr>sk_indexer := False\<rparr>) else s)"
| "stackStep HarnessDown s =
     (case sk_teardown s of None \<Rightarrow> s | Some code \<Rightarrow> s\<lparr>sk_surfpool := False, sk_exit := Some code\<rparr>)"

definition stackEvent :: "StackEvent \<Rightarrow> Stack \<Rightarrow> Stack" where
  "stackEvent e s = (if sk_exit s = None then stackStep e s else s)"

text \<open>
  Up to the end of \<open>startIndexer\<close> nothing handles a failure but the last line of the script, which exits with
  1.  A harness that fails to start has taken its own process down.
\<close>

definition bootStack :: "bool \<Rightarrow> string + IndexerChild \<Rightarrow> Stack" where
  "bootStack harnessStarts indexer =
     \<lparr>sk_surfpool = harnessStarts,
      sk_indexer = (harnessStarts \<and> (case indexer of Inl _ \<Rightarrow> False | Inr _ \<Rightarrow> True)),
      sk_teardown = None, sk_health = True, sk_steps = Some seedSteps, sk_seeded = [],
      sk_exit = (if harnessStarts \<and> (case indexer of Inl _ \<Rightarrow> False | Inr _ \<Rightarrow> True) then None else Some 1)\<rparr>"

definition runStack :: "bool \<Rightarrow> string + IndexerChild \<Rightarrow> StackEvent list \<Rightarrow> Stack" where
  "runStack harnessStarts indexer es = fold stackEvent es (bootStack harnessStarts indexer)"

definition stackInv :: "Stack \<Rightarrow> bool" where
  "stackInv s \<longleftrightarrow>
     (sk_exit s \<noteq> None \<longrightarrow> \<not> sk_surfpool s \<and> sk_exit s = sk_teardown s) \<and>
     (sk_teardown s \<noteq> None \<longrightarrow> \<not> sk_indexer s) \<and>
     (sk_exit s = None \<longrightarrow> sk_surfpool s) \<and>
     (sk_teardown s = None \<longrightarrow> sk_indexer s \<and> sk_steps s \<noteq> None) \<and>
     (case sk_steps s of Some xs \<Rightarrow> sk_seeded s @ xs = seedSteps | None \<Rightarrow> True) \<and>
     (\<exists>xs. sk_seeded s @ xs = seedSteps) \<and> (sk_health s \<longrightarrow> sk_seeded s = [])"

lemma stackEvent_inv: "stackInv s \<Longrightarrow> stackInv (stackEvent e s)"
  by (cases e; cases "sk_teardown s"; cases "sk_steps s"; cases "sk_exit s")
    (auto simp: stackInv_def stackEvent_def teardown_def seedFails_def split: list.splits sum.splits)

lemma runStack_inv:
  "stackInv (runStack True (Inr c) es)"
proof -
  have "stackInv s \<Longrightarrow> stackInv (fold stackEvent es s)" for s
    by (induction es arbitrary: s) (simp_all add: stackEvent_inv)
  moreover have "stackInv (bootStack True (Inr c))" by (simp add: stackInv_def bootStack_def)
  ultimately show ?thesis by (simp add: runStack_def)
qed

text \<open>The first cause of the teardown decides the code; a later one changes nothing.\<close>

lemma teardown_once: "sk_teardown s = Some c \<Longrightarrow> sk_teardown (stackEvent e s) = Some c"
  by (cases e) (auto simp: stackEvent_def teardown_def seedFails_def split: list.splits sum.splits option.splits)

theorem stack_cleans_up:
  fixes es :: "StackEvent list" and c :: IndexerChild
  defines "s \<equiv> runStack True (Inr c) es"
  shows "(sk_exit s = None \<longrightarrow> sk_surfpool s) \<and>
    (sk_exit s \<noteq> None \<longrightarrow> \<not> sk_surfpool s \<and> \<not> sk_indexer s) \<and>
    (sk_teardown s \<noteq> None \<longrightarrow> (\<exists>code. sk_exit (stackEvent HarnessDown s) = Some code)) \<and>
    (\<exists>left. sk_seeded s @ left = seedSteps)"
  using runStack_inv [of c es] unfolding s_def [symmetric]
  by (cases "sk_exit s"; cases "sk_teardown s") (auto simp: stackInv_def stackEvent_def)

text \<open>
  The one path that leaves a process behind: the binary is missing, the harness has already started its node,
  and the script exits without a teardown.
\<close>

lemma boot_orphans:
  assumes "\<not> existsSync (INDEXER_BIN here)"
  shows "sk_exit (runStack True (startIndexer existsSync here rpcPort port rustLog rpcUrl) es) = Some 1 \<and>
    sk_surfpool (runStack True (startIndexer existsSync here rpcPort port rustLog rpcUrl) es)"
proof -
  have "sk_exit s = Some 1 \<Longrightarrow> fold stackEvent es s = s" for s
    by (induction es) (simp_all add: stackEvent_def)
  with assms show ?thesis by (simp add: runStack_def bootStack_def startIndexer_def)
qed

text \<open>The stack that is ready: everything seeded, both processes running.\<close>

lemma stack_ready:
  "let s = runStack True (Inr c) (HealthSettles (Inr ()) # replicate (length seedSteps) (StepSettles True))
   in sk_seeded s = seedSteps \<and> sk_surfpool s \<and> sk_indexer s \<and> sk_exit s = None"
  by (simp add: runStack_def bootStack_def stackEvent_def seedSteps_def seedMarket_def upt_rec numeral_eq_Suc)

end
