(* ===== verification/Spec2Isabelle.thy ===== *)
theory Spec2Isabelle
  imports Wire Jupiter Sequence Browse Fuzzy Pages Chart ControlRuns StdWallet Mock Preview Platform ChartLife DetailPage Views Screens PointerField Toolbar WriteHook Refresh LocalStack
begin

text \<open>
  Kassandra markets: the TypeScript client.

  The repository holds a prediction market on Solana: an on-chain program in Rust
  (\<open>programs/markets\<close>), an indexer service (\<open>indexer\<close>), a TypeScript SDK
  (\<open>sdks/markets/ts/src\<close>) and a web app (\<open>app/src\<close>).  Modelled here is the TypeScript: what the
  SDK and the app compute and send.  A user's action goes through it like this.  The app reads
  markets from the indexer and shows them (Markets, MarketView, Browse, Fuzzy, PriceGrid); a form
  parses an amount (Amount) and calls an action builder (Trade, Actions), which calls the SDK's
  flows (Flows) and those the instruction builders (MarketIx, MetaDao); the resulting instructions
  are signed, relayed and confirmed (Send, WriteAction), several steps at once after being packed
  into transactions (PackTx, Sequence).

  Theories, in the order they build on each other:

  \<^item> Prelude: results (\<open>res\<close>, an error or a value: every throw and early return is a branch),
    \<open>named_theorems\<close>, division facts.  JsNumber: the double-precision numbers of JavaScript as
    rounded rationals with infinities and \<open>NaN\<close>, proved monotone and exact where the code needs
    it.  JsString: strings, numerals, \<open>BigInt\<close> of a string.  Sorting: \<open>Array.prototype.sort\<close> as a
    stable insertion sort, with the locales \<open>comparator\<close> and \<open>key_comparator\<close> for its contract.
  \<^item> Bytes (\<open>bytes.ts\<close>, the readers of \<open>accounts/common.ts\<close>), Web3 (addresses and account
    metas), Constants (\<open>constants.ts\<close>), Pda (\<open>pda.ts\<close>, \<open>metadao/pda.ts\<close>), Accounts
    (\<open>accounts/*.ts\<close>), MarketIx (\<open>instructions/market/*.ts\<close>), MetaDao (\<open>metadao/*.ts\<close>), Flows
    and Jupiter (\<open>flows/*.ts\<close>).  Dispatch and Wire are the specification of the wire format, read
    off the program's processors: \<open>parse_call\<close> takes instruction data apart and
    \<open>account_roles\<close> lists the accounts of each handler.
  \<^item> Markets (\<open>lib/indexer.ts\<close>, \<open>data/markets.ts\<close>), ActionBase, Trade and Actions
    (\<open>data/actions/*.ts\<close>), PackTx (\<open>data/actions/packTx.ts\<close>), Base64 and Send (\<open>data/send.ts\<close>,
    \<open>lib/base64.ts\<close>), WriteAction (\<open>data/writeAction.ts\<close>), Sequence
    (\<open>hooks/useActionSequence.ts\<close>).
  \<^item> MarketView (\<open>lib/marketView.ts\<close>, \<open>lib/beliefs.ts\<close>), Amount (\<open>data/amount.ts\<close>), Browse
    (\<open>lib/marketList.ts\<close>, \<open>lib/heroFeed.ts\<close>, \<open>hooks/useOracleGroup.ts\<close>), Fuzzy
    (\<open>lib/fuzzySearch.ts\<close>), PriceGrid (\<open>components/markets/priceGrid.ts\<close>).
  \<^item> Indexer (the class \<open>IndexerClient\<close> of \<open>lib/indexer.ts\<close> over the platform's \<open>fetch\<close>), Hooks
    (\<open>useAsync\<close>, \<open>useMarketDetail\<close>, \<open>useWriteAction\<close>, \<open>useSolBalance\<close>: cells with one rule per
    event, and the invariant of every reachable cell), Ticket (\<open>TradePanel\<close>,
    \<open>AddLiquidityControl\<close>, \<open>ContributeForm\<close>), Controls (\<open>MarketActions\<close>, \<open>ClaimLpControl\<close>,
    \<open>RedeemControl\<close>, \<open>MarketCard\<close>; \<open>admits\<close> holds the guards of the Rust program), GroupPanel
    (\<open>GroupLiquidityPanel\<close>, \<open>CategoricalCard\<close>, \<open>GroupTradePanel\<close>), Pages (\<open>MarketDetail\<close>,
    \<open>Markets\<close>, \<open>ProbabilityBar\<close>, \<open>CreateMarketForm\<close>), Chart (\<open>PriceChart\<close>).
  \<^item> ControlRuns (the submits of the lifecycle controls, \<open>WriteStatusRegion\<close>, \<open>lib/explorer.ts\<close>), StdWallet
    (\<open>lib/standardWallet.tsx\<close>: which wallet is restored, and what is signed), Mock
    (\<open>mockMarkets/fixtures.ts\<close> and \<open>MockIndexerClient\<close>: the offline preview as data, its 32-bit hash
    and generator as words), Preview (lemmas about it: its candles, its pages, that no write succeeds),
    Platform (\<open>lib/cluster.ts\<close>, \<open>lib/mode.ts\<close>, the scripted wallets, the choice of providers, tabs),
    Views (what the cards, panels, step lists, navigation bar and wallet picker show, as data), Screens
    (what the forms, the group panel, the browse page and the create form show and which buttons they
    enable, the route table of \<open>App.tsx\<close> and the contexts of \<open>AppProviders.tsx\<close>), ChartLife (the life of
    \<open>PriceChart\<close>: its state and refs, every event as a function, \<open>chart_step\<close> for any order of them),
    DetailPage (the market page put together, the lifecycle controls, the tab bar, the navigation bar,
    the featured markets of the landing page).
  \<^item> PointerField (\<open>hooks/usePointerField.ts\<close>: the four springs of the landing page in double arithmetic,
    their animation loop and its events; the error of one rounded step is bounded and the spring is
    shown to contract a box around its target, so what is published stays in range and the loop ends),
    Toolbar (\<open>UnifiedDashboard\<close>: the browse toolbar and its handlers; the hero, \<open>HowItWorks\<close>,
    \<open>TrustPanel\<close> and the small components as data; the functions of \<open>vite.config.ts\<close>), WriteHook
    (\<open>useWriteAction\<close> as the component sees it, \<open>market/lib/e2eWallet.tsx\<close>), Refresh (which reads the
    \<open>onSuccess\<close> of every form, panel, card and page renews, and the stale group they leave), LocalStack
    (\<open>sdks/markets/ts/scripts/local-stack.mts\<close>: health poll, seeded data, teardown as a state machine).

  Of a React component the theories have its state as a record, each handler and effect as a function
  on it, what it derives for display, and for a submit the transaction it hands to the write action.
  The hooks' cells step by \<open>async_step\<close> and \<open>balance_step\<close>: a render may change the dependencies,
  an effect runs when they or the nonce changed, a promise may settle at any time.

  Correspondence.  An interface or class is a \<open>record\<close> with a short prefix per type, an enum a
  \<open>datatype\<close> with its code function, a \<open>bigint\<close> an \<open>int\<close>, a byte an \<open>8 word\<close>, a \<open>number\<close> that is
  only ever a small integer an \<open>int\<close>, and a \<open>number\<close> that is computed with a \<open>jsnum\<close>.  An optional
  argument is an \<open>option\<close>, and \<open>??\<close> is \<open>orElse\<close>.  An \<open>async\<close> function is its result: the model
  has no interleaving between the calls of one action, except where the code waits, where the
  answers are indexed by the round (Send, Sequence), and in the hooks.

  Parameters.  Code outside the repository is an argument: \<open>web3\<close> (base58 and the search for a
  program address), \<open>Fetch\<close> (what \<open>fetch\<close> settles with), \<open>txlib\<close> (the compute-budget instruction and the size of a compiled message),
  \<open>IndexerReads\<close> (the answers of the indexer) and the wallet.  What the properties need of them are
  the named hypotheses \<open>base58_ok\<close>, \<open>compute_ok\<close> and \<open>message_ok\<close>, shown satisfiable by
  \<open>demo_web3\<close> and \<open>demo_txlib\<close>.

  Interfaces as locales: \<open>le_codec\<close> (a little-endian field of a width), \<open>account_codec\<close> (an
  account layout and its decoder), \<open>ix_contract\<close> (an instruction builder and the handler it
  addresses), \<open>rounding\<close>, \<open>comparator\<close> and \<open>key_comparator\<close>; each is interpreted on the model's own
  definitions in the theory that provides them, and the properties below rest on their facts.

  Bounds.  Nothing is given fuel.  The confirmation loop terminates because each poll takes at
  least 150 ms of its timeout (at most 200 polls for the default), the grid loop because its
  interval is positive, and every other recursion is structural or halves a number.  The clock loop
  of the chart is a partial function, \<open>rollTimes\<close>, and proved to end for every positive step.  The
  animation loop of the pointer field is run by the browser's frames; for every sequence of frames a
  tenth of a millisecond or more apart it is proved to stop.  The health poll of the local stack is a
  function of its answers, which ends because each round waits 250 ms of its 30 seconds.

  Not modelled: markup, styling, the fixed prose and icons of the pages, the style guide page (a
  catalogue of the components, without state), the options of the chart library, React's
  context plumbing and its scheduling of renders (a cell steps when an event is delivered); the Rust
  program, indexer and SDK, which are specification or parameters here; the test harness, the tests
  and their configuration, shell scripts and documentation.
\<close>

section \<open>Concrete inputs for the witnesses\<close>

text \<open>
  A concrete base58 codec and address derivation is \<open>demo_web3\<close> (theory Web3).  Beside it: an
  indexer that knows no account and confirms every transaction at its first poll, a compute-budget
  codec and message sizes for the transaction library, and a few addresses, markets and pools.
\<close>

definition demo_key :: "int \<Rightarrow> address" where
  "demo_key k = Address (replicate 32 (word_of_int k))"

definition demo_indexer :: IndexerReads where
  "demo_indexer = \<lparr>api_getConfig = Inr None, api_getMarkets = Inr [], api_getMarket = (\<lambda>a. Inr None),
     api_getCandles = (\<lambda>a i l. Inr []), api_getAccount = (\<lambda>a. Inr None), api_getBlockhash = Inr ''h'',
     api_sendTransaction = (\<lambda>t. Inr ''sig''),
     api_getSignatureStatus = (\<lambda>s k. Inr \<lparr>ss_status = Confirmed, ss_err = None\<rparr>)\<rparr>"

definition demo_limit :: "int \<Rightarrow> instruction" where
  "demo_limit u = \<lparr>ixProgramId = COMPUTE_BUDGET_PROGRAM_ID demo_web3, ixKeys = [], ixData = u8 2 @ u32LE u\<rparr>"

definition demo_txlib :: txlib where
  "demo_txlib = \<lparr>tx_setComputeUnitLimit = demo_limit,
     tx_decodeUnitLimit = (\<lambda>ix. if length (ixData ix) = 5 \<and> hd (ixData ix) = 2
       then Some (le_uint (tl (ixData ix))) else None),
     tx_message = (\<lambda>p ixs. (1, sum_list (map (\<lambda>ix. 34 + int (length (ixKeys ix)) + int (length (ixData ix))) ixs)))\<rparr>"

definition demo_refs :: MarketRefs where
  "demo_refs = \<lparr>mr_market = demo_key 1, mr_oracle = demo_key 2, mr_baseMint = demo_key 3,
     mr_question = demo_key 4, mr_vault = demo_key 5, mr_vaultUnderlyingAta = demo_key 6,
     mr_yesMint = demo_key 7, mr_noMint = demo_key 8, mr_amm = demo_key 9, mr_lpMint = demo_key 10,
     mr_ammVaultBase = demo_key 11, mr_ammVaultQuote = demo_key 12, mr_cvEventAuthority = demo_key 13,
     mr_ammEventAuthority = demo_key 14, mr_marketCyes = demo_key 15, mr_marketCno = demo_key 16,
     mr_lpVault = demo_key 17, mr_escrow = demo_key 18\<rparr>"

definition demo_market :: "int \<Rightarrow> Market" where
  "demo_market st = \<lparr>mk_oracle = demo_key 2, mk_creator = demo_key 19, mk_baseMint = demo_key 3,
     mk_escrowVault = demo_key 18, mk_minLiquidity = 1000, mk_totalContributed = 5,
     mk_openContributions = 1, mk_status = st, mk_bump = 255, mk_escrowBump = 254,
     mk_question = demo_key 4, mk_vault = demo_key 5, mk_yesMint = demo_key 7, mk_noMint = demo_key 8,
     mk_amm = demo_key 9, mk_lpMint = demo_key 10, mk_lpVault = demo_key 17, mk_lpTotal = 900,
     mk_settled = False, mk_feeBps = 50, mk_feeCollected = False, mk_outcomeIndex = 0,
     mk_activationLp = 900, mk_activationContributed = 1000, mk_grossLpTotal = 900\<rparr>"

definition demo_reserves :: AmmReserves where
  "demo_reserves = \<lparr>ar_base = 1000, ar_quote = 1050\<rparr>"

lemma length_demo_key [simp]: "length (address_bytes (demo_key k)) = 32"
  by (simp add: demo_key_def)

lemma wf_demo_key [simp]: "wf_address (demo_key k)"
  by (simp add: wf_address_def)

lemma demo_derive: "derive demo_web3 (map Inr ss) p = Inr (Address (concat ss @ address_bytes p), 255)"
  by (simp add: derive_def demo_web3_def)

lemma demo_derives [simp]:
  "derive demo_web3 [Inr a] p = Inr (Address (a @ address_bytes p), 255)"
  "derive demo_web3 [Inr a, Inr b] p = Inr (Address (a @ b @ address_bytes p), 255)"
  "derive demo_web3 [Inr a, Inr b, Inr c] p = Inr (Address (a @ b @ c @ address_bytes p), 255)"
  "derive demo_web3 [Inr a, Inr b, Inr c, Inr d] p = Inr (Address (a @ b @ c @ d @ address_bytes p), 255)"
  by (simp_all add: derive_def demo_web3_def)

lemma demo_address_of_key [simp]: "wf_address (Address (replicate 32 b))"
  by (simp add: wf_address_def)

lemma demo_indexer_sel [simp]:
  "api_getMarket demo_indexer m = Inr None"
  "api_getAccount demo_indexer a = Inr None" "api_getBlockhash demo_indexer = Inr ''h''"
  "api_sendTransaction demo_indexer t = Inr ''sig''"
  "api_getSignatureStatus demo_indexer s k = Inr \<lparr>ss_status = Confirmed, ss_err = None\<rparr>"
  by (simp_all add: demo_indexer_def)

lemma demo_compute_ok: "compute_ok demo_web3 demo_txlib"
proof -
  have "le_uint (tl (ixData ix)) < 4294967296" if "length (ixData ix) = 5" for ix
    using le_uint_bound [of "tl (ixData ix)"] that by simp
  moreover have "le_uint (u32LE u) = u" if "0 \<le> u" "u < 4294967296" for u
    using that by (simp add: le_field is_u32_def)
  ultimately show ?thesis
    by (auto simp: compute_ok_def demo_txlib_def demo_limit_def u8_def le_uint_nonneg)
qed

lemma demo_txlib_sel [simp]:
  "tx_setComputeUnitLimit demo_txlib = demo_limit"
  "tx_message demo_txlib p ixs =
     (1, sum_list (map (\<lambda>ix. 34 + int (length (ixKeys ix)) + int (length (ixData ix))) ixs))"
  by (simp_all add: demo_txlib_def)

lemma demo_message_ok: "message_ok demo_txlib"
proof -
  define g :: "address \<times> account_meta list \<times> nat \<Rightarrow> int"
    where "g = (\<lambda>(p, ks, n). 34 + int (length ks) + int n)"
  have mono: "sum_list (map g xs) \<le> sum_list (map g ys)" if "subseq xs ys" for xs ys
    using that by (induction rule: list_emb.induct) (auto simp: g_def split_beta intro!: sum_list_nonneg)
  have "(34 + int (length (ixKeys ix)) + int (length (ixData ix))) = (g \<circ> ix_shape) ix" for ix
    by (simp add: g_def ix_shape_def)
  then have eq: "(\<lambda>ix. 34 + int (length (ixKeys ix)) + int (length (ixData ix))) = g \<circ> ix_shape"
    by blast
  show ?thesis
    unfolding message_ok_def using mono
    by (auto simp: demo_txlib_def eq demo_limit_def ix_shape_def simp flip: map_map)
qed

lemmas demo_flow_simps =
  md_question_def md_conditionalVault_def md_ata_def md_conditionalTokenMint_def md_amm_def
  md_ammLpMint_def md_vaultEventAuthority_def md_ammEventAuthority_def market_pda_defs
  pda_associatedTokenAccount_def mkIx_def Let_def

lemma num_numeral: "(numeral k :: int) \<le> 2 ^ 53 \<Longrightarrow> num (numeral k) = Fin (numeral k)"
  using Number_exact [of "numeral k"] by (simp add: Number_def)

lemma num_minus_numeral: "(numeral k :: int) \<le> 2 ^ 53 \<Longrightarrow> num (- numeral k) = Fin (- numeral k)"
  using Number_exact [of "- numeral k"] by (simp add: Number_def)

definition demo_trade :: "string \<Rightarrow> TradeArgs" where
  "demo_trade outcome = \<lparr>ta_refs = demo_refs, ta_user = AddrObj (demo_key 20), ta_outcome = outcome,
     ta_userBaseAta = AddrObj (demo_key 21), ta_reserves = Some demo_reserves, ta_slippageBps = None\<rparr>"

lemma demo_trade_sel [simp]:
  "ta_refs (demo_trade t) = demo_refs" "ta_user (demo_trade t) = AddrObj (demo_key 20)"
  "ta_outcome (demo_trade t) = t" "ta_userBaseAta (demo_trade t) = AddrObj (demo_key 21)"
  "ta_reserves (demo_trade t) = Some demo_reserves" "ta_slippageBps (demo_trade t) = None"
  by (simp_all add: demo_trade_def)

lemma demo_tradeReserves: "tradeReserves demo_web3 demo_indexer (demo_trade t) = Some demo_reserves"
  by (simp add: tradeReserves_def decodeReservesFromChain_def)

lemmas demo_vault_simps = initializeQuestion_def initializeConditionalVault_def createAmm_def

section \<open>Lemmas\<close>

lemma buyPriceImpact_unit:
  assumes "u64_reserves r" "is_u64 amount"
  shows "unit_num (buyPriceImpact (Some r) outcome amount)"
proof -
  obtain x y where xy: "reservePair r (outcome = ''yes'') = (x, y)" by (cases "reservePair r (outcome = ''yes'')")
  then have u: "is_u64 x" "is_u64 y"
    using assms(1) by (auto simp: reservePair_def u64_reserves_def split: if_splits)
  let ?n = "constantProductOut amount x y"
  show ?thesis
  proof (cases "0 < amount \<and> 0 < x \<and> 0 < y \<and> 0 < ?n")
    case True
    then have "?n < y" using constantProductOut_range by blast
    with True u assms(2) have "\<exists>c. impactOf amount ?n x y = Fin c \<and> 0 \<le> c \<and> c \<le> 1"
      by (intro impactOf_range) (auto simp: is_u64_def)
    with True xy show ?thesis by (auto simp: buyPriceImpact_def unit_num_def)
  next
    case False
    with xy show ?thesis by (auto simp: buyPriceImpact_def unit_num_def Let_def)
  qed
qed

lemma sellPriceImpact_unit:
  assumes "u64_reserves r" "held \<le> 2 ^ 53"
  shows "\<exists>c. sellPriceImpact (Some r) outcome held = Inr c \<and> unit_num c"
proof -
  obtain x y where xy: "reservePair r (outcome \<noteq> ''yes'') = (x, y)" by (cases "reservePair r (outcome \<noteq> ''yes'')")
  then have u: "is_u64 x" "is_u64 y"
    using assms(1) by (auto simp: reservePair_def u64_reserves_def split: if_splits)
  show ?thesis
  proof (cases "1 < held \<and> 0 < x \<and> 0 < y")
    case True
    then obtain s where s: "optimalUnwindSwap held x y = Inr s" "1 \<le> s" "s \<le> held - 1"
      using optimalUnwindSwap_range [of held x y] u assms(2) by (auto simp: is_u64_def)
    let ?n = "constantProductOut s x y"
    have n: "?n < y" using constantProductOut_range True by blast
    have "\<exists>c. impactOf s ?n x y = Fin c \<and> 0 \<le> c \<and> c \<le> 1" if "0 < ?n"
      using that True u s n assms(2) by (intro impactOf_range) (auto simp: is_u64_def)
    with True xy s show ?thesis by (auto simp: sellPriceImpact_def unit_num_def Let_def)
  next
    case False
    with xy show ?thesis by (auto simp: sellPriceImpact_def unit_num_def Let_def)
  qed
qed




text \<open>One step of a run: an instruction of its own program, with an explicit compute budget.\<close>

definition demo_step :: "int \<Rightarrow> ActivateStep" where
  "demo_step k = \<lparr>as_label = ''step'', as_computeUnits = Some 400000,
     as_ixs = [\<lparr>ixProgramId = demo_key 9, ixKeys = [], ixData = u8 k\<rparr>], as_checkAccount = demo_key k,
     as_skipIfLanded = None\<rparr>"


lemma demo_step_sel [simp]:
  "as_computeUnits (demo_step k) = Some 400000" "as_checkAccount (demo_step k) = demo_key k"
  "as_ixs (demo_step k) = [\<lparr>ixProgramId = demo_key 9, ixKeys = [], ixData = u8 k\<rparr>]"
  "as_skipIfLanded (demo_step k) = None"
  by (simp_all add: demo_step_def)

lemma demo_step_unit [simp]:
  "isComputeUnitLimitIx demo_web3 demo_txlib \<lparr>ixProgramId = p, ixKeys = [], ixData = u8 k\<rparr> \<longleftrightarrow> False"
  by (simp add: isComputeUnitLimitIx_def demo_txlib_def)

lemma demo_normalize [simp]: "normalizeStep demo_web3 demo_txlib (demo_step k) = (400000, as_ixs (demo_step k))"
  by (simp add: normalizeStep_def)

lemma demo_combined:
  "combinedIxs demo_web3 demo_txlib [demo_step j, demo_step k] =
     demo_limit 800000 # as_ixs (demo_step j) @ as_ixs (demo_step k)"
  by (simp add: combinedIxs_def DEFAULT_TX_COMPUTE_UNITS_def setComputeUnitLimitIx_def)

lemma demo_fits:
  "totalComputeUnits demo_web3 demo_txlib [demo_step j, demo_step k] = 800000"
  "MAX_TX_COMPUTE_UNITS = 1400000"
  "wireSize demo_txlib p (combinedIxs demo_web3 demo_txlib [demo_step j, demo_step k]) \<le> PACKET_DATA_SIZE"
  by (simp_all add: totalComputeUnits_def MAX_TX_COMPUTE_UNITS_def wireSize_def demo_combined demo_limit_def
      PACKET_DATA_SIZE_def)

lemma fetchMarkets_pubkeys:
  assumes "fetchMarkets W indexer = Inr out"
  shows "\<exists>dtos. api_getMarkets indexer = Inr dtos \<and> mset (map ms_pubkey out) = mset (map dm_address dtos)"
proof -
  obtain dtos ss where d: "api_getMarkets indexer = Inr dtos" and s: "seqR (map (summaryOf W indexer) dtos) = Inr ss"
    and o: "out = js_sort cmpContributedDesc ss"
    using assms by (auto simp: fetchMarkets_def)
  have pk: "ms_pubkey m = dm_address dto" if "summaryOf W indexer dto = Inr m" for dto m
    using that by (auto simp: summaryOf_def Let_def)
  have "map ms_pubkey ss = map dm_address dtos"
    using s pk by (intro nth_equalityI) (auto simp: seqR_length dest: seqR_nth_map)
  then have "mset (map ms_pubkey out) = mset (map dm_address dtos)"
    unfolding o by (metis mset_js_sort mset_map)
  with d show ?thesis by blast
qed

lemma groups_sorted:
  "list_all (\<lambda>g. sorted (map (\<lambda>m. mk_outcomeIndex (ms_market m)) (gr_markets g))) (groupByOracle W xs)"
  by (simp add: list_all_iff groupByOracle_eq by_outcome.key_sorted)

section \<open>The instructions of the client\<close>




text \<open>
  C2. Reading back the four account types of the program: a decoder applied to the byte layout of
  a state returns that state.  The layout is the program's (\<open>#[repr(C)]\<close>, padding included) and
  every field is in its range.
\<close>

theorem account_roundtrip:
  "(wf_Market m \<longrightarrow> decodeMarket (layoutMarket m) = Inr m) \<and>
   (wf_Config c \<longrightarrow> decodeConfig (layoutConfig c) = Inr c) \<and>
   (wf_Contribution n \<longrightarrow> decodeContribution (layoutContribution n) = Inr n) \<and>
   (wf_ErSession s \<longrightarrow> decodeErSession (layoutErSession s) = Inr s)"
  using acc_market.decode_layout acc_config.decode_layout acc_contribution.decode_layout
    acc_er.decode_layout by blast

lemma account_roundtrip_witness:
  "decodeMarket (layoutMarket (demo_market 1)) = Inr (demo_market 1)"
proof -
  have "wf_Market (demo_market 1)"
    by (simp add: wf_Market_def demo_market_def is_u64_def is_u16_def is_u8_def)
  then show ?thesis using account_roundtrip [of "demo_market 1"] by blast
qed

text \<open>
  C3. The decoders accept exactly the buffers of their own type: the exact size of the account and
  its type tag, nothing else.  So no buffer decodes as two of the types, and every other buffer is
  an error of the decoder and never a wrong value.
\<close>

theorem account_decoders_strict:
  "(okR (decodeMarket d) \<longleftrightarrow> length d = 424 \<and> uint (d ! 0) = account_type_code TMarket) \<and>
   (okR (decodeConfig d) \<longleftrightarrow> length d = 160 \<and> uint (d ! 0) = account_type_code TConfig) \<and>
   (okR (decodeContribution d) \<longleftrightarrow> length d = 96 \<and> uint (d ! 0) = account_type_code TContribution) \<and>
   (okR (decodeErSession d) \<longleftrightarrow> length d = 96 \<and> uint (d ! 0) = account_type_code TErSession) \<and>
   \<not> (okR (decodeContribution d) \<and> okR (decodeErSession d))"
  by (simp add: acc_market.decode_ok acc_config.decode_ok acc_contribution.decode_ok acc_er.decode_ok)

text \<open>
  C4. The program addresses of the nine kinds the client derives are those of their seed lists, and
  the seed bytes of two different derivations (another kind, another market, another contributor,
  another outcome) never coincide, although the seeds are hashed without separators.
\<close>

theorem pda_seeds_separate:
  assumes "wf_kind k" and "wf_kind k'" and "k \<noteq> k'"
  shows "derive_kind W k p = derive W (map Inr (seeds_of k)) (orElse p (MARKET_PROGRAM_ID W)) \<and>
    concat (seeds_of k) \<noteq> concat (seeds_of k')"
  using assms seeds_of_inject derive_kind_seeds by metis

lemma pda_seeds_separate_witness:
  "concat (seeds_of (KMarket (demo_key 1) 0)) \<noteq> concat (seeds_of (KMarket (demo_key 1) 1))"
  using pda_seeds_separate [of "KMarket (demo_key 1) 0" "KMarket (demo_key 1) 1"] by simp

text \<open>
  C5. The addresses a market's composition creates (question, vault, outcome mints, pool, token
  accounts, event authorities) are those the client later rebuilds from the market account alone,
  once the account records the ones it stores.
\<close>

theorem compose_then_account_refs:
  assumes "composeMarketInstructions W p = Inr (ixs, refs)" and "records_refs m refs"
  shows "marketRefsFromAccount W (AddrObj (mr_market refs)) m = Inr refs"
  using assms by (rule compose_refs)

lemma compose_then_account_refs_witness:
  "\<exists>ixs refs m. composeMarketInstructions demo_web3
      \<lparr>cp_market = AddrObj (demo_key 1), cp_oracle = AddrObj (demo_key 2),
       cp_baseMint = AddrObj (demo_key 3), cp_payer = AddrObj (demo_key 4)\<rparr> = Inr (ixs, refs) \<and>
     marketRefsFromAccount demo_web3 (AddrObj (mr_market refs)) m = Inr refs"
proof -
  obtain ixs refs where c: "composeMarketInstructions demo_web3
      \<lparr>cp_market = AddrObj (demo_key 1), cp_oracle = AddrObj (demo_key 2),
       cp_baseMint = AddrObj (demo_key 3), cp_payer = AddrObj (demo_key 4)\<rparr> = Inr (ixs, refs)"
    by (simp add: composeMarketInstructions_def demo_flow_simps demo_vault_simps upto_rec1)
  let ?m = "demo_market 1\<lparr>mk_oracle := mr_oracle refs, mk_baseMint := mr_baseMint refs,
     mk_question := mr_question refs, mk_vault := mr_vault refs, mk_yesMint := mr_yesMint refs,
     mk_noMint := mr_noMint refs, mk_amm := mr_amm refs, mk_lpMint := mr_lpMint refs,
     mk_lpVault := mr_lpVault refs, mk_escrowVault := mr_escrow refs\<rparr>"
  have "records_refs ?m refs" by (simp add: records_refs_def)
  with c show ?thesis using compose_then_account_refs [OF c] by blast
qed

section \<open>Trading\<close>

text \<open>
  C6. The swap estimate of a pool: with the fee taken from the input, the constant product never
  falls, the output is below the reserve it is paid from, a larger input never gives a smaller
  output, and the estimate never exceeds the fee-free one.
\<close>

theorem swap_out_sound:
  assumes "0 \<le> a" and "a \<le> b" and "0 < x" and "0 < y"
  shows "x * y \<le> (x + a) * (y - ammSwapOut a x y) \<and> 0 \<le> ammSwapOut a x y \<and>
    ammSwapOut a x y < y \<and> ammSwapOut a x y \<le> ammSwapOut b x y \<and>
    ammSwapOut a x y \<le> constantProductOut a x y"
  using assms ammSwapOut_invariant ammSwapOut_range ammSwapOut_mono ammSwapOut_le_constantProductOut
  by blast

lemma swap_out_sound_witness:
  "(1000 :: int) * 1050 \<le> (1000 + 100) * (1050 - ammSwapOut 100 1000 1050) \<and>
   ammSwapOut 100 1000 1050 \<le> ammSwapOut 200 1000 1050"
  using swap_out_sound [of 100 200 1000 1050] by simp

text \<open>
  C7. The two computed amounts of a trade.  The slippage floor: for every slippage that is a number,
  infinities and fractions included, the floor exists and lies between zero and the estimate; a whole
  number of basis points gives the rounded-down share; and the one failure is \<open>NaN\<close> on a positive
  estimate.  The unwinding of a position: the swap part computed in floating point is a whole number
  of at least one token that leaves at least one token to merge, for holdings up to 2^53 and pools up
  to 2^64.
\<close>

theorem trade_bounds:
  "(okR (minOutFromSlippage est sl) \<longleftrightarrow> est \<le> 0 \<or> sl \<noteq> NaN) \<and>
   (sl \<noteq> NaN \<longrightarrow> (\<exists>m. minOutFromSlippage est sl = Inr m \<and> 0 \<le> m \<and> m \<le> max est 0)) \<and>
   (sl = Fin (of_int bps) \<and> 0 \<le> bps \<and> bps \<le> 10000 \<and> 0 \<le> est \<longrightarrow>
      minOutFromSlippage est sl = Inr (est * (10000 - bps) div 10000)) \<and>
   (1 < held \<and> held \<le> 2 ^ 53 \<and> 0 < inReserve \<and> inReserve \<le> 2 ^ 64 \<and> 0 < outReserve \<and> outReserve \<le> 2 ^ 64 \<longrightarrow>
      (\<exists>s. optimalUnwindSwap held inReserve outReserve = Inr s \<and> 1 \<le> s \<and> s \<le> held - 1))"
proof (cases "sl = NaN")
  case True
  then show ?thesis using optimalUnwindSwap_range by (simp add: minOutFromSlippage_def BigIntOf_def)
next
  case False
  then show ?thesis
    using minOutFromSlippage_range [of sl est] minOutFromSlippage_bps [of bps est]
      optimalUnwindSwap_range [of held inReserve outReserve] by (auto simp: okR_iff)
qed

lemma trade_bounds_witness:
  "minOutFromSlippage 1000 (Fin 100) = Inr 990 \<and>
   (\<exists>s. optimalUnwindSwap 100 1000 1050 = Inr s \<and> 1 \<le> s \<and> s \<le> 99)"
  using trade_bounds [of 1000 "Fin 100" 100 100 1000 1050] by simp

text \<open>
  C8. The figures shown for a pool: for every pool the chain can hold, the price impact of a trade of
  any amount (when selling, of a holding up to 2^53) and the probabilities of both beliefs are
  numbers between 0 and 1, never \<open>NaN\<close>, and the implied probability is missing only for the empty
  pool.
\<close>

theorem pool_figures:
  assumes "u64_reserves r" and "is_u64 amount" and "held \<le> 2 ^ 53"
  shows "unit_num (buyPriceImpact (Some r) outcome amount) \<and>
    (\<exists>c. sellPriceImpact (Some r) outcome held = Inr c \<and> unit_num c) \<and>
    (impliedYesProbability (Some r) = None \<longleftrightarrow> ar_base r = 0 \<and> ar_quote r = 0) \<and>
    (impliedYesProbability (Some r) = Some p \<longrightarrow> unit_num p) \<and>
    (beliefProbability (Some r) outcome = Some q \<longrightarrow> unit_num q)"
  using assms impliedYesProbability_unit [OF assms(1)] beliefProbability_unit [OF assms(1)]
  by (intro conjI buyPriceImpact_unit sellPriceImpact_unit) blast+

lemma pool_figures_witness:
  "unit_num (buyPriceImpact (Some demo_reserves) ''yes'' 100) \<and>
   impliedYesProbability (Some demo_reserves) \<noteq> None"
  using pool_figures [of demo_reserves 100 0 "''yes''"]
  by (simp add: u64_reserves_def demo_reserves_def is_u64_def)

text \<open>
  C9. A buy: the transaction sets its compute budget, creates the two outcome accounts of the
  trader, splits exactly the paid amount and swaps the unwanted side for the chosen one, with the
  slippage floor of the live pool (or of the caller's reserves when the pool cannot be read) in
  the swap.  A zero amount or missing reserves build nothing.
\<close>

theorem buy_transaction:
  assumes "buildBuyIxs W T indexer a amount = Inr ixs"
  shows "\<exists>user r split sw outMin. addr W (ta_user a) = Inr user \<and> 0 < amount \<and>
    tradeReserves W indexer a = Some r \<and> drop 3 ixs = [split, sw] \<and>
    trade_list W T (ta_refs a) user split sw ixs \<and>
    ixData split = DISC_splitTokens @ u64LE amount \<and>
    ixData sw = swap_data (if ta_outcome a = ''yes'' then Buy else Sell) amount outMin \<and>
    minOutFromSlippage (ammSwapOut amount (fst (reservePair r (ta_outcome a = ''yes'')))
      (snd (reservePair r (ta_outcome a = ''yes'')))) (orElse (ta_slippageBps a) DEFAULT_SLIPPAGE_BPS) =
      Inr outMin"
  using assms by (rule buildBuyIxs_Inr)

lemma demo_buy:
  "\<exists>ixs. buildBuyIxs demo_web3 demo_txlib demo_indexer (demo_trade ''yes'') 100 = Inr ixs"
  using minOutFromSlippage_bps [of 100 "ammSwapOut 100 1050 1000"] ammSwapOut_range [of 100 1050 1000]
  by (simp add: buildBuyIxs_def demo_tradeReserves previewBuy_def reservePair_def demo_reserves_def
      DEFAULT_SLIPPAGE_BPS_def ensureConditionalAtasInstructions_def buyInstructions_def
      splitTokens_def createIdempotentAta_def isYes_def userConditionalAtas_def
      interactWithVault_def swap_def vaultArgs_def swapArgs_def demo_flow_simps)

lemma buy_transaction_witness:
  "\<exists>ixs split sw. buildBuyIxs demo_web3 demo_txlib demo_indexer (demo_trade ''yes'') 100 = Inr ixs \<and>
     drop 3 ixs = [split, sw] \<and> ixData split = DISC_splitTokens @ u64LE 100"
  using demo_buy buy_transaction by blast

text \<open>
  C10. A sell: the transaction swaps part of the holding for the other side and merges equal
  amounts of both back into the base token, never merging more than is left of the holding nor
  more than the swap is guaranteed to return; the merged amount is positive.
\<close>

theorem sell_transaction:
  assumes "buildSellIxs W T indexer a amount = Inr ixs"
  shows "\<exists>user r sw mg s outMin m. addr W (ta_user a) = Inr user \<and> 0 < amount \<and>
    tradeReserves W indexer a = Some r \<and> drop 3 ixs = [sw, mg] \<and>
    trade_list W T (ta_refs a) user mg sw ixs \<and>
    ixData sw = swap_data (if ta_outcome a = ''yes'' then Sell else Buy) s outMin \<and>
    ixData mg = DISC_mergeTokens @ u64LE m \<and>
    optimalUnwindSwap amount (fst (reservePair r (ta_outcome a \<noteq> ''yes'')))
      (snd (reservePair r (ta_outcome a \<noteq> ''yes''))) = Inr s \<and>
    minOutFromSlippage (ammSwapOut s (fst (reservePair r (ta_outcome a \<noteq> ''yes'')))
      (snd (reservePair r (ta_outcome a \<noteq> ''yes'')))) (orElse (ta_slippageBps a) DEFAULT_SLIPPAGE_BPS) =
      Inr outMin \<and>
    0 < s \<and> 0 < m \<and> m \<le> outMin \<and> m \<le> amount - s"
  using assms by (rule buildSellIxs_Inr)

lemma demo_sell:
  "\<exists>ixs. buildSellIxs demo_web3 demo_txlib demo_indexer (demo_trade ''yes'') 100 = Inr ixs"
proof -
  have sq: "sqrt_rnd 4202500 = 2050" by code_simp
  have s: "optimalUnwindSwap 100 1000 1050 = Inr 50"
    using BigIntOf_of_int [of 50]
    by (simp add: optimalUnwindSwap_def Number_def num_numeral num_minus_numeral nsub_def sq)
  have "ammSwapOut 50 1000 1050 = 49"
    by (simp add: ammSwapOut_pos constantProductOut_pos)
  then have m: "minOutFromSlippage (ammSwapOut 50 1000 1050) (Fin 100) = Inr 48"
    using minOutFromSlippage_bps [of 100 49] by simp
  show ?thesis
    using s m
    by (simp add: buildSellIxs_def demo_tradeReserves reservePair_def demo_reserves_def
      DEFAULT_SLIPPAGE_BPS_def ensureConditionalAtasInstructions_def sellInstructions_def
      mergeTokens_def createIdempotentAta_def isYes_def userConditionalAtas_def
      interactWithVault_def swap_def vaultArgs_def swapArgs_def demo_flow_simps)
qed

lemma sell_transaction_witness:
  "\<exists>ixs sw mg m. buildSellIxs demo_web3 demo_txlib demo_indexer (demo_trade ''yes'') 100 = Inr ixs \<and>
     drop 3 ixs = [sw, mg] \<and> ixData mg = DISC_mergeTokens @ u64LE m \<and> 0 < m \<and> m < 100"
proof -
  obtain ixs where b: "buildSellIxs demo_web3 demo_txlib demo_indexer (demo_trade ''yes'') 100 = Inr ixs"
    using demo_sell by blast
  from sell_transaction [OF b] obtain sw mg s m where
    "drop 3 ixs = [sw, mg]" "ixData mg = DISC_mergeTokens @ u64LE m" "0 < s" "0 < m" "m \<le> 100 - s"
    by blast
  moreover from this have "m < 100" by linarith
  ultimately show ?thesis using b by blast
qed

section \<open>Liquidity and market creation\<close>














section \<open>Packing and running steps\<close>

text \<open>
  C16. Packing steps into transactions loses, duplicates and reorders nothing: the batches, read
  in order, are the steps; no batch is empty; and each transaction is the combination of its
  steps.  The greedy packing is also minimal: whenever the steps can be cut into \<open>n\<close> consecutive
  groups that each fit a transaction (or are a single step), it uses at most \<open>n\<close> transactions, hence
  at most that many wallet signatures.  The message size is assumed to grow with the instructions.
\<close>

theorem pack_partition:
  "concat (map pk_steps (packSteps W T p steps)) = steps \<and>
   [] \<notin> set (map pk_steps (packSteps W T p steps)) \<and>
   map pk_ixs (packSteps W T p steps) = map (combinedIxs W T \<circ> pk_steps) (packSteps W T p steps) \<and>
   (compute_ok W T \<and> message_ok T \<and> units_ok steps \<and> concat groups = steps \<and>
      (\<forall>grp\<in>set groups. length grp \<le> 1 \<or> fits W T p grp) \<longrightarrow>
      length (packSteps W T p steps) \<le> length groups)"
  using packSteps_concat packSteps_ixs packSteps_optimal [of W T groups p] by fastforce

lemma pack_partition_witness:
  "length (packSteps demo_web3 demo_txlib (demo_key 20) [demo_step 1, demo_step 2, demo_step 3]) \<le> 2"
proof -
  let ?g = "[[demo_step 1, demo_step 2], [demo_step 3]]"
  have "units_ok (concat ?g)" by (simp add: units_ok_def)
  moreover have "\<forall>grp\<in>set ?g. length grp \<le> 1 \<or> fits demo_web3 demo_txlib (demo_key 20) grp"
    by (simp add: fits_def demo_fits)
  ultimately show ?thesis
    using pack_partition [of demo_web3 demo_txlib "demo_key 20" "concat ?g" ?g] demo_compute_ok demo_message_ok by simp
qed








section \<open>Sending and confirming\<close>

text \<open>
  C20. A signature is confirmed exactly when some poll before the timeout reports it landed and
  every poll before that one succeeded without a verdict.  Waiting ends: a signature that never gets
  a verdict is reported as a timeout, and the default timeout allows at most 200 polls, however long
  each takes.
\<close>

theorem confirm_exact:
  "(confirmSignature W indexer lag s t = Inr () \<longleftrightarrow>
     (\<exists>k st. waited indexer s (orElse t 30000) lag k \<and> pollTime lag k < orElse t 30000 \<and>
        api_getSignatureStatus indexer s k = Inr st \<and> landed st)) \<and>
   ((\<forall>k. \<exists>st. api_getSignatureStatus indexer s k = Inr st \<and> undecided st) \<longrightarrow>
     confirmSignature W indexer lag s t = Inl (txTimeout s (orElse t 30000))) \<and>
   (waited indexer s 30000 lag k \<longrightarrow> k \<le> 200)"
  by (intro conjI impI confirm_Inr_iff confirm_timeout waited_rounds)

lemma confirm_exact_witness:
  "confirmSignature demo_web3 (demo_indexer\<lparr>api_getSignatureStatus :=
     (\<lambda>s k. Inr \<lparr>ss_status = Pending, ss_err = None\<rparr>)\<rparr>) (\<lambda>k. 0) ''sig'' None =
   Inl (txTimeout ''sig'' 30000)"
proof -
  let ?ix = "demo_indexer\<lparr>api_getSignatureStatus := (\<lambda>s k. Inr \<lparr>ss_status = Pending, ss_err = None\<rparr>)\<rparr>"
  have "\<forall>k. \<exists>st. api_getSignatureStatus ?ix ''sig'' k = Inr st \<and> undecided st"
    by (simp add: undecided_def truthy_def)
  then show ?thesis using confirm_exact [of demo_web3 ?ix "\<lambda>k. 0" "''sig''" None] by simp
qed

text \<open>
  C21. Relaying a transaction: it succeeds exactly when the relay gave the signature and the
  signature was confirmed; every failure is a send error that carries the original cause and its
  logs, and the signature exactly when the transaction had been relayed.
\<close>

theorem relay_outcome:
  "(relayAndConfirm W indexer lag relay = Inr s \<longleftrightarrow>
      relay = Inr s \<and> confirmSignature W indexer lag s None = Inr ()) \<and>
   (relayAndConfirm W indexer lag relay = Inl e \<longrightarrow>
      (\<exists>m sig logs c. e = SendError m sig logs c \<and> logs = extractLogs c \<and> (sig = None \<longleftrightarrow> relay = Inl c) \<and>
        (\<forall>s. sig = Some s \<longrightarrow> relay = Inr s \<and> confirmSignature W indexer lag s None = Inl c)))"
  by (intro conjI impI relayAndConfirm_Inr_iff relayAndConfirm_Inl)

lemma relay_outcome_witness:
  "\<exists>m. relayAndConfirm demo_web3 demo_indexer (\<lambda>k. 0) (Inl (Error ''offline'')) =
     Inl (SendError m None (extractLogs (Error ''offline'')) (Error ''offline''))"
proof -
  obtain e where e: "relayAndConfirm demo_web3 demo_indexer (\<lambda>k. 0) (Inl (Error ''offline'')) = Inl e"
    by (simp add: relayAndConfirm_def Let_def)
  with relay_outcome [of demo_web3 demo_indexer "\<lambda>k. 0" "Inl (Error ''offline'')" "[]" e]
  obtain m sig logs c where c: "e = SendError m sig logs c" "logs = extractLogs c"
    "sig = None \<longleftrightarrow> Inl (Error ''offline'') = (Inl c :: string res)"
    "\<forall>s. sig = Some s \<longrightarrow> Inl (Error ''offline'') = (Inr s :: string res)" by blast
  then have "sig = None" by (cases sig) auto
  with c e show ?thesis by auto
qed

text \<open>
  C22. A write action walks its status machine in order: building, signing, confirming, success,
  each state at most once, with an error possible after each; it ends in the last state it entered;
  and it shows success exactly when the instructions were built, the wallet's sender gave the
  signature and the signature was confirmed.
\<close>

theorem write_action:
  "write_path (fst (runWriteAction W indexer lag build sender onSuccess)) \<and>
   last (fst (runWriteAction W indexer lag build sender onSuccess)) =
     snd (runWriteAction W indexer lag build sender onSuccess) \<and>
   (WSuccess s \<in> set (fst (runWriteAction W indexer lag build sender onSuccess)) \<longleftrightarrow>
     (\<exists>ixs. build = Inr ixs \<and> sender ixs = Inr s \<and> confirmSignature W indexer lag s None = Inr ()))"
  using runWriteAction_path runWriteAction_success by blast







section \<open>Browsing and display\<close>

text \<open>
  C25. Grouping markets by oracle: the groups have distinct oracles in order of first appearance,
  together they hold exactly the given markets, and inside a group the markets of that oracle are
  in order of their outcome.
\<close>

theorem group_by_oracle:
  "map gr_oracle (groupByOracle W xs) = firsts (map (oracleKey W) xs) \<and>
   distinct (map gr_oracle (groupByOracle W xs)) \<and>
   mset (concat (map gr_markets (groupByOracle W xs))) = mset xs \<and>
   map gr_markets (groupByOracle W xs) =
     map (\<lambda>k. js_sort cmpOutcome (filter (\<lambda>s. oracleKey W s = k) xs)) (firsts (map (oracleKey W) xs)) \<and>
   list_all (\<lambda>g. sorted (map (\<lambda>m. mk_outcomeIndex (ms_market m)) (gr_markets g))) (groupByOracle W xs)"
  using groupByOracle_mset groups_sorted by (simp add: groupByOracle_eq comp_def)

text \<open>
  C26. The market page shows what was fetched for the market in the address bar: in every state that
  renders (of this or another market), effects, refetches, answers in any order and the unmount can
  lead to, a ready page holds a fetched detail of its own market; the cells show the answer of the
  last run; and the late answer of a run that was superseded, or comes after the unmount, changes
  nothing shown.  Its body is of that detail: whatever the address says about the tab, exactly one tab
  is selected, it can take the focus, and its panel is the only one shown; and a tab of the page that
  is chosen is the one the address restores.
\<close>

theorem page_ready:
  assumes "async_reach deps c" and "detail_runs W (ay_runs c)"
  shows "(pageView pk c = VReady \<longrightarrow> (\<exists>d indexer. ay_data c = Some d \<and> pk = Some (mt_pubkey d) \<and>
      fetchMarketDetail W indexer (mt_pubkey d) = Inr d)) \<and>
    (ay_mounted c \<and> ay_ran c = Some (d, n) \<longrightarrow>
      rn_deps (last (ay_runs c)) = d \<and> async_shows (rn_promise (last (ay_runs c))) c) \<and>
    (i < length (ay_runs c) \<and> (Suc i < length (ay_runs c) \<or> \<not> ay_mounted c) \<longrightarrow>
      ay_data (asyncSettle i r c) = ay_data c \<and> ay_error (asyncSettle i r c) = ay_error c \<and>
      ay_loading (asyncSettle i r c) = ay_loading c) \<and>
    (MarketDetailPage W env user pk c gs config gp ps = PageBody b \<longrightarrow>
      (\<exists>d indexer. pk = Some (mt_pubkey d) \<and> fetchMarketDetail W indexer (mt_pubkey d) = Inr d \<and>
        b = DetailBody W env user d gs config gp ps \<and>
        (t \<in> set (detailTabs (hasTradableOutcome d gs)) \<longrightarrow> activeTab d gs (paramGet ''tab'' (setTab t ps)) = t)) \<and>
      (\<exists>tab p. filter tb_selected (db_tabs b) = [tab] \<and> db_panels b = [p] \<and> fst p = tb_controls tab \<and>
        tb_tabIndex tab = 0))"
proof -
  have ready: "pageView pk c = VReady \<longrightarrow> (\<exists>d indexer. ay_data c = Some d \<and> pk = Some (mt_pubkey d) \<and>
      fetchMarketDetail W indexer (mt_pubkey d) = Inr d)"
    using pageView_ready [OF assms] by blast
  have body: "(\<exists>d indexer. pk = Some (mt_pubkey d) \<and> fetchMarketDetail W indexer (mt_pubkey d) = Inr d \<and>
        b = DetailBody W env user d gs config gp ps \<and>
        (t \<in> set (detailTabs (hasTradableOutcome d gs)) \<longrightarrow> activeTab d gs (paramGet ''tab'' (setTab t ps)) = t)) \<and>
      (\<exists>tab p. filter tb_selected (db_tabs b) = [tab] \<and> db_panels b = [p] \<and> fst p = tb_controls tab \<and>
        tb_tabIndex tab = 0)"
    if page: "MarketDetailPage W env user pk c gs config gp ps = PageBody b"
  proof -
    obtain d where d: "ay_data c = Some d" "pk = Some (mt_pubkey d)" "b = DetailBody W env user d gs config gp ps"
      using MarketDetailPage_body [OF page] by blast
    then have "pageView pk c = VReady" by (simp add: pageView_def detailView_def)
    then obtain indexer where "fetchMarketDetail W indexer (mt_pubkey d) = Inr d" using ready d(1) by auto
    then have "\<exists>d indexer. pk = Some (mt_pubkey d) \<and> fetchMarketDetail W indexer (mt_pubkey d) = Inr d \<and>
        b = DetailBody W env user d gs config gp ps \<and>
        (t \<in> set (detailTabs (hasTradableOutcome d gs)) \<longrightarrow> activeTab d gs (paramGet ''tab'' (setTab t ps)) = t)"
      using d(2,3) setTab_active by (intro exI [of _ d] exI [of _ indexer] conjI) auto
    then show ?thesis unfolding d(3) using DetailBody_one [of W env user d gs config gp ps] by (rule conjI)
  qed
  show ?thesis
    using ready body async_late [OF assms(1)] async_reach_inv [OF assms(1)] by (simp add: async_inv_def)
qed

definition demo_dto :: "string \<Rightarrow> int \<Rightarrow> MarketDto" where
  "demo_dto a n = \<lparr>dm_address = a, dm_status = 0, dm_statusLabel = ''Funding'', dm_oracle = ''o'',
     dm_creator = ''c'', dm_baseMint = ''b'', dm_escrowVault = ''e'', dm_minLiquidity = dec_str 9,
     dm_totalContributed = dec_str n, dm_openContributions = 1, dm_bump = 255, dm_escrowBump = 255,
     dm_outcomeIndex = 0, dm_feeBps = 0, dm_feeCollected = 0, dm_settled = 0, dm_question = ''q'',
     dm_vault = ''v'', dm_yesMint = ''y'', dm_noMint = ''n'', dm_amm = ''a'', dm_lpMint = ''l'',
     dm_lpVault = ''w'', dm_lpTotal = dec_str 0, dm_activationLp = dec_str 0,
     dm_activationContributed = dec_str 0, dm_grossLpTotal = dec_str 0, dm_slot = ''0''\<rparr>"

lemma page_ready_witness:
  "\<exists>c d. pageView (Some ''m'') c = VReady \<and> ay_data c = Some d \<and> mt_pubkey d = ''m'' \<and> length (ay_runs c) = 1"
proof -
  let ?ix = "demo_indexer\<lparr>api_getMarket := (\<lambda>a. Inr (Some \<lparr>dd_market = demo_dto a 3, dd_contributions = [],
    dd_oracle = None, dd_reserves = None\<rparr>))\<rparr>"
  have n: "newAddress demo_web3 s = Inr (Address (ascii s))" for s
    by (simp add: newAddress_def addr_def demo_web3_def)
  obtain d where d: "fetchMarketDetail demo_web3 ?ix ''m'' = Inr d"
    by (simp add: fetchMarketDetail_def mapMarketDto_def demo_dto_def n BigIntStr_dec_str Let_def)
  let ?c0 = "useAsync (Some ''m'') :: (string option, MarketDetail) AsyncCell"
  let ?c1 = "asyncEffect ?c0"
  let ?c = "asyncSettle 0 (Inr d) ?c1"
  have "async_reach (Some ''m'') ?c1"
    by (rule async_reach.step [OF async_reach.start], rule async_step.Effect) (simp_all add: useAsync_def)
  then have r: "async_reach (Some ''m'') ?c"
    by (rule async_reach.step, intro async_step.Settle)
      (simp_all add: useAsync_def asyncEffect_def startRun_def cleanup_def)
  have runs: "ay_runs ?c = [\<lparr>rn_deps = Some ''m'', rn_active = True, rn_promise = Some (Inr d)\<rparr>]"
    and data: "ay_data ?c = Some d"
    by (simp_all add: useAsync_def asyncEffect_def startRun_def cleanup_def asyncSettle_def settleRun_def Let_def)
  have t: "detailTask demo_web3 ?ix (Some ''m'') = Inr d" using d by (simp add: detailTask_def truthy_def)
  then have pk: "mt_pubkey d = ''m''" using detailTask_pubkey by fastforce
  have dr: "detail_runs demo_web3 (ay_runs ?c)" using t by (auto simp: detail_runs_def runs)
  have v: "pageView (Some ''m'') ?c = VReady" using data pk by (simp add: pageView_def detailView_def)
  then have "\<exists>d. ay_data ?c = Some d \<and> Some ''m'' = Some (mt_pubkey d)" using page_ready [OF r dr] by blast
  then show ?thesis using v runs by (intro exI [of _ ?c]) auto
qed




text \<open>
  C28. The amount field accepts exactly the decimal numerals with at most nine fraction digits and
  a positive value, and reads them without rounding.  Amounts survive the form: every positive
  amount is shown without loss (what \<open>formatSol\<close> prints, without its thousands separators, is read
  back as the same amount), the plain text that the forms write into the field is read back exactly,
  so Max enters the whole balance and passes the balance gate, and a quick-add chip adds exactly its
  number of whole SOL.
\<close>

theorem amount_roundtrip:
  assumes "0 < v"
  shows "(parseSolAmount raw = Inr u \<longleftrightarrow>
      (\<exists>a b. amount_numeral (trim raw) a b \<and> u = amount_value a b \<and> 0 < u)) \<and>
    parseSolAmount (filter (\<lambda>c. c \<noteq> CHR '','') (formatSol v)) = Inr v \<and>
    parseSolAmount (toPlainAmount v) = Inr v \<and>
    (gateBalance bal (tk_mode t) (be_outcome b) = Some v \<longrightarrow>
       parsedValue (tk_amount (setMax bal b t)) = Some v \<and> ticketBalanceError bal b (setMax bal b t) = None) \<and>
    (0 < n \<longrightarrow> parsedValue (tk_amount (bump n t)) =
       Some (orElse (parsedValue (tk_amount t)) 0 + n * 1000000000))"
  using parse_formatSol [OF assms] parse_toPlainAmount [OF assms] setMax_exact [OF _ assms] bump_exact
    parseSolAmount_iff by blast

lemma amount_roundtrip_witness:
  "parseSolAmount (filter (\<lambda>c. c \<noteq> CHR '','') (formatSol 1234500000000)) = Inr 1234500000000 \<and>
   parseSolAmount (toPlainAmount 1234500000000) = Inr 1234500000000"
  using amount_roundtrip [of 1234500000000] by simp





text \<open>
  C31. The price chart never hands its library a point out of order.  In whatever order the component
  mounts, renders other series, changes its window, reloads, polls, receives its loads, ticks with any
  clock and unmounts (and mounts again), the points of each line ascend strictly; a mounted chart has
  exactly the lines of its series and an unmounted one has none; the tick always ends; and a load whose
  run has ended changes nothing.  Assumed of each plot is that the cached candles lie on the window's
  grid, none of them after the clock: without it the claim fails (\<open>ChartLife.clock_behind\<close>).
\<close>

theorem chart_lines_ascend:
  assumes "chart_reach specs isGroup c"
  shows "(map_of (ch_lines c) k = Some g \<longrightarrow> sorted_wrt (<) (map gp_time g)) \<and>
    fst ` set (ch_lines c) = (if ch_mounted c then cs_key ` set (ch_specs c) else {}) \<and>
    (\<exists>c'. chartTick nowMs c = Some c') \<and>
    (i < length (ch_loads c) \<and> (lo_run (ch_loads c ! i) \<noteq> ch_run c \<or> \<not> ch_mounted c) \<longrightarrow>
      loadSettle nowSec i results c = c\<lparr>ch_loads := take i (ch_loads c) @ drop (Suc i) (ch_loads c)\<rparr>)"
proof -
  have inv: "chart_inv c" using assms by (rule reach_inv)
  have "lo_run (ch_loads c ! i) \<noteq> ch_run c" if "i < length (ch_loads c)" "\<not> ch_mounted c"
    using inv that nth_mem by (fastforce simp: chart_inv_def)
  then show ?thesis using inv tick_total [OF inv] late_load
    by (auto simp: chart_inv_def line_ok_def ascending_def lineKeys_def)
qed

definition demo_chart :: ChartCell where
  "demo_chart = chartMount 1000 (initialChart [lagSpec ''a''] False)"

lemma chart_lines_ascend_witness:
  "chart_reach [lagSpec ''a''] False demo_chart \<and> fst ` set (ch_lines demo_chart) = {''a:yes''} \<and>
   (\<exists>c'. chartTick 2000000 demo_chart = Some c')"
proof -
  have k: "cs_key (lagSpec ''a'') = ''a:yes''" by (simp add: lagSpec_def beliefKey_def)
  have "specs_ok [lagSpec ''a'']" by (simp add: specs_ok_def lagSpec_def)
  then have "chart_reach [lagSpec ''a''] False (initialChart [lagSpec ''a''] False)" by (rule chart_reach.start)
  then have r: "chart_reach [lagSpec ''a''] False demo_chart"
    unfolding demo_chart_def
    by (rule chart_reach.step, intro chart_step.Mount) (simp_all add: initialChart_def candles_ok_def)
  have "ch_mounted demo_chart" "ch_specs demo_chart = [lagSpec ''a'']"
    by (simp_all add: demo_chart_def chartMount_def loadEffect_def beginLoad_def linesEffect_def initialChart_def)
  then show ?thesis using chart_lines_ascend [OF r] r k by simp
qed



text \<open>
  C33. Fuzzy search: a text matches exactly when the query's characters appear in it in order,
  ignoring case; the results are at most \<open>topK\<close>, in descending order of score, and each is one of
  the items with the best score of its candidates.
\<close>

theorem fuzzy_search_sound:
  "(fuzzyScore query txt \<noteq> None \<longleftrightarrow> subseq (toLowerCase (trim query)) (toLowerCase txt)) \<and>
   length (fuzzySearch query items f topK) \<le> topK \<and>
   sorted_wrt (\<lambda>m n. fm_score n \<le> fm_score m) (fuzzySearch query items f topK) \<and>
   list_all (\<lambda>m. fm_item m \<in> set items \<and> bestScore query (f (fm_item m)) = Some (fm_score m))
     (fuzzySearch query items f topK)"
  using fuzzyScore_iff fuzzySearch_length fuzzySearch_sorted fuzzySearch_sound
  by (auto simp: sorted_wrt_iff_nth_less list_all_iff)

text \<open>
  C34. The bytes that cross the indexer's HTTP interface arrive: an account served as base64, base58
  and a decimal is read as it was, a missing one (404) is no account, any other refusal is an error
  with the indexer's message; and when a transaction is relayed, what was posted decodes to exactly
  the bytes the wallet signed.
\<close>

theorem indexer_trip:
  assumes "base58_ok W" and "wf_address a" and "bytesToBase64 bs = Inr enc" and "0 \<le> lamports"
    and "ft_account F (clientBase env @ ''/account/'' @ k) = Inr r"
  shows "(rs_ok r \<and> rs_json r = Inr \<lparr>da_data = enc, da_owner = toBase58 W a, da_lamports = dec_str lamports\<rparr> \<longrightarrow>
      api_getAccount (indexerClient W F env) k =
        Inr (Some \<lparr>ac_data = bs, ac_owner = a, ac_lamports = lamports\<rparr>)) \<and>
    (rs_status r = 404 \<longrightarrow> api_getAccount (indexerClient W F env) k = Inr None) \<and>
    (rs_status r \<noteq> 404 \<and> \<not> rs_ok r \<longrightarrow> api_getAccount (indexerClient W F env) k =
      Inl (Error (''getAccount failed ('' @ show_int (rs_status r) @ ''): '' @
        errorDetail (rs_statusText r) (rs_errorJson r)))) \<and>
    (signAndRelay (indexerClient W F env) feePayer sign ixs = Inr sig \<longrightarrow>
      (\<exists>h signed posted resp. getBlockhash F (clientBase env) = Inr h \<and>
        sign (buildUnsignedTx feePayer h ixs) = Inr signed \<and> base64ToBytes posted = Inr signed \<and>
        ft_transaction F (clientBase env @ ''/transaction'') (txBody posted) = Inr resp \<and> rs_ok resp \<and>
        mapR dt_signature (rs_json resp) = Inr sig))"
  using getAccount_served [OF assms] getAccount_absent [OF assms(5)] getAccount_error [OF assms(5)]
    signAndRelay_posts [of W F env feePayer sign ixs sig] by simp

definition demo_fetch :: Fetch where
  "demo_fetch = \<lparr>ft_config = (\<lambda>u. Inl (Error ''offline'')), ft_markets = (\<lambda>u. Inl (Error ''offline'')),
     ft_market = (\<lambda>u. Inl (Error ''offline'')), ft_candles = (\<lambda>u. Inl (Error ''offline'')),
     ft_account = (\<lambda>u. Inr \<lparr>rs_status = 200, rs_statusText = ''OK'', rs_errorJson = Inr None,
       rs_json = Inr \<lparr>da_data = ''AQI='', da_owner = toBase58 demo_web3 (demo_key 5), da_lamports = dec_str 7\<rparr>\<rparr>),
     ft_blockhash = (\<lambda>u. Inl (Error ''offline'')), ft_transaction = (\<lambda>u b. Inl (Error ''offline'')),
     ft_status = (\<lambda>u k. Inl (Error ''offline''))\<rparr>"

lemma indexer_trip_witness:
  "api_getAccount (indexerClient demo_web3 demo_fetch None) ''k'' =
     Inr (Some \<lparr>ac_data = [1, 2], ac_owner = demo_key 5, ac_lamports = 7\<rparr>)"
proof -
  have "bytesToBase64 [1, 2] = Inr ''AQI=''" by code_simp
  then show ?thesis
    using indexer_trip [of demo_web3 "demo_key 5" "[1, 2]" "''AQI=''" 7 demo_fetch None "''k''"]
    by (simp add: demo_fetch_def rs_ok_def base58_ok_demo)
qed
section \<open>The shell, the screens and the preview\<close>

text \<open>
  C35. The wallet session.  In one page load at most one wallet is asked to reconnect, whatever the
  order of registrations, adoptions, effects and disconnects; the write hooks have a sender exactly
  while an account is adopted; an adopted account survives a reload when a wallet of the remembered
  name still exposes it; and after a disconnect nothing is restored, however often the page loads.
\<close>

theorem wallet_session:
  assumes "wallet_run ws st c asked"
  shows "length asked \<le> 1 \<and>
    (walletValue W L c = Inr v \<longrightarrow> (walletSender indexer v \<noteq> None \<longleftrightarrow> wp_account c \<noteq> None)) \<and>
    (\<not> ls_denied (wp_storage c) \<and> walletOwner (wp_wallets c) (sa_address acct) = Some w \<and>
       find_first (\<lambda>x. uw_name x = uw_name w) ws' = Some u \<and>
       a \<in> set (uw_accounts u) \<and> sa_address a = sa_address acct \<longrightarrow>
       (\<exists>a'. wp_account (fst (restoreEffect (initialWalletCell ws' (wp_storage (adopt acct c))))) = Some a' \<and>
          sa_address a' = sa_address acct)) \<and>
    restoreEffect (initialWalletCell ws' (wp_storage (fst (disconnect c)))) =
      (initialWalletCell ws' (wp_storage (fst (disconnect c))), None)"
proof (intro conjI impI)
  assume "\<not> ls_denied (wp_storage c) \<and> walletOwner (wp_wallets c) (sa_address acct) = Some w \<and>
       find_first (\<lambda>x. uw_name x = uw_name w) ws' = Some u \<and>
       a \<in> set (uw_accounts u) \<and> sa_address a = sa_address acct"
  then have "\<exists>a'. restoreEffect (initialWalletCell ws' (wp_storage (adopt acct c))) =
      ((initialWalletCell ws' (wp_storage (adopt acct c)))\<lparr>wp_account := Some a'\<rparr>, None) \<and>
    sa_address a' = sa_address acct \<and> a' \<in> set (uw_accounts u)" by (intro adopt_restores [where w = w and a = a]) auto
  then show "\<exists>a'. wp_account (fst (restoreEffect (initialWalletCell ws' (wp_storage (adopt acct c))))) = Some a' \<and>
          sa_address a' = sa_address acct" by auto
qed (use wallet_run_silent [OF assms] walletValue_gate disconnect_stays(2) in auto)

definition demo_wallet_entry :: UiWallet where
  "demo_wallet_entry = \<lparr>uw_name = ''Phantom'', uw_accounts = [\<lparr>sa_address = ''abc'', sa_chains = []\<rparr>],
     uw_features = [''standard:connect'']\<rparr>"

lemma wallet_session_witness:
  "\<exists>a'. wp_account (fst (restoreEffect (initialWalletCell [demo_wallet_entry]
     (wp_storage (adopt \<lparr>sa_address = ''abc'', sa_chains = []\<rparr>
        (initialWalletCell [demo_wallet_entry] \<lparr>ls_denied = False, ls_item = None\<rparr>)))))) = Some a'"
proof -
  let ?st = "\<lparr>ls_denied = False, ls_item = None\<rparr>" and ?a = "\<lparr>sa_address = ''abc'', sa_chains = []\<rparr>"
  have "wallet_run [demo_wallet_entry] ?st (initialWalletCell [demo_wallet_entry] ?st) []" by (rule wallet_run.Load)
  note s = wallet_session [OF this, where acct = ?a and a = ?a and w = demo_wallet_entry and u = demo_wallet_entry
      and ws' = "[demo_wallet_entry]", THEN conjunct2, THEN conjunct2, THEN conjunct1]
  then show ?thesis by (auto simp: walletOwner_def initialWalletCell_def demo_wallet_entry_def)
qed

text \<open>
  C36. A production build cannot be switched into a test mode: whatever the address of the page and
  its local storage say, it runs the standard wallet and the real indexer client, reads no secret
  from the build, and without a direct endpoint every cluster it can show is reached through the
  gateway of the page's own origin.
\<close>

theorem app_shell:
  assumes "\<not> ev_DEV E" and "ev_var E ''VITE_MOCK'' \<noteq> Some ''1''" and "ev_var E ''VITE_E2E'' \<noteq> Some ''1''"
  shows "walletShell E = StandardShell \<and> IndexerProvider W F E api now = indexerClient W F api \<and>
    \<not> isE2eMode E \<and> \<not> marketE2eMode E \<and> e2eSecret E parseNumbers = Inr (marketE2eSecret E) \<and>
    (isGatewayMode E \<and> ev_window E = Some w \<longrightarrow>
       readStoredCluster E stored = gatewayCluster E \<and> endpointFor E cluster = wi_origin w @ ''/indexer/rpc'')"
proof -
  have p: "production E" using assms by (simp add: production_def)
  show ?thesis
    using production_shell [OF p] production_secret [OF assms(1)] gateway_ignores_storage gateway_endpoint e2e_modes_agree
    by auto
qed

definition demo_env :: Env where
  "demo_env = \<lparr>ev_var = (\<lambda>n. None), ev_DEV = False, ev_window = Some
     \<lparr>wi_origin = ''https://k.app'', wi_search = (\<lambda>n. Some ''1''), wi_secret = None\<rparr>\<rparr>"

lemma app_shell_witness:
  "walletShell demo_env = StandardShell \<and> endpointFor demo_env Devnet = ''https://k.app/indexer/rpc''"
proof -
  have "isGatewayMode demo_env" by (simp add: isGatewayMode_def RPC_OVERRIDE_def setting_def demo_env_def)
  then show ?thesis
    using app_shell [of demo_env demo_web3 demo_fetch None 0 "\<lambda>s. Inr []" _ None Devnet]
    by (simp add: demo_env_def)
qed



text \<open>
  C38. What a form offers is what it does.  An enabled trade button with a readable amount starts the
  trade of that amount, and the minimum that the details show for a buy is the paid amount plus the
  floor in the swap that is signed, as long as the pool has not moved since the page read it; an enabled
  deposit has the risks accepted and starts the deposit; an enabled claim has its fee collected; and the
  grid of the browse page shows every market of the visible groups exactly once, in their order.
\<close>

theorem forms_shown:
  assumes "TradePanel env question beliefs b bal t isConnected status = Inr v" and "\<not> bt_disabled (tv_button v)"
    and "parsedValue (tk_amount t) = Some a"
  shows "ticketSubmit W T indexer user b t = (t\<lparr>tk_amountError := None\<rparr>, Some (ticketBuild W T indexer user b t a)) \<and>
    (tk_mode t = BuyMode \<and> tv_details v = Some (fv, Some s) \<and> ticketBuild W T indexer user b t a = Inr ixs \<and>
       (\<forall>refs. marketRefs W (AddrStr (be_pubkey b)) (Belief.be_market b) = Inr refs \<longrightarrow>
          decodeReservesFromChain W indexer (AddrObj (mr_amm refs)) \<in> {None, be_reserves b}) \<longrightarrow>
       (\<exists>split sw outMin. drop 3 ixs = [split, sw] \<and>
          ixData sw = swap_data (if be_outcome b = ''yes'' then Buy else Sell) a outMin \<and>
          s = formatSol (a + outMin) @ '' '' @ upperOutcome (be_outcome b) @ '' shares'')) \<and>
    (\<not> bt_disabled (dp_button (AddLiquidityControl env embedded balance loading reserves f isConnected status)) \<and>
       parsedValue (df_amount f) = Some amt \<longrightarrow>
       df_accepted f \<and> (\<exists>built. snd (depositSubmit W T pk m reserves user f) = Some built)) \<and>
    (claimButton (ClaimLpControl W embedded wallet m cs) status = Some bv \<and> \<not> bt_disabled bv \<longrightarrow> mk_feeCollected m) \<and>
    (MarketsPage W cell configLoading config seen query flt srt = MarketsList p \<and> lp_content p = CardGrid grid \<longrightarrow>
       (\<exists>ms. ay_data cell = Some ms \<and> concat (map (slotMarkets \<circ> fst) grid) =
          concat (map gr_markets (visibleGroups (groupByOracle W ms) query flt srt))))"
proof (intro conjI impI)
  show sub: "ticketSubmit W T indexer user b t =
      (t\<lparr>tk_amountError := None\<rparr>, Some (ticketBuild W T indexer user b t a))"
    by (rule TradePanel_enabled(1) [OF assms])
  assume h: "tk_mode t = BuyMode \<and> tv_details v = Some (fv, Some s) \<and> ticketBuild W T indexer user b t a = Inr ixs \<and>
       (\<forall>refs. marketRefs W (AddrStr (be_pubkey b)) (Belief.be_market b) = Inr refs \<longrightarrow>
          decodeReservesFromChain W indexer (AddrObj (mr_amm refs)) \<in> {None, be_reserves b})"
  then have "snd (ticketSubmit W T indexer user b t) = Some (Inr ixs)" using sub by simp
  moreover have "parseSolAmount (tk_amount t) = Inr a" using assms(3) by (simp add: parsedValue_def split: sum.splits)
  ultimately show "\<exists>split sw outMin. drop 3 ixs = [split, sw] \<and>
          ixData sw = swap_data (if be_outcome b = ''yes'' then Buy else Sell) a outMin \<and>
          s = formatSol (a + outMin) @ '' '' @ upperOutcome (be_outcome b) @ '' shares''"
    using shown_minimum [OF assms(1), of fv s W T indexer user ixs] h by auto
next
  assume "\<not> bt_disabled (dp_button (AddLiquidityControl env embedded balance loading reserves f isConnected status)) \<and>
    parsedValue (df_amount f) = Some amt"
  then show "df_accepted f" "\<exists>built. snd (depositSubmit W T pk m reserves user f) = Some built"
    using AddLiquidity_enabled by blast+
next
  assume "claimButton (ClaimLpControl W embedded wallet m cs) status = Some bv \<and> \<not> bt_disabled bv"
  then show "mk_feeCollected m" using claimButton_enabled by blast
next
  assume "MarketsPage W cell configLoading config seen query flt srt = MarketsList p \<and> lp_content p = CardGrid grid"
  then show "\<exists>ms. ay_data cell = Some ms \<and> concat (map (slotMarkets \<circ> fst) grid) =
          concat (map gr_markets (visibleGroups (groupByOracle W ms) query flt srt))"
    using MarketsPage_list [of W cell configLoading config seen query flt srt p] by blast
qed

definition demo_belief :: Belief where
  "demo_belief = \<lparr>be_key = ''k'', be_pubkey = ''m'', Belief.be_market = demo_market 1, be_reserves = None,
     be_outcome = ''yes'', be_label = ''Yes''\<rparr>"

definition demo_ticket :: Ticket where
  "demo_ticket = \<lparr>tk_selectedKey = ''k'', tk_mode = BuyMode, tk_amount = ''5'', tk_amountError = None,
     tk_slippageRaw = [], tk_detailsOpen = True\<rparr>"

lemma forms_shown_witness:
  "\<exists>t'. ticketSubmit demo_web3 demo_txlib demo_indexer ''u'' demo_belief demo_ticket =
     (t', Some (ticketBuild demo_web3 demo_txlib demo_indexer ''u'' demo_belief demo_ticket 5000000000))"
proof -
  let ?bal = "\<lparr>bl_base = None, bl_yes = None, bl_no = None\<rparr>"
  have p: "parsedValue ''5'' = Some 5000000000" by code_simp
  have d: "\<not> ticketDisabled ?bal demo_belief demo_ticket"
    by (simp add: ticketDisabled_def ticketBalanceError_def gateBalance_def demo_ticket_def balanceGateError_def
        parseSlippagePercent_def trim_def truthy_def)
  have "\<exists>v. TradePanel None None [demo_belief] demo_belief ?bal demo_ticket True WIdle = Inr v"
    by (simp add: TradePanel_def buyFigures_def buyPreviewOf_def sellPreviewOf_def priceImpactOf_def previewBuy_def
        buyPriceImpact_def demo_belief_def demo_ticket_def p Let_def)
  then obtain v where v: "TradePanel None None [demo_belief] demo_belief ?bal demo_ticket True WIdle = Inr v" by blast
  have "\<not> bt_disabled (tv_button v)"
    using TradePanel_Inr [OF v] d by (auto simp: SubmitButton_def submitDisabled_def)
  from forms_shown [OF v this] show ?thesis using p by (auto simp: demo_ticket_def)
qed






text \<open>
  C40. The pointer field of the landing page, in its own double arithmetic: whatever pointer events,
  frames, changes of the media queries and unmounting reach it, in any order, what it publishes is a
  number in -1..1 for the offsets and in 0..100 percent for the position; at most one animation frame
  is asked for; without one every channel rests exactly on its target; after the unmount nothing
  changes it any more; once the pointer is still the loop ends with every channel on its target; and a
  channel that starts at rest never passes a new target by more than a hundred-millionth of its
  range.  The frames are assumed to be a tenth of a millisecond or more apart.
\<close>

theorem pointer_field:
  assumes "timed (mountField fine reduce) es"
  shows "let s = pfRun es (mountField fine reduce) in
    publishedOk (pf_style s) \<and> length (pf_queue s) \<le> 1 \<and>
    (pf_mounted s \<and> pf_queue s = [] \<longrightarrow> settled s) \<and>
    (\<not> pf_mounted s \<longrightarrow> (\<forall>e. pfEvent e s = s)) \<and>
    (pf_mounted s \<longrightarrow> (\<forall>ts. (\<forall>n. timed s (frames ts n)) \<longrightarrow>
       (\<exists>n. pf_queue (pfRun (frames ts n) s) = [] \<and> settled (pfRun (frames ts n) s)))) \<and>
    (\<forall>c L t dts. settled s \<and> (c \<in> {pf_x s, pf_y s} \<and> L = 1 \<or> c \<in> {pf_px s, pf_py s} \<and> L = 100) \<and>
       \<bar>t\<bar> \<le> L \<and> repr t \<and> list_all okDt dts \<longrightarrow>
       (let q = c_p (fold springStep dts (c\<lparr>c_t := t\<rparr>))
        in min (c_p c) t - L / 10 ^ 8 \<le> q \<and> q \<le> max (c_p c) t + L / 10 ^ 8))"
proof -
  define s where "s = pfRun es (mountField fine reduce)"
  have i: "pfInv s" unfolding s_def using mountField_inv assms by (rule pfRun_inv)
  have over: "let q = c_p (fold springStep dts (c\<lparr>c_t := t\<rparr>))
      in min (c_p c) t - L / 10 ^ 8 \<le> q \<and> q \<le> max (c_p c) t + L / 10 ^ 8"
    if h: "settled s" "c \<in> {pf_x s, pf_y s} \<and> L = 1 \<or> c \<in> {pf_px s, pf_py s} \<and> L = 100"
      "\<bar>t\<bar> \<le> L" "repr t" "list_all okDt dts" for c L t dts
  proof -
    have r: "c = atRest (c_p c)" "\<bar>c_p c\<bar> \<le> L" "repr (c_p c)" using settled_channel [OF i h(1,2)] by blast+
    have "1 \<le> L" using h(2) by auto
    from no_overshoot [OF this r(2) h(3) r(3) h(4,5)] show ?thesis
      unfolding r(1) [symmetric] slack_def by (simp only: Let_def)
  qed
  show ?thesis
    unfolding s_def [symmetric] Let_def
    using i over pf_settles [OF i] pf_unmounted [OF i] unfolding Let_def
    by (intro conjI) (auto simp: pfInv_def)
qed

lemma pointer_field_witness:
  "publishedOk (pf_style (pfRun
     (Move 300 90 \<lparr>re_left = 0, re_top = 0, re_width = 400, re_height = 200\<rparr> # map Frame [100, 116, 132])
     (mountField True False)))"
proof -
  let ?e = "Move 300 90 \<lparr>re_left = 0, re_top = 0, re_width = 400, re_height = 200\<rparr>"
  let ?s = "pfEvent ?e (mountField True False)"
  have "pf_last (mountField True False) = 0" by (simp add: mountField_def syncField_def)
  then have "pf_last ?s = 0" using onMove_last [of _ _ _ "mountField True False"] by simp
  then have "timed ?s (map Frame [100, 116, 132])" by (intro timed_spaced [of _ 0]) simp_all
  then have "timed (mountField True False) (?e # map Frame [100, 116, 132])" by simp
  from pointer_field [OF this] show ?thesis by (simp only: Let_def)
qed

end
